(* ===== verification/Prelude.thy ===== *)
theory Prelude
  imports Main "HOL-Library.List_Lexorder" "HOL-Library.Char_ord"
begin

text \<open>
  What every component shares: the result of a Python call that may raise (a sum, the
  exception on the left), computations over a state that may raise (a state is passed
  through also when the call raises, because side effects already made stay made), a small
  Hoare logic for them, and the string tests the durable models use (opaque hexadecimal
  identifiers, identifier-like words, absolute paths).
\<close>

named_theorems hoare "proof rules of the state-and-exception computations"

section \<open>Results of calls that may raise\<close>

definition rbind :: "'e + 'a \<Rightarrow> ('a \<Rightarrow> 'e + 'b) \<Rightarrow> 'e + 'b" where
  "rbind r f = (case r of Inl e \<Rightarrow> Inl e | Inr x \<Rightarrow> f x)"

definition ensure :: "bool \<Rightarrow> 'e \<Rightarrow> 'e + unit" where
  "ensure b e = (if b then Inr () else Inl e)"

lemma rbind_simps [simp]:
  "rbind (Inl e) f = Inl e"
  "rbind (Inr x) f = f x"
  by (simp_all add: rbind_def)

lemma rbind_Inr_iff: "rbind r f = Inr y \<longleftrightarrow> (\<exists>x. r = Inr x \<and> f x = Inr y)"
  by (cases r) simp_all

lemma rbind_InrE:
  assumes "rbind r f = Inr y"
  obtains x where "r = Inr x" and "f x = Inr y"
  using assms by (cases r) simp_all

lemma ensure_Inr_iff [simp]: "ensure b e = Inr u \<longleftrightarrow> b"
  by (simp add: ensure_def)

lemma ensure_Inl_iff [simp]: "ensure b e = Inl e' \<longleftrightarrow> \<not> b \<and> e' = e"
  by (auto simp: ensure_def)

text \<open>Checks made one after the other: the first that fails decides the error.\<close>

fun first_failure :: "(bool \<times> 'e) list \<Rightarrow> 'e option" where
  "first_failure [] = None"
| "first_failure ((bad, e) # cs) = (if bad then Some e else first_failure cs)"

lemma first_failure_None_iff [simp]: "first_failure cs = None \<longleftrightarrow> list_all (\<lambda>(bad, _). \<not> bad) cs"
  by (induction cs rule: first_failure.induct) auto

declare first_failure.simps [simp del]

section \<open>Computations with state and exceptions\<close>

type_synonym ('s, 'e, 'a) act = "'s \<Rightarrow> ('e + 'a) \<times> 's"

definition ret :: "'a \<Rightarrow> ('s, 'e, 'a) act" where
  "ret x s = (Inr x, s)"

definition raise :: "'e \<Rightarrow> ('s, 'e, 'a) act" where
  "raise e s = (Inl e, s)"

definition bnd :: "('s, 'e, 'a) act \<Rightarrow> ('a \<Rightarrow> ('s, 'e, 'b) act) \<Rightarrow> ('s, 'e, 'b) act" where
  "bnd m f s = (case m s of (Inl e, t) \<Rightarrow> (Inl e, t) | (Inr x, t) \<Rightarrow> f x t)"

definition andthen :: "('s, 'e, 'a) act \<Rightarrow> ('s, 'e, 'b) act \<Rightarrow> ('s, 'e, 'b) act" where
  "andthen m n = bnd m (\<lambda>_. n)"

definition catching :: "('s, 'e, 'a) act \<Rightarrow> ('e \<Rightarrow> ('s, 'e, 'a) act) \<Rightarrow> ('s, 'e, 'a) act" where
  "catching m h s = (case m s of (Inl e, t) \<Rightarrow> h e t | (Inr x, t) \<Rightarrow> (Inr x, t))"

definition fetch :: "('s \<Rightarrow> 'a) \<Rightarrow> ('s, 'e, 'a) act" where
  "fetch f s = (Inr (f s), s)"

definition modify :: "('s \<Rightarrow> 's) \<Rightarrow> ('s, 'e, unit) act" where
  "modify f s = (Inr (), f s)"

definition lift_result :: "'e + 'a \<Rightarrow> ('s, 'e, 'a) act" where
  "lift_result r s = (r, s)"

definition when_act :: "bool \<Rightarrow> ('s, 'e, unit) act \<Rightarrow> ('s, 'e, unit) act" where
  "when_act b m = (if b then m else ret ())"

lemmas act_defs =
  ret_def raise_def bnd_def andthen_def catching_def fetch_def modify_def lift_result_def
  when_act_def

text \<open>
  \<open>triple P m Q E\<close>: from a state where \<open>P\<close> holds, \<open>m\<close> returns in a state where \<open>Q\<close> holds of
  the result, or raises in a state where \<open>E\<close> holds of the exception.
\<close>

definition triple ::
  "('s \<Rightarrow> bool) \<Rightarrow> ('s, 'e, 'a) act \<Rightarrow> ('a \<Rightarrow> 's \<Rightarrow> bool) \<Rightarrow> ('e \<Rightarrow> 's \<Rightarrow> bool) \<Rightarrow> bool" where
  "triple P m Q E \<longleftrightarrow>
     (\<forall>s. P s \<longrightarrow> (case m s of (Inl e, t) \<Rightarrow> E e t | (Inr x, t) \<Rightarrow> Q x t))"

lemma tripleI:
  assumes "\<And>s e t. P s \<Longrightarrow> m s = (Inl e, t) \<Longrightarrow> E e t"
    and "\<And>s x t. P s \<Longrightarrow> m s = (Inr x, t) \<Longrightarrow> Q x t"
  shows "triple P m Q E"
  unfolding triple_def using assms by (auto split: prod.split sum.split)

lemma tripleD_Inr: "triple P m Q E \<Longrightarrow> P s \<Longrightarrow> m s = (Inr x, t) \<Longrightarrow> Q x t"
  unfolding triple_def by fastforce

lemma tripleD_Inl: "triple P m Q E \<Longrightarrow> P s \<Longrightarrow> m s = (Inl e, t) \<Longrightarrow> E e t"
  unfolding triple_def by fastforce

lemma triple_ret [hoare]: "triple (Q x) (ret x) Q E"
  by (simp add: triple_def ret_def)

lemma triple_raise [hoare]: "triple (E e) (raise e) Q E"
  by (simp add: triple_def raise_def)

lemma triple_bnd:
  "triple P m R E \<Longrightarrow> (\<And>x. triple (R x) (f x) Q E) \<Longrightarrow> triple P (bnd m f) Q E"
  by (rule tripleI)
    (auto simp: bnd_def split: prod.splits sum.splits dest: tripleD_Inl tripleD_Inr)

lemma triple_andthen:
  "triple P m (\<lambda>_. R) E \<Longrightarrow> triple R n Q E \<Longrightarrow> triple P (andthen m n) Q E"
  unfolding andthen_def by (rule triple_bnd)

lemma triple_catching:
  "triple P m Q R \<Longrightarrow> (\<And>e. triple (R e) (h e) Q E) \<Longrightarrow> triple P (catching m h) Q E"
  by (rule tripleI)
    (auto simp: catching_def split: prod.splits sum.splits dest: tripleD_Inl tripleD_Inr)

lemma triple_fetch [hoare]: "triple (\<lambda>s. Q (f s) s) (fetch f) Q E"
  by (simp add: triple_def fetch_def)

lemma triple_modify [hoare]: "triple (\<lambda>s. Q () (f s)) (modify f) Q E"
  by (simp add: triple_def modify_def)

lemma triple_lift_result [hoare]:
  "triple (\<lambda>s. case r of Inl e \<Rightarrow> E e s | Inr x \<Rightarrow> Q x s) (lift_result r) Q E"
  by (simp add: triple_def lift_result_def split: sum.split)

lemma triple_weaken:
  assumes "triple P m Q E" and "\<And>s. P' s \<Longrightarrow> P s"
    and "\<And>x s. Q x s \<Longrightarrow> Q' x s" and "\<And>e s. E e s \<Longrightarrow> E' e s"
  shows "triple P' m Q' E'"
proof (rule tripleI)
  show "E' e t" if "P' s" "m s = (Inl e, t)" for s e t
    using tripleD_Inl [OF assms(1) assms(2) [OF that(1)] that(2)] by (rule assms(4))
  show "Q' x t" if "P' s" "m s = (Inr x, t)" for s x t
    using tripleD_Inr [OF assms(1) assms(2) [OF that(1)] that(2)] by (rule assms(3))
qed

lemma triple_pre: "triple P m Q E \<Longrightarrow> (\<And>s. P' s \<Longrightarrow> P s) \<Longrightarrow> triple P' m Q E"
  by (erule triple_weaken) auto

lemma triple_if:
  "(b \<Longrightarrow> triple P m Q E) \<Longrightarrow> (\<not> b \<Longrightarrow> triple P n Q E) \<Longrightarrow> triple P (if b then m else n) Q E"
  by simp

lemma triple_impossible: "(\<And>s. \<not> P s) \<Longrightarrow> triple P m Q E"
  by (simp add: triple_def)

lemma triple_conj:
  assumes "triple P m Q E" and "triple P' m Q' E'"
  shows "triple (\<lambda>s. P s \<and> P' s) m (\<lambda>x s. Q x s \<and> Q' x s) (\<lambda>e s. E e s \<and> E' e s)"
  using assms by (intro tripleI conjI) (auto dest: tripleD_Inl tripleD_Inr)

lemma triple_fetch_bnd:
  "(\<And>x. triple (\<lambda>s. P s \<and> x = f s) (g x) Q E) \<Longrightarrow> triple P (bnd (fetch f) g) Q E"
  by (rule triple_bnd [where R = "\<lambda>x s. P s \<and> x = f s"]) (auto simp: triple_def fetch_def)

lemma triple_lift_bnd:
  assumes "\<And>e s. P s \<Longrightarrow> r = Inl e \<Longrightarrow> E e s" and "\<And>x. r = Inr x \<Longrightarrow> triple P (g x) Q E"
  shows "triple P (bnd (lift_result r) g) Q E"
  using assms by (cases r) (auto simp: triple_def bnd_def lift_result_def)

lemma triple_lift_andthen:
  assumes "\<And>e s. P s \<Longrightarrow> r = Inl e \<Longrightarrow> E e s" and "\<And>x. r = Inr x \<Longrightarrow> triple P n Q E"
  shows "triple P (andthen (lift_result r) n) Q E"
  unfolding andthen_def using assms by (rule triple_lift_bnd)

lemma triple_when:
  assumes "b \<Longrightarrow> triple P m (\<lambda>_. Q) E" and "\<And>s. \<not> b \<Longrightarrow> P s \<Longrightarrow> Q s"
  shows "triple P (when_act b m) (\<lambda>_. Q) E"
  using assms by (auto simp: when_act_def triple_def ret_def)

text \<open>What a sequence that returned went through.\<close>

lemma bnd_InrE:
  assumes "bnd m f s = (Inr x, t)"
  obtains y u where "m s = (Inr y, u)" "f y u = (Inr x, t)"
  using assms by (auto simp: bnd_def split: prod.splits sum.splits)

lemma andthen_InrE:
  assumes "andthen m n s = (Inr x, t)"
  obtains y u where "m s = (Inr y, u)" "n u = (Inr x, t)"
  using assms unfolding andthen_def by (rule bnd_InrE)

text \<open>A computation that keeps a property of the state, whether it returns or raises.\<close>

definition keeps :: "('s \<Rightarrow> bool) \<Rightarrow> ('s, 'e, 'a) act \<Rightarrow> bool" where
  "keeps I m \<longleftrightarrow> triple I m (\<lambda>_. I) (\<lambda>_. I)"

named_theorems keeping "rules for the computations that keep a property"

lemma keepsD: "keeps I m \<Longrightarrow> m s = (r, t) \<Longrightarrow> I s \<Longrightarrow> I t"
  by (cases r) (auto simp: keeps_def dest: tripleD_Inl tripleD_Inr)

lemma keepsI: "(\<And>s r t. m s = (r, t) \<Longrightarrow> I s \<Longrightarrow> I t) \<Longrightarrow> keeps I m"
  unfolding keeps_def by (rule tripleI)

lemma keeps_simple [keeping]:
  "keeps I (ret x)" "keeps I (raise e)" "keeps I (fetch f)" "keeps I (lift_result r)"
  by (simp_all add: keeps_def triple_def ret_def raise_def fetch_def lift_result_def split: sum.split)

lemma keeps_bnd [keeping]: "keeps I m \<Longrightarrow> (\<And>x. keeps I (f x)) \<Longrightarrow> keeps I (bnd m f)"
  unfolding keeps_def by (rule triple_bnd)

lemma keeps_andthen [keeping]: "keeps I m \<Longrightarrow> keeps I n \<Longrightarrow> keeps I (andthen m n)"
  unfolding andthen_def by (rule keeps_bnd)

lemma keeps_catching [keeping]: "keeps I m \<Longrightarrow> (\<And>e. keeps I (h e)) \<Longrightarrow> keeps I (catching m h)"
  unfolding keeps_def by (rule triple_catching)

lemma keeps_when [keeping]: "keeps I m \<Longrightarrow> keeps I (when_act b m)"
  by (simp add: when_act_def keeps_simple)

lemma keeps_if [keeping]: "keeps I m \<Longrightarrow> keeps I n \<Longrightarrow> keeps I (if b then m else n)"
  by simp

lemma keeps_option [keeping]:
  "keeps I m \<Longrightarrow> (\<And>x. keeps I (f x)) \<Longrightarrow> keeps I (case y of None \<Rightarrow> m | Some x \<Rightarrow> f x)"
  by (cases y) simp_all

lemma keeps_sum [keeping]:
  "(\<And>x. keeps I (f x)) \<Longrightarrow> (\<And>x. keeps I (g x)) \<Longrightarrow> keeps I (case y of Inl x \<Rightarrow> f x | Inr x \<Rightarrow> g x)"
  by (cases y) simp_all

lemma keeps_modify: "(\<And>s. I s \<Longrightarrow> I (f s)) \<Longrightarrow> keeps I (modify f)"
  by (simp add: keeps_def triple_def modify_def)

section \<open>Strings\<close>

definition is_lower_hex :: "char \<Rightarrow> bool" where
  "is_lower_hex c \<longleftrightarrow> c \<in> set ''0123456789abcdef''"

definition is_lower :: "char \<Rightarrow> bool" where
  "is_lower c \<longleftrightarrow> CHR ''a'' \<le> c \<and> c \<le> CHR ''z''"

definition is_digit :: "char \<Rightarrow> bool" where
  "is_digit c \<longleftrightarrow> CHR ''0'' \<le> c \<and> c \<le> CHR ''9''"

definition is_alnum :: "char \<Rightarrow> bool" where
  "is_alnum c \<longleftrightarrow> is_lower c \<or> is_digit c \<or> (CHR ''A'' \<le> c \<and> c \<le> CHR ''Z'')"

text \<open>A prefix followed by exactly \<open>n\<close> lower-case hexadecimal digits.\<close>

definition hex_tail :: "string \<Rightarrow> nat \<Rightarrow> string \<Rightarrow> bool" where
  "hex_tail p n s \<longleftrightarrow>
     take (length p) s = p \<and> length s = length p + n \<and> list_all is_lower_hex (drop (length p) s)"

text \<open>A first character in one class, then at most \<open>n\<close> in another.\<close>

definition word_like :: "(char \<Rightarrow> bool) \<Rightarrow> (char \<Rightarrow> bool) \<Rightarrow> nat \<Rightarrow> string \<Rightarrow> bool" where
  "word_like p q n s \<longleftrightarrow>
     (case s of [] \<Rightarrow> False | c # cs \<Rightarrow> p c \<and> list_all q cs \<and> length cs \<le> n)"

definition length_between :: "nat \<Rightarrow> nat \<Rightarrow> string \<Rightarrow> bool" where
  "length_between lo hi s \<longleftrightarrow> lo \<le> length s \<and> length s \<le> hi"

definition is_absolute :: "string \<Rightarrow> bool" where
  "is_absolute p \<longleftrightarrow> take 1 p = ''/''"

definition option_all :: "('a \<Rightarrow> bool) \<Rightarrow> 'a option \<Rightarrow> bool" where
  "option_all p x \<longleftrightarrow> (case x of None \<Rightarrow> True | Some y \<Rightarrow> p y)"

lemma option_all_simps [simp]: "option_all p None" "option_all p (Some x) \<longleftrightarrow> p x"
  by (simp_all add: option_all_def)

section \<open>Sort keys\<close>

text \<open>
  Inventories, operations and releases are ordered by a time and then an identifier, the
  Python tuple \<open>(datetime, str)\<close>. The key is a type of its own in the class \<open>linorder\<close>.
\<close>

datatype stamp = Stamp (stamp_time: int) (stamp_id: string)

instantiation stamp :: linorder
begin

definition less_eq_stamp :: "stamp \<Rightarrow> stamp \<Rightarrow> bool" where
  "less_eq_stamp a b \<longleftrightarrow>
     stamp_time a < stamp_time b \<or> stamp_time a = stamp_time b \<and> stamp_id a \<le> stamp_id b"

definition less_stamp :: "stamp \<Rightarrow> stamp \<Rightarrow> bool" where
  "less_stamp a b \<longleftrightarrow>
     stamp_time a < stamp_time b \<or> stamp_time a = stamp_time b \<and> stamp_id a < stamp_id b"

instance
  by standard (auto simp: less_eq_stamp_def less_stamp_def intro: stamp.expand)

end

lemma set_take_sort_key_subset: "set (take n (sort_key f xs)) \<subseteq> set xs"
  using set_take_subset [of n "sort_key f xs"] by simp

end
