(* ===== verification/Errors.thy ===== *)
theory Errors
  imports Prelude
begin

text \<open>
  The expected-error taxonomy of \<^verbatim>\<open>dploydb/errors.py\<close>, the failure payload every such error
  carries (\<^verbatim>\<open>FailurePayload\<close> of \<^verbatim>\<open>dploydb/models.py\<close>), and one datatype for everything a
  Python call of this program may raise: an expected error, the typed exceptions of the
  application runners and health checks, any other exception, and the interrupts that are not
  exceptions (\<^verbatim>\<open>KeyboardInterrupt\<close>, \<^verbatim>\<open>SystemExit\<close>).
\<close>

section \<open>Kinds, exit codes and classes\<close>

datatype error_kind =
    EK_configuration
  | EK_safety_check
  | EK_lock_unavailable
  | EK_external_command
  | EK_operation_failed
  | EK_recovery_required
  | EK_internal_error

fun error_kind_value :: "error_kind \<Rightarrow> string" where
  "error_kind_value EK_configuration = ''configuration_error''"
| "error_kind_value EK_safety_check = ''safety_check_failed''"
| "error_kind_value EK_lock_unavailable = ''deployment_lock_unavailable''"
| "error_kind_value EK_external_command = ''external_command_failed''"
| "error_kind_value EK_operation_failed = ''operation_failed''"
| "error_kind_value EK_recovery_required = ''recovery_required''"
| "error_kind_value EK_internal_error = ''internal_error''"

fun error_exit_code :: "error_kind \<Rightarrow> int" where
  "error_exit_code EK_configuration = 10"
| "error_exit_code EK_safety_check = 20"
| "error_exit_code EK_lock_unavailable = 30"
| "error_exit_code EK_external_command = 40"
| "error_exit_code EK_operation_failed = 50"
| "error_exit_code EK_recovery_required = 60"
| "error_exit_code EK_internal_error = 70"

datatype error_class =
    DployDBError
  | ConfigurationError
  | SafetyCheckError
  | LockUnavailableError
  | ExternalCommandError
  | OperationFailedError
  | RecoveryRequiredError
  | StateCorruptionError
  | InternalError
  | MigrationWorkspaceCleanupError

fun class_kind :: "error_class \<Rightarrow> error_kind" where
  "class_kind DployDBError = EK_operation_failed"
| "class_kind ConfigurationError = EK_configuration"
| "class_kind SafetyCheckError = EK_safety_check"
| "class_kind LockUnavailableError = EK_lock_unavailable"
| "class_kind ExternalCommandError = EK_external_command"
| "class_kind OperationFailedError = EK_operation_failed"
| "class_kind RecoveryRequiredError = EK_recovery_required"
| "class_kind StateCorruptionError = EK_recovery_required"
| "class_kind InternalError = EK_internal_error"
| "class_kind MigrationWorkspaceCleanupError = EK_operation_failed"

fun requires_recovery :: "error_class \<Rightarrow> bool" where
  "requires_recovery RecoveryRequiredError = True"
| "requires_recovery StateCorruptionError = True"
| "requires_recovery _ = False"

section \<open>The payload\<close>

record failure_payload =
  fp_error_code :: string
  fp_exit_code :: int
  fp_what_failed :: string
  fp_production_changed :: bool
  fp_previous_application_running :: "bool option"
  fp_recovery_required :: bool
  fp_log_path :: "string option"
  fp_next_safe_action :: string

text \<open>
  \<^verbatim>\<open>str.strip\<close> leaves nothing exactly when every character is white space (the ASCII ones of
  Python's \<^verbatim>\<open>str.isspace\<close>).
\<close>

definition is_space :: "char \<Rightarrow> bool" where
  "is_space c \<longleftrightarrow>
     c \<in> {CHR '' '', CHR 0x09, CHR 0x0A, CHR 0x0B, CHR 0x0C, CHR 0x0D,
          CHR 0x1C, CHR 0x1D, CHR 0x1E, CHR 0x1F}"

definition blank :: "string \<Rightarrow> bool" where
  "blank s \<longleftrightarrow> list_all is_space s"

definition payload_problem :: "failure_payload \<Rightarrow> string option" where
  "payload_problem p = first_failure
     [(blank (fp_error_code p), ''error_code must not be empty''),
      (fp_exit_code p \<le> 0, ''failure exit_code must be positive''),
      (blank (fp_what_failed p), ''what_failed must not be empty''),
      (blank (fp_next_safe_action p), ''next_safe_action must not be empty'')]"

record dploydb_error =
  de_class :: error_class
  de_payload :: failure_payload

definition mk_error ::
  "error_class \<Rightarrow> string \<Rightarrow> bool \<Rightarrow> bool option \<Rightarrow> string option \<Rightarrow> string \<Rightarrow> dploydb_error" where
  "mk_error c what changed running log advice =
     \<lparr>de_class = c,
      de_payload =
        \<lparr>fp_error_code = error_kind_value (class_kind c),
         fp_exit_code = error_exit_code (class_kind c),
         fp_what_failed = what,
         fp_production_changed = changed,
         fp_previous_application_running = running,
         fp_recovery_required = requires_recovery c,
         fp_log_path = log,
         fp_next_safe_action = advice\<rparr>\<rparr>"

abbreviation err_what :: "dploydb_error \<Rightarrow> string" where
  "err_what e \<equiv> fp_what_failed (de_payload e)"

abbreviation err_changed :: "dploydb_error \<Rightarrow> bool" where
  "err_changed e \<equiv> fp_production_changed (de_payload e)"

abbreviation err_running :: "dploydb_error \<Rightarrow> bool option" where
  "err_running e \<equiv> fp_previous_application_running (de_payload e)"

abbreviation err_recovery :: "dploydb_error \<Rightarrow> bool" where
  "err_recovery e \<equiv> fp_recovery_required (de_payload e)"

lemma mk_error_simps [simp]:
  "de_class (mk_error c w ch r l a) = c"
  "fp_error_code (de_payload (mk_error c w ch r l a)) = error_kind_value (class_kind c)"
  "fp_exit_code (de_payload (mk_error c w ch r l a)) = error_exit_code (class_kind c)"
  "fp_what_failed (de_payload (mk_error c w ch r l a)) = w"
  "fp_production_changed (de_payload (mk_error c w ch r l a)) = ch"
  "fp_previous_application_running (de_payload (mk_error c w ch r l a)) = r"
  "fp_recovery_required (de_payload (mk_error c w ch r l a)) = requires_recovery c"
  "fp_log_path (de_payload (mk_error c w ch r l a)) = l"
  "fp_next_safe_action (de_payload (mk_error c w ch r l a)) = a"
  by (simp_all add: mk_error_def)

text \<open>
  An error the program built itself: its class fixes the code, the exit status and the
  recovery flag of its payload.
\<close>

definition wf_error :: "dploydb_error \<Rightarrow> bool" where
  "wf_error e \<longleftrightarrow>
     fp_error_code (de_payload e) = error_kind_value (class_kind (de_class e)) \<and>
     fp_exit_code (de_payload e) = error_exit_code (class_kind (de_class e)) \<and>
     fp_recovery_required (de_payload e) = requires_recovery (de_class e)"

lemma wf_mk_error [simp]: "wf_error (mk_error c w ch r l a)"
  by (simp add: wf_error_def)

definition redact_error :: "(string \<Rightarrow> string) \<Rightarrow> dploydb_error \<Rightarrow> dploydb_error" where
  "redact_error red e =
     mk_error (de_class e) (red (err_what e)) (err_changed e) (err_running e)
       (map_option red (fp_log_path (de_payload e)))
       (red (fp_next_safe_action (de_payload e)))"

section \<open>Everything a call may raise\<close>

text \<open>
  \<open>PyException\<close> is any other subclass of \<^verbatim>\<open>Exception\<close>, with its class name and its text;
  \<open>PyInterrupt\<close> a \<^verbatim>\<open>BaseException\<close> that is no \<^verbatim>\<open>Exception\<close>. The runner exceptions carry what
  the coordinator reads of them: their text, whether cleanup was proven, and whether the
  command that failed ended with an unproven process cleanup.
\<close>

datatype exn =
    Dploy dploydb_error
  | ProductionStartError string "bool option"
  | ProductionCleanupError string
  | ProductionInspectionError string
  | ProductionRunnerError string bool
  | ReadinessCheckError string
  | SmokeCheckError string bool
  | PyException string string
  | PyInterrupt string

type_synonym 'a result = "exn + 'a"

definition is_exception :: "exn \<Rightarrow> bool" where
  "is_exception x \<longleftrightarrow> (case x of PyInterrupt _ \<Rightarrow> False | _ \<Rightarrow> True)"

definition value_error :: "string \<Rightarrow> exn" where
  "value_error msg = PyException ''ValueError'' msg"

definition validation_error :: exn where
  "validation_error = PyException ''ValidationError'' ''''"

text \<open>\<^verbatim>\<open>f"{type(error).__name__}: {error}"\<close> of the handlers that wrap an unexpected exception.\<close>

definition class_name :: "error_class \<Rightarrow> string" where
  "class_name c = (case c of
      DployDBError \<Rightarrow> ''DployDBError''
    | ConfigurationError \<Rightarrow> ''ConfigurationError''
    | SafetyCheckError \<Rightarrow> ''SafetyCheckError''
    | LockUnavailableError \<Rightarrow> ''LockUnavailableError''
    | ExternalCommandError \<Rightarrow> ''ExternalCommandError''
    | OperationFailedError \<Rightarrow> ''OperationFailedError''
    | RecoveryRequiredError \<Rightarrow> ''RecoveryRequiredError''
    | StateCorruptionError \<Rightarrow> ''StateCorruptionError''
    | InternalError \<Rightarrow> ''InternalError''
    | MigrationWorkspaceCleanupError \<Rightarrow> ''MigrationWorkspaceCleanupError'')"

definition describe_exn :: "exn \<Rightarrow> string" where
  "describe_exn x = (case x of
      Dploy e \<Rightarrow> class_name (de_class e) @ '': '' @ err_what e
    | ProductionStartError s _ \<Rightarrow> ''ProductionStartError: '' @ s
    | ProductionCleanupError s \<Rightarrow> ''ProductionCleanupError: '' @ s
    | ProductionInspectionError s \<Rightarrow> ''ProductionInspectionError: '' @ s
    | ProductionRunnerError s _ \<Rightarrow> ''ProductionRunnerError: '' @ s
    | ReadinessCheckError s \<Rightarrow> ''ReadinessCheckError: '' @ s
    | SmokeCheckError s _ \<Rightarrow> ''SmokeCheckError: '' @ s
    | PyException n s \<Rightarrow> n @ '': '' @ s
    | PyInterrupt n \<Rightarrow> n @ '': '')"

text \<open>\<^verbatim>\<open>str(error)\<close>\<close>

definition exn_text :: "exn \<Rightarrow> string" where
  "exn_text x = (case x of
      Dploy e \<Rightarrow> err_what e
    | ProductionStartError s _ \<Rightarrow> s
    | ProductionCleanupError s \<Rightarrow> s
    | ProductionInspectionError s \<Rightarrow> s
    | ProductionRunnerError s _ \<Rightarrow> s
    | ReadinessCheckError s \<Rightarrow> s
    | SmokeCheckError s _ \<Rightarrow> s
    | PyException _ s \<Rightarrow> s
    | PyInterrupt _ \<Rightarrow> '''')"

text \<open>\<^verbatim>\<open>except DployDBError as error\<close> and \<^verbatim>\<open>except Exception as error\<close>.\<close>

definition on_dploy :: "('s, exn, 'a) act \<Rightarrow> (dploydb_error \<Rightarrow> ('s, exn, 'a) act) \<Rightarrow> ('s, exn, 'a) act" where
  "on_dploy m h = catching m (\<lambda>x. case x of Dploy e \<Rightarrow> h e | _ \<Rightarrow> raise x)"

definition on_exception :: "('s, exn, 'a) act \<Rightarrow> (exn \<Rightarrow> ('s, exn, 'a) act) \<Rightarrow> ('s, exn, 'a) act" where
  "on_exception m h = catching m (\<lambda>x. if is_exception x then h x else raise x)"

lemma keeps_on_dploy [keeping]: "keeps I m \<Longrightarrow> (\<And>e. keeps I (h e)) \<Longrightarrow> keeps I (on_dploy m h)"
  unfolding on_dploy_def by (rule keeps_catching) (auto split: exn.split intro: keeps_simple)

lemma keeps_on_exception [keeping]:
  "keeps I m \<Longrightarrow> (\<And>e. keeps I (h e)) \<Longrightarrow> keeps I (on_exception m h)"
  unfolding on_exception_def by (intro keeps_catching keeps_if keeps_simple)

section \<open>Facts about the taxonomy\<close>

lemma exit_code_positive [simp]: "0 < error_exit_code k"
  by (cases k) simp_all

lemma error_kind_value_inject: "error_kind_value j = error_kind_value k \<longleftrightarrow> j = k"
  by (cases j; cases k) simp_all

lemma exit_code_inject: "error_exit_code j = error_exit_code k \<longleftrightarrow> j = k"
  by (cases j; cases k) simp_all

lemma kind_value_not_blank [simp]: "\<not> blank (error_kind_value k)"
  by (cases k) (simp_all add: blank_def is_space_def)

lemma requires_recovery_kind: "requires_recovery c \<longleftrightarrow> class_kind c = EK_recovery_required"
  by (cases c) simp_all

lemma payload_problem_mk_error:
  "payload_problem (de_payload (mk_error c w ch r l a)) = None \<longleftrightarrow> \<not> blank w \<and> \<not> blank a"
  by (simp add: payload_problem_def not_le)

end
