(* ===== verification/Models.thy ===== *)
theory Models
  imports Errors Complex_Main
begin

text \<open>
  The durable records of \<^verbatim>\<open>dploydb/models.py\<close> and their validators. A record is what a JSON
  document holds after parsing; a validator is the list of checks the pydantic model makes, in
  the code's order, so that a document is accepted when no check fails. Instants are
  microseconds since the epoch in UTC (the validators normalise every timestamp to UTC);
  paths and identifiers are ASCII strings.
\<close>

section \<open>JSON values and timestamps\<close>

datatype json =
    JNull
  | JBool bool
  | JInt int
  | JFloat rat
  | JStr string
  | JList "json list"
  | JObj "(string \<times> json) list"

text \<open>\<^verbatim>\<open>mapping.get(key)\<close>; keys of a JSON object are distinct.\<close>

definition json_get :: "(string \<times> json) list \<Rightarrow> string \<Rightarrow> json option" where
  "json_get kvs k = map_of kvs k"

datatype py_datetime = Naive int | Aware int

definition normalize_timestamp :: "py_datetime \<Rightarrow> int result" where
  "normalize_timestamp d = (case d of
      Naive _ \<Rightarrow> Inl (value_error ''timestamp must be timezone-aware'')
    | Aware t \<Rightarrow> Inr t)"

text \<open>A timestamp is written with milliseconds: what is read back is the instant cut down to them.\<close>

definition serialize_utc_timestamp :: "int \<Rightarrow> int" where
  "serialize_utc_timestamp t = t - t mod 1000"

lemma serialize_mono: "s \<le> t \<Longrightarrow> serialize_utc_timestamp s \<le> serialize_utc_timestamp t"
proof -
  assume "s \<le> t"
  then have "s div 1000 \<le> t div 1000" by (rule zdiv_mono1) simp
  then show ?thesis by (simp add: serialize_utc_timestamp_def minus_mod_eq_mult_div)
qed

lemma serialize_idem [simp]:
  "serialize_utc_timestamp (serialize_utc_timestamp t) = serialize_utc_timestamp t"
  by (simp add: serialize_utc_timestamp_def minus_mod_eq_mult_div)

lemma serialize_le: "serialize_utc_timestamp t \<le> t"
  by (simp add: serialize_utc_timestamp_def)

section \<open>Enumerations\<close>

datatype deployment_state =
    DS_created
  | DS_preflight_passed
  | DS_snapshot_verified
  | DS_rehearsal_passed
  | DS_candidate_healthy
  | DS_maintenance_enabled
  | DS_current_app_stopped
  | DS_final_snapshot_verified
  | DS_production_migrated
  | DS_new_app_healthy
  | DS_traffic_activated
  | DS_active
  | DS_rollback_started
  | DS_rolled_back
  | DS_failed_safe
  | DS_recovery_required
  | DS_manual_restore_started
  | DS_manual_restore_completed

fun deployment_state_value :: "deployment_state \<Rightarrow> string" where
  "deployment_state_value DS_created = ''created''"
| "deployment_state_value DS_preflight_passed = ''preflight_passed''"
| "deployment_state_value DS_snapshot_verified = ''snapshot_verified''"
| "deployment_state_value DS_rehearsal_passed = ''rehearsal_passed''"
| "deployment_state_value DS_candidate_healthy = ''candidate_healthy''"
| "deployment_state_value DS_maintenance_enabled = ''maintenance_enabled''"
| "deployment_state_value DS_current_app_stopped = ''current_app_stopped''"
| "deployment_state_value DS_final_snapshot_verified = ''final_snapshot_verified''"
| "deployment_state_value DS_production_migrated = ''production_migrated''"
| "deployment_state_value DS_new_app_healthy = ''new_app_healthy''"
| "deployment_state_value DS_traffic_activated = ''traffic_activated''"
| "deployment_state_value DS_active = ''active''"
| "deployment_state_value DS_rollback_started = ''rollback_started''"
| "deployment_state_value DS_rolled_back = ''rolled_back''"
| "deployment_state_value DS_failed_safe = ''failed_safe''"
| "deployment_state_value DS_recovery_required = ''recovery_required''"
| "deployment_state_value DS_manual_restore_started = ''manual_restore_started''"
| "deployment_state_value DS_manual_restore_completed = ''manual_restore_completed''"

datatype operation_status = OS_in_progress | OS_succeeded | OS_failed_safe | OS_recovery_required

fun operation_status_value :: "operation_status \<Rightarrow> string" where
  "operation_status_value OS_in_progress = ''in_progress''"
| "operation_status_value OS_succeeded = ''succeeded''"
| "operation_status_value OS_failed_safe = ''failed_safe''"
| "operation_status_value OS_recovery_required = ''recovery_required''"

datatype backup_purpose = BP_standalone | BP_pre_restore | BP_rehearsal | BP_final

datatype lock_owner_state = LO_active | LO_released

section \<open>Identifiers\<close>

definition is_operation_id :: "string \<Rightarrow> bool" where
  "is_operation_id s \<longleftrightarrow> hex_tail ''op_'' 32 s"

definition is_release_id :: "string \<Rightarrow> bool" where
  "is_release_id s \<longleftrightarrow> hex_tail ''release_'' 32 s"

definition is_backup_id :: "string \<Rightarrow> bool" where
  "is_backup_id s \<longleftrightarrow> hex_tail ''backup_'' 32 s"

definition is_lock_id :: "string \<Rightarrow> bool" where
  "is_lock_id s \<longleftrightarrow> hex_tail ''lock_'' 32 s"

definition is_sha256 :: "string \<Rightarrow> bool" where
  "is_sha256 s \<longleftrightarrow> hex_tail '''' 64 s"

definition is_operation_type :: "string \<Rightarrow> bool" where
  "is_operation_type s \<longleftrightarrow>
     word_like is_lower (\<lambda>c. is_lower c \<or> is_digit c \<or> c = CHR ''_'') 63 s"

definition is_stage :: "string \<Rightarrow> bool" where
  "is_stage s \<longleftrightarrow>
     word_like is_lower (\<lambda>c. is_lower c \<or> is_digit c \<or> c \<in> set ''_.-'') 127 s"

definition is_word_of :: "string \<Rightarrow> nat \<Rightarrow> string \<Rightarrow> bool" where
  "is_word_of extra n s \<longleftrightarrow> word_like is_alnum (\<lambda>c. is_alnum c \<or> c \<in> set extra) n s"

definition is_version :: "string \<Rightarrow> bool" where
  "is_version s \<longleftrightarrow> is_word_of ''._-'' 63 s"

section \<open>Failures, processes and safety facts\<close>

record process_identity =
  pi_pid :: int
  pi_hostname :: string

definition process_identity_ok :: "process_identity \<Rightarrow> bool" where
  "process_identity_ok p \<longleftrightarrow> 0 < pi_pid p \<and> length_between 1 255 (pi_hostname p)"

record safety_facts =
  sf_production_changed :: bool
  sf_previous_application_running :: "bool option"
  sf_recovery_required :: bool

definition default_safety :: safety_facts where
  "default_safety =
     \<lparr>sf_production_changed = False, sf_previous_application_running = None,
      sf_recovery_required = False\<rparr>"

record failure_record =
  fr_error_code :: string
  fr_what_failed :: string
  fr_log_path :: "string option"
  fr_next_safe_action :: string

definition failure_record_ok :: "failure_record \<Rightarrow> bool" where
  "failure_record_ok f \<longleftrightarrow>
     length_between 1 128 (fr_error_code f) \<and> length_between 1 4096 (fr_what_failed f) \<and>
     option_all (\<lambda>p. length p \<le> 4096) (fr_log_path f) \<and>
     length_between 1 4096 (fr_next_safe_action f)"

text \<open>
  \<^verbatim>\<open>_failure_record\<close> of the coordinators: the payload becomes a durable record, and building
  it raises a validation error when a text is too long for one.
\<close>

definition failure_record_of :: "dploydb_error \<Rightarrow> failure_record result" where
  "failure_record_of e =
     (let f = \<lparr>fr_error_code = fp_error_code (de_payload e), fr_what_failed = err_what e,
               fr_log_path = fp_log_path (de_payload e),
               fr_next_safe_action = fp_next_safe_action (de_payload e)\<rparr>
      in if failure_record_ok f then Inr f else Inl validation_error)"

section \<open>Lock owner metadata\<close>

record lock_owner_metadata =
  lo_owner_id :: string
  lo_operation_id :: string
  lo_operation_type :: string
  lo_process :: process_identity
  lo_state :: lock_owner_state
  lo_acquired_at :: int
  lo_released_at :: "int option"

definition lock_owner_checks :: "lock_owner_metadata \<Rightarrow> (bool \<times> string) list" where
  "lock_owner_checks m =
     [(\<not> (is_lock_id (lo_owner_id m) \<and> is_operation_id (lo_operation_id m) \<and>
          is_operation_type (lo_operation_type m) \<and> process_identity_ok (lo_process m)),
        ''a field violates its declared constraint''),
      (lo_state m = LO_active \<and> lo_released_at m \<noteq> None,
        ''active lock owner must not have released_at''),
      (lo_state m \<noteq> LO_active \<and> lo_released_at m = None,
        ''released lock owner requires released_at''),
      ((case lo_released_at m of None \<Rightarrow> False | Some r \<Rightarrow> r < lo_acquired_at m),
        ''released_at must not precede acquired_at'')]"

definition valid_lock_owner :: "lock_owner_metadata \<Rightarrow> bool" where
  "valid_lock_owner m \<longleftrightarrow> first_failure (lock_owner_checks m) = None"

definition stored_lock_owner :: "lock_owner_metadata \<Rightarrow> lock_owner_metadata" where
  "stored_lock_owner m = m\<lparr>
     lo_acquired_at := serialize_utc_timestamp (lo_acquired_at m),
     lo_released_at := map_option serialize_utc_timestamp (lo_released_at m)\<rparr>"

section \<open>Operation manifests and events\<close>

record operation_manifest =
  om_operation_id :: string
  om_operation_type :: string
  om_project :: string
  om_status :: operation_status
  om_stage :: string
  om_configuration_fingerprint :: string
  om_process :: process_identity
  om_safety :: safety_facts
  om_started_at :: int
  om_updated_at :: int
  om_completed_at :: "int option"
  om_failure :: "failure_record option"
  om_last_event_sequence :: int

definition operation_fields_ok :: "operation_manifest \<Rightarrow> bool" where
  "operation_fields_ok m \<longleftrightarrow>
     is_operation_id (om_operation_id m) \<and> is_operation_type (om_operation_type m) \<and>
     length_between 1 64 (om_project m) \<and> is_stage (om_stage m) \<and>
     is_sha256 (om_configuration_fingerprint m) \<and> process_identity_ok (om_process m) \<and>
     option_all failure_record_ok (om_failure m) \<and> 1 \<le> om_last_event_sequence m"

definition operation_checks :: "operation_manifest \<Rightarrow> (bool \<times> string) list" where
  "operation_checks m =
    (let terminal = (om_status m \<noteq> OS_in_progress);
         failed = (om_status m = OS_failed_safe \<or> om_status m = OS_recovery_required);
         recovery_required = (om_status m = OS_recovery_required)
     in
     [(om_updated_at m < om_started_at m, ''updated_at must not precede started_at''),
      (terminal \<and> om_completed_at m = None, ''terminal operation requires completed_at''),
      (terminal \<and> om_completed_at m \<noteq> Some (om_updated_at m),
        ''completed_at must equal updated_at for a terminal operation''),
      (\<not> terminal \<and> om_completed_at m \<noteq> None,
        ''in-progress operation must not have completed_at''),
      (failed \<noteq> (om_failure m \<noteq> None),
        ''failure details must be present exactly for failed operations''),
      (sf_recovery_required (om_safety m) \<noteq> recovery_required,
        ''recovery_required safety fact must match operation status'')])"

definition valid_operation :: "operation_manifest \<Rightarrow> bool" where
  "valid_operation m \<longleftrightarrow> operation_fields_ok m \<and> first_failure (operation_checks m) = None"

definition stored_operation :: "operation_manifest \<Rightarrow> operation_manifest" where
  "stored_operation m = m\<lparr>
     om_started_at := serialize_utc_timestamp (om_started_at m),
     om_updated_at := serialize_utc_timestamp (om_updated_at m),
     om_completed_at := map_option serialize_utc_timestamp (om_completed_at m)\<rparr>"

record operation_event =
  ev_sequence :: int
  ev_timestamp :: int
  ev_operation_id :: string
  ev_status :: operation_status
  ev_stage :: string
  ev_message :: string
  ev_evidence :: "(string \<times> json) list"

definition valid_event :: "operation_event \<Rightarrow> bool" where
  "valid_event e \<longleftrightarrow>
     1 \<le> ev_sequence e \<and> is_operation_id (ev_operation_id e) \<and> is_stage (ev_stage e) \<and>
     length_between 1 4096 (ev_message e)"

definition stored_event :: "operation_event \<Rightarrow> operation_event" where
  "stored_event e = e\<lparr>ev_timestamp := serialize_utc_timestamp (ev_timestamp e)\<rparr>"

lemma valid_lock_owner_iff:
  "valid_lock_owner m \<longleftrightarrow>
     is_lock_id (lo_owner_id m) \<and> is_operation_id (lo_operation_id m) \<and>
     is_operation_type (lo_operation_type m) \<and> process_identity_ok (lo_process m) \<and>
     (case lo_released_at m of
        None \<Rightarrow> lo_state m = LO_active
      | Some r \<Rightarrow> lo_state m \<noteq> LO_active \<and> lo_acquired_at m \<le> r)"
  by (auto simp: valid_lock_owner_def lock_owner_checks_def
      split: option.splits)

lemma valid_operation_iff:
  "valid_operation m \<longleftrightarrow>
     operation_fields_ok m \<and> om_started_at m \<le> om_updated_at m \<and>
     om_completed_at m = (if om_status m = OS_in_progress then None else Some (om_updated_at m)) \<and>
     (om_failure m \<noteq> None \<longleftrightarrow> om_status m \<in> {OS_failed_safe, OS_recovery_required}) \<and>
     (sf_recovery_required (om_safety m) \<longleftrightarrow> om_status m = OS_recovery_required)"
  by (auto simp: valid_operation_def operation_checks_def Let_def)

end
