(* ===== verification/Release_Model.thy ===== *)
theory Release_Model
  imports Models
begin

text \<open>
  The second half of \<^verbatim>\<open>dploydb/models.py\<close>: backups, the exact application identity kept
  across a cutover, hook and health evidence, the release manifest with its lifecycle
  validator, and the active/previous pointers. \<open>valid_release_iff\<close> is the validator as a
  conjunction; the lemmas after it are what the rest of the development uses of it.
\<close>

section \<open>Backups\<close>

record sqlite_verification =
  sv_quick_check_passed :: bool
  sv_foreign_key_check_passed :: bool
  sv_integrity_check_passed :: "bool option"
  sv_checked_at :: int
  sv_duration :: rat

definition valid_sqlite_verification :: "sqlite_verification \<Rightarrow> bool" where
  "valid_sqlite_verification v \<longleftrightarrow>
     sv_quick_check_passed v \<and> sv_foreign_key_check_passed v \<and>
     sv_integrity_check_passed v \<in> {None, Some True} \<and> 0 \<le> sv_duration v"

definition stored_sqlite_verification :: "sqlite_verification \<Rightarrow> sqlite_verification" where
  "stored_sqlite_verification v = v\<lparr>sv_checked_at := serialize_utc_timestamp (sv_checked_at v)\<rparr>"

record backup_metadata =
  bm_backup_id :: string
  bm_project :: string
  bm_purpose :: backup_purpose
  bm_source_database_path :: string
  bm_database_file_name :: string
  bm_size_bytes :: int
  bm_sha256 :: string
  bm_sqlite :: sqlite_verification
  bm_operation_id :: "string option"
  bm_created_at :: int
  bm_completed_at :: int

definition backup_metadata_checks :: "backup_metadata \<Rightarrow> (bool \<times> string) list" where
  "backup_metadata_checks m =
     [(\<not> (is_backup_id (bm_backup_id m) \<and> length_between 1 64 (bm_project m) \<and>
          0 < bm_size_bytes m \<and> is_sha256 (bm_sha256 m) \<and>
          valid_sqlite_verification (bm_sqlite m) \<and>
          option_all is_operation_id (bm_operation_id m)),
        ''a field violates its declared constraint''),
      (\<not> is_absolute (bm_source_database_path m), ''source database path must be absolute''),
      (bm_database_file_name m \<noteq> bm_backup_id m @ ''.db'',
        ''database filename must match backup ID''),
      (bm_completed_at m < bm_created_at m, ''completed_at must not precede created_at'')]"

definition valid_backup_metadata :: "backup_metadata \<Rightarrow> bool" where
  "valid_backup_metadata m \<longleftrightarrow> first_failure (backup_metadata_checks m) = None"

text \<open>What is left of the metadata when it is written and read back: instants to the millisecond.\<close>

definition stored_metadata :: "backup_metadata \<Rightarrow> backup_metadata" where
  "stored_metadata m = m\<lparr>
     bm_sqlite := stored_sqlite_verification (bm_sqlite m),
     bm_created_at := serialize_utc_timestamp (bm_created_at m),
     bm_completed_at := serialize_utc_timestamp (bm_completed_at m)\<rparr>"

lemma stored_metadata_simps [simp]:
  "bm_backup_id (stored_metadata m) = bm_backup_id m"
  "bm_project (stored_metadata m) = bm_project m"
  "bm_purpose (stored_metadata m) = bm_purpose m"
  "bm_database_file_name (stored_metadata m) = bm_database_file_name m"
  "bm_size_bytes (stored_metadata m) = bm_size_bytes m"
  "bm_sha256 (stored_metadata m) = bm_sha256 m"
  "bm_operation_id (stored_metadata m) = bm_operation_id m"
  "stored_metadata (stored_metadata m) = stored_metadata m"
  by (simp_all add: stored_metadata_def stored_sqlite_verification_def)

lemma valid_stored_metadata: "valid_backup_metadata m \<Longrightarrow> valid_backup_metadata (stored_metadata m)"
  using serialize_mono [of "bm_created_at m" "bm_completed_at m"]
  by (auto simp: valid_backup_metadata_def backup_metadata_checks_def stored_metadata_def
      stored_sqlite_verification_def valid_sqlite_verification_def not_less)

record backup_artifact =
  ba_metadata :: backup_metadata
  ba_directory :: string
  ba_metadata_directory :: string
  ba_database_name :: string
  ba_metadata_name :: string

text \<open>The two paths of an artifact are kept as their parent directory and their file name.\<close>

definition artifact_checks :: "backup_artifact \<Rightarrow> (bool \<times> string) list" where
  "artifact_checks a =
     [(\<not> (is_absolute (ba_directory a) \<and> is_absolute (ba_metadata_directory a)),
        ''backup artifact paths must be absolute''),
      (ba_database_name a \<noteq> bm_database_file_name (ba_metadata a),
        ''database artifact path does not match metadata''),
      (ba_metadata_name a \<noteq> bm_backup_id (ba_metadata a) @ ''.json'',
        ''metadata artifact path does not match backup ID''),
      (ba_directory a \<noteq> ba_metadata_directory a,
        ''backup database and metadata must share a directory'')]"

definition valid_artifact :: "backup_artifact \<Rightarrow> bool" where
  "valid_artifact a \<longleftrightarrow>
     valid_backup_metadata (ba_metadata a) \<and> first_failure (artifact_checks a) = None"

section \<open>Application identity and evidence\<close>

datatype app_source = Src_bootstrap | Src_release

record application_handle =
  ah_source :: app_source
  ah_container_id :: string
  ah_container_name :: string
  ah_compose_project :: string
  ah_compose_service :: string
  ah_version :: "string option"
  ah_release_id :: "string option"
  ah_operation_id :: "string option"
  ah_database_directory :: string
  ah_database_target :: string
  ah_host_port :: int
  ah_container_port :: int
  ah_health_url :: string

definition is_container_id :: "string \<Rightarrow> bool" where
  "is_container_id s \<longleftrightarrow> length_between 12 64 s \<and> list_all is_lower_hex s"

definition is_database_target :: "string \<Rightarrow> bool" where
  "is_database_target s \<longleftrightarrow>
     is_absolute s \<and> 2 \<le> length s \<and> list_all (\<lambda>c. c \<noteq> CHR 0x00 \<and> c \<noteq> CHR '':'') (tl s)"

definition handle_checks :: "application_handle \<Rightarrow> (bool \<times> string) list" where
  "handle_checks h =
     [(\<not> (is_container_id (ah_container_id h) \<and>
          is_word_of ''_.-'' 254 (ah_container_name h) \<and>
          is_word_of ''_.-'' 63 (ah_compose_project h) \<and>
          is_word_of ''_.-'' 127 (ah_compose_service h) \<and>
          option_all is_version (ah_version h) \<and> option_all is_release_id (ah_release_id h) \<and>
          option_all is_operation_id (ah_operation_id h) \<and>
          is_database_target (ah_database_target h) \<and>
          1 \<le> ah_host_port h \<and> ah_host_port h \<le> 65535 \<and>
          1 \<le> ah_container_port h \<and> ah_container_port h \<le> 65535 \<and>
          length_between 1 4096 (ah_health_url h)),
        ''a field violates its declared constraint''),
      (\<not> is_absolute (ah_database_directory h) \<or> ah_database_directory h = ''/'',
        ''database directory must be an absolute non-root path''),
      (ah_source h = Src_release \<and>
         (ah_version h = None \<or> ah_release_id h = None \<or> ah_operation_id h = None),
        ''release application handle requires version, release_id, and operation_id''),
      (ah_source h \<noteq> Src_release \<and> (ah_release_id h \<noteq> None \<or> ah_operation_id h \<noteq> None),
        ''bootstrap application handle must not claim a release_id or operation_id'')]"

definition valid_handle :: "application_handle \<Rightarrow> bool" where
  "valid_handle h \<longleftrightarrow> first_failure (handle_checks h) = None"

datatype command_outcome =
    CO_succeeded | CO_nonzero_exit | CO_start_failed | CO_timed_out | CO_cancelled
  | CO_cleanup_failed

datatype termination_reason = TR_timeout | TR_cancellation | TR_interruption

datatype traffic_action =
    TA_enable_maintenance | TA_disable_maintenance | TA_activate_new | TA_activate_old

record hook_evidence =
  he_action :: traffic_action
  he_passed :: bool
  he_outcome :: command_outcome
  he_exit_code :: "int option"
  he_output_complete :: bool
  he_duration :: rat
  he_termination_reason :: "termination_reason option"
  he_forced_kill :: bool
  he_cleanup_error :: "string option"

definition valid_hook_evidence :: "hook_evidence \<Rightarrow> bool" where
  "valid_hook_evidence h \<longleftrightarrow>
     0 \<le> he_duration h \<and> option_all (\<lambda>s. length s \<le> 4096) (he_cleanup_error h)"

datatype health_role = HR_new | HR_previous

record health_evidence =
  hv_role :: health_role
  hv_version :: string
  hv_url :: string
  hv_readiness_attempts :: int
  hv_smoke_succeeded :: bool

definition valid_health_evidence :: "health_evidence \<Rightarrow> bool" where
  "valid_health_evidence h \<longleftrightarrow>
     is_version (hv_version h) \<and> length_between 1 4096 (hv_url h) \<and> 0 < hv_readiness_attempts h"

section \<open>The release manifest\<close>

record release_manifest =
  rm_recovery_protocol_version :: "int option"
  rm_release_id :: string
  rm_operation_id :: string
  rm_project :: string
  rm_requested_version :: string
  rm_status :: deployment_state
  rm_configuration_fingerprint :: string
  rm_operation_log_path :: string
  rm_previous_release_id :: "string option"
  rm_previous_application :: "application_handle option"
  rm_new_application :: "application_handle option"
  rm_rehearsal_backup_id :: "string option"
  rm_rehearsal_backup_sha256 :: "string option"
  rm_final_backup_id :: "string option"
  rm_final_backup_sha256 :: "string option"
  rm_production_health_passed :: bool
  rm_production_changed :: bool
  rm_production_migration_started :: bool
  rm_traffic_activation_attempted :: bool
  rm_traffic_activated :: bool
  rm_traffic_hooks :: "hook_evidence list"
  rm_health_checks :: "health_evidence list"
  rm_started_at :: int
  rm_updated_at :: int
  rm_completed_at :: "int option"
  rm_failure :: "failure_record option"
  rm_recovery_operation_id :: "string option"
  rm_recovered_at :: "int option"
  rm_recovery_failure :: "failure_record option"

definition release_fields_ok :: "release_manifest \<Rightarrow> bool" where
  "release_fields_ok m \<longleftrightarrow>
     option_all (\<lambda>v. v = 2) (rm_recovery_protocol_version m) \<and>
     is_release_id (rm_release_id m) \<and> is_operation_id (rm_operation_id m) \<and>
     length_between 1 64 (rm_project m) \<and> is_version (rm_requested_version m) \<and>
     is_sha256 (rm_configuration_fingerprint m) \<and> is_absolute (rm_operation_log_path m) \<and>
     option_all is_release_id (rm_previous_release_id m) \<and>
     option_all valid_handle (rm_previous_application m) \<and>
     option_all valid_handle (rm_new_application m) \<and>
     option_all is_backup_id (rm_rehearsal_backup_id m) \<and>
     option_all is_sha256 (rm_rehearsal_backup_sha256 m) \<and>
     option_all is_backup_id (rm_final_backup_id m) \<and>
     option_all is_sha256 (rm_final_backup_sha256 m) \<and>
     list_all valid_hook_evidence (rm_traffic_hooks m) \<and>
     list_all valid_health_evidence (rm_health_checks m) \<and>
     option_all failure_record_ok (rm_failure m) \<and>
     option_all is_operation_id (rm_recovery_operation_id m) \<and>
     option_all failure_record_ok (rm_recovery_failure m)"

abbreviation terminal_states :: "deployment_state set" where
  "terminal_states \<equiv> {DS_active, DS_rolled_back, DS_failed_safe, DS_recovery_required}"

abbreviation stopped_states :: "deployment_state set" where
  "stopped_states \<equiv>
     {DS_current_app_stopped, DS_final_snapshot_verified, DS_production_migrated,
      DS_new_app_healthy, DS_traffic_activated, DS_active, DS_rollback_started, DS_rolled_back}"

abbreviation rehearsed_states :: "deployment_state set" where
  "rehearsed_states \<equiv>
     {DS_snapshot_verified, DS_rehearsal_passed, DS_candidate_healthy, DS_maintenance_enabled}
     \<union> stopped_states"

abbreviation migrated_states :: "deployment_state set" where
  "migrated_states \<equiv>
     {DS_production_migrated, DS_new_app_healthy, DS_traffic_activated, DS_active}"

definition release_checks :: "release_manifest \<Rightarrow> (bool \<times> string) list" where
  "release_checks m =
    (let st = rm_status m;
         terminal = (st \<in> terminal_states);
         failed = (st \<in> {DS_rolled_back, DS_failed_safe, DS_recovery_required});
         any_recovery = (rm_recovery_operation_id m \<noteq> None \<or> rm_recovered_at m \<noteq> None \<or>
                         rm_recovery_failure m \<noteq> None);
         all_recovery = (rm_recovery_operation_id m \<noteq> None \<and> rm_recovered_at m \<noteq> None \<and>
                         rm_recovery_failure m \<noteq> None)
     in
     [(rm_updated_at m < rm_started_at m, ''updated_at must not precede started_at''),
      ((rm_rehearsal_backup_id m = None) \<noteq> (rm_rehearsal_backup_sha256 m = None),
        ''rehearsal backup ID and checksum must be recorded together''),
      ((rm_final_backup_id m = None) \<noteq> (rm_final_backup_sha256 m = None),
        ''final backup ID and checksum must be recorded together''),
      (terminal \<noteq> (rm_completed_at m \<noteq> None),
        ''terminal release state and completed_at must agree''),
      (rm_completed_at m \<noteq> None \<and> rm_completed_at m \<noteq> Some (rm_updated_at m),
        ''completed_at must equal updated_at for a terminal release''),
      (failed \<noteq> (rm_failure m \<noteq> None),
        ''failure details must be present exactly for non-active terminals''),
      (any_recovery \<and> \<not> all_recovery, ''recovery resolution fields must be recorded together''),
      (any_recovery \<and> st \<notin> {DS_active, DS_rolled_back},
        ''only active or rolled-back releases can record resolution''),
      (st \<in> {DS_manual_restore_started, DS_manual_restore_completed},
        ''manual restore states do not belong to a deployment release''),
      ((case (rm_previous_release_id m, rm_previous_application m) of
          (Some i, Some a) \<Rightarrow> ah_release_id a \<noteq> Some i | _ \<Rightarrow> False),
        ''previous release and application identities contradict''),
      ((case rm_new_application m of
          None \<Rightarrow> False
        | Some a \<Rightarrow> ah_release_id a \<noteq> Some (rm_release_id m) \<or>
                    ah_version a \<noteq> Some (rm_requested_version m) \<or>
                    ah_operation_id a \<noteq> Some (rm_operation_id m)),
        ''new application identity contradicts the release manifest''),
      (st \<in> rehearsed_states \<and> rm_rehearsal_backup_id m = None,
        ''release state requires verified rehearsal backup evidence''),
      (st \<in> stopped_states \<and> rm_previous_application m = None,
        ''release state requires the exact previous application identity''),
      (rm_traffic_activated m \<and> st \<notin> {DS_traffic_activated, DS_active, DS_recovery_required},
        ''traffic activation fact contradicts the release state''),
      (rm_traffic_activated m \<and> \<not> rm_production_changed m,
        ''activated traffic requires a changed production release''),
      (rm_production_migration_started m \<and> rm_final_backup_id m = None,
        ''production migration intent requires a verified final backup''),
      (rm_traffic_activation_attempted m \<and>
         (\<not> rm_production_migration_started m \<or> \<not> rm_production_changed m \<or>
          rm_new_application m = None \<or> \<not> rm_production_health_passed m),
        ''traffic activation intent requires a checked production application''),
      (rm_traffic_activated m \<and> \<not> rm_traffic_activation_attempted m,
        ''activated traffic requires a durable activation attempt''),
      (st = DS_failed_safe \<and> (rm_production_changed m \<or> rm_traffic_activated m),
        ''failed_safe release must leave production unchanged''),
      (st = DS_rolled_back \<and> rm_traffic_activated m,
        ''rolled_back release cannot have activated new traffic''),
      (st \<in> migrated_states \<and> (rm_final_backup_id m = None \<or> \<not> rm_production_changed m),
        ''production mutation requires the verified final backup''),
      (st \<in> migrated_states \<and> \<not> rm_production_migration_started m,
        ''production mutation state requires durable migration intent''),
      (st \<in> {DS_new_app_healthy, DS_traffic_activated, DS_active} \<and>
         (rm_new_application m = None \<or> \<not> rm_production_health_passed m),
        ''healthy new-application evidence is required''),
      (st \<in> {DS_traffic_activated, DS_active} \<and> \<not> rm_traffic_activated m,
        ''traffic-activated state requires the stored traffic fact''),
      (st = DS_active \<and> rm_previous_application m = None,
        ''active release must preserve the previous application identity'')])"

definition valid_release :: "release_manifest \<Rightarrow> bool" where
  "valid_release m \<longleftrightarrow> release_fields_ok m \<and> first_failure (release_checks m) = None"

text \<open>What \<^verbatim>\<open>model_validate_json(model_dump_json())\<close> makes of a manifest.\<close>

definition stored_release :: "release_manifest \<Rightarrow> release_manifest" where
  "stored_release m = m\<lparr>
     rm_started_at := serialize_utc_timestamp (rm_started_at m),
     rm_updated_at := serialize_utc_timestamp (rm_updated_at m),
     rm_completed_at := map_option serialize_utc_timestamp (rm_completed_at m),
     rm_recovered_at := map_option serialize_utc_timestamp (rm_recovered_at m)\<rparr>"

definition revalidate_release :: "release_manifest \<Rightarrow> release_manifest result" where
  "revalidate_release m =
     (let r = stored_release m in if valid_release r then Inr r else Inl validation_error)"

record release_pointers =
  rp_active_release_id :: string
  rp_previous_release_id :: "string option"
  rp_updated_at :: int

definition valid_pointers :: "release_pointers \<Rightarrow> bool" where
  "valid_pointers p \<longleftrightarrow>
     is_release_id (rp_active_release_id p) \<and> option_all is_release_id (rp_previous_release_id p) \<and>
     rp_previous_release_id p \<noteq> Some (rp_active_release_id p)"

section \<open>The validator as a conjunction\<close>

lemma valid_release_iff:
  "valid_release m \<longleftrightarrow>
     release_fields_ok m \<and> list_all (\<lambda>(bad, _). \<not> bad) (release_checks m)"
  by (simp add: valid_release_def)

lemma length_release_checks: "length (release_checks m) = 25"
  by (simp add: release_checks_def Let_def)

lemma release_check:
  "valid_release m \<Longrightarrow> i < 25 \<Longrightarrow> \<not> fst (release_checks m ! i)"
  by (auto simp: valid_release_iff list_all_length split_beta length_release_checks)

lemma release_times: "valid_release m \<Longrightarrow> rm_started_at m \<le> rm_updated_at m"
  by (drule release_check [where i = 0]) (auto simp: release_checks_def Let_def)

lemma release_terminal:
  assumes "valid_release m"
  shows "rm_completed_at m =
    (if rm_status m \<in> terminal_states then Some (rm_updated_at m) else None)"
  using release_check [OF assms, of 3] release_check [OF assms, of 4]
  by (cases "rm_status m \<in> terminal_states") (auto simp: release_checks_def Let_def)

lemma release_failure:
  "valid_release m \<Longrightarrow>
   rm_failure m \<noteq> None \<longleftrightarrow> rm_status m \<in> {DS_rolled_back, DS_failed_safe, DS_recovery_required}"
  by (drule release_check [where i = 5]) (auto simp: release_checks_def Let_def)

lemma release_rehearsed:
  "valid_release m \<Longrightarrow> rm_status m \<in> rehearsed_states \<Longrightarrow> rm_rehearsal_backup_id m \<noteq> None"
  by (drule release_check [where i = 11]) (simp_all add: release_checks_def Let_def)

lemma release_previous:
  "valid_release m \<Longrightarrow> rm_status m \<in> stopped_states \<Longrightarrow> rm_previous_application m \<noteq> None"
  by (drule release_check [where i = 12]) (simp_all add: release_checks_def Let_def)

lemma release_intent:
  "valid_release m \<Longrightarrow> rm_production_migration_started m \<Longrightarrow> rm_final_backup_id m \<noteq> None"
  by (drule release_check [where i = 15]) (simp_all add: release_checks_def Let_def)

lemma release_attempted:
  "valid_release m \<Longrightarrow> rm_traffic_activation_attempted m \<Longrightarrow>
   rm_production_migration_started m \<and> rm_production_changed m \<and>
   rm_new_application m \<noteq> None \<and> rm_production_health_passed m"
  by (drule release_check [where i = 16]) (simp_all add: release_checks_def Let_def)

lemma release_activated:
  assumes "valid_release m" and "rm_traffic_activated m"
  shows "rm_production_changed m \<and> rm_traffic_activation_attempted m \<and>
    rm_status m \<in> {DS_traffic_activated, DS_active, DS_recovery_required}"
  using assms(2) release_check [OF assms(1), of 13] release_check [OF assms(1), of 14]
    release_check [OF assms(1), of 17]
  by (simp add: release_checks_def Let_def)

lemma release_failed_safe:
  "valid_release m \<Longrightarrow> rm_status m = DS_failed_safe \<Longrightarrow>
   \<not> rm_production_changed m \<and> \<not> rm_traffic_activated m"
  by (drule release_check [where i = 18]) (simp_all add: release_checks_def Let_def)

lemma release_rolled_back:
  "valid_release m \<Longrightarrow> rm_status m = DS_rolled_back \<Longrightarrow> \<not> rm_traffic_activated m"
  by (drule release_check [where i = 19]) (simp_all add: release_checks_def Let_def)

lemma release_migrated:
  assumes "valid_release m" and "rm_status m \<in> migrated_states"
  shows "rm_final_backup_id m \<noteq> None \<and> rm_production_changed m \<and> rm_production_migration_started m"
  using assms(2) release_check [OF assms(1), of 20] release_check [OF assms(1), of 21]
  by (simp add: release_checks_def Let_def)

lemma release_healthy:
  "valid_release m \<Longrightarrow> rm_status m \<in> {DS_new_app_healthy, DS_traffic_activated, DS_active} \<Longrightarrow>
   rm_new_application m \<noteq> None \<and> rm_production_health_passed m"
  by (drule release_check [where i = 22]) (simp_all add: release_checks_def Let_def)

lemma release_traffic_fact:
  "valid_release m \<Longrightarrow> rm_status m \<in> {DS_traffic_activated, DS_active} \<Longrightarrow> rm_traffic_activated m"
  by (drule release_check [where i = 23]) (simp_all add: release_checks_def Let_def)

end
