(* ===== verification/Commands.thy ===== *)
theory Commands
  imports Release_Model
begin

text \<open>
  The terminal evidence of an external command (\<^verbatim>\<open>CapturedOutput\<close> and \<^verbatim>\<open>CommandResult\<close> of
  \<^verbatim>\<open>dploydb/subprocesses.py\<close>), the traffic hooks built on it (\<^verbatim>\<open>dploydb/traffic.py\<close>), and the
  hook decisions of \<^verbatim>\<open>dploydb/deploy.py\<close>. Running a command is the operating system's part: a
  hook is run by a function that is an argument of the model.
\<close>

section \<open>Command results\<close>

record captured_output =
  co_text :: string
  co_total_bytes :: int
  co_retained_bytes :: int
  co_truncated :: bool

definition captured_output_problem :: "captured_output \<Rightarrow> string option" where
  "captured_output_problem c = first_failure
     [(co_total_bytes c < 0 \<or> co_retained_bytes c < 0,
        ''captured output byte counts must not be negative''),
      (co_retained_bytes c > co_total_bytes c,
        ''retained output bytes must not exceed total bytes''),
      (co_truncated c \<noteq> (co_retained_bytes c < co_total_bytes c),
        ''captured output truncation metadata is contradictory'')]"

record command_result =
  cr_command :: "string list"
  cr_working_directory :: string
  cr_environment_keys :: "string list"
  cr_outcome :: command_outcome
  cr_exit_code :: "int option"
  cr_stdout :: captured_output
  cr_stderr :: captured_output
  cr_duration :: rat
  cr_termination_reason :: "termination_reason option"
  cr_termination_attempted :: bool
  cr_forced_kill :: bool
  cr_start_error :: "string option"
  cr_cleanup_error :: "string option"

definition command_result_checks :: "command_result \<Rightarrow> (bool \<times> string) list" where
  "command_result_checks r =
     [(cr_command r = [], ''command result requires at least one argument''),
      (cr_duration r < 0, ''command duration must be finite and non-negative''),
      (cr_outcome r = CO_succeeded \<and> cr_exit_code r \<noteq> Some 0,
        ''successful command requires exit code zero''),
      (cr_outcome r = CO_nonzero_exit \<and> cr_exit_code r \<in> {None, Some 0},
        ''non-zero command outcome requires a non-zero exit code''),
      (cr_outcome r = CO_start_failed \<and> (cr_exit_code r \<noteq> None \<or> cr_start_error r = None),
        ''start failure requires start_error and no exit code''),
      (cr_outcome r \<noteq> CO_start_failed \<and> cr_start_error r \<noteq> None,
        ''start_error is valid only for a start failure''),
      (cr_outcome r = CO_cleanup_failed \<and> cr_cleanup_error r = None,
        ''cleanup failure requires cleanup_error''),
      (cr_outcome r \<noteq> CO_cleanup_failed \<and> cr_cleanup_error r \<noteq> None,
        ''cleanup_error is valid only for a cleanup failure''),
      (cr_outcome r \<in> {CO_timed_out, CO_cancelled} \<and> cr_termination_reason r = None,
        ''terminated command requires a reason''),
      (cr_outcome r = CO_timed_out \<and> \<not> cr_termination_attempted r,
        ''timed-out command requires attempted cleanup''),
      (cr_outcome r = CO_cancelled \<and> cr_exit_code r \<noteq> None \<and> \<not> cr_termination_attempted r,
        ''started cancelled command requires attempted cleanup''),
      (cr_outcome r = CO_cleanup_failed \<and> cr_termination_reason r = None,
        ''cleanup failure requires its initiating termination reason''),
      (cr_forced_kill r \<and> \<not> cr_termination_attempted r,
        ''forced kill requires an attempted termination'')]"

definition valid_command_result :: "command_result \<Rightarrow> bool" where
  "valid_command_result r \<longleftrightarrow>
     captured_output_problem (cr_stdout r) = None \<and>
     captured_output_problem (cr_stderr r) = None \<and>
     first_failure (command_result_checks r) = None"

definition command_succeeded :: "command_result \<Rightarrow> bool" where
  "command_succeeded r \<longleftrightarrow> cr_outcome r = CO_succeeded"

definition output_complete :: "command_result \<Rightarrow> bool" where
  "output_complete r \<longleftrightarrow> \<not> co_truncated (cr_stdout r) \<and> \<not> co_truncated (cr_stderr r)"

fun outcome_value :: "command_outcome \<Rightarrow> string" where
  "outcome_value CO_succeeded = ''succeeded''"
| "outcome_value CO_nonzero_exit = ''nonzero_exit''"
| "outcome_value CO_start_failed = ''start_failed''"
| "outcome_value CO_timed_out = ''timed_out''"
| "outcome_value CO_cancelled = ''cancelled''"
| "outcome_value CO_cleanup_failed = ''cleanup_failed''"

fun termination_value :: "termination_reason \<Rightarrow> string" where
  "termination_value TR_timeout = ''timeout''"
| "termination_value TR_cancellation = ''cancellation''"
| "termination_value TR_interruption = ''interruption''"

text \<open>The JSON evidence of a command.\<close>

definition optional :: "('a \<Rightarrow> json) \<Rightarrow> 'a option \<Rightarrow> json" where
  "optional f x = (case x of None \<Rightarrow> JNull | Some y \<Rightarrow> f y)"

definition output_as_evidence :: "captured_output \<Rightarrow> json" where
  "output_as_evidence c = JObj
     [(''text'', JStr (co_text c)),
      (''total_bytes'', JInt (co_total_bytes c)),
      (''retained_bytes'', JInt (co_retained_bytes c)),
      (''truncated'', JBool (co_truncated c))]"

definition command_as_evidence :: "command_result \<Rightarrow> json" where
  "command_as_evidence r = JObj
     [(''command'', JList (map JStr (cr_command r))),
      (''working_directory'', JStr (cr_working_directory r)),
      (''environment_keys'', JList (map JStr (cr_environment_keys r))),
      (''outcome'', JStr (outcome_value (cr_outcome r))),
      (''exit_code'', optional JInt (cr_exit_code r)),
      (''stdout'', output_as_evidence (cr_stdout r)),
      (''stderr'', output_as_evidence (cr_stderr r)),
      (''duration_seconds'', JFloat (cr_duration r)),
      (''termination_reason'', optional (\<lambda>t. JStr (termination_value t)) (cr_termination_reason r)),
      (''termination_attempted'', JBool (cr_termination_attempted r)),
      (''forced_kill'', JBool (cr_forced_kill r)),
      (''start_error'', optional JStr (cr_start_error r)),
      (''cleanup_error'', optional JStr (cr_cleanup_error r))]"

section \<open>Traffic hooks\<close>

fun action_value :: "traffic_action \<Rightarrow> string" where
  "action_value TA_enable_maintenance = ''enable_maintenance''"
| "action_value TA_disable_maintenance = ''disable_maintenance''"
| "action_value TA_activate_new = ''activate_new''"
| "action_value TA_activate_old = ''activate_old''"

record hook_result =
  hr_action :: traffic_action
  hr_command :: command_result

definition hook_passed :: "hook_result \<Rightarrow> bool" where
  "hook_passed h \<longleftrightarrow>
     cr_outcome (hr_command h) = CO_succeeded \<and>
     \<not> co_truncated (cr_stdout (hr_command h)) \<and> \<not> co_truncated (cr_stderr (hr_command h))"

record traffic_config =
  tc_maintenance_on :: "string list"
  tc_maintenance_off :: "string list"
  tc_activate_new :: "string list"
  tc_activate_old :: "string list"

fun configured_hook :: "traffic_config \<Rightarrow> traffic_action \<Rightarrow> string list" where
  "configured_hook t TA_enable_maintenance = tc_maintenance_on t"
| "configured_hook t TA_disable_maintenance = tc_maintenance_off t"
| "configured_hook t TA_activate_new = tc_activate_new t"
| "configured_hook t TA_activate_old = tc_activate_old t"

text \<open>\<^verbatim>\<open>CommandTrafficController._run\<close>: \<open>execute\<close> is the bounded command executor.\<close>

definition run_hook ::
  "(string list \<Rightarrow> command_result result) \<Rightarrow> traffic_config \<Rightarrow> traffic_action \<Rightarrow> hook_result result"
where
  "run_hook execute t a =
     rbind (execute (configured_hook t a))
       (\<lambda>r. Inr \<lparr>hr_action = a, hr_command = r\<rparr>)"

definition hook_as_evidence :: "hook_result \<Rightarrow> json" where
  "hook_as_evidence h = JObj
     [(''action'', JStr (action_value (hr_action h))),
      (''passed'', JBool (hook_passed h)),
      (''command'', command_as_evidence (hr_command h))]"

definition summarised_hook :: "hook_result \<Rightarrow> hook_evidence" where
  "summarised_hook h =
     \<lparr>he_action = hr_action h,
      he_passed = hook_passed h,
      he_outcome = cr_outcome (hr_command h),
      he_exit_code = cr_exit_code (hr_command h),
      he_output_complete = (\<not> co_truncated (cr_stdout (hr_command h)) \<and>
                            \<not> co_truncated (cr_stderr (hr_command h))),
      he_duration = cr_duration (hr_command h),
      he_termination_reason = cr_termination_reason (hr_command h),
      he_forced_kill = cr_forced_kill (hr_command h),
      he_cleanup_error = cr_cleanup_error (hr_command h)\<rparr>"

definition hook_summary :: "hook_result \<Rightarrow> hook_evidence result" where
  "hook_summary h =
     (if valid_hook_evidence (summarised_hook h) then Inr (summarised_hook h)
      else Inl validation_error)"

text \<open>
  Whether a failed hook may have taken effect: not when the process never started, nor when
  it was cancelled before it had an exit status.
\<close>

definition hook_may_have_run :: "hook_result \<Rightarrow> bool" where
  "hook_may_have_run h \<longleftrightarrow>
     \<not> (cr_outcome (hr_command h) = CO_start_failed \<or>
        (cr_outcome (hr_command h) = CO_cancelled \<and> cr_exit_code (hr_command h) = None))"

fun digits_of :: "nat \<Rightarrow> string" where
  "digits_of n =
     (if n < 10 then [char_of (48 + n)] else digits_of (n div 10) @ [char_of (48 + n mod 10)])"

declare digits_of.simps [simp del]

definition int_text :: "int \<Rightarrow> string" where
  "int_text i = (if i < 0 then CHR ''-'' # digits_of (nat (- i)) else digits_of (nat i))"

definition exit_text :: "int option \<Rightarrow> string" where
  "exit_text c = (case c of None \<Rightarrow> ''None'' | Some i \<Rightarrow> int_text i)"

definition hook_description :: "hook_result \<Rightarrow> string" where
  "hook_description h =
     (let c = hr_command h;
          detail =
            (if co_truncated (cr_stdout c) \<or> co_truncated (cr_stderr c)
             then ''complete output evidence was unavailable''
             else case cr_outcome c of
               CO_nonzero_exit \<Rightarrow> ''exited with status '' @ exit_text (cr_exit_code c)
             | CO_timed_out \<Rightarrow> ''timed out''
             | CO_cancelled \<Rightarrow> ''was cancelled''
             | CO_cleanup_failed \<Rightarrow> ''process cleanup could not be proven''
             | CO_start_failed \<Rightarrow> ''could not start''
             | CO_succeeded \<Rightarrow> ''returned invalid success evidence'')
      in ''traffic hook '' @ action_value (hr_action h) @ '' '' @ detail)"

section \<open>Facts\<close>

lemma hook_passed_may_have_run: "hook_passed h \<Longrightarrow> hook_may_have_run h"
  by (simp add: hook_passed_def hook_may_have_run_def)

lemma hook_summary_passed:
  assumes "hook_summary h = Inr e"
  shows "he_passed e = hook_passed h" and "he_action e = hr_action h"
  using assms by (auto simp: hook_summary_def summarised_hook_def split: if_splits)

lemma outcome_value_inject: "outcome_value a = outcome_value b \<longleftrightarrow> a = b"
  by (cases a; cases b) simp_all

lemma action_value_inject: "action_value a = action_value b \<longleftrightarrow> a = b"
  by (cases a; cases b) simp_all

lemma not_started_has_no_exit:
  "valid_command_result (hr_command h) \<Longrightarrow> \<not> hook_may_have_run h \<Longrightarrow>
   cr_exit_code (hr_command h) = None"
  by (auto simp: hook_may_have_run_def valid_command_result_def command_result_checks_def)

lemma run_hook_action: "run_hook ex t a = Inr h \<Longrightarrow> hr_action h = a"
  by (auto simp: run_hook_def rbind_Inr_iff)

end
