(* ===== verification/Capture.thy ===== *)
theory Capture
  imports Commands "HOL-Library.Word"
begin

text \<open>
  The memory-bounded captures of \<^verbatim>\<open>_BoundedCapture\<close> in \<^verbatim>\<open>dploydb/subprocesses.py\<close> and
  \<^verbatim>\<open>_BoundedBodyCapture\<close> in \<^verbatim>\<open>dploydb/health.py\<close>: a head and a tail of a byte stream, kept
  while the stream arrives in chunks of any size. The chunk-wise code is proved equal to cutting
  the whole stream at once, so what is retained does not depend on how the bytes were cut into
  chunks, and output counts as complete exactly when all of it was retained.
\<close>

type_synonym byte = "8 word"

record bounded_capture =
  bc_head_limit :: nat
  bc_tail_limit :: nat
  bc_head :: "byte list"
  bc_tail :: "byte list"
  bc_total :: nat

definition new_capture :: "nat \<Rightarrow> bounded_capture" where
  "new_capture limit = \<lparr>bc_head_limit = limit div 2, bc_tail_limit = limit - limit div 2,
     bc_head = [], bc_tail = [], bc_total = 0\<rparr>"

text \<open>\<open>keep_last n xs\<close> is the slice \<^verbatim>\<open>xs[-n:]\<close> for a positive \<open>n\<close>.\<close>

definition keep_last :: "nat \<Rightarrow> 'a list \<Rightarrow> 'a list" where
  "keep_last n xs = drop (length xs - n) xs"

definition extend_tail :: "byte list \<Rightarrow> bounded_capture \<Rightarrow> bounded_capture" where
  "extend_tail bytes c =
    (if bytes = [] \<or> bc_tail_limit c = 0 then c
     else if bc_tail_limit c \<le> length bytes
     then c\<lparr>bc_tail := keep_last (bc_tail_limit c) bytes\<rparr>
     else let tail = bc_tail c @ bytes;
              overflow = length tail - bc_tail_limit c
          in c\<lparr>bc_tail := (if 0 < overflow then drop overflow tail else tail)\<rparr>)"

definition capture_append :: "byte list \<Rightarrow> bounded_capture \<Rightarrow> bounded_capture" where
  "capture_append bytes c =
    (let counted = c\<lparr>bc_total := bc_total c + length bytes\<rparr>;
         missing = bc_head_limit c - length (bc_head c)
     in if 0 < missing
        then extend_tail (drop missing bytes) (counted\<lparr>bc_head := bc_head c @ take missing bytes\<rparr>)
        else extend_tail bytes counted)"

definition truncation_marker :: "byte list" where
  "truncation_marker = map of_char (''\<newline>...[output truncated]...\<newline>'')"

text \<open>
  \<open>decode\<close> is UTF-8 decoding with replacement characters, \<open>red\<close> the redaction of a text. The
  subprocess capture marks the gap, the response capture does not.
\<close>

definition capture_snapshot ::
  "(byte list \<Rightarrow> string) \<Rightarrow> (string \<Rightarrow> string) \<Rightarrow> bounded_capture \<Rightarrow> captured_output" where
  "capture_snapshot decode red c =
    (let retained = length (bc_head c) + length (bc_tail c);
         truncated = (retained < bc_total c);
         raw = bc_head c @ (if truncated then truncation_marker else []) @ bc_tail c
     in \<lparr>co_text = red (decode raw), co_total_bytes = int (bc_total c),
         co_retained_bytes = int retained, co_truncated = truncated\<rparr>)"

definition body_snapshot ::
  "(byte list \<Rightarrow> string) \<Rightarrow> (string \<Rightarrow> string) \<Rightarrow> bounded_capture \<Rightarrow> captured_output" where
  "body_snapshot decode red c =
    (let retained = bc_head c @ bc_tail c
     in \<lparr>co_text = red (decode retained), co_total_bytes = int (bc_total c),
         co_retained_bytes = int (length retained), co_truncated = (length retained < bc_total c)\<rparr>)"

section \<open>The reference: cutting the whole stream at once\<close>

definition capture_all :: "nat \<Rightarrow> byte list list \<Rightarrow> bounded_capture" where
  "capture_all limit chunks = fold capture_append chunks (new_capture limit)"

definition cut_stream :: "nat \<Rightarrow> byte list \<Rightarrow> bounded_capture" where
  "cut_stream limit stream =
    (let h = limit div 2
     in \<lparr>bc_head_limit = h, bc_tail_limit = limit - h, bc_head = take h stream,
         bc_tail = keep_last (limit - h) (drop h stream), bc_total = length stream\<rparr>)"

lemma length_keep_last [simp]: "length (keep_last n xs) = min n (length xs)"
  by (simp add: keep_last_def)

lemma keep_last_append:
  "keep_last n (xs @ ys) =
     (if n \<le> length ys then keep_last n ys else keep_last n (keep_last n xs @ ys))"
  by (cases "n \<le> length xs") (auto simp: keep_last_def add.commute)

lemma keep_last_short: "length xs \<le> n \<Longrightarrow> keep_last n xs = xs"
  by (simp add: keep_last_def)

lemma extend_tail_eq:
  "extend_tail bytes c =
    (if bytes = [] \<or> bc_tail_limit c = 0 then c
     else if bc_tail_limit c \<le> length bytes
     then c\<lparr>bc_tail := keep_last (bc_tail_limit c) bytes\<rparr>
     else c\<lparr>bc_tail := keep_last (bc_tail_limit c) (bc_tail c @ bytes)\<rparr>)"
  by (simp add: extend_tail_def Let_def keep_last_def)

lemma extend_tail_keep_last:
  assumes "bc_tail c = keep_last (bc_tail_limit c) old"
  shows "extend_tail bytes c = c\<lparr>bc_tail := keep_last (bc_tail_limit c) (old @ bytes)\<rparr>"
proof (cases "bytes = [] \<or> bc_tail_limit c = 0")
  case True
  then have "keep_last (bc_tail_limit c) (old @ bytes) = bc_tail c"
    using assms by (auto simp: keep_last_def)
  with True show ?thesis by (simp add: extend_tail_eq)
next
  case False
  then show ?thesis
    using keep_last_append [of "bc_tail_limit c" old bytes] assms by (simp add: extend_tail_eq)
qed

lemma capture_append_cut:
  "capture_append bytes (cut_stream limit stream) = cut_stream limit (stream @ bytes)"
proof -
  let ?h = "limit div 2"
  have cut: "bc_tail (cut_stream limit stream) =
      keep_last (bc_tail_limit (cut_stream limit stream)) (drop ?h stream)"
    by (simp add: cut_stream_def Let_def)
  show ?thesis
  proof (cases "length stream < ?h")
    case True
    then show ?thesis
      by (simp add: capture_append_def cut_stream_def Let_def min_def
          extend_tail_keep_last [where old = "[]"] keep_last_def)
  next
    case False
    then show ?thesis
      by (simp add: capture_append_def cut_stream_def Let_def min_def
          extend_tail_keep_last [where old = "drop ?h stream"])
  qed
qed

lemma capture_all_cut: "capture_all limit chunks = cut_stream limit (concat chunks)"
proof -
  have "fold capture_append chunks (cut_stream limit stream) = cut_stream limit (stream @ concat chunks)" for stream
    by (induction chunks arbitrary: stream) (simp_all add: capture_append_cut)
  from this [of "[]"] show ?thesis
    by (simp add: capture_all_def cut_stream_def new_capture_def keep_last_def Let_def)
qed

text \<open>
  C34. However a stream is cut into chunks, the capture retains its first bytes up to half the
  limit and its last bytes up to the rest, and counts all of them.
\<close>

theorem capture_is_cut_of_stream: "capture_all limit chunks = cut_stream limit (concat chunks)"
  by (rule capture_all_cut)

lemma cut_retains: "bc_head (cut_stream limit s) @ bc_tail (cut_stream limit s) = s \<longleftrightarrow> length s \<le> limit"
proof
  assume "bc_head (cut_stream limit s) @ bc_tail (cut_stream limit s) = s"
  then have "length (bc_head (cut_stream limit s)) + length (bc_tail (cut_stream limit s)) = length s"
    by (metis length_append)
  then show "length s \<le> limit" by (simp add: cut_stream_def Let_def min_def split: if_splits)
qed (simp add: cut_stream_def Let_def keep_last_short)

lemma cut_length:
  "length (bc_head (cut_stream limit s)) + length (bc_tail (cut_stream limit s)) = min limit (length s)"
  by (auto simp: cut_stream_def Let_def min_def)

lemma snapshot_of_cut:
  "co_total_bytes (capture_snapshot decode red (cut_stream limit s)) = int (length s)"
  "co_retained_bytes (capture_snapshot decode red (cut_stream limit s)) = int (min limit (length s))"
  "co_truncated (capture_snapshot decode red (cut_stream limit s)) \<longleftrightarrow> limit < length s"
  by (simp_all add: capture_snapshot_def Let_def cut_length) (auto simp: cut_stream_def Let_def)

text \<open>
  The snapshot of a capture is consistent evidence: its counts are those of the stream, at
  most the limit is retained, it is marked truncated exactly when bytes were dropped, and its
  text is then the whole stream's.
\<close>

theorem capture_snapshot_sound:
  "captured_output_problem (capture_snapshot decode red (capture_all limit chunks)) = None \<and>
   co_total_bytes (capture_snapshot decode red (capture_all limit chunks)) = int (length (concat chunks)) \<and>
   co_retained_bytes (capture_snapshot decode red (capture_all limit chunks)) \<le> int limit \<and>
   (\<not> co_truncated (capture_snapshot decode red (capture_all limit chunks)) \<longleftrightarrow>
      length (concat chunks) \<le> limit) \<and>
   (co_truncated (capture_snapshot decode red (capture_all limit chunks)) \<or>
    co_text (capture_snapshot decode red (capture_all limit chunks)) = red (decode (concat chunks)))"
proof -
  let ?s = "concat chunks"
  have "co_text (capture_snapshot decode red (cut_stream limit ?s)) = red (decode ?s)" if "length ?s \<le> limit"
    using that cut_retains [of limit ?s] cut_length [of limit ?s]
    by (simp add: capture_snapshot_def Let_def) (simp add: cut_stream_def Let_def)
  then show ?thesis
    unfolding capture_all_cut
    by (cases "length ?s \<le> limit") (simp_all add: captured_output_problem_def snapshot_of_cut)
qed

lemma body_snapshot_of_cut:
  "response_counts = (co_total_bytes (body_snapshot decode red (cut_stream limit s)),
     co_retained_bytes (body_snapshot decode red (cut_stream limit s)),
     co_truncated (body_snapshot decode red (cut_stream limit s))) \<longleftrightarrow>
   response_counts = (int (length s), int (min limit (length s)), limit < length s)"
  using cut_length [of limit s] by (auto simp: body_snapshot_def Let_def) (auto simp: cut_stream_def Let_def)

end
