(* ===== verification/Health.thy ===== *)
theory Health
  imports Capture
begin

text \<open>
  The readiness and smoke checks of \<^verbatim>\<open>dploydb/health.py\<close>: the evidence records with their
  validators, the polling loop under one deadline, and the smoke command that may run only after
  a passing response. The HTTP client and the clock are the environment's part: \<open>look k\<close> is what
  the \<open>k\<close>-th round of the loop observes.
\<close>

section \<open>Evidence\<close>

datatype attempt_outcome =
    HO_healthy | HO_unhealthy_http | HO_redirect_refused | HO_transport_error
  | HO_deadline_expired | HO_cancelled

fun attempt_outcome_value :: "attempt_outcome \<Rightarrow> string" where
  "attempt_outcome_value HO_healthy = ''healthy''"
| "attempt_outcome_value HO_unhealthy_http = ''unhealthy_http''"
| "attempt_outcome_value HO_redirect_refused = ''redirect_refused''"
| "attempt_outcome_value HO_transport_error = ''transport_error''"
| "attempt_outcome_value HO_deadline_expired = ''deadline_expired''"
| "attempt_outcome_value HO_cancelled = ''cancelled''"

text \<open>The response body has the fields and the validator of a captured output stream.\<close>

type_synonym response_evidence = captured_output

definition response_problem :: "response_evidence \<Rightarrow> string option" where
  "response_problem c = first_failure
     [(co_total_bytes c < 0 \<or> co_retained_bytes c < 0,
        ''response byte counts must not be negative''),
      (co_retained_bytes c > co_total_bytes c,
        ''retained response bytes must not exceed total bytes''),
      (co_truncated c \<noteq> (co_retained_bytes c < co_total_bytes c),
        ''response truncation evidence is contradictory'')]"

record health_attempt =
  at_attempt :: int
  at_outcome :: attempt_outcome
  at_status_code :: "int option"
  at_body :: "response_evidence option"
  at_reason :: string
  at_duration :: rat

definition attempt_problem :: "health_attempt \<Rightarrow> string option" where
  "attempt_problem a = first_failure
     [(at_attempt a \<le> 0, ''health attempt number must be positive''),
      (at_duration a < 0, ''health attempt duration must be finite and non-negative''),
      (at_reason a = [], ''health attempt reason must not be empty'')]"

definition attempt_as_evidence :: "health_attempt \<Rightarrow> json" where
  "attempt_as_evidence a = JObj
     [(''attempt'', JInt (at_attempt a)),
      (''outcome'', JStr (attempt_outcome_value (at_outcome a))),
      (''status_code'', optional JInt (at_status_code a)),
      (''body'', optional output_as_evidence (at_body a)),
      (''reason'', JStr (at_reason a)),
      (''duration_seconds'', JFloat (at_duration a))]"

record readiness_evidence =
  rd_url :: string
  rd_healthy :: bool
  rd_attempt_count :: int
  rd_last_attempt :: "health_attempt option"
  rd_duration :: rat
  rd_reason :: string

definition readiness_problem :: "readiness_evidence \<Rightarrow> string option" where
  "readiness_problem r = first_failure
     [(rd_attempt_count r < 0, ''readiness attempt count must not be negative''),
      (rd_last_attempt r = None \<and> rd_attempt_count r \<noteq> 0,
        ''readiness without a last attempt must have zero attempts''),
      (\<not> option_all (\<lambda>a. at_attempt a = rd_attempt_count r) (rd_last_attempt r),
        ''last readiness attempt must match the attempt count''),
      (rd_healthy r \<and> map_option at_outcome (rd_last_attempt r) \<noteq> Some HO_healthy,
        ''healthy readiness requires a healthy final attempt''),
      (rd_duration r < 0, ''readiness duration must be finite and non-negative''),
      (rd_reason r = [], ''readiness reason must not be empty'')]"

definition readiness_as_evidence :: "readiness_evidence \<Rightarrow> json" where
  "readiness_as_evidence r = JObj
     [(''url'', JStr (rd_url r)),
      (''healthy'', JBool (rd_healthy r)),
      (''attempt_count'', JInt (rd_attempt_count r)),
      (''last_attempt'', optional attempt_as_evidence (rd_last_attempt r)),
      (''duration_seconds'', JFloat (rd_duration r)),
      (''reason'', JStr (rd_reason r))]"

record health_result =
  hl_readiness :: readiness_evidence
  hl_smoke :: "command_result option"

definition health_result_problem :: "health_result \<Rightarrow> string option" where
  "health_result_problem h = first_failure
     [(\<not> rd_healthy (hl_readiness h), ''candidate health result requires passing readiness''),
      (\<not> option_all (\<lambda>c. command_succeeded c \<and> output_complete c) (hl_smoke h),
        ''candidate health result requires complete successful smoke evidence'')]"

definition health_as_evidence :: "health_result \<Rightarrow> json" where
  "health_as_evidence h = JObj
     [(''readiness'', readiness_as_evidence (hl_readiness h)),
      (''smoke'', optional command_as_evidence (hl_smoke h))]"

section \<open>One request\<close>

text \<open>
  A chunk of the response body with the state of the cancellation event and of the clock when it
  arrived, or a transport failure while reading.
\<close>

datatype body_event = Body_chunk bool rat "byte list" | Body_broken string

datatype http_response = Transport_failed string | Http_response int "body_event list"

record round_view =
  rv_cancelled :: bool
  rv_now :: rat
  rv_request_start :: rat
  rv_response :: http_response
  rv_request_end :: rat
  rv_after :: rat
  rv_end :: rat

record health_checker =
  hc_url :: string
  hc_timeout :: rat
  hc_timeout_text :: string
  hc_max_response_bytes :: nat
  hc_smoke_command :: "string list option"
  hc_redact :: "string \<Rightarrow> string"
  hc_decode :: "byte list \<Rightarrow> string"

datatype body_result = Body_read bounded_capture | Body_cancelled | Body_deadline | Body_transport string

fun read_body :: "rat \<Rightarrow> body_event list \<Rightarrow> bounded_capture \<Rightarrow> body_result" where
  "read_body deadline [] c = Body_read c"
| "read_body deadline (Body_broken detail # es) c = Body_transport detail"
| "read_body deadline (Body_chunk cancelled now bytes # es) c =
    (if cancelled then Body_cancelled
     else if deadline \<le> now then Body_deadline
     else read_body deadline es (capture_append bytes c))"

definition transport_attempt :: "health_checker \<Rightarrow> string \<Rightarrow> attempt_outcome \<times> int option \<times> response_evidence option \<times> string" where
  "transport_attempt hc detail =
     (HO_transport_error, None, None, ''readiness request failed: '' @ hc_redact hc detail)"

definition status_verdict :: "int \<Rightarrow> attempt_outcome \<times> string" where
  "status_verdict code =
    (if 200 \<le> code \<and> code < 300 then (HO_healthy, ''HTTP '' @ int_text code)
     else if 300 \<le> code \<and> code < 400
     then (HO_redirect_refused, ''HTTP '' @ int_text code @ '' redirect was refused'')
     else (HO_unhealthy_http, ''HTTP '' @ int_text code @ '' was not healthy''))"

definition request_outcome ::
  "health_checker \<Rightarrow> rat \<Rightarrow> round_view \<Rightarrow> attempt_outcome \<times> int option \<times> response_evidence option \<times> string"
where
  "request_outcome hc deadline v =
    (if deadline - rv_request_start v \<le> 0
     then (HO_deadline_expired, None, None, ''readiness request reached the overall startup deadline'')
     else case rv_response v of
       Transport_failed detail \<Rightarrow> transport_attempt hc detail
     | Http_response code events \<Rightarrow>
        (case read_body deadline events (new_capture (hc_max_response_bytes hc)) of
           Body_transport detail \<Rightarrow> transport_attempt hc detail
         | Body_cancelled \<Rightarrow> (HO_cancelled, Some code, None, ''readiness request was cancelled'')
         | Body_deadline \<Rightarrow>
             (HO_deadline_expired, Some code, None, ''readiness request reached the overall startup deadline'')
         | Body_read c \<Rightarrow>
             (fst (status_verdict code), Some code,
              Some (body_snapshot (hc_decode hc) (hc_redact hc) c), snd (status_verdict code))))"

definition request_once :: "health_checker \<Rightarrow> int \<Rightarrow> rat \<Rightarrow> round_view \<Rightarrow> health_attempt" where
  "request_once hc attempt deadline v =
    (case request_outcome hc deadline v of (outcome, code, body, reason) \<Rightarrow>
     \<lparr>at_attempt = attempt, at_outcome = outcome, at_status_code = code, at_body = body,
      at_reason = hc_redact hc reason, at_duration = max 0 (rv_request_end v - rv_request_start v)\<rparr>)"

section \<open>Polling until the deadline\<close>

definition readiness ::
  "health_checker \<Rightarrow> rat \<Rightarrow> bool \<Rightarrow> int \<Rightarrow> health_attempt option \<Rightarrow> rat \<Rightarrow> string \<Rightarrow> readiness_evidence" where
  "readiness hc started healthy attempts prev now reason =
     \<lparr>rd_url = hc_redact hc (hc_url hc), rd_healthy = healthy, rd_attempt_count = attempts,
      rd_last_attempt = prev, rd_duration = max 0 (now - started), rd_reason = reason\<rparr>"

definition cancelled_reason :: string where
  "cancelled_reason = ''candidate readiness was cancelled before a passing response''"

definition deadline_reason :: "health_checker \<Rightarrow> health_attempt option \<Rightarrow> string" where
  "deadline_reason hc prev =
     ''candidate readiness deadline expired after '' @ hc_timeout_text hc @ '' seconds; last result: '' @
     (case prev of None \<Rightarrow> ''no request completed'' | Some a \<Rightarrow> at_reason a)"

text \<open>
  The loop, with fuel: \<open>look k\<close> is what round \<open>k\<close> observes, so that \<open>k\<close> is also the number of
  attempts made. The sum carries the failing evidence on the left; no result means the fuel is
  used up.
\<close>

fun wait_until_ready ::
  "health_checker \<Rightarrow> rat \<Rightarrow> (nat \<Rightarrow> round_view) \<Rightarrow> nat \<Rightarrow> nat \<Rightarrow> health_attempt option \<Rightarrow>
   (readiness_evidence + readiness_evidence) option"
where
  "wait_until_ready hc started look 0 k prev = None"
| "wait_until_ready hc started look (Suc fuel) k prev =
    (let v = look k; deadline = started + hc_timeout hc; n = int k + 1 in
     if rv_cancelled v
     then Some (Inl (readiness hc started False (int k) prev (rv_end v) cancelled_reason))
     else if deadline - rv_now v \<le> 0
     then Some (Inl (readiness hc started False (int k) prev (rv_end v) (deadline_reason hc prev)))
     else let a = request_once hc n deadline v in
       if at_outcome a = HO_healthy
       then Some (Inr (readiness hc started True n (Some a) (rv_end v)
                  ''candidate returned a real HTTP 2xx readiness response''))
       else if at_outcome a = HO_cancelled
       then Some (Inl (readiness hc started False n (Some a) (rv_end v) cancelled_reason))
       else wait_until_ready hc started look fuel (Suc k) (Some a))"

section \<open>The smoke command\<close>

definition smoke_failure :: "command_result \<Rightarrow> string option" where
  "smoke_failure r =
    (if co_truncated (cr_stdout r) \<or> co_truncated (cr_stderr r)
     then Some ''candidate smoke output exceeded the complete-capture safety bound''
     else case cr_outcome r of
       CO_succeeded \<Rightarrow> None
     | CO_nonzero_exit \<Rightarrow> Some (''candidate smoke command exited with status '' @ exit_text (cr_exit_code r))
     | CO_timed_out \<Rightarrow> Some ''candidate smoke command timed out and its process group was terminated''
     | CO_cancelled \<Rightarrow> Some ''candidate smoke command was cancelled and its process group was terminated''
     | CO_cleanup_failed \<Rightarrow> Some (''candidate smoke process cleanup could not be proven: '' @
         (case cr_cleanup_error r of Some (c # cs) \<Rightarrow> c # cs | _ \<Rightarrow> ''unknown cleanup failure''))
     | CO_start_failed \<Rightarrow> Some (''candidate smoke command could not start: '' @
         (case cr_start_error r of Some (c # cs) \<Rightarrow> c # cs | _ \<Rightarrow> ''unknown start failure'')))"

text \<open>
  \<^verbatim>\<open>check_application\<close>: \<open>execute\<close> runs the smoke command; the second component of the result
  says whether it was executed.
\<close>

definition check_application ::
  "health_checker \<Rightarrow> rat \<Rightarrow> (nat \<Rightarrow> round_view) \<Rightarrow> (string list \<Rightarrow> command_result) \<Rightarrow> nat \<Rightarrow>
   (health_result result \<times> bool) option"
where
  "check_application hc started look execute fuel =
    (case wait_until_ready hc started look fuel 0 None of
       None \<Rightarrow> None
     | Some (Inl r) \<Rightarrow> Some (Inl (ReadinessCheckError (rd_reason r)), False)
     | Some (Inr r) \<Rightarrow> Some (case hc_smoke_command hc of
         None \<Rightarrow> (Inr \<lparr>hl_readiness = r, hl_smoke = None\<rparr>, False)
       | Some command \<Rightarrow>
          (let c = execute command in
           (case smoke_failure c of
              Some msg \<Rightarrow> Inl (SmokeCheckError msg (cr_outcome c \<noteq> CO_cleanup_failed))
            | None \<Rightarrow> Inr \<lparr>hl_readiness = r, hl_smoke = Some c\<rparr>, True))))"

section \<open>Facts\<close>

lemma smoke_failure_None: "smoke_failure c = None \<longleftrightarrow> command_succeeded c \<and> output_complete c"
  by (auto simp: smoke_failure_def command_succeeded_def output_complete_def split: command_outcome.split)

lemma request_healthy:
  "at_outcome (request_once hc n d v) = HO_healthy \<Longrightarrow>
   \<exists>code. at_status_code (request_once hc n d v) = Some code \<and> 200 \<le> code \<and> code < 300"
  by (auto simp: request_once_def request_outcome_def transport_attempt_def status_verdict_def
      split: prod.splits http_response.splits body_result.splits if_splits)

lemma request_once_simps [simp]:
  "at_attempt (request_once hc n d v) = n" "0 \<le> at_duration (request_once hc n d v)"
  by (simp_all add: request_once_def split: prod.split)

definition last_matches :: "nat \<Rightarrow> health_attempt option \<Rightarrow> bool" where
  "last_matches k prev \<longleftrightarrow> (prev = None \<longrightarrow> k = 0) \<and> option_all (\<lambda>a. at_attempt a = int k) prev"

lemma wait_evidence:
  assumes "wait_until_ready hc started look fuel k prev = Some r" and "last_matches k prev"
  shows "case r of
     Inr e \<Rightarrow> readiness_problem e = None \<and> rd_healthy e \<and>
       (\<exists>a code. rd_last_attempt e = Some a \<and> at_status_code a = Some code \<and> 200 \<le> code \<and> code < 300)
   | Inl e \<Rightarrow> readiness_problem e = None \<and> \<not> rd_healthy e"
  using assms
proof (induction fuel arbitrary: k prev)
  case (Suc fuel)
  let ?v = "look k" and ?d = "started + hc_timeout hc"
  let ?a = "request_once hc (int k + 1) ?d ?v"
  have step: "last_matches (Suc k) (Some ?a)" by (simp add: last_matches_def)
  show ?case
    using Suc.prems Suc.IH [OF _ step] request_healthy [of hc "int k + 1" ?d ?v]
    by (auto simp: Let_def readiness_problem_def readiness_def last_matches_def cancelled_reason_def
        deadline_reason_def split: if_splits option.splits)
qed simp

lemma wait_terminates:
  assumes "\<And>n. rv_now (look n) \<ge> started + of_nat n * step" and "0 < step"
    and "hc_timeout hc \<le> of_nat (k + fuel) * step"
  shows "\<exists>r. wait_until_ready hc started look (Suc fuel) k prev = Some r"
  using assms(3)
proof (induction fuel arbitrary: k prev)
  case 0
  have "started + hc_timeout hc - rv_now (look k) \<le> 0" using assms(1) [of k] 0 by simp
  then show ?case by (simp add: Let_def)
next
  case (Suc fuel)
  have "hc_timeout hc \<le> of_nat (Suc k + fuel) * step" using Suc.prems by simp
  from Suc.IH [OF this]
  show ?case by (subst wait_until_ready.simps) (auto simp: Let_def simp del: wait_until_ready.simps)
qed


text \<open>
  A health check passes only on a real 2xx response, with evidence its validators accept and
  with a complete successful smoke command when one is configured; without readiness the smoke
  command is never executed.
\<close>

theorem passing_health_is_real:
  assumes "check_application hc started look execute fuel = Some (res, smoked)"
  shows "(case res of
      Inr h \<Rightarrow> health_result_problem h = None \<and> readiness_problem (hl_readiness h) = None \<and>
        (\<exists>a code. rd_last_attempt (hl_readiness h) = Some a \<and> at_status_code a = Some code \<and>
           200 \<le> code \<and> code < 300) \<and>
        (hl_smoke h = None \<longleftrightarrow> hc_smoke_command hc = None)
    | Inl x \<Rightarrow> (\<exists>why. x = ReadinessCheckError why \<and> \<not> smoked) \<or> (\<exists>why clean. x = SmokeCheckError why clean \<and> smoked))"
proof (cases "wait_until_ready hc started look fuel 0 None")
  case (Some r)
  have "last_matches 0 None" by (simp add: last_matches_def)
  note ev = wait_evidence [OF Some this]
  show ?thesis
  proof (cases r)
    case (Inl e)
    then show ?thesis using assms Some by (auto simp: check_application_def)
  next
    case (Inr e)
    then show ?thesis using assms Some ev
      by (auto simp: check_application_def Let_def health_result_problem_def smoke_failure_None
          split: option.splits)
  qed
qed (use assms in \<open>simp add: check_application_def\<close>)

section \<open>A check to evaluate on\<close>

definition example_checker :: health_checker where
  "example_checker = \<lparr>hc_url = ''http://127.0.0.1:8000/health'', hc_timeout = 3, hc_timeout_text = ''3'',
     hc_max_response_bytes = 64, hc_smoke_command = None, hc_redact = id, hc_decode = (\<lambda>_. ''body'')\<rparr>"

text \<open>An application that refuses the first connection and answers the second.\<close>

definition example_look :: "nat \<Rightarrow> round_view" where
  "example_look n = \<lparr>rv_cancelled = False, rv_now = of_nat n, rv_request_start = of_nat n,
     rv_response = (if n = 0 then Transport_failed ''refused'' else Http_response 204 []),
     rv_request_end = of_nat n, rv_after = of_nat n, rv_end = of_nat n\<rparr>"


lemma example_check:
  "\<exists>h. check_application example_checker 0 example_look execute 4 = Some (Inr h, False)"
  by (simp add: check_application_def numeral_eq_Suc Let_def example_checker_def example_look_def
      request_once_def request_outcome_def transport_attempt_def status_verdict_def)

theorem passing_health_is_real_witness:
  "\<exists>h. check_application example_checker 0 example_look (\<lambda>_. undefined) 4 = Some (Inr h, False) \<and>
     health_result_problem h = None"
proof -
  obtain h where h: "check_application example_checker 0 example_look (\<lambda>_. undefined) 4 = Some (Inr h, False)"
    using example_check by blast
  from passing_health_is_real [OF this] h show ?thesis by auto
qed

end
