(* ===== verification/Evidence.thy ===== *)
theory Evidence
  imports Health
begin

text \<open>
  What the production application runner proves and returns (the frozen dataclasses of
  \<^verbatim>\<open>dploydb/runners/base.py\<close>) and the JSON evidence the coordinator records of it
  (\<^verbatim>\<open>dploydb/deployment_evidence.py\<close>).
\<close>

section \<open>Proofs of the production runner\<close>

record container_mount =
  mt_type :: string
  mt_source :: string
  mt_destination :: string
  mt_read_write :: bool

record production_inspection =
  pn_handle :: application_handle
  pn_running :: bool
  pn_mounts :: "container_mount list"
  pn_command :: command_result

record production_discovery =
  pd_query :: command_result
  pd_inspection :: production_inspection

record production_stop =
  ps_handle :: application_handle
  ps_command :: command_result
  ps_inspection :: production_inspection

record production_start =
  pt_handle :: application_handle
  pt_container_reference :: string
  pt_command :: command_result
  pt_inspection :: production_inspection

record network_refresh =
  nr_network_name :: string
  nr_aliases :: "string list"
  nr_disconnect :: command_result
  nr_connect :: command_result

record production_restart =
  pr_handle :: application_handle
  pr_command :: command_result
  pr_inspection :: production_inspection
  pr_network_refreshes :: "network_refresh list"

record production_logs =
  pl_handle :: application_handle
  pl_command :: command_result

record cleanup_proof =
  cp_container_absent :: bool
  cp_networks_absent :: bool
  cp_container_query :: command_result
  cp_network_query :: command_result

definition cleanup_proven :: "cleanup_proof \<Rightarrow> bool" where
  "cleanup_proven p \<longleftrightarrow> cp_container_absent p \<and> cp_networks_absent p"

record production_cleanup =
  pc_presence_query :: command_result
  pc_remove_command :: "command_result option"
  pc_compose_down :: command_result
  pc_proof :: cleanup_proof

text \<open>\<^verbatim>\<open>validate_operation_id\<close> and \<^verbatim>\<open>validate_release_identifier\<close>.\<close>

definition validated_operation_id :: "string \<Rightarrow> string result" where
  "validated_operation_id i =
     (if is_operation_id i then Inr i
      else Inl (value_error ''operation_id must be an opaque DployDB operation ID''))"

fun has_double_dot :: "string \<Rightarrow> bool" where
  "has_double_dot (a # b # cs) \<longleftrightarrow> (a = CHR ''.'' \<and> b = CHR ''.'') \<or> has_double_dot (b # cs)"
| "has_double_dot _ \<longleftrightarrow> False"

definition validated_release_identifier :: "string \<Rightarrow> string result" where
  "validated_release_identifier v =
     (if is_version v \<and> \<not> has_double_dot v then Inr v
      else Inl (value_error (''version must be 1-64 letters, digits, dots, underscores, or hyphens, ''
        @ ''start with a letter or digit, and contain no traversal sequence'')))"

section \<open>JSON of the durable models\<close>

text \<open>\<^verbatim>\<open>model_dump(mode="json")\<close>; \<open>utc t\<close> is the text of an instant.\<close>

fun source_value :: "app_source \<Rightarrow> string" where
  "source_value Src_bootstrap = ''bootstrap''"
| "source_value Src_release = ''release''"

definition handle_json :: "application_handle \<Rightarrow> json" where
  "handle_json h = JObj
     [(''source'', JStr (source_value (ah_source h))),
      (''container_id'', JStr (ah_container_id h)),
      (''container_name'', JStr (ah_container_name h)),
      (''compose_project'', JStr (ah_compose_project h)),
      (''compose_service'', JStr (ah_compose_service h)),
      (''version'', optional JStr (ah_version h)),
      (''release_id'', optional JStr (ah_release_id h)),
      (''operation_id'', optional JStr (ah_operation_id h)),
      (''database_directory'', JStr (ah_database_directory h)),
      (''database_target'', JStr (ah_database_target h)),
      (''host_port'', JInt (ah_host_port h)),
      (''container_port'', JInt (ah_container_port h)),
      (''health_url'', JStr (ah_health_url h))]"

definition sqlite_json :: "(int \<Rightarrow> string) \<Rightarrow> sqlite_verification \<Rightarrow> json" where
  "sqlite_json utc v = JObj
     [(''schema_version'', JInt 1),
      (''quick_check_passed'', JBool (sv_quick_check_passed v)),
      (''foreign_key_check_passed'', JBool (sv_foreign_key_check_passed v)),
      (''integrity_check_passed'', optional JBool (sv_integrity_check_passed v)),
      (''checked_at'', JStr (utc (serialize_utc_timestamp (sv_checked_at v)))),
      (''duration_seconds'', JFloat (sv_duration v))]"

section \<open>Evidence of the deployment steps\<close>

definition health_summary :: "health_result \<Rightarrow> health_role \<Rightarrow> string \<Rightarrow> health_evidence result" where
  "health_summary h role version =
    (let e = \<lparr>hv_role = role, hv_version = version, hv_url = rd_url (hl_readiness h),
              hv_readiness_attempts = rd_attempt_count (hl_readiness h),
              hv_smoke_succeeded = (hl_smoke h \<noteq> None)\<rparr>
     in if valid_health_evidence e then Inr e else Inl validation_error)"

definition backup_evidence :: "(int \<Rightarrow> string) \<Rightarrow> backup_artifact \<Rightarrow> json" where
  "backup_evidence utc a = JObj
     [(''backup_id'', JStr (bm_backup_id (ba_metadata a))),
      (''sha256'', JStr (bm_sha256 (ba_metadata a))),
      (''size_bytes'', JInt (bm_size_bytes (ba_metadata a))),
      (''database_path'', JStr (ba_directory a @ ''/'' @ ba_database_name a)),
      (''metadata_path'', JStr (ba_metadata_directory a @ ''/'' @ ba_metadata_name a)),
      (''sqlite'', sqlite_json utc (bm_sqlite (ba_metadata a)))]"

definition mount_evidence :: "container_mount \<Rightarrow> json" where
  "mount_evidence m = JObj
     [(''mount_type'', JStr (mt_type m)), (''source'', JStr (mt_source m)),
      (''destination'', JStr (mt_destination m)), (''read_write'', JBool (mt_read_write m))]"

definition inspection_evidence :: "production_inspection \<Rightarrow> json" where
  "inspection_evidence i = JObj
     [(''handle'', handle_json (pn_handle i)),
      (''running'', JBool (pn_running i)),
      (''mounts'', JList (map mount_evidence (pn_mounts i))),
      (''command'', command_as_evidence (pn_command i))]"

definition discovery_evidence :: "production_discovery \<Rightarrow> json" where
  "discovery_evidence d = JObj
     [(''query'', command_as_evidence (pd_query d)),
      (''inspection'', inspection_evidence (pd_inspection d))]"

definition stop_evidence :: "production_stop \<Rightarrow> json" where
  "stop_evidence s = JObj
     [(''handle'', handle_json (ps_handle s)),
      (''command'', command_as_evidence (ps_command s)),
      (''inspection'', inspection_evidence (ps_inspection s))]"

definition start_evidence :: "production_start \<Rightarrow> json" where
  "start_evidence s = JObj
     [(''handle'', handle_json (pt_handle s)),
      (''container_reference'', JStr (pt_container_reference s)),
      (''command'', command_as_evidence (pt_command s)),
      (''inspection'', inspection_evidence (pt_inspection s))]"

definition cleanup_evidence :: "production_cleanup \<Rightarrow> json" where
  "cleanup_evidence c = JObj
     [(''presence_query'', command_as_evidence (pc_presence_query c)),
      (''remove_command'', optional command_as_evidence (pc_remove_command c)),
      (''compose_down'', command_as_evidence (pc_compose_down c)),
      (''proof'', JObj
         [(''container_absent'', JBool (cp_container_absent (pc_proof c))),
          (''networks_absent'', JBool (cp_networks_absent (pc_proof c))),
          (''proven'', JBool (cleanup_proven (pc_proof c))),
          (''container_query'', command_as_evidence (cp_container_query (pc_proof c))),
          (''network_query'', command_as_evidence (cp_network_query (pc_proof c)))])]"

definition refresh_evidence :: "network_refresh \<Rightarrow> json" where
  "refresh_evidence r = JObj
     [(''network_name'', JStr (nr_network_name r)),
      (''aliases'', JList (map JStr (nr_aliases r))),
      (''disconnect'', command_as_evidence (nr_disconnect r)),
      (''connect'', command_as_evidence (nr_connect r))]"

definition restart_evidence :: "production_restart \<Rightarrow> json" where
  "restart_evidence r = JObj
     [(''handle'', handle_json (pr_handle r)),
      (''network_refreshes'', JList (map refresh_evidence (pr_network_refreshes r))),
      (''command'', command_as_evidence (pr_command r)),
      (''inspection'', inspection_evidence (pr_inspection r))]"

text \<open>\<^verbatim>\<open>FailurePayload.as_dict\<close>\<close>

definition payload_json :: "failure_payload \<Rightarrow> json" where
  "payload_json p = JObj
     [(''ok'', JBool False),
      (''error_code'', JStr (fp_error_code p)),
      (''exit_code'', JInt (fp_exit_code p)),
      (''what_failed'', JStr (fp_what_failed p)),
      (''production_changed'', JBool (fp_production_changed p)),
      (''previous_application_running'', optional JBool (fp_previous_application_running p)),
      (''recovery_required'', JBool (fp_recovery_required p)),
      (''log_path'', optional JStr (fp_log_path p)),
      (''next_safe_action'', JStr (fp_next_safe_action p))]"

section \<open>Database proofs of the cutover\<close>

record migration_result =
  mr_operation_id :: string
  mr_final_backup_id :: string
  mr_final_backup_sha256 :: string
  mr_command :: command_result
  mr_sqlite :: sqlite_verification
  mr_completed_at :: int

record restore_proof =
  vr_backup_id :: string
  vr_database_path :: string
  vr_size_bytes :: int
  vr_sha256 :: string
  vr_sqlite :: sqlite_verification
  vr_restored_at :: int

text \<open>
  \<^verbatim>\<open>MigrationCommandEvidence\<close> has the fields of a command result; its validators repeat those of
  the captured streams, and its JSON is the command's.
\<close>

definition migration_command_evidence :: "command_result \<Rightarrow> command_result result" where
  "migration_command_evidence r =
     (if captured_output_problem (cr_stdout r) = None \<and> captured_output_problem (cr_stderr r) = None \<and>
         0 \<le> cr_duration r
      then Inr r else Inl validation_error)"

definition migration_result_json :: "(int \<Rightarrow> string) \<Rightarrow> migration_result \<Rightarrow> json" where
  "migration_result_json utc m = JObj
     [(''operation_id'', JStr (mr_operation_id m)),
      (''final_backup_id'', JStr (mr_final_backup_id m)),
      (''final_backup_sha256'', JStr (mr_final_backup_sha256 m)),
      (''command'', command_as_evidence (mr_command m)),
      (''sqlite'', sqlite_json utc (mr_sqlite m)),
      (''completed_at'', JStr (utc (serialize_utc_timestamp (mr_completed_at m))))]"

definition restore_proof_json :: "(int \<Rightarrow> string) \<Rightarrow> restore_proof \<Rightarrow> json" where
  "restore_proof_json utc r = JObj
     [(''backup_id'', JStr (vr_backup_id r)),
      (''database_path'', JStr (vr_database_path r)),
      (''size_bytes'', JInt (vr_size_bytes r)),
      (''sha256'', JStr (vr_sha256 r)),
      (''sqlite'', sqlite_json utc (vr_sqlite r)),
      (''restored_at'', JStr (utc (serialize_utc_timestamp (vr_restored_at r))))]"

definition valid_migration_result :: "migration_result \<Rightarrow> bool" where
  "valid_migration_result m \<longleftrightarrow>
     is_operation_id (mr_operation_id m) \<and> is_backup_id (mr_final_backup_id m) \<and>
     is_sha256 (mr_final_backup_sha256 m) \<and> valid_sqlite_verification (mr_sqlite m)"

definition valid_restore_proof :: "restore_proof \<Rightarrow> bool" where
  "valid_restore_proof r \<longleftrightarrow>
     is_backup_id (vr_backup_id r) \<and> 0 < vr_size_bytes r \<and> is_sha256 (vr_sha256 r) \<and>
     valid_sqlite_verification (vr_sqlite r) \<and> is_absolute (vr_database_path r)"

section \<open>Remote backups\<close>

text \<open>\<^verbatim>\<open>value.split("/")\<close>\<close>

fun path_parts :: "string \<Rightarrow> string list" where
  "path_parts [] = [[]]"
| "path_parts (c # cs) =
     (if c = CHR ''/'' then [] # path_parts cs
      else case path_parts cs of [] \<Rightarrow> [[c]] | p # ps \<Rightarrow> (c # p) # ps)"

definition object_key_ok :: "string \<Rightarrow> bool" where
  "object_key_ok k \<longleftrightarrow>
     length_between 1 1024 k \<and>
     \<not> (is_absolute k \<or> CHR 0x00 \<in> set k \<or> list_ex (\<lambda>p. p \<in> {'''', ''.'', ''..''}) (path_parts k))"

record remote_metadata =
  rb_backup :: backup_metadata
  rb_release_id :: "string option"
  rb_database_object_key :: string
  rb_uploaded_at :: int

definition valid_remote_metadata :: "remote_metadata \<Rightarrow> bool" where
  "valid_remote_metadata r \<longleftrightarrow>
     valid_backup_metadata (rb_backup r) \<and> option_all is_release_id (rb_release_id r) \<and>
     object_key_ok (rb_database_object_key r) \<and>
     last (path_parts (rb_database_object_key r)) = bm_database_file_name (rb_backup r)"

record remote_artifact =
  ra_metadata :: remote_metadata
  ra_bucket :: string
  ra_metadata_object_key :: string

definition valid_remote_artifact :: "remote_artifact \<Rightarrow> bool" where
  "valid_remote_artifact a \<longleftrightarrow>
     valid_remote_metadata (ra_metadata a) \<and> length_between 1 255 (ra_bucket a) \<and>
     object_key_ok (ra_metadata_object_key a) \<and>
     last (path_parts (ra_metadata_object_key a)) =
       bm_backup_id (rb_backup (ra_metadata a)) @ ''.json''"

fun purpose_value :: "backup_purpose \<Rightarrow> string" where
  "purpose_value BP_standalone = ''standalone''"
| "purpose_value BP_pre_restore = ''pre_restore''"
| "purpose_value BP_rehearsal = ''rehearsal''"
| "purpose_value BP_final = ''final''"

definition metadata_json :: "(int \<Rightarrow> string) \<Rightarrow> backup_metadata \<Rightarrow> json" where
  "metadata_json utc m = JObj
     [(''schema_version'', JInt 1),
      (''backup_id'', JStr (bm_backup_id m)),
      (''project'', JStr (bm_project m)),
      (''purpose'', JStr (purpose_value (bm_purpose m))),
      (''source_database_path'', JStr (bm_source_database_path m)),
      (''database_file_name'', JStr (bm_database_file_name m)),
      (''size_bytes'', JInt (bm_size_bytes m)),
      (''sha256'', JStr (bm_sha256 m)),
      (''sqlite'', sqlite_json utc (bm_sqlite m)),
      (''operation_id'', optional JStr (bm_operation_id m)),
      (''created_at'', JStr (utc (serialize_utc_timestamp (bm_created_at m)))),
      (''completed_at'', JStr (utc (serialize_utc_timestamp (bm_completed_at m))))]"

definition remote_json :: "(int \<Rightarrow> string) \<Rightarrow> remote_artifact \<Rightarrow> json" where
  "remote_json utc a = JObj
     [(''metadata'', JObj
         [(''schema_version'', JInt 1),
          (''backup'', metadata_json utc (rb_backup (ra_metadata a))),
          (''release_id'', optional JStr (rb_release_id (ra_metadata a))),
          (''database_object_key'', JStr (rb_database_object_key (ra_metadata a))),
          (''uploaded_at'', JStr (utc (serialize_utc_timestamp (rb_uploaded_at (ra_metadata a)))))]),
      (''bucket'', JStr (ra_bucket a)),
      (''metadata_object_key'', JStr (ra_metadata_object_key a))]"

section \<open>Values to evaluate on\<close>

definition example_output :: captured_output where
  "example_output = \<lparr>co_text = '''', co_total_bytes = 0, co_retained_bytes = 0, co_truncated = False\<rparr>"

definition example_command :: command_result where
  "example_command = \<lparr>cr_command = [''docker''], cr_working_directory = ''/srv'', cr_environment_keys = [],
     cr_outcome = CO_succeeded, cr_exit_code = Some 0, cr_stdout = example_output,
     cr_stderr = example_output, cr_duration = 1, cr_termination_reason = None,
     cr_termination_attempted = False, cr_forced_kill = False, cr_start_error = None,
     cr_cleanup_error = None\<rparr>"

definition failed_command :: command_result where
  "failed_command = example_command\<lparr>cr_outcome := CO_nonzero_exit, cr_exit_code := Some 1\<rparr>"

definition example_handle :: application_handle where
  "example_handle = \<lparr>ah_source = Src_bootstrap, ah_container_id = ''0123456789ab'',
     ah_container_name = ''shop'', ah_compose_project = ''shop'', ah_compose_service = ''web'',
     ah_version = None, ah_release_id = None, ah_operation_id = None,
     ah_database_directory = ''/srv/data'', ah_database_target = ''/data'', ah_host_port = 8000,
     ah_container_port = 8000, ah_health_url = ''http://127.0.0.1:8000/health''\<rparr>"

definition example_inspection :: "application_handle \<Rightarrow> bool \<Rightarrow> production_inspection" where
  "example_inspection h running =
     \<lparr>pn_handle = h, pn_running = running, pn_mounts = [], pn_command = example_command\<rparr>"

definition example_stop :: production_stop where
  "example_stop = \<lparr>ps_handle = example_handle, ps_command = example_command,
     ps_inspection = example_inspection example_handle False\<rparr>"

definition example_sqlite :: sqlite_verification where
  "example_sqlite = \<lparr>sv_quick_check_passed = True, sv_foreign_key_check_passed = True,
     sv_integrity_check_passed = None, sv_checked_at = 1000, sv_duration = 0\<rparr>"

definition final_backup_id :: string where
  "final_backup_id = ''backup_00112233445566778899aabbccddeeff''"

definition final_operation_id :: string where
  "final_operation_id = ''op_00112233445566778899aabbccddeeff''"

definition final_sha :: string where
  "final_sha = ''00112233445566778899aabbccddeeff00112233445566778899aabbccddeeff''"

definition example_final :: backup_artifact where
  "example_final = \<lparr>ba_metadata = \<lparr>bm_backup_id = final_backup_id, bm_project = ''shop'',
       bm_purpose = BP_final, bm_source_database_path = ''/srv/data/app.db'',
       bm_database_file_name = final_backup_id @ ''.db'', bm_size_bytes = 4096, bm_sha256 = final_sha,
       bm_sqlite = example_sqlite, bm_operation_id = Some final_operation_id, bm_created_at = 1000,
       bm_completed_at = 2000\<rparr>,
     ba_directory = ''/srv/backups'', ba_metadata_directory = ''/srv/backups'',
     ba_database_name = final_backup_id @ ''.db'', ba_metadata_name = final_backup_id @ ''.json''\<rparr>"

lemma example_commands [simp]:
  "command_succeeded example_command" "output_complete example_command"
  "\<not> command_succeeded failed_command" "cr_outcome failed_command = CO_nonzero_exit"
  "cr_outcome example_command = CO_succeeded"
  "co_truncated example_output = False"
  "captured_output_problem example_output = None" "0 \<le> cr_duration example_command"
  "cr_stdout example_command = example_output" "cr_stderr example_command = example_output"
  "valid_command_result example_command" "valid_command_result failed_command"
  by (simp_all add: example_command_def failed_command_def example_output_def command_succeeded_def
      output_complete_def captured_output_problem_def valid_command_result_def command_result_checks_def)

lemma example_proofs [simp]:
  "is_operation_id final_operation_id" "is_backup_id final_backup_id" "is_sha256 final_sha"
  "valid_sqlite_verification example_sqlite"
  by (simp_all add: final_operation_id_def final_backup_id_def final_sha_def is_operation_id_def
      is_backup_id_def is_sha256_def hex_tail_def is_lower_hex_def example_sqlite_def
      valid_sqlite_verification_def)

end
