(* ===== verification/Cutover.thy ===== *)
theory Cutover
  imports Evidence
begin

text \<open>
  The database side of the cutover, \<^verbatim>\<open>dploydb/cutover.py\<close>: the final backup, the production
  migration, and the restore of the final backup, each behind the proof that the production
  application is stopped and behind a fresh verification of the backup's identity. The backup
  engine, the command runner, SQLite and the restore are the operations of a record, over a
  world of any type.
\<close>

section \<open>Environment and proof of a stopped application\<close>

record cutover_env =
  ce_project :: string
  ce_redact :: "string \<Rightarrow> string"
  ce_database_path :: string
  ce_database_parent :: string
  ce_database_target :: string
  ce_resolve :: "string \<Rightarrow> string"

record 'w cutover_ops =
  co_create_backup :: "string \<Rightarrow> backup_purpose \<Rightarrow> string \<Rightarrow> ('w, exn, backup_artifact) act"
  co_verify_backup :: "string \<Rightarrow> ('w, exn, backup_artifact) act"
  co_run_migration :: "('w, exn, command_result) act"
  co_verify_sqlite :: "('w, exn, sqlite_verification) act"
  co_restore_database :: "backup_artifact \<Rightarrow> bool \<Rightarrow> bool \<Rightarrow> ('w, exn, restore_proof) act"
  co_now :: "'w \<Rightarrow> int"

definition stopped_proof_ok :: "cutover_env \<Rightarrow> production_stop \<Rightarrow> bool" where
  "stopped_proof_ok env s \<longleftrightarrow>
     \<not> (pn_handle (ps_inspection s) \<noteq> ps_handle s \<or>
        pn_running (ps_inspection s) \<or>
        \<not> command_succeeded (ps_command s) \<or>
        co_truncated (cr_stdout (ps_command s)) \<or>
        co_truncated (cr_stderr (ps_command s)) \<or>
        \<not> command_succeeded (pn_command (ps_inspection s)) \<or>
        co_truncated (cr_stdout (pn_command (ps_inspection s))) \<or>
        co_truncated (cr_stderr (pn_command (ps_inspection s))) \<or>
        ce_resolve env (ah_database_directory (ps_handle s)) \<noteq> ce_resolve env (ce_database_parent env) \<or>
        ah_database_target (ps_handle s) \<noteq> ce_database_target env)"

definition not_stopped_error :: "cutover_env \<Rightarrow> exn" where
  "not_stopped_error env = Dploy (mk_error SafetyCheckError
     ''final database operation requires matching proof that production is stopped''
     False None (Some (ce_database_path env))
     ''Do not access production; stop and inspect the exact current application first.'')"

definition require_stopped :: "cutover_env \<Rightarrow> production_stop \<Rightarrow> unit result" where
  "require_stopped env s = ensure (stopped_proof_ok env s) (not_stopped_error env)"

section \<open>The final backup\<close>

definition backup_path :: "backup_artifact \<Rightarrow> string" where
  "backup_path a = ba_metadata_directory a @ ''/'' @ ba_metadata_name a"

definition final_backup_error :: "backup_artifact \<Rightarrow> bool \<Rightarrow> string \<Rightarrow> exn" where
  "final_backup_error a changed what = Dploy (mk_error SafetyCheckError what changed (Some False)
     (Some (backup_path a)) ''Do not migrate or restore production; create a new final backup.'')"

definition is_final_backup_of :: "cutover_env \<Rightarrow> string \<Rightarrow> backup_artifact \<Rightarrow> bool" where
  "is_final_backup_of env i a \<longleftrightarrow>
     bm_purpose (ba_metadata a) = BP_final \<and> bm_operation_id (ba_metadata a) = Some i \<and>
     bm_project (ba_metadata a) = ce_redact env (ce_project env)"

definition verify_final_backup ::
  "cutover_env \<Rightarrow> 'w cutover_ops \<Rightarrow> backup_artifact \<Rightarrow> string \<Rightarrow> bool \<Rightarrow> ('w, exn, backup_artifact) act"
where
  "verify_final_backup env ops a i changed =
     bnd (on_dploy (co_verify_backup ops (bm_backup_id (ba_metadata a)))
            (\<lambda>e. raise (final_backup_error a changed (''final backup verification failed: '' @ err_what e))))
       (\<lambda>verified.
          if verified \<noteq> a \<or> \<not> is_final_backup_of env i verified
          then raise (final_backup_error a changed
                 ''final backup identity does not match the active deployment operation'')
          else ret verified)"

definition create_final_backup ::
  "cutover_env \<Rightarrow> 'w cutover_ops \<Rightarrow> string \<Rightarrow> production_stop \<Rightarrow> ('w, exn, backup_artifact) act" where
  "create_final_backup env ops i stopped =
     bnd (lift_result (validated_operation_id i)) (\<lambda>operation.
     andthen (lift_result (require_stopped env stopped))
    (bnd (co_create_backup ops (ce_redact env (ce_project env)) BP_final operation) (\<lambda>artifact.
     verify_final_backup env ops artifact operation False)))"

section \<open>The production migration\<close>

definition migration_may_have_changed :: "command_result \<Rightarrow> bool" where
  "migration_may_have_changed r \<longleftrightarrow>
     cr_outcome r \<notin> {CO_start_failed, CO_cancelled} \<or> cr_exit_code r \<noteq> None"

definition or_else :: "string option \<Rightarrow> string \<Rightarrow> string" where
  "or_else x d = (case x of Some (c # cs) \<Rightarrow> c # cs | _ \<Rightarrow> d)"

definition usable_migration :: "string \<Rightarrow> command_result \<Rightarrow> unit result" where
  "usable_migration log_path r =
    (if cr_outcome r = CO_succeeded
     then if \<not> co_truncated (cr_stdout r) \<and> \<not> co_truncated (cr_stderr r) then Inr ()
          else Inl (Dploy (mk_error ExternalCommandError
            ''production migration succeeded but complete output evidence was unavailable''
            True (Some False) (Some log_path)
            ''Keep traffic blocked and applications stopped; restore the final backup.''))
     else if cr_outcome r = CO_cleanup_failed
     then Inl (Dploy (mk_error RecoveryRequiredError
            (''production migration process cleanup could not be proven: '' @
               or_else (cr_cleanup_error r) ''unknown cleanup failure'')
            True (Some False) (Some log_path)
            (''Keep traffic blocked. Confirm the migration process group is gone before '' @
             ''restoring the final backup.'')))
     else Inl (Dploy (mk_error ExternalCommandError
            (''production migration '' @
              (case cr_outcome r of
                 CO_nonzero_exit \<Rightarrow> ''exited with status '' @ exit_text (cr_exit_code r)
               | CO_timed_out \<Rightarrow> ''timed out and its process group was terminated''
               | CO_cancelled \<Rightarrow> ''was cancelled and its process group was terminated''
               | _ \<Rightarrow> ''could not start: '' @ or_else (cr_start_error r) ''unknown start failure''))
            (migration_may_have_changed r) (Some False) (Some log_path)
            (''Keep traffic blocked and applications stopped; restore the final backup if the '' @
             ''migration process started.''))))"

definition migrate_production_database ::
  "cutover_env \<Rightarrow> 'w cutover_ops \<Rightarrow> string \<Rightarrow> production_stop \<Rightarrow> backup_artifact \<Rightarrow> bool \<Rightarrow>
   (command_result \<Rightarrow> ('w, exn, unit) act) \<Rightarrow> string \<Rightarrow> ('w, exn, migration_result) act"
where
  "migrate_production_database env ops i stopped final traffic_activated sink log_path =
     bnd (lift_result (validated_operation_id i)) (\<lambda>operation.
     andthen (lift_result (require_stopped env stopped))
    (if traffic_activated
     then raise (Dploy (mk_error SafetyCheckError
            ''production migration cannot start after new traffic was activated''
            False (Some False) (Some log_path) ''Keep the current release and inspect the traffic state.''))
     else bnd (verify_final_backup env ops final operation False) (\<lambda>verified.
     bnd (co_run_migration ops) (\<lambda>r.
     bnd (lift_result (migration_command_evidence r)) (\<lambda>evidence.
     andthen (on_exception (sink evidence) (\<lambda>x. raise (Dploy (mk_error RecoveryRequiredError
            (''production migration command finished but its durable evidence failed: '' @
               ce_redact env (describe_exn x))
            (migration_may_have_changed r) (Some False) (Some log_path)
            (''Keep traffic blocked and applications stopped. Preserve state and restore '' @
             ''the final backup if the migration process started.'')))))
    (andthen (lift_result (usable_migration log_path r))
    (bnd (on_dploy (co_verify_sqlite ops) (\<lambda>e. raise (Dploy (mk_error OperationFailedError
            (''post-migration production SQLite verification failed: '' @ err_what e)
            True (Some False) (Some log_path)
            ''Keep traffic blocked and applications stopped; restore the verified final backup.''))))
       (\<lambda>sqlite. bnd (fetch (co_now ops)) (\<lambda>now.
     let m = \<lparr>mr_operation_id = operation,
              mr_final_backup_id = bm_backup_id (ba_metadata verified),
              mr_final_backup_sha256 = bm_sha256 (ba_metadata verified),
              mr_command = evidence, mr_sqlite = sqlite, mr_completed_at = now\<rparr>
     in if valid_migration_result m then ret m else raise validation_error)))))))))"

section \<open>The restore of the final backup\<close>

definition restore_final_backup ::
  "cutover_env \<Rightarrow> 'w cutover_ops \<Rightarrow> string \<Rightarrow> production_stop \<Rightarrow> backup_artifact \<Rightarrow> bool \<Rightarrow>
   ('w, exn, restore_proof) act"
where
  "restore_final_backup env ops i stopped final traffic_activated =
     bnd (lift_result (validated_operation_id i)) (\<lambda>operation.
     andthen (lift_result (require_stopped env stopped))
    (if traffic_activated
     then raise (Dploy (mk_error SafetyCheckError
            ''automatic database restore is forbidden after new traffic was activated''
            True (Some False) (Some (ce_database_path env))
            ''Keep the current database and use the confirmed manual restore workflow.''))
     else bnd (verify_final_backup env ops final operation True) (\<lambda>verified.
     bnd (co_restore_database ops verified True traffic_activated) (\<lambda>restored.
     if vr_backup_id restored \<noteq> bm_backup_id (ba_metadata verified) \<or>
        vr_size_bytes restored \<noteq> bm_size_bytes (ba_metadata verified) \<or>
        vr_sha256 restored \<noteq> bm_sha256 (ba_metadata verified)
     then raise (Dploy (mk_error RecoveryRequiredError
            ''database rollback result contradicts the verified final backup''
            True (Some False) (Some (ce_database_path env))
            ''Keep applications stopped and verify the final backup manually.''))
     else ret restored))))"

section \<open>Facts\<close>

definition database_guard :: "cutover_env \<Rightarrow> string \<Rightarrow> production_stop \<Rightarrow> backup_artifact \<Rightarrow> bool \<Rightarrow> bool" where
  "database_guard env i stopped final traffic_activated \<longleftrightarrow>
     is_operation_id i \<and> stopped_proof_ok env stopped \<and> \<not> traffic_activated \<and>
     is_final_backup_of env i final"

lemma triple_lift_stop:
  assumes "\<And>x. r = Inr x \<Longrightarrow> triple P (g x) Q (\<lambda>_. P)"
  shows "triple P (bnd (lift_result r) g) Q (\<lambda>_. P)"
  by (rule triple_lift_bnd) (simp_all add: assms)

lemma triple_lift_stop_andthen:
  assumes "\<And>x. r = Inr x \<Longrightarrow> triple P n Q (\<lambda>_. P)"
  shows "triple P (andthen (lift_result r) n) Q (\<lambda>_. P)"
  unfolding andthen_def using assms by (rule triple_lift_stop)

lemma validated_Inr: "validated_operation_id i = Inr j \<longleftrightarrow> j = i \<and> is_operation_id i"
  by (auto simp: validated_operation_id_def)

lemma triple_raise_stop: "triple P (raise e) Q (\<lambda>_. P)"
  by (simp add: triple_def raise_def)

lemma triple_verify_final:
  assumes "keeps I (co_verify_backup ops (bm_backup_id (ba_metadata a)))"
  shows "triple I (verify_final_backup env ops a i changed)
    (\<lambda>v s. I s \<and> v = a \<and> is_final_backup_of env i a) (\<lambda>_. I)"
  unfolding verify_final_backup_def
proof (rule triple_bnd [where R = "\<lambda>_. I"])
  show "triple I (on_dploy (co_verify_backup ops (bm_backup_id (ba_metadata a)))
      (\<lambda>e. raise (final_backup_error a changed (''final backup verification failed: '' @ err_what e))))
      (\<lambda>_. I) (\<lambda>_. I)"
    by (rule keeps_on_dploy [OF assms keeps_simple(2), unfolded keeps_def])
  show "triple I (if x \<noteq> a \<or> \<not> is_final_backup_of env i x
      then raise (final_backup_error a changed
             ''final backup identity does not match the active deployment operation'')
      else ret x) (\<lambda>v s. I s \<and> v = a \<and> is_final_backup_of env i a) (\<lambda>_. I)" for x
    by (rule triple_if [OF triple_raise_stop]) (simp add: triple_def ret_def)
qed

lemma triple_verified_or_never:
  assumes "keeps I (co_verify_backup ops (bm_backup_id (ba_metadata a)))" and "\<not> is_final_backup_of env i a"
  shows "triple I (bnd (verify_final_backup env ops a i changed) g) (\<lambda>_ _. False) (\<lambda>_. I)"
  by (rule triple_bnd [OF triple_verify_final [OF assms(1)]]) (simp add: assms(2) triple_impossible)


lemma usable_migration_Inr:
  "usable_migration p r = Inr () \<longleftrightarrow> command_succeeded r \<and> output_complete r"
  by (auto simp: usable_migration_def command_succeeded_def output_complete_def)

lemma bnd_Inr: "bnd m f s = (Inr y, t) \<longleftrightarrow> (\<exists>x u. m s = (Inr x, u) \<and> f x u = (Inr y, t))"
  by (auto simp: bnd_def split: prod.split sum.split)

lemma andthen_Inr: "andthen m n s = (Inr y, t) \<longleftrightarrow> (\<exists>x u. m s = (Inr x, u) \<and> n u = (Inr y, t))"
  by (simp add: andthen_def bnd_Inr)

lemma lift_Inr: "lift_result r s = (Inr y, t) \<longleftrightarrow> r = Inr y \<and> t = s"
  by (auto simp: lift_result_def)

lemma verify_final_Inr:
  "verify_final_backup env ops a i changed s = (Inr v, t) \<Longrightarrow> v = a \<and> is_final_backup_of env i a"
  by (auto simp: verify_final_backup_def bnd_Inr raise_def ret_def split: if_splits)

text \<open>
  A migration or a restore that returns is what it claims: the migration command succeeded
  with its output completely captured and its evidence was handed over first, the SQLite checks
  passed, and the result names the verified final backup of this operation; a restore reports
  exactly the bytes of that backup.
\<close>

theorem database_results_are_proven:
  "(\<forall>m t. migrate_production_database env ops i stopped final traffic sink log_path s = (Inr m, t) \<longrightarrow>
      database_guard env i stopped final traffic \<and> command_succeeded (mr_command m) \<and>
      output_complete (mr_command m) \<and> valid_migration_result m \<and> mr_operation_id m = i \<and>
      mr_final_backup_id m = bm_backup_id (ba_metadata final) \<and>
      mr_final_backup_sha256 m = bm_sha256 (ba_metadata final) \<and>
      (\<exists>u w. fst (sink (mr_command m) u) = Inr w)) \<and>
   (\<forall>r t. restore_final_backup env ops i stopped final traffic s = (Inr r, t) \<longrightarrow>
      database_guard env i stopped final traffic \<and> vr_backup_id r = bm_backup_id (ba_metadata final) \<and>
      vr_size_bytes r = bm_size_bytes (ba_metadata final) \<and> vr_sha256 r = bm_sha256 (ba_metadata final))"
proof (rule conjI; intro allI impI)
  fix m t assume "migrate_production_database env ops i stopped final traffic sink log_path s = (Inr m, t)"
  then obtain u u' v w w' r where *: "is_operation_id i" "stopped_proof_ok env stopped" "\<not> traffic"
      "verify_final_backup env ops final i False u = (Inr v, u')" "migration_command_evidence r = Inr (mr_command m)"
      "sink (mr_command m) w = (Inr (), w')" "usable_migration log_path r = Inr ()"
      "mr_operation_id m = i" "mr_final_backup_id m = bm_backup_id (ba_metadata v)"
      "mr_final_backup_sha256 m = bm_sha256 (ba_metadata v)" "valid_migration_result m"
    by (auto simp: migrate_production_database_def bnd_Inr andthen_Inr lift_Inr validated_Inr
        require_stopped_def raise_def on_exception_def catching_def fetch_def ret_def Let_def
        split: if_splits prod.splits sum.splits)
  have "r = mr_command m" using *(5) by (auto simp: migration_command_evidence_def split: if_splits)
  with * verify_final_Inr [OF *(4)]
  show "database_guard env i stopped final traffic \<and> command_succeeded (mr_command m) \<and>
      output_complete (mr_command m) \<and> valid_migration_result m \<and> mr_operation_id m = i \<and>
      mr_final_backup_id m = bm_backup_id (ba_metadata final) \<and>
      mr_final_backup_sha256 m = bm_sha256 (ba_metadata final) \<and>
      (\<exists>u w. fst (sink (mr_command m) u) = Inr w)"
    by (auto simp: database_guard_def usable_migration_Inr intro: exI [of _ w])
next
  fix r t assume "restore_final_backup env ops i stopped final traffic s = (Inr r, t)"
  then show "database_guard env i stopped final traffic \<and> vr_backup_id r = bm_backup_id (ba_metadata final) \<and>
      vr_size_bytes r = bm_size_bytes (ba_metadata final) \<and> vr_sha256 r = bm_sha256 (ba_metadata final)"
    by (auto simp: restore_final_backup_def bnd_Inr andthen_Inr lift_Inr validated_Inr require_stopped_def
        raise_def ret_def database_guard_def dest!: verify_final_Inr split: if_splits)
qed

text \<open>
  A migration that is reported as not having changed production never started: an error of
  the migration command denies a change only for a process that did not start or was cancelled
  before it started, and every other failed command is reported as a possible change.
\<close>

theorem unchanged_production_means_not_started:
  assumes "valid_command_result r" and "usable_migration log_path r = Inl x"
  shows "\<exists>e. x = Dploy e \<and> err_running e = Some False \<and>
    (\<not> err_changed e \<longleftrightarrow> cr_outcome r \<in> {CO_start_failed, CO_cancelled} \<and> cr_exit_code r = None) \<and>
    (err_recovery e \<longleftrightarrow> cr_outcome r = CO_cleanup_failed)"
  using assms
  by (cases "cr_outcome r")
    (auto simp: usable_migration_def migration_may_have_changed_def split: if_splits)

section \<open>A cutover to evaluate on\<close>

text \<open>The world counts the migrations that ran.\<close>

definition example_cutover :: cutover_env where
  "example_cutover = \<lparr>ce_project = ''shop'', ce_redact = id, ce_database_path = ''/srv/data/app.db'',
     ce_database_parent = ''/srv/data'', ce_database_target = ''/data'', ce_resolve = id\<rparr>"

definition example_ops :: "nat cutover_ops" where
  "example_ops = \<lparr>co_create_backup = (\<lambda>_ _ _. ret example_final),
     co_verify_backup = (\<lambda>_. ret example_final),
     co_run_migration = (\<lambda>n. (Inr example_command, Suc n)),
     co_verify_sqlite = ret example_sqlite,
     co_restore_database = (\<lambda>_ _ _. ret \<lparr>vr_backup_id = final_backup_id, vr_database_path = ''/srv/data/app.db'',
       vr_size_bytes = 4096, vr_sha256 = final_sha, vr_sqlite = example_sqlite, vr_restored_at = 3000\<rparr>),
     co_now = (\<lambda>_. 3000)\<rparr>"

lemma example_guard: "database_guard example_cutover final_operation_id example_stop example_final False"
  by (simp add: database_guard_def stopped_proof_ok_def example_stop_def example_inspection_def
      is_final_backup_of_def example_final_def example_cutover_def example_handle_def)


lemma example_migration_run:
  "\<exists>m. migrate_production_database example_cutover example_ops final_operation_id example_stop
      example_final False (\<lambda>_. ret ()) ''/log'' 0 = (Inr m, 1)"
  using example_guard
  by (simp add: migrate_production_database_def database_guard_def require_stopped_def
      validated_operation_id_def bnd_def andthen_def lift_result_def verify_final_backup_def on_dploy_def
      catching_def example_ops_def ret_def migration_command_evidence_def on_exception_def fetch_def
      ensure_def usable_migration_def Let_def valid_migration_result_def)
    (simp add: example_final_def)

theorem database_results_are_proven_witness:
  "\<exists>m. migrate_production_database example_cutover example_ops final_operation_id example_stop
      example_final False (\<lambda>_. ret ()) ''/log'' 0 = (Inr m, 1) \<and>
     mr_final_backup_id m = bm_backup_id (ba_metadata example_final)"
  using example_migration_run
    conjunct1 [OF database_results_are_proven [of example_cutover example_ops final_operation_id example_stop
        example_final False "\<lambda>_. ret ()" "''/log''" 0]]
  by blast

theorem unchanged_production_means_not_started_witness:
  "\<exists>e. usable_migration ''/log'' failed_command = Inl (Dploy e) \<and> err_changed e"
proof -
  obtain x where x: "usable_migration ''/log'' failed_command = Inl x"
    by (simp add: usable_migration_def)
  from unchanged_production_means_not_started [OF _ this] x show ?thesis by auto
qed

end
