(* ===== verification/Files.thy ===== *)
theory Files
  imports Models "HOL-Library.AList"
begin

text \<open>
  The part of the operating system the durable stores rest on: private regular files, the
  system calls that change them, and what can go wrong with each. A schedule says, for every
  system call an operation makes, whether it works, fails with \<^verbatim>\<open>OSError\<close>, writes only part of
  its data, or is never reached because the process is killed. Being killed is the exception
  \<open>killed\<close>, which no handler of the stores catches. Theorems quantify over all schedules, so
  they cover every combination of faults and every crash point.
\<close>

section \<open>Files and documents\<close>

datatype file_kind = FK_regular | FK_symlink | FK_directory

record 'c disk_file =
  f_kind :: file_kind
  f_mode :: nat
  f_content :: 'c

text \<open>
  A JSON document on disk: a whole one, the first bytes of one that was being written (it has
  no final newline), or bytes that do not parse.
\<close>

datatype 'a document = Whole 'a | Partial nat | Garbage

definition private_file :: "'c \<Rightarrow> 'c disk_file" where
  "private_file c = \<lparr>f_kind = FK_regular, f_mode = 384, f_content = c\<rparr>"

text \<open>\<^verbatim>\<open>0o600\<close> is 384 and \<^verbatim>\<open>0o700\<close> is 448.\<close>

definition file_mode :: nat where "file_mode = 384"

definition directory_mode :: nat where "directory_mode = 448"

definition is_private_file :: "'c disk_file \<Rightarrow> bool" where
  "is_private_file f \<longleftrightarrow> f_kind f = FK_regular \<and> f_mode f = file_mode"

lemma private_file_simps [simp]:
  "is_private_file (private_file c)" "f_content (private_file c) = c"
  "f_kind (private_file c) = FK_regular" "f_mode (private_file c) = file_mode"
  by (simp_all add: is_private_file_def private_file_def file_mode_def)

section \<open>System calls under a schedule\<close>

datatype fate = Works | Short nat | Fails | Dies

type_synonym schedule = "nat \<Rightarrow> fate"

record 'w osys =
  os_calls :: nat
  os_world :: 'w

definition os_error :: exn where
  "os_error = PyException ''OSError'' ''''"

definition killed :: exn where
  "killed = PyInterrupt ''killed''"

definition next_call :: "'w osys \<Rightarrow> 'w osys" where
  "next_call s = s\<lparr>os_calls := Suc (os_calls s)\<rparr>"

text \<open>A call with one effect: it happens, or the call fails without it.\<close>

definition syscall :: "schedule \<Rightarrow> ('w \<Rightarrow> 'w) \<Rightarrow> ('w osys, exn, unit) act" where
  "syscall sc eff s =
     (case sc (os_calls s) of
        Fails \<Rightarrow> (Inl os_error, next_call s)
      | Dies \<Rightarrow> (Inl killed, next_call s)
      | _ \<Rightarrow> (Inr (), (next_call s)\<lparr>os_world := eff (os_world s)\<rparr>))"

text \<open>
  The loop \<^verbatim>\<open>while written < len(payload): count = os.write(...)\<close>, which raises when a write
  makes no progress. \<open>upd n\<close> is the effect of the first \<open>n\<close> bytes being in the file.
\<close>

function write_all ::
  "schedule \<Rightarrow> (nat \<Rightarrow> 'w \<Rightarrow> 'w) \<Rightarrow> nat \<Rightarrow> nat \<Rightarrow> ('w osys, exn, unit) act" where
  "write_all sc upd len written s =
     (if written < len then
        (case sc (os_calls s) of
           Fails \<Rightarrow> (Inl os_error, next_call s)
         | Dies \<Rightarrow> (Inl killed, next_call s)
         | Works \<Rightarrow> (Inr (), (next_call s)\<lparr>os_world := upd len (os_world s)\<rparr>)
         | Short n \<Rightarrow>
             (if n = 0 then (Inl os_error, next_call s)
              else (let w = min len (written + n) in
                    write_all sc upd len w
                      ((next_call s)\<lparr>os_world := upd w (os_world s)\<rparr>))))
      else (Inr (), s))"
  by pat_completeness auto
termination
  by (relation "measure (\<lambda>(sc, upd, len, written, s). len - written)") auto

declare write_all.simps [simp del]

text \<open>The single-call variant: a short write is an error.\<close>

definition write_once ::
  "schedule \<Rightarrow> (nat \<Rightarrow> 'w \<Rightarrow> 'w) \<Rightarrow> nat \<Rightarrow> ('w osys, exn, unit) act" where
  "write_once sc upd len s =
     (case sc (os_calls s) of
        Fails \<Rightarrow> (Inl os_error, next_call s)
      | Dies \<Rightarrow> (Inl killed, next_call s)
      | Works \<Rightarrow> (Inr (), (next_call s)\<lparr>os_world := upd len (os_world s)\<rparr>)
      | Short n \<Rightarrow>
          (if n < len
           then (Inl os_error, (next_call s)\<lparr>os_world := upd n (os_world s)\<rparr>)
           else (Inr (), (next_call s)\<lparr>os_world := upd len (os_world s)\<rparr>)))"

text \<open>\<^verbatim>\<open>except OSError\<close>: the handler runs on \<^verbatim>\<open>OSError\<close> only, then raises an error of its own.\<close>

definition is_os_error :: "exn \<Rightarrow> bool" where
  "is_os_error e \<longleftrightarrow> e = os_error"

definition on_os_error ::
  "('s, exn, 'a) act \<Rightarrow> ('s, exn, 'a) act \<Rightarrow> ('s, exn, 'a) act" where
  "on_os_error m h = catching m (\<lambda>e. if is_os_error e then h else raise e)"

text \<open>\<^verbatim>\<open>try: ... except OSError: pass\<close>\<close>

definition ignoring :: "('s, exn, unit) act \<Rightarrow> ('s, exn, unit) act" where
  "ignoring m = on_os_error m (ret ())"

section \<open>Atomic replacement of a document\<close>

text \<open>
  One document at a fixed path with the temporary files beside it, named by a random
  suffix: the layout that \<^verbatim>\<open>_atomic_write\<close> of the release store, \<^verbatim>\<open>_atomic_write_manifest\<close> of
  the state store and \<^verbatim>\<open>_atomic_write_owner\<close> of the lock share.
\<close>

record 'a slot =
  sl_target :: "'a document disk_file option"
  sl_temps :: "(string \<times> 'a document disk_file) list"

definition empty_slot :: "'a slot" where
  "empty_slot = \<lparr>sl_target = None, sl_temps = []\<rparr>"

definition put_temp :: "string \<Rightarrow> 'a document disk_file \<Rightarrow> 'a slot \<Rightarrow> 'a slot" where
  "put_temp u f s = s\<lparr>sl_temps := (u, f) # filter (\<lambda>(v, _). v \<noteq> u) (sl_temps s)\<rparr>"

definition drop_temp :: "string \<Rightarrow> 'a slot \<Rightarrow> 'a slot" where
  "drop_temp u s = s\<lparr>sl_temps := filter (\<lambda>(v, _). v \<noteq> u) (sl_temps s)\<rparr>"

definition rename_temp :: "string \<Rightarrow> 'a slot \<Rightarrow> 'a slot" where
  "rename_temp u s =
     (case map_of (sl_temps s) u of
        None \<Rightarrow> s
      | Some f \<Rightarrow> (drop_temp u s)\<lparr>sl_target := Some f\<rparr>)"

definition written_document :: "'a \<Rightarrow> nat \<Rightarrow> nat \<Rightarrow> 'a document" where
  "written_document v len n = (if n < len then Partial n else Whole v)"

text \<open>The file while it is being filled, and the sequence up to the rename.\<close>

definition fill_temp :: "string \<Rightarrow> 'a \<Rightarrow> nat \<Rightarrow> nat \<Rightarrow> 'a slot \<Rightarrow> 'a slot" where
  "fill_temp u v len n = put_temp u (private_file (written_document v len n))"

definition replace_document ::
  "bool \<Rightarrow> schedule \<Rightarrow> string \<Rightarrow> 'a \<Rightarrow> nat \<Rightarrow> ('a slot osys, exn, unit) act" where
  "replace_document loop sc u v len =
     andthen (syscall sc (put_temp u (private_file (Partial 0))))
    (andthen (syscall sc id)
    (andthen (if loop then write_all sc (fill_temp u v len) len 0
              else write_once sc (fill_temp u v len) len)
    (andthen (syscall sc id)
    (andthen (syscall sc id)
             (syscall sc (rename_temp u))))))"

text \<open>
  The whole write: open and fill the temporary file, sync and close it, rename it over the
  target, sync the directory. When a call fails, the descriptor is closed and the temporary
  file unlinked, both ignoring a failure, and the store's own error is raised, which may
  depend on whether the rename had already happened.
\<close>

definition atomic_write ::
  "bool \<Rightarrow> schedule \<Rightarrow> string \<Rightarrow> (bool \<Rightarrow> exn) \<Rightarrow> 'a \<Rightarrow> nat \<Rightarrow> ('a slot osys, exn, unit) act" where
  "atomic_write loop sc u err v len =
     andthen
       (on_os_error (replace_document loop sc u v len)
         (andthen (ignoring (syscall sc id))
         (andthen (ignoring (syscall sc (drop_temp u)))
                  (raise (err False)))))
       (on_os_error (syscall sc id) (raise (err True)))"

section \<open>What a replacement can leave behind\<close>

lemma triple_syscall [hoare]:
  "triple (\<lambda>s. (\<forall>k. Q () \<lparr>os_calls = k, os_world = eff (os_world s)\<rparr>) \<and>
               (\<forall>k e. e \<in> {os_error, killed} \<longrightarrow> E e \<lparr>os_calls = k, os_world = os_world s\<rparr>))
     (syscall sc eff) Q E"
  by (rule tripleI; rename_tac s x t; case_tac s)
    (auto simp: syscall_def next_call_def split: fate.splits)

text \<open>
  The invariant of the filling phase: the target is what it was, and no file but the temporary
  one has changed.
\<close>

definition same_but :: "string \<Rightarrow> 'a slot \<Rightarrow> 'a slot \<Rightarrow> bool" where
  "same_but u s t \<longleftrightarrow>
     sl_target t = sl_target s \<and> (\<forall>v. v \<noteq> u \<longrightarrow> map_of (sl_temps t) v = map_of (sl_temps s) v)"

lemma same_but_refl [simp]: "same_but u s s"
  by (simp add: same_but_def)

lemma map_of_filter_key: "map_of (filter (\<lambda>(v, _). v \<noteq> u) xs) w = (if w = u then None else map_of xs w)"
  by (induction xs) auto

lemma put_temp_lookup: "map_of (sl_temps (put_temp u f s)) w = (if w = u then Some f else map_of (sl_temps s) w)"
  by (auto simp: put_temp_def map_of_filter_key)

lemma drop_temp_lookup: "map_of (sl_temps (drop_temp u s)) w = (if w = u then None else map_of (sl_temps s) w)"
  by (auto simp: drop_temp_def map_of_filter_key)

lemma temp_targets [simp]:
  "sl_target (put_temp u f s) = sl_target s" "sl_target (drop_temp u s) = sl_target s"
  "sl_target (fill_temp u v tt n s) = sl_target s"
  by (simp_all add: put_temp_def drop_temp_def fill_temp_def)

lemma same_but_put [simp]: "same_but u s t \<Longrightarrow> same_but u s (put_temp u f t)"
  by (simp add: same_but_def put_temp_lookup)

lemma same_but_fill [simp]: "same_but u s t \<Longrightarrow> same_but u s (fill_temp u v tt n t)"
  by (simp add: fill_temp_def)

lemma same_but_drop [simp]: "same_but u s t \<Longrightarrow> same_but u s (drop_temp u t)"
  by (simp add: same_but_def drop_temp_lookup)

lemma write_all_cases:
  assumes "\<And>n w. I w \<Longrightarrow> I (upd n w)" and "I (os_world s)"
    and "write_all sc upd len written s = (r, t)"
  shows "I (os_world t) \<and>
    (r = Inr () \<and> (written < len \<longrightarrow> (\<exists>w. I w \<and> os_world t = upd len w)) \<or>
     r \<in> {Inl os_error, Inl killed})"
  using assms
proof (induction sc upd len written s rule: write_all.induct)
  case (1 sc upd len written s)
  note step = "1.prems"(1)
  note eq = "1.prems"(3) [unfolded write_all.simps [of sc upd len written s]]
  show ?case
  proof (cases "\<exists>n. written < len \<and> sc (os_calls s) = Short n \<and> n \<noteq> 0")
    case True
    then obtain n where n: "written < len" "sc (os_calls s) = Short n" "n \<noteq> 0" by blast
    let ?w = "min len (written + n)"
    let ?s = "(next_call s)\<lparr>os_world := upd ?w (os_world s)\<rparr>"
    have init: "I (os_world ?s)" using step [OF "1.prems"(2)] by simp
    have run: "write_all sc upd len ?w ?s = (r, t)" using eq n by (simp add: Let_def)
    note IH = "1.IH" [OF n(1,2,3) refl step init run]
    show ?thesis
    proof (cases "?w < len")
      case True then show ?thesis using IH by auto
    next
      case False
      then have "?w = len" by simp
      then have "os_world t = upd len (os_world s) \<and> r = Inr ()"
        using run by (auto simp: write_all.simps)
      then show ?thesis using IH "1.prems"(2) by auto
    qed
  next
    case False
    then show ?thesis using eq "1.prems"(2) step
      by (auto simp: next_call_def split: if_splits fate.splits)
  qed
qed

text \<open>
  The filling phase as a proof rule: while it runs only the temporary file changes; if it
  returns, that file is whole.
\<close>

definition filled :: "string \<Rightarrow> 'a \<Rightarrow> 'a slot \<Rightarrow> 'a slot \<Rightarrow> bool" where
  "filled u v s t \<longleftrightarrow>
     same_but u s t \<and> map_of (sl_temps t) u = Some (private_file (Whole v))"

lemma fill_whole: "same_but u s t \<Longrightarrow> filled u v s (fill_temp u v len len t)"
  by (simp add: filled_def fill_temp_def put_temp_lookup written_document_def)

abbreviation os_raised :: "exn \<Rightarrow> bool" where
  "os_raised e \<equiv> e = os_error \<or> e = killed"

lemma triple_fill:
  assumes "0 < len"
  shows "triple (\<lambda>w. same_but u s (os_world w))
    (if loop then write_all sc (fill_temp u v len) len 0 else write_once sc (fill_temp u v len) len)
    (\<lambda>_ w. filled u v s (os_world w)) (\<lambda>e w. os_raised e \<and> same_but u s (os_world w))"
proof (cases loop)
  case True
  have run: "same_but u s (os_world t) \<and> (r = Inr () \<and> filled u v s (os_world t) \<or> r \<in> {Inl os_error, Inl killed})"
    if "same_but u s (os_world w)" "write_all sc (fill_temp u v len) len 0 w = (r, t)" for w r t
    using write_all_cases [of "same_but u s" "fill_temp u v len", OF _ that] fill_whole [of u s _ v len]
      assms by auto
  have "triple (\<lambda>w. same_but u s (os_world w)) (write_all sc (fill_temp u v len) len 0)
      (\<lambda>_ w. filled u v s (os_world w)) (\<lambda>e w. os_raised e \<and> same_but u s (os_world w))"
    by (rule tripleI) (auto dest: run)
  with True show ?thesis by simp
next
  case False
  have "triple (\<lambda>w. same_but u s (os_world w)) (write_once sc (fill_temp u v len) len)
      (\<lambda>_ w. filled u v s (os_world w)) (\<lambda>e w. os_raised e \<and> same_but u s (os_world w))"
    by (rule tripleI) (auto simp: write_once_def next_call_def fill_whole split: fate.splits if_splits)
  with False show ?thesis by simp
qed

lemma os_raised_killed: "os_raised e \<Longrightarrow> \<not> is_os_error e \<Longrightarrow> e = killed"
  by (simp add: is_os_error_def)

lemma killed_not_os [simp]: "\<not> is_os_error killed" "is_os_error os_error" "killed \<noteq> os_error"
  by (simp_all add: is_os_error_def killed_def os_error_def)

text \<open>
  The rename publishes the whole document and removes the temporary name; before it the target
  is untouched.
\<close>

definition published :: "string \<Rightarrow> 'a \<Rightarrow> 'a slot \<Rightarrow> 'a slot \<Rightarrow> bool" where
  "published u v s t \<longleftrightarrow>
     sl_target t = Some (private_file (Whole v)) \<and>
     (\<forall>w. map_of (sl_temps t) w = (if w = u then None else map_of (sl_temps s) w))"

lemma rename_filled: "filled u v s t \<Longrightarrow> published u v s (rename_temp u t)"
  by (auto simp: filled_def published_def rename_temp_def same_but_def drop_temp_lookup)

lemma triple_replace:
  assumes "0 < len"
  shows "triple (\<lambda>w. os_world w = s) (replace_document loop sc u v len)
    (\<lambda>_ w. published u v s (os_world w)) (\<lambda>e w. os_raised e \<and> same_but u s (os_world w))"
  unfolding replace_document_def
  apply (rule triple_andthen [where R = "\<lambda>w. same_but u s (os_world w)"])
   apply (rule triple_pre [OF triple_syscall], force)
  apply (rule triple_andthen [where R = "\<lambda>w. same_but u s (os_world w)"])
   apply (rule triple_pre [OF triple_syscall], force)
  apply (rule triple_andthen [OF triple_fill [OF assms]])
  apply (rule triple_andthen [where R = "\<lambda>w. filled u v s (os_world w)"])
   apply (rule triple_pre [OF triple_syscall], force simp: filled_def)
  apply (rule triple_andthen [where R = "\<lambda>w. filled u v s (os_world w)"])
   apply (rule triple_pre [OF triple_syscall], force simp: filled_def)
  apply (rule triple_pre [OF triple_syscall], force simp: filled_def rename_filled)
  done

lemma triple_on_os_error:
  assumes "triple P m Q (\<lambda>e s. (is_os_error e \<longrightarrow> R s) \<and> (\<not> is_os_error e \<longrightarrow> E e s))"
    and "triple R h Q E"
  shows "triple P (on_os_error m h) Q E"
  unfolding on_os_error_def
proof (rule triple_catching [OF assms(1)])
  show "triple (\<lambda>s. (is_os_error e \<longrightarrow> R s) \<and> (\<not> is_os_error e \<longrightarrow> E e s))
      (if is_os_error e then h else raise e) Q E" for e
    using assms(2) triple_raise [of E e Q] by (cases "is_os_error e") (auto elim: triple_pre)
qed

lemma triple_ignoring_syscall:
  assumes "\<And>w. I w \<Longrightarrow> I (eff w)"
  shows "triple (\<lambda>w. I (os_world w)) (ignoring (syscall sc eff)) (\<lambda>_ w. I (os_world w))
    (\<lambda>e w. e = killed \<and> I (os_world w))"
  unfolding ignoring_def
  apply (rule triple_on_os_error [where R = "\<lambda>w. I (os_world w)"])
   apply (rule triple_pre [OF triple_syscall], force simp: assms)
  apply (rule triple_pre [OF triple_ret], simp)
  done

text \<open>
  The result of \<^verbatim>\<open>_atomic_write\<close>: it returns with the new document published; or it raises, and
  the target is either untouched or the whole new document, never a part of one.
\<close>

definition replaced_or_kept :: "string \<Rightarrow> 'a \<Rightarrow> 'a slot \<Rightarrow> 'a slot \<Rightarrow> bool" where
  "replaced_or_kept u v s t \<longleftrightarrow> same_but u s t \<or> published u v s t"

lemma triple_atomic_write:
  assumes "0 < len"
  shows "triple (\<lambda>w. os_world w = s) (atomic_write loop sc u err v len)
    (\<lambda>_ w. published u v s (os_world w))
    (\<lambda>e w. (e = err False \<or> e = err True \<or> e = killed) \<and> replaced_or_kept u v s (os_world w))"
  unfolding atomic_write_def
proof (rule triple_andthen [where R = "\<lambda>w. published u v s (os_world w)"])
  show "triple (\<lambda>w. os_world w = s)
     (on_os_error (replace_document loop sc u v len)
       (andthen (ignoring (syscall sc id))
         (andthen (ignoring (syscall sc (drop_temp u))) (raise (err False)))))
     (\<lambda>_ w. published u v s (os_world w))
     (\<lambda>e w. (e = err False \<or> e = err True \<or> e = killed) \<and> replaced_or_kept u v s (os_world w))"
    apply (rule triple_on_os_error [where R = "\<lambda>w. same_but u s (os_world w)"])
     apply (rule triple_weaken [OF triple_replace [OF assms]]; auto simp: replaced_or_kept_def)
    apply (rule triple_andthen [where R = "\<lambda>w. same_but u s (os_world w)"])
     apply (rule triple_weaken [OF triple_ignoring_syscall [where I = "same_but u s"]];
        simp add: replaced_or_kept_def)
    apply (rule triple_andthen [where R = "\<lambda>w. same_but u s (os_world w)"])
     apply (rule triple_weaken [OF triple_ignoring_syscall [where I = "same_but u s"]];
        simp add: replaced_or_kept_def)
    apply (rule triple_pre [OF triple_raise], simp add: replaced_or_kept_def)
    done
  show "triple (\<lambda>w. published u v s (os_world w)) (on_os_error (syscall sc id) (raise (err True)))
     (\<lambda>_ w. published u v s (os_world w))
     (\<lambda>e w. (e = err False \<or> e = err True \<or> e = killed) \<and> replaced_or_kept u v s (os_world w))"
    apply (rule triple_on_os_error [where R = "\<lambda>w. published u v s (os_world w)"])
     apply (rule triple_pre [OF triple_syscall], force simp: replaced_or_kept_def)
    apply (rule triple_pre [OF triple_raise], simp add: replaced_or_kept_def)
    done
qed

section \<open>Crash-only schedules and deletions\<close>

text \<open>A run in which calls never fail, though the process may be killed between any two.\<close>

definition crash_only :: "schedule \<Rightarrow> bool" where
  "crash_only sc \<longleftrightarrow> (\<forall>n. sc n \<noteq> Fails \<and> sc n \<noteq> Short 0)"

definition all_work :: schedule where
  "all_work = (\<lambda>_. Works)"

lemma crash_only_all_work [simp]: "crash_only all_work"
  by (simp add: crash_only_def all_work_def)

lemma triple_syscall_step:
  assumes "\<And>w. I w \<Longrightarrow> J (eff w)"
  shows "triple (\<lambda>s. I (os_world s)) (syscall sc eff) (\<lambda>_ s. J (os_world s))
    (\<lambda>e s. (e = killed \<or> \<not> crash_only sc \<and> e = os_error) \<and> I (os_world s))"
  by (rule tripleI)
    (auto simp: syscall_def next_call_def crash_only_def assms split: fate.splits)

lemma write_all_crash_only:
  "crash_only sc \<Longrightarrow> write_all sc upd len written s = (Inl e, t) \<Longrightarrow> e = killed"
proof (induction sc upd len written s rule: write_all.induct)
  case (1 sc upd len written s)
  then show ?case
    by (simp add: write_all.simps [of sc upd len written] crash_only_def Let_def
        split: if_splits fate.splits)
qed

lemma triple_write_all_step:
  assumes "\<And>n w. I w \<Longrightarrow> I (upd n w)" and "\<And>w. I w \<Longrightarrow> J (upd len w)" and "0 < len"
  shows "triple (\<lambda>s. I (os_world s)) (write_all sc upd len 0) (\<lambda>_ s. J (os_world s))
    (\<lambda>e s. (e = killed \<or> \<not> crash_only sc \<and> e = os_error) \<and> I (os_world s))"
proof (rule tripleI)
  fix s x t assume *: "I (os_world s)" "write_all sc upd len 0 s = (Inr x, t)"
  show "J (os_world t)"
    using write_all_cases [OF assms(1) *] assms(2,3) by auto
next
  fix s e t assume *: "I (os_world s)" "write_all sc upd len 0 s = (Inl e, t)"
  show "(e = killed \<or> \<not> crash_only sc \<and> e = os_error) \<and> I (os_world t)"
    using write_all_cases [OF assms(1) *] write_all_crash_only [OF _ *(2)] by auto
qed

lemma keeps_syscall: "(\<And>w. I w \<Longrightarrow> I (eff w)) \<Longrightarrow> keeps (\<lambda>s. I (os_world s)) (syscall sc eff)"
  unfolding keeps_def by (rule triple_weaken [OF triple_syscall_step [where I = I and J = I]]) auto

lemma keeps_on_os_error [keeping]: "keeps I m \<Longrightarrow> keeps I h \<Longrightarrow> keeps I (on_os_error m h)"
  unfolding on_os_error_def by (rule keeps_catching) (auto simp: keeps_simple)

section \<open>Directories and named entries\<close>

text \<open>What is at the path of a managed directory: nothing, a symlink, or an entry with a mode.\<close>

datatype root_state = Root_missing | Root_symlink | Root_entry bool nat

text \<open>
  The check every store makes of a managed directory; the three errors are the store's own
  texts for a symlink, an unreadable path, and a wrong type or mode.
\<close>

definition check_directory :: "exn \<Rightarrow> exn \<Rightarrow> exn \<Rightarrow> root_state \<Rightarrow> unit result" where
  "check_directory symlink_err missing_err mode_err d = (case d of
      Root_symlink \<Rightarrow> Inl symlink_err
    | Root_missing \<Rightarrow> Inl missing_err
    | Root_entry is_dir mode \<Rightarrow> ensure (is_dir \<and> mode = directory_mode) mode_err)"

text \<open>Reject a symlink, \<^verbatim>\<open>mkdir(exist_ok=True)\<close>, then check what is there.\<close>

definition ensure_directory ::
  "schedule \<Rightarrow> ('w \<Rightarrow> root_state) \<Rightarrow> (root_state \<Rightarrow> 'w \<Rightarrow> 'w) \<Rightarrow> exn \<Rightarrow> exn \<Rightarrow> exn \<Rightarrow> exn \<Rightarrow>
   ('w osys, exn, unit) act"
where
  "ensure_directory sc get put symlink_err create_err missing_err mode_err =
     bnd (fetch (get \<circ> os_world)) (\<lambda>d.
     if d = Root_symlink then raise symlink_err
     else andthen
       (on_os_error
         (case d of
            Root_missing \<Rightarrow> syscall sc (put (Root_entry True directory_mode))
          | Root_entry False _ \<Rightarrow> raise os_error
          | _ \<Rightarrow> syscall sc id)
         (raise create_err))
       (bnd (fetch (get \<circ> os_world)) (\<lambda>d'.
          lift_result (check_directory symlink_err missing_err mode_err d'))))"

lemma keeps_ensure_directory:
  assumes "\<And>w d. I w \<Longrightarrow> I (put d w)"
  shows "keeps (\<lambda>s. I (os_world s)) (ensure_directory sc get put e1 e2 e3 e4)"
proof -
  have "keeps (\<lambda>s. I (os_world s)) (syscall sc (put d))" for d
    by (rule keeps_syscall) (rule assms)
  moreover have "keeps (\<lambda>s. I (os_world s)) (syscall sc id)"
    by (rule keeps_syscall) simp
  ultimately show ?thesis
    unfolding ensure_directory_def
    by (intro keeps_bnd keeps_if keeps_andthen keeps_on_os_error keeps_simple)
      (auto intro: keeps_simple split: root_state.split bool.split)
qed

text \<open>Files kept in an association list by name.\<close>

lemma map_entry_lookup:
  "map_of (AList.map_entry k f al) x = (if x = k then map_option f (map_of al k) else map_of al x)"
  by (induction al) auto

lemma dom_map_entry_lookup: "dom (map_of (AList.map_entry k f al)) = dom (map_of al)"
  by (simp add: dom_map_of_conv_image_fst dom_map_entry)

text \<open>An action on one file of a larger world.\<close>

definition in_slot ::
  "('w \<Rightarrow> 'v) \<Rightarrow> ('v \<Rightarrow> 'w \<Rightarrow> 'w) \<Rightarrow> ('v osys, exn, 'a) act \<Rightarrow> ('w osys, exn, 'a) act" where
  "in_slot get put m s =
     (case m \<lparr>os_calls = os_calls s, os_world = get (os_world s)\<rparr> of
        (r, t) \<Rightarrow> (r, \<lparr>os_calls = os_calls t, os_world = put (os_world t) (os_world s)\<rparr>))"

lemma triple_in_slot:
  assumes "triple (\<lambda>s. os_world s = get w) m (\<lambda>x s. Q x (os_world s)) (\<lambda>e s. E e (os_world s))"
  shows "triple (\<lambda>s. os_world s = w) (in_slot get put m)
    (\<lambda>x s. \<exists>v. Q x v \<and> os_world s = put v w) (\<lambda>e s. \<exists>v. E e v \<and> os_world s = put v w)"
proof (rule tripleI)
  fix s x t assume w: "os_world s = w" and run: "in_slot get put m s = (Inr x, t)"
  then obtain t' where t': "m \<lparr>os_calls = os_calls s, os_world = get w\<rparr> = (Inr x, t')"
    "os_world t = put (os_world t') w"
    by (auto simp: in_slot_def split: prod.splits)
  show "\<exists>v. Q x v \<and> os_world t = put v w" using tripleD_Inr [OF assms _ t'(1)] t'(2) by auto
next
  fix s e t assume w: "os_world s = w" and run: "in_slot get put m s = (Inl e, t)"
  then obtain t' where t': "m \<lparr>os_calls = os_calls s, os_world = get w\<rparr> = (Inl e, t')"
    "os_world t = put (os_world t') w"
    by (auto simp: in_slot_def split: prod.splits)
  show "\<exists>v. E e v \<and> os_world t = put v w" using tripleD_Inl [OF assms _ t'(1)] t'(2) by auto
qed

definition no_slot :: "'a slot" where
  "no_slot = \<lparr>sl_target = None, sl_temps = []\<rparr>"

lemma triple_write_once:
  "triple (\<lambda>s. I (os_world s)) (write_once sc upd len)
     (\<lambda>_ s. \<exists>w. I w \<and> os_world s = upd len w)
     (\<lambda>e s. os_raised e \<and> (I (os_world s) \<or> (\<exists>n<len. \<exists>w. I w \<and> os_world s = upd n w)))"
  by (rule tripleI) (auto simp: write_once_def next_call_def split: fate.splits if_splits)

section \<open>Running a sequence\<close>

lemma syscall_run:
  "sc (os_calls s) = Works \<Longrightarrow> syscall sc eff s = (Inr (), \<lparr>os_calls = Suc (os_calls s), os_world = eff (os_world s)\<rparr>)"
  "sc (os_calls s) = Fails \<Longrightarrow> syscall sc eff s = (Inl os_error, \<lparr>os_calls = Suc (os_calls s), os_world = os_world s\<rparr>)"
  by (cases s, simp add: syscall_def next_call_def)+

lemma write_all_run:
  "sc (os_calls s) = Works \<Longrightarrow> 0 < len \<Longrightarrow> write_all sc upd len 0 s = (Inr (), \<lparr>os_calls = Suc (os_calls s), os_world = upd len (os_world s)\<rparr>)"
  by (cases s) (simp add: write_all.simps [of sc upd len 0] next_call_def)

lemma write_once_run:
  "sc (os_calls s) = Works \<Longrightarrow> write_once sc upd len s = (Inr (), \<lparr>os_calls = Suc (os_calls s), os_world = upd len (os_world s)\<rparr>)"
  by (cases s) (simp add: write_once_def next_call_def)

lemma andthen_run: "andthen m n s = (case m s of (Inl e, t) \<Rightarrow> (Inl e, t) | (Inr x, t) \<Rightarrow> n t)"
  by (simp add: andthen_def bnd_def)

lemma bnd_fetch_run: "bnd (fetch f) g s = g (f s) s"
  by (simp add: bnd_def fetch_def)

lemma bnd_lift_run: "bnd (lift_result (Inr x)) g s = g x s"
  by (simp add: bnd_def lift_result_def)

lemma when_run: "when_act b m s = (if b then m s else (Inr (), s))"
  by (simp add: when_act_def ret_def)

lemmas run_simps = andthen_run bnd_fetch_run bnd_lift_run when_run lift_result_def ret_def raise_def
  on_os_error_def catching_def syscall_run write_all_run write_once_run Let_def

end
