(* ===== verification/Releases.thy ===== *)
theory Releases
  imports Files Release_Model "HOL-Library.Multiset"
begin

text \<open>
  The release store (\<^verbatim>\<open>dploydb/releases.py\<close>): strict manifests under one directory per release,
  the pointer file that selects the active and the previous one, the transition graph, the
  recovery intents and the resolution of a recovery. Reading is a function of the store's
  files; writing is an action under a schedule of faults. \<open>store_env\<close> holds what a store is
  constructed with: its path, the redaction of texts and the sizes of serialised records; the
  clock reading, the new release ID and the temporary name are arguments of the operations.
\<close>

section \<open>The store\<close>

datatype release_entry = Release_dir nat "release_manifest slot" "string list" | Odd_entry

record release_store =
  rs_root :: root_state
  rs_dir :: root_state
  rs_entries :: "(string \<times> release_entry) list"
  rs_pointer :: "release_pointers slot"

record store_env =
  se_path :: string
  se_redact :: "string \<Rightarrow> string"
  se_release_size :: "release_manifest \<Rightarrow> nat"
  se_pointer_size :: "release_pointers \<Rightarrow> nat"
  se_schedule :: schedule

definition max_release_bytes :: nat where "max_release_bytes = 1048576"

definition release_write_error :: "store_env \<Rightarrow> string \<Rightarrow> string \<Rightarrow> exn" where
  "release_write_error env detail path =
     Dploy (mk_error OperationFailedError (se_redact env detail) False None (Some path)
       ''Preserve the release state and retry only after fixing storage.'')"

definition release_corruption :: "store_env \<Rightarrow> string \<Rightarrow> string \<Rightarrow> exn" where
  "release_corruption env path detail =
     Dploy (mk_error StateCorruptionError (se_redact env detail) True None (Some path)
       ''Do not guess the active release; preserve state and inspect the release manifest and operation log.'')"

definition releases_path :: "store_env \<Rightarrow> string" where
  "releases_path env = se_path env @ ''/releases''"

definition pointer_path :: "store_env \<Rightarrow> string" where
  "pointer_path env = releases_path env @ ''/current.json''"

definition release_directory :: "store_env \<Rightarrow> string \<Rightarrow> string" where
  "release_directory env i = releases_path env @ ''/'' @ i"

definition manifest_path :: "store_env \<Rightarrow> string \<Rightarrow> string" where
  "manifest_path env i = release_directory env i @ ''/manifest.json''"

definition validate_release_id :: "string \<Rightarrow> unit result" where
  "validate_release_id i =
     ensure (is_release_id i) (value_error ''release ID is invalid or contains unsafe characters'')"

definition release_slot :: "string \<Rightarrow> release_store \<Rightarrow> release_manifest slot" where
  "release_slot i st = (case map_of (rs_entries st) i of
      Some (Release_dir _ sl _) \<Rightarrow> sl | _ \<Rightarrow> no_slot)"

fun with_manifest :: "release_manifest slot \<Rightarrow> release_entry \<Rightarrow> release_entry" where
  "with_manifest sl (Release_dir mode _ extra) = Release_dir mode sl extra"
| "with_manifest sl Odd_entry = Odd_entry"

definition put_release_slot ::
  "string \<Rightarrow> release_manifest slot \<Rightarrow> release_store \<Rightarrow> release_store" where
  "put_release_slot i sl st = st\<lparr>rs_entries := AList.map_entry i (with_manifest sl) (rs_entries st)\<rparr>"

section \<open>Reading\<close>

text \<open>
  \<^verbatim>\<open>_read_private_file\<close> and the JSON parser: \<open>None\<close> is a complete file that does not parse. An
  abandoned temporary file of an earlier atomic write is refused.
\<close>

definition read_private ::
  "(string \<Rightarrow> exn) \<Rightarrow> ('a \<Rightarrow> nat) \<Rightarrow> 'a slot \<Rightarrow> 'a option result" where
  "read_private corrupt len sl =
    (if sl_temps sl \<noteq> []
     then Inl (corrupt ''release state has an abandoned atomic-write temporary file'')
     else case sl_target sl of
       None \<Rightarrow> Inl (corrupt ''release file is invalid or unreadable'')
     | Some f \<Rightarrow>
        (if f_kind f = FK_symlink then Inl (corrupt ''refusing symlinked release state'')
         else if f_kind f \<noteq> FK_regular \<or> f_mode f \<noteq> file_mode
         then Inl (corrupt ''release file is invalid or unreadable'')
         else case f_content f of
           Whole v \<Rightarrow>
             (if len v = 0 \<or> len v > max_release_bytes
              then Inl (corrupt ''release file is invalid or unreadable'') else Inr (Some v))
         | Partial n \<Rightarrow>
             (if n = 0 \<or> n > max_release_bytes
              then Inl (corrupt ''release file is invalid or unreadable'')
              else Inl (corrupt ''release file is truncated''))
         | Garbage \<Rightarrow> Inr None))"

definition read_manifest :: "store_env \<Rightarrow> release_store \<Rightarrow> string \<Rightarrow> release_manifest result" where
  "read_manifest env st i =
     rbind (validate_release_id i) (\<lambda>_.
     let corrupt = release_corruption env (manifest_path env i) in
     rbind (read_private corrupt (se_release_size env) (release_slot i st)) (\<lambda>parsed.
     case parsed of
       None \<Rightarrow> Inl (corrupt ''release manifest is invalid'')
     | Some m \<Rightarrow>
        (if \<not> valid_release m then Inl (corrupt ''release manifest is invalid'')
         else if rm_release_id m \<noteq> i
         then Inl (corrupt ''release manifest ID does not match its path'')
         else Inr m)))"

definition read_pointers :: "store_env \<Rightarrow> release_store \<Rightarrow> release_pointers option result" where
  "read_pointers env st =
    (let corrupt = release_corruption env (pointer_path env) in
     if sl_target (rs_pointer st) = None then Inr None
     else
     rbind (read_private corrupt (se_pointer_size env) (rs_pointer st)) (\<lambda>parsed.
     case parsed of
       None \<Rightarrow> Inl (corrupt ''release pointer is invalid'')
     | Some p \<Rightarrow>
        (if \<not> valid_pointers p then Inl (corrupt ''release pointer is invalid'')
         else
         rbind (read_manifest env st (rp_active_release_id p)) (\<lambda>active.
         if rm_status active \<noteq> DS_active
         then Inl (corrupt ''release pointer does not select an active manifest'')
         else case rp_previous_release_id p of
           None \<Rightarrow> Inr (Some p)
         | Some q \<Rightarrow> rbind (read_manifest env st q) (\<lambda>_. Inr (Some p))))))"

definition active_release :: "store_env \<Rightarrow> release_store \<Rightarrow> release_manifest option result" where
  "active_release env st = rbind (read_pointers env st) (\<lambda>p. case p of
      None \<Rightarrow> Inr None
    | Some q \<Rightarrow> rbind (read_manifest env st (rp_active_release_id q)) (\<lambda>m. Inr (Some m)))"

definition previous_release :: "store_env \<Rightarrow> release_store \<Rightarrow> release_manifest option result" where
  "previous_release env st = rbind (read_pointers env st) (\<lambda>p. case p of
      None \<Rightarrow> Inr None
    | Some q \<Rightarrow> (case rp_previous_release_id q of
        None \<Rightarrow> Inr None
      | Some i \<Rightarrow> rbind (read_manifest env st i) (\<lambda>m. Inr (Some m))))"

section \<open>The history snapshot\<close>

definition release_directory_check :: "store_env \<Rightarrow> string \<Rightarrow> root_state \<Rightarrow> unit result" where
  "release_directory_check env path d =
     check_directory (release_corruption env path ''refusing symlinked release state'')
       (release_corruption env path ''release directory is unreadable'')
       (release_corruption env path ''release directory must be mode-0700'') d"

text \<open>One entry of the directory listing: it must be a release directory holding one manifest.\<close>

definition read_entry ::
  "store_env \<Rightarrow> release_store \<Rightarrow> string \<times> release_entry \<Rightarrow> release_manifest result" where
  "read_entry env st entry = (case entry of (i, e) \<Rightarrow>
     (case e of
        Odd_entry \<Rightarrow> Inl (release_corruption env (release_directory env i)
          ''releases directory contains an unexpected entry'')
      | Release_dir mode sl extra \<Rightarrow>
         (if \<not> is_release_id i
          then Inl (release_corruption env (release_directory env i)
            ''releases directory contains an unexpected entry'')
          else rbind (release_directory_check env (release_directory env i) (Root_entry True mode)) (\<lambda>_.
            if sl_temps sl \<noteq> [] \<or> extra \<noteq> [] \<or> sl_target sl = None
            then Inl (release_corruption env (release_directory env i)
              ''release directory must contain exactly one manifest'')
            else read_manifest env st i))))"

fun read_entries ::
  "store_env \<Rightarrow> release_store \<Rightarrow> (string \<times> release_entry) list \<Rightarrow> release_manifest list result" where
  "read_entries env st [] = Inr []"
| "read_entries env st (e # es) =
     rbind (read_entry env st e) (\<lambda>m. rbind (read_entries env st es) (\<lambda>ms. Inr (m # ms)))"

definition release_key :: "release_manifest \<Rightarrow> stamp" where
  "release_key m = Stamp (rm_started_at m) (rm_release_id m)"

record history_snapshot =
  hs_releases :: "release_manifest list"
  hs_pointers :: "release_pointers option"

text \<open>
  The pointer's own temporary files are unexpected entries of the listing. The order of a
  directory listing only decides which error is raised first.
\<close>

definition read_history :: "store_env \<Rightarrow> release_store \<Rightarrow> history_snapshot result" where
  "read_history env st =
    (let none = \<lparr>hs_releases = [], hs_pointers = None\<rparr> in
     if rs_root st = Root_missing then Inr none
     else rbind (release_directory_check env (se_path env) (rs_root st)) (\<lambda>_.
     if rs_dir st = Root_missing then Inr none
     else rbind (release_directory_check env (releases_path env) (rs_dir st)) (\<lambda>_.
     if (\<exists>f. sl_target (rs_pointer st) = Some f \<and> f_kind f \<noteq> FK_regular)
     then Inl (release_corruption env (pointer_path env) ''release pointer is not a regular file'')
     else if sl_temps (rs_pointer st) \<noteq> []
     then Inl (release_corruption env (releases_path env)
       ''releases directory contains an unexpected entry'')
     else
     rbind (read_entries env st (rs_entries st)) (\<lambda>ms.
     rbind (read_pointers env st) (\<lambda>p.
     let ids = map rm_release_id ms;
         selected = (case p of None \<Rightarrow> []
           | Some q \<Rightarrow> rp_active_release_id q #
               (case rp_previous_release_id q of None \<Rightarrow> [] | Some i \<Rightarrow> [i]))
     in if \<not> set selected \<subseteq> set ids
        then Inl (release_corruption env (pointer_path env)
          ''release pointers select a manifest missing from history'')
        else Inr \<lparr>hs_releases = rev (sort_key release_key (rev ms)), hs_pointers = p\<rparr>)))))"

definition lookup_history_release ::
  "store_env \<Rightarrow> release_store \<Rightarrow> string \<Rightarrow> (release_manifest \<times> release_pointers option) result" where
  "lookup_history_release env st i =
    (if \<not> is_release_id i
     then Inl (Dploy (mk_error SafetyCheckError ''release ID is invalid'' False None
       (Some (releases_path env)) ''Copy an exact release ID from dploydb releases.''))
     else rbind (read_history env st) (\<lambda>h.
       case find (\<lambda>m. rm_release_id m = i) (hs_releases h) of
         None \<Rightarrow> Inl (Dploy (mk_error SafetyCheckError (''release does not exist: '' @ i) False None
           (Some (releases_path env)) ''Run dploydb releases and select an existing release ID.''))
       | Some m \<Rightarrow> Inr (m, hs_pointers h)))"

section \<open>Redaction of a record\<close>

text \<open>
  The JSON of a record is redacted text by text and parsed again. A redaction that touches the
  text of an enumeration leaves JSON that does not parse; JSON keys and timestamps are taken
  to be left alone.
\<close>

definition redact_failure :: "(string \<Rightarrow> string) \<Rightarrow> failure_record \<Rightarrow> failure_record" where
  "redact_failure red f =
     \<lparr>fr_error_code = red (fr_error_code f), fr_what_failed = red (fr_what_failed f),
      fr_log_path = map_option red (fr_log_path f),
      fr_next_safe_action = red (fr_next_safe_action f)\<rparr>"

definition redact_handle :: "(string \<Rightarrow> string) \<Rightarrow> application_handle \<Rightarrow> application_handle" where
  "redact_handle red h = h\<lparr>
     ah_container_id := red (ah_container_id h), ah_container_name := red (ah_container_name h),
     ah_compose_project := red (ah_compose_project h), ah_compose_service := red (ah_compose_service h),
     ah_version := map_option red (ah_version h), ah_release_id := map_option red (ah_release_id h),
     ah_operation_id := map_option red (ah_operation_id h),
     ah_database_directory := red (ah_database_directory h),
     ah_database_target := red (ah_database_target h), ah_health_url := red (ah_health_url h)\<rparr>"

definition redact_release :: "(string \<Rightarrow> string) \<Rightarrow> release_manifest \<Rightarrow> release_manifest" where
  "redact_release red m = m\<lparr>
     rm_release_id := red (rm_release_id m), rm_operation_id := red (rm_operation_id m),
     rm_project := red (rm_project m), rm_requested_version := red (rm_requested_version m),
     rm_configuration_fingerprint := red (rm_configuration_fingerprint m),
     rm_operation_log_path := red (rm_operation_log_path m),
     rm_previous_release_id := map_option red (rm_previous_release_id m),
     rm_previous_application := map_option (redact_handle red) (rm_previous_application m),
     rm_new_application := map_option (redact_handle red) (rm_new_application m),
     rm_rehearsal_backup_id := map_option red (rm_rehearsal_backup_id m),
     rm_rehearsal_backup_sha256 := map_option red (rm_rehearsal_backup_sha256 m),
     rm_final_backup_id := map_option red (rm_final_backup_id m),
     rm_final_backup_sha256 := map_option red (rm_final_backup_sha256 m),
     rm_traffic_hooks := map (\<lambda>h. h\<lparr>he_cleanup_error := map_option red (he_cleanup_error h)\<rparr>)
       (rm_traffic_hooks m),
     rm_health_checks := map (\<lambda>h. h\<lparr>hv_version := red (hv_version h), hv_url := red (hv_url h)\<rparr>)
       (rm_health_checks m),
     rm_failure := map_option (redact_failure red) (rm_failure m),
     rm_recovery_operation_id := map_option red (rm_recovery_operation_id m),
     rm_recovery_failure := map_option (redact_failure red) (rm_recovery_failure m)\<rparr>"

definition persist_release :: "store_env \<Rightarrow> release_manifest \<Rightarrow> release_manifest result" where
  "persist_release env m =
     (let status = deployment_state_value (rm_status m) in
      if se_redact env status \<noteq> status then Inl validation_error
      else revalidate_release (redact_release (se_redact env) m))"

definition persist_pointers :: "store_env \<Rightarrow> release_pointers \<Rightarrow> release_pointers result" where
  "persist_pointers env p =
     (let q = \<lparr>rp_active_release_id = se_redact env (rp_active_release_id p),
               rp_previous_release_id = map_option (se_redact env) (rp_previous_release_id p),
               rp_updated_at = serialize_utc_timestamp (rp_updated_at p)\<rparr>
      in if valid_pointers q then Inr q else Inl validation_error)"

section \<open>Writing\<close>

type_synonym 'a release_act = "(release_store osys, exn, 'a) act"

text \<open>\<^verbatim>\<open>_atomic_write\<close> of a manifest and of the pointers.\<close>

definition write_release :: "store_env \<Rightarrow> string \<Rightarrow> string \<Rightarrow> release_manifest \<Rightarrow> unit release_act" where
  "write_release env u i m =
     bnd (lift_result (persist_release env m)) (\<lambda>persisted.
     if se_release_size env persisted > max_release_bytes
     then raise (release_write_error env ''release record exceeds the durable size limit'' (manifest_path env i))
     else in_slot (release_slot i) (put_release_slot i)
       (atomic_write True (se_schedule env) u
         (\<lambda>_. release_write_error env ''release record could not be written atomically'' (manifest_path env i))
         persisted (se_release_size env persisted)))"

definition put_pointer :: "release_pointers slot \<Rightarrow> release_store \<Rightarrow> release_store" where
  "put_pointer sl st = st\<lparr>rs_pointer := sl\<rparr>"

definition write_pointers :: "store_env \<Rightarrow> string \<Rightarrow> release_pointers \<Rightarrow> unit release_act" where
  "write_pointers env u p =
     bnd (lift_result (persist_pointers env p)) (\<lambda>persisted.
     if se_pointer_size env persisted > max_release_bytes
     then raise (release_write_error env ''release record exceeds the durable size limit'' (pointer_path env))
     else in_slot rs_pointer put_pointer
       (atomic_write True (se_schedule env) u
         (\<lambda>_. release_write_error env ''release record could not be written atomically'' (pointer_path env))
         persisted (se_pointer_size env persisted)))"

definition reading :: "(release_store \<Rightarrow> 'a result) \<Rightarrow> 'a release_act" where
  "reading f = bnd (fetch os_world) (\<lambda>st. lift_result (f st))"

definition ensure_release_layout :: "store_env \<Rightarrow> unit release_act" where
  "ensure_release_layout env =
     (let errors = (\<lambda>path f. f
            (release_corruption env path ''refusing symlinked release state'')
            (release_write_error env ''private release directory could not be created'' path)
            (release_corruption env path ''release directory is unreadable'')
            (release_corruption env path ''release directory must be mode-0700''))
      in andthen
        (errors (se_path env) (ensure_directory (se_schedule env) rs_root (\<lambda>d st. st\<lparr>rs_root := d\<rparr>)))
        (errors (releases_path env) (ensure_directory (se_schedule env) rs_dir (\<lambda>d st. st\<lparr>rs_dir := d\<rparr>))))"

definition make_release_directory :: "store_env \<Rightarrow> string \<Rightarrow> unit release_act" where
  "make_release_directory env i =
     on_os_error
       (bnd (fetch os_world) (\<lambda>st.
        if map_of (rs_entries st) i \<noteq> None then raise os_error
        else syscall (se_schedule env)
          (\<lambda>w. w\<lparr>rs_entries := (i, Release_dir directory_mode no_slot []) # rs_entries w\<rparr>)))
       (raise (release_write_error env ''release directory could not be created'' (release_directory env i)))"

definition new_release ::
  "store_env \<Rightarrow> int \<Rightarrow> string \<Rightarrow> string \<Rightarrow> string \<Rightarrow> string \<Rightarrow> string \<Rightarrow> string \<Rightarrow>
   release_pointers option \<Rightarrow> application_handle option \<Rightarrow> release_manifest"
where
  "new_release env now i operation_id project version fingerprint log_path pointers previous =
     \<lparr>rm_recovery_protocol_version = Some 2, rm_release_id = i, rm_operation_id = operation_id,
      rm_project = se_redact env project, rm_requested_version = version, rm_status = DS_created,
      rm_configuration_fingerprint = fingerprint, rm_operation_log_path = log_path,
      rm_previous_release_id = map_option rp_active_release_id pointers,
      rm_previous_application = previous, rm_new_application = None,
      rm_rehearsal_backup_id = None, rm_rehearsal_backup_sha256 = None,
      rm_final_backup_id = None, rm_final_backup_sha256 = None,
      rm_production_health_passed = False, rm_production_changed = False,
      rm_production_migration_started = False, rm_traffic_activation_attempted = False,
      rm_traffic_activated = False, rm_traffic_hooks = [], rm_health_checks = [],
      rm_started_at = now, rm_updated_at = now, rm_completed_at = None, rm_failure = None,
      rm_recovery_operation_id = None, rm_recovered_at = None, rm_recovery_failure = None\<rparr>"

definition create_release ::
  "store_env \<Rightarrow> int \<Rightarrow> string \<Rightarrow> string \<Rightarrow> string \<Rightarrow> string \<Rightarrow> string \<Rightarrow> string \<Rightarrow> string \<Rightarrow>
   application_handle option \<Rightarrow> release_manifest release_act"
where
  "create_release env now u i operation_id project version fingerprint log_path previous =
     andthen (ensure_release_layout env)
    (bnd (reading (read_pointers env)) (\<lambda>pointers.
     andthen (make_release_directory env i)
    (let m = new_release env now i operation_id project version fingerprint log_path pointers previous
     in if \<not> valid_release m then raise validation_error
        else andthen (write_release env u i m) (reading (\<lambda>st. read_manifest env st i)))))"

section \<open>The transition graph\<close>

fun allowed_transitions :: "deployment_state \<Rightarrow> deployment_state list" where
  "allowed_transitions DS_created = [DS_preflight_passed, DS_failed_safe, DS_recovery_required]"
| "allowed_transitions DS_preflight_passed = [DS_snapshot_verified, DS_failed_safe, DS_recovery_required]"
| "allowed_transitions DS_snapshot_verified = [DS_rehearsal_passed, DS_failed_safe, DS_recovery_required]"
| "allowed_transitions DS_rehearsal_passed = [DS_candidate_healthy, DS_failed_safe, DS_recovery_required]"
| "allowed_transitions DS_candidate_healthy = [DS_maintenance_enabled, DS_failed_safe, DS_recovery_required]"
| "allowed_transitions DS_maintenance_enabled =
     [DS_current_app_stopped, DS_rollback_started, DS_recovery_required]"
| "allowed_transitions DS_current_app_stopped =
     [DS_final_snapshot_verified, DS_rollback_started, DS_recovery_required]"
| "allowed_transitions DS_final_snapshot_verified =
     [DS_production_migrated, DS_rollback_started, DS_recovery_required]"
| "allowed_transitions DS_production_migrated =
     [DS_new_app_healthy, DS_rollback_started, DS_recovery_required]"
| "allowed_transitions DS_new_app_healthy =
     [DS_traffic_activated, DS_rollback_started, DS_recovery_required]"
| "allowed_transitions DS_traffic_activated = [DS_active, DS_recovery_required]"
| "allowed_transitions DS_rollback_started = [DS_rolled_back, DS_recovery_required]"
| "allowed_transitions _ = []"

text \<open>\<open>None\<close> is the default \<^verbatim>\<open>_UNSET\<close>: the field keeps its value.\<close>

record release_changes =
  ch_previous_application :: "application_handle option option"
  ch_new_application :: "application_handle option option"
  ch_rehearsal_backup_id :: "string option option"
  ch_rehearsal_backup_sha256 :: "string option option"
  ch_final_backup_id :: "string option option"
  ch_final_backup_sha256 :: "string option option"
  ch_production_health_passed :: "bool option"
  ch_production_changed :: "bool option"
  ch_traffic_activated :: "bool option"
  ch_traffic_hooks :: "hook_evidence list option"
  ch_health_checks :: "health_evidence list option"
  ch_failure :: "failure_record option option"

definition no_changes :: release_changes where
  "no_changes = \<lparr>ch_previous_application = None, ch_new_application = None,
     ch_rehearsal_backup_id = None, ch_rehearsal_backup_sha256 = None, ch_final_backup_id = None,
     ch_final_backup_sha256 = None, ch_production_health_passed = None,
     ch_production_changed = None, ch_traffic_activated = None, ch_traffic_hooks = None,
     ch_health_checks = None, ch_failure = None\<rparr>"

definition given :: "'a \<Rightarrow> 'a option \<Rightarrow> 'a" where
  "given old new = (case new of None \<Rightarrow> old | Some x \<Rightarrow> x)"

definition now_not_before :: "int \<Rightarrow> int \<Rightarrow> int" where
  "now_not_before now previous = (if now < previous then previous else now)"

definition apply_changes ::
  "int \<Rightarrow> release_manifest \<Rightarrow> deployment_state \<Rightarrow> release_changes \<Rightarrow> release_manifest" where
  "apply_changes now m st c = m\<lparr>
     rm_status := st, rm_updated_at := now,
     rm_completed_at := (if st \<in> terminal_states then Some now else None),
     rm_previous_application := given (rm_previous_application m) (ch_previous_application c),
     rm_new_application := given (rm_new_application m) (ch_new_application c),
     rm_rehearsal_backup_id := given (rm_rehearsal_backup_id m) (ch_rehearsal_backup_id c),
     rm_rehearsal_backup_sha256 := given (rm_rehearsal_backup_sha256 m) (ch_rehearsal_backup_sha256 c),
     rm_final_backup_id := given (rm_final_backup_id m) (ch_final_backup_id c),
     rm_final_backup_sha256 := given (rm_final_backup_sha256 m) (ch_final_backup_sha256 c),
     rm_production_health_passed := given (rm_production_health_passed m) (ch_production_health_passed c),
     rm_production_changed := given (rm_production_changed m) (ch_production_changed c),
     rm_traffic_activated := given (rm_traffic_activated m) (ch_traffic_activated c),
     rm_traffic_hooks := given (rm_traffic_hooks m) (ch_traffic_hooks c),
     rm_health_checks := given (rm_health_checks m) (ch_health_checks c),
     rm_failure := given (rm_failure m) (ch_failure c)\<rparr>"

text \<open>The manifest a transition would persist, or the error it raises before writing.\<close>

definition advance ::
  "int \<Rightarrow> release_manifest \<Rightarrow> deployment_state \<Rightarrow> release_changes \<Rightarrow> release_manifest result" where
  "advance now current st c =
    (if rm_status current \<in> terminal_states
     then Inl (value_error (''terminal release cannot transition from '' @
       deployment_state_value (rm_status current)))
     else if st \<notin> set (allowed_transitions (rm_status current))
     then Inl (value_error (''release transition '' @ deployment_state_value (rm_status current) @
       '' -> '' @ deployment_state_value st @ '' is not allowed''))
     else revalidate_release
       (apply_changes (now_not_before now (rm_updated_at current)) current st c))"

definition record_intent ::
  "int \<Rightarrow> release_manifest \<Rightarrow> bool \<Rightarrow> bool \<Rightarrow> release_manifest result" where
  "record_intent now current migration traffic =
    (if rm_status current \<in> terminal_states
     then Inl (value_error ''terminal release recovery intent is immutable'')
     else revalidate_release (current\<lparr>
       rm_updated_at := now_not_before now (rm_updated_at current),
       rm_production_migration_started := migration \<or> rm_production_migration_started current,
       rm_traffic_activation_attempted := traffic \<or> rm_traffic_activation_attempted current\<rparr>))"

definition resolve ::
  "int \<Rightarrow> release_manifest \<Rightarrow> deployment_state \<Rightarrow> string \<Rightarrow> bool \<Rightarrow> release_manifest result" where
  "resolve now current st operation_id traffic =
    (if rm_status current \<noteq> DS_recovery_required \<or> rm_failure current = None
     then Inl (value_error ''release is not recovery_required with preserved failure evidence'')
     else (let t = now_not_before now (rm_updated_at current) in
       revalidate_release (current\<lparr>
         rm_status := st, rm_updated_at := t, rm_completed_at := Some t,
         rm_traffic_activated := traffic, rm_recovery_operation_id := Some operation_id,
         rm_recovered_at := Some t, rm_recovery_failure := rm_failure current,
         rm_failure := (if st = DS_active then None else rm_failure current)\<rparr>)))"

text \<open>Read the current manifest, compute its successor, write it and read it back.\<close>

definition update_release ::
  "store_env \<Rightarrow> string \<Rightarrow> string \<Rightarrow> (release_manifest \<Rightarrow> release_manifest result) \<Rightarrow>
   release_manifest release_act"
where
  "update_release env u i f =
     bnd (reading (\<lambda>st. read_manifest env st i)) (\<lambda>current.
     bnd (lift_result (f current)) (\<lambda>persisted.
     andthen (write_release env u i persisted)
             (reading (\<lambda>st. read_manifest env st i))))"

definition transition ::
  "store_env \<Rightarrow> int \<Rightarrow> string \<Rightarrow> string \<Rightarrow> deployment_state \<Rightarrow> release_changes \<Rightarrow>
   release_manifest release_act"
where
  "transition env now u i st c = update_release env u i (\<lambda>current. advance now current st c)"

definition record_recovery_intent ::
  "store_env \<Rightarrow> int \<Rightarrow> string \<Rightarrow> string \<Rightarrow> bool \<Rightarrow> bool \<Rightarrow> release_manifest release_act" where
  "record_recovery_intent env now u i migration traffic =
    (if \<not> migration \<and> \<not> traffic
     then raise (value_error ''at least one recovery intent must be recorded'')
     else update_release env u i (\<lambda>current. record_intent now current migration traffic))"

definition resolve_recovery ::
  "store_env \<Rightarrow> int \<Rightarrow> string \<Rightarrow> string \<Rightarrow> deployment_state \<Rightarrow> string \<Rightarrow> bool \<Rightarrow>
   release_manifest release_act"
where
  "resolve_recovery env now u i st operation_id traffic =
    (if st \<notin> {DS_active, DS_rolled_back}
     then raise (value_error ''recovery can resolve only to active or rolled_back'')
     else update_release env u i (\<lambda>current. resolve now current st operation_id traffic))"

definition activate_release ::
  "store_env \<Rightarrow> int \<Rightarrow> string \<Rightarrow> string \<Rightarrow> release_pointers release_act" where
  "activate_release env now u i =
     andthen (ensure_release_layout env)
    (bnd (reading (\<lambda>st. read_manifest env st i)) (\<lambda>selected.
     if rm_status selected \<noteq> DS_active
     then raise (value_error ''only an active release manifest can become current'')
     else bnd (reading (read_pointers env)) (\<lambda>current.
       if map_option rp_active_release_id current = Some i then ret (the current)
       else andthen (write_pointers env u \<lparr>rp_active_release_id = i,
              rp_previous_release_id = map_option rp_active_release_id current, rp_updated_at = now\<rparr>)
            (bnd (reading (read_pointers env)) (\<lambda>q. case q of
               None \<Rightarrow> raise (PyException ''AssertionError'' []) | Some r \<Rightarrow> ret r)))))"

section \<open>Reading is validated\<close>

lemma read_manifest_valid:
  "read_manifest env st i = Inr m \<Longrightarrow> valid_release m \<and> rm_release_id m = i"
  by (auto simp: read_manifest_def rbind_Inr_iff Let_def split: option.splits if_splits)

lemma read_manifest_target:
  "read_manifest env st i = Inr m \<Longrightarrow>
   \<exists>f. sl_target (release_slot i st) = Some f \<and> f_content f = Whole m"
  by (auto simp: read_manifest_def read_private_def rbind_Inr_iff Let_def
      split: option.splits if_splits document.splits)

lemma read_pointers_Some:
  assumes "read_pointers env st = Inr (Some p)"
  shows "valid_pointers p \<and> (\<exists>m. read_manifest env st (rp_active_release_id p) = Inr m \<and> rm_status m = DS_active) \<and>
    (\<forall>q. rp_previous_release_id p = Some q \<longrightarrow> (\<exists>m. read_manifest env st q = Inr m))"
  using assms unfolding read_pointers_def Let_def
  apply (simp split: if_split_asm)
  apply (erule rbind_InrE)
  apply (simp split: option.split_asm if_split_asm)
  by (auto elim!: rbind_InrE split: if_split_asm)

lemma read_pointers_target:
  "read_pointers env st = Inr p \<Longrightarrow>
   (case p of None \<Rightarrow> sl_target (rs_pointer st) = None
    | Some q \<Rightarrow> \<exists>f. sl_target (rs_pointer st) = Some f \<and> f_content f = Whole q)"
  by (auto simp: read_pointers_def read_private_def rbind_Inr_iff Let_def
      split: option.splits if_splits document.splits)

section \<open>What persisting keeps\<close>

lemma revalidate_release_Inr:
  "revalidate_release m = Inr r \<longleftrightarrow> r = stored_release m \<and> valid_release r"
  by (auto simp: revalidate_release_def Let_def)

lemma persist_release_Inr:
  assumes "persist_release env m = Inr p"
  shows "valid_release p \<and> p = stored_release (redact_release (se_redact env) m)"
  using assms by (auto simp: persist_release_def Let_def revalidate_release_Inr split: if_splits)

lemma redact_release_facts [simp]:
  "rm_status (redact_release red m) = rm_status m"
  "rm_production_health_passed (redact_release red m) = rm_production_health_passed m"
  "rm_production_changed (redact_release red m) = rm_production_changed m"
  "rm_production_migration_started (redact_release red m) = rm_production_migration_started m"
  "rm_traffic_activation_attempted (redact_release red m) = rm_traffic_activation_attempted m"
  "rm_traffic_activated (redact_release red m) = rm_traffic_activated m"
  "rm_started_at (redact_release red m) = rm_started_at m"
  "rm_updated_at (redact_release red m) = rm_updated_at m"
  by (simp_all add: redact_release_def)

lemma stored_release_facts [simp]:
  "rm_status (stored_release m) = rm_status m"
  "rm_production_health_passed (stored_release m) = rm_production_health_passed m"
  "rm_production_changed (stored_release m) = rm_production_changed m"
  "rm_production_migration_started (stored_release m) = rm_production_migration_started m"
  "rm_traffic_activation_attempted (stored_release m) = rm_traffic_activation_attempted m"
  "rm_traffic_activated (stored_release m) = rm_traffic_activated m"
  "rm_started_at (stored_release m) = serialize_utc_timestamp (rm_started_at m)"
  "rm_updated_at (stored_release m) = serialize_utc_timestamp (rm_updated_at m)"
  by (simp_all add: stored_release_def)

section \<open>A durable update is atomic\<close>

definition nonempty_records :: "store_env \<Rightarrow> bool" where
  "nonempty_records env \<longleftrightarrow> (\<forall>m. 0 < se_release_size env m) \<and> (\<forall>p. 0 < se_pointer_size env p)"

lemma release_slot_put:
  assumes "map_of (rs_entries st) i = Some (Release_dir k sl0 xs)"
  shows "release_slot j (put_release_slot i sl st) = (if j = i then sl else release_slot j st)"
  using assms by (simp add: release_slot_def put_release_slot_def map_entry_lookup split: option.split)

lemma put_release_slot_frame [simp]:
  "rs_root (put_release_slot i sl st) = rs_root st" "rs_dir (put_release_slot i sl st) = rs_dir st"
  "rs_pointer (put_release_slot i sl st) = rs_pointer st"
  by (simp_all add: put_release_slot_def)

lemma slot_entry:
  "sl_target (release_slot i st) = Some f \<Longrightarrow>
   \<exists>k sl xs. map_of (rs_entries st) i = Some (Release_dir k sl xs)"
  by (auto simp: release_slot_def no_slot_def split: option.splits release_entry.splits)

text \<open>
  The outcome of writing manifest \<open>p\<close> for release \<open>i\<close>: nothing else in the store changes, and
  the manifest file is the old one or the whole new one.
\<close>

definition others_kept :: "string \<Rightarrow> release_store \<Rightarrow> release_store \<Rightarrow> bool" where
  "others_kept i st st' \<longleftrightarrow>
     rs_root st' = rs_root st \<and> rs_dir st' = rs_dir st \<and> rs_pointer st' = rs_pointer st \<and>
     (\<forall>j. j \<noteq> i \<longrightarrow> release_slot j st' = release_slot j st)"

lemma others_kept_refl [simp]: "others_kept i st st"
  by (simp add: others_kept_def)

lemma write_release_triple:
  assumes "nonempty_records env" and "map_of (rs_entries st) i = Some (Release_dir k sl0 xs)"
  shows "triple (\<lambda>s. os_world s = st) (write_release env u i m)
    (\<lambda>_ s. \<exists>p. persist_release env m = Inr p \<and> others_kept i st (os_world s) \<and>
        published u p (release_slot i st) (release_slot i (os_world s)))
    (\<lambda>_ s. others_kept i st (os_world s) \<and>
      (sl_target (release_slot i (os_world s)) = sl_target (release_slot i st) \<or>
       (\<exists>p. persist_release env m = Inr p \<and>
          sl_target (release_slot i (os_world s)) = Some (private_file (Whole p)))))"
  unfolding write_release_def
proof (rule triple_lift_bnd, simp)
  fix p assume p: "persist_release env m = Inr p"
  have len: "0 < se_release_size env p" using assms(1) by (simp add: nonempty_records_def)
  have put: "others_kept i st (put_release_slot i v st)" "release_slot i (put_release_slot i v st) = v" for v
    using assms(2) by (simp_all add: others_kept_def release_slot_put)
  show "triple (\<lambda>s. os_world s = st)
     (if se_release_size env p > max_release_bytes
      then raise (release_write_error env ''release record exceeds the durable size limit'' (manifest_path env i))
      else in_slot (release_slot i) (put_release_slot i)
        (atomic_write True (se_schedule env) u
          (\<lambda>_. release_write_error env ''release record could not be written atomically'' (manifest_path env i))
          p (se_release_size env p)))
    (\<lambda>_ s. \<exists>p. persist_release env m = Inr p \<and> others_kept i st (os_world s) \<and>
        published u p (release_slot i st) (release_slot i (os_world s)))
    (\<lambda>_ s. others_kept i st (os_world s) \<and>
      (sl_target (release_slot i (os_world s)) = sl_target (release_slot i st) \<or>
       (\<exists>p. persist_release env m = Inr p \<and>
          sl_target (release_slot i (os_world s)) = Some (private_file (Whole p)))))"
  proof (cases "se_release_size env p > max_release_bytes")
    case True then show ?thesis by (auto intro: triple_pre [OF triple_raise])
  next
    case False
    then show ?thesis
      using p put
      by (auto intro!: triple_weaken [OF triple_in_slot [where w = st, OF triple_atomic_write [OF len]]]
          simp: replaced_or_kept_def same_but_def published_def)
  qed
qed

text \<open>
  The contract of a durable update with the pure step \<open>f\<close>: either it returns the persisted
  successor, which is what the store now holds, or it raises and the store holds the old
  manifest or that successor. Nothing else changes.
\<close>

definition successor ::
  "store_env \<Rightarrow> string \<Rightarrow> (release_manifest \<Rightarrow> release_manifest result) \<Rightarrow> release_store \<Rightarrow>
   release_manifest \<Rightarrow> bool" where
  "successor env i f st p \<longleftrightarrow> (\<exists>cur x. read_manifest env st i = Inr cur \<and> f cur = Inr x \<and>
     persist_release env x = Inr p)"

definition updated_to ::
  "store_env \<Rightarrow> string \<Rightarrow> (release_manifest \<Rightarrow> release_manifest result) \<Rightarrow> release_store \<Rightarrow>
   release_manifest \<Rightarrow> release_store \<Rightarrow> bool" where
  "updated_to env i f st p st' \<longleftrightarrow> successor env i f st p \<and> others_kept i st st' \<and>
     sl_target (release_slot i st') = Some (private_file (Whole p)) \<and> read_manifest env st' i = Inr p"

definition interrupted_update ::
  "store_env \<Rightarrow> string \<Rightarrow> (release_manifest \<Rightarrow> release_manifest result) \<Rightarrow> release_store \<Rightarrow>
   release_store \<Rightarrow> bool" where
  "interrupted_update env i f st st' \<longleftrightarrow> others_kept i st st' \<and>
     (sl_target (release_slot i st') = sl_target (release_slot i st) \<or>
      (\<exists>p. successor env i f st p \<and> sl_target (release_slot i st') = Some (private_file (Whole p))))"

lemma triple_reading_bnd:
  assumes "\<And>e s. P s \<Longrightarrow> g (os_world s) = Inl e \<Longrightarrow> E e s"
    and "\<And>x. triple (\<lambda>s. P s \<and> g (os_world s) = Inr x) (f x) Q E"
  shows "triple P (bnd (reading g) f) Q E"
proof (rule triple_bnd [where R = "\<lambda>x s. P s \<and> g (os_world s) = Inr x"])
  show "triple P (reading g) (\<lambda>x s. P s \<and> g (os_world s) = Inr x) E"
    using assms(1) by (auto simp: triple_def reading_def bnd_def fetch_def lift_result_def split: sum.split)
qed (rule assms(2))

lemma triple_reading:
  assumes "\<And>e s. P s \<Longrightarrow> g (os_world s) = Inl e \<Longrightarrow> E e s"
    and "\<And>x s. P s \<Longrightarrow> g (os_world s) = Inr x \<Longrightarrow> Q x s"
  shows "triple P (reading g) Q E"
  using assms by (auto simp: triple_def reading_def bnd_def fetch_def lift_result_def split: sum.split)

lemma update_release_triple:
  assumes "nonempty_records env"
  shows "triple (\<lambda>s. os_world s = st) (update_release env u i f)
    (\<lambda>p s. updated_to env i f st p (os_world s)) (\<lambda>_ s. interrupted_update env i f st (os_world s))"
  unfolding update_release_def
proof (rule triple_reading_bnd)
  fix e :: exn and s :: "release_store osys"
  assume "os_world s = st" then show "interrupted_update env i f st (os_world s)"
    by (simp add: interrupted_update_def)
next
  fix cur
  show "triple (\<lambda>s. os_world s = st \<and> read_manifest env (os_world s) i = Inr cur)
     (bnd (lift_result (f cur)) (\<lambda>persisted. andthen (write_release env u i persisted)
        (reading (\<lambda>st. read_manifest env st i))))
     (\<lambda>p s. updated_to env i f st p (os_world s)) (\<lambda>_ s. interrupted_update env i f st (os_world s))"
  proof (cases "read_manifest env st i = Inr cur")
    case False
    then show ?thesis by (auto simp: triple_def)
  next
    case True
    from read_manifest_target [OF True] slot_entry obtain k sl0 xs
      where entry: "map_of (rs_entries st) i = Some (Release_dir k sl0 xs)" by blast
    show ?thesis
    proof (rule triple_lift_bnd)
      fix x assume x: "f cur = Inr x"
      note w = write_release_triple [OF assms entry, where u = u and m = x]
      show "triple (\<lambda>s. os_world s = st \<and> read_manifest env (os_world s) i = Inr cur)
         (andthen (write_release env u i x) (reading (\<lambda>st. read_manifest env st i)))
         (\<lambda>p s. updated_to env i f st p (os_world s)) (\<lambda>_ s. interrupted_update env i f st (os_world s))"
      proof (rule triple_andthen [where R = "\<lambda>s. \<exists>p. successor env i f st p \<and> others_kept i st (os_world s) \<and>
              sl_target (release_slot i (os_world s)) = Some (private_file (Whole p))"])
        show "triple (\<lambda>s. os_world s = st \<and> read_manifest env (os_world s) i = Inr cur)
           (write_release env u i x)
           (\<lambda>_ s. \<exists>p. successor env i f st p \<and> others_kept i st (os_world s) \<and>
              sl_target (release_slot i (os_world s)) = Some (private_file (Whole p)))
           (\<lambda>_ s. interrupted_update env i f st (os_world s))"
          by (rule triple_weaken [OF w])
            (use True x in \<open>auto simp: successor_def interrupted_update_def published_def\<close>)
        show "triple (\<lambda>s. \<exists>p. successor env i f st p \<and> others_kept i st (os_world s) \<and>
              sl_target (release_slot i (os_world s)) = Some (private_file (Whole p)))
           (reading (\<lambda>st. read_manifest env st i))
           (\<lambda>p s. updated_to env i f st p (os_world s)) (\<lambda>_ s. interrupted_update env i f st (os_world s))"
          by (rule triple_reading)
            (auto simp: updated_to_def interrupted_update_def dest!: read_manifest_target)
      qed
    qed (auto simp: interrupted_update_def)
  qed
qed

section \<open>The lifecycle of a release\<close>

text \<open>
  One durable step of a release, whatever the clock, the redaction and the arguments: a
  transition, a recovery intent or the resolution of a recovery.
\<close>

inductive release_step :: "store_env \<Rightarrow> release_manifest \<Rightarrow> release_manifest \<Rightarrow> bool" for env where
  step_transition:
    "advance now m st c = Inr x \<Longrightarrow> persist_release env x = Inr m' \<Longrightarrow> release_step env m m'"
| step_intent:
    "record_intent now m migration traffic = Inr x \<Longrightarrow> persist_release env x = Inr m' \<Longrightarrow>
     release_step env m m'"
| step_resolve:
    "st \<in> {DS_active, DS_rolled_back} \<Longrightarrow> resolve now m st oper traffic = Inr x \<Longrightarrow>
     persist_release env x = Inr m' \<Longrightarrow> release_step env m m'"

inductive release_history_of :: "store_env \<Rightarrow> release_manifest \<Rightarrow> release_manifest \<Rightarrow> bool" for env where
  history_start: "release_history_of env m m"
| history_step: "release_history_of env m m' \<Longrightarrow> release_step env m' m'' \<Longrightarrow> release_history_of env m m''"

text \<open>
  How far a lifecycle has come. Every transition and every resolution climbs; a recovery
  intent stays.
\<close>

fun lifecycle_rank :: "deployment_state \<Rightarrow> nat" where
  "lifecycle_rank DS_created = 0"
| "lifecycle_rank DS_preflight_passed = 1"
| "lifecycle_rank DS_snapshot_verified = 2"
| "lifecycle_rank DS_rehearsal_passed = 3"
| "lifecycle_rank DS_candidate_healthy = 4"
| "lifecycle_rank DS_maintenance_enabled = 5"
| "lifecycle_rank DS_current_app_stopped = 6"
| "lifecycle_rank DS_final_snapshot_verified = 7"
| "lifecycle_rank DS_production_migrated = 8"
| "lifecycle_rank DS_new_app_healthy = 9"
| "lifecycle_rank DS_traffic_activated = 10"
| "lifecycle_rank DS_rollback_started = 11"
| "lifecycle_rank DS_recovery_required = 12"
| "lifecycle_rank DS_failed_safe = 13"
| "lifecycle_rank DS_active = 14"
| "lifecycle_rank DS_rolled_back = 15"
| "lifecycle_rank _ = 0"

lemma allowed_climbs: "st \<in> set (allowed_transitions s) \<Longrightarrow> lifecycle_rank s < lifecycle_rank st"
  by (cases s) auto

lemma advance_Inr:
  assumes "advance now m st c = Inr x"
  shows "rm_status m \<notin> terminal_states \<and> st \<in> set (allowed_transitions (rm_status m)) \<and>
    valid_release x \<and> x = stored_release (apply_changes (now_not_before now (rm_updated_at m)) m st c)"
  using assms by (auto simp: advance_def revalidate_release_Inr split: if_splits)

lemma resolve_Inr:
  assumes "resolve now m st oper traffic = Inr x"
  shows "rm_status m = DS_recovery_required \<and> rm_failure m \<noteq> None \<and> rm_status x = st \<and>
    rm_traffic_activated x = traffic"
  using assms by (auto simp: resolve_def Let_def revalidate_release_Inr split: if_splits)

lemma now_not_before_ge: "previous \<le> now_not_before now previous"
  by (simp add: now_not_before_def)

text \<open>What every step keeps, and what it may move.\<close>

definition step_forward :: "release_manifest \<Rightarrow> release_manifest \<Rightarrow> bool" where
  "step_forward m m' \<longleftrightarrow> valid_release m' \<and>
     (rm_production_migration_started m \<longrightarrow> rm_production_migration_started m') \<and>
     (rm_traffic_activation_attempted m \<longrightarrow> rm_traffic_activation_attempted m') \<and>
     serialize_utc_timestamp (rm_updated_at m) \<le> rm_updated_at m' \<and>
     rm_started_at m' = serialize_utc_timestamp (rm_started_at m) \<and>
     (rm_status m = rm_status m' \<and> rm_status m \<notin> terminal_states \<or>
      rm_status m' \<in> set (allowed_transitions (rm_status m)) \<or>
      rm_status m = DS_recovery_required \<and> rm_status m' \<in> {DS_active, DS_rolled_back})"

lemma release_step_forward: "release_step env m m' \<Longrightarrow> step_forward m m'"
proof (induction rule: release_step.induct)
  case (step_transition now m st c x m')
  then show ?case
    using advance_Inr [OF step_transition(1)] persist_release_Inr [OF step_transition(2)]
    by (auto simp: step_forward_def apply_changes_def serialize_idem
        intro!: serialize_mono now_not_before_ge)
next
  case (step_intent now m migration traffic x m')
  then show ?case
    using persist_release_Inr [OF step_intent(2)]
    by (auto simp: step_forward_def record_intent_def revalidate_release_Inr serialize_idem
        intro!: serialize_mono now_not_before_ge split: if_splits)
next
  case (step_resolve st now m oper traffic x m')
  then show ?case
    using persist_release_Inr [OF step_resolve(3)]
    by (auto simp: step_forward_def resolve_def revalidate_release_Inr Let_def serialize_idem
        intro!: serialize_mono now_not_before_ge split: if_splits)
qed

inductive_cases release_stepE: "release_step env m m'"

lemma no_transition_from_terminal: "s \<in> terminal_states \<Longrightarrow> allowed_transitions s = []"
  by auto

lemma history_forward:
  assumes "release_history_of env m m'" and "valid_release m"
  shows "valid_release m' \<and>
    (rm_production_migration_started m \<longrightarrow> rm_production_migration_started m') \<and>
    (rm_traffic_activation_attempted m \<longrightarrow> rm_traffic_activation_attempted m') \<and>
    serialize_utc_timestamp (rm_updated_at m) \<le> rm_updated_at m' \<and>
    serialize_utc_timestamp (rm_started_at m') = serialize_utc_timestamp (rm_started_at m) \<and>
    lifecycle_rank (rm_status m) \<le> lifecycle_rank (rm_status m')"
  using assms
proof (induction rule: release_history_of.induct)
  case (history_start m)
  then show ?case by (simp add: serialize_le)
next
  case (history_step m m' m'')
  note IH = history_step.IH [OF history_step.prems]
  have f: "step_forward m' m''" using release_step_forward [OF history_step.hyps(2)] .
  have "serialize_utc_timestamp (rm_updated_at m) \<le> serialize_utc_timestamp (rm_updated_at m')"
    using IH serialize_mono [of "serialize_utc_timestamp (rm_updated_at m)" "rm_updated_at m'"] by simp
  moreover have "lifecycle_rank (rm_status m') \<le> lifecycle_rank (rm_status m'')"
    using f allowed_climbs [of "rm_status m''" "rm_status m'"] by (auto simp: step_forward_def)
  ultimately show ?case using IH f by (auto simp: step_forward_def)
qed

lemma release_step_climbs:
  "release_step env m m' \<Longrightarrow> rm_status m' \<noteq> rm_status m \<Longrightarrow>
   lifecycle_rank (rm_status m) < lifecycle_rank (rm_status m')"
  using release_step_forward [of env m m'] allowed_climbs [of "rm_status m'" "rm_status m"]
  by (auto simp: step_forward_def)

lemma lifecycle_rank_bound: "lifecycle_rank s \<le> 15"
  by (cases s) auto

section \<open>Selecting the active release\<close>

definition redaction_marks :: "store_env \<Rightarrow> bool" where
  "redaction_marks env \<longleftrightarrow> (\<forall>i. is_release_id (se_redact env i) \<longrightarrow> se_redact env i = i)"

lemma persist_pointers_Inr:
  assumes "redaction_marks env" and "persist_pointers env p = Inr q"
  shows "rp_active_release_id q = rp_active_release_id p \<and>
    rp_previous_release_id q = rp_previous_release_id p"
  using assms
  by (cases "rp_previous_release_id p")
    (auto simp: persist_pointers_def Let_def valid_pointers_def redaction_marks_def split: if_splits)

definition pointers_written :: "store_env \<Rightarrow> release_pointers \<Rightarrow> release_store \<Rightarrow> release_store \<Rightarrow> bool" where
  "pointers_written env p st st' \<longleftrightarrow> rs_entries st' = rs_entries st \<and>
     (\<exists>q. persist_pointers env p = Inr q \<and> sl_target (rs_pointer st') = Some (private_file (Whole q)))"

lemma write_pointers_triple:
  assumes "nonempty_records env"
  shows "triple (\<lambda>s. os_world s = st) (write_pointers env u p)
    (\<lambda>_ s. pointers_written env p st (os_world s))
    (\<lambda>_ s. rs_entries (os_world s) = rs_entries st \<and>
      (sl_target (rs_pointer (os_world s)) = sl_target (rs_pointer st) \<or>
       pointers_written env p st (os_world s)))"
  unfolding write_pointers_def
proof (rule triple_lift_bnd, simp)
  fix q assume q: "persist_pointers env p = Inr q"
  have len: "0 < se_pointer_size env q" using assms(1) by (simp add: nonempty_records_def)
  show "triple (\<lambda>s. os_world s = st)
     (if se_pointer_size env q > max_release_bytes
      then raise (release_write_error env ''release record exceeds the durable size limit'' (pointer_path env))
      else in_slot rs_pointer put_pointer
        (atomic_write True (se_schedule env) u
          (\<lambda>_. release_write_error env ''release record could not be written atomically'' (pointer_path env))
          q (se_pointer_size env q)))
    (\<lambda>_ s. pointers_written env p st (os_world s))
    (\<lambda>_ s. rs_entries (os_world s) = rs_entries st \<and>
      (sl_target (rs_pointer (os_world s)) = sl_target (rs_pointer st) \<or>
       pointers_written env p st (os_world s)))"
  proof (cases "se_pointer_size env q > max_release_bytes")
    case True then show ?thesis by (auto intro: triple_pre [OF triple_raise])
  next
    case False
    then show ?thesis
      using q
      by (auto intro!: triple_weaken [OF triple_in_slot [where w = st, OF triple_atomic_write [OF len]]]
          simp: replaced_or_kept_def same_but_def published_def pointers_written_def put_pointer_def)
  qed
qed

text \<open>Reading depends on the entries and on the pointer file only.\<close>

lemma read_manifest_entries:
  "rs_entries st' = rs_entries st \<Longrightarrow> read_manifest env st' i = read_manifest env st i"
  by (simp add: read_manifest_def release_slot_def)

lemma read_pointers_frame:
  assumes "rs_entries st' = rs_entries st" and "rs_pointer st' = rs_pointer st"
  shows "read_pointers env st' = read_pointers env st"
proof -
  have manifests: "read_manifest env st' = read_manifest env st"
    by (rule ext) (rule read_manifest_entries [OF assms(1)])
  show ?thesis unfolding read_pointers_def assms(2) manifests by (rule refl)
qed

definition same_releases :: "release_store \<Rightarrow> release_store \<Rightarrow> bool" where
  "same_releases st st' \<longleftrightarrow> rs_entries st' = rs_entries st \<and> rs_pointer st' = rs_pointer st"

lemma layout_keeps_releases:
  "keeps (\<lambda>s. same_releases st (os_world s)) (ensure_release_layout env)"
  unfolding ensure_release_layout_def Let_def
  by (intro keeps_andthen keeps_ensure_directory) (simp_all add: same_releases_def)

text \<open>The selection after an activation of release \<open>i\<close> that found the selection \<open>old\<close>.\<close>

definition selection_moved :: "string \<Rightarrow> release_pointers option \<Rightarrow> release_pointers \<Rightarrow> bool" where
  "selection_moved i old new \<longleftrightarrow> rp_active_release_id new = i \<and>
     (case old of None \<Rightarrow> rp_previous_release_id new = None
      | Some p \<Rightarrow> (if rp_active_release_id p = i then new = p
                   else rp_previous_release_id new = Some (rp_active_release_id p)))"

lemma activate_tail:
  fixes env i now current
  defines "new \<equiv> \<lparr>rp_active_release_id = i,
    rp_previous_release_id = map_option rp_active_release_id current, rp_updated_at = now\<rparr>"
  assumes "nonempty_records env"
    and moved: "\<And>q. persist_pointers env new = Inr q \<Longrightarrow> map_option rp_active_release_id current \<noteq> Some i \<Longrightarrow>
      selection_moved i current q"
  shows "triple (\<lambda>s. (same_releases st (os_world s) \<and> G s) \<and> read_pointers env (os_world s) = Inr current)
    (if map_option rp_active_release_id current = Some i then ret (the current)
     else andthen (write_pointers env u new)
            (bnd (reading (read_pointers env)) (\<lambda>q. case q of
               None \<Rightarrow> raise (PyException ''AssertionError'' []) | Some r \<Rightarrow> ret r)))
    (\<lambda>p s. rs_entries (os_world s) = rs_entries st \<and> read_pointers env (os_world s) = Inr (Some p) \<and>
      (\<exists>old. read_pointers env st = Inr old \<and> selection_moved i old p))
    (\<lambda>_ s. rs_entries (os_world s) = rs_entries st \<and>
      (sl_target (rs_pointer (os_world s)) = sl_target (rs_pointer st) \<or>
       (\<exists>old q. read_pointers env st = Inr old \<and> selection_moved i old q \<and>
          sl_target (rs_pointer (os_world s)) = Some (private_file (Whole q)))))"
    (is "triple ?P _ ?Q ?E")
proof (cases "map_option rp_active_release_id current = Some i")
  case True
  then obtain p where "current = Some p" "rp_active_release_id p = i" by (cases current) auto
  then show ?thesis
    by (auto intro!: triple_pre [OF triple_ret] simp: same_releases_def selection_moved_def
        intro: read_pointers_frame dest: read_pointers_frame [of _ st env])
next
  case False
  show ?thesis
  proof (cases "read_pointers env st = Inr current")
    case other: False
    then have "\<not> ?P s" for s
      using read_pointers_frame [of "os_world s" st env] by (auto simp: same_releases_def)
    then show ?thesis by (auto simp: triple_def)
  next
    case old: True
    have w: "triple ?P (write_pointers env u new)
      (\<lambda>_ s. rs_entries (os_world s) = rs_entries st \<and>
         (\<exists>q. selection_moved i current q \<and> sl_target (rs_pointer (os_world s)) = Some (private_file (Whole q)))) ?E"
    proof (rule tripleI)
      fix s e t assume "?P s" and run: "write_pointers env u new s = (Inl e, t)"
      then show "?E e t"
        using tripleD_Inl [OF write_pointers_triple [OF assms(2)] refl run] moved [OF _ False] old
        by (auto simp: same_releases_def pointers_written_def)
    next
      fix s x t assume "?P s" and run: "write_pointers env u new s = (Inr x, t)"
      then show "rs_entries (os_world t) = rs_entries st \<and>
         (\<exists>q. selection_moved i current q \<and> sl_target (rs_pointer (os_world t)) = Some (private_file (Whole q)))"
        using tripleD_Inr [OF write_pointers_triple [OF assms(2)] refl run] moved [OF _ False]
        by (auto simp: same_releases_def pointers_written_def)
    qed
    have r: "triple (\<lambda>s. rs_entries (os_world s) = rs_entries st \<and>
         (\<exists>q. selection_moved i current q \<and> sl_target (rs_pointer (os_world s)) = Some (private_file (Whole q))))
       (bnd (reading (read_pointers env)) (\<lambda>q. case q of
               None \<Rightarrow> raise (PyException ''AssertionError'' []) | Some r \<Rightarrow> ret r)) ?Q ?E"
    proof (rule triple_reading_bnd)
      fix q show "triple (\<lambda>s. (rs_entries (os_world s) = rs_entries st \<and>
         (\<exists>q. selection_moved i current q \<and> sl_target (rs_pointer (os_world s)) = Some (private_file (Whole q)))) \<and>
           read_pointers env (os_world s) = Inr q)
        (case q of None \<Rightarrow> raise (PyException ''AssertionError'' []) | Some r \<Rightarrow> ret r) ?Q ?E"
        using old by (cases q) (auto intro!: triple_pre [OF triple_raise] triple_pre [OF triple_ret]
            dest: read_pointers_target)
    qed (use old in auto)
    show ?thesis unfolding if_not_P [OF False] by (rule triple_andthen [OF w r])
  qed
qed

lemma activate_release_triple:
  assumes "nonempty_records env" and "redaction_marks env"
  shows "triple (\<lambda>s. os_world s = st) (activate_release env now u i)
    (\<lambda>p s. rs_entries (os_world s) = rs_entries st \<and> read_pointers env (os_world s) = Inr (Some p) \<and>
      (\<exists>old. read_pointers env st = Inr old \<and> selection_moved i old p))
    (\<lambda>_ s. rs_entries (os_world s) = rs_entries st \<and>
      (sl_target (rs_pointer (os_world s)) = sl_target (rs_pointer st) \<or>
       (\<exists>old q. read_pointers env st = Inr old \<and> selection_moved i old q \<and>
          sl_target (rs_pointer (os_world s)) = Some (private_file (Whole q)))))"
    (is "triple ?P _ ?Q ?E")
  unfolding activate_release_def
proof (rule triple_andthen [where R = "\<lambda>s. same_releases st (os_world s)"])
  show "triple ?P (ensure_release_layout env) (\<lambda>_ s. same_releases st (os_world s)) ?E"
    by (rule triple_weaken [OF layout_keeps_releases [where st = st, unfolded keeps_def]])
      (auto simp: same_releases_def)
  let ?new = "\<lambda>old. \<lparr>rp_active_release_id = i,
    rp_previous_release_id = map_option rp_active_release_id old, rp_updated_at = now\<rparr>"
  have moved: "selection_moved i old q"
    if "persist_pointers env (?new old) = Inr q" "map_option rp_active_release_id old \<noteq> Some i" for old q
    using persist_pointers_Inr [OF assms(2) that(1)] that(2)
    by (auto simp: selection_moved_def split: option.split)
  show "triple (\<lambda>s. same_releases st (os_world s))
     (bnd (reading (\<lambda>st. read_manifest env st i)) (\<lambda>selected.
     if rm_status selected \<noteq> DS_active
     then raise (value_error ''only an active release manifest can become current'')
     else bnd (reading (read_pointers env)) (\<lambda>current.
       if map_option rp_active_release_id current = Some i then ret (the current)
       else andthen (write_pointers env u (?new current))
            (bnd (reading (read_pointers env)) (\<lambda>q. case q of
               None \<Rightarrow> raise (PyException ''AssertionError'' []) | Some r \<Rightarrow> ret r))))) ?Q ?E"
  proof (rule triple_reading_bnd, force simp: same_releases_def)
    fix selected
    let ?R = "\<lambda>s. same_releases st (os_world s) \<and> read_manifest env (os_world s) i = Inr selected"
    show "triple ?R
       (if rm_status selected \<noteq> DS_active
        then raise (value_error ''only an active release manifest can become current'')
        else bnd (reading (read_pointers env)) (\<lambda>current.
          if map_option rp_active_release_id current = Some i then ret (the current)
          else andthen (write_pointers env u (?new current))
            (bnd (reading (read_pointers env)) (\<lambda>q. case q of
               None \<Rightarrow> raise (PyException ''AssertionError'' []) | Some r \<Rightarrow> ret r)))) ?Q ?E"
    proof (cases "rm_status selected = DS_active")
      case False
      then show ?thesis by (auto intro!: triple_pre [OF triple_raise] simp: same_releases_def)
    next
      case True
      have "triple ?R (bnd (reading (read_pointers env)) (\<lambda>current.
          if map_option rp_active_release_id current = Some i then ret (the current)
          else andthen (write_pointers env u (?new current))
            (bnd (reading (read_pointers env)) (\<lambda>q. case q of
               None \<Rightarrow> raise (PyException ''AssertionError'' []) | Some r \<Rightarrow> ret r)))) ?Q ?E"
      proof (rule triple_reading_bnd, force simp: same_releases_def)
        fix current
        show "triple (\<lambda>s. ?R s \<and> read_pointers env (os_world s) = Inr current)
          (if map_option rp_active_release_id current = Some i then ret (the current)
           else andthen (write_pointers env u (?new current))
            (bnd (reading (read_pointers env)) (\<lambda>q. case q of
               None \<Rightarrow> raise (PyException ''AssertionError'' []) | Some r \<Rightarrow> ret r))) ?Q ?E"
          by (rule activate_tail [OF assms(1) moved])
      qed
      then show ?thesis using True by simp
    qed
  qed
qed

section \<open>The operations of the store as lifecycle steps\<close>

datatype lifecycle_op =
    Op_transition deployment_state release_changes
  | Op_intent bool bool
  | Op_resolve deployment_state string bool

fun run_lifecycle_op ::
  "store_env \<Rightarrow> int \<Rightarrow> string \<Rightarrow> string \<Rightarrow> lifecycle_op \<Rightarrow> release_manifest release_act" where
  "run_lifecycle_op env now u i (Op_transition st c) = transition env now u i st c"
| "run_lifecycle_op env now u i (Op_intent mig traffic) = record_recovery_intent env now u i mig traffic"
| "run_lifecycle_op env now u i (Op_resolve st oper traffic) = resolve_recovery env now u i st oper traffic"

definition op_step :: "int \<Rightarrow> lifecycle_op \<Rightarrow> release_manifest \<Rightarrow> release_manifest result" where
  "op_step now oper m = (case oper of
      Op_transition st c \<Rightarrow> advance now m st c
    | Op_intent mig traffic \<Rightarrow> record_intent now m mig traffic
    | Op_resolve st oid traffic \<Rightarrow> resolve now m st oid traffic)"

definition op_refused :: "lifecycle_op \<Rightarrow> bool" where
  "op_refused oper = (case oper of
      Op_transition _ _ \<Rightarrow> False
    | Op_intent mig traffic \<Rightarrow> \<not> mig \<and> \<not> traffic
    | Op_resolve st _ _ \<Rightarrow> st \<notin> {DS_active, DS_rolled_back})"

lemma op_successor_step:
  assumes "\<not> op_refused oper" and "successor env i (op_step now oper) st p"
  shows "\<exists>m. read_manifest env st i = Inr m \<and> release_step env m p"
  using assms
  by (cases oper) (auto simp: op_refused_def op_step_def successor_def intro: release_step.intros)

lemma run_lifecycle_op_triple:
  assumes "nonempty_records env"
  shows "triple (\<lambda>s. os_world s = st) (run_lifecycle_op env now u i oper)
    (\<lambda>p s. \<not> op_refused oper \<and> updated_to env i (op_step now oper) st p (os_world s))
    (\<lambda>_ s. os_world s = st \<or> \<not> op_refused oper \<and> interrupted_update env i (op_step now oper) st (os_world s))"
proof (cases "op_refused oper")
  case True
  then show ?thesis
    by (cases oper) (auto simp: op_refused_def record_recovery_intent_def resolve_recovery_def
        intro!: triple_pre [OF triple_raise])
next
  case False
  then have "run_lifecycle_op env now u i oper = update_release env u i (op_step now oper)"
    by (cases oper)
      (auto simp: op_refused_def op_step_def [abs_def] transition_def record_recovery_intent_def
        resolve_recovery_def)
  with False show ?thesis by (auto intro: triple_weaken [OF update_release_triple [OF assms]])
qed

lemma read_manifest_others:
  "others_kept i st st' \<Longrightarrow> j \<noteq> i \<Longrightarrow> read_manifest env st' j = read_manifest env st j"
  by (simp add: others_kept_def read_manifest_def)

lemma interrupted_manifest:
  assumes "interrupted_update env i f st st'" and "read_manifest env st i = Inr m"
    and "read_manifest env st' i = Inr m'"
  shows "m' = m \<or> successor env i f st m'"
  using assms read_manifest_target [OF assms(2)] read_manifest_target [OF assms(3)]
  by (auto simp: interrupted_update_def)

section \<open>What a history snapshot contains\<close>

lemma read_entries_Inr:
  assumes "read_entries env st es = Inr ms"
  shows "map rm_release_id ms = map fst es \<and>
    (\<forall>m \<in> set ms. read_manifest env st (rm_release_id m) = Inr m)"
  using assms
proof (induction es arbitrary: ms)
  case (Cons e es)
  from Cons.prems obtain m ms' where m: "read_entry env st e = Inr m" "read_entries env st es = Inr ms'"
    "ms = m # ms'" by (auto simp: rbind_Inr_iff)
  from m(1) have r: "read_manifest env st (fst e) = Inr m"
    by (cases e) (auto simp: read_entry_def elim!: rbind_InrE split: release_entry.split_asm if_split_asm)
  from read_manifest_valid [OF r] Cons.IH [OF m(2)] r m(3) show ?case by auto
qed simp

lemma read_history_Inr:
  assumes "read_history env st = Inr h" and "rs_dir st \<noteq> Root_missing" and "rs_root st \<noteq> Root_missing"
  shows "\<exists>ms. read_entries env st (rs_entries st) = Inr ms \<and> read_pointers env st = Inr (hs_pointers h) \<and>
      hs_releases h = rev (sort_key release_key (rev ms)) \<and>
      (\<forall>p. hs_pointers h = Some p \<longrightarrow> rp_active_release_id p \<in> rm_release_id ` set ms)"
proof -
  obtain ms p where *: "read_entries env st (rs_entries st) = Inr ms" "read_pointers env st = Inr p"
    "set (case p of None \<Rightarrow> [] | Some q \<Rightarrow> rp_active_release_id q #
       (case rp_previous_release_id q of None \<Rightarrow> [] | Some i \<Rightarrow> [i])) \<subseteq> set (map rm_release_id ms)"
    "h = \<lparr>hs_releases = rev (sort_key release_key (rev ms)), hs_pointers = p\<rparr>"
    using assms unfolding read_history_def Let_def
    by (fastforce elim!: rbind_InrE split: if_split_asm)
  have "rp_active_release_id q \<in> rm_release_id ` set ms" if "p = Some q" for q
    using *(3) by (simp add: that)
  with * show ?thesis by auto
qed

section \<open>Values to evaluate on\<close>

definition example_release_id :: string where
  "example_release_id = ''release_0123456789abcdef0123456789abcdef''"

definition example_operation_id :: string where
  "example_operation_id = ''op_0123456789abcdef0123456789abcdef''"

definition example_sha :: string where
  "example_sha = ''0123456789abcdef0123456789abcdef0123456789abcdef0123456789abcdef''"

definition example_env :: store_env where
  "example_env = \<lparr>se_path = ''/var/lib/dploydb'', se_redact = id, se_release_size = (\<lambda>_. 100),
     se_pointer_size = (\<lambda>_. 100), se_schedule = all_work\<rparr>"

definition example_release :: release_manifest where
  "example_release = new_release example_env 1000 example_release_id example_operation_id ''shop''
     ''v1'' example_sha ''/var/log/op'' None None"

definition example_releases :: "release_store osys" where
  "example_releases = \<lparr>os_calls = 0, os_world = \<lparr>rs_root = Root_entry True directory_mode,
     rs_dir = Root_entry True directory_mode,
     rs_entries = [(example_release_id, Release_dir directory_mode
       \<lparr>sl_target = Some (private_file (Whole example_release)), sl_temps = []\<rparr> [])],
     rs_pointer = no_slot\<rparr>\<rparr>"

lemma example_env_simps [simp]:
  "nonempty_records example_env" "redaction_marks example_env"
  "se_redact example_env = id" "se_release_size example_env m = 100"
  by (simp_all add: nonempty_records_def example_env_def redaction_marks_def)

lemma example_ids [simp]:
  "is_release_id example_release_id" "is_operation_id example_operation_id" "is_sha256 example_sha"
  by (simp_all add: example_release_id_def example_operation_id_def example_sha_def is_release_id_def
      is_operation_id_def is_sha256_def hex_tail_def is_lower_hex_def)

lemma example_release_valid: "valid_release example_release"
  by (simp add: valid_release_iff release_fields_ok_def release_checks_def Let_def example_release_def
      new_release_def length_between_def is_absolute_def is_version_def is_word_of_def word_like_def is_alnum_def
      is_lower_def is_digit_def)

lemma example_release_read:
  "read_manifest example_env (os_world example_releases) example_release_id = Inr example_release"
  using example_release_valid
  by (simp add: read_manifest_def validate_release_id_def ensure_def read_private_def release_slot_def
      example_releases_def max_release_bytes_def) (simp add: example_release_def new_release_def)

lemma example_step:
  "\<exists>m. release_step example_env example_release m \<and> rm_status m = DS_preflight_passed"
proof -
  let ?x = "stored_release (apply_changes 2000 example_release DS_preflight_passed no_changes)"
  have valid: "valid_release ?x"
    by (simp add: valid_release_iff release_fields_ok_def release_checks_def Let_def example_release_def
      new_release_def length_between_def is_absolute_def is_version_def is_word_of_def word_like_def
      is_alnum_def is_lower_def is_digit_def stored_release_def apply_changes_def no_changes_def given_def
      serialize_utc_timestamp_def)
  have adv: "advance 2000 example_release DS_preflight_passed no_changes = Inr ?x"
    using valid by (simp add: advance_def revalidate_release_Inr now_not_before_def)
      (simp add: example_release_def new_release_def)
  have "redact_release id ?x = ?x"
    by (simp add: redact_release_def stored_release_def apply_changes_def no_changes_def given_def
        example_release_def new_release_def)
  moreover have "stored_release ?x = ?x"
    by (simp add: stored_release_def option.map_comp o_def)
  ultimately have "persist_release example_env ?x = Inr ?x"
    using valid by (simp add: persist_release_def revalidate_release_Inr)
  from step_transition [OF adv this] show ?thesis by (auto simp: apply_changes_def)
qed



text \<open>
  C10. Along every lifecycle the manifest stays valid, an intent once recorded is never lost,
  time does not run backwards, and a release is active only with a verified final backup, both
  intents recorded before, checked health and a known previous application; it is rolled back
  only without activated traffic, and failed safe only with production unchanged.
\<close>

theorem lifecycle_facts:
  assumes "release_history_of env m m'" and "valid_release m"
  shows "valid_release m' \<and>
    (rm_production_migration_started m \<longrightarrow> rm_production_migration_started m') \<and>
    (rm_traffic_activation_attempted m \<longrightarrow> rm_traffic_activation_attempted m') \<and>
    serialize_utc_timestamp (rm_updated_at m) \<le> rm_updated_at m' \<and>
    (rm_status m' = DS_active \<longrightarrow> rm_final_backup_id m' \<noteq> None \<and> rm_production_migration_started m' \<and>
       rm_traffic_activation_attempted m' \<and> rm_production_health_passed m' \<and>
       rm_previous_application m' \<noteq> None \<and> rm_new_application m' \<noteq> None) \<and>
    (rm_status m' = DS_rolled_back \<longrightarrow> \<not> rm_traffic_activated m' \<and> rm_failure m' \<noteq> None) \<and>
    (rm_status m' = DS_failed_safe \<longrightarrow> \<not> rm_production_changed m' \<and> \<not> rm_traffic_activated m')"
proof -
  note f = history_forward [OF assms]
  then have v: "valid_release m'" by blast
  have "rm_final_backup_id m' \<noteq> None \<and> rm_production_migration_started m' \<and>
       rm_traffic_activation_attempted m' \<and> rm_production_health_passed m' \<and>
       rm_previous_application m' \<noteq> None \<and> rm_new_application m' \<noteq> None" if "rm_status m' = DS_active"
    using that release_migrated [OF v] release_healthy [OF v] release_traffic_fact [OF v]
      release_activated [OF v] release_previous [OF v] by simp
  then show ?thesis
    using f release_rolled_back [OF v] release_failure [OF v] release_failed_safe [OF v] by blast
qed

theorem lifecycle_facts_witness:
  "\<exists>m. release_history_of example_env example_release m \<and> rm_status m = DS_preflight_passed \<and>
     valid_release m"
proof -
  obtain m where m: "release_step example_env example_release m" "rm_status m = DS_preflight_passed"
    using example_step by blast
  from history_step [OF history_start m(1)] have h: "release_history_of example_env example_release m" .
  with lifecycle_facts [OF h example_release_valid] m(2) show ?thesis by blast
qed

text \<open>
  A finished release is final: no lifecycle step leaves an active, rolled-back or
  failed-safe release, and a release that requires recovery can only be resolved to active or
  rolled back.
\<close>

theorem finished_releases_are_final:
  "\<not> (release_step env m m' \<and> rm_status m \<in> {DS_active, DS_rolled_back, DS_failed_safe}) \<and>
   \<not> (release_step env m m' \<and> rm_status m = DS_recovery_required \<and>
      rm_status m' \<notin> {DS_active, DS_rolled_back})"
  using release_step_forward [of env m m'] by (auto simp: step_forward_def)

text \<open>
  Every lifecycle ends: the steps that change the status of a release are well-founded, a
  release can change its status at most fifteen times.
\<close>

theorem lifecycle_terminates:
  "wf {(m', m). release_step env m m' \<and> rm_status m' \<noteq> rm_status m}"
proof (rule wf_subset [OF wf_measure [of "\<lambda>m. 15 - lifecycle_rank (rm_status m)"]])
  show "{(m', m). release_step env m m' \<and> rm_status m' \<noteq> rm_status m}
      \<subseteq> measure (\<lambda>m. 15 - lifecycle_rank (rm_status m))"
    by (auto dest!: release_step_climbs intro!: diff_less_mono2 intro: less_le_trans [OF _ lifecycle_rank_bound])
qed

text \<open>
  C14. Activation selects exactly the release asked for and remembers the one selected before,
  leaves every manifest as it is, and reads back; when it fails at any point the pointer file
  is the old one or the complete new selection.
\<close>

theorem activation_selects:
  assumes "nonempty_records env" and "redaction_marks env"
    and "activate_release env now u i s = (r, t)"
  shows "rs_entries (os_world t) = rs_entries (os_world s) \<and>
    (case r of
       Inr p \<Rightarrow> read_pointers env (os_world t) = Inr (Some p) \<and>
         (\<exists>old. read_pointers env (os_world s) = Inr old \<and> selection_moved i old p)
     | Inl _ \<Rightarrow> sl_target (rs_pointer (os_world t)) = sl_target (rs_pointer (os_world s)) \<or>
         (\<exists>old q. read_pointers env (os_world s) = Inr old \<and> selection_moved i old q \<and>
            sl_target (rs_pointer (os_world t)) = Some (private_file (Whole q))))"
  using tripleD_Inl [OF activate_release_triple [OF assms(1,2)] refl]
    tripleD_Inr [OF activate_release_triple [OF assms(1,2)] refl] assms(3)
  by (cases r) fastforce+

theorem activation_selects_witness:
  "\<exists>r t. activate_release example_env 5000 ''u'' example_release_id example_releases = (r, t) \<and>
     rs_entries (os_world t) = rs_entries (os_world example_releases)"
  using activation_selects [OF example_env_simps(1,2)] by (metis surj_pair)

text \<open>
  A history snapshot holds every stored release once, each as its validated manifest, the
  newest first; both selected releases are in it, and the active selection is an active
  release.
\<close>

theorem history_snapshot_complete:
  assumes "read_history env st = Inr h" and "rs_dir st \<noteq> Root_missing" and "rs_root st \<noteq> Root_missing"
  shows "mset (map rm_release_id (hs_releases h)) = mset (map fst (rs_entries st)) \<and>
    (\<forall>m \<in> set (hs_releases h). valid_release m \<and> read_manifest env st (rm_release_id m) = Inr m) \<and>
    sorted (map release_key (rev (hs_releases h))) \<and>
    (\<forall>p. hs_pointers h = Some p \<longrightarrow>
       (\<exists>m \<in> set (hs_releases h). rm_release_id m = rp_active_release_id p \<and> rm_status m = DS_active))"
proof -
  obtain ms where ms: "read_entries env st (rs_entries st) = Inr ms"
    "read_pointers env st = Inr (hs_pointers h)" "hs_releases h = rev (sort_key release_key (rev ms))"
    "\<And>p. hs_pointers h = Some p \<Longrightarrow> rp_active_release_id p \<in> rm_release_id ` set ms"
    using read_history_Inr [OF assms] by blast
  note e = read_entries_Inr [OF ms(1)]
  have "\<exists>m \<in> set ms. rm_release_id m = rp_active_release_id p \<and> rm_status m = DS_active"
    if p: "hs_pointers h = Some p" for p
    using read_pointers_Some [OF ms(2) [unfolded p]] ms(4) [OF p] e by force
  moreover have "\<forall>m \<in> set ms. valid_release m" using e read_manifest_valid by blast
  moreover have "mset (map rm_release_id (hs_releases h)) = mset (map rm_release_id ms)"
    by (simp add: ms(3))
  ultimately show ?thesis using e by (simp add: ms(3) del: mset_map)
qed

theorem history_snapshot_complete_witness:
  "\<exists>h. read_history example_env (os_world example_releases) = Inr h \<and>
     mset (map rm_release_id (hs_releases h)) = {#example_release_id#}"
proof -
  have "\<exists>h. read_history example_env (os_world example_releases) = Inr h"
    using example_release_read
    by (simp add: read_history_def release_directory_check_def check_directory_def ensure_def Let_def
        read_entry_def read_pointers_def no_slot_def)
      (simp add: example_releases_def read_pointers_def no_slot_def read_entry_def
        release_directory_check_def check_directory_def ensure_def)
  then obtain h where h: "read_history example_env (os_world example_releases) = Inr h" ..
  have "rs_dir (os_world example_releases) \<noteq> Root_missing" "rs_root (os_world example_releases) \<noteq> Root_missing"
    by (simp_all add: example_releases_def)
  from history_snapshot_complete [OF h this] h show ?thesis by (auto simp: example_releases_def)
qed

end
