(* ===== verification/Operations.thy ===== *)
theory Operations
  imports Files "HOL-Library.Multiset"
begin

text \<open>
  The operation store (\<^verbatim>\<open>dploydb/state.py\<close>): one directory per operation with a manifest that
  is replaced atomically and an append-only event log. Every change appends the event first
  and then replaces the manifest; a reader accepts an operation only when the two agree. The
  store never repairs: whatever a fault or a crash leaves is accepted as a complete state or
  refused as corruption. \<open>op_env\<close> holds what the store is constructed with: path, redaction and
  sizes of serialised records. A log is its complete lines and the bytes after the last
  newline; a line that does not parse is a \<open>Bad_line\<close> with its length.
\<close>

section \<open>The store\<close>

datatype log_line = Event_line operation_event | Bad_line nat

datatype event_log = Event_log (log_lines: "log_line list") (log_tail: nat)

record operation_files =
  of_mode :: nat
  of_manifest :: "operation_manifest slot"
  of_events :: "event_log disk_file option"
  of_extra :: "string list"

datatype operation_entry = Operation_dir operation_files | Odd_operation

record state_store =
  ss_root :: root_state
  ss_dir :: root_state
  ss_operations :: "(string \<times> operation_entry) list"

record op_env =
  oe_path :: string
  oe_redact :: "string \<Rightarrow> string"
  oe_redact_json :: "(string \<times> json) list \<Rightarrow> (string \<times> json) list"
  oe_manifest_size :: "operation_manifest \<Rightarrow> nat"
  oe_event_size :: "operation_event \<Rightarrow> nat"
  oe_schedule :: schedule

definition max_event_bytes :: nat where "max_event_bytes = 1048576"

definition max_event_count :: nat where "max_event_count = 256"

definition max_event_log_bytes :: nat where "max_event_log_bytes = 33554432"

definition operations_path :: "op_env \<Rightarrow> string" where
  "operations_path env = oe_path env @ ''/operations''"

definition operation_directory :: "op_env \<Rightarrow> string \<Rightarrow> string" where
  "operation_directory env i = operations_path env @ ''/'' @ i"

definition operation_manifest_path :: "op_env \<Rightarrow> string \<Rightarrow> string" where
  "operation_manifest_path env i = operation_directory env i @ ''/manifest.json''"

definition operation_events_path :: "op_env \<Rightarrow> string \<Rightarrow> string" where
  "operation_events_path env i = operation_directory env i @ ''/events.jsonl''"

definition state_write_error :: "op_env \<Rightarrow> string \<Rightarrow> string \<Rightarrow> exn" where
  "state_write_error env detail path =
     Dploy (mk_error OperationFailedError (oe_redact env detail) False None (Some (oe_redact env path))
       ''Inspect the state path and retry only after correcting the cause.'')"

definition state_corruption :: "op_env \<Rightarrow> string \<Rightarrow> operation_manifest option \<Rightarrow> string \<Rightarrow> exn" where
  "state_corruption env path m detail =
     Dploy (mk_error StateCorruptionError (oe_redact env detail)
       (case m of None \<Rightarrow> True | Some x \<Rightarrow> sf_production_changed (om_safety x))
       (case m of None \<Rightarrow> None | Some x \<Rightarrow> sf_previous_application_running (om_safety x))
       (Some (oe_redact env path))
       ''Preserve the state files and inspect the recorded operation before any retry.'')"

definition validate_operation_id :: "string \<Rightarrow> unit result" where
  "validate_operation_id i =
     ensure (is_operation_id i) (value_error ''operation ID is invalid or contains unsafe characters'')"

definition operation_files_of :: "string \<Rightarrow> state_store \<Rightarrow> operation_files option" where
  "operation_files_of i st = (case map_of (ss_operations st) i of
      Some (Operation_dir d) \<Rightarrow> Some d | _ \<Rightarrow> None)"

section \<open>Reading\<close>

definition check_state_directory :: "op_env \<Rightarrow> string \<Rightarrow> root_state \<Rightarrow> unit result" where
  "check_state_directory env path d =
     check_directory (state_corruption env path None ''refusing symlinked managed state path'')
       (state_corruption env path None ''state directory is missing or unreadable'')
       (state_corruption env path None ''state directory must be a mode-0700 directory'') d"

text \<open>\<^verbatim>\<open>_read_private_file\<close>, without and with a limit on the size.\<close>

definition read_state_file :: "(string \<Rightarrow> exn) \<Rightarrow> ('c \<Rightarrow> bool) \<Rightarrow> 'c disk_file option \<Rightarrow> 'c result" where
  "read_state_file corrupt fits f = (case f of
      None \<Rightarrow> Inl (corrupt ''state file is missing, unreadable, or unsafe'')
    | Some g \<Rightarrow>
       (if f_kind g = FK_symlink then Inl (corrupt ''refusing symlinked managed state path'')
        else if \<not> is_private_file g \<or> \<not> fits (f_content g)
        then Inl (corrupt ''state file is missing, unreadable, or unsafe'')
        else Inr (f_content g)))"

definition read_operation_manifest :: "op_env \<Rightarrow> state_store \<Rightarrow> string \<Rightarrow> operation_manifest result" where
  "read_operation_manifest env st i =
     rbind (validate_operation_id i) (\<lambda>_.
     let corrupt = state_corruption env (operation_manifest_path env i) None in
     rbind (read_state_file corrupt (\<lambda>_. True)
       (case operation_files_of i st of None \<Rightarrow> None | Some d \<Rightarrow> sl_target (of_manifest d))) (\<lambda>doc.
     case doc of
       Whole m \<Rightarrow>
         (if \<not> valid_operation m then Inl (corrupt ''operation manifest is invalid'')
          else if om_operation_id m \<noteq> i
          then Inl (corrupt ''operation manifest ID does not match its path'')
          else Inr m)
     | _ \<Rightarrow> Inl (corrupt ''operation manifest is invalid'')))"

text \<open>
  A record is one JSON text and a newline. The writer keeps non-ASCII characters as they are
  and the reader cuts the log with \<^verbatim>\<open>str.splitlines\<close>, which also cuts at U+0085 (and at U+2028
  and U+2029, beyond the characters of the model): such a record reads back in pieces that do
  not parse. The control characters below U+0020 are escaped by the writer.
\<close>

fun json_breaks :: "json \<Rightarrow> bool" where
  "json_breaks (JStr s) = (CHR 0x85 \<in> set s)"
| "json_breaks (JList js) = list_ex json_breaks js"
| "json_breaks (JObj kvs) = list_ex (\<lambda>kv. CHR 0x85 \<in> set (fst kv) \<or> json_breaks (snd kv)) kvs"
| "json_breaks _ = False"

definition breaks_line :: "operation_event \<Rightarrow> bool" where
  "breaks_line e \<longleftrightarrow> CHR 0x85 \<in> set (ev_message e) \<or> json_breaks (JObj (ev_evidence e))"

fun line_size :: "op_env \<Rightarrow> log_line \<Rightarrow> nat" where
  "line_size env (Event_line e) = oe_event_size env e"
| "line_size env (Bad_line n) = n"

definition log_size :: "op_env \<Rightarrow> event_log \<Rightarrow> nat" where
  "log_size env l = sum_list (map (line_size env) (log_lines l)) + log_tail l"

text \<open>The loop over the lines, from the record number \<open>k\<close> and the timestamp before it.\<close>

fun check_lines ::
  "op_env \<Rightarrow> string \<Rightarrow> (string \<Rightarrow> exn) \<Rightarrow> nat \<Rightarrow> int option \<Rightarrow> log_line list \<Rightarrow> operation_event list result" where
  "check_lines env i corrupt k prev [] = Inr []"
| "check_lines env i corrupt k prev (l # ls) =
    (if k > max_event_count then Inl (corrupt ''operation event log exceeds the record limit'')
     else if line_size env l > max_event_bytes
     then Inl (corrupt ''operation event exceeds the maximum record size'')
     else case l of
       Bad_line _ \<Rightarrow> Inl (corrupt ''operation event is invalid'')
     | Event_line e \<Rightarrow>
        (if breaks_line e \<or> \<not> valid_event e then Inl (corrupt ''operation event is invalid'')
         else if ev_sequence e \<noteq> int k then Inl (corrupt ''operation event sequence is invalid'')
         else if ev_operation_id e \<noteq> i
         then Inl (corrupt ''operation event belongs to another operation'')
         else if (case prev of None \<Rightarrow> False | Some t \<Rightarrow> ev_timestamp e < t)
         then Inl (corrupt ''operation event timestamp regressed'')
         else rbind (check_lines env i corrupt (Suc k) (Some (ev_timestamp e)) ls) (\<lambda>es. Inr (e # es))))"

definition read_log :: "op_env \<Rightarrow> string \<Rightarrow> event_log disk_file option \<Rightarrow> operation_event list result" where
  "read_log env i f =
    (let corrupt = state_corruption env (operation_events_path env i) None in
     rbind (read_state_file corrupt (\<lambda>l. log_size env l \<le> max_event_log_bytes) f) (\<lambda>l.
     if log_lines l = [] \<or> log_tail l \<noteq> 0
     then Inl (corrupt ''operation event log is empty or truncated'')
     else check_lines env i corrupt 1 None (log_lines l)))"

definition read_events :: "op_env \<Rightarrow> state_store \<Rightarrow> string \<Rightarrow> operation_event list result" where
  "read_events env st i =
     rbind (validate_operation_id i) (\<lambda>_.
     read_log env i (case operation_files_of i st of None \<Rightarrow> None | Some d \<Rightarrow> of_events d))"

definition read_consistent ::
  "op_env \<Rightarrow> state_store \<Rightarrow> string \<Rightarrow> (operation_manifest \<times> operation_event list) result" where
  "read_consistent env st i =
     rbind (validate_operation_id i) (\<lambda>_.
     let corrupt = state_corruption env (operation_directory env i) None;
         disagree = (\<lambda>m. state_corruption env (operation_events_path env i) (Some m)) in
     rbind (check_state_directory env (operation_directory env i)
       (case map_of (ss_operations st) i of
          None \<Rightarrow> Root_missing
        | Some Odd_operation \<Rightarrow> Root_entry False 0
        | Some (Operation_dir d) \<Rightarrow> Root_entry True (of_mode d))) (\<lambda>_.
     let temps = (case operation_files_of i st of None \<Rightarrow> [] | Some d \<Rightarrow> sl_temps (of_manifest d));
         extra = (case operation_files_of i st of None \<Rightarrow> [] | Some d \<Rightarrow> of_extra d) in
     if temps \<noteq> []
     then Inl (corrupt ''operation contains an abandoned atomic-write temporary file'')
     else if extra \<noteq> []
     then Inl (corrupt ''operation directory contains an unexpected entry'')
     else
     rbind (read_operation_manifest env st i) (\<lambda>m.
     rbind (read_events env st i) (\<lambda>es.
     if om_last_event_sequence m \<noteq> int (length es)
     then Inl (disagree m ''manifest and event sequence disagree'')
     else if ev_status (last es) \<noteq> om_status m \<or> ev_stage (last es) \<noteq> om_stage m
     then Inl (disagree m ''manifest and final event state disagree'')
     else if ev_timestamp (last es) \<noteq> om_updated_at m
     then Inl (disagree m ''manifest and final event timestamps disagree'')
     else Inr (m, es)))))"

fun read_operations ::
  "op_env \<Rightarrow> state_store \<Rightarrow> (string \<times> operation_entry) list \<Rightarrow> operation_manifest list result" where
  "read_operations env st [] = Inr []"
| "read_operations env st ((i, e) # es) =
    (if e = Odd_operation \<or> \<not> is_operation_id i
     then Inl (state_corruption env (operation_directory env i) None
       ''operations directory contains an unexpected entry'')
     else rbind (read_consistent env st i) (\<lambda>p.
          rbind (read_operations env st es) (\<lambda>ms. Inr (fst p # ms))))"

definition operation_key :: "operation_manifest \<Rightarrow> stamp" where
  "operation_key m = Stamp (om_started_at m) (om_operation_id m)"

text \<open>\<^verbatim>\<open>Path.exists\<close> is false of a dangling symlink; the symlinks of the model are live ones.\<close>

definition list_operations :: "op_env \<Rightarrow> state_store \<Rightarrow> operation_manifest list result" where
  "list_operations env st =
    (if ss_root st = Root_missing then Inr []
     else rbind (check_state_directory env (oe_path env) (ss_root st)) (\<lambda>_.
     if ss_dir st = Root_missing then Inr []
     else rbind (check_state_directory env (operations_path env) (ss_dir st)) (\<lambda>_.
     rbind (read_operations env st (ss_operations st)) (\<lambda>ms.
     Inr (rev (sort_key operation_key (rev ms)))))))"

text \<open>\<^verbatim>\<open>max(operations, key=...)\<close>: the operations have distinct keys.\<close>

definition latest_operation :: "op_env \<Rightarrow> state_store \<Rightarrow> operation_manifest option result" where
  "latest_operation env st =
     rbind (list_operations env st) (\<lambda>ms.
     if length (filter (\<lambda>m. om_status m = OS_in_progress) ms) > 1
     then Inl (state_corruption env (operations_path env) None
       ''multiple unfinished operations make the active state contradictory'')
     else case ms of
       [] \<Rightarrow> Inr None
     | m # ns \<Rightarrow> Inr (Some (fold (\<lambda>n b. if operation_key b < operation_key n then n else b) ns m)))"

section \<open>Redaction of a record\<close>

definition redact_process :: "(string \<Rightarrow> string) \<Rightarrow> process_identity \<Rightarrow> process_identity" where
  "redact_process red p = p\<lparr>pi_hostname := red (pi_hostname p)\<rparr>"

definition redact_failure_record :: "(string \<Rightarrow> string) \<Rightarrow> failure_record \<Rightarrow> failure_record" where
  "redact_failure_record red f =
     \<lparr>fr_error_code = red (fr_error_code f), fr_what_failed = red (fr_what_failed f),
      fr_log_path = map_option red (fr_log_path f),
      fr_next_safe_action = red (fr_next_safe_action f)\<rparr>"

definition redact_operation :: "(string \<Rightarrow> string) \<Rightarrow> operation_manifest \<Rightarrow> operation_manifest" where
  "redact_operation red m = m\<lparr>
     om_operation_id := red (om_operation_id m), om_operation_type := red (om_operation_type m),
     om_project := red (om_project m), om_stage := red (om_stage m),
     om_configuration_fingerprint := red (om_configuration_fingerprint m),
     om_process := redact_process red (om_process m),
     om_failure := map_option (redact_failure_record red) (om_failure m)\<rparr>"

text \<open>
  What is written is the redacted JSON of the record, which is not checked again: a redaction
  that touches the text of the status leaves a document that does not parse.
\<close>

definition status_kept :: "op_env \<Rightarrow> operation_status \<Rightarrow> bool" where
  "status_kept env s \<longleftrightarrow> oe_redact env (operation_status_value s) = operation_status_value s"

definition operation_document :: "op_env \<Rightarrow> operation_manifest \<Rightarrow> operation_manifest" where
  "operation_document env m = stored_operation (redact_operation (oe_redact env) m)"

definition redact_event :: "op_env \<Rightarrow> operation_event \<Rightarrow> operation_event" where
  "redact_event env e = stored_event (e\<lparr>
     ev_operation_id := oe_redact env (ev_operation_id e), ev_stage := oe_redact env (ev_stage e),
     ev_message := oe_redact env (ev_message e), ev_evidence := oe_redact_json env (ev_evidence e)\<rparr>)"

definition event_line :: "op_env \<Rightarrow> operation_event \<Rightarrow> log_line" where
  "event_line env e =
     (let r = redact_event env e in
      if status_kept env (ev_status e) then Event_line r else Bad_line (oe_event_size env r))"

section \<open>Writing\<close>

type_synonym 'a state_act = "(state_store osys, exn, 'a) act"

definition reading_state :: "(state_store \<Rightarrow> 'a result) \<Rightarrow> 'a state_act" where
  "reading_state f = bnd (fetch os_world) (\<lambda>st. lift_result (f st))"

fun on_files :: "(operation_files \<Rightarrow> operation_files) \<Rightarrow> operation_entry \<Rightarrow> operation_entry" where
  "on_files f (Operation_dir d) = Operation_dir (f d)"
| "on_files f Odd_operation = Odd_operation"

definition update_files ::
  "string \<Rightarrow> (operation_files \<Rightarrow> operation_files) \<Rightarrow> state_store \<Rightarrow> state_store" where
  "update_files i f st = st\<lparr>ss_operations := AList.map_entry i (on_files f) (ss_operations st)\<rparr>"

definition manifest_slot :: "string \<Rightarrow> state_store \<Rightarrow> operation_manifest slot" where
  "manifest_slot i st = (case operation_files_of i st of None \<Rightarrow> no_slot | Some d \<Rightarrow> of_manifest d)"

definition put_manifest_slot :: "string \<Rightarrow> operation_manifest slot \<Rightarrow> state_store \<Rightarrow> state_store" where
  "put_manifest_slot i sl = update_files i (\<lambda>d. d\<lparr>of_manifest := sl\<rparr>)"

text \<open>
  \<^verbatim>\<open>_atomic_write_manifest\<close>: the buffered stream writes the payload completely or raises. A
  record whose status text is redacted is published as a document that does not parse.
\<close>

definition spoil :: "bool \<Rightarrow> operation_manifest slot \<Rightarrow> operation_manifest slot" where
  "spoil kept sl = (if kept then sl else
     sl\<lparr>sl_target := map_option (\<lambda>f. f\<lparr>f_content := Garbage\<rparr>) (sl_target sl)\<rparr>)"

definition write_operation :: "op_env \<Rightarrow> string \<Rightarrow> string \<Rightarrow> operation_manifest \<Rightarrow> unit state_act" where
  "write_operation env u i m =
    (let doc = operation_document env m; path = operation_manifest_path env i in
     bnd (fetch os_world) (\<lambda>st.
     if (case sl_target (manifest_slot i st) of None \<Rightarrow> False | Some f \<Rightarrow> f_kind f = FK_symlink)
     then raise (state_corruption env path None ''refusing symlinked managed state path'')
     else in_slot (manifest_slot i)
       (\<lambda>sl st. put_manifest_slot i
          (if sl_target sl = sl_target (manifest_slot i st) then sl
           else spoil (status_kept env (om_status m)) sl) st)
       (atomic_write True (oe_schedule env) u
         (\<lambda>replaced. state_write_error env
            (if replaced then ''manifest replacement completed but directory sync failed''
             else ''manifest could not be written atomically'') path)
         doc (oe_manifest_size env doc))))"

text \<open>What the first \<open>n\<close> of \<open>len\<close> bytes of a record make of the log.\<close>

definition append_bytes :: "log_line \<Rightarrow> nat \<Rightarrow> nat \<Rightarrow> event_log \<Rightarrow> event_log" where
  "append_bytes l len n g =
     (if n < len then Event_log (log_lines g) (log_tail g + n)
      else Event_log (log_lines g @ [l]) 0)"

definition on_log :: "string \<Rightarrow> (event_log \<Rightarrow> event_log) \<Rightarrow> state_store \<Rightarrow> state_store" where
  "on_log i f = update_files i
     (\<lambda>d. d\<lparr>of_events := map_option (\<lambda>g. g\<lparr>f_content := f (f_content g)\<rparr>) (of_events d)\<rparr>)"

definition open_log :: "string \<Rightarrow> state_store \<Rightarrow> state_store" where
  "open_log i = update_files i (\<lambda>d. d\<lparr>of_events :=
     Some (case of_events d of None \<Rightarrow> private_file (Event_log [] 0) | Some g \<Rightarrow> g)\<rparr>)"

definition chmod_log :: "string \<Rightarrow> state_store \<Rightarrow> state_store" where
  "chmod_log i = update_files i
     (\<lambda>d. d\<lparr>of_events := map_option (\<lambda>g. g\<lparr>f_mode := file_mode\<rparr>) (of_events d)\<rparr>)"

definition append_event_record ::
  "op_env \<Rightarrow> string \<Rightarrow> operation_event \<Rightarrow> nat \<Rightarrow> unit state_act" where
  "append_event_record env i e expected =
    (let path = operation_events_path env i; corrupt = state_corruption env path None;
         line = event_line env e; len = line_size env line; sc = oe_schedule env in
     bnd (fetch os_world) (\<lambda>st.
     let current = (case operation_files_of i st of None \<Rightarrow> None | Some d \<Rightarrow> of_events d) in
     andthen (case current of
         Some _ \<Rightarrow> bnd (lift_result (read_events env st (ev_operation_id e))) (\<lambda>es.
           when_act (length es \<noteq> expected) (raise (corrupt ''event log changed while preparing an append'')))
       | None \<Rightarrow> when_act (expected \<noteq> 0) (raise (corrupt ''operation event log disappeared'')))
    (andthen (when_act (len > max_event_bytes)
       (raise (value_error ''serialized operation event exceeds the maximum record size'')))
    (andthen (when_act (expected \<ge> max_event_count)
       (raise (value_error ''operation event log cannot exceed the record limit'')))
    (let size_now = (case current of None \<Rightarrow> 0 | Some f \<Rightarrow> log_size env (f_content f)) in
     andthen (when_act (expected \<noteq> 0 \<and> size_now = 0)
       (raise (corrupt ''operation event log disappeared'')))
    (andthen (when_act (size_now + len > max_event_log_bytes)
       (raise (value_error ''operation event log cannot exceed the byte limit'')))
    (on_os_error
       (andthen (syscall sc (open_log i))
       (andthen (syscall sc (chmod_log i))
       (andthen (write_once sc (\<lambda>n. on_log i (append_bytes line len n)) len)
       (andthen (syscall sc id)
       (andthen (syscall sc id)
                (when_act (current = None) (syscall sc id)))))))
       (raise (corrupt ''operation event could not be appended durably'')))))))))"

definition ensure_state_layout :: "op_env \<Rightarrow> unit state_act" where
  "ensure_state_layout env =
     (let errors = (\<lambda>path f. f
            (state_corruption env path None ''refusing symlinked managed state path'')
            (state_write_error env ''state directory could not be created'' path)
            (state_corruption env path None ''state directory is missing or unreadable'')
            (state_corruption env path None ''state directory must be a mode-0700 directory''))
      in andthen
        (errors (oe_path env) (ensure_directory (oe_schedule env) ss_root (\<lambda>d st. st\<lparr>ss_root := d\<rparr>)))
        (errors (operations_path env) (ensure_directory (oe_schedule env) ss_dir (\<lambda>d st. st\<lparr>ss_dir := d\<rparr>))))"

definition make_operation_directory :: "op_env \<Rightarrow> string \<Rightarrow> unit state_act" where
  "make_operation_directory env i =
     on_os_error
       (bnd (fetch os_world) (\<lambda>st.
        if map_of (ss_operations st) i \<noteq> None then raise os_error
        else syscall (oe_schedule env) (\<lambda>w. w\<lparr>ss_operations := (i, Operation_dir
          \<lparr>of_mode = directory_mode, of_manifest = no_slot, of_events = None, of_extra = []\<rparr>) # ss_operations w\<rparr>)))
       (raise (state_write_error env ''operation directory could not be created'' (operation_directory env i)))"

text \<open>\<^verbatim>\<open>except OperationFailedError\<close> around a manifest replacement: the write errors of the store.\<close>

definition is_operation_failed :: "exn \<Rightarrow> bool" where
  "is_operation_failed e = (case e of Dploy d \<Rightarrow> de_class d = OperationFailedError | _ \<Rightarrow> False)"

definition replacing :: "unit state_act \<Rightarrow> exn \<Rightarrow> unit state_act" where
  "replacing m e = catching m (\<lambda>x. if is_operation_failed x then raise e else raise x)"

definition create_operation ::
  "op_env \<Rightarrow> int \<Rightarrow> string \<Rightarrow> string \<Rightarrow> string \<Rightarrow> string \<Rightarrow> string \<Rightarrow> string \<Rightarrow> process_identity \<Rightarrow>
   (string \<times> json) list \<Rightarrow> operation_manifest state_act"
where
  "create_operation env now u i kind project fingerprint stage process evidence =
     andthen (ensure_state_layout env)
    (andthen (make_operation_directory env i)
    (let event = \<lparr>ev_sequence = 1, ev_timestamp = now, ev_operation_id = i, ev_status = OS_in_progress,
            ev_stage = stage, ev_message = ''Operation started.'',
            ev_evidence = oe_redact_json env evidence\<rparr>;
         manifest = \<lparr>om_operation_id = i, om_operation_type = kind, om_project = project,
            om_status = OS_in_progress, om_stage = stage, om_configuration_fingerprint = fingerprint,
            om_process = process, om_safety = default_safety, om_started_at = now, om_updated_at = now,
            om_completed_at = None, om_failure = None, om_last_event_sequence = 1\<rparr>
     in if \<not> valid_event event \<or> \<not> valid_operation manifest then raise validation_error
        else andthen (append_event_record env i event 0)
       (andthen (replacing (write_operation env u i manifest)
          (state_corruption env (operation_events_path env i) None
            ''operation creation was interrupted after its first event was recorded''))
       (reading_state (\<lambda>st. read_operation_manifest env st i)))))"

text \<open>\<^verbatim>\<open>_now_not_before\<close> of this store refuses a clock that has moved backwards.\<close>

definition state_now :: "int \<Rightarrow> int \<Rightarrow> int result" where
  "state_now now previous =
     (if now < previous then Inl (value_error ''state clock moved backwards'') else Inr now)"

definition transition_operation ::
  "op_env \<Rightarrow> int \<Rightarrow> string \<Rightarrow> string \<Rightarrow> operation_status \<Rightarrow> string \<Rightarrow> string \<Rightarrow> (string \<times> json) list \<Rightarrow>
   safety_facts option \<Rightarrow> failure_record option \<Rightarrow> operation_manifest state_act"
where
  "transition_operation env now u i st stage message evidence safety failure =
     bnd (reading_state (\<lambda>w. read_consistent env w i)) (\<lambda>(current, events).
     if om_status current \<noteq> OS_in_progress
     then raise (value_error ''terminal operation cannot transition'')
     else if st = OS_in_progress \<and> stage = om_stage current
     then raise (value_error ''in-progress transition must change the operation stage'')
     else bnd (lift_result (state_now now (om_updated_at current))) (\<lambda>t.
     let redacted = map_option (redact_failure_record (oe_redact env)) failure;
         updated = stored_operation (current\<lparr>om_status := st, om_stage := stage,
           om_safety := (case safety of None \<Rightarrow> om_safety current | Some f \<Rightarrow> f),
           om_updated_at := t,
           om_completed_at := (if st = OS_in_progress then None else Some t),
           om_failure := redacted,
           om_last_event_sequence := om_last_event_sequence current + 1\<rparr>);
         event = \<lparr>ev_sequence = om_last_event_sequence updated, ev_timestamp = t, ev_operation_id = i,
           ev_status = st, ev_stage = stage, ev_message = oe_redact env message,
           ev_evidence = oe_redact_json env evidence\<rparr>
     in if \<not> option_all failure_record_ok redacted \<or> \<not> valid_operation updated \<or> \<not> valid_event event
        then raise validation_error
        else andthen (append_event_record env i event (length events))
       (andthen (replacing (write_operation env u i updated)
          (state_corruption env (operation_manifest_path env i) (Some current)
            ''operation transition event was durable but its manifest was not updated''))
       (reading_state (\<lambda>w. read_operation_manifest env w i)))))"

definition append_event ::
  "op_env \<Rightarrow> int \<Rightarrow> string \<Rightarrow> string \<Rightarrow> string \<Rightarrow> (string \<times> json) list \<Rightarrow> operation_event state_act" where
  "append_event env now u i message evidence =
     bnd (reading_state (\<lambda>w. read_consistent env w i)) (\<lambda>(current, events).
     if om_status current \<noteq> OS_in_progress
     then raise (value_error ''terminal operations are immutable'')
     else bnd (lift_result (state_now now (om_updated_at current))) (\<lambda>t.
     let event = \<lparr>ev_sequence = om_last_event_sequence current + 1, ev_timestamp = t,
           ev_operation_id = i, ev_status = om_status current, ev_stage = om_stage current,
           ev_message = oe_redact env message, ev_evidence = oe_redact_json env evidence\<rparr>;
         updated = stored_operation (current\<lparr>om_updated_at := t,
           om_last_event_sequence := om_last_event_sequence current + 1\<rparr>)
     in if \<not> valid_event event then raise validation_error
        else andthen (append_event_record env i event (length events))
       (if \<not> valid_operation updated then raise validation_error
        else andthen (replacing (write_operation env u i updated)
          (state_corruption env (operation_manifest_path env i) (Some current)
            ''operation evidence was durable but its manifest was not updated''))
       (bnd (reading_state (\<lambda>w. read_events env w i)) (\<lambda>es. ret (last es))))))"

section \<open>What a consistent operation is\<close>

lemma read_state_file_Inr:
  "read_state_file corrupt fits f = Inr c \<longleftrightarrow>
   (\<exists>g. f = Some g \<and> is_private_file g \<and> fits (f_content g) \<and> c = f_content g)"
  by (auto simp: read_state_file_def is_private_file_def split: option.split)

definition manifest_file :: "string \<Rightarrow> operation_files \<Rightarrow> operation_manifest \<Rightarrow> bool" where
  "manifest_file i d m \<longleftrightarrow> (\<exists>f. sl_target (of_manifest d) = Some f \<and> is_private_file f \<and>
     f_content f = Whole m) \<and> valid_operation m \<and> om_operation_id m = i"

definition log_file :: "op_env \<Rightarrow> string \<Rightarrow> operation_files \<Rightarrow> operation_event list \<Rightarrow> bool" where
  "log_file env i d es \<longleftrightarrow> (\<exists>g. of_events d = Some g \<and> is_private_file g \<and>
     log_size env (f_content g) \<le> max_event_log_bytes \<and> log_lines (f_content g) \<noteq> [] \<and>
     log_tail (f_content g) = 0 \<and>
     check_lines env i (state_corruption env (operation_events_path env i) None) 1 None
       (log_lines (f_content g)) = Inr es)"

definition agree :: "operation_manifest \<Rightarrow> operation_event list \<Rightarrow> bool" where
  "agree m es \<longleftrightarrow> om_last_event_sequence m = int (length es) \<and> ev_status (last es) = om_status m \<and>
     ev_stage (last es) = om_stage m \<and> ev_timestamp (last es) = om_updated_at m"

lemma read_operation_manifest_iff:
  "read_operation_manifest env st i = Inr m \<longleftrightarrow> is_operation_id i \<and>
     (\<exists>d. operation_files_of i st = Some d \<and> manifest_file i d m)"
  (is "?l \<longleftrightarrow> ?r")
proof
  assume ?l
  then show ?r
    unfolding read_operation_manifest_def validate_operation_id_def manifest_file_def Let_def
    by (auto elim!: rbind_InrE simp: read_state_file_Inr
        split: option.split_asm document.split_asm if_split_asm)
next
  assume ?r
  then show ?l
    unfolding read_operation_manifest_def validate_operation_id_def manifest_file_def Let_def
    by (auto simp: ensure_def read_state_file_def is_private_file_def)
qed

lemma read_events_iff:
  "read_events env st i = Inr es \<longleftrightarrow> is_operation_id i \<and>
     (\<exists>d. operation_files_of i st = Some d \<and> log_file env i d es)"
  unfolding read_events_def read_log_def validate_operation_id_def log_file_def Let_def
  by (auto simp: rbind_Inr_iff read_state_file_Inr split: option.split if_split)

lemma operation_files_of_iff:
  "operation_files_of i st = Some d \<longleftrightarrow> map_of (ss_operations st) i = Some (Operation_dir d)"
  by (auto simp: operation_files_of_def split: option.split operation_entry.split)

lemma read_consistent_iff:
  "read_consistent env st i = Inr (m, es) \<longleftrightarrow> is_operation_id i \<and>
     (\<exists>d. operation_files_of i st = Some d \<and> of_mode d = directory_mode \<and>
        sl_temps (of_manifest d) = [] \<and> of_extra d = [] \<and>
        manifest_file i d m \<and> log_file env i d es \<and> agree m es)"
  (is "?l \<longleftrightarrow> ?r")
proof (cases "\<exists>d. operation_files_of i st = Some d")
  case True
  then obtain d where d: "operation_files_of i st = Some d" ..
  then have "map_of (ss_operations st) i = Some (Operation_dir d)" by (simp add: operation_files_of_iff)
  with d show ?thesis
    unfolding read_consistent_def validate_operation_id_def check_state_directory_def check_directory_def
      Let_def agree_def
    by (auto simp: rbind_Inr_iff read_operation_manifest_iff read_events_iff split: if_split)
next
  case False
  then show ?thesis
    by (auto simp: read_consistent_def rbind_Inr_iff read_operation_manifest_iff Let_def)
qed

lemma check_lines_snoc:
  "check_lines env i corrupt k prev (ls @ [l]) = Inr es \<Longrightarrow>
   \<exists>es0 e. es = es0 @ [e] \<and> l = Event_line e \<and> check_lines env i corrupt k prev ls = Inr es0"
proof (induction ls arbitrary: k prev es)
  case Nil
  then show ?case by (auto simp: rbind_Inr_iff split: if_split_asm log_line.split_asm)
next
  case (Cons x ls)
  then obtain e es1 where x: "x = Event_line e" "es = e # es1"
    "check_lines env i corrupt (Suc k) (Some (ev_timestamp e)) (ls @ [l]) = Inr es1"
    by (cases x) (auto simp: rbind_Inr_iff split: if_split_asm)
  from Cons.IH [OF x(3)] Cons.prems x show ?case
    by (auto simp: rbind_Inr_iff split: if_split_asm)
qed

lemma check_lines_length: "check_lines env i corrupt k prev ls = Inr es \<Longrightarrow> length es = length ls"
proof (induction ls arbitrary: k prev es)
  case (Cons x ls)
  then show ?case by (cases x) (auto simp: rbind_Inr_iff split: if_split_asm)
qed simp

section \<open>One operation of a larger store\<close>

definition dir_is :: "string \<Rightarrow> state_store \<Rightarrow> operation_files \<Rightarrow> state_store \<Rightarrow> bool" where
  "dir_is i st d w \<longleftrightarrow> ss_root w = ss_root st \<and> ss_dir w = ss_dir st \<and>
     (\<forall>j. map_of (ss_operations w) j = (if j = i then Some (Operation_dir d) else map_of (ss_operations st) j))"

lemma dir_is_start: "operation_files_of i st = Some d \<Longrightarrow> dir_is i st d st"
  by (simp add: dir_is_def operation_files_of_iff)

lemma dir_is_update: "dir_is i st d w \<Longrightarrow> dir_is i st (f d) (update_files i f w)"
  by (simp add: dir_is_def update_files_def map_entry_lookup)

lemma dir_is_files: "dir_is i st d w \<Longrightarrow> operation_files_of i w = Some d"
  by (simp add: dir_is_def operation_files_of_iff)

lemma triple_dir_step:
  assumes "f d = d'"
  shows "triple (\<lambda>s. dir_is i st d (os_world s)) (syscall sc (update_files i f))
    (\<lambda>_ s. dir_is i st d' (os_world s)) (\<lambda>e s. os_raised e \<and> dir_is i st d (os_world s))"
  by (rule triple_weaken [OF triple_syscall_step [where I = "dir_is i st d" and J = "dir_is i st d'"]])
    (use dir_is_update [where f = f] assms in auto)

lemma triple_dir_idle:
  "triple (\<lambda>s. dir_is i st d (os_world s)) (syscall sc id)
    (\<lambda>_ s. dir_is i st d (os_world s)) (\<lambda>e s. os_raised e \<and> dir_is i st d (os_world s))"
  by (rule triple_weaken [OF triple_syscall_step [where I = "dir_is i st d" and J = "dir_is i st d"]]) auto

text \<open>The log after the first \<open>n\<close> bytes of a record.\<close>

definition logged :: "log_line \<Rightarrow> nat \<Rightarrow> nat \<Rightarrow> operation_files \<Rightarrow> operation_files" where
  "logged l len n d = d\<lparr>of_events := map_option (\<lambda>g. g\<lparr>f_content := append_bytes l len n (f_content g)\<rparr>) (of_events d)\<rparr>"

lemma on_log_dir:
  "dir_is i st d w \<Longrightarrow> dir_is i st (logged l len n d) (on_log i (append_bytes l len n) w)"
  unfolding on_log_def logged_def by (rule dir_is_update)

lemma triple_append_calls:
  assumes "of_events d = Some g" and "f_mode g = file_mode"
  shows "triple (\<lambda>s. dir_is i st d (os_world s))
    (andthen (syscall sc (open_log i))
       (andthen (syscall sc (chmod_log i))
       (andthen (write_once sc (\<lambda>n. on_log i (append_bytes l len n)) len)
       (andthen (syscall sc id)
       (andthen (syscall sc id)
                (when_act b (syscall sc id)))))))
    (\<lambda>_ s. dir_is i st (logged l len len d) (os_world s))
    (\<lambda>e s. os_raised e \<and> (dir_is i st d (os_world s) \<or>
       (\<exists>n\<le>len. dir_is i st (logged l len n d) (os_world s))))"
proof -
  let ?E = "\<lambda>e s. os_raised e \<and> (dir_is i st d (os_world s) \<or>
       (\<exists>n\<le>len. dir_is i st (logged l len n d) (os_world s)))"
  have start: "triple (\<lambda>s. dir_is i st d (os_world s)) (syscall sc (update_files i f))
      (\<lambda>_ s. dir_is i st d (os_world s)) ?E" if "f d = d" for f
    by (rule triple_weaken [OF triple_dir_step [where f = f and d = d and d' = d, OF that]]) auto
  have idle: "triple (\<lambda>s. dir_is i st (logged l len len d) (os_world s)) (syscall sc id)
      (\<lambda>_ s. dir_is i st (logged l len len d) (os_world s)) ?E"
    by (rule triple_weaken [OF triple_dir_idle]) auto
  have append: "triple (\<lambda>s. dir_is i st d (os_world s))
      (write_once sc (\<lambda>n. on_log i (append_bytes l len n)) len)
      (\<lambda>_ s. dir_is i st (logged l len len d) (os_world s)) ?E"
  proof (rule triple_weaken [OF triple_write_once [where I = "dir_is i st d"]])
    fix e :: exn and s :: "state_store osys"
    assume *: "os_raised e \<and> (dir_is i st d (os_world s) \<or>
      (\<exists>n<len. \<exists>w. dir_is i st d w \<and> os_world s = on_log i (append_bytes l len n) w))"
    then consider "dir_is i st d (os_world s)"
      | n where "n < len" "dir_is i st (logged l len n d) (os_world s)"
      using on_log_dir by auto
    then show "?E e s" using * by cases (auto intro: less_imp_le)
  qed (auto intro: on_log_dir)
  have "triple (\<lambda>s. dir_is i st d (os_world s)) (syscall sc (open_log i)) (\<lambda>_ s. dir_is i st d (os_world s)) ?E"
    unfolding open_log_def by (rule start) (simp add: assms)
  moreover have "triple (\<lambda>s. dir_is i st d (os_world s)) (syscall sc (chmod_log i)) (\<lambda>_ s. dir_is i st d (os_world s)) ?E"
    unfolding chmod_log_def by (rule start) (simp add: assms)
  ultimately show ?thesis
    by (intro triple_andthen [OF _ triple_andthen [OF _ triple_andthen [OF append
        triple_andthen [OF idle triple_andthen [OF idle triple_when [OF idle]]]]]])
qed

text \<open>The manifest replacement as a change of the operation's files.\<close>

definition manifest_replaced ::
  "op_env \<Rightarrow> operation_manifest \<Rightarrow> operation_files \<Rightarrow> operation_files \<Rightarrow> bool" where
  "manifest_replaced env m d d' \<longleftrightarrow> (\<exists>sl. d' = d\<lparr>of_manifest := sl\<rparr> \<and>
     (\<forall>f. sl_target sl = Some f \<longrightarrow> f_content f = Whole (operation_document env m) \<or> f_content f = Garbage))"

definition manifest_kept :: "operation_files \<Rightarrow> operation_files \<Rightarrow> bool" where
  "manifest_kept d d' \<longleftrightarrow>
     (\<exists>sl. d' = d\<lparr>of_manifest := sl\<rparr> \<and> sl_target sl = sl_target (of_manifest d))"

lemma put_manifest_dir:
  "dir_is i st d w \<Longrightarrow> dir_is i st (d\<lparr>of_manifest := sl\<rparr>) (put_manifest_slot i sl w)"
  unfolding put_manifest_slot_def by (rule dir_is_update)

lemma triple_write_operation:
  assumes "0 < oe_manifest_size env (operation_document env m)"
  shows "triple (\<lambda>s. dir_is i st d (os_world s)) (write_operation env u i m)
    (\<lambda>_ s. \<exists>d'. manifest_replaced env m d d' \<and> dir_is i st d' (os_world s))
    (\<lambda>e s. \<exists>d'. (manifest_replaced env m d d' \<or> manifest_kept d d') \<and> dir_is i st d' (os_world s))"
proof (rule tripleI)
  let ?doc = "operation_document env m"
  let ?err = "\<lambda>replaced. state_write_error env
            (if replaced then ''manifest replacement completed but directory sync failed''
             else ''manifest could not be written atomically'') (operation_manifest_path env i)"
  let ?put = "\<lambda>st sl. if sl_target sl = sl_target (manifest_slot i st) then sl
           else spoil (status_kept env (om_status m)) sl"
  fix s :: "state_store osys"
  assume d: "dir_is i st d (os_world s)"
  then have slot: "manifest_slot i (os_world s) = of_manifest d"
    by (simp add: manifest_slot_def dir_is_files)
  have kept: "manifest_kept d d" by (auto simp: manifest_kept_def intro: exI [of _ "of_manifest d"])
  have put: "dir_is i st (d\<lparr>of_manifest := ?put (os_world s) sl\<rparr>)
      (put_manifest_slot i (?put (os_world s) sl) (os_world s))" for sl
    by (rule put_manifest_dir [OF d])
  have repl: "manifest_replaced env m d (d\<lparr>of_manifest := ?put (os_world s) sl\<rparr>)"
    if "published u ?doc (of_manifest d) sl" for sl
    unfolding manifest_replaced_def
    by (rule exI [of _ "?put (os_world s) sl"]) (use that in \<open>auto simp: published_def spoil_def\<close>)
  have same: "manifest_kept d (d\<lparr>of_manifest := ?put (os_world s) sl\<rparr>)"
    if "same_but u (of_manifest d) sl" for sl
    unfolding manifest_kept_def
    by (rule exI [of _ "?put (os_world s) sl"]) (use that slot in \<open>auto simp: same_but_def\<close>)
  note w = triple_in_slot [where w = "os_world s" and get = "manifest_slot i" and
      put = "\<lambda>sl st. put_manifest_slot i (?put st sl) st",
      OF triple_atomic_write [where loop = True and sc = "oe_schedule env" and u = u and err = ?err, OF assms]]
  let ?run = "in_slot (manifest_slot i) (\<lambda>sl st. put_manifest_slot i (?put st sl) st)
    (atomic_write True (oe_schedule env) u ?err ?doc (oe_manifest_size env ?doc))"
  have run: "write_operation env u i m s = ?run s \<or>
      (\<exists>e. write_operation env u i m s = (Inl e, s))"
    by (simp add: write_operation_def Let_def bnd_def fetch_def raise_def)
  {
    fix x t assume "write_operation env u i m s = (Inr x, t)"
    with run have "?run s = (Inr x, t)" by auto
    from tripleD_Inr [OF w refl this] obtain sl where sl:
      "published u ?doc (manifest_slot i (os_world s)) sl"
      "os_world t = put_manifest_slot i (?put (os_world s) sl) (os_world s)" by blast
    show "\<exists>d'. manifest_replaced env m d d' \<and> dir_is i st d' (os_world t)"
      unfolding sl(2) by (intro exI conjI, rule repl, rule sl(1) [unfolded slot], rule put)
  next
    fix e t assume e: "write_operation env u i m s = (Inl e, t)"
    show "\<exists>d'. (manifest_replaced env m d d' \<or> manifest_kept d d') \<and> dir_is i st d' (os_world t)"
    proof (cases "t = s")
      case True then show ?thesis using kept d by blast
    next
      case False
      with run e have "?run s = (Inl e, t)" by auto
      from tripleD_Inl [OF w refl this] obtain sl where sl:
        "replaced_or_kept u ?doc (manifest_slot i (os_world s)) sl"
        "os_world t = put_manifest_slot i (?put (os_world s) sl) (os_world s)" by blast
      have "manifest_replaced env m d (d\<lparr>of_manifest := ?put (os_world s) sl\<rparr>) \<or>
          manifest_kept d (d\<lparr>of_manifest := ?put (os_world s) sl\<rparr>)"
        using sl(1) repl same unfolding replaced_or_kept_def slot by blast
      then show ?thesis unfolding sl(2) using put by blast
    qed
  }
qed

section \<open>Every fault leaves the old state, the new one or a refusal\<close>

text \<open>The files of the operation after a change that began at \<open>d\<close> and was cut anywhere.\<close>

definition change_outcome ::
  "op_env \<Rightarrow> log_line \<Rightarrow> operation_manifest \<Rightarrow> operation_files \<Rightarrow> operation_files \<Rightarrow> bool" where
  "change_outcome env l m' d d' \<longleftrightarrow>
     (let len = line_size env l; logged_all = logged l len len d in
      d' = d \<or> (\<exists>n\<le>len. d' = logged l len n d) \<or> manifest_replaced env m' logged_all d' \<or>
      manifest_kept logged_all d')"

definition changed_to ::
  "op_env \<Rightarrow> string \<Rightarrow> state_store \<Rightarrow> operation_files \<Rightarrow> log_line \<Rightarrow> operation_manifest \<Rightarrow> state_store \<Rightarrow> bool" where
  "changed_to env i st d l m' w \<longleftrightarrow> (\<exists>d'. dir_is i st d' w \<and> change_outcome env l m' d d')"

lemma changed_to_start: "operation_files_of i st = Some d \<Longrightarrow> changed_to env i st d l m' st"
  using dir_is_start by (auto simp: changed_to_def change_outcome_def Let_def)

lemma triple_append_event_record:
  assumes "operation_files_of i st = Some d" and "log_file env i d es" and "ev_operation_id e = i"
  shows "triple (\<lambda>s. os_world s = st) (append_event_record env i e (length es))
    (\<lambda>_ s. dir_is i st (logged (event_line env e) (line_size env (event_line env e))
        (line_size env (event_line env e)) d) (os_world s))
    (\<lambda>_ s. changed_to env i st d (event_line env e) m' (os_world s))"
    (is "triple _ _ ?Q ?E")
proof -
  obtain g where g: "of_events d = Some g" "f_mode g = file_mode"
    using assms(2) by (auto simp: log_file_def is_private_file_def)
  have e0: "changed_to env i st d (event_line env e) m' st" by (rule changed_to_start [OF assms(1)])
  have raises: "triple (\<lambda>s. os_world s = st) (when_act b (raise x)) (\<lambda>_ s. os_world s = st) ?E" for b x
    by (rule triple_when [OF triple_pre [OF triple_raise]]) (auto simp: e0)
  have calls: "triple (\<lambda>s. os_world s = st)
      (andthen (syscall sc (open_log i))
       (andthen (syscall sc (chmod_log i))
       (andthen (write_once sc (\<lambda>n. on_log i (append_bytes l len n)) len)
       (andthen (syscall sc id)
       (andthen (syscall sc id)
                (when_act b (syscall sc id)))))))
      (\<lambda>_ s. dir_is i st (logged l len len d) (os_world s))
      (\<lambda>x s. os_raised x \<and> (\<exists>d'. dir_is i st d' (os_world s) \<and> (d' = d \<or> (\<exists>n\<le>len. d' = logged l len n d))))"
    for sc b l len
    by (rule triple_weaken [OF triple_append_calls [OF g]]) (auto simp: dir_is_start [OF assms(1)])
  show ?thesis
    unfolding append_event_record_def Let_def
    apply (rule triple_fetch_bnd)
    subgoal for w
      apply (cases "w = st")
       apply (simp only: assms g option.simps)
       apply (rule triple_pre [where P = "\<lambda>s. os_world s = st"])
       apply (rule triple_andthen [where R = "\<lambda>s. os_world s = st"])
        apply (rule triple_lift_bnd, simp add: e0)
        apply (rule raises)
       apply (rule triple_andthen [OF raises])
       apply (rule triple_andthen [OF raises])
       apply (rule triple_andthen [OF raises])
       apply (rule triple_andthen [OF raises])
       apply (rule triple_on_os_error [where R = "\<lambda>s. changed_to env i st d (event_line env e) m' (os_world s)"])
        apply (rule triple_weaken [OF calls])
          apply (simp_all add: changed_to_def change_outcome_def Let_def) [3]
        apply blast
       apply (rule triple_pre [OF triple_raise], simp)
       apply blast
      apply (rule triple_impossible, blast)
      done
    done
qed

lemma triple_replacing:
  assumes "triple P m (\<lambda>_. R) (\<lambda>_. R)"
  shows "triple P (replacing m e) (\<lambda>_. R) (\<lambda>_. R)"
  unfolding replacing_def
  by (rule triple_catching [OF assms]) (auto intro: triple_pre [OF triple_raise])

lemma triple_log_then_replace:
  assumes "operation_files_of i st = Some d" and "log_file env i d es" and "ev_operation_id e = i"
    and "0 < oe_manifest_size env (operation_document env m')"
    and tail: "keeps (\<lambda>s. changed_to env i st d (event_line env e) m' (os_world s)) tail"
  shows "triple (\<lambda>s. os_world s = st)
     (andthen (append_event_record env i e (length es))
       (andthen (replacing (write_operation env u i m') x) tail))
     (\<lambda>_ s. changed_to env i st d (event_line env e) m' (os_world s))
     (\<lambda>_ s. changed_to env i st d (event_line env e) m' (os_world s))"
proof (rule triple_andthen [OF triple_append_event_record [OF assms(1-3)]])
  let ?l = "event_line env e" let ?len = "line_size env ?l"
  let ?C = "\<lambda>s. changed_to env i st d ?l m' (os_world s)"
  have "triple (\<lambda>s. dir_is i st (logged ?l ?len ?len d) (os_world s)) (write_operation env u i m')
      (\<lambda>_. ?C) (\<lambda>_. ?C)"
    by (rule triple_weaken [OF triple_write_operation [OF assms(4)]])
      (auto simp: changed_to_def change_outcome_def Let_def)
  then show "triple (\<lambda>s. dir_is i st (logged ?l ?len ?len d) (os_world s))
      (andthen (replacing (write_operation env u i m') x) tail) (\<lambda>_. ?C) (\<lambda>_. ?C)"
    by (intro triple_andthen [OF triple_replacing] tail [unfolded keeps_def])
qed

text \<open>What a reader accepts after such a change.\<close>

definition old_or_new ::
  "op_env \<Rightarrow> operation_manifest \<Rightarrow> operation_event list \<Rightarrow> operation_event \<Rightarrow> operation_manifest \<Rightarrow>
   operation_manifest \<times> operation_event list \<Rightarrow> bool" where
  "old_or_new env m es e m' p \<longleftrightarrow>
     p = (m, es) \<or> p = (operation_document env m', es @ [redact_event env e])"

lemma log_file_logged:
  assumes "of_events d = Some g" and "log_tail (f_content g) = 0"
    and "log_file env i d es" and "log_file env i (logged l len n d) es2" and "n \<le> len"
  shows "n < len \<and> es2 = es \<or> (\<exists>e. l = Event_line e \<and> es2 = es @ [e])"
proof (cases "n < len")
  case True
  then have "n = 0 \<and> append_bytes l len n (f_content g) = f_content g \<or> 0 < log_tail (append_bytes l len n (f_content g))"
    using assms(2) by (cases "f_content g") (auto simp: append_bytes_def)
  then show ?thesis using True assms by (auto simp: log_file_def logged_def)
next
  case False
  then have "log_lines (append_bytes l len n (f_content g)) = log_lines (f_content g) @ [l]"
    by (simp add: append_bytes_def)
  then show ?thesis using assms by (auto simp: log_file_def logged_def dest!: check_lines_snoc)
qed

lemma log_file_unique: "log_file env i d es \<Longrightarrow> log_file env i d es' \<Longrightarrow> es = es'"
  by (auto simp: log_file_def)

lemma manifest_file_unique: "manifest_file i d m \<Longrightarrow> manifest_file i d m' \<Longrightarrow> m = m'"
  unfolding manifest_file_def by (metis document.inject(1) option.inject)

lemma manifest_file_kept: "manifest_kept d d' \<Longrightarrow> manifest_file i d' m = manifest_file i d m"
  by (auto simp: manifest_kept_def manifest_file_def)

lemma log_file_manifest [simp]: "log_file env i (d\<lparr>of_manifest := sl\<rparr>) es = log_file env i d es"
  by (simp add: log_file_def)

lemma manifest_file_logged [simp]: "manifest_file i (logged l len n d) m = manifest_file i d m"
  by (simp add: manifest_file_def logged_def)

lemma changed_to_read:
  assumes old: "read_consistent env st i = Inr (m, es)" "operation_files_of i st = Some d"
    and ch: "changed_to env i st d (event_line env e) m' w"
    and new: "read_consistent env w i = Inr (m2, es2)"
  shows "old_or_new env m es e m' (m2, es2)"
proof -
  let ?l = "event_line env e" let ?len = "line_size env ?l"
  from old have d: "manifest_file i d m" "log_file env i d es" "agree m es"
    by (auto simp: read_consistent_iff)
  then obtain g where g: "of_events d = Some g" "log_tail (f_content g) = 0"
    by (auto simp: log_file_def)
  from ch obtain d' where d': "operation_files_of i w = Some d'" "change_outcome env ?l m' d d'"
    by (auto simp: changed_to_def dest: dir_is_files)
  from new d'(1) have r: "manifest_file i d' m2" "log_file env i d' es2" "agree m2 es2"
    by (auto simp: read_consistent_iff)
  have appended: "\<exists>x. ?l = Event_line x \<and> es2 = es @ [x]"
    if "log_file env i (logged ?l ?len ?len d) es2"
    using log_file_logged [OF g d(2) that] by auto
  from d'(2) consider (keep) "d' = d" | (log) n where "n \<le> ?len" "d' = logged ?l ?len n d"
    | (new) "manifest_replaced env m' (logged ?l ?len ?len d) d'"
    | (kept) "manifest_kept (logged ?l ?len ?len d) d'"
    unfolding change_outcome_def Let_def by blast
  then show ?thesis
  proof cases
    case keep
    then show ?thesis using r d manifest_file_unique log_file_unique by (fastforce simp: old_or_new_def)
  next
    case (log n)
    then have "m2 = m" using r(1) d(1) manifest_file_unique by simp
    moreover have "es2 = es \<or> length es2 = Suc (length es)"
      using log_file_logged [OF g d(2) r(2) [unfolded log(2)] log(1)] by auto
    ultimately show ?thesis using r(3) d(3) by (auto simp: old_or_new_def agree_def)
  next
    case new
    then have "m2 = operation_document env m'" using r(1)
      by (auto simp: manifest_replaced_def manifest_file_def)
    moreover obtain x where "?l = Event_line x" "es2 = es @ [x]"
      using appended r(2) new by (auto simp: manifest_replaced_def)
    moreover have "x = redact_event env e" using \<open>?l = Event_line x\<close>
      by (auto simp: event_line_def Let_def split: if_splits)
    ultimately show ?thesis by (simp add: old_or_new_def)
  next
    case kept
    then have "m2 = m" using r(1) d(1) manifest_file_unique by (simp add: manifest_file_kept)
    moreover have "length es2 = Suc (length es)"
      using appended r(2) kept by (auto simp: manifest_kept_def)
    ultimately show ?thesis using r(3) d(3) by (auto simp: agree_def)
  qed
qed

section \<open>The two operations that change an operation\<close>

datatype state_op =
    Op_move operation_status string string "(string \<times> json) list" "safety_facts option" "failure_record option"
  | Op_note string "(string \<times> json) list"

definition run_state_op :: "op_env \<Rightarrow> int \<Rightarrow> string \<Rightarrow> string \<Rightarrow> state_op \<Rightarrow> unit state_act" where
  "run_state_op env now u i oper = (case oper of
      Op_move st stage msg ev safety failure \<Rightarrow>
        andthen (transition_operation env now u i st stage msg ev safety failure) (ret ())
    | Op_note msg ev \<Rightarrow> andthen (append_event env now u i msg ev) (ret ()))"

definition sized_records :: "op_env \<Rightarrow> bool" where
  "sized_records env \<longleftrightarrow> (\<forall>m. 0 < oe_manifest_size env m)"

text \<open>Untouched, or changed by one event of an operation in progress.\<close>

definition op_changed ::
  "op_env \<Rightarrow> string \<Rightarrow> state_store \<Rightarrow> state_store \<Rightarrow> bool" where
  "op_changed env i st w \<longleftrightarrow> w = st \<or>
     (\<exists>d m es e m'. operation_files_of i st = Some d \<and> read_consistent env st i = Inr (m, es) \<and>
        om_status m = OS_in_progress \<and> changed_to env i st d (event_line env e) m' w)"

lemma triple_reading_state:
  assumes "\<And>e s. P s \<Longrightarrow> g (os_world s) = Inl e \<Longrightarrow> E e s"
    and "\<And>x. triple (\<lambda>s. P s \<and> g (os_world s) = Inr x) (f x) Q E"
  shows "triple P (bnd (reading_state g) f) Q E"
proof (rule triple_bnd [where R = "\<lambda>x s. P s \<and> g (os_world s) = Inr x"])
  show "triple P (reading_state g) (\<lambda>x s. P s \<and> g (os_world s) = Inr x) E"
    using assms(1)
    by (auto simp: triple_def reading_state_def bnd_def fetch_def lift_result_def split: sum.split)
qed (rule assms(2))

lemma keeps_reading_state: "keeps I (reading_state g)"
  unfolding reading_state_def by (intro keeping)

lemma triple_change:
  assumes "sized_records env" and r: "read_consistent env st i = Inr (m, es)" "om_status m = OS_in_progress"
    and "ev_operation_id e = i" and tail: "\<And>I. keeps I tail"
  shows "triple (\<lambda>s. os_world s = st)
     (andthen (append_event_record env i e (length es))
       (andthen (replacing (write_operation env u i m') x) tail))
     (\<lambda>_ s. op_changed env i st (os_world s)) (\<lambda>_ s. op_changed env i st (os_world s))"
proof -
  obtain d where d: "operation_files_of i st = Some d" "log_file env i d es"
    using r(1) by (auto simp: read_consistent_iff)
  have size: "0 < oe_manifest_size env (operation_document env m')"
    using assms(1) by (simp add: sized_records_def)
  show ?thesis
    by (rule triple_weaken [OF triple_log_then_replace [where m' = m' and u = u and x = x,
            OF d assms(4) size tail]]) (use d r in \<open>auto simp: op_changed_def\<close>)
qed

lemma triple_change_invalid:
  assumes r: "read_consistent env st i = Inr (m, es)" "om_status m = OS_in_progress"
    and "ev_operation_id e = i"
  shows "triple (\<lambda>s. os_world s = st) (andthen (append_event_record env i e (length es)) (raise x))
     (\<lambda>_ s. op_changed env i st (os_world s)) (\<lambda>_ s. op_changed env i st (os_world s))"
proof -
  obtain d where d: "operation_files_of i st = Some d" "log_file env i d es"
    using r(1) by (auto simp: read_consistent_iff)
  let ?C = "\<lambda>s. changed_to env i st d (event_line env e) m (os_world s)"
  have full: "manifest_kept z z" for z by (auto simp: manifest_kept_def intro: exI [of _ "of_manifest z"])
  have "triple (\<lambda>s. os_world s = st) (append_event_record env i e (length es)) (\<lambda>_. ?C) (\<lambda>_. ?C)"
    by (rule triple_weaken [OF triple_append_event_record [where m' = m, OF d assms(3)]])
      (auto simp: changed_to_def change_outcome_def Let_def)
  then have "triple (\<lambda>s. os_world s = st) (andthen (append_event_record env i e (length es)) (raise x)) (\<lambda>_. ?C) (\<lambda>_. ?C)"
    by (rule triple_andthen) (rule triple_raise)
  then show ?thesis
    by (rule triple_weaken) (use d r in \<open>auto simp: op_changed_def\<close>)
qed

lemma op_changed_refl [simp]: "op_changed env i st st"
  by (simp add: op_changed_def)

lemma triple_read_first:
  assumes "\<And>x. g st = Inr x \<Longrightarrow> triple (\<lambda>s. os_world s = st) (f x)
      (\<lambda>_ s. op_changed env i st (os_world s)) (\<lambda>_ s. op_changed env i st (os_world s))"
  shows "triple (\<lambda>s. os_world s = st) (bnd (reading_state g) f)
      (\<lambda>_ s. op_changed env i st (os_world s)) (\<lambda>_ s. op_changed env i st (os_world s))"
proof (rule triple_reading_state)
  fix x
  show "triple (\<lambda>s. os_world s = st \<and> g (os_world s) = Inr x) (f x)
      (\<lambda>_ s. op_changed env i st (os_world s)) (\<lambda>_ s. op_changed env i st (os_world s))"
    by (cases "g st = Inr x") (auto intro: triple_pre [OF assms] triple_impossible)
qed auto

lemma triple_refuse:
  "triple (\<lambda>s. os_world s = st) (raise x) Q (\<lambda>_ s. op_changed env i st (os_world s))"
  by (rule triple_pre [OF triple_raise]) simp

lemma triple_transition_operation:
  assumes "sized_records env"
  shows "triple (\<lambda>s. os_world s = st) (transition_operation env now u i os stage msg ev safety failure)
     (\<lambda>_ s. op_changed env i st (os_world s)) (\<lambda>_ s. op_changed env i st (os_world s))"
  unfolding transition_operation_def Let_def split_beta
  apply (rule triple_read_first)
  apply (intro triple_if triple_refuse triple_lift_bnd)
   apply simp
  apply (rule triple_change [OF assms])
     apply (auto simp: prod_eq_iff intro: keeps_reading_state)
  done

lemma triple_append_event:
  assumes "sized_records env"
  shows "triple (\<lambda>s. os_world s = st) (append_event env now u i msg ev)
     (\<lambda>_ s. op_changed env i st (os_world s)) (\<lambda>_ s. op_changed env i st (os_world s))"
  unfolding append_event_def Let_def split_beta
  apply (rule triple_read_first)
  apply (intro triple_if triple_refuse triple_lift_bnd)
   apply simp
  subgoal for p t
    apply (cases "valid_operation (stored_operation
        (fst p\<lparr>om_updated_at := t, om_last_event_sequence := om_last_event_sequence (fst p) + 1\<rparr>))")
     apply (simp only: not_True_eq_False if_False)
     apply (rule triple_change [OF assms])
        apply (auto simp: prod_eq_iff intro!: keeping keeps_reading_state) [4]
    apply (simp only: not_False_eq_True if_True)
    apply (rule triple_change_invalid)
      apply (auto simp: prod_eq_iff)
    done
  done

lemma run_state_op_changed:
  assumes "sized_records env" and "run_state_op env now u i oper s = (r, t)"
  shows "op_changed env i (os_world s) (os_world t)"
proof -
  let ?E = "\<lambda>_ w. op_changed env i (os_world s) (os_world w)"
  have "triple (\<lambda>w. os_world w = os_world s) (run_state_op env now u i oper) ?E ?E"
    unfolding run_state_op_def
    by (cases oper) (auto intro: triple_andthen [OF triple_transition_operation [OF assms(1)]]
        triple_andthen [OF triple_append_event [OF assms(1)]] triple_pre [OF triple_ret])
  then show ?thesis using assms(2) by (cases r) (auto dest: tripleD_Inl tripleD_Inr)
qed

lemma read_consistent_other:
  assumes "map_of (ss_operations w) j = map_of (ss_operations st) j"
  shows "read_consistent env w j = read_consistent env st j"
proof -
  have files: "operation_files_of j w = operation_files_of j st"
    by (simp add: operation_files_of_def assms)
  show ?thesis
    unfolding read_consistent_def read_operation_manifest_def read_events_def assms files by (rule refl)
qed

lemma op_changed_other:
  assumes "op_changed env i st w" and "j \<noteq> i"
  shows "read_consistent env w j = read_consistent env st j"
  using assms by (intro read_consistent_other) (auto simp: op_changed_def changed_to_def dir_is_def)

section \<open>An operation to evaluate on\<close>

definition example_op_id :: string where
  "example_op_id = ''op_0123456789abcdef0123456789abcdef''"

definition example_op_env :: op_env where
  "example_op_env = \<lparr>oe_path = ''/var/lib/dploydb'', oe_redact = id, oe_redact_json = id,
     oe_manifest_size = (\<lambda>_. 100), oe_event_size = (\<lambda>_. 100), oe_schedule = all_work\<rparr>"

definition example_operation :: operation_manifest where
  "example_operation = \<lparr>om_operation_id = example_op_id, om_operation_type = ''deploy'',
     om_project = ''shop'', om_status = OS_in_progress, om_stage = ''created'',
     om_configuration_fingerprint = ''0123456789abcdef0123456789abcdef0123456789abcdef0123456789abcdef'',
     om_process = \<lparr>pi_pid = 7, pi_hostname = ''web''\<rparr>, om_safety = default_safety,
     om_started_at = 1000, om_updated_at = 1000, om_completed_at = None, om_failure = None,
     om_last_event_sequence = 1\<rparr>"

definition example_event :: operation_event where
  "example_event = \<lparr>ev_sequence = 1, ev_timestamp = 1000, ev_operation_id = example_op_id,
     ev_status = OS_in_progress, ev_stage = ''created'', ev_message = ''Operation started.'',
     ev_evidence = []\<rparr>"

definition example_operation_files :: operation_files where
  "example_operation_files = \<lparr>of_mode = directory_mode,
     of_manifest = \<lparr>sl_target = Some (private_file (Whole example_operation)), sl_temps = []\<rparr>,
     of_events = Some (private_file (Event_log [Event_line example_event] 0)), of_extra = []\<rparr>"

definition example_state :: "state_store osys" where
  "example_state = \<lparr>os_calls = 0, os_world = \<lparr>ss_root = Root_entry True directory_mode,
     ss_dir = Root_entry True directory_mode,
     ss_operations = [(example_op_id, Operation_dir example_operation_files)]\<rparr>\<rparr>"

lemma example_op_valid: "is_operation_id example_op_id" "valid_operation example_operation"
  "valid_event example_event"
  by (simp_all add: example_op_id_def is_operation_id_def hex_tail_def is_lower_hex_def
      valid_operation_iff operation_fields_ok_def example_operation_def is_operation_type_def
      word_like_def is_lower_def is_digit_def length_between_def is_stage_def is_sha256_def
      process_identity_ok_def default_safety_def valid_event_def example_event_def)

lemma example_consistent:
  "read_consistent example_op_env (os_world example_state) example_op_id =
     Inr (example_operation, [example_event])"
proof -
  have "operation_files_of example_op_id (os_world example_state) = Some example_operation_files"
    by (simp add: operation_files_of_iff example_state_def)
  moreover have "log_file example_op_env example_op_id example_operation_files [example_event]"
    using example_op_valid(3)
    by (simp add: log_file_def example_operation_files_def log_size_def example_op_env_def
        max_event_log_bytes_def max_event_count_def max_event_bytes_def breaks_line_def)
      (simp add: example_event_def)
  moreover have "manifest_file example_op_id example_operation_files example_operation"
    using example_op_valid(2) by (simp add: manifest_file_def example_operation_files_def)
      (simp add: example_operation_def)
  ultimately show ?thesis
    using example_op_valid(1)
    by (simp add: read_consistent_iff agree_def)
      (simp add: example_operation_files_def example_operation_def example_event_def)
qed

definition example_done :: operation_manifest where
  "example_done = example_operation\<lparr>om_status := OS_succeeded, om_completed_at := Some 1000\<rparr>"

definition example_finished :: "state_store osys" where
  "example_finished = \<lparr>os_calls = 0, os_world = \<lparr>ss_root = Root_entry True directory_mode,
     ss_dir = Root_entry True directory_mode,
     ss_operations = [(example_op_id, Operation_dir (example_operation_files
       \<lparr>of_manifest := \<lparr>sl_target = Some (private_file (Whole example_done)), sl_temps = []\<rparr>,
        of_events := Some (private_file (Event_log
          [Event_line (example_event\<lparr>ev_status := OS_succeeded\<rparr>)] 0))\<rparr>))]\<rparr>\<rparr>"

lemma example_finished_consistent:
  "read_consistent example_op_env (os_world example_finished) example_op_id =
     Inr (example_done, [example_event\<lparr>ev_status := OS_succeeded\<rparr>])"
proof -
  have v: "valid_operation example_done" using example_op_valid(2)
    by (simp add: valid_operation_iff example_done_def operation_fields_ok_def)
      (simp add: example_operation_def default_safety_def)
  have w: "valid_event (example_event\<lparr>ev_status := OS_succeeded\<rparr>)"
    using example_op_valid(3) by (simp add: valid_event_def)
  show ?thesis
    using example_op_valid(1) v w
    by (simp add: read_consistent_iff operation_files_of_iff example_finished_def log_file_def
        manifest_file_def agree_def example_operation_files_def log_size_def max_event_log_bytes_def
        max_event_count_def max_event_bytes_def breaks_line_def)
      (simp add: example_event_def example_done_def example_operation_def example_op_env_def)
qed



text \<open>
  A terminal operation is immutable: a transition or an event on it raises and leaves every
  file as it is.
\<close>

theorem terminal_operations_are_immutable:
  assumes "read_consistent env (os_world s) i = Inr (m, es)" and "om_status m \<noteq> OS_in_progress"
  shows "\<exists>e. run_state_op env now u i oper s = (Inl e, s)"
  using assms
  by (cases oper) (simp_all add: run_state_op_def transition_operation_def append_event_def
      reading_state_def andthen_def bnd_def fetch_def lift_result_def raise_def)

section \<open>The newest operation\<close>

lemma read_consistent_id: "read_consistent env st i = Inr (m, es) \<Longrightarrow> om_operation_id m = i"
  by (auto simp: read_consistent_iff manifest_file_def)

lemma read_operations_Inr:
  assumes "read_operations env st es = Inr ms"
  shows "map om_operation_id ms = map fst es \<and>
    (\<forall>m \<in> set ms. \<exists>evs. read_consistent env st (om_operation_id m) = Inr (m, evs))"
  using assms
proof (induction es arbitrary: ms)
  case (Cons e es)
  obtain i x where e: "e = (i, x)" by fastforce
  from Cons.prems e obtain m evs ms' where p: "read_consistent env st i = Inr (m, evs)"
    "read_operations env st es = Inr ms'" "ms = m # ms'"
    by (auto simp: rbind_Inr_iff split: if_split_asm)
  from Cons.IH [OF p(2)] p e read_consistent_id [OF p(1)] show ?case by auto
qed simp

lemma fold_greatest:
  fixes f :: "'a \<Rightarrow> 'b::linorder"
  shows "fold (\<lambda>n b. if f b < f n then n else b) xs m \<in> set (m # xs) \<and>
    (\<forall>x \<in> set (m # xs). f x \<le> f (fold (\<lambda>n b. if f b < f n then n else b) xs m))"
proof (induction xs arbitrary: m)
  case (Cons x xs)
  let ?b = "if f m < f x then x else m"
  have b: "?b \<in> {m, x}" "f m \<le> f ?b" "f x \<le> f ?b" by auto
  have eq: "fold (\<lambda>n b. if f b < f n then n else b) (x # xs) m =
      fold (\<lambda>n b. if f b < f n then n else b) xs ?b" by simp
  let ?r = "fold (\<lambda>n b. if f b < f n then n else b) xs ?b"
  have r: "?r = ?b \<or> ?r \<in> set xs" "f ?b \<le> f ?r" "\<forall>y \<in> set xs. f y \<le> f ?r"
    using Cons.IH [of ?b] by (auto simp del: if_split split del: if_split)
  have "f m \<le> f ?r" "f x \<le> f ?r" using b(2,3) r(2) by (blast intro: order_trans)+
  moreover have "?r \<in> {m, x} \<union> set xs" using r(1) b(1) by auto
  ultimately show ?case unfolding eq using r(3) by auto
qed simp

text \<open>
  The latest operation, when there is one, is consistent and none of the listed operations
  started later; at most one operation is in progress.
\<close>

theorem latest_operation_is_newest:
  assumes "latest_operation env st = Inr (Some m)" and "list_operations env st = Inr ms"
  shows "(\<exists>evs. read_consistent env st (om_operation_id m) = Inr (m, evs)) \<and> m \<in> set ms \<and>
    (\<forall>n \<in> set ms. operation_key n \<le> operation_key m) \<and>
    length (filter (\<lambda>n. om_status n = OS_in_progress) ms) \<le> 1"
proof -
  have few: "length (filter (\<lambda>n. om_status n = OS_in_progress) ms) \<le> 1"
    using assms by (auto simp: latest_operation_def split: if_split_asm)
  have "(case ms of [] \<Rightarrow> Inr None | m0 # ns \<Rightarrow>
      Inr (Some (fold (\<lambda>n b. if operation_key b < operation_key n then n else b) ns m0))) =
      (Inr (Some m) :: operation_manifest option result)"
    using assms by (auto simp: latest_operation_def split: if_split_asm)
  then obtain m0 ns0 where ms: "ms = m0 # ns0"
    "m = fold (\<lambda>n b. if operation_key b < operation_key n then n else b) ns0 m0"
    by (cases ms) auto
  have max: "m \<in> set ms \<and> (\<forall>n \<in> set ms. operation_key n \<le> operation_key m)"
    unfolding ms by (rule fold_greatest)
  obtain ns where "read_operations env st (ss_operations st) = Inr ns" "set ms = set ns"
    using assms(2) max
    by (auto simp: list_operations_def elim!: rbind_InrE split: if_split_asm)
  with read_operations_Inr max few show ?thesis by blast
qed

theorem terminal_operations_are_immutable_witness:
  "\<exists>e. run_state_op example_op_env 9000 ''u'' example_op_id (Op_note ''late'' []) example_finished =
     (Inl e, example_finished)"
  by (rule terminal_operations_are_immutable [OF example_finished_consistent]) (simp add: example_done_def)

theorem latest_operation_is_newest_witness:
  "\<exists>evs. read_consistent example_op_env (os_world example_state) example_op_id = Inr (example_operation, evs)"
proof -
  have l: "list_operations example_op_env (os_world example_state) = Inr [example_operation]"
    using example_consistent example_op_valid(1)
    by (simp add: list_operations_def check_state_directory_def check_directory_def)
      (simp add: example_state_def ensure_def)
  then have "latest_operation example_op_env (os_world example_state) = Inr (Some example_operation)"
    by (simp add: latest_operation_def)
  from latest_operation_is_newest [OF this l] show ?thesis by (simp add: example_operation_def)
qed

section \<open>A record that reads back in pieces\<close>

definition broken_evidence :: "(string \<times> json) list" where
  "broken_evidence = [(''stdout'', JStr [CHR 0x85])]"

definition broken_event :: operation_event where
  "broken_event = \<lparr>ev_sequence = 2, ev_timestamp = 2000, ev_operation_id = example_op_id,
     ev_status = OS_in_progress, ev_stage = ''migrating'', ev_message = ''note'',
     ev_evidence = broken_evidence\<rparr>"

lemma example_append_broken:
  assumes "append_event_record example_op_env example_op_id broken_event 1 example_state = (r, t)"
  shows "r = Inr ()" and "\<exists>d. operation_files_of example_op_id (os_world t) = Some d \<and>
     of_events d = Some (private_file (Event_log [Event_line example_event, Event_line broken_event] 0)) \<and>
     of_manifest d = of_manifest example_operation_files"
proof -
  have files: "operation_files_of example_op_id (os_world example_state) = Some example_operation_files"
    by (simp add: operation_files_of_iff example_state_def)
  have events: "read_events example_op_env (os_world example_state) example_op_id = Inr [example_event]"
    using example_consistent by (auto simp: read_consistent_iff read_events_iff)
  have line: "event_line example_op_env broken_event = Event_line broken_event"
    by (simp add: event_line_def redact_event_def status_kept_def example_op_env_def stored_event_def
        broken_event_def serialize_utc_timestamp_def)
  have size: "line_size example_op_env l = (case l of Event_line _ \<Rightarrow> 100 | Bad_line n \<Rightarrow> n)" for l
    by (cases l) (simp_all add: example_op_env_def)
  have log: "log_size example_op_env (Event_log [Event_line example_event] 0) = 100"
    by (simp add: log_size_def example_op_env_def)
  have facts: "ev_operation_id broken_event = example_op_id" "oe_schedule example_op_env = (\<lambda>_. Works)"
    "of_events example_operation_files = Some (private_file (Event_log [Event_line example_event] 0))"
    by (simp_all add: broken_event_def example_op_env_def all_work_def example_operation_files_def)
  have run: "append_event_record example_op_env example_op_id broken_event 1 example_state =
     (Inr (), \<lparr>os_calls = 5, os_world = on_log example_op_id (append_bytes (Event_line broken_event) 100 100)
        (chmod_log example_op_id (open_log example_op_id (os_world example_state)))\<rparr>)"
    by (simp add: append_event_record_def run_simps files events line size facts log
        max_event_bytes_def max_event_count_def max_event_log_bytes_def)
      (simp add: example_state_def)
  show "r = Inr ()" using assms run by simp
  show "\<exists>d. operation_files_of example_op_id (os_world t) = Some d \<and>
     of_events d = Some (private_file (Event_log [Event_line example_event, Event_line broken_event] 0)) \<and>
     of_manifest d = of_manifest example_operation_files"
    using assms run by (auto simp: on_log_def chmod_log_def open_log_def update_files_def
        operation_files_of_def map_entry_lookup example_state_def facts append_bytes_def private_file_def
        file_mode_def)
qed

lemma broken_log_unreadable:
  assumes "operation_files_of i st = Some d" and "of_events d = Some (private_file (Event_log ls 0))"
    and "Event_line e \<in> set ls" and "breaks_line e"
  shows "\<exists>x. read_consistent env st i = Inl x"
proof (cases "read_consistent env st i")
  case (Inr p)
  obtain m es where "p = (m, es)" by fastforce
  with Inr assms(1,2) obtain corrupt where "check_lines env i corrupt 1 None ls = Inr es"
    by (auto simp: read_consistent_iff log_file_def)
  moreover have "check_lines env i corrupt k prev ls = Inr es \<Longrightarrow> Event_line e \<in> set ls \<Longrightarrow> False" for k prev es ls
  proof (induction ls arbitrary: k prev es)
    case (Cons l ls)
    then show ?case using assms(4) by (cases l) (auto simp: rbind_Inr_iff split: if_split_asm)
  qed simp
  ultimately show ?thesis using assms(3) by blast
qed simp

definition migrating_operation :: operation_manifest where
  "migrating_operation = example_operation\<lparr>om_stage := ''migrating'', om_updated_at := 2000,
     om_last_event_sequence := 2\<rparr>"

lemma write_operation_run:
  assumes "dir_is example_op_id st d (os_world s)"
    and "sl_target (of_manifest d) = Some (private_file (Whole example_operation))"
  shows "\<exists>t sl. write_operation example_op_env u example_op_id migrating_operation s = (Inr (), t) \<and>
     sl_target sl = Some (private_file (Whole migrating_operation)) \<and>
     os_world t = put_manifest_slot example_op_id sl (os_world s)"
proof -
  have doc: "operation_document example_op_env migrating_operation = migrating_operation"
    by (simp add: operation_document_def redact_operation_def example_op_env_def redact_process_def
        stored_operation_def migrating_operation_def example_operation_def serialize_utc_timestamp_def)
  have slot: "manifest_slot example_op_id (os_world s) = of_manifest d"
    using assms(1) by (simp add: manifest_slot_def dir_is_files)
  have env: "oe_schedule example_op_env = (\<lambda>_. Works)" "oe_manifest_size example_op_env m = 100"
    "status_kept example_op_env x" for m x
    by (simp_all add: example_op_env_def all_work_def status_kept_def)
  show ?thesis
    apply (simp add: write_operation_def run_simps doc slot env assms(2) in_slot_def atomic_write_def
        replace_document_def put_temp_lookup fill_temp_def rename_temp_def written_document_def spoil_def)
    apply (intro conjI impI)
     apply (rule exI, rule conjI, rule_tac [2] refl, simp)+
    done
qed

lemma example_migrating:
  "stored_operation (example_operation\<lparr>om_status := OS_in_progress, om_stage := ''migrating'',
     om_updated_at := 2000, om_completed_at := None,
     om_failure := None, om_last_event_sequence := om_last_event_sequence example_operation + 1\<rparr>) =
     migrating_operation"
  by (simp add: stored_operation_def migrating_operation_def example_operation_def serialize_utc_timestamp_def)

lemma example_migrating_valid: "valid_operation migrating_operation"
  using example_op_valid(2)
  by (simp add: valid_operation_iff migrating_operation_def operation_fields_ok_def)
    (simp add: example_operation_def default_safety_def is_stage_def word_like_def is_lower_def)

lemma example_broken_valid: "valid_event broken_event"
  using example_op_valid(1)
  by (simp add: valid_event_def broken_event_def is_stage_def word_like_def is_lower_def length_between_def)


end
