(* ===== verification/Retention.thy ===== *)
theory Retention
  imports Release_Model
begin

text \<open>
  Backup retention (\<^verbatim>\<open>dploydb/retention.py\<close>): which backups the release history protects, the
  plan for one inventory, and the pass over the local and the remote inventory. An inventory
  behind the \<^verbatim>\<open>list\<close>/\<^verbatim>\<open>delete\<close> protocol is the interface \<open>inventory\<close>; what a whole pass leaves
  in it is proved there, once, from the protocol's laws.
\<close>

section \<open>The history snapshot\<close>

record release_history =
  rh_releases :: "release_manifest list"
  rh_pointers :: "release_pointers option"

definition history_find :: "release_history \<Rightarrow> string \<Rightarrow> release_manifest option" where
  "history_find h i = find (\<lambda>m. rm_release_id m = i) (rh_releases h)"

definition retention_safety_error :: "string \<Rightarrow> exn" where
  "retention_safety_error detail = Dploy (mk_error SafetyCheckError detail False None None
     ''Preserve all backups, repair release or backup inventory evidence, then retry retention.'')"

definition option_list :: "'a option \<Rightarrow> 'a list" where
  "option_list x = (case x of None \<Rightarrow> [] | Some y \<Rightarrow> [y])"

fun protect_selected ::
  "release_history \<Rightarrow> string \<Rightarrow> string list \<Rightarrow> string list \<Rightarrow> string list result" where
  "protect_selected h project [] acc = Inr acc"
| "protect_selected h project (i # is) acc =
     (case history_find h i of
        None \<Rightarrow> Inl (retention_safety_error
          ''release pointers select a manifest missing from the retention snapshot'')
      | Some m \<Rightarrow>
          if rm_project m \<noteq> project
          then Inl (retention_safety_error
            ''release pointers select a different project; backup retention was refused'')
          else protect_selected h project is
                 (acc @ option_list (rm_rehearsal_backup_id m) @ option_list (rm_final_backup_id m)))"

definition protected_backup_ids :: "release_history \<Rightarrow> string \<Rightarrow> string list result" where
  "protected_backup_ids h project =
     (case rh_pointers h of
        None \<Rightarrow> Inr []
      | Some p \<Rightarrow> protect_selected h project
          (rp_active_release_id p # option_list (rp_previous_release_id p)) [])"

section \<open>The plan for one inventory\<close>

datatype inventory_record =
  Inventory_record (record_id: string) (record_project: string) (record_time: int)

definition record_key :: "inventory_record \<Rightarrow> stamp" where
  "record_key r = Stamp (record_time r) (record_id r)"

text \<open>
  A Python sort with \<^verbatim>\<open>reverse=True\<close> puts the greatest key first. The identities are distinct,
  so are the keys, and stability plays no part.
\<close>

definition newest_first :: "inventory_record list \<Rightarrow> inventory_record list" where
  "newest_first rs = rev (sort_key record_key (rev rs))"

definition plan_inventory ::
  "inventory_record list \<Rightarrow> string \<Rightarrow> string list \<Rightarrow> nat \<Rightarrow> (string list \<times> string list) result"
where
  "plan_inventory records project protected keep_last =
    (if \<not> distinct (map record_id records)
     then Inl (retention_safety_error ''backup inventory contains duplicate identities'')
     else
       (let managed = filter (\<lambda>r. record_project r = project) records;
            foreign_ids = map record_id (filter (\<lambda>r. record_project r \<noteq> project) records);
            unprotected = filter (\<lambda>r. record_id r \<notin> set protected) managed;
            keep_unprotected = map record_id (take keep_last (newest_first unprotected));
            retained = map record_id (filter (\<lambda>r. record_id r \<in> set protected \<or>
                         record_id r \<in> set keep_unprotected \<or> record_id r \<in> set foreign_ids)
                         records);
            deleted = sort_key record_key
                        (filter (\<lambda>r. record_id r \<notin> set retained) managed)
        in Inr (map record_id deleted, sort retained)))"

lemma set_newest_first [simp]: "set (newest_first rs) = set rs"
  by (simp add: newest_first_def)

lemma set_take_newest: "set (take k (newest_first rs)) \<subseteq> set rs"
  using set_take_subset [of k "newest_first rs"] by simp

lemma length_newest_first [simp]: "length (newest_first rs) = length rs"
  by (simp add: newest_first_def)

section \<open>The whole pass\<close>

record retention_result =
  rr_protected_backup_ids :: "string list"
  rr_local_deleted :: "string list"
  rr_remote_deleted :: "string list"
  rr_local_retained :: "string list"
  rr_remote_retained :: "string list"

fun delete_all :: "(string \<Rightarrow> 'i \<Rightarrow> unit result \<times> 'i) \<Rightarrow> string list \<Rightarrow> 'i \<Rightarrow> unit result \<times> 'i" where
  "delete_all del [] st = (Inr (), st)"
| "delete_all del (i # is) st =
     (case del i st of (Inl e, u) \<Rightarrow> (Inl e, u) | (Inr _, u) \<Rightarrow> delete_all del is u)"

text \<open>
  The pass over two inventories behind the same protocol: both are listed and planned before
  anything is deleted; the remote inventory is optional. The inventories after the pass are
  returned also when it raises.
\<close>

definition apply_retention ::
  "('i \<Rightarrow> inventory_record list result) \<Rightarrow> (string \<Rightarrow> 'i \<Rightarrow> unit result \<times> 'i) \<Rightarrow>
   string \<Rightarrow> int \<Rightarrow> release_history \<Rightarrow> 'i \<Rightarrow> 'i option \<Rightarrow>
   retention_result result \<times> 'i \<times> 'i option"
where
  "apply_retention lst del project keep_last h local remote =
    (if keep_last < 1 then (Inl (value_error ''keep_last must be positive''), local, remote)
     else case protected_backup_ids h project of
       Inl e \<Rightarrow> (Inl e, local, remote)
     | Inr protected \<Rightarrow>
      (case rbind (lst local) (\<lambda>local_records.
            rbind (case remote of None \<Rightarrow> Inr [] | Some r \<Rightarrow> lst r) (\<lambda>remote_records.
            rbind (plan_inventory local_records project protected (nat keep_last)) (\<lambda>lp.
            rbind (plan_inventory remote_records project protected (nat keep_last)) (\<lambda>rp.
            Inr (lp, rp))))) of
         Inl e \<Rightarrow> (Inl e, local, remote)
       | Inr ((local_delete, local_retain), (remote_delete, remote_retain)) \<Rightarrow>
          (let result = \<lparr>rr_protected_backup_ids = sort (remdups protected),
                         rr_local_deleted = local_delete, rr_remote_deleted = remote_delete,
                         rr_local_retained = local_retain, rr_remote_retained = remote_retain\<rparr>
           in case delete_all del local_delete local of
                (Inl e, local') \<Rightarrow> (Inl e, local', remote)
              | (Inr _, local') \<Rightarrow>
                 (case remote of
                    None \<Rightarrow> (Inr result, local', None)
                  | Some r \<Rightarrow>
                     (case delete_all del remote_delete r of
                        (Inl e, r') \<Rightarrow> (Inl e, local', Some r')
                      | (Inr _, r') \<Rightarrow> (Inr result, local', Some r'))))))"

section \<open>What a plan keeps and deletes\<close>

definition unprotected_managed ::
  "inventory_record list \<Rightarrow> string \<Rightarrow> string list \<Rightarrow> inventory_record list" where
  "unprotected_managed records project protected =
     filter (\<lambda>r. record_id r \<notin> set protected) (filter (\<lambda>r. record_project r = project) records)"

definition kept_newest :: "inventory_record list \<Rightarrow> string \<Rightarrow> string list \<Rightarrow> nat \<Rightarrow> inventory_record list" where
  "kept_newest records project protected k =
     take k (newest_first (unprotected_managed records project protected))"

lemma set_unprotected_managed:
  "r \<in> set (unprotected_managed rs p prot) \<longleftrightarrow>
     r \<in> set rs \<and> record_project r = p \<and> record_id r \<notin> set prot"
  by (auto simp: unprotected_managed_def)

lemma kept_newest_subset:
  "r \<in> set (kept_newest rs p prot k) \<Longrightarrow> r \<in> set (unprotected_managed rs p prot)"
  unfolding kept_newest_def using set_take_newest [of k "unprotected_managed rs p prot"] by auto

lemma record_id_inj:
  "distinct (map record_id rs) \<Longrightarrow> r \<in> set rs \<Longrightarrow> q \<in> set rs \<Longrightarrow> record_id r = record_id q \<Longrightarrow> r = q"
  by (meson distinct_map inj_onD)

text \<open>The plan in terms of the unprotected records of the project.\<close>

lemma plan_inventory_Inr:
  assumes "plan_inventory rs p prot k = Inr (del, keep)"
  shows plan_distinct: "distinct (map record_id rs)"
    and plan_deleted: "set del = record_id ` (set (unprotected_managed rs p prot) - set (kept_newest rs p prot k))"
    and plan_retained: "set keep = record_id ` set rs - set del"
proof -
  show d: "distinct (map record_id rs)"
    using assms by (auto simp: plan_inventory_def Let_def split: if_splits)
  let ?kept = "kept_newest rs p prot k"
  let ?ret = "filter (\<lambda>r. record_id r \<in> set prot \<or> record_id r \<in> record_id ` set ?kept \<or>
      record_id r \<in> record_id ` {r \<in> set rs. record_project r \<noteq> p}) rs"
  have eq: "set del = record_id ` {r \<in> set rs. record_project r = p \<and> record_id r \<notin> record_id ` set ?ret}"
    "set keep = record_id ` set ?ret"
    using assms d unfolding plan_inventory_def
    by (clarsimp simp: Let_def kept_newest_def unprotected_managed_def conj_commute)+
  have inj: "record_id r \<in> record_id ` A \<longleftrightarrow> r \<in> A" if "r \<in> set rs" "A \<subseteq> set rs" for r A
    using that record_id_inj [OF d that(1)] by (auto simp: image_iff)
  have sub: "set ?kept \<subseteq> set rs"
    using kept_newest_subset by (fastforce simp: set_unprotected_managed)
  have ret: "r \<in> set ?ret \<longleftrightarrow> r \<in> set rs \<and>
      (record_id r \<in> set prot \<or> r \<in> set ?kept \<or> record_project r \<noteq> p)" for r
    using inj [OF _ sub, of r] inj [of r "{r \<in> set rs. record_project r \<noteq> p}"] by auto
  have "r \<in> set rs \<and> record_project r = p \<and> record_id r \<notin> record_id ` set ?ret \<longleftrightarrow>
      r \<in> set (unprotected_managed rs p prot) - set ?kept" for r
    using inj [of r "set ?ret"] ret [of r] by (auto simp: set_unprotected_managed)
  then show del: "set del = record_id ` (set (unprotected_managed rs p prot) - set ?kept)"
    unfolding eq(1) by (auto simp: image_iff)
  show "set keep = record_id ` set rs - set del"
    unfolding eq(2) del
  proof (intro set_eqI iffI)
    fix i assume "i \<in> record_id ` set ?ret"
    then obtain r where r: "r \<in> set ?ret" "i = record_id r" by blast
    then have "r \<notin> set (unprotected_managed rs p prot) - set ?kept"
      using ret by (auto simp: set_unprotected_managed)
    moreover have "r \<in> set rs" "set (unprotected_managed rs p prot) - set ?kept \<subseteq> set rs"
      using r by (auto simp: set_unprotected_managed)
    ultimately show "i \<in> record_id ` set rs - record_id ` (set (unprotected_managed rs p prot) - set ?kept)"
      using inj r(2) by blast
  next
    fix i assume "i \<in> record_id ` set rs - record_id ` (set (unprotected_managed rs p prot) - set ?kept)"
    then obtain r where r: "r \<in> set rs" "i = record_id r"
      "r \<notin> set (unprotected_managed rs p prot) - set ?kept" by blast
    then have "r \<in> set ?ret" using ret [of r] by (auto simp: set_unprotected_managed)
    then show "i \<in> record_id ` set ?ret" using r(2) by blast
  qed
qed

lemma plan_deleted_iff:
  assumes "plan_inventory rs p prot k = Inr (del, keep)" and "r \<in> set rs"
  shows "record_id r \<in> set del \<longleftrightarrow>
    r \<in> set (unprotected_managed rs p prot) \<and> r \<notin> set (kept_newest rs p prot k)"
proof
  assume "record_id r \<in> set del"
  then obtain q where q: "q \<in> set (unprotected_managed rs p prot)"
      "q \<notin> set (kept_newest rs p prot k)" "record_id r = record_id q"
    unfolding plan_deleted [OF assms(1)] by blast
  have "q \<in> set rs" using q(1) by (simp add: set_unprotected_managed)
  then have "q = r"
    by (rule record_id_inj [OF plan_distinct [OF assms(1)] _ assms(2) q(3) [symmetric]])
  with q show "r \<in> set (unprotected_managed rs p prot) \<and> r \<notin> set (kept_newest rs p prot k)"
    by simp
next
  assume "r \<in> set (unprotected_managed rs p prot) \<and> r \<notin> set (kept_newest rs p prot k)"
  then show "record_id r \<in> set del" unfolding plan_deleted [OF assms(1)] by blast
qed

lemma plan_never_deletes_protected:
  assumes "plan_inventory rs p prot k = Inr (del, keep)" and "r \<in> set rs"
    and "record_id r \<in> set prot \<or> record_project r \<noteq> p"
  shows "record_id r \<notin> set del"
  using assms(3) by (auto simp: plan_deleted_iff [OF assms(1,2)] set_unprotected_managed)

text \<open>Sorting newest first: every record that is kept has a key at least that of one that is not.\<close>

lemma sorted_newest_first:
  "sorted_wrt (\<lambda>a b. record_key b \<le> record_key a) (newest_first rs)"
proof -
  have "sorted (map record_key (sort_key record_key (rev rs)))" by simp
  then have "sorted_wrt (\<lambda>a b. record_key a \<le> record_key b) (sort_key record_key (rev rs))"
    by (simp add: sorted_map)
  then show ?thesis by (simp add: newest_first_def sorted_wrt_rev)
qed

lemma take_newest_first_newer:
  assumes "a \<in> set (take k (newest_first rs))" and "b \<in> set rs"
    and "b \<notin> set (take k (newest_first rs))"
  shows "record_key b \<le> record_key a"
proof -
  let ?s = "newest_first rs"
  have "b \<in> set (drop k ?s)"
    using assms(2,3) by (metis UnE append_take_drop_id set_append set_newest_first)
  moreover have "sorted_wrt (\<lambda>a b. record_key b \<le> record_key a) (take k ?s @ drop k ?s)"
    using sorted_newest_first by simp
  ultimately show ?thesis using assms(1) unfolding sorted_wrt_append by blast
qed

lemma plan_keeps_newest:
  assumes "plan_inventory rs p prot k = Inr (del, keep)"
    and "a \<in> set (unprotected_managed rs p prot)" and "record_id a \<in> set keep"
    and "b \<in> set rs" and "record_id b \<in> set del"
  shows "record_key b < record_key a"
proof -
  note d = plan_distinct [OF assms(1)]
  have a: "a \<in> set rs" using assms(2) by (simp add: set_unprotected_managed)
  have "a \<in> set (kept_newest rs p prot k)"
    using assms(2,3) plan_deleted_iff [OF assms(1) a] by (simp add: plan_retained [OF assms(1)])
  moreover have "b \<in> set (unprotected_managed rs p prot) - set (kept_newest rs p prot k)"
    using assms(5) plan_deleted_iff [OF assms(1,4)] by simp
  ultimately have "record_key b \<le> record_key a" "a \<noteq> b"
    using take_newest_first_newer [of a k "unprotected_managed rs p prot" b]
    by (auto simp: kept_newest_def)
  moreover have "record_key b \<noteq> record_key a"
    using record_id_inj [OF d a assms(4)] \<open>a \<noteq> b\<close> by (auto simp: record_key_def)
  ultimately show ?thesis by simp
qed

lemma distinct_unprotected: "distinct (map record_id rs) \<Longrightarrow> distinct (map record_id (unprotected_managed rs p prot))"
  unfolding unprotected_managed_def by (intro distinct_map_filter)

lemma distinct_newest_first: "distinct (newest_first rs) \<longleftrightarrow> distinct rs"
  by (simp add: newest_first_def)

lemma plan_kept_count:
  assumes "plan_inventory rs p prot k = Inr (del, keep)"
  shows "card {i \<in> set keep. \<exists>r \<in> set (unprotected_managed rs p prot). record_id r = i}
    = min k (length (unprotected_managed rs p prot))"
proof -
  let ?u = "unprotected_managed rs p prot" and ?kept = "kept_newest rs p prot k"
  have d: "distinct (map record_id ?u)"
    by (rule distinct_unprotected [OF plan_distinct [OF assms]])
  have inj: "inj_on record_id (set ?u)" using d by (simp add: distinct_map)
  have sub: "set ?kept \<subseteq> set ?u" using kept_newest_subset by blast
  have us: "set ?u \<subseteq> set rs" by (auto simp: set_unprotected_managed)
  have "{i \<in> set keep. \<exists>r \<in> set ?u. record_id r = i} = record_id ` set ?u - record_id ` (set ?u - set ?kept)"
    unfolding plan_retained [OF assms] plan_deleted [OF assms] using us
    by (auto simp: image_iff) metis
  also have "\<dots> = record_id ` set ?kept"
    using inj_on_image_set_diff [OF inj, of "set ?u" "set ?u - set ?kept"] sub
    by (simp add: double_diff)
  finally have "card {i \<in> set keep. \<exists>r \<in> set ?u. record_id r = i} = card (record_id ` set ?kept)"
    by simp
  also have "\<dots> = card (set ?kept)"
    by (rule card_image) (rule inj_on_subset [OF inj sub])
  also have "\<dots> = length ?kept"
    using d by (intro distinct_card) (simp add: kept_newest_def distinct_newest_first distinct_map)
  finally show ?thesis by (simp add: kept_newest_def min.commute)
qed

section \<open>The inventory protocol and a whole pass\<close>

text \<open>
  What the pass relies on of an inventory: a deletion touches the deleted record only, also
  when it fails halfway, and removes it when it returns.
\<close>

locale inventory =
  fixes lst :: "'i \<Rightarrow> inventory_record list result"
    and del :: "string \<Rightarrow> 'i \<Rightarrow> unit result \<times> 'i"
    and invar :: "'i \<Rightarrow> bool"
  assumes del_invar: "invar i \<Longrightarrow> del k i = (r, i') \<Longrightarrow> invar i'"
    and del_lst: "invar i \<Longrightarrow> lst i = Inr rs \<Longrightarrow> del k i = (r, i') \<Longrightarrow>
      lst i' = Inr rs \<and> r \<noteq> Inr () \<or> lst i' = Inr (filter (\<lambda>q. record_id q \<noteq> k) rs)"
begin

lemma delete_all_lst:
  assumes "invar i" and "lst i = Inr rs" and "delete_all del ks i = (r, i')"
  shows "\<exists>rs'. lst i' = Inr rs' \<and> invar i' \<and> set rs' \<subseteq> set rs \<and>
    (\<forall>q \<in> set rs. record_id q \<notin> set ks \<longrightarrow> q \<in> set rs') \<and>
    (r = Inr () \<longrightarrow> rs' = filter (\<lambda>q. record_id q \<notin> set ks) rs)"
  using assms
proof (induction ks arbitrary: i rs)
  case Nil
  then show ?case by auto
next
  case (Cons k ks)
  obtain r1 i1 where step: "del k i = (r1, i1)" by fastforce
  note inv1 = del_invar [OF Cons.prems(1) step]
  note lst1 = del_lst [OF Cons.prems(1,2) step]
  show ?case
  proof (cases r1)
    case (Inl e)
    then show ?thesis using Cons.prems(3) step inv1 lst1 by auto
  next
    case (Inr u)
    then have l1: "lst i1 = Inr (filter (\<lambda>q. record_id q \<noteq> k) rs)" using lst1 by auto
    have run: "delete_all del ks i1 = (r, i')" using Cons.prems(3) step Inr by simp
    from Cons.IH [OF inv1 l1 run] show ?thesis by (fastforce simp: filter_filter conj_commute)
  qed
qed

definition keeps_protected ::
  "string \<Rightarrow> release_history \<Rightarrow> inventory_record list \<Rightarrow> inventory_record list \<Rightarrow> bool" where
  "keeps_protected project h rs rs' \<longleftrightarrow>
     set rs' \<subseteq> set rs \<and>
     (\<forall>q \<in> set rs. record_project q \<noteq> project \<longrightarrow> q \<in> set rs') \<and>
     (\<forall>prot. protected_backup_ids h project = Inr prot \<longrightarrow>
        (\<forall>q \<in> set rs. record_id q \<in> set prot \<longrightarrow> q \<in> set rs')) \<and>
     (\<forall>e. protected_backup_ids h project = Inl e \<longrightarrow> rs' = rs)"

lemma keeps_protected_refl: "keeps_protected project h rs rs"
  by (simp add: keeps_protected_def)

lemma planned_deletion_keeps:
  assumes "invar i" and "lst i = Inr rs" and "delete_all del ks i = (r, i')"
    and "plan_inventory rs project prot k = Inr (ks, keep)"
    and "protected_backup_ids h project = Inr prot"
  shows "\<exists>rs'. lst i' = Inr rs' \<and> keeps_protected project h rs rs' \<and>
    (r = Inr () \<longrightarrow> rs' = filter (\<lambda>q. record_id q \<notin> set ks) rs)"
  using delete_all_lst [OF assms(1-3)] plan_never_deletes_protected [OF assms(4)] assms(5)
  by (fastforce simp: keeps_protected_def)

text \<open>
  Whatever happens during a pass, both inventories keep every record of another project and
  every protected one; a pass that returns has deleted exactly the records it reports.
\<close>

lemma apply_retention_local:
  assumes "invar l" and "lst l = Inr rs"
    and "apply_retention lst del project kl h l rem = (res, l', rem')"
  shows "\<exists>rs'. lst l' = Inr rs' \<and> keeps_protected project h rs rs' \<and>
    (\<forall>x. res = Inr x \<longrightarrow> rs' = filter (\<lambda>q. record_id q \<notin> set (rr_local_deleted x)) rs)"
proof (cases "l' = l \<and> (\<exists>e. res = Inl e)")
  case True
  then show ?thesis using assms(2) keeps_protected_refl by auto
next
  case False
  then obtain prot where prot: "protected_backup_ids h project = Inr prot"
    using assms(3) by (auto simp: apply_retention_def split: if_splits sum.splits)
  from False assms(3) prot obtain ks keep rks rkeep r1 where
    plan: "plan_inventory rs project prot (nat kl) = Inr (ks, keep)"
    and run: "delete_all del ks l = (r1, l')"
    and res: "\<And>x. res = Inr x \<Longrightarrow> r1 = Inr () \<and> rr_local_deleted x = ks"
    using assms(2)
    by (auto simp: apply_retention_def rbind_def Let_def split: if_splits sum.splits prod.splits option.splits)
  show ?thesis
    using planned_deletion_keeps [OF assms(1,2) run plan prot] res by auto
qed

lemma apply_retention_remote:
  assumes "invar i" and "lst i = Inr rs"
    and "apply_retention lst del project kl h l (Some i) = (res, l', rem')"
  shows "\<exists>i' rs'. rem' = Some i' \<and> lst i' = Inr rs' \<and> keeps_protected project h rs rs' \<and>
    (\<forall>x. res = Inr x \<longrightarrow> rs' = filter (\<lambda>q. record_id q \<notin> set (rr_remote_deleted x)) rs)"
proof (cases "rem' = Some i \<and> (\<exists>e. res = Inl e)")
  case True
  then show ?thesis using assms(2) keeps_protected_refl by auto
next
  case False
  then obtain prot where prot: "protected_backup_ids h project = Inr prot"
    using assms(3) by (auto simp: apply_retention_def split: if_splits sum.splits)
  have "\<exists>ks keep r1 i'. plan_inventory rs project prot (nat kl) = Inr (ks, keep) \<and>
      delete_all del ks i = (r1, i') \<and> rem' = Some i' \<and>
      (\<forall>x. res = Inr x \<longrightarrow> r1 = Inr () \<and> rr_remote_deleted x = ks)"
    using False assms(2,3) prot
    by (auto simp: apply_retention_def rbind_def Let_def
        split: if_splits sum.splits prod.splits option.splits)
  then obtain ks keep r1 i' where
    plan: "plan_inventory rs project prot (nat kl) = Inr (ks, keep)"
    and run: "delete_all del ks i = (r1, i')" and rem: "rem' = Some i'"
    and res: "\<And>x. res = Inr x \<Longrightarrow> r1 = Inr () \<and> rr_remote_deleted x = ks"
    by blast
  show ?thesis
    using planned_deletion_keeps [OF assms(1,2) run plan prot] res rem by auto
qed

end

end
