(* ===== verification/Traces.thy ===== *)
theory Traces
  imports Errors
begin

text \<open>
  Reasoning about the order of calls. \<open>emits view seg m\<close> says of a computation and a view of its
  state (a list of events, oldest first) that a run which returns appends \<open>seg\<close> to the view, and
  that a run which raises appends a prefix of \<open>seg\<close>. The rules are compositional, so that the
  call order of a long sequence is read off its parts.
\<close>

definition emits :: "('s \<Rightarrow> 'v list) \<Rightarrow> 'v list \<Rightarrow> ('s, 'e, 'a) act \<Rightarrow> bool" where
  "emits view seg m \<longleftrightarrow>
     (\<forall>xs. triple (\<lambda>s. view s = xs) m (\<lambda>_ s. view s = xs @ seg) (\<lambda>_ s. \<exists>n. view s = xs @ take n seg))"

named_theorems emitting "rules for the events of a computation"

lemma emitsI:
  assumes "\<And>s x t. m s = (Inr x, t) \<Longrightarrow> view t = view s @ seg"
    and "\<And>s e t. m s = (Inl e, t) \<Longrightarrow> \<exists>n. view t = view s @ take n seg"
  shows "emits view seg m"
  unfolding emits_def by (intro allI tripleI) (use assms in auto)

lemma emits_Inr: "emits view seg m \<Longrightarrow> m s = (Inr x, t) \<Longrightarrow> view t = view s @ seg"
  unfolding emits_def by (drule spec [of _ "view s"]) (erule tripleD_Inr [where P = "\<lambda>u. view u = view s"], simp_all)

lemma emits_Inl: "emits view seg m \<Longrightarrow> m s = (Inl e, t) \<Longrightarrow> \<exists>n. view t = view s @ take n seg"
  unfolding emits_def by (drule spec [of _ "view s"]) (erule tripleD_Inl [where P = "\<lambda>u. view u = view s"], simp_all)

lemma emits_nil: "emits view [] m \<Longrightarrow> m s = (r, t) \<Longrightarrow> view t = view s"
  by (cases r) (auto dest: emits_Inr emits_Inl)

lemma emits_nilI: "(\<And>s r t. m s = (r, t) \<Longrightarrow> view t = view s) \<Longrightarrow> emits view [] m"
  by (rule emitsI) auto

lemma emits_pure [emitting]:
  "emits view [] (ret x)" "emits view [] (fetch f)" "emits view [] (lift_result r)"
  by (rule emits_nilI; simp add: ret_def fetch_def lift_result_def)+

lemma emits_raise [emitting]: "emits view seg (raise e)"
  by (rule emitsI) (auto simp: raise_def intro: exI [of _ 0])

lemma emits_bnd:
  assumes "emits view a m" and "\<And>x. emits view b (f x)"
  shows "emits view (a @ b) (bnd m f)"
proof (rule emitsI)
  show "view t = view s @ a @ b" if "bnd m f s = (Inr y, t)" for s y t
    using that emits_Inr [OF assms(1)] emits_Inr [OF assms(2)]
    by (auto simp: bnd_def split: prod.splits sum.splits)
  show "\<exists>n. view t = view s @ take n (a @ b)" if "bnd m f s = (Inl e, t)" for s e t
  proof (cases "m s")
    case (Pair r u)
    show ?thesis
    proof (cases r)
      case (Inl e')
      then have "t = u" using that Pair by (simp add: bnd_def)
      with emits_Inl [OF assms(1), of s e' u] Pair Inl obtain n where "view t = view s @ take n a" by auto
      then have "view t = view s @ take (min n (length a)) (a @ b)" by (simp add: min_def)
      then show ?thesis by blast
    next
      case (Inr x)
      then have "f x u = (Inl e, t)" using that Pair by (simp add: bnd_def)
      from emits_Inl [OF assms(2) this] emits_Inr [OF assms(1), of s x u] Pair Inr
      obtain n where "view t = (view s @ a) @ take n b" by auto
      then have "view t = view s @ take (length a + n) (a @ b)" by simp
      then show ?thesis by blast
    qed
  qed
qed

lemma emits_andthen: "emits view a m \<Longrightarrow> emits view b n \<Longrightarrow> emits view (a @ b) (andthen m n)"
  unfolding andthen_def by (rule emits_bnd)

text \<open>The same with a side that emits nothing.\<close>

lemma emits_bnd_nil: "emits view [] m \<Longrightarrow> (\<And>x. emits view b (f x)) \<Longrightarrow> emits view b (bnd m f)"
  by (drule emits_bnd [where b = b]) simp_all

lemma emits_andthen_nil: "emits view [] m \<Longrightarrow> emits view b n \<Longrightarrow> emits view b (andthen m n)"
  by (drule emits_andthen [where b = b]) simp_all

lemma emits_bnd_last: "emits view a m \<Longrightarrow> (\<And>x. emits view [] (f x)) \<Longrightarrow> emits view a (bnd m f)"
  by (drule emits_bnd [where b = "[]"]) simp_all

lemma emits_andthen_last: "emits view a m \<Longrightarrow> emits view [] n \<Longrightarrow> emits view a (andthen m n)"
  by (drule emits_andthen [where b = "[]"]) simp_all

lemma emits_catching [emitting]:
  "emits view [] m \<Longrightarrow> (\<And>e. emits view [] (h e)) \<Longrightarrow> emits view [] (catching m h)"
proof (rule emits_nilI)
  fix s r t assume *: "emits view [] m" "\<And>e. emits view [] (h e)" "catching m h s = (r, t)"
  obtain r' u where m: "m s = (r', u)" by fastforce
  show "view t = view s"
    using *(3) m emits_nil [OF *(1) m] emits_nil [OF *(2), of _ u r t]
    by (auto simp: catching_def split: sum.splits)
qed

lemma emits_if [emitting]: "emits view a m \<Longrightarrow> emits view a n \<Longrightarrow> emits view a (if b then m else n)"
  by simp

lemma emits_option [emitting]:
  "emits view a m \<Longrightarrow> (\<And>x. emits view a (f x)) \<Longrightarrow> emits view a (case y of None \<Rightarrow> m | Some x \<Rightarrow> f x)"
  by (cases y) simp_all

lemma emits_prod [emitting]:
  "(\<And>x y. emits view a (f x y)) \<Longrightarrow> emits view a (case p of (x, y) \<Rightarrow> f x y)"
  by (cases p) simp

lemma emits_exn_catch [emitting]:
  "emits view [] m \<Longrightarrow> (\<And>e. emits view [] (h e)) \<Longrightarrow> emits view [] (on_exception m h)"
  unfolding on_exception_def by (intro emits_catching emits_if emits_raise)

lemma emits_modify: "(\<And>s. view (f s) = view s) \<Longrightarrow> emits view [] (modify f)"
  by (rule emits_nilI) (auto simp: modify_def)

text \<open>Computations that leave a property of the state alone, by a view that decides it.\<close>

lemma emits_nil_keeps:
  "emits view [] m \<Longrightarrow> keeps (\<lambda>s. P (view s)) m"
  by (rule keepsI) (auto dest: emits_nil)

section \<open>Which events a computation may add\<close>

definition adds :: "('s \<Rightarrow> 'v list) \<Rightarrow> 'v set \<Rightarrow> ('s, 'e, 'a) act \<Rightarrow> bool" where
  "adds view S m \<longleftrightarrow> (\<forall>s r t. m s = (r, t) \<longrightarrow> (\<exists>ys. view t = view s @ ys \<and> set ys \<subseteq> S))"

lemma addsD: "adds view S m \<Longrightarrow> m s = (r, t) \<Longrightarrow> \<exists>ys. view t = view s @ ys \<and> set ys \<subseteq> S"
  by (simp add: adds_def)

lemma emits_adds: "emits view seg m \<Longrightarrow> set seg \<subseteq> S \<Longrightarrow> adds view S m"
  unfolding adds_def
proof (intro allI impI)
  fix s r t assume *: "emits view seg m" "set seg \<subseteq> S" "m s = (r, t)"
  have "\<exists>n. view t = view s @ take n seg"
  proof (cases r)
    case (Inl e) with * show ?thesis by (auto dest: emits_Inl)
  next
    case (Inr x)
    with * have "view t = view s @ take (length seg) seg" by (auto dest: emits_Inr)
    then show ?thesis by blast
  qed
  then obtain n where "view t = view s @ take n seg" by blast
  then show "\<exists>ys. view t = view s @ ys \<and> set ys \<subseteq> S"
    using *(2) set_take_subset [of n seg] by blast
qed

lemma adds_bnd:
  assumes "adds view S m" and "\<And>x. adds view S (f x)"
  shows "adds view S (bnd m f)"
  unfolding adds_def
proof (intro allI impI)
  fix s r t assume run: "bnd m f s = (r, t)"
  obtain r' u where m: "m s = (r', u)" by fastforce
  obtain ys where ys: "view u = view s @ ys" "set ys \<subseteq> S" using addsD [OF assms(1) m] by blast
  show "\<exists>ys. view t = view s @ ys \<and> set ys \<subseteq> S"
  proof (cases r')
    case (Inl e) with run m ys show ?thesis by (auto simp: bnd_def)
  next
    case (Inr x)
    then have "f x u = (r, t)" using run m by (simp add: bnd_def)
    from addsD [OF assms(2) this] obtain zs where "view t = view u @ zs" "set zs \<subseteq> S" by blast
    with ys have "view t = view s @ (ys @ zs)" "set (ys @ zs) \<subseteq> S" by simp_all
    then show ?thesis by blast
  qed
qed

lemma adds_andthen: "adds view S m \<Longrightarrow> adds view S n \<Longrightarrow> adds view S (andthen m n)"
  unfolding andthen_def by (rule adds_bnd)

lemma adds_catching:
  assumes "adds view S m" and "\<And>e. adds view S (h e)"
  shows "adds view S (catching m h)"
  unfolding adds_def
proof (intro allI impI)
  fix s r t assume run: "catching m h s = (r, t)"
  obtain r' u where m: "m s = (r', u)" by fastforce
  obtain ys where ys: "view u = view s @ ys" "set ys \<subseteq> S" using addsD [OF assms(1) m] by blast
  show "\<exists>ys. view t = view s @ ys \<and> set ys \<subseteq> S"
  proof (cases r')
    case (Inr x) with run m ys show ?thesis by (auto simp: catching_def)
  next
    case (Inl e)
    then have "h e u = (r, t)" using run m by (simp add: catching_def)
    from addsD [OF assms(2) this] obtain zs where "view t = view u @ zs" "set zs \<subseteq> S" by blast
    with ys have "view t = view s @ (ys @ zs)" "set (ys @ zs) \<subseteq> S" by simp_all
    then show ?thesis by blast
  qed
qed

lemma adds_nil: "emits view [] m \<Longrightarrow> adds view S m"
  by (erule emits_adds) simp

section \<open>Events under a condition on the state\<close>

definition emits_on :: "('s \<Rightarrow> bool) \<Rightarrow> ('s \<Rightarrow> 'v list) \<Rightarrow> 'v list \<Rightarrow> ('s, 'e, 'a) act \<Rightarrow> bool" where
  "emits_on P view seg m \<longleftrightarrow> (\<forall>s. P s \<longrightarrow>
     (\<forall>x t. m s = (Inr x, t) \<longrightarrow> view t = view s @ seg) \<and>
     (\<forall>e t. m s = (Inl e, t) \<longrightarrow> (\<exists>n. view t = view s @ take n seg)))"

lemma emits_on_Inr: "emits_on P view seg m \<Longrightarrow> P s \<Longrightarrow> m s = (Inr x, t) \<Longrightarrow> view t = view s @ seg"
  by (simp add: emits_on_def)

lemma emits_on_Inl: "emits_on P view seg m \<Longrightarrow> P s \<Longrightarrow> m s = (Inl e, t) \<Longrightarrow> \<exists>n. view t = view s @ take n seg"
  by (simp add: emits_on_def)

lemma emits_on_weak: "emits view seg m \<Longrightarrow> emits_on P view seg m"
  by (auto simp: emits_on_def dest: emits_Inr emits_Inl)

lemma emits_on_bnd:
  assumes "emits_on P view a m" and "keeps P m" and "\<And>x. emits_on P view b (f x)"
  shows "emits_on P view (a @ b) (bnd m f)"
  unfolding emits_on_def
proof (intro allI impI conjI)
  fix s x t assume P: "P s" and run: "bnd m f s = (Inr x, t)"
  then obtain y u where m: "m s = (Inr y, u)" "f y u = (Inr x, t)"
    by (auto simp: bnd_def split: prod.splits sum.splits)
  show "view t = view s @ a @ b"
    using emits_on_Inr [OF assms(1) P m(1)] emits_on_Inr [OF assms(3) keepsD [OF assms(2) m(1) P] m(2)] by simp
next
  fix s e t assume P: "P s" and run: "bnd m f s = (Inl e, t)"
  then consider (first) "m s = (Inl e, t)" | (second) y u where "m s = (Inr y, u)" "f y u = (Inl e, t)"
    by (auto simp: bnd_def split: prod.splits sum.splits)
  then show "\<exists>n. view t = view s @ take n (a @ b)"
  proof cases
    case first
    from emits_on_Inl [OF assms(1) P this] obtain n where "view t = view s @ take n a" by blast
    then have "view t = view s @ take (min n (length a)) (a @ b)" by (simp add: min_def)
    then show ?thesis by blast
  next
    case second
    from emits_on_Inl [OF assms(3) keepsD [OF assms(2) second(1) P] second(2)]
    obtain n where "view t = view u @ take n b" by blast
    with emits_on_Inr [OF assms(1) P second(1)] have "view t = view s @ take (length a + n) (a @ b)" by simp
    then show ?thesis by blast
  qed
qed

lemma emits_on_andthen:
  "emits_on P view a m \<Longrightarrow> keeps P m \<Longrightarrow> emits_on P view b n \<Longrightarrow> emits_on P view (a @ b) (andthen m n)"
  unfolding andthen_def by (rule emits_on_bnd)

lemma emits_on_fetch:
  assumes "\<And>x. emits_on (\<lambda>s. P s \<and> f s = x) view seg (g x)"
  shows "emits_on P view seg (bnd (fetch f) g)"
  using assms by (auto simp: emits_on_def bnd_def fetch_def)

end
