(* ===== verification/Deploy.thy ===== *)
theory Deploy
  imports Cutover Releases Operations Retention Traces
begin

text \<open>
  The deployment coordinator, \<^verbatim>\<open>dploydb/deploy.py\<close>: the sequence from the rehearsal to the
  active release, the rollback before traffic, and the recording of what could not be rolled
  back. The stores and the dependencies the coordinator is given are the operations of a record,
  over a world of any type; the context of the code is the rest of the state. Every call on them
  is noted in a trace, which nothing in the coordinator reads: the properties are statements
  about that trace, for every behaviour of the stores and dependencies.
\<close>

section \<open>The context\<close>

datatype step =
    S_pre_cutover | S_discover | S_inspect | S_stop | S_create_final | S_replicate | S_migrate
  | S_start_new | S_logs | S_check_database | S_check_health | S_hook traffic_action
  | S_remove_new | S_restore | S_restart_previous | S_retention
  | S_event | S_operation operation_status string | S_release deployment_state
  | S_intent bool bool | S_activate_pointers | S_read_operation | S_read_release
  | S_fault_point

datatype trace_event = Began step | Done step | Hook_ended hook_result

record 'w deploy_context =
  cx_previous :: "application_handle option"
  cx_stopped :: "production_stop option"
  cx_final_backup :: "backup_artifact option"
  cx_new_application :: "application_handle option"
  cx_maintenance_enabled :: bool
  cx_production_may_have_changed :: bool
  cx_traffic_activation_attempted :: bool
  cx_traffic_activated :: bool
  cx_hook_evidence :: "hook_evidence list"
  cx_health_evidence :: "health_evidence list"
  cx_trace :: "trace_event list"
  cx_world :: 'w

type_synonym ('w, 'a) deploy_act = "('w deploy_context, exn, 'a) act"
type_synonym ('w, 'a) world_act = "('w, exn, 'a) act"
type_synonym evidence = "(string \<times> json) list"

record deploy_env =
  dx_version :: string
  dx_operation_id :: string
  dx_release_id :: string
  dx_operation_log :: string
  dx_redact :: "string \<Rightarrow> string"
  dx_utc :: "int \<Rightarrow> string"
  dx_remote_required :: bool

record 'w deploy_ops =
  do_append_event :: "string \<Rightarrow> string \<Rightarrow> evidence \<Rightarrow> ('w, operation_event) world_act"
  do_transition :: "string \<Rightarrow> operation_status \<Rightarrow> string \<Rightarrow> string \<Rightarrow> evidence \<Rightarrow>
    safety_facts option \<Rightarrow> failure_record option \<Rightarrow> ('w, operation_manifest) world_act"
  do_read_operation :: "string \<Rightarrow> ('w, operation_manifest) world_act"
  do_release_transition :: "string \<Rightarrow> deployment_state \<Rightarrow> release_changes \<Rightarrow>
    ('w, release_manifest) world_act"
  do_record_intent :: "string \<Rightarrow> bool \<Rightarrow> bool \<Rightarrow> ('w, release_manifest) world_act"
  do_activate_release :: "string \<Rightarrow> ('w, release_pointers) world_act"
  do_read_release :: "string \<Rightarrow> ('w, release_manifest) world_act"
  do_read_history :: "('w, history_snapshot) world_act"
  do_pre_cutover :: "(deployment_state \<Rightarrow> evidence \<Rightarrow> ('w, unit) world_act) \<Rightarrow> ('w, json) world_act"
  do_discover_current :: "('w, production_discovery) world_act"
  do_inspect :: "application_handle \<Rightarrow> bool \<Rightarrow> ('w, production_inspection) world_act"
  do_stop_current :: "application_handle \<Rightarrow> ('w, production_stop) world_act"
  do_start_new :: "('w, production_start) world_act"
  do_collect_logs :: "application_handle \<Rightarrow> ('w, production_logs) world_act"
  do_remove_new :: "application_handle \<Rightarrow> ('w, production_cleanup) world_act"
  do_restart_previous :: "application_handle \<Rightarrow> ('w, production_restart) world_act"
  do_run_hook :: "traffic_action \<Rightarrow> ('w, command_result) world_act"
  do_create_final :: "string \<Rightarrow> production_stop \<Rightarrow> ('w, backup_artifact) world_act"
  do_migrate :: "string \<Rightarrow> production_stop \<Rightarrow> backup_artifact \<Rightarrow> bool \<Rightarrow>
    (command_result \<Rightarrow> ('w, unit) world_act) \<Rightarrow> string \<Rightarrow> ('w, migration_result) world_act"
  do_restore :: "string \<Rightarrow> production_stop \<Rightarrow> backup_artifact \<Rightarrow> bool \<Rightarrow> ('w, restore_proof) world_act"
  do_check_application :: "string \<Rightarrow> ('w, health_result) world_act"
  do_verify_sqlite :: "('w, sqlite_verification) world_act"
  do_replicate :: "(backup_artifact \<Rightarrow> string \<Rightarrow> ('w, remote_artifact) world_act) option"
  do_retention :: "(history_snapshot \<Rightarrow> ('w, retention_result) world_act) option"
  do_inject :: "string \<Rightarrow> ('w, unit) world_act"

section \<open>Calls\<close>

definition in_world :: "('w, 'a) world_act \<Rightarrow> ('w, 'a) deploy_act" where
  "in_world m s = (case m (cx_world s) of (r, w) \<Rightarrow> (r, s\<lparr>cx_world := w\<rparr>))"

definition trace :: "trace_event \<Rightarrow> ('w, unit) deploy_act" where
  "trace e = modify (\<lambda>s. s\<lparr>cx_trace := e # cx_trace s\<rparr>)"

definition perform :: "step \<Rightarrow> ('w, 'a) world_act \<Rightarrow> ('w, 'a) deploy_act" where
  "perform st m = andthen (trace (Began st)) (bnd (in_world m) (\<lambda>x. andthen (trace (Done st)) (ret x)))"

definition deploy_error ::
  "deploy_env \<Rightarrow> error_class \<Rightarrow> string \<Rightarrow> bool \<Rightarrow> bool option \<Rightarrow> string \<Rightarrow> dploydb_error" where
  "deploy_error env c what changed running advice =
     mk_error c what changed running (Some (dx_operation_log env)) advice"

definition facts :: "bool \<Rightarrow> bool option \<Rightarrow> bool \<Rightarrow> safety_facts" where
  "facts changed running recovery =
     \<lparr>sf_production_changed = changed, sf_previous_application_running = running,
      sf_recovery_required = recovery\<rparr>"

definition append_deploy_event ::
  "deploy_env \<Rightarrow> 'w deploy_ops \<Rightarrow> string \<Rightarrow> evidence \<Rightarrow> ('w, unit) deploy_act" where
  "append_deploy_event env ops message evidence =
     andthen (perform S_event (do_append_event ops (dx_operation_id env) message evidence)) (ret ())"

definition operation_step ::
  "deploy_env \<Rightarrow> 'w deploy_ops \<Rightarrow> operation_status \<Rightarrow> string \<Rightarrow> string \<Rightarrow> evidence \<Rightarrow> safety_facts \<Rightarrow>
   failure_record option \<Rightarrow> ('w, operation_manifest) deploy_act"
where
  "operation_step env ops st stage message evidence safety failure =
     perform (S_operation st stage)
       (do_transition ops (dx_operation_id env) st stage message evidence (Some safety) failure)"

text \<open>A release transition with the hook and health evidence gathered so far.\<close>

definition release_step ::
  "deploy_env \<Rightarrow> 'w deploy_ops \<Rightarrow> deployment_state \<Rightarrow> release_changes \<Rightarrow> ('w, release_manifest) deploy_act"
where
  "release_step env ops st changes =
     bnd (fetch (\<lambda>s. (cx_hook_evidence s, cx_health_evidence s))) (\<lambda>(hooks, health).
     perform (S_release st) (do_release_transition ops (dx_release_id env) st
       (changes\<lparr>ch_traffic_hooks := Some hooks, ch_health_checks := Some health\<rparr>)))"

definition persist_stage ::
  "deploy_env \<Rightarrow> 'w deploy_ops \<Rightarrow> deployment_state \<Rightarrow> string \<Rightarrow> evidence \<Rightarrow> safety_facts \<Rightarrow>
   release_changes \<Rightarrow> ('w, unit) deploy_act"
where
  "persist_stage env ops st message evidence safety changes =
     bnd (fetch (\<lambda>s. (cx_hook_evidence s, cx_health_evidence s))) (\<lambda>(hooks, health).
     andthen (operation_step env ops OS_in_progress (deployment_state_value st) message evidence safety None)
    (andthen (perform (S_release st) (do_release_transition ops (dx_release_id env) st
       (changes\<lparr>ch_traffic_hooks := Some hooks, ch_health_checks := Some health\<rparr>)))
     (ret ())))"

section \<open>Hooks\<close>

definition call_hook :: "'w deploy_ops \<Rightarrow> traffic_action \<Rightarrow> ('w, hook_result) deploy_act" where
  "call_hook ops a =
     bnd (perform (S_hook a) (do_run_hook ops a)) (\<lambda>c.
     let h = \<lparr>hr_action = a, hr_command = c\<rparr>
     in andthen (trace (Hook_ended h)) (ret h))"

definition record_hook :: "deploy_env \<Rightarrow> 'w deploy_ops \<Rightarrow> hook_result \<Rightarrow> ('w, unit) deploy_act" where
  "record_hook env ops h =
     bnd (lift_result (hook_summary h)) (\<lambda>e.
     andthen (modify (\<lambda>s. s\<lparr>cx_hook_evidence := cx_hook_evidence s @ [e]\<rparr>))
       (append_deploy_event env ops
         (''Traffic hook '' @ action_value (hr_action h) @ '' reached a terminal outcome.'')
         [(''traffic_hook'', hook_as_evidence h)]))"

definition hook_error ::
  "deploy_env \<Rightarrow> 'w deploy_context \<Rightarrow> hook_result \<Rightarrow> bool \<Rightarrow> bool \<Rightarrow> dploydb_error" where
  "hook_error env s h changed recovery =
     deploy_error env
       (if recovery \<or> cr_outcome (hr_command h) = CO_cleanup_failed
        then RecoveryRequiredError else ExternalCommandError)
       (hook_description h) changed (Some (cx_stopped s = None))
       ''Keep traffic blocked and inspect the recorded hook evidence.''"

definition raise_hook_error :: "deploy_env \<Rightarrow> hook_result \<Rightarrow> bool \<Rightarrow> bool \<Rightarrow> ('w, 'a) deploy_act" where
  "raise_hook_error env h changed recovery =
     bnd (fetch (\<lambda>s. s)) (\<lambda>s. raise (Dploy (hook_error env s h changed recovery)))"

section \<open>The previous application\<close>

definition verify_previous :: "deploy_env \<Rightarrow> 'w deploy_ops \<Rightarrow> ('w, evidence) deploy_act" where
  "verify_previous env ops =
     bnd (fetch (\<lambda>s. (cx_previous s, cx_production_may_have_changed s))) (\<lambda>(previous, changed).
     case previous of
       None \<Rightarrow> raise (Dploy (deploy_error env RecoveryRequiredError
         ''previous application identity is unavailable for health verification'' changed None
         ''Inspect the current production container manually.''))
     | Some p \<Rightarrow>
        bnd (perform S_check_database (do_verify_sqlite ops)) (\<lambda>database.
        let version = or_else (ah_version p) ''previous'' in
        bnd (perform S_check_health (do_check_application ops version)) (\<lambda>health.
        bnd (lift_result (health_summary health HR_previous version)) (\<lambda>e.
        andthen (modify (\<lambda>s. s\<lparr>cx_health_evidence := cx_health_evidence s @ [e]\<rparr>))
       (let evidence = [(''database'', sqlite_json (dx_utc env) database),
                        (''application_health'', health_as_evidence health)]
        in andthen (append_deploy_event env ops
              ''Previous database and application health were verified.''
              [(''previous_health'', JObj evidence)])
            (ret evidence))))))"

definition resolve_previous :: "deploy_env \<Rightarrow> 'w deploy_ops \<Rightarrow> ('w, unit) deploy_act" where
  "resolve_previous env ops =
     bnd (fetch cx_previous) (\<lambda>previous.
     bnd (case previous of
            Some p \<Rightarrow> bnd (perform S_inspect (do_inspect ops p True)) (\<lambda>i.
              ret [(''source'', JStr ''active_release''), (''inspection'', inspection_evidence i)])
          | None \<Rightarrow> bnd (perform S_discover (do_discover_current ops)) (\<lambda>d.
              andthen (modify (\<lambda>s. s\<lparr>cx_previous := Some (pn_handle (pd_inspection d))\<rparr>))
              (ret [(''source'', JStr ''configured_bootstrap''), (''discovery'', discovery_evidence d)])))
       (\<lambda>evidence. append_deploy_event env ops
          ''The exact currently running production application was identified.''
          [(''previous_application'', JObj evidence)]))"

text \<open>\<^verbatim>\<open>assert context.previous is not None\<close>\<close>

definition the_previous :: "('w, application_handle) deploy_act" where
  "the_previous = bnd (fetch cx_previous) (\<lambda>p. case p of
      None \<Rightarrow> raise (PyException ''AssertionError'' '''') | Some h \<Rightarrow> ret h)"

definition enable_maintenance :: "deploy_env \<Rightarrow> 'w deploy_ops \<Rightarrow> ('w, unit) deploy_act" where
  "enable_maintenance env ops =
     bnd (call_hook ops TA_enable_maintenance) (\<lambda>h.
     andthen (record_hook env ops h)
    (if \<not> hook_passed h
     then bnd (call_hook ops TA_disable_maintenance) (\<lambda>cleanup.
       andthen (record_hook env ops cleanup)
      (bnd (fetch (\<lambda>s. hook_error env s h False False)) (\<lambda>e.
       if \<not> hook_passed cleanup
       then raise (Dploy (deploy_error env RecoveryRequiredError
              (err_what e @ ''; maintenance cleanup also failed: '' @ hook_description cleanup)
              False (Some True)
              (''The previous application was not stopped. Determine and disable the '' @
               ''maintenance state manually before retrying.'')))
       else andthen (verify_previous env ops) (raise (Dploy e)))))
     else
       andthen (modify (\<lambda>s. s\<lparr>cx_maintenance_enabled := True\<rparr>))
      (bnd the_previous (\<lambda>previous.
       persist_stage env ops DS_maintenance_enabled
         ''Maintenance mode was enabled with complete hook evidence.''
         [(''traffic_hook'', hook_as_evidence h)] (facts False (Some True) False)
         (no_changes\<lparr>ch_previous_application := Some (Some previous)\<rparr>)))))"

section \<open>Activation\<close>

definition activate_new_traffic :: "deploy_env \<Rightarrow> 'w deploy_ops \<Rightarrow> ('w, unit) deploy_act" where
  "activate_new_traffic env ops =
     andthen (modify (\<lambda>s. s\<lparr>cx_traffic_activation_attempted := True\<rparr>))
    (andthen (perform (S_intent False True) (do_record_intent ops (dx_release_id env) False True))
    (andthen (operation_step env ops OS_in_progress ''traffic_activation_started''
        ''New-traffic activation is about to run; routing may become uncertain.''
        [(''release_id'', JStr (dx_release_id env))] (facts True (Some False) False) None)
    (bnd (call_hook ops TA_activate_new) (\<lambda>h.
     andthen (record_hook env ops h)
    (if \<not> hook_passed h
     then andthen (modify (\<lambda>s. s\<lparr>cx_traffic_activation_attempted := hook_may_have_run h\<rparr>))
            (raise_hook_error env h True False)
     else
       andthen (modify (\<lambda>s. s\<lparr>cx_traffic_activated := True\<rparr>))
      (persist_stage env ops DS_traffic_activated
         ''New-release traffic activation succeeded and was stored immediately.''
         [(''traffic_hook'', hook_as_evidence h)] (facts True (Some False) False)
         (no_changes\<lparr>ch_production_changed := Some True, ch_traffic_activated := Some True\<rparr>)))))))"

definition disable_maintenance_after_activation :: "deploy_env \<Rightarrow> 'w deploy_ops \<Rightarrow> ('w, unit) deploy_act" where
  "disable_maintenance_after_activation env ops =
     bnd (call_hook ops TA_disable_maintenance) (\<lambda>h.
     andthen (record_hook env ops h)
    (if \<not> hook_passed h
     then raise (Dploy (deploy_error env RecoveryRequiredError
            (''new traffic is active but maintenance disable failed: '' @ hook_description h)
            True (Some False)
            (''Do not restore the database. Keep the checked new release running and '' @
             ''disable maintenance manually.'')))
     else modify (\<lambda>s. s\<lparr>cx_maintenance_enabled := False\<rparr>)))"

definition replicate_final_backup ::
  "deploy_env \<Rightarrow> 'w deploy_ops \<Rightarrow> backup_artifact \<Rightarrow> ('w, unit) deploy_act" where
  "replicate_final_backup env ops final =
    (if \<not> dx_remote_required env then ret ()
     else case do_replicate ops of
       None \<Rightarrow> raise (Dploy (deploy_error env OperationFailedError
         ''required remote final-backup storage is unavailable'' False (Some False)
         (''Keep production unchanged, restart the previous application, and correct '' @
          ''remote backup configuration before retrying deployment.'')))
     | Some upload \<Rightarrow>
        bnd (perform S_replicate (upload final (dx_release_id env))) (\<lambda>remote.
        if rb_backup (ra_metadata remote) \<noteq> ba_metadata final \<or>
           rb_release_id (ra_metadata remote) \<noteq> Some (dx_release_id env)
        then raise (Dploy (deploy_error env OperationFailedError
               ''required remote final-backup evidence contradicts the local verified backup''
               False (Some False)
               (''Preserve both backup records, restart the previous application, and inspect '' @
                ''remote storage before retrying deployment.'')))
        else andthen (append_deploy_event env ops
               ''The required final backup was committed and verified off-server.''
               [(''remote_final_backup'', remote_json (dx_utc env) remote)])
             (andthen (perform S_fault_point (do_inject ops ''after_final_remote_verified'')) (ret ()))))"

section \<open>Completion\<close>

definition retention_json :: "retention_result \<Rightarrow> json" where
  "retention_json r = JObj
     [(''protected_backup_ids'', JList (map JStr (rr_protected_backup_ids r))),
      (''local_deleted'', JList (map JStr (rr_local_deleted r))),
      (''remote_deleted'', JList (map JStr (rr_remote_deleted r))),
      (''local_retained'', JList (map JStr (rr_local_retained r))),
      (''remote_retained'', JList (map JStr (rr_remote_retained r)))]"

text \<open>
  The post-activation cleanup: the whole of it, its event included, is guarded by handlers that
  record a failure and go on.
\<close>

definition post_activation_retention :: "deploy_env \<Rightarrow> 'w deploy_ops \<Rightarrow> ('w, json) deploy_act" where
  "post_activation_retention env ops =
    (case do_retention ops of
       None \<Rightarrow> ret (JObj [(''status'', JStr ''not_configured'')])
     | Some apply \<Rightarrow>
        (let failed = (\<lambda>message detail.
           let evidence = JObj [(''status'', JStr ''failed_safe''), (''failure'', detail)]
           in andthen (append_deploy_event env ops message [(''retention'', evidence)]) (ret evidence))
         in on_exception
           (bnd (perform S_retention (bnd (do_read_history ops) apply)) (\<lambda>r.
            let evidence = JObj [(''status'', JStr ''completed''), (''result'', retention_json r)]
            in andthen (append_deploy_event env ops
                 ''Backup retention completed after the active release and pointers were durable.''
                 [(''retention'', evidence)]) (ret evidence)))
           (\<lambda>x. case x of
              Dploy e \<Rightarrow> failed
                (''Backup retention did not complete; the active deployment is preserved '' @
                 ''and no rollback is permitted after traffic activation.'')
                (payload_json (de_payload e))
            | _ \<Rightarrow> failed
                (''Backup retention failed unexpectedly; the active deployment is '' @
                 ''preserved and no rollback is permitted after traffic activation.'')
                (JObj [(''what_failed'', JStr (dx_redact env (describe_exn x)))]))))"

record deployment_result =
  dr_release :: release_manifest
  dr_operation :: operation_manifest

definition complete_active :: "deploy_env \<Rightarrow> 'w deploy_ops \<Rightarrow> ('w, deployment_result) deploy_act" where
  "complete_active env ops =
     bnd (release_step env ops DS_active
            (no_changes\<lparr>ch_production_changed := Some True, ch_traffic_activated := Some True\<rparr>)) (\<lambda>release.
     bnd (perform S_activate_pointers (do_activate_release ops (dx_release_id env))) (\<lambda>pointers.
     bnd (post_activation_retention env ops) (\<lambda>retention.
     bnd (operation_step env ops OS_succeeded ''active''
            ''The new release is active and maintenance is disabled.''
            [(''release_id'', JStr (dx_release_id env)),
             (''active_release_id'', JStr (rp_active_release_id pointers)),
             (''previous_release_id'', optional JStr (rp_previous_release_id pointers)),
             (''retention'', retention)]
            (facts True (Some False) False) None) (\<lambda>operation.
     ret \<lparr>dr_release = release, dr_operation = operation\<rparr>))))"

section \<open>Errors\<close>

definition normalize_deployment_error ::
  "deploy_env \<Rightarrow> 'w deploy_context \<Rightarrow> exn \<Rightarrow> dploydb_error option" where
  "normalize_deployment_error env s x =
    (let changed = cx_production_may_have_changed s;
         unless_stopped = (if cx_stopped s \<noteq> None then Some False else None)
     in case x of
       Dploy e \<Rightarrow> Some
         (if changed \<and> \<not> err_changed e
          then mk_error (de_class e) (err_what e) True (Some False)
                 (case fp_log_path (de_payload e) of None \<Rightarrow> Some (dx_operation_log env) | Some p \<Rightarrow> Some p)
                 (fp_next_safe_action (de_payload e))
          else e)
     | ProductionStartError text proven \<Rightarrow> Some (deploy_error env
         (if proven = Some True then OperationFailedError else RecoveryRequiredError)
         text True (Some False)
         (''Keep maintenance enabled and inspect the operation-labeled new release '' @
          ''before database rollback.''))
     | ProductionCleanupError text \<Rightarrow> Some (deploy_error env RecoveryRequiredError text changed
         (Some False) ''Keep traffic blocked and inspect the failed new release.'')
     | ProductionInspectionError text \<Rightarrow> Some (deploy_error env RecoveryRequiredError text changed
         None ''Preserve the contradictory container inspection evidence.'')
     | ProductionRunnerError text cleanup_failed \<Rightarrow> Some (deploy_error env
         (if cleanup_failed then RecoveryRequiredError else OperationFailedError)
         text changed unless_stopped
         ''Keep maintenance enabled and inspect the recorded container state.'')
     | ReadinessCheckError reason \<Rightarrow> Some (deploy_error env OperationFailedError reason changed
         (Some False) ''Keep traffic blocked and roll back the checked release.'')
     | SmokeCheckError text proven \<Rightarrow> Some (deploy_error env
         (if proven then OperationFailedError else RecoveryRequiredError) text changed (Some False)
         ''Keep traffic blocked and inspect smoke-command cleanup evidence.'')
     | PyInterrupt _ \<Rightarrow> None
     | PyException _ _ \<Rightarrow> Some (deploy_error env RecoveryRequiredError
         (''unexpected deployment boundary failure: '' @ dx_redact env (describe_exn x)) changed
         unless_stopped ''Preserve all evidence and inspect production before recovery.''))"

definition finish_failed_before_rollback ::
  "deploy_env \<Rightarrow> 'w deploy_ops \<Rightarrow> dploydb_error \<Rightarrow> ('w, unit) deploy_act" where
  "finish_failed_before_rollback env ops e =
    (let st = (if err_recovery e then DS_recovery_required else DS_failed_safe);
         ost = (if err_recovery e then OS_recovery_required else OS_failed_safe)
     in bnd (lift_result (failure_record_of e)) (\<lambda>failure.
        andthen (release_step env ops st
          (no_changes\<lparr>ch_production_changed := Some (err_changed e), ch_traffic_activated := Some False,
             ch_failure := Some (Some failure)\<rparr>))
       (andthen (operation_step env ops ost (deployment_state_value st)
          ''Deployment stopped before a cutover rollback was required.'' []
          (facts (err_changed e) (err_running e) (err_recovery e)) (Some failure))
        (ret ()))))"

definition finish_recovery_required ::
  "deploy_env \<Rightarrow> 'w deploy_ops \<Rightarrow> dploydb_error \<Rightarrow> ('w, unit) deploy_act" where
  "finish_recovery_required env ops e =
     bnd (lift_result (failure_record_of e)) (\<lambda>failure.
     bnd (fetch (\<lambda>s. (err_changed e \<or> cx_production_may_have_changed s, cx_traffic_activated s)))
       (\<lambda>(changed, activated).
     andthen (on_exception
       (bnd (perform S_read_release (do_read_release ops (dx_release_id env))) (\<lambda>m.
        if rm_status m \<notin> terminal_states
        then andthen (release_step env ops DS_recovery_required
               (no_changes\<lparr>ch_production_changed := Some changed, ch_traffic_activated := Some activated,
                  ch_failure := Some (Some failure)\<rparr>)) (ret ())
        else ret ()))
       (\<lambda>_. ret ()))
     (on_exception
       (bnd (perform S_read_operation (do_read_operation ops (dx_operation_id env))) (\<lambda>m.
        if om_status m = OS_in_progress
        then andthen (operation_step env ops OS_recovery_required ''recovery_required''
               ''Deployment state requires manual recovery.'' []
               (facts changed (err_running e) True) (Some failure)) (ret ())
        else ret ()))
       (\<lambda>_. ret ()))))"

definition finish_operation_without_release ::
  "deploy_env \<Rightarrow> 'w deploy_ops \<Rightarrow> dploydb_error \<Rightarrow> ('w, unit) deploy_act" where
  "finish_operation_without_release env ops e =
     bnd (perform S_read_operation (do_read_operation ops (dx_operation_id env))) (\<lambda>m.
     if om_status m \<noteq> OS_in_progress then ret ()
     else let ost = (if err_recovery e then OS_recovery_required else OS_failed_safe)
       in bnd (lift_result (failure_record_of e)) (\<lambda>failure.
          andthen (operation_step env ops ost (operation_status_value ost)
            ''Deployment failed before its release manifest was created.'' []
            (facts (err_changed e) (err_running e) (err_recovery e)) (Some failure))
          (ret ())))"

section \<open>Rollback\<close>

definition restore_step :: "deploy_env \<Rightarrow> 'w deploy_ops \<Rightarrow> ('w, unit) deploy_act" where
  "restore_step env ops =
     bnd (fetch (\<lambda>s. s)) (\<lambda>s.
     if \<not> cx_production_may_have_changed s then ret ()
     else case (cx_stopped s, cx_final_backup s) of
       (Some stopped, Some final) \<Rightarrow>
         bnd (perform S_restore (do_restore ops (dx_operation_id env) stopped final (cx_traffic_activated s)))
           (\<lambda>r. append_deploy_event env ops
             ''The verified final backup was restored before traffic activation.''
             [(''database_restore'', restore_proof_json (dx_utc env) r)])
     | _ \<Rightarrow> raise (Dploy (deploy_error env RecoveryRequiredError
         ''database rollback prerequisites are incomplete'' True (Some False)
         (''Keep every application and traffic path blocked; inspect the final '' @
          ''backup and stopped-container evidence manually.''))))"

definition cleanup_step :: "deploy_env \<Rightarrow> 'w deploy_ops \<Rightarrow> ('w, unit) deploy_act" where
  "cleanup_step env ops =
     bnd (fetch cx_new_application) (\<lambda>new. case new of
       None \<Rightarrow> ret ()
     | Some h \<Rightarrow> bnd (perform S_remove_new (do_remove_new ops h)) (\<lambda>c.
         append_deploy_event env ops ''Failed new-release application cleanup was proven.''
           [(''production_cleanup'', cleanup_evidence c)]))"

definition rollback_hook :: "deploy_env \<Rightarrow> 'w deploy_ops \<Rightarrow> traffic_action \<Rightarrow> ('w, unit) deploy_act" where
  "rollback_hook env ops a =
     bnd (call_hook ops a) (\<lambda>h.
     andthen (record_hook env ops h)
    (bnd (fetch cx_production_may_have_changed) (\<lambda>changed.
     if \<not> hook_passed h then raise_hook_error env h changed True else ret ())))"

definition resume_previous ::
  "deploy_env \<Rightarrow> 'w deploy_ops \<Rightarrow> dploydb_error \<Rightarrow> bool \<Rightarrow> ('w, deployment_result) deploy_act" where
  "resume_previous env ops original changed =
     bnd (fetch cx_previous) (\<lambda>previous. case previous of
       None \<Rightarrow> raise (Dploy (deploy_error env RecoveryRequiredError
         ''the exact previous application identity is unavailable for rollback'' changed None
         ''Keep maintenance enabled and inspect production manually.''))
     | Some p \<Rightarrow>
       bnd (perform S_restart_previous (do_restart_previous ops p)) (\<lambda>restarted.
       andthen (append_deploy_event env ops
         ''The exact previous application was restarted and inspected.''
         [(''previous_restart'', restart_evidence restarted)])
      (andthen (rollback_hook env ops TA_activate_old)
      (andthen (rollback_hook env ops TA_disable_maintenance)
      (andthen (modify (\<lambda>s. s\<lparr>cx_maintenance_enabled := False\<rparr>))
      (bnd (verify_previous env ops) (\<lambda>verification.
       bnd (lift_result (failure_record_of original)) (\<lambda>failure.
       bnd (release_step env ops DS_rolled_back
         (no_changes\<lparr>ch_production_changed := Some changed, ch_traffic_activated := Some False,
            ch_failure := Some (Some failure)\<rparr>)) (\<lambda>release.
       bnd (operation_step env ops OS_failed_safe ''rolled_back''
         ''The previous application and database were restored and verified.''
         [(''rollback_verification'', JObj verification)]
         (facts changed (Some True) False) (Some failure)) (\<lambda>operation.
       ret \<lparr>dr_release = release, dr_operation = operation\<rparr>))))))))))"

definition rollback_steps ::
  "deploy_env \<Rightarrow> 'w deploy_ops \<Rightarrow> dploydb_error \<Rightarrow> ('w, deployment_result) deploy_act" where
  "rollback_steps env ops original =
     bnd (fetch cx_production_may_have_changed) (\<lambda>changed.
     andthen (persist_stage env ops DS_rollback_started
       ''Pre-traffic rollback started after deployment failure.''
       [(''original_failure'', payload_json (de_payload original))]
       (facts changed (Some False) False) (no_changes\<lparr>ch_production_changed := Some changed\<rparr>))
    (andthen (cleanup_step env ops)
    (andthen (restore_step env ops)
       (resume_previous env ops original changed))))"

definition run_rollback ::
  "deploy_env \<Rightarrow> 'w deploy_ops \<Rightarrow> dploydb_error \<Rightarrow> ('w, deployment_result) deploy_act" where
  "run_rollback env ops original =
     catching (rollback_steps env ops original) (\<lambda>x.
     bnd (fetch (\<lambda>s. s)) (\<lambda>s.
     case normalize_deployment_error env s x of
       None \<Rightarrow> raise x
     | Some e \<Rightarrow>
       (let recovery = deploy_error env RecoveryRequiredError
          (''pre-traffic rollback could not be proven: '' @ err_what e @
           ''; original deployment failure: '' @ err_what original)
          (cx_production_may_have_changed s) (Some False)
          (''Keep traffic blocked. Preserve all evidence and manually verify the database, '' @
           ''previous container, old target, and maintenance state.'')
        in andthen (finish_recovery_required env ops recovery) (raise (Dploy recovery)))))"

section \<open>The sequence\<close>

text \<open>\<^verbatim>\<open>_release_stage_observer\<close>, called by the rehearsal stage with its progress.\<close>

definition observe_stage ::
  "deploy_env \<Rightarrow> 'w deploy_ops \<Rightarrow> hook_evidence list \<Rightarrow> health_evidence list \<Rightarrow> deployment_state \<Rightarrow>
   evidence \<Rightarrow> ('w, unit) world_act"
where
  "observe_stage env ops hooks health st evidence =
    (let advance_to = (\<lambda>changes. andthen (do_release_transition ops (dx_release_id env) st
           (changes\<lparr>ch_traffic_hooks := Some hooks, ch_health_checks := Some health\<rparr>)) (ret ()))
     in if st = DS_snapshot_verified
        then case (json_get evidence ''backup_id'', json_get evidence ''sha256'') of
          (Some (JStr b), Some (JStr h)) \<Rightarrow>
            advance_to (no_changes\<lparr>ch_rehearsal_backup_id := Some (Some b),
              ch_rehearsal_backup_sha256 := Some (Some h)\<rparr>)
        | _ \<Rightarrow> raise (Dploy (deploy_error env RecoveryRequiredError
            ''candidate snapshot evidence is incomplete for the release manifest'' False None
            ''Preserve the operation evidence and inspect the backup.''))
        else advance_to no_changes)"

definition rehearse_stage :: "deploy_env \<Rightarrow> 'w deploy_ops \<Rightarrow> ('w, unit) deploy_act" where
  "rehearse_stage env ops =
     bnd (fetch (\<lambda>s. (cx_hook_evidence s, cx_health_evidence s))) (\<lambda>(hooks, health).
     bnd (perform S_pre_cutover (do_pre_cutover ops (observe_stage env ops hooks health))) (\<lambda>candidate.
     append_deploy_event env ops
       ''Caller-owned candidate stage returned complete passing evidence.''
       [(''candidate_stage'', candidate)]))"

definition fault_point :: "'w deploy_ops \<Rightarrow> string \<Rightarrow> ('w, unit) deploy_act" where
  "fault_point ops name = perform S_fault_point (do_inject ops name)"

definition stop_stage :: "deploy_env \<Rightarrow> 'w deploy_ops \<Rightarrow> ('w, production_stop) deploy_act" where
  "stop_stage env ops =
     andthen (fault_point ops ''after_maintenance_enabled'')
    (bnd the_previous (\<lambda>previous.
     bnd (perform S_stop (do_stop_current ops previous)) (\<lambda>stopped.
     andthen (modify (\<lambda>s. s\<lparr>cx_stopped := Some stopped\<rparr>))
    (andthen (persist_stage env ops DS_current_app_stopped
       ''The exact previous application was stopped and inspected.''
       [(''production_stop'', stop_evidence stopped)] (facts False (Some False) False)
       (no_changes\<lparr>ch_previous_application := Some (Some previous)\<rparr>))
    (andthen (fault_point ops ''after_current_app_stopped'')
     (ret stopped))))))"

definition backup_stage ::
  "deploy_env \<Rightarrow> 'w deploy_ops \<Rightarrow> production_stop \<Rightarrow> ('w, backup_artifact) deploy_act" where
  "backup_stage env ops stopped =
     bnd (perform S_create_final (do_create_final ops (dx_operation_id env) stopped)) (\<lambda>final.
     andthen (modify (\<lambda>s. s\<lparr>cx_final_backup := Some final\<rparr>))
    (andthen (persist_stage env ops DS_final_snapshot_verified
       ''The stopped-writer final backup was created and reverified.''
       [(''final_backup'', backup_evidence (dx_utc env) final)] (facts False (Some False) False)
       (no_changes\<lparr>ch_final_backup_id := Some (Some (bm_backup_id (ba_metadata final))),
          ch_final_backup_sha256 := Some (Some (bm_sha256 (ba_metadata final)))\<rparr>))
    (andthen (replicate_final_backup env ops final)
     (ret final))))"

definition migrate_stage ::
  "deploy_env \<Rightarrow> 'w deploy_ops \<Rightarrow> production_stop \<Rightarrow> backup_artifact \<Rightarrow> ('w, unit) deploy_act" where
  "migrate_stage env ops stopped final =
    (let record_migration = (\<lambda>evidence. andthen (do_append_event ops (dx_operation_id env)
           ''Production migration command reached a terminal outcome.''
           [(''production_migration_command'', command_as_evidence evidence)]) (ret ()))
     in andthen (modify (\<lambda>s. s\<lparr>cx_production_may_have_changed := True\<rparr>))
       (andthen (perform (S_intent True False) (do_record_intent ops (dx_release_id env) True False))
       (andthen (operation_step env ops OS_in_progress ''production_migration_started''
          ''Production migration is about to start; production may change.''
          [(''final_backup_id'', JStr (bm_backup_id (ba_metadata final)))]
          (facts True (Some False) False) None)
       (bnd (fetch cx_traffic_activated) (\<lambda>activated.
        bnd (perform S_migrate (do_migrate ops (dx_operation_id env) stopped final activated
               record_migration (dx_operation_log env))) (\<lambda>migrated.
        andthen (persist_stage env ops DS_production_migrated
          ''Production migration and SQLite checks passed.''
          [(''production_migration'', migration_result_json (dx_utc env) migrated)]
          (facts True (Some False) False) (no_changes\<lparr>ch_production_changed := Some True\<rparr>))
        (fault_point ops ''after_production_migrated'')))))))"

definition require_complete_logs :: "deploy_env \<Rightarrow> production_logs \<Rightarrow> unit result" where
  "require_complete_logs env l =
    (let c = pl_command l
     in ensure (command_succeeded c \<and> \<not> co_truncated (cr_stdout c) \<and> \<not> co_truncated (cr_stderr c))
          (Dploy (deploy_error env
             (if cr_outcome c = CO_cleanup_failed then RecoveryRequiredError else OperationFailedError)
             ''new production application logs were not captured completely'' True (Some False)
             ''Keep traffic blocked and inspect the new application directly.'')))"

definition check_stage :: "deploy_env \<Rightarrow> 'w deploy_ops \<Rightarrow> production_start \<Rightarrow> ('w, unit) deploy_act" where
  "check_stage env ops started =
     andthen (append_deploy_event env ops
       ''The new production application started with validated identity.''
       [(''production_start'', start_evidence started)])
    (bnd (perform S_logs (do_collect_logs ops (pt_handle started))) (\<lambda>logs.
     andthen (lift_result (require_complete_logs env logs))
    (bnd (perform S_check_database (do_verify_sqlite ops)) (\<lambda>database.
     bnd (perform S_check_health (do_check_application ops (dx_version env))) (\<lambda>health.
     bnd (lift_result (health_summary health HR_new (dx_version env))) (\<lambda>e.
     andthen (modify (\<lambda>s. s\<lparr>cx_health_evidence := cx_health_evidence s @ [e]\<rparr>))
    (persist_stage env ops DS_new_app_healthy
       ''Final production database, logs, HTTP, and smoke checks passed.''
       [(''production_logs'', command_as_evidence (pl_command logs)),
        (''database'', sqlite_json (dx_utc env) database),
        (''application_health'', health_as_evidence health)]
       (facts True (Some False) False)
       (no_changes\<lparr>ch_new_application := Some (Some (pt_handle started)),
          ch_production_health_passed := Some True, ch_production_changed := Some True\<rparr>))))))))"

definition start_stage :: "deploy_env \<Rightarrow> 'w deploy_ops \<Rightarrow> ('w, unit) deploy_act" where
  "start_stage env ops =
     bnd (perform S_start_new (do_start_new ops)) (\<lambda>started.
     andthen (modify (\<lambda>s. s\<lparr>cx_new_application := Some (pt_handle started)\<rparr>))
       (check_stage env ops started))"

definition deployment_steps :: "deploy_env \<Rightarrow> 'w deploy_ops \<Rightarrow> ('w, deployment_result) deploy_act" where
  "deployment_steps env ops =
     andthen (rehearse_stage env ops)
    (andthen (resolve_previous env ops)
    (andthen (enable_maintenance env ops)
    (bnd (stop_stage env ops) (\<lambda>stopped.
     bnd (backup_stage env ops stopped) (\<lambda>final.
     andthen (migrate_stage env ops stopped final)
    (andthen (start_stage env ops)
    (andthen (activate_new_traffic env ops)
    (andthen (disable_maintenance_after_activation env ops)
     (complete_active env ops)))))))))"

text \<open>\<^verbatim>\<open>_run_deployment\<close>: the sequence, and what becomes of a failure.\<close>

definition handle_failure ::
  "deploy_env \<Rightarrow> 'w deploy_ops \<Rightarrow> exn \<Rightarrow> ('w, deployment_result) deploy_act" where
  "handle_failure env ops x =
     bnd (fetch (\<lambda>s. s)) (\<lambda>s.
     case normalize_deployment_error env s x of
       None \<Rightarrow> raise x
     | Some e \<Rightarrow>
        if err_recovery e \<or> cx_traffic_activated s
        then andthen (finish_recovery_required env ops e) (raise (Dploy e))
        else if cx_traffic_activation_attempted s
        then (let uncertain = deploy_error env RecoveryRequiredError
                (''new-traffic activation was attempted without proof of a safe routing state: '' @ err_what e)
                True (Some False)
                (''Do not restore the database. Keep the checked new application available '' @
                 ''and determine the live traffic target before recovery.'')
              in andthen (finish_recovery_required env ops uncertain) (raise (Dploy uncertain)))
        else if cx_maintenance_enabled s then run_rollback env ops e
        else andthen (finish_failed_before_rollback env ops e) (raise (Dploy e)))"

definition run_deployment :: "deploy_env \<Rightarrow> 'w deploy_ops \<Rightarrow> ('w, deployment_result) deploy_act" where
  "run_deployment env ops = catching (deployment_steps env ops) (handle_failure env ops)"

section \<open>The entry point\<close>

definition fresh_context :: "application_handle option \<Rightarrow> 'w \<Rightarrow> 'w deploy_context" where
  "fresh_context previous w =
     \<lparr>cx_previous = previous, cx_stopped = None, cx_final_backup = None, cx_new_application = None,
      cx_maintenance_enabled = False, cx_production_may_have_changed = False,
      cx_traffic_activation_attempted = False, cx_traffic_activated = False,
      cx_hook_evidence = [], cx_health_evidence = [], cx_trace = [], cx_world = w\<rparr>"

definition in_fresh_context ::
  "application_handle option \<Rightarrow> ('w, 'a) deploy_act \<Rightarrow> ('w, 'a) world_act" where
  "in_fresh_context previous m w =
    (case m (fresh_context previous w) of (r, s) \<Rightarrow> (r, cx_world s))"

text \<open>\<^verbatim>\<open>try: ... finally: ...\<close>\<close>

definition finally_act :: "('s, 'e, 'a) act \<Rightarrow> ('s, 'e, unit) act \<Rightarrow> ('s, 'e, 'a) act" where
  "finally_act m c s = (case m s of (r, t) \<Rightarrow>
     (case c t of (Inl e, u) \<Rightarrow> (Inl e, u) | (Inr _, u) \<Rightarrow> (r, u)))"

record 'w deploy_entry =
  dn_topology :: "unit result"
  dn_lock :: "('w, unit) world_act"
  dn_unlock :: "('w, unit) world_act"
  dn_require_clean :: "('w, unit) world_act"
  dn_create_operation :: "evidence \<Rightarrow> ('w, operation_manifest) world_act"
  dn_record_owner :: "string \<Rightarrow> ('w, unit) world_act"
  dn_operation_log :: "string \<Rightarrow> string"
  dn_database_path :: string
  dn_dependencies :: "('w, 'w deploy_ops) world_act"
  dn_active_release :: "('w, release_manifest option) world_act"
  dn_create_release :: "string \<Rightarrow> string \<Rightarrow> string \<Rightarrow> application_handle option \<Rightarrow> ('w, release_manifest) world_act"
  dn_close :: "('w, unit) world_act"
  dn_stores :: "'w deploy_ops"
  dn_redact :: "string \<Rightarrow> string"
  dn_utc :: "int \<Rightarrow> string"
  dn_remote_required :: bool

definition unexpected_failure :: "'w deploy_entry \<Rightarrow> string \<Rightarrow> exn \<Rightarrow> dploydb_error" where
  "unexpected_failure entry log_path x = mk_error RecoveryRequiredError
     (''deployment coordinator failed unexpectedly: '' @ dn_redact entry (describe_exn x))
     False None (Some log_path)
     (''Preserve the operation and release evidence; inspect production before '' @
      ''taking any recovery action.'')"

definition prepare_release ::
  "'w deploy_entry \<Rightarrow> string \<Rightarrow> string \<Rightarrow> ('w, 'w deploy_ops \<times> release_manifest option \<times> release_manifest) world_act"
where
  "prepare_release entry version i =
     bnd (dn_dependencies entry) (\<lambda>ops.
     bnd (dn_active_release entry) (\<lambda>active.
     bnd (dn_create_release entry i version (dn_operation_log entry i)
            (case active of None \<Rightarrow> None | Some m \<Rightarrow> rm_new_application m)) (\<lambda>release.
     ret (ops, active, release))))"

definition deploy_configured_release ::
  "'w deploy_entry \<Rightarrow> string \<Rightarrow> ('w, deployment_result) world_act" where
  "deploy_configured_release entry version =
     bnd (lift_result (validated_release_identifier version)) (\<lambda>v.
     andthen (lift_result (dn_topology entry))
    (andthen (dn_lock entry) (finally_act
      (andthen (dn_require_clean entry)
      (bnd (dn_create_operation entry
             [(''database_path'', JStr (dn_database_path entry)), (''requested_version'', JStr v)])
        (\<lambda>operation. let i = om_operation_id operation; log_path = dn_operation_log entry i;
           env = (\<lambda>r. \<lparr>dx_version = v, dx_operation_id = i, dx_release_id = r,
             dx_operation_log = log_path, dx_redact = dn_redact entry, dx_utc = dn_utc entry,
             dx_remote_required = dn_remote_required entry\<rparr>);
           abandon = (\<lambda>e. andthen (in_fresh_context None
             (finish_operation_without_release (env '''') (dn_stores entry) e)) (raise (Dploy e)))
         in andthen (dn_record_owner entry i) (finally_act
           (bnd (catching (prepare_release entry v i) (\<lambda>x. case x of
                   Dploy e \<Rightarrow> abandon e
                 | PyInterrupt _ \<Rightarrow> raise x
                 | _ \<Rightarrow> abandon (unexpected_failure entry log_path x)))
             (\<lambda>(ops, active, release).
              catching
                (in_fresh_context (case active of None \<Rightarrow> None | Some m \<Rightarrow> rm_new_application m)
                   (run_deployment (env (rm_release_id release)) ops))
                (\<lambda>x. case x of
                   Dploy e \<Rightarrow> raise x
                 | PyInterrupt _ \<Rightarrow> raise x
                 | _ \<Rightarrow> raise (Dploy (unexpected_failure entry log_path x)))))
           (dn_close entry)))))
      (dn_unlock entry))))"

end
