(* ===== verification/Deploy_Order.thy ===== *)
theory Deploy_Order
  imports Deploy
begin

text \<open>
  The order in which the deployment coordinator makes its critical calls, for every behaviour of
  the stores and dependencies: a run makes a prefix of one protocol, and after a failure only
  calls of the rollback.
\<close>

section \<open>Critical calls\<close>

fun critical_step :: "step \<Rightarrow> bool" where
  "critical_step (S_hook a) \<longleftrightarrow> a = TA_activate_new \<or> a = TA_activate_old"
| "critical_step (S_operation st stage) \<longleftrightarrow>
     stage \<in> {''production_migration_started'', ''traffic_activation_started''}"
| "critical_step (S_release st) \<longleftrightarrow>
     st \<in> {DS_maintenance_enabled, DS_current_app_stopped, DS_final_snapshot_verified,
           DS_production_migrated, DS_new_app_healthy, DS_traffic_activated, DS_active}"
| "critical_step (S_intent m a) \<longleftrightarrow> True"
| "critical_step st \<longleftrightarrow>
     st \<in> {S_pre_cutover, S_stop, S_create_final, S_replicate, S_migrate, S_start_new, S_remove_new,
           S_restore, S_restart_previous, S_activate_pointers}"

fun critical :: "trace_event \<Rightarrow> bool" where
  "critical (Began st) \<longleftrightarrow> critical_step st"
| "critical (Done st) \<longleftrightarrow> critical_step st"
| "critical (Hook_ended h) \<longleftrightarrow> False"

definition crit :: "'w deploy_context \<Rightarrow> trace_event list" where
  "crit s = filter critical (rev (cx_trace s))"

definition calls :: "step list \<Rightarrow> trace_event list" where
  "calls sts = concat (map (\<lambda>st. [Began st, Done st]) sts)"

text \<open>The protocol of a deployment.\<close>

definition maintenance_protocol :: "step list" where
  "maintenance_protocol = [S_pre_cutover, S_release DS_maintenance_enabled]"

definition backup_protocol :: "bool \<Rightarrow> step list" where
  "backup_protocol remote =
     [S_stop, S_release DS_current_app_stopped, S_create_final, S_release DS_final_snapshot_verified] @
     (if remote then [S_replicate] else [])"

definition migration_protocol :: "step list" where
  "migration_protocol =
     [S_intent True False, S_operation OS_in_progress ''production_migration_started'', S_migrate,
      S_release DS_production_migrated]"

definition start_protocol :: "step list" where
  "start_protocol = [S_start_new, S_release DS_new_app_healthy]"

definition activation_protocol :: "step list" where
  "activation_protocol =
     [S_intent False True, S_operation OS_in_progress ''traffic_activation_started'',
      S_hook TA_activate_new, S_release DS_traffic_activated]"

definition deployment_protocol :: "bool \<Rightarrow> step list" where
  "deployment_protocol remote =
     maintenance_protocol @ backup_protocol remote @ migration_protocol @ start_protocol @
     activation_protocol @ [S_release DS_active, S_activate_pointers]"

definition rollback_calls :: "trace_event set" where
  "rollback_calls = (\<Union>st \<in> {S_remove_new, S_restore, S_restart_previous, S_hook TA_activate_old}.
     {Began st, Done st})"

section \<open>Events of the parts\<close>

lemma calls_simps [simp]: "calls [] = []" "calls (st # sts) = Began st # Done st # calls sts"
  "calls (xs @ ys) = calls xs @ calls ys"
  by (simp_all add: calls_def)

lemma crit_trace: "emits crit (if critical e then [e] else []) (trace e)"
  by (rule emitsI) (auto simp: trace_def modify_def crit_def)

lemma crit_world [emitting]: "emits crit [] (in_world m)"
  by (rule emits_nilI) (auto simp: in_world_def crit_def split: prod.splits)

lemma crit_perform: "emits crit (if critical_step st then calls [st] else []) (perform st m)"
proof -
  have "emits crit ((if critical_step st then [Began st] else []) @ [] @ (if critical_step st then [Done st] else []) @ [])
      (perform st m)"
    unfolding perform_def using crit_trace [of "Began st"] crit_trace [of "Done st"]
    by (intro emits_andthen emits_bnd crit_world emits_pure) simp_all
  then show ?thesis by (simp split: if_splits)
qed

lemma crit_perform_off: "\<not> critical_step st \<Longrightarrow> emits crit [] (perform st m)"
  using crit_perform [of st m] by simp

lemma crit_perform_on: "critical_step st \<Longrightarrow> emits crit (calls [st]) (perform st m)"
  using crit_perform [of st m] by simp

lemma crit_modify: "(\<And>s. cx_trace (f s) = cx_trace s) \<Longrightarrow> emits crit [] (modify f)"
  by (rule emits_modify) (simp add: crit_def)

lemma crit_event [emitting]: "emits crit [] (append_deploy_event env ops msg ev)"
  unfolding append_deploy_event_def by (intro emits_andthen_nil crit_perform_off emitting) simp

lemma crit_operation: "emits crit (if critical_step (S_operation st stage) then calls [S_operation st stage] else [])
    (operation_step env ops st stage msg ev sf fl)"
  unfolding operation_step_def by (rule crit_perform)

lemma crit_release: "emits crit (if critical_step (S_release st) then calls [S_release st] else [])
    (release_step env ops st ch)"
  unfolding release_step_def by (intro emits_bnd_nil emitting crit_perform)

lemma stage_value_plain:
  "deployment_state_value st \<noteq> ''production_migration_started''"
  "deployment_state_value st \<noteq> ''traffic_activation_started''"
  by (cases st; simp)+

lemma crit_persist: "emits crit (if critical_step (S_release st) then calls [S_release st] else [])
    (persist_stage env ops st msg ev sf ch)"
proof -
  have "emits crit [] (operation_step env ops OS_in_progress (deployment_state_value st) msg ev sf None)"
    using crit_operation [of OS_in_progress "deployment_state_value st"] by (simp add: stage_value_plain)
  then show ?thesis
    unfolding persist_stage_def
    by (intro emits_bnd_nil emitting emits_andthen_nil emits_andthen_last crit_perform)
qed

lemma crit_call_hook: "emits crit (if critical_step (S_hook a) then calls [S_hook a] else []) (call_hook ops a)"
proof -
  have "emits crit [] (trace (Hook_ended h))" for h :: hook_result
    using crit_trace [of "Hook_ended h"] by simp
  then show ?thesis
    unfolding call_hook_def Let_def
    by (intro emits_bnd_last crit_perform emits_andthen_nil emitting)
qed

lemma crit_record_hook [emitting]: "emits crit [] (record_hook env ops h)"
  unfolding record_hook_def by (intro emits_bnd_nil emits_andthen_nil emitting crit_modify) simp

lemma crit_hook_error [emitting]: "emits crit seg (raise_hook_error env h c r)"
  unfolding raise_hook_error_def by (intro emits_bnd_nil emitting)

lemma crit_the_previous [emitting]: "emits crit [] the_previous"
  unfolding the_previous_def by (intro emits_bnd_nil emitting)

lemma crit_fault_point [emitting]: "emits crit [] (fault_point ops name)"
  unfolding fault_point_def by (rule crit_perform_off) simp

lemma crit_verify_previous [emitting]: "emits crit [] (verify_previous env ops)"
  unfolding verify_previous_def Let_def
  by (intro emits_bnd_nil emits_andthen_nil emitting crit_perform_off crit_modify) simp_all

lemma crit_resolve_previous [emitting]: "emits crit [] (resolve_previous env ops)"
  unfolding resolve_previous_def
  by (intro emits_bnd_nil emits_andthen_nil emitting crit_perform_off crit_modify) simp_all

lemma crit_hook_off [emitting]:
  "\<not> critical_step (S_hook a) \<Longrightarrow> emits crit [] (call_hook ops a)"
  using crit_call_hook [of a ops] by simp

lemma crit_persist_on: "critical_step (S_release st) \<Longrightarrow> emits crit (calls [S_release st]) (persist_stage env ops st msg ev sf ch)"
  using crit_persist [of st env ops] by simp

lemma crit_enable_maintenance:
  "emits crit (calls [S_release DS_maintenance_enabled]) (enable_maintenance env ops)"
  unfolding enable_maintenance_def
  by (intro emits_bnd_nil emits_andthen_nil emits_if crit_hook_off crit_record_hook crit_persist_on
      crit_modify crit_the_previous crit_verify_previous emits_raise emits_pure) simp_all

lemma crit_rehearse: "emits crit (calls [S_pre_cutover]) (rehearse_stage env ops)"
  unfolding rehearse_stage_def
  by (intro emits_bnd_nil emits_pure emits_prod emits_bnd_last crit_perform_on crit_event) simp

lemma crit_stop: "emits crit (calls [S_stop, S_release DS_current_app_stopped]) (stop_stage env ops)"
proof -
  have "emits crit (calls [S_stop] @ calls [S_release DS_current_app_stopped]) (stop_stage env ops)"
    unfolding stop_stage_def
    by (intro emits_andthen_nil crit_fault_point emits_bnd_nil crit_the_previous emits_bnd crit_perform_on
        emits_andthen_last crit_persist_on crit_modify emits_pure) simp_all
  then show ?thesis by simp
qed

lemma crit_replicate:
  "emits crit (if dx_remote_required env then calls [S_replicate] else []) (replicate_final_backup env ops final)"
  unfolding replicate_final_backup_def
  by (cases "dx_remote_required env"; simp only: simp_thms if_True if_False)
    (intro emits_option emits_raise emits_bnd_last crit_perform_on emits_if emits_andthen_nil crit_event
      crit_perform_off emits_pure; simp)+

lemma crit_backup: "emits crit (calls (drop 2 (backup_protocol (dx_remote_required env)))) (backup_stage env ops stopped)"
proof -
  have "emits crit (calls [S_create_final] @ calls [S_release DS_final_snapshot_verified] @
      (if dx_remote_required env then calls [S_replicate] else [])) (backup_stage env ops stopped)"
    unfolding backup_stage_def
    by (intro emits_bnd crit_perform_on emits_andthen_nil [OF crit_modify] emits_andthen [OF crit_persist_on]
        emits_andthen_last crit_replicate emits_pure) simp_all
  then show ?thesis by (cases "dx_remote_required env") (simp_all add: backup_protocol_def)
qed

lemma crit_migrate: "emits crit (calls migration_protocol) (migrate_stage env ops stopped final)"
proof -
  have started: "emits crit (calls [S_operation OS_in_progress ''production_migration_started''])
      (operation_step env ops OS_in_progress ''production_migration_started'' msg ev sf fl)" for msg ev sf fl
    using crit_operation [of OS_in_progress "''production_migration_started''"] by simp
  have "emits crit (calls [S_intent True False] @
      calls [S_operation OS_in_progress ''production_migration_started''] @ calls [S_migrate] @
      calls [S_release DS_production_migrated]) (migrate_stage env ops stopped final)"
    unfolding migrate_stage_def Let_def
    by (intro emits_andthen_nil [OF crit_modify] emits_andthen [OF crit_perform_on] emits_andthen [OF started]
        emits_bnd_nil emits_pure emits_bnd [OF crit_perform_on] emits_andthen_last crit_persist_on
        crit_fault_point) simp_all
  then show ?thesis by (simp add: migration_protocol_def)
qed

lemma crit_check: "emits crit (calls [S_release DS_new_app_healthy]) (check_stage env ops started)"
  unfolding check_stage_def
  by (intro emits_andthen_nil emits_bnd_nil crit_modify crit_event crit_perform_off emits_pure crit_persist_on)
    simp_all

lemma crit_start: "emits crit (calls start_protocol) (start_stage env ops)"
proof -
  have "emits crit (calls [S_start_new] @ calls [S_release DS_new_app_healthy]) (start_stage env ops)"
    unfolding start_stage_def
    by (intro emits_bnd [OF crit_perform_on] emits_andthen_nil crit_modify crit_check) simp_all
  then show ?thesis by (simp add: start_protocol_def)
qed

lemma crit_activate: "emits crit (calls activation_protocol) (activate_new_traffic env ops)"
proof -
  have started: "emits crit (calls [S_operation OS_in_progress ''traffic_activation_started''])
      (operation_step env ops OS_in_progress ''traffic_activation_started'' msg ev sf fl)" for msg ev sf fl
    using crit_operation [of OS_in_progress "''traffic_activation_started''"] by simp
  have hook: "emits crit (calls [S_hook TA_activate_new]) (call_hook ops TA_activate_new)"
    using crit_call_hook [of TA_activate_new ops] by simp
  have "emits crit (calls [S_intent False True] @
      calls [S_operation OS_in_progress ''traffic_activation_started''] @ calls [S_hook TA_activate_new] @
      calls [S_release DS_traffic_activated]) (activate_new_traffic env ops)"
    unfolding activate_new_traffic_def
    by (intro emits_andthen_nil [OF crit_modify] emits_andthen [OF crit_perform_on] emits_andthen [OF started]
        emits_bnd [OF hook] emits_andthen_nil [OF crit_record_hook] emits_if crit_hook_error crit_persist_on) simp_all
  then show ?thesis by (simp add: activation_protocol_def)
qed

lemma crit_disable [emitting]: "emits crit [] (disable_maintenance_after_activation env ops)"
  unfolding disable_maintenance_after_activation_def
  by (intro emits_bnd_nil emits_andthen_nil emits_if crit_hook_off crit_record_hook crit_modify emits_raise) simp_all

lemma crit_retention [emitting]: "emits crit [] (post_activation_retention env ops)"
  unfolding post_activation_retention_def Let_def
  by (intro emits_option emits_pure emits_exn_catch emits_bnd_nil crit_perform_off emits_andthen_nil crit_event)
    (auto split: exn.split intro!: emits_andthen_nil crit_event emits_pure)

lemma crit_complete: "emits crit (calls [S_release DS_active, S_activate_pointers]) (complete_active env ops)"
proof -
  have release: "emits crit (calls [S_release DS_active]) (release_step env ops DS_active ch)" for ch
    using crit_release [of DS_active env ops ch] by simp
  have finished: "emits crit [] (operation_step env ops OS_succeeded ''active'' msg ev sf fl)" for msg ev sf fl
    using crit_operation [of OS_succeeded "''active''"] by simp
  have "emits crit (calls [S_release DS_active] @ calls [S_activate_pointers]) (complete_active env ops)"
    unfolding complete_active_def
    by (intro emits_bnd [OF release] emits_bnd_last [OF crit_perform_on] emits_bnd_nil crit_retention finished emits_pure) simp
  then show ?thesis by simp
qed

lemma crit_deployment_steps:
  "emits crit (calls (deployment_protocol (dx_remote_required env))) (deployment_steps env ops)"
proof -
  have "emits crit (calls [S_pre_cutover] @ calls [S_release DS_maintenance_enabled] @
      calls [S_stop, S_release DS_current_app_stopped] @
      calls (drop 2 (backup_protocol (dx_remote_required env))) @ calls migration_protocol @
      calls start_protocol @ calls activation_protocol @ calls [S_release DS_active, S_activate_pointers])
    (deployment_steps env ops)"
    unfolding deployment_steps_def
    by (intro emits_andthen [OF crit_rehearse] emits_andthen_nil [OF crit_resolve_previous]
        emits_andthen [OF crit_enable_maintenance] emits_bnd [OF crit_stop] emits_bnd [OF crit_backup]
        emits_andthen [OF crit_migrate] emits_andthen [OF crit_start] emits_andthen [OF crit_activate]
        emits_andthen_nil [OF crit_disable] crit_complete)
  then show ?thesis
    by (simp add: deployment_protocol_def maintenance_protocol_def backup_protocol_def)
qed

section \<open>What decides the rollback\<close>

text \<open>
  The facts a failure handler reads, next to the events they stand for: whether the migration
  began, whether a new application runs, and every event of the activation hook.
\<close>

fun is_activation :: "trace_event \<Rightarrow> bool" where
  "is_activation (Began st) \<longleftrightarrow> st = S_hook TA_activate_new"
| "is_activation (Done st) \<longleftrightarrow> False"
| "is_activation (Hook_ended h) \<longleftrightarrow> hr_action h = TA_activate_new"

definition special :: "trace_event \<Rightarrow> bool" where
  "special e \<longleftrightarrow> is_activation e \<or> e = Began S_migrate \<or> e = Done S_start_new"

type_synonym facts_view = "(trace_event list \<times> bool \<times> application_handle option \<times> bool \<times> bool \<times> bool) list"

definition summary :: "'w deploy_context \<Rightarrow> facts_view" where
  "summary s = [(filter special (cx_trace s), cx_production_may_have_changed s, cx_new_application s,
cx_traffic_activation_attempted s, cx_traffic_activated s, cx_maintenance_enabled s)]"

lemma sum_trace [emitting]: "\<not> special e \<Longrightarrow> emits summary [] (trace e)"
  by (rule emits_nilI) (auto simp: trace_def modify_def summary_def)

lemma sum_world [emitting]: "emits summary [] (in_world m)"
  by (rule emits_nilI) (auto simp: in_world_def summary_def split: prod.splits)

lemma sum_perform [emitting]:
  "st \<notin> {S_migrate, S_start_new, S_hook TA_activate_new} \<Longrightarrow> emits summary [] (perform st m)"
  unfolding perform_def by (intro emits_andthen_nil emits_bnd_nil emitting) (simp_all add: special_def)

lemma sum_modify: "(\<And>s. summary (f s) = summary s) \<Longrightarrow> emits summary [] (modify f)"
  by (rule emits_modify)

lemma sum_event [emitting]: "emits summary [] (append_deploy_event env ops msg ev)"
  unfolding append_deploy_event_def by (intro emits_andthen_nil emitting) simp

lemma sum_operation [emitting]: "emits summary [] (operation_step env ops st stage msg ev sf fl)"
  unfolding operation_step_def by (intro emitting) simp

lemma sum_release [emitting]: "emits summary [] (release_step env ops st ch)"
  unfolding release_step_def by (intro emits_bnd_nil emitting) simp

lemma sum_persist [emitting]: "emits summary [] (persist_stage env ops st msg ev sf ch)"
  unfolding persist_stage_def by (intro emits_bnd_nil emits_andthen_nil emitting) simp

lemma sum_hook [emitting]: "a \<noteq> TA_activate_new \<Longrightarrow> emits summary [] (call_hook ops a)"
  unfolding call_hook_def Let_def
  by (intro emits_bnd_nil emits_andthen_nil emitting) (simp_all add: special_def)

lemma sum_record_hook [emitting]: "emits summary [] (record_hook env ops h)"
  unfolding record_hook_def
  by (intro emits_bnd_nil emits_andthen_nil emitting sum_modify) (simp add: summary_def)

lemma sum_the_previous [emitting]: "emits summary [] the_previous"
  unfolding the_previous_def by (intro emits_bnd_nil emitting)

lemma sum_hook_error [emitting]: "emits summary seg (raise_hook_error env h c r)"
  unfolding raise_hook_error_def by (intro emits_bnd_nil emitting)

lemma sum_fault_point [emitting]: "emits summary [] (fault_point ops name)"
  unfolding fault_point_def by (intro emitting) simp

lemma sum_verify_previous [emitting]: "emits summary [] (verify_previous env ops)"
  unfolding verify_previous_def Let_def
  by (intro emits_bnd_nil emits_andthen_nil emitting sum_modify) (simp_all add: summary_def)

lemma sum_resolve_previous [emitting]: "emits summary [] (resolve_previous env ops)"
  unfolding resolve_previous_def
  by (intro emits_bnd_nil emits_andthen_nil emitting sum_modify) (simp_all add: summary_def)

lemma sum_rehearse [emitting]: "emits summary [] (rehearse_stage env ops)"
  unfolding rehearse_stage_def by (intro emits_bnd_nil emitting) simp

lemma sum_stop [emitting]: "emits summary [] (stop_stage env ops)"
  unfolding stop_stage_def
  by (intro emits_bnd_nil emits_andthen_nil emitting sum_modify) (simp_all add: summary_def)

lemma sum_replicate [emitting]: "emits summary [] (replicate_final_backup env ops final)"
  unfolding replicate_final_backup_def
  by (intro emits_bnd_nil emits_andthen_nil emitting) simp_all

lemma sum_backup [emitting]: "emits summary [] (backup_stage env ops stopped)"
  unfolding backup_stage_def
  by (intro emits_bnd_nil emits_andthen_nil emitting sum_modify) (simp_all add: summary_def)

lemma sum_retention [emitting]: "emits summary [] (post_activation_retention env ops)"
  unfolding post_activation_retention_def Let_def
  by (intro emits_bnd_nil emits_andthen_nil emitting)
    (auto split: exn.split intro!: emits_andthen_nil emitting)

lemma sum_complete [emitting]: "emits summary [] (complete_active env ops)"
  unfolding complete_active_def by (intro emits_bnd_nil emitting) simp

lemma sum_cleanup [emitting]: "emits summary [] (cleanup_step env ops)"
  unfolding cleanup_step_def by (intro emits_bnd_nil emitting) simp

lemma sum_restore [emitting]: "emits summary [] (restore_step env ops)"
  unfolding restore_step_def by (intro emits_bnd_nil emitting) simp

text \<open>The events of the activation hook, newest first, all known not to have run.\<close>

fun settled :: "trace_event list \<Rightarrow> bool" where
  "settled [] \<longleftrightarrow> True"
| "settled (Hook_ended h # Began st # es) \<longleftrightarrow> \<not> hook_may_have_run h \<and> settled es"
| "settled _ \<longleftrightarrow> False"

definition activation_ruled_out :: "trace_event list \<Rightarrow> bool" where
  "activation_ruled_out tr \<longleftrightarrow> settled (filter is_activation tr)"

definition facts_consistent :: "facts_view \<Rightarrow> bool" where
  "facts_consistent v \<longleftrightarrow> (case v of
      [(ev, changed, new, attempted, activated, maintenance)] \<Rightarrow>
        (Began S_migrate \<in> set ev \<longrightarrow> changed) \<and> (Done S_start_new \<in> set ev \<longrightarrow> new \<noteq> None) \<and>
        (activated \<longrightarrow> attempted) \<and> (Began S_migrate \<in> set ev \<longrightarrow> activated \<or> maintenance) \<and>
        (\<not> attempted \<longrightarrow> activation_ruled_out ev)
    | _ \<Rightarrow> False)"

abbreviation flagged :: "'w deploy_context \<Rightarrow> bool" where
  "flagged s \<equiv> facts_consistent (summary s)"

lemma special_simps [simp]:
  "special (Began st) \<longleftrightarrow> st = S_migrate \<or> st = S_hook TA_activate_new"
  "special (Done st) \<longleftrightarrow> st = S_start_new"
  "special (Hook_ended h) \<longleftrightarrow> hr_action h = TA_activate_new"
  by (auto simp: special_def)

lemma perform_run:
  "perform st m s = (case m (cx_world s) of
     (Inl e, w) \<Rightarrow> (Inl e, s\<lparr>cx_trace := Began st # cx_trace s, cx_world := w\<rparr>)
   | (Inr x, w) \<Rightarrow> (Inr x, s\<lparr>cx_trace := Done st # Began st # cx_trace s, cx_world := w\<rparr>))"
  by (cases s) (simp add: perform_def andthen_def bnd_def trace_def modify_def in_world_def ret_def
      split: prod.split sum.split)

lemma perform_summary:
  assumes "perform st m s = (r, t)" and "summary s = [(ev, c, n, a, b, k)]"
  shows "summary t = [(filter special (case r of Inr _ \<Rightarrow> [Done st, Began st] | Inl _ \<Rightarrow> [Began st]) @ ev, c, n, a, b, k)]"
  using assms(2) assms(1) [symmetric]
  by (cases "m (cx_world s)"; cases "fst (m (cx_world s))") (simp_all add: perform_run summary_def)

text \<open>A part that leaves the summary alone, from a known summary.\<close>

lemma triple_quiet:
  assumes "emits summary [] m" and "facts_consistent X"
  shows "triple (\<lambda>s. summary s = X) m (\<lambda>_ s. summary s = X) (\<lambda>_. flagged)"
  by (rule tripleI) (use assms(2) emits_nil [OF assms(1)] in auto)

lemma triple_quiet_bnd:
  assumes "emits summary [] m" and "facts_consistent X" and "\<And>x. triple (\<lambda>s. summary s = X) (f x) Q (\<lambda>_. flagged)"
  shows "triple (\<lambda>s. summary s = X) (bnd m f) Q (\<lambda>_. flagged)"
  by (rule triple_bnd [OF triple_quiet [OF assms(1,2)] assms(3)])

lemma triple_quiet_andthen:
  assumes "emits summary [] m" and "facts_consistent X" and "triple (\<lambda>s. summary s = X) n Q (\<lambda>_. flagged)"
  shows "triple (\<lambda>s. summary s = X) (andthen m n) Q (\<lambda>_. flagged)"
  unfolding andthen_def by (rule triple_quiet_bnd [OF assms])

abbreviation before_migration :: "facts_view" where
  "before_migration \<equiv> [([], False, None, False, False, True)]"

abbreviation migration_begun :: "facts_view" where
  "migration_begun \<equiv> [([Began S_migrate], True, None, False, False, True)]"

lemma triple_modify_summary:
  assumes "\<And>s. summary s = X \<Longrightarrow> summary (f s) = Y"
  shows "triple (\<lambda>s. summary s = X) (modify f) (\<lambda>_ s. summary s = Y) E"
  by (rule tripleI) (auto simp: modify_def assms)

lemma triple_migrate_stage:
  "triple (\<lambda>s. summary s = before_migration) (migrate_stage env ops stopped final)
     (\<lambda>_ s. summary s = migration_begun) (\<lambda>_. flagged)"
proof -
  let ?X = "[([], True, None, False, False, True)] :: facts_view"
  have X: "facts_consistent ?X" "facts_consistent migration_begun"
    by (simp_all add: facts_consistent_def activation_ruled_out_def)
  have mig: "triple (\<lambda>s. summary s = ?X) (perform S_migrate m) (\<lambda>_ s. summary s = migration_begun) (\<lambda>_. flagged)" for m
    by (rule tripleI) (auto dest!: perform_summary simp: facts_consistent_def activation_ruled_out_def)
  show ?thesis
    unfolding migrate_stage_def Let_def
    by (rule triple_andthen [OF triple_modify_summary [where Y = ?X]], simp add: summary_def)
      (intro triple_quiet_andthen triple_quiet_bnd triple_bnd [OF mig] triple_quiet X emitting; simp)
qed

abbreviation new_running :: "application_handle \<Rightarrow> facts_view" where
  "new_running h \<equiv> [([Done S_start_new, Began S_migrate], True, Some h, False, False, True)]"

lemma sum_check [emitting]: "emits summary [] (check_stage env ops started)"
  unfolding check_stage_def
  by (intro emits_bnd_nil emits_andthen_nil emitting sum_modify) (simp_all add: summary_def)

lemma triple_start_stage:
  "triple (\<lambda>s. summary s = migration_begun) (start_stage env ops)
     (\<lambda>_ s. \<exists>h. summary s = new_running h) (\<lambda>_. flagged)"
  unfolding start_stage_def
proof (rule triple_bnd [where R = "\<lambda>_ s. summary s = [([Done S_start_new, Began S_migrate], True, None, False, False, True)]"])
  show "triple (\<lambda>s. summary s = migration_begun) (perform S_start_new (do_start_new ops))
     (\<lambda>_ s. summary s = [([Done S_start_new, Began S_migrate], True, None, False, False, True)]) (\<lambda>_. flagged)"
    by (rule tripleI) (auto dest!: perform_summary simp: facts_consistent_def activation_ruled_out_def)
  fix x :: production_start
  have X: "facts_consistent (new_running (pt_handle x))"
    by (simp add: facts_consistent_def activation_ruled_out_def)
  show "triple (\<lambda>s. summary s = [([Done S_start_new, Began S_migrate], True, None, False, False, True)])
     (andthen (modify (\<lambda>s. s\<lparr>cx_new_application := Some (pt_handle x)\<rparr>)) (check_stage env ops x))
     (\<lambda>_ s. \<exists>h. summary s = new_running h) (\<lambda>_. flagged)"
    by (rule triple_andthen [OF triple_modify_summary [where Y = "new_running (pt_handle x)"]], simp add: summary_def)
      (rule triple_weaken [OF triple_quiet [OF sum_check X]]; auto)
qed

lemma triple_ex: "(\<And>h. triple (P h) m Q E) \<Longrightarrow> triple (\<lambda>s. \<exists>h. P h s) m Q E"
proof (rule tripleI; elim exE)
  assume t: "\<And>h. triple (P h) m Q E"
  show "E e u" if "m s = (Inl e, u)" "P h s" for s e u h by (rule tripleD_Inl [OF t that(2,1)])
  show "Q x u" if "m s = (Inr x, u)" "P h s" for s x u h by (rule tripleD_Inr [OF t that(2,1)])
qed

lemma triple_given: "(b \<Longrightarrow> triple P m Q E) \<Longrightarrow> triple (\<lambda>s. b \<and> P s) m Q E"
  by (cases b) (auto simp: triple_def)

text \<open>
  The activation: while the hook is not known to have been harmless, the attempt stays flagged.
\<close>

lemma attempted_consistent: "facts_consistent [(ev, True, Some h, True, b, True)]"
  by (simp add: facts_consistent_def)

lemma triple_activation:
  "triple (\<lambda>s. \<exists>h. summary s = new_running h) (activate_new_traffic env ops)
     (\<lambda>_ s. flagged s \<and> cx_traffic_activated s) (\<lambda>_. flagged)"
proof -
  let ?Y = "\<lambda>h ev b. [(ev @ [Done S_start_new, Began S_migrate], True, Some h, True, b, True)]"
  have hook: "triple (\<lambda>s. summary s = ?Y h [] False) (call_hook ops TA_activate_new)
      (\<lambda>r s. hr_action r = TA_activate_new \<and> summary s = ?Y h [Hook_ended r, Began (S_hook TA_activate_new)] False)
      (\<lambda>_. flagged)" for h
    unfolding call_hook_def Let_def
    apply (rule triple_bnd [where R = "\<lambda>_ s. summary s = ?Y h [Began (S_hook TA_activate_new)] False"])
     apply (rule tripleI)
      apply (auto dest!: perform_summary simp: attempted_consistent) [2]
    apply (rule triple_andthen [where R = "\<lambda>s. summary s = ?Y h [Hook_ended \<lparr>hr_action = TA_activate_new, hr_command = x\<rparr>,
        Began (S_hook TA_activate_new)] False" for x])
     apply (auto simp: triple_def trace_def modify_def ret_def summary_def)
    done
  have finish: "triple (\<lambda>s. summary s = ?Y h [Hook_ended r, Began (S_hook TA_activate_new)] False)
      (andthen (record_hook env ops r)
        (if \<not> hook_passed r
         then andthen (modify (\<lambda>s. s\<lparr>cx_traffic_activation_attempted := hook_may_have_run r\<rparr>))
                (raise_hook_error env r True False)
         else andthen (modify (\<lambda>s. s\<lparr>cx_traffic_activated := True\<rparr>)) (persist_stage env ops st msg ev sf ch)))
      (\<lambda>_ s. flagged s \<and> cx_traffic_activated s) (\<lambda>_. flagged)" if "hr_action r = TA_activate_new" for h r st msg ev sf ch
  proof (rule triple_quiet_andthen [OF sum_record_hook attempted_consistent])
    let ?E = "[Hook_ended r, Began (S_hook TA_activate_new)]"
    let ?Z = "[(?E @ [Done S_start_new, Began S_migrate], True, Some h, hook_may_have_run r, False, True)]"
    have Z: "facts_consistent ?Z"
      using that by (simp add: facts_consistent_def activation_ruled_out_def)
    have failed: "triple (\<lambda>s. summary s = ?Y h ?E False)
       (andthen (modify (\<lambda>s. s\<lparr>cx_traffic_activation_attempted := hook_may_have_run r\<rparr>))
         (raise_hook_error env r True False)) (\<lambda>_ s. flagged s \<and> cx_traffic_activated s) (\<lambda>_. flagged)"
    proof (rule triple_andthen [OF triple_modify_summary [where Y = ?Z]])
      show "summary s = ?Y h ?E False \<Longrightarrow> summary (s\<lparr>cx_traffic_activation_attempted := hook_may_have_run r\<rparr>) = ?Z" for s
        by (simp add: summary_def)
      show "triple (\<lambda>s. summary s = ?Z) (raise_hook_error env r True False)
          (\<lambda>_ s. flagged s \<and> cx_traffic_activated s) (\<lambda>_. flagged)"
        using Z by (auto simp: triple_def raise_hook_error_def bnd_def fetch_def raise_def)
    qed
    have passed: "triple (\<lambda>s. summary s = ?Y h ?E False)
       (andthen (modify (\<lambda>s. s\<lparr>cx_traffic_activated := True\<rparr>)) (persist_stage env ops st msg ev sf ch))
       (\<lambda>_ s. flagged s \<and> cx_traffic_activated s) (\<lambda>_. flagged)"
      by (rule triple_andthen [OF triple_modify_summary [where Y = "?Y h ?E True"]], simp add: summary_def)
        (rule triple_weaken [OF triple_quiet [OF sum_persist
            attempted_consistent [of "?E @ [Done S_start_new, Began S_migrate]" h True]]];
          auto simp: attempted_consistent summary_def)
    show "triple (\<lambda>s. summary s = ?Y h ?E False)
       (if \<not> hook_passed r
         then andthen (modify (\<lambda>s. s\<lparr>cx_traffic_activation_attempted := hook_may_have_run r\<rparr>))
                (raise_hook_error env r True False)
         else andthen (modify (\<lambda>s. s\<lparr>cx_traffic_activated := True\<rparr>)) (persist_stage env ops st msg ev sf ch))
       (\<lambda>_ s. flagged s \<and> cx_traffic_activated s) (\<lambda>_. flagged)"
      by (rule triple_if [OF failed passed])
  qed
  have "triple (\<lambda>s. summary s = new_running h) (activate_new_traffic env ops)
     (\<lambda>_ s. flagged s \<and> cx_traffic_activated s) (\<lambda>_. flagged)" for h
    unfolding activate_new_traffic_def
    apply (rule triple_andthen [OF triple_modify_summary [where Y = "?Y h [] False"]])
     apply (simp add: summary_def)
    apply (rule triple_quiet_andthen [OF sum_perform attempted_consistent], simp)
    apply (rule triple_quiet_andthen [OF sum_operation attempted_consistent])
    apply (rule triple_bnd [OF hook])
    apply (rule triple_given)
    apply (rule finish, assumption)
    done
  then show ?thesis by (rule triple_ex)
qed

text \<open>Enabling and disabling maintenance.\<close>

abbreviation untouched :: facts_view where
  "untouched \<equiv> [([], False, None, False, False, False)]"

lemma triple_quiet_raise: "facts_consistent X \<Longrightarrow> triple (\<lambda>s. summary s = X) (raise e) Q (\<lambda>_. flagged)"
  by (simp add: triple_def raise_def)

lemma triple_enable:
  "triple (\<lambda>s. summary s = untouched) (enable_maintenance env ops)
     (\<lambda>_ s. summary s = before_migration) (\<lambda>_. flagged)"
proof -
  have X: "facts_consistent untouched" "facts_consistent before_migration"
    by (simp_all add: facts_consistent_def activation_ruled_out_def)
  have on: "triple (\<lambda>s. summary s = untouched) (modify (\<lambda>s. s\<lparr>cx_maintenance_enabled := True\<rparr>))
      (\<lambda>_ s. summary s = before_migration) (\<lambda>_. flagged)"
    by (rule triple_modify_summary) (simp add: summary_def)
  show ?thesis
    unfolding enable_maintenance_def
    by (intro triple_quiet_bnd triple_quiet_andthen triple_if triple_quiet_raise triple_andthen [OF on] X
        triple_quiet emitting; simp)
qed

definition activation_done :: "facts_view \<Rightarrow> bool" where
  "activation_done v \<longleftrightarrow> facts_consistent v \<and>
     (case v of [(_, _, _, _, activated, _)] \<Rightarrow> activated | _ \<Rightarrow> False)"

lemma activation_done_iff: "activation_done (summary s) \<longleftrightarrow> flagged s \<and> cx_traffic_activated s"
  by (simp add: activation_done_def summary_def)

lemma keeps_disable: "keeps (\<lambda>s. activation_done (summary s)) (disable_maintenance_after_activation env ops)"
  unfolding disable_maintenance_after_activation_def
  by (intro keeps_bnd keeps_andthen keeps_if keeps_simple emits_nil_keeps [where P = activation_done] emitting
      keeps_modify)
    (simp_all add: activation_done_def facts_consistent_def summary_def)

lemma triple_deployment_facts:
  "triple (\<lambda>s. summary s = untouched) (deployment_steps env ops) (\<lambda>_ _. True) (\<lambda>_. flagged)"
proof -
  have X: "facts_consistent untouched" "facts_consistent before_migration"
    by (simp_all add: facts_consistent_def activation_ruled_out_def)
  have off: "triple (\<lambda>s. flagged s \<and> cx_traffic_activated s)
      (andthen (disable_maintenance_after_activation env ops) (complete_active env ops)) (\<lambda>_ _. True) (\<lambda>_. flagged)"
    using keeps_andthen [OF keeps_disable emits_nil_keeps [where P = activation_done, OF sum_complete]]
    unfolding keeps_def activation_done_iff by (rule triple_weaken) simp_all
  show ?thesis
    unfolding deployment_steps_def
    by (intro triple_quiet_andthen [OF sum_rehearse X(1)] triple_quiet_andthen [OF sum_resolve_previous X(1)]
        triple_andthen [OF triple_enable] triple_quiet_bnd [OF sum_stop X(2)] triple_quiet_bnd [OF sum_backup X(2)]
        triple_andthen [OF triple_migrate_stage] triple_andthen [OF triple_start_stage]
        triple_andthen [OF triple_activation] off)
qed

section \<open>Handlers\<close>

lemma finish_recovery_quiet [emitting]:
  "emits crit [] (finish_recovery_required env ops e)" "emits summary [] (finish_recovery_required env ops e)"
  unfolding finish_recovery_required_def
  by (intro emits_bnd_nil emits_andthen_nil emitting crit_perform_off
      crit_release [where st = DS_recovery_required, simplified]
      crit_operation [where stage = "''recovery_required''", simplified]; simp)+

lemma finish_failed_quiet [emitting]:
  "emits crit [] (finish_failed_before_rollback env ops e)" "emits summary [] (finish_failed_before_rollback env ops e)"
proof -
  have "emits crit [] (release_step env ops (if b then DS_recovery_required else DS_failed_safe) ch)" for b ch
    using crit_release [of "if b then DS_recovery_required else DS_failed_safe" env ops ch] by (simp split: if_splits)
  moreover have "emits crit [] (operation_step env ops st (deployment_state_value d) msg ev sf fl)" for st d msg ev sf fl
    using crit_operation [of st "deployment_state_value d"] by (simp add: stage_value_plain)
  ultimately show "emits crit [] (finish_failed_before_rollback env ops e)"
    unfolding finish_failed_before_rollback_def Let_def
    by (intro emits_bnd_nil emits_andthen_nil emits_pure)
  show "emits summary [] (finish_failed_before_rollback env ops e)"
    unfolding finish_failed_before_rollback_def Let_def
    by (intro emits_bnd_nil emits_andthen_nil emitting)
qed

definition rollback_protocol :: "bool \<Rightarrow> bool \<Rightarrow> step list" where
  "rollback_protocol new changed =
     (if new then [S_remove_new] else []) @ (if changed then [S_restore] else []) @
     [S_restart_previous, S_hook TA_activate_old]"

definition rolling :: "bool \<Rightarrow> bool \<Rightarrow> 'w deploy_context \<Rightarrow> bool" where
  "rolling new changed s \<longleftrightarrow> (cx_new_application s \<noteq> None) = new \<and> cx_production_may_have_changed s = changed"

lemma rolling_keeps: "emits summary [] m \<Longrightarrow> keeps (rolling new changed) m"
proof (rule keepsI)
  fix s r t assume *: "emits summary [] m" "m s = (r, t)" "rolling new changed s"
  have "summary t = summary s" by (rule emits_nil [OF *(1,2)])
  with *(3) show "rolling new changed t" by (simp add: summary_def rolling_def)
qed

lemma emits_on_false: "(\<And>s. \<not> P s) \<Longrightarrow> emits_on P view seg m"
  by (simp add: emits_on_def)

lemma rollback_cleanup:
  "emits_on (rolling new changed) crit (calls (if new then [S_remove_new] else [])) (cleanup_step env ops)"
  unfolding cleanup_step_def
proof (rule emits_on_fetch)
  fix x :: "application_handle option"
  have gone: "emits crit (calls [S_remove_new]) (bnd (perform S_remove_new (do_remove_new ops h)) (\<lambda>c.
         append_deploy_event env ops msg (ev c)))" for h msg ev
    by (intro emits_bnd_last crit_perform_on crit_event) simp
  show "emits_on (\<lambda>s. rolling new changed s \<and> cx_new_application s = x) crit
      (calls (if new then [S_remove_new] else []))
      (case x of None \<Rightarrow> ret () | Some h \<Rightarrow> bnd (perform S_remove_new (do_remove_new ops h)) (\<lambda>c.
         append_deploy_event env ops ''Failed new-release application cleanup was proven.''
           [(''production_cleanup'', cleanup_evidence c)]))"
  proof (cases "new = (x \<noteq> None)")
    case True
    then show ?thesis
      by (cases x) (auto simp del: calls_simps(2) intro!: emits_on_weak gone emits_pure)
  next
    case False
    then show ?thesis by (intro emits_on_false) (auto simp: rolling_def)
  qed
qed

lemma rollback_restore:
  "emits_on (rolling new changed) crit (calls (if changed then [S_restore] else [])) (restore_step env ops)"
  unfolding restore_step_def
proof (rule emits_on_fetch)
  fix x :: "'a deploy_context"
  have restored: "emits crit (calls [S_restore]) (bnd (perform S_restore m) (\<lambda>r. append_deploy_event env ops msg (ev r)))"
    for m :: "('a, restore_proof) world_act" and msg ev
    by (intro emits_bnd_last crit_perform_on crit_event) simp
  show "emits_on (\<lambda>s. rolling new changed s \<and> s = x) crit (calls (if changed then [S_restore] else []))
     (if \<not> cx_production_may_have_changed x then ret ()
     else case (cx_stopped x, cx_final_backup x) of
       (Some stopped, Some final) \<Rightarrow>
         bnd (perform S_restore (do_restore ops (dx_operation_id env) stopped final (cx_traffic_activated x)))
           (\<lambda>r. append_deploy_event env ops
             ''The verified final backup was restored before traffic activation.''
             [(''database_restore'', restore_proof_json (dx_utc env) r)])
     | _ \<Rightarrow> raise (Dploy (deploy_error env RecoveryRequiredError
         ''database rollback prerequisites are incomplete'' True (Some False)
         (''Keep every application and traffic path blocked; inspect the final '' @
          ''backup and stopped-container evidence manually.''))))"
  proof (cases "changed = cx_production_may_have_changed x")
    case True
    then show ?thesis
      by (auto split: option.split simp del: calls_simps(2)
          intro!: emits_on_weak restored emits_raise emits_pure)
  next
    case False
    then show ?thesis by (intro emits_on_false) (auto simp: rolling_def)
  qed
qed

lemma rollback_hook_events:
  "emits crit (if critical_step (S_hook a) then calls [S_hook a] else []) (rollback_hook env ops a)"
  unfolding rollback_hook_def
  by (intro emits_bnd_last crit_call_hook emits_andthen_nil emits_bnd_nil emitting)

lemma rollback_hook_quiet: "a \<noteq> TA_activate_new \<Longrightarrow> emits summary [] (rollback_hook env ops a)"
  unfolding rollback_hook_def by (intro emits_bnd_nil emits_andthen_nil emitting)

lemma resume_events:
  "emits crit (calls [S_restart_previous, S_hook TA_activate_old]) (resume_previous env ops original changed)"
proof -
  have old: "emits crit (calls [S_hook TA_activate_old]) (rollback_hook env ops TA_activate_old)"
    using rollback_hook_events [of TA_activate_old env ops] by simp
  have off: "emits crit [] (rollback_hook env ops TA_disable_maintenance)"
    using rollback_hook_events [of TA_disable_maintenance env ops] by simp
  have stored: "emits crit [] (release_step env ops DS_rolled_back ch)"
    "emits crit [] (operation_step env ops OS_failed_safe ''rolled_back'' msg ev sf fl)" for ch msg ev sf fl
    using crit_release [of DS_rolled_back env ops ch] crit_operation [of OS_failed_safe "''rolled_back''"] by simp_all
  have "emits crit (calls [S_restart_previous] @ calls [S_hook TA_activate_old]) (resume_previous env ops original changed)"
    unfolding resume_previous_def
    by (intro emits_bnd_nil emits_pure emits_option emits_raise emits_bnd [OF crit_perform_on]
        emits_andthen_nil [OF crit_event] emits_andthen_last [OF old] emits_andthen_nil [OF off]
        emits_andthen_nil [OF crit_modify] emits_bnd_nil [OF crit_verify_previous] emits_bnd_nil [OF stored(1)]
        emits_bnd_nil [OF stored(2)]) simp_all
  then show ?thesis by simp
qed

lemma rollback_events:
  "emits_on (rolling new changed) crit (calls (rollback_protocol new changed)) (rollback_steps env ops original)"
proof -
  have "emits crit [] (persist_stage env ops DS_rollback_started msg ev sf ch)" for msg ev sf ch
    using crit_persist [of DS_rollback_started env ops msg ev sf ch] by simp
  then have started: "emits_on P crit [] (persist_stage env ops DS_rollback_started msg ev sf ch)" for P msg ev sf ch
    by (rule emits_on_weak)
  have "emits_on (rolling new changed) crit ([] @ calls (if new then [S_remove_new] else []) @
      calls (if changed then [S_restore] else []) @ calls [S_restart_previous, S_hook TA_activate_old])
      (rollback_steps env ops original)"
    unfolding rollback_steps_def
  proof (rule emits_on_fetch)
    fix x
    have same: "(\<lambda>s. rolling new changed s \<and> cx_production_may_have_changed s = x) =
        (if x = changed then rolling new changed else (\<lambda>_. False))"
      by (auto simp: rolling_def fun_eq_iff)
    show "emits_on (\<lambda>s. rolling new changed s \<and> cx_production_may_have_changed s = x) crit
      ([] @ calls (if new then [S_remove_new] else []) @
      calls (if changed then [S_restore] else []) @ calls [S_restart_previous, S_hook TA_activate_old])
      (andthen (persist_stage env ops DS_rollback_started
       ''Pre-traffic rollback started after deployment failure.''
       [(''original_failure'', payload_json (de_payload original))]
       (facts x (Some False) False) (no_changes\<lparr>ch_production_changed := Some x\<rparr>))
      (andthen (cleanup_step env ops) (andthen (restore_step env ops) (resume_previous env ops original x))))"
    proof (cases "x = changed")
      case True
      then show ?thesis
        unfolding same if_P [OF True]
        by (intro emits_on_andthen started rollback_cleanup rollback_restore emits_on_weak [OF resume_events]
            rolling_keeps sum_persist sum_cleanup sum_restore)
    next
      case False
      then show ?thesis unfolding same by (intro emits_on_false) simp
    qed
  qed
  then show ?thesis by (simp add: rollback_protocol_def del: calls_simps(2))
qed

text \<open>What the rollback leaves alone: the summary up to the maintenance flag.\<close>

definition lasting :: "'w deploy_context \<Rightarrow> (trace_event list \<times> bool \<times> application_handle option \<times> bool \<times> bool) list" where
  "lasting s = [(filter special (cx_trace s), cx_production_may_have_changed s, cx_new_application s,
     cx_traffic_activation_attempted s, cx_traffic_activated s)]"

lemma quiet_lasting: "emits summary [] m \<Longrightarrow> emits lasting [] m"
  by (rule emits_nilI, drule emits_nil, assumption) (simp add: summary_def lasting_def)

lemma lasting_resume: "emits lasting [] (resume_previous env ops original changed)"
  unfolding resume_previous_def
  by (intro emits_bnd_nil emits_andthen_nil emits_option emits_pure emits_raise emits_modify
      quiet_lasting [OF sum_perform] quiet_lasting [OF sum_event] quiet_lasting [OF rollback_hook_quiet]
      quiet_lasting [OF sum_verify_previous] quiet_lasting [OF sum_release] quiet_lasting [OF sum_operation])
    (simp_all add: lasting_def)

lemma lasting_rollback_steps: "emits lasting [] (rollback_steps env ops original)"
  unfolding rollback_steps_def
  by (intro emits_bnd_nil emits_andthen_nil emits_pure lasting_resume quiet_lasting [OF sum_persist]
      quiet_lasting [OF sum_cleanup] quiet_lasting [OF sum_restore])

lemma lasting_run_rollback: "emits lasting [] (run_rollback env ops original)"
  unfolding run_rollback_def Let_def
  by (intro emits_catching lasting_rollback_steps emits_bnd_nil emits_pure emits_option emits_raise
      emits_andthen_nil quiet_lasting [OF finish_recovery_quiet(2)])

lemma lasting_handle: "emits lasting [] (handle_failure env ops x)"
  unfolding handle_failure_def Let_def
  by (intro emits_bnd_nil emits_pure emits_option emits_raise emits_if emits_andthen_nil
      lasting_run_rollback quiet_lasting [OF finish_recovery_quiet(2)] quiet_lasting [OF finish_failed_quiet(2)])

lemma rollback_calls_protocol: "set (calls (rollback_protocol new changed)) \<subseteq> rollback_calls"
  by (auto simp: rollback_protocol_def rollback_calls_def)

text \<open>What a rollback adds to the critical calls.\<close>

lemma run_rollback_events:
  assumes "run_rollback env ops original u = (r, s)" and "rolling new changed u"
  shows "\<exists>ys. crit s = crit u @ ys \<and> set ys \<subseteq> rollback_calls \<and>
    (\<forall>x. r = Inr x \<longrightarrow> ys = calls (rollback_protocol new changed))"
proof (cases "rollback_steps env ops original u")
  case (Pair q v)
  show ?thesis
  proof (cases q)
    case (Inr x)
    then have "r = Inr x" "s = v" using assms(1) Pair by (simp_all add: run_rollback_def catching_def)
    with emits_on_Inr [OF rollback_events assms(2), of env ops original x v] Pair Inr rollback_calls_protocol
    show ?thesis by auto
  next
    case (Inl y)
    from emits_on_Inl [OF rollback_events assms(2), of env ops original y v] Pair Inl
    obtain n where n: "crit v = crit u @ take n (calls (rollback_protocol new changed))" by auto
    have sub: "set (take n (calls (rollback_protocol new changed))) \<subseteq> rollback_calls"
      using rollback_calls_protocol set_take_subset by (rule order_trans [rotated])
    have tail: "crit s = crit v \<and> (\<forall>x. r \<noteq> Inr x)"
      using assms(1) Pair Inl emits_nil [OF finish_recovery_quiet(1), of env ops _ v]
      by (auto simp: run_rollback_def catching_def bnd_def andthen_def fetch_def raise_def Let_def
          split: option.splits prod.splits sum.splits)
    with n sub show ?thesis by auto
  qed
qed

lemma handle_failure_events:
  assumes "handle_failure env ops x u = (r, s)"
  shows "\<exists>ys. crit s = crit u @ ys \<and> set ys \<subseteq> rollback_calls \<and>
    (ys \<noteq> [] \<longrightarrow> \<not> cx_traffic_activation_attempted u) \<and>
    (\<forall>d. r = Inr d \<longrightarrow> \<not> cx_traffic_activation_attempted u \<and>
       ys = calls (rollback_protocol (cx_new_application u \<noteq> None) (cx_production_may_have_changed u)))"
proof -
  have rolling: "rolling (cx_new_application u \<noteq> None) (cx_production_may_have_changed u) u"
    by (simp add: rolling_def)
  have quiet: "crit t = crit u" if "finish_recovery_required env ops e u = (q, t)" for e q t
    by (rule emits_nil [OF finish_recovery_quiet(1) that])
  have failed: "crit t = crit u" if "finish_failed_before_rollback env ops e u = (q, t)" for e q t
    by (rule emits_nil [OF finish_failed_quiet(1) that])
  consider (rolled) e where "run_rollback env ops e u = (r, s)" "\<not> cx_traffic_activation_attempted u"
    | (other) "crit s = crit u" "\<forall>d. r \<noteq> Inr d"
    using assms quiet failed
    by (auto simp: handle_failure_def bnd_def andthen_def fetch_def raise_def Let_def
        split: option.splits prod.splits sum.splits if_splits)
  then show ?thesis
  proof cases
    case rolled
    from run_rollback_events [OF this(1) rolling] rolled(2) show ?thesis by blast
  next
    case other
    then show ?thesis by auto
  qed
qed

section \<open>The run as a whole\<close>

lemma run_deployment_cases:
  assumes "run_deployment env ops s0 = (r, s)"
  obtains (returned) d where "deployment_steps env ops s0 = (Inr d, s)" "r = Inr d"
  | (failed) x u where "deployment_steps env ops s0 = (Inl x, u)" "handle_failure env ops x u = (r, s)"
  using assms by (auto simp: run_deployment_def catching_def split: prod.splits sum.splits)

lemma fresh_summary [simp]: "summary (fresh_context previous w) = untouched" "crit (fresh_context previous w) = []"
  by (simp_all add: summary_def fresh_context_def crit_def)

lemma failed_flagged:
  assumes "deployment_steps env ops (fresh_context previous w) = (Inl x, u)"
  shows "flagged u"
  by (rule tripleD_Inl [OF triple_deployment_facts _ assms]) simp

lemma activation_special [simp]: "activation_ruled_out (filter special tr) = activation_ruled_out tr"
proof -
  have "(\<lambda>x. special x \<and> is_activation x) = is_activation" by (auto simp: special_def)
  then show ?thesis by (simp add: activation_ruled_out_def conj_commute)
qed

lemma flagged_iff:
  "flagged s \<longleftrightarrow>
     (Began S_migrate \<in> set (cx_trace s) \<longrightarrow> cx_production_may_have_changed s) \<and>
     (Done S_start_new \<in> set (cx_trace s) \<longrightarrow> cx_new_application s \<noteq> None) \<and>
     (cx_traffic_activated s \<longrightarrow> cx_traffic_activation_attempted s) \<and>
     (Began S_migrate \<in> set (cx_trace s) \<longrightarrow> cx_traffic_activated s \<or> cx_maintenance_enabled s) \<and>
     (\<not> cx_traffic_activation_attempted s \<longrightarrow> activation_ruled_out (cx_trace s))"
  by (simp add: facts_consistent_def summary_def)

text \<open>The handler changes none of what it decided on.\<close>

lemma handle_failure_lasting:
  assumes "handle_failure env ops x u = (r, s)"
  shows "filter special (cx_trace s) = filter special (cx_trace u)"
    "cx_traffic_activated s = cx_traffic_activated u"
    "cx_production_may_have_changed s = cx_production_may_have_changed u"
    "cx_traffic_activation_attempted s = cx_traffic_activation_attempted u"
  using emits_nil [OF lasting_handle assms] by (simp_all add: lasting_def)

lemma filter_special_eq:
  assumes "filter special a = filter special b"
  shows "Began S_migrate \<in> set a \<longleftrightarrow> Began S_migrate \<in> set b"
    "Done S_start_new \<in> set a \<longleftrightarrow> Done S_start_new \<in> set b"
    "activation_ruled_out a = activation_ruled_out b"
proof -
  have in_filter: "e \<in> set a \<longleftrightarrow> e \<in> set b" if "special e" for e
    using that arg_cong [OF assms, of set] by auto
  then show "Began S_migrate \<in> set a \<longleftrightarrow> Began S_migrate \<in> set b"
    "Done S_start_new \<in> set a \<longleftrightarrow> Done S_start_new \<in> set b" by simp_all
  show "activation_ruled_out a = activation_ruled_out b"
    using activation_special [of a] activation_special [of b] assms by simp
qed

lemma crit_mem: "critical e \<Longrightarrow> e \<in> set (cx_trace s) \<longleftrightarrow> e \<in> set (crit s)"
  by (simp add: crit_def)

text \<open>A run that fails: a part of the protocol, then calls of the rollback, if it is taken.\<close>

lemma failed_run:
  assumes "deployment_steps env ops (fresh_context previous w) = (Inl x, u)"
    and "handle_failure env ops x u = (r, s)"
  shows "\<exists>n ys. crit s = take n (calls (deployment_protocol (dx_remote_required env))) @ ys \<and>
    set ys \<subseteq> rollback_calls \<and> (ys \<noteq> [] \<longrightarrow> activation_ruled_out (cx_trace s)) \<and>
    (\<forall>d. r = Inr d \<longrightarrow> activation_ruled_out (cx_trace s) \<and>
       (\<exists>new changed. ys = calls (rollback_protocol new changed) \<and>
          (Done S_start_new \<in> set (cx_trace s) \<longrightarrow> new) \<and> (Began S_migrate \<in> set (cx_trace s) \<longrightarrow> changed)))"
proof -
  from emits_Inl [OF crit_deployment_steps assms(1)] obtain n where
    u: "crit u = take n (calls (deployment_protocol (dx_remote_required env)))" by auto
  have flags: "flagged u" by (rule failed_flagged [OF assms(1)])
  note same = filter_special_eq [OF handle_failure_lasting(1) [OF assms(2)]]
  from handle_failure_events [OF assms(2)] obtain ys where ys: "crit s = crit u @ ys" "set ys \<subseteq> rollback_calls"
    "ys \<noteq> [] \<longrightarrow> \<not> cx_traffic_activation_attempted u"
    "\<forall>d. r = Inr d \<longrightarrow> \<not> cx_traffic_activation_attempted u \<and>
       ys = calls (rollback_protocol (cx_new_application u \<noteq> None) (cx_production_may_have_changed u))" by blast
  have ruled: "\<not> cx_traffic_activation_attempted u \<Longrightarrow> activation_ruled_out (cx_trace s)"
    using flags unfolding flagged_iff same(3) by blast
  have parts: "Done S_start_new \<in> set (cx_trace s) \<longrightarrow> cx_new_application u \<noteq> None"
    "Began S_migrate \<in> set (cx_trace s) \<longrightarrow> cx_production_may_have_changed u"
    using flags unfolding flagged_iff same(1,2) by blast+
  show ?thesis using u ys ruled parts by metis
qed

lemma protocol_without_restore [simp]: "Began S_restore \<notin> set (calls (deployment_protocol remote))"
  by (simp add: deployment_protocol_def maintenance_protocol_def backup_protocol_def
      migration_protocol_def start_protocol_def activation_protocol_def)

text \<open>
  C2. Whatever the stores, the containers, the hooks and the checks answer, and whenever they
  fail, the critical calls of a deployment are a prefix of one protocol (rehearse, enable
  maintenance, stop, final backup, its replication when required, intent before migration,
  migration, start, health, intent before activation, activation, release active, pointers),
  followed by nothing but calls of the rollback.
\<close>

theorem deployment_order:
  assumes "run_deployment env ops (fresh_context previous w) = (r, s)"
  shows "\<exists>n rest. crit s = take n (calls (deployment_protocol (dx_remote_required env))) @ rest \<and>
    set rest \<subseteq> rollback_calls"
  using assms
proof (cases rule: run_deployment_cases)
  case (returned d)
  with emits_Inr [OF crit_deployment_steps returned(1)]
  have "crit s = take (length (calls (deployment_protocol (dx_remote_required env))))
      (calls (deployment_protocol (dx_remote_required env))) @ []" by simp
  then show ?thesis by (metis empty_subsetI set_empty2)
next
  case (failed x u)
  from failed_run [OF this] show ?thesis by blast
qed

text \<open>
  C1. The database is never restored over traffic that may have reached the new release: if a
  run begins to restore the final backup, then every time the activation hook was called its
  recorded outcome proves that it did not run.
\<close>

theorem restore_only_before_activation:
  assumes "run_deployment env ops (fresh_context previous w) = (r, s)"
    and "Began S_restore \<in> set (cx_trace s)"
  shows "activation_ruled_out (cx_trace s)"
  using assms(1)
proof (cases rule: run_deployment_cases)
  case (returned d)
  then have "crit s = calls (deployment_protocol (dx_remote_required env))"
    using emits_Inr [OF crit_deployment_steps returned(1)] by simp
  with assms(2) crit_mem [of "Began S_restore" s] show ?thesis by simp
next
  case (failed x u)
  from failed_run [OF this] obtain n ys where
    ys: "crit s = take n (calls (deployment_protocol (dx_remote_required env))) @ ys"
    "ys \<noteq> [] \<longrightarrow> activation_ruled_out (cx_trace s)" by blast
  have "Began S_restore \<in> set (crit s)" using assms(2) crit_mem [of "Began S_restore" s] by simp
  then have "ys \<noteq> []"
    using ys(1) by (auto dest: in_set_takeD)
  with ys(2) show ?thesis by blast
qed

text \<open>
  C3. A deployment that returns a result either made every call of the protocol to its end, or
  rolled back completely: the activation never ran, a started application was removed, a
  database whose migration began was restored, then the previous application was restarted and
  the old traffic target activated.
\<close>

theorem returned_deployments:
  assumes "run_deployment env ops (fresh_context previous w) = (Inr d, s)"
  shows "crit s = calls (deployment_protocol (dx_remote_required env)) \<or>
    activation_ruled_out (cx_trace s) \<and>
    (\<exists>n new changed. crit s = take n (calls (deployment_protocol (dx_remote_required env))) @
        calls (rollback_protocol new changed) \<and>
      (Done S_start_new \<in> set (cx_trace s) \<longrightarrow> new) \<and> (Began S_migrate \<in> set (cx_trace s) \<longrightarrow> changed))"
  using assms
proof (cases rule: run_deployment_cases)
  case (returned d)
  then show ?thesis using emits_Inr [OF crit_deployment_steps returned(1)] by simp
next
  case (failed x u)
  from failed_run [OF this] obtain n ys where
    "crit s = take n (calls (deployment_protocol (dx_remote_required env))) @ ys"
    and rolled: "\<forall>e. Inr d = Inr e \<longrightarrow> activation_ruled_out (cx_trace s) \<and>
       (\<exists>new changed. ys = calls (rollback_protocol new changed) \<and>
          (Done S_start_new \<in> set (cx_trace s) \<longrightarrow> new) \<and> (Began S_migrate \<in> set (cx_trace s) \<longrightarrow> changed))"
    by blast
  with spec [OF rolled, of d] show ?thesis by auto
qed

text \<open>What the handlers raise.\<close>

lemma on_exception_raises:
  "on_exception m (\<lambda>_. ret y) s = (Inl (Dploy e), t) \<Longrightarrow> False"
  by (auto simp: on_exception_def is_exception_def catching_def ret_def raise_def split: sum.splits prod.splits if_splits)

lemma finish_recovery_raises:
  assumes "finish_recovery_required env ops e u = (Inl (Dploy d), t)"
  shows "False"
  using assms
  by (auto simp: finish_recovery_required_def bnd_def andthen_def lift_result_def fetch_def
      failure_record_of_def validation_error_def Let_def dest!: on_exception_raises
      split: prod.splits sum.splits if_splits)

lemma recovery_error [simp]: "err_recovery (deploy_error env RecoveryRequiredError what c r advice)"
  by (simp add: deploy_error_def mk_error_def)

lemma finish_recovery_then_raise:
  assumes "andthen (finish_recovery_required env ops e) (raise (Dploy e)) u = (Inl (Dploy d), t)"
  shows "d = e"
  using assms finish_recovery_raises [of env ops e u]
  by (auto simp: andthen_def bnd_def raise_def split: prod.splits sum.splits)

lemma run_rollback_raises:
  assumes "run_rollback env ops original u = (Inl (Dploy e), t)"
  shows "err_recovery e"
proof (cases "rollback_steps env ops original u")
  case (Pair q v)
  show ?thesis
  proof (cases q)
    case (Inr x)
    then show ?thesis using assms Pair by (simp add: run_rollback_def catching_def)
  next
    case (Inl x)
    show ?thesis
    proof (cases "normalize_deployment_error env v x")
      case None
      then have "x = Dploy e"
        using assms Pair Inl by (simp add: run_rollback_def catching_def bnd_def fetch_def raise_def)
      with None show ?thesis by (simp add: normalize_deployment_error_def Let_def)
    next
      case (Some y)
      with assms Pair Inl show ?thesis
        by (auto simp: run_rollback_def catching_def bnd_def [of "fetch _"] fetch_def Let_def
            dest!: finish_recovery_then_raise)
    qed
  qed
qed

lemma handle_failure_raises:
  assumes "handle_failure env ops x u = (Inl (Dploy e), t)" and "\<not> err_recovery e"
  shows "cx_traffic_activated u \<or> \<not> cx_maintenance_enabled u"
proof (rule ccontr)
  assume "\<not> (cx_traffic_activated u \<or> \<not> cx_maintenance_enabled u)"
  then have flags: "\<not> cx_traffic_activated u" "cx_maintenance_enabled u" by simp_all
  show False
  proof (cases "normalize_deployment_error env u x")
    case None
    then have "x = Dploy e" using assms(1) by (simp add: handle_failure_def bnd_def fetch_def raise_def)
    with None show ?thesis by (simp add: normalize_deployment_error_def Let_def)
  next
    case (Some y)
    with assms flags run_rollback_raises [of env ops y u e t] show ?thesis
      by (auto simp: handle_failure_def bnd_def [of "fetch _"] fetch_def Let_def dest!: finish_recovery_then_raise split: if_splits)
  qed
qed

text \<open>
  C4. A failed deployment that does not ask for recovery has either not begun the migration of
  production, or fails after the new release's traffic was activated.
\<close>

theorem plain_failures_are_early_or_late:
  assumes "run_deployment env ops (fresh_context previous w) = (Inl (Dploy e), s)"
    and "\<not> err_recovery e"
  shows "Began S_migrate \<notin> set (cx_trace s) \<or> cx_traffic_activated s"
  using assms(1)
proof (cases rule: run_deployment_cases)
  case (returned d)
  then show ?thesis by simp
next
  case (failed x u)
  from handle_failure_raises [OF failed(2) assms(2)] failed_flagged [OF failed(1)]
  show ?thesis
    unfolding flagged_iff filter_special_eq(1) [OF handle_failure_lasting(1) [OF failed(2)]]
      handle_failure_lasting(2) [OF failed(2)] by blast
qed

section \<open>A deployment to evaluate on\<close>

definition example_health :: health_result where
  "example_health = \<lparr>hl_readiness = \<lparr>rd_url = ''http://127.0.0.1:8000/health'', rd_healthy = True,
     rd_attempt_count = 1, rd_last_attempt = None, rd_duration = 1, rd_reason = ''ready''\<rparr>,
     hl_smoke = None\<rparr>"

definition example_deploy :: deploy_env where
  "example_deploy = \<lparr>dx_version = ''v2'', dx_operation_id = final_operation_id,
     dx_release_id = example_release_id, dx_operation_log = ''/srv/log'', dx_redact = id,
     dx_utc = (\<lambda>_. ''''), dx_remote_required = False\<rparr>"

text \<open>Dependencies that all succeed, over a world without state.\<close>

definition example_deploy_ops :: "unit deploy_ops" where
  "example_deploy_ops =
     \<lparr>do_append_event = (\<lambda>i msg ev. ret example_event),
      do_transition = (\<lambda>i st stage msg ev sf fl. ret example_operation),
      do_read_operation = (\<lambda>i. ret example_operation),
      do_release_transition = (\<lambda>i st ch. ret example_release),
      do_record_intent = (\<lambda>i m a. ret example_release),
      do_activate_release = (\<lambda>i. ret \<lparr>rp_active_release_id = example_release_id,
        rp_previous_release_id = None, rp_updated_at = 0\<rparr>),
      do_read_release = (\<lambda>i. ret example_release),
      do_read_history = ret \<lparr>hs_releases = [], hs_pointers = None\<rparr>,
      do_pre_cutover = (\<lambda>observe. ret (JObj [])),
      do_discover_current = ret \<lparr>pd_query = example_command, pd_inspection = example_inspection example_handle True\<rparr>,
      do_inspect = (\<lambda>h running. ret (example_inspection h running)),
      do_stop_current = (\<lambda>h. ret example_stop),
      do_start_new = ret \<lparr>pt_handle = example_handle, pt_container_reference = ''web'',
        pt_command = example_command, pt_inspection = example_inspection example_handle True\<rparr>,
      do_collect_logs = (\<lambda>h. ret \<lparr>pl_handle = h, pl_command = example_command\<rparr>),
      do_remove_new = (\<lambda>h. ret \<lparr>pc_presence_query = example_command, pc_remove_command = None,
        pc_compose_down = example_command, pc_proof = \<lparr>cp_container_absent = True, cp_networks_absent = True,
          cp_container_query = example_command, cp_network_query = example_command\<rparr>\<rparr>),
      do_restart_previous = (\<lambda>h. ret \<lparr>pr_handle = h, pr_command = example_command,
        pr_inspection = example_inspection h True, pr_network_refreshes = []\<rparr>),
      do_run_hook = (\<lambda>a. ret example_command),
      do_create_final = (\<lambda>i stopped. ret example_final),
      do_migrate = (\<lambda>i stopped final activated record log. ret \<lparr>mr_operation_id = final_operation_id,
        mr_final_backup_id = final_backup_id, mr_final_backup_sha256 = final_sha, mr_command = example_command,
        mr_sqlite = example_sqlite, mr_completed_at = 0\<rparr>),
      do_restore = (\<lambda>i stopped final activated. ret \<lparr>vr_backup_id = final_backup_id,
        vr_database_path = ''/srv/data/app.db'', vr_size_bytes = 4096, vr_sha256 = final_sha,
        vr_sqlite = example_sqlite, vr_restored_at = 0\<rparr>),
      do_check_application = (\<lambda>v. ret example_health),
      do_verify_sqlite = ret example_sqlite,
      do_replicate = None,
      do_retention = None,
      do_inject = (\<lambda>name. ret ())\<rparr>"

text \<open>The same with an application that does not start, and with an active release that is not stored.\<close>

definition failing_start_ops :: "unit deploy_ops" where
  "failing_start_ops = example_deploy_ops\<lparr>do_start_new := raise (ProductionStartError ''compose failed'' (Some True))\<rparr>"

definition full_disk :: dploydb_error where
  "full_disk = mk_error OperationFailedError ''release state could not be stored'' True (Some False) None ''Free space.''"

definition failing_store_ops :: "unit deploy_ops" where
  "failing_store_ops = example_deploy_ops\<lparr>do_release_transition := (\<lambda>i st ch.
     if st = DS_active then raise (Dploy full_disk) else ret example_release)\<rparr>"

lemmas deploy_eval =
  run_deployment_def deployment_steps_def handle_failure_def rehearse_stage_def resolve_previous_def
  enable_maintenance_def stop_stage_def backup_stage_def migrate_stage_def start_stage_def
  check_stage_def activate_new_traffic_def disable_maintenance_after_activation_def
  complete_active_def post_activation_retention_def replicate_final_backup_def
  run_rollback_def rollback_steps_def cleanup_step_def restore_step_def resume_previous_def
  rollback_hook_def verify_previous_def finish_recovery_required_def
  persist_stage_def release_step_def operation_step_def append_deploy_event_def fault_point_def
  record_hook_def call_hook_def the_previous_def perform_run catching_def on_exception_def
  bnd_def andthen_def ret_def raise_def fetch_def modify_def trace_def lift_result_def Let_def

lemma example_evidence [simp]:
  "hook_passed \<lparr>hr_action = a, hr_command = example_command\<rparr>"
  "hook_summary \<lparr>hr_action = a, hr_command = example_command\<rparr> =
     Inr (summarised_hook \<lparr>hr_action = a, hr_command = example_command\<rparr>)"
  "health_summary example_health role ''v2'' = Inr \<lparr>hv_role = role, hv_version = ''v2'',
     hv_url = ''http://127.0.0.1:8000/health'', hv_readiness_attempts = 1, hv_smoke_succeeded = False\<rparr>"
  "health_summary example_health role ''previous'' = Inr \<lparr>hv_role = role, hv_version = ''previous'',
     hv_url = ''http://127.0.0.1:8000/health'', hv_readiness_attempts = 1, hv_smoke_succeeded = False\<rparr>"
  by (simp_all add: hook_passed_def hook_summary_def summarised_hook_def valid_hook_evidence_def
      example_command_def example_output_def health_summary_def example_health_def valid_health_evidence_def
      Let_def is_version_def is_word_of_def word_like_def is_alnum_def is_lower_def is_digit_def
      length_between_def output_complete_def)

lemma example_deploy_simps [simp]:
  "dx_remote_required example_deploy = False" "dx_version example_deploy = ''v2''"
  "ah_version example_handle = None" "err_changed full_disk" "\<not> err_recovery full_disk"
  by (simp_all add: example_deploy_def example_handle_def full_disk_def mk_error_def)

lemma failing_start_run:
  "case run_deployment example_deploy failing_start_ops (fresh_context (Some example_handle) ()) of
     (r, s) \<Rightarrow> r = Inr \<lparr>dr_release = example_release, dr_operation = example_operation\<rparr> \<and>
       Began S_restore \<in> set (cx_trace s) \<and> Began S_migrate \<in> set (cx_trace s)"
  by (simp add: deploy_eval failing_start_ops_def example_deploy_ops_def fresh_context_def
      normalize_deployment_error_def deploy_error_def mk_error_def require_complete_logs_def ensure_def
      failure_record_of_def failure_record_ok_def length_between_def or_else_def example_deploy_def)

lemma failing_store_run:
  "case run_deployment example_deploy failing_store_ops (fresh_context (Some example_handle) ()) of
     (r, s) \<Rightarrow> r = Inl (Dploy full_disk) \<and> cx_traffic_activated s \<and>
       Done (S_operation OS_recovery_required ''recovery_required'') \<in> set (cx_trace s) \<and>
       Began S_migrate \<in> set (cx_trace s)"
  by (simp add: deploy_eval failing_store_ops_def example_deploy_ops_def fresh_context_def
      normalize_deployment_error_def require_complete_logs_def ensure_def
      failure_record_of_def failure_record_ok_def length_between_def full_disk_def mk_error_def example_deploy_def
      example_operation_def example_release_def new_release_def)

theorem deployment_order_witness:
  "\<exists>s. run_deployment example_deploy failing_start_ops (fresh_context (Some example_handle) ()) =
       (Inr \<lparr>dr_release = example_release, dr_operation = example_operation\<rparr>, s) \<and>
     (\<exists>n rest. crit s = take n (calls (deployment_protocol False)) @ rest \<and> set rest \<subseteq> rollback_calls)"
  using failing_start_run deployment_order [of example_deploy failing_start_ops "Some example_handle" "()"]
  by (auto split: prod.splits)

theorem restore_only_before_activation_witness:
  "\<exists>s. Began S_restore \<in> set (cx_trace (s :: unit deploy_context)) \<and> activation_ruled_out (cx_trace s)"
  using failing_start_run
    restore_only_before_activation [of example_deploy failing_start_ops "Some example_handle" "()"]
  by (auto split: prod.splits)

theorem returned_deployments_witness:
  "\<exists>s. run_deployment example_deploy failing_start_ops (fresh_context (Some example_handle) ()) =
       (Inr \<lparr>dr_release = example_release, dr_operation = example_operation\<rparr>, s) \<and>
     Began S_migrate \<in> set (cx_trace s) \<and>
     (crit s = calls (deployment_protocol False) \<or>
      (\<exists>n new changed. crit s = take n (calls (deployment_protocol False)) @
         calls (rollback_protocol new changed) \<and> (Began S_migrate \<in> set (cx_trace s) \<longrightarrow> changed)))"
  using failing_start_run
    returned_deployments [of example_deploy failing_start_ops "Some example_handle" "()"]
  by (fastforce split: prod.splits)

theorem plain_failures_are_early_or_late_witness:
  "\<exists>s. run_deployment example_deploy failing_store_ops (fresh_context (Some example_handle) ()) =
       (Inl (Dploy full_disk), s) \<and> \<not> err_recovery full_disk \<and>
     Done (S_operation OS_recovery_required ''recovery_required'') \<in> set (cx_trace s) \<and>
     (Began S_migrate \<notin> set (cx_trace s) \<or> cx_traffic_activated s)"
  using failing_store_run
    plain_failures_are_early_or_late [of example_deploy failing_store_ops "Some example_handle" "()" full_disk]
  by (auto split: prod.splits)

end
