(* ===== verification/Locking.thy ===== *)
theory Locking
  imports Files Commands
begin

text \<open>
  The deployment lock (\<^verbatim>\<open>dploydb/locking.py\<close>): an exclusive kernel lock on a file, and beside it a
  durable record of who holds it. The kernel lock decides who may run; the record is evidence.
  A process that dies loses the lock and leaves its record, which no later holder replaces
  without naming it. A descriptor is a process and a number, so that two processes never share
  one; the operations of a process run under a schedule of system calls.
\<close>

section \<open>Files, processes and errors\<close>

record lock_files =
  lf_directory :: root_state
  lf_lock :: "unit disk_file option"
  lf_link_resolves :: bool
  lf_holder :: "(nat \<times> nat) option"
  lf_owner :: "lock_owner_metadata slot"

record lock_client =
  lc_descriptor :: "(nat \<times> nat) option"
  lc_acquired_at :: "int option"
  lc_owner :: "lock_owner_metadata option"
  lc_previous_owner :: "lock_owner_metadata option"

record lock_view =
  lv_client :: lock_client
  lv_files :: lock_files

record lock_env =
  le_path :: string
  le_redact :: "string \<Rightarrow> string"
  le_utc :: "int \<Rightarrow> string"
  le_owner_size :: "lock_owner_metadata \<Rightarrow> nat"

type_synonym 'a lock_act = "(lock_view osys, exn, 'a) act"

definition max_owner_bytes :: nat where "max_owner_bytes = 65536"

definition new_client :: lock_client where
  "new_client = \<lparr>lc_descriptor = None, lc_acquired_at = None, lc_owner = None, lc_previous_owner = None\<rparr>"

definition lock_path :: "lock_env \<Rightarrow> string" where
  "lock_path env = le_path env @ ''/deployment.lock''"

definition owner_path :: "lock_env \<Rightarrow> string" where
  "owner_path env = le_path env @ ''/deployment-lock-owner.json''"

definition lock_safety_error :: "lock_env \<Rightarrow> string \<Rightarrow> string \<Rightarrow> exn" where
  "lock_safety_error env detail path =
     Dploy (mk_error SafetyCheckError (le_redact env detail) False None (Some (le_redact env path))
       ''Correct the lock path safety problem before retrying.'')"

definition lock_recovery_error :: "lock_env \<Rightarrow> string \<Rightarrow> string \<Rightarrow> exn" where
  "lock_recovery_error env detail path =
     Dploy (mk_error RecoveryRequiredError (le_redact env detail) True None (Some (le_redact env path))
       ''Preserve the lock metadata and inspect the recorded operation before retrying.'')"

definition contention_error :: "lock_env \<Rightarrow> lock_owner_metadata option \<Rightarrow> exn" where
  "contention_error env owner =
     Dploy (mk_error LockUnavailableError
       (le_redact env (''Another DployDB operation holds the deployment lock.'' @
          (case owner of None \<Rightarrow> ''''
           | Some m \<Rightarrow> '' Owner operation: '' @ lo_operation_id m @ ''; PID: '' @
               int_text (pi_pid (lo_process m)) @ ''; host: '' @ pi_hostname (lo_process m) @ ''.'')))
       False None (Some (le_redact env (owner_path env)))
       (''Wait for the active operation to finish. If it does not, preserve the owner '' @
        ''metadata and inspect operation state; do not delete the lock file.''))"

definition runtime_error :: "string \<Rightarrow> exn" where
  "runtime_error msg = PyException ''RuntimeError'' msg"

text \<open>Four octal digits, as in the format \<^verbatim>\<open>04o\<close>; permission bits need no more.\<close>

definition octal_digit :: "nat \<Rightarrow> char" where
  "octal_digit n = ''01234567'' ! (n mod 8)"

definition mode_text :: "nat \<Rightarrow> string" where
  "mode_text n = map octal_digit [n div 512, n div 64, n div 8, n]"

text \<open>\<^verbatim>\<open>except BaseException\<close>: the handler runs unless the process is gone.\<close>

definition on_failure :: "('s, exn, 'a) act \<Rightarrow> (exn \<Rightarrow> ('s, exn, 'a) act) \<Rightarrow> ('s, exn, 'a) act" where
  "on_failure m h = catching m (\<lambda>e. if e = killed then raise e else h e)"

definition client :: "lock_view osys \<Rightarrow> lock_client" where
  "client s = lv_client (os_world s)"

definition files :: "lock_view osys \<Rightarrow> lock_files" where
  "files s = lv_files (os_world s)"

definition set_client :: "(lock_client \<Rightarrow> lock_client) \<Rightarrow> unit lock_act" where
  "set_client f = modify (\<lambda>s. s\<lparr>os_world := (os_world s)\<lparr>lv_client := f (lv_client (os_world s))\<rparr>\<rparr>)"

definition lock_call :: "schedule \<Rightarrow> (lock_files \<Rightarrow> lock_files) \<Rightarrow> unit lock_act" where
  "lock_call sc f = syscall sc (\<lambda>v. v\<lparr>lv_files := f (lv_files v)\<rparr>)"

definition hold :: "nat \<times> nat \<Rightarrow> lock_files \<Rightarrow> lock_files" where
  "hold d f = f\<lparr>lf_holder := Some d\<rparr>"

definition let_go :: "nat \<times> nat \<Rightarrow> lock_files \<Rightarrow> lock_files" where
  "let_go d f = (if lf_holder f = Some d then f\<lparr>lf_holder := None\<rparr> else f)"

section \<open>The owner record\<close>

definition read_owner :: "lock_env \<Rightarrow> lock_files \<Rightarrow> lock_owner_metadata option result" where
  "read_owner env f =
    (let bad = (\<lambda>detail. Inl (lock_recovery_error env
           (''deployment lock owner metadata is invalid or unreadable: '' @ detail) (owner_path env)));
         fits = (\<lambda>n. 0 < n \<and> n \<le> max_owner_bytes)
     in case sl_target (lf_owner f) of
       None \<Rightarrow> Inr None
     | Some g \<Rightarrow>
        (if f_kind g = FK_symlink
         then Inl (lock_recovery_error env ''refusing symlinked deployment lock owner metadata'' (owner_path env))
         else if f_kind g \<noteq> FK_regular \<or> f_mode g \<noteq> file_mode
         then bad (''lock owner metadata must be a mode-0600 regular file, found '' @ mode_text (f_mode g))
         else case f_content g of
           Whole m \<Rightarrow>
             (if \<not> fits (le_owner_size env m) then bad ''lock owner metadata has an invalid size''
              else if \<not> valid_lock_owner m then bad '''' else Inr (Some m))
         | Partial n \<Rightarrow>
             (if \<not> fits n then bad ''lock owner metadata has an invalid size''
              else bad ''lock owner metadata is truncated'')
         | Garbage \<Rightarrow> bad ''''))"

definition owner_state_value :: "lock_owner_state \<Rightarrow> string" where
  "owner_state_value st = (case st of LO_active \<Rightarrow> ''active'' | LO_released \<Rightarrow> ''released'')"

text \<open>
  The record is redacted as JSON, every text of it, and read back before it is written: a
  redaction that destroys a text with a fixed form raises.
\<close>

definition redact_owner :: "(string \<Rightarrow> string) \<Rightarrow> lock_owner_metadata \<Rightarrow> lock_owner_metadata" where
  "redact_owner red m = m\<lparr>
     lo_owner_id := red (lo_owner_id m), lo_operation_id := red (lo_operation_id m),
     lo_operation_type := red (lo_operation_type m),
     lo_process := (lo_process m)\<lparr>pi_hostname := red (pi_hostname (lo_process m))\<rparr>\<rparr>"

definition owner_forms_kept :: "lock_env \<Rightarrow> lock_owner_metadata \<Rightarrow> bool" where
  "owner_forms_kept env m \<longleftrightarrow>
     le_redact env (owner_state_value (lo_state m)) = owner_state_value (lo_state m) \<and>
     le_redact env (le_utc env (lo_acquired_at m)) = le_utc env (lo_acquired_at m) \<and>
     option_all (\<lambda>t. le_redact env (le_utc env t) = le_utc env t) (lo_released_at m)"

definition persisted_owner :: "lock_env \<Rightarrow> lock_owner_metadata \<Rightarrow> lock_owner_metadata result" where
  "persisted_owner env m =
    (let p = redact_owner (le_redact env) (stored_lock_owner m)
     in if owner_forms_kept env p \<and> valid_lock_owner p then Inr p else Inl validation_error)"

definition put_owner :: "lock_owner_metadata slot \<Rightarrow> lock_view \<Rightarrow> lock_view" where
  "put_owner sl v = v\<lparr>lv_files := (lv_files v)\<lparr>lf_owner := sl\<rparr>\<rparr>"

definition write_owner ::
  "lock_env \<Rightarrow> schedule \<Rightarrow> string \<Rightarrow> lock_owner_metadata \<Rightarrow> lock_owner_metadata lock_act" where
  "write_owner env sc u m =
     bnd (lift_result (persisted_owner env m)) (\<lambda>p.
     if le_owner_size env p > max_owner_bytes
     then raise (value_error ''serialized lock owner metadata exceeds the size limit'')
     else bnd (fetch (\<lambda>s. sl_target (lf_owner (files s)))) (\<lambda>target.
     if (case target of None \<Rightarrow> False | Some g \<Rightarrow> f_kind g = FK_symlink)
     then raise (lock_recovery_error env ''refusing symlinked deployment lock owner metadata'' (owner_path env))
     else andthen
       (in_slot (lf_owner \<circ> lv_files) put_owner
         (atomic_write False sc u (\<lambda>replaced.
            if replaced
            then lock_recovery_error env ''lock owner metadata was replaced but its directory sync failed''
                   (owner_path env)
            else lock_safety_error env ''lock owner metadata could not be written atomically: ''
                   (owner_path env))
           p (le_owner_size env p)))
       (ret p)))"

section \<open>Taking the lock\<close>

definition check_lock_file :: "lock_env \<Rightarrow> unit disk_file \<Rightarrow> unit result" where
  "check_lock_file env g =
    (if f_kind g = FK_symlink
     then Inl (lock_safety_error env (''refusing symlinked managed lock path: '' @ lock_path env) (lock_path env))
     else ensure (f_kind g = FK_regular \<and> f_mode g = file_mode)
       (lock_safety_error env
         (''deployment lock must be a mode-0600 regular file, found '' @ mode_text (f_mode g)) (lock_path env)))"

definition ensure_lock_layout :: "lock_env \<Rightarrow> schedule \<Rightarrow> unit lock_act" where
  "ensure_lock_layout env sc =
    (let bad = (\<lambda>detail. lock_safety_error env detail (le_path env))
     in bnd (fetch (\<lambda>s. lf_directory (files s))) (\<lambda>d.
        ensure_directory sc (lf_directory \<circ> lv_files)
          (\<lambda>d v. v\<lparr>lv_files := (lv_files v)\<lparr>lf_directory := d\<rparr>\<rparr>)
          (bad (''refusing symlinked managed lock path: '' @ le_path env))
          (bad ''state directory could not be created for locking: '')
          (bad ''state directory could not be inspected for locking: '')
          (bad (''state directory must be a mode-0700 directory, found '' @
            mode_text (case d of Root_entry _ mode \<Rightarrow> mode | _ \<Rightarrow> directory_mode)))))"

text \<open>
  Opening the lock file creates it when it is missing; then its mode is set and the directory
  synchronised.
\<close>

definition open_lock :: "lock_env \<Rightarrow> schedule \<Rightarrow> unit lock_act" where
  "open_lock env sc =
    (let failed = lock_safety_error env ''deployment lock file could not be opened safely: '' (lock_path env);
         create = (\<lambda>f. f\<lparr>lf_lock := Some (private_file ())\<rparr>)
     in bnd (fetch (\<lambda>s. lf_lock (files s))) (\<lambda>existing. case existing of
          Some g \<Rightarrow> andthen (lift_result (check_lock_file env g))
            (on_os_error (lock_call sc id) (raise failed))
        | None \<Rightarrow> andthen (on_os_error (lock_call sc create) (raise failed))
            (on_os_error (andthen (lock_call sc id) (lock_call sc id))
              (andthen (ignoring (lock_call sc id)) (raise failed)))))"

text \<open>A non-blocking exclusive lock: whether it was obtained.\<close>

definition flock :: "schedule \<Rightarrow> nat \<times> nat \<Rightarrow> bool lock_act" where
  "flock sc d = bnd (fetch (\<lambda>s. lf_holder (files s))) (\<lambda>h.
     if h = None then andthen (lock_call sc (hold d)) (ret True)
     else andthen (lock_call sc id) (ret False))"

definition unlock_and_close :: "schedule \<Rightarrow> nat \<times> nat \<Rightarrow> string list lock_act" where
  "unlock_and_close sc d =
     bnd (on_os_error (andthen (lock_call sc (let_go d)) (ret []))
            (ret [''deployment lock could not be explicitly unlocked: ''])) (\<lambda>unlocked.
     bnd (on_os_error (andthen (lock_call sc (let_go d)) (ret []))
            (ret [''deployment lock descriptor could not be closed: ''])) (\<lambda>closed.
     ret (unlocked @ closed)))"

definition aware_time :: "py_datetime \<Rightarrow> int result" where
  "aware_time now = (case now of
      Aware t \<Rightarrow> Inr t
    | Naive _ \<Rightarrow> Inl (value_error ''lock clock must return a timezone-aware timestamp''))"

definition best_effort :: "'a option result \<Rightarrow> 'a option" where
  "best_effort r = (case r of Inr x \<Rightarrow> x | Inl _ \<Rightarrow> None)"

definition take_lock :: "lock_env \<Rightarrow> schedule \<Rightarrow> nat \<times> nat \<Rightarrow> py_datetime \<Rightarrow> unit lock_act" where
  "take_lock env sc d now =
     bnd (on_os_error (flock sc d)
            (raise (lock_safety_error env ''deployment lock could not be acquired: '' (lock_path env)))) (\<lambda>got.
     if \<not> got
     then bnd (fetch (\<lambda>s. read_owner env (files s))) (\<lambda>owner. raise (contention_error env (best_effort owner)))
     else bnd (fetch (\<lambda>s. read_owner env (files s))) (\<lambda>owner. case owner of
         Inl e \<Rightarrow> andthen (unlock_and_close sc d) (raise e)
       | Inr previous \<Rightarrow>
          bnd (lift_result (aware_time now)) (\<lambda>since.
          set_client (\<lambda>c. c\<lparr>lc_descriptor := Some d, lc_acquired_at := Some since,
            lc_previous_owner := previous, lc_owner := None\<rparr>))))"

definition acquire :: "lock_env \<Rightarrow> schedule \<Rightarrow> nat \<times> nat \<Rightarrow> py_datetime \<Rightarrow> unit lock_act" where
  "acquire env sc d now =
     bnd (fetch client) (\<lambda>c.
     if lc_descriptor c \<noteq> None then raise (runtime_error ''deployment lock instance is already acquired'')
     else andthen (ensure_lock_layout env sc)
         (andthen (open_lock env sc)
           (on_failure (take_lock env sc d now)
             (\<lambda>e. andthen (ignoring (lock_call sc (let_go d))) (raise e)))))"

section \<open>Recording the owner\<close>

definition acknowledged :: "lock_env \<Rightarrow> lock_owner_metadata option \<Rightarrow> string option \<Rightarrow> unit result" where
  "acknowledged env current replace = (case current of
      Some m \<Rightarrow>
       (if lo_state m = LO_active
        then ensure (replace = Some (lo_owner_id m))
          (lock_recovery_error env ''stale lock-owner evidence requires explicit owner-token acknowledgement''
            (owner_path env))
        else ensure (replace = None)
          (value_error ''replace_stale_owner_id was supplied without stale owner metadata''))
    | None \<Rightarrow> ensure (replace = None)
        (value_error ''replace_stale_owner_id was supplied without stale owner metadata''))"

definition record_owner ::
  "lock_env \<Rightarrow> schedule \<Rightarrow> string \<Rightarrow> string \<Rightarrow> string \<Rightarrow> string \<Rightarrow> process_identity \<Rightarrow> string option \<Rightarrow>
   lock_owner_metadata lock_act"
where
  "record_owner env sc uuid u operation_id operation_type process replace =
     bnd (fetch client) (\<lambda>c. case (lc_descriptor c, lc_acquired_at c) of
       (Some d, Some since) \<Rightarrow>
        (if lc_owner c \<noteq> None then raise (runtime_error ''this lock instance already recorded its owner'')
         else bnd (fetch (\<lambda>s. read_owner env (files s))) (\<lambda>stored.
              bnd (lift_result stored) (\<lambda>current.
              if current \<noteq> lc_previous_owner c
              then raise (lock_recovery_error env
                ''deployment lock owner metadata changed while the kernel lock was held'' (owner_path env))
              else andthen (lift_result (acknowledged env current replace))
               (let owner = \<lparr>lo_owner_id = ''lock_'' @ uuid, lo_operation_id = operation_id,
                      lo_operation_type = operation_type, lo_process = process, lo_state = LO_active,
                      lo_acquired_at = since, lo_released_at = None\<rparr>
                in if \<not> valid_lock_owner owner then raise validation_error
                   else bnd (write_owner env sc u owner) (\<lambda>p.
                        andthen (set_client (\<lambda>c. c\<lparr>lc_owner := Some p\<rparr>)) (ret p))))))
     | _ \<Rightarrow> raise (runtime_error ''the kernel lock must be held before recording an owner''))"

section \<open>Releasing\<close>

definition not_before :: "int \<Rightarrow> py_datetime \<Rightarrow> int result" where
  "not_before previous now =
     rbind (aware_time now) (\<lambda>t. if t < previous then Inl (value_error ''lock clock moved backwards'') else Inr t)"

definition finalize_owner :: "lock_env \<Rightarrow> schedule \<Rightarrow> string \<Rightarrow> py_datetime \<Rightarrow> unit lock_act" where
  "finalize_owner env sc u now =
     bnd (fetch (\<lambda>s. lc_owner (client s))) (\<lambda>mine. case mine of
       None \<Rightarrow> ret ()
     | Some own \<Rightarrow>
        bnd (fetch (\<lambda>s. read_owner env (files s))) (\<lambda>stored.
        bnd (lift_result stored) (\<lambda>found.
        case found of
          None \<Rightarrow> raise (lock_recovery_error env
            ''deployment lock owner metadata no longer matches its holder'' (owner_path env))
        | Some current \<Rightarrow>
           if lo_owner_id current \<noteq> lo_owner_id own
           then raise (lock_recovery_error env
             ''deployment lock owner metadata no longer matches its holder'' (owner_path env))
           else if lo_state current \<noteq> LO_active
           then raise (lock_recovery_error env
             ''deployment lock owner was not active during release'' (owner_path env))
           else bnd (lift_result (not_before (lo_acquired_at current) now)) (\<lambda>t.
             let released = stored_lock_owner (current\<lparr>lo_state := LO_released, lo_released_at := Some t\<rparr>)
             in if \<not> valid_lock_owner released then raise validation_error
                else bnd (write_owner env sc u released) (\<lambda>p.
                     set_client (\<lambda>c. c\<lparr>lc_owner := Some p\<rparr>))))))"

definition attempt :: "unit lock_act \<Rightarrow> exn option lock_act" where
  "attempt m = on_failure (andthen m (ret None)) (\<lambda>e. ret (Some e))"

fun join_details :: "string list \<Rightarrow> string" where
  "join_details [] = ''''"
| "join_details [d] = d"
| "join_details (d # ds) = d @ ''; '' @ join_details ds"

definition release :: "lock_env \<Rightarrow> schedule \<Rightarrow> string \<Rightarrow> py_datetime \<Rightarrow> unit lock_act" where
  "release env sc u now =
     bnd (fetch (\<lambda>s. lc_descriptor (client s))) (\<lambda>held. case held of
       None \<Rightarrow> ret ()
     | Some d \<Rightarrow>
        bnd (attempt (finalize_owner env sc u now)) (\<lambda>problem.
        bnd (unlock_and_close sc d) (\<lambda>errors.
        andthen (set_client (\<lambda>c. c\<lparr>lc_descriptor := None, lc_acquired_at := None\<rparr>))
         (case problem of
            Some e \<Rightarrow> raise e
          | None \<Rightarrow>
             if errors \<noteq> [] then raise (lock_recovery_error env (join_details errors) (lock_path env))
             else ret ()))))"

section \<open>Inspecting\<close>

datatype lock_inspection_state = LI_idle | LI_active | LI_stale_owner | LI_recovery_required

record lock_inspection =
  li_state :: lock_inspection_state
  li_held :: bool
  li_owner :: "lock_owner_metadata option"
  li_metadata_error :: "string option"

definition error_text :: "exn \<Rightarrow> string" where
  "error_text x = (case x of Dploy e \<Rightarrow> err_what e | _ \<Rightarrow> describe_exn x)"

definition inspection_recovery :: "exn \<Rightarrow> lock_inspection" where
  "inspection_recovery x = \<lparr>li_state = LI_recovery_required, li_held = False, li_owner = None,
     li_metadata_error = Some (error_text x)\<rparr>"

definition classify_available :: "lock_env \<Rightarrow> lock_files \<Rightarrow> lock_inspection" where
  "classify_available env f = (case read_owner env f of
      Inl x \<Rightarrow> inspection_recovery x
    | Inr owner \<Rightarrow>
       \<lparr>li_state = (case owner of
           Some m \<Rightarrow> if lo_state m = LO_active then LI_stale_owner else LI_idle | None \<Rightarrow> LI_idle),
        li_held = False, li_owner = owner, li_metadata_error = None\<rparr>)"

definition inspect_held :: "lock_env \<Rightarrow> lock_files \<Rightarrow> lock_inspection" where
  "inspect_held env f = (case read_owner env f of
      Inl x \<Rightarrow> \<lparr>li_state = LI_active, li_held = True, li_owner = None, li_metadata_error = Some (error_text x)\<rparr>
    | Inr owner \<Rightarrow> \<lparr>li_state = LI_active, li_held = True, li_owner = owner, li_metadata_error = None\<rparr>)"

text \<open>The probe holds the lock for a moment when it is free, and lets it go again.\<close>

definition probe_lock :: "lock_env \<Rightarrow> schedule \<Rightarrow> nat \<times> nat \<Rightarrow> lock_inspection lock_act" where
  "probe_lock env sc d =
     bnd (on_os_error (bnd (flock sc d) (\<lambda>got. fetch (\<lambda>s.
            if got then classify_available env (files s) else inspect_held env (files s))))
          (ret (inspection_recovery (lock_recovery_error env ''deployment lock probe failed: '' (lock_path env)))))
       (\<lambda>seen.
     andthen (ignoring (lock_call sc (let_go d)))
    (andthen (ignoring (lock_call sc (let_go d)))
     (ret seen)))"

definition inspect_lock :: "lock_env \<Rightarrow> schedule \<Rightarrow> nat \<times> nat \<Rightarrow> lock_inspection lock_act" where
  "inspect_lock env sc d =
     bnd (fetch files) (\<lambda>f. case lf_directory f of
       Root_symlink \<Rightarrow>
         ret (inspection_recovery (lock_recovery_error env ''state directory is a symlink'' (le_path env)))
     | Root_missing \<Rightarrow>
         ret \<lparr>li_state = LI_idle, li_held = False, li_owner = None, li_metadata_error = None\<rparr>
     | Root_entry is_dir mode \<Rightarrow>
        if \<not> (is_dir \<and> mode = directory_mode)
        then ret (inspection_recovery (lock_safety_error env
          (''state directory must be a mode-0700 directory, found '' @ mode_text mode) (le_path env)))
        else case lf_lock f of
          None \<Rightarrow> ret (classify_available env f)
        | Some g \<Rightarrow>
           if f_kind g = FK_symlink \<and> \<not> lf_link_resolves f
           then ret (inspection_recovery (lock_recovery_error env ''deployment lock path is a symlink'' (lock_path env)))
           else case check_lock_file env g of
             Inl x \<Rightarrow> ret (inspection_recovery x)
           | Inr _ \<Rightarrow>
              bnd (on_os_error (andthen (lock_call sc id) (ret True)) (ret False)) (\<lambda>opened.
              if opened then probe_lock env sc d
              else ret (inspection_recovery (lock_recovery_error env
                ''deployment lock could not be inspected safely: '' (lock_path env)))))"

section \<open>Processes that share the files\<close>

record lock_system =
  sy_files :: lock_files
  sy_client :: "nat \<Rightarrow> lock_client"

text \<open>A process that dies loses its memory, and the kernel closes its descriptors.\<close>

definition close_process :: "nat \<Rightarrow> lock_files \<Rightarrow> lock_files" where
  "close_process i f =
    (case lf_holder f of
       Some d \<Rightarrow> if fst d = i then f\<lparr>lf_holder := None\<rparr> else f
     | None \<Rightarrow> f)"

definition crash :: "nat \<Rightarrow> lock_system \<Rightarrow> lock_system" where
  "crash i s = \<lparr>sy_files = close_process i (sy_files s), sy_client = (sy_client s)(i := new_client)\<rparr>"

definition lock_view_of :: "nat \<Rightarrow> lock_system \<Rightarrow> lock_view osys" where
  "lock_view_of i s = \<lparr>os_calls = 0, os_world = \<lparr>lv_client = sy_client s i, lv_files = sy_files s\<rparr>\<rparr>"

definition run_process :: "nat \<Rightarrow> 'a lock_act \<Rightarrow> lock_system \<Rightarrow> lock_system" where
  "run_process i m s =
    (case m (lock_view_of i s) of (r, t) \<Rightarrow>
      (let s' = \<lparr>sy_files = files t, sy_client = (sy_client s)(i := client t)\<rparr>
       in if r = Inl killed then crash i s' else s'))"

datatype lock_request =
    Acquire nat py_datetime
  | Record_owner string string string string process_identity "string option"
  | Release string py_datetime
  | Inspect nat
  | Crash

fun serve :: "lock_env \<Rightarrow> schedule \<Rightarrow> nat \<Rightarrow> lock_request \<Rightarrow> lock_system \<Rightarrow> lock_system" where
  "serve env sc i (Acquire d now) s = run_process i (acquire env sc (i, d) now) s"
| "serve env sc i (Record_owner uuid u oid ty p ack) s =
     run_process i (record_owner env sc uuid u oid ty p ack) s"
| "serve env sc i (Release u now) s = run_process i (release env sc u now) s"
| "serve env sc i (Inspect d) s = run_process i (inspect_lock env sc (i, d)) s"
| "serve env sc i Crash s = crash i s"

text \<open>A newly opened descriptor is not the one that has the lock.\<close>

definition fresh_descriptor :: "nat \<Rightarrow> lock_request \<Rightarrow> lock_system \<Rightarrow> bool" where
  "fresh_descriptor i req s \<longleftrightarrow> (case req of
      Acquire d _ \<Rightarrow> lf_holder (sy_files s) \<noteq> Some (i, d)
    | Inspect d \<Rightarrow> lf_holder (sy_files s) \<noteq> Some (i, d)
    | _ \<Rightarrow> True)"

inductive lock_step :: "lock_env \<Rightarrow> lock_system \<Rightarrow> lock_system \<Rightarrow> bool" for env where
  step: "fresh_descriptor i req s \<Longrightarrow> lock_step env s (serve env sc i req s)"

text \<open>No process has the lock.\<close>

definition at_rest :: "lock_system \<Rightarrow> bool" where
  "at_rest s \<longleftrightarrow> lf_holder (sy_files s) = None \<and> (\<forall>i. sy_client s i = new_client)"

section \<open>Calls on the shared files\<close>

abbreviation viewed :: "(lock_client \<Rightarrow> lock_files \<Rightarrow> bool) \<Rightarrow> lock_view osys \<Rightarrow> bool" where
  "viewed P s \<equiv> P (client s) (files s)"

lemma triple_lock_call:
  assumes "\<And>c f. P c f \<Longrightarrow> Q c (g f)"
  shows "triple (viewed P) (lock_call sc g) (\<lambda>_. viewed Q) (\<lambda>e s. os_raised e \<and> viewed P s)"
  unfolding lock_call_def client_def files_def
  by (rule triple_weaken [OF triple_syscall_step [where I = "\<lambda>v. P (lv_client v) (lv_files v)"
        and J = "\<lambda>v. Q (lv_client v) (lv_files v)"]]) (auto simp: assms)

lemma lock_call_cases:
  assumes "lock_call sc g s = (r, t)"
  obtains (works) "r = Inr ()" "client t = client s" "files t = g (files s)"
  | (fails) e where "r = Inl e" "os_raised e" "client t = client s" "files t = files s"
  using assms by (cases "sc (os_calls s)")
    (auto simp: lock_call_def syscall_def next_call_def client_def files_def)

lemma keeps_lock_call: "(\<And>c f. P c f \<Longrightarrow> P c (g f)) \<Longrightarrow> keeps (viewed P) (lock_call sc g)"
  by (rule keepsI, erule lock_call_cases) simp_all

lemma keeps_ignoring [keeping]: "keeps I m \<Longrightarrow> keeps I (ignoring m)"
  unfolding ignoring_def by (intro keeps_on_os_error keeps_simple)

lemma keeps_on_failure [keeping]: "keeps I m \<Longrightarrow> (\<And>e. keeps I (h e)) \<Longrightarrow> keeps I (on_failure m h)"
  unfolding on_failure_def by (intro keeps_catching keeps_if keeps_simple)

lemma keeps_set_client: "(\<And>c f. P c f \<Longrightarrow> P (g c) f) \<Longrightarrow> keeps (viewed P) (set_client g)"
  unfolding set_client_def client_def files_def by (rule keeps_modify) simp

lemma triple_set_client: "triple (viewed (\<lambda>c f. Q (g c) f)) (set_client g) (\<lambda>_. viewed Q) E"
  by (simp add: triple_def set_client_def modify_def client_def files_def)

lemma keeps_let_go: "(\<And>c f. P c f \<Longrightarrow> lf_holder f = Some d \<Longrightarrow> P c (f\<lparr>lf_holder := None\<rparr>)) \<Longrightarrow>
    keeps (viewed P) (lock_call sc (let_go d))"
  by (rule keeps_lock_call) (simp add: let_go_def)

lemma keeps_unlock_and_close:
  "(\<And>c f. P c f \<Longrightarrow> lf_holder f = Some d \<Longrightarrow> P c (f\<lparr>lf_holder := None\<rparr>)) \<Longrightarrow>
    keeps (viewed P) (unlock_and_close sc d)"
  unfolding unlock_and_close_def
  by (intro keeps_bnd keeps_on_os_error keeps_andthen keeps_let_go keeps_simple) auto

lemma flock_cases:
  assumes "flock sc d s = (r, t)"
  obtains (got) "r = Inr True" "lf_holder (files s) = None" "client t = client s" "files t = hold d (files s)"
  | (held) "r = Inr False" "lf_holder (files s) \<noteq> None" "client t = client s" "files t = files s"
  | (fails) e where "r = Inl e" "os_raised e" "client t = client s" "files t = files s"
proof (cases "lf_holder (files s) = None")
  case True
  obtain q u where q: "lock_call sc (hold d) s = (q, u)" by fastforce
  show ?thesis using assms True fails got q
    by (cases rule: lock_call_cases [OF q]) (auto simp: flock_def bnd_def andthen_def fetch_def ret_def)
next
  case False
  obtain q u where q: "lock_call sc id s = (q, u)" by fastforce
  show ?thesis using assms False fails held q
    by (cases rule: lock_call_cases [OF q]) (auto simp: flock_def bnd_def andthen_def fetch_def ret_def)
qed

lemma keeps_flock:
  "(\<And>c f. P c f \<Longrightarrow> lf_holder f = None \<Longrightarrow> P c (f\<lparr>lf_holder := Some d\<rparr>)) \<Longrightarrow> keeps (viewed P) (flock sc d)"
  by (rule keepsI, erule flock_cases) (simp_all add: hold_def)

text \<open>Writing the owner record.\<close>

lemma triple_put_owner:
  assumes "0 < le_owner_size env p"
  shows "triple (\<lambda>s. client s = c \<and> files s = f)
     (in_slot (lf_owner \<circ> lv_files) put_owner (atomic_write False sc u err p (le_owner_size env p)))
     (\<lambda>_ s. client s = c \<and> (\<exists>sl. files s = f\<lparr>lf_owner := sl\<rparr> \<and> sl_target sl = Some (private_file (Whole p))))
     (\<lambda>e s. (e = err False \<or> e = err True \<or> e = killed) \<and> client s = c \<and> (\<exists>sl. files s = f\<lparr>lf_owner := sl\<rparr>))"
  apply (rule triple_weaken [OF triple_in_slot [where w = "\<lparr>lv_client = c, lv_files = f\<rparr>", OF
      triple_weaken [OF triple_atomic_write [OF assms, of "lf_owner f" False sc u err], where
        Q' = "\<lambda>_ s. sl_target (os_world s) = Some (private_file (Whole p))" and
        E' = "\<lambda>e s. e = err False \<or> e = err True \<or> e = killed"]]])
        apply (auto simp: client_def files_def put_owner_def published_def)
  done

lemma triple_raiseI: "(\<And>s. P s \<Longrightarrow> E e s) \<Longrightarrow> triple P (raise e) Q E"
  by (simp add: triple_def raise_def)

lemma triple_retI: "(\<And>s. P s \<Longrightarrow> Q x s) \<Longrightarrow> triple P (ret x) Q E"
  by (simp add: triple_def ret_def)

lemma triple_write_owner:
  assumes "\<And>m. 0 < le_owner_size env m"
  shows "triple (\<lambda>s. client s = c \<and> files s = f) (write_owner env sc u m)
     (\<lambda>p s. client s = c \<and> persisted_owner env m = Inr p \<and> le_owner_size env p \<le> max_owner_bytes \<and>
        (\<exists>sl. files s = f\<lparr>lf_owner := sl\<rparr> \<and> sl_target sl = Some (private_file (Whole p))))
     (\<lambda>e s. client s = c \<and> (\<exists>sl. files s = f\<lparr>lf_owner := sl\<rparr>))"
proof -
  have same: "\<exists>sl. f = f\<lparr>lf_owner := sl\<rparr>" by (rule exI [of _ "lf_owner f"]) simp
  show ?thesis
    unfolding write_owner_def
    apply (rule triple_lift_bnd, use same in blast)
    apply (rule triple_if, rule triple_raiseI, use same in blast)
    apply (rule triple_fetch_bnd)
    apply (rule triple_if, rule triple_raiseI, use same in blast)
    subgoal for p
      by (rule triple_andthen [where R = "\<lambda>s. client s = c \<and>
            (\<exists>sl. files s = f\<lparr>lf_owner := sl\<rparr> \<and> sl_target sl = Some (private_file (Whole p)))"])
        (rule triple_weaken [OF triple_put_owner [where c = c and f = f, OF assms]], simp, assumption, blast,
          rule triple_retI, auto)
    done
qed

section \<open>One process at a time\<close>

definition stored_owner :: "lock_env \<Rightarrow> lock_owner_metadata \<Rightarrow> lock_files \<Rightarrow> bool" where
  "stored_owner env m f \<longleftrightarrow>
     sl_target (lf_owner f) = Some (private_file (Whole m)) \<and> valid_lock_owner m \<and>
     0 < le_owner_size env m \<and> le_owner_size env m \<le> max_owner_bytes"

lemma stored_owner_read: "stored_owner env m f \<Longrightarrow> read_owner env f = Inr (Some m)"
  by (simp add: stored_owner_def read_owner_def Let_def)

lemma read_owner_Some:
  "read_owner env f = Inr (Some m) \<Longrightarrow>
     valid_lock_owner m \<and> 0 < le_owner_size env m \<and> le_owner_size env m \<le> max_owner_bytes \<and>
     (\<exists>g. sl_target (lf_owner f) = Some g \<and> f_content g = Whole m)"
  by (auto simp: read_owner_def Let_def split: option.splits if_splits document.splits)

definition own :: "lock_env \<Rightarrow> nat \<Rightarrow> lock_client \<Rightarrow> lock_files \<Rightarrow> bool" where
  "own env i c f \<longleftrightarrow>
     (\<forall>d. lc_descriptor c = Some d \<longrightarrow> fst d = i \<and> lf_holder f = Some d) \<and>
     (\<forall>m. lc_descriptor c \<noteq> None \<and> lc_owner c = Some m \<longrightarrow> stored_owner env m f \<and> lo_state m = LO_active)"

lemma own_without: "lc_descriptor c = None \<Longrightarrow> own env i c f"
  by (simp add: own_def)

abbreviation no_descriptor :: "lock_client \<Rightarrow> lock_files \<Rightarrow> bool" where
  "no_descriptor c f \<equiv> lc_descriptor c = None"

lemma keeps_ensure_lock_layout:
  "(\<And>c f d. P c f \<Longrightarrow> P c (f\<lparr>lf_directory := d\<rparr>)) \<Longrightarrow> keeps (viewed P) (ensure_lock_layout env sc)"
  unfolding ensure_lock_layout_def Let_def
  by (intro keeps_bnd keeps_simple)
    (unfold client_def files_def, rule keeps_ensure_directory [where I = "\<lambda>v. P (lv_client v) (lv_files v)"], simp)

lemma keeps_open_lock:
  "(\<And>c f g. P c f \<Longrightarrow> P c (f\<lparr>lf_lock := g\<rparr>)) \<Longrightarrow> keeps (viewed P) (open_lock env sc)"
  unfolding open_lock_def Let_def
  by (intro keeps_bnd keeps_option keeps_andthen keeps_on_os_error keeps_ignoring keeps_lock_call keeps_simple) simp_all

lemma triple_flock:
  "triple (viewed P) (on_os_error (flock sc d) (raise e))
     (\<lambda>got s. if got then lf_holder (files s) = Some d \<and> (\<exists>f. P (client s) f \<and> lf_holder f = None \<and> files s = hold d f)
        else viewed P s \<and> lf_holder (files s) \<noteq> None) (\<lambda>_. viewed P)"
proof (rule tripleI)
  fix s x t assume P: "viewed P s" and run: "on_os_error (flock sc d) (raise e) s = (Inl x, t)"
  obtain r u where u: "flock sc d s = (r, u)" by fastforce
  show "viewed P t"
    by (rule flock_cases [OF u]) (use run u P in \<open>auto simp: on_os_error_def catching_def raise_def split: if_splits\<close>)
next
  fix s x t assume P: "viewed P s" and run: "on_os_error (flock sc d) (raise e) s = (Inr x, t)"
  obtain r u where u: "flock sc d s = (r, u)" by fastforce
  show "if x then lf_holder (files t) = Some d \<and> (\<exists>f. P (client t) f \<and> lf_holder f = None \<and> files t = hold d f)
        else viewed P t \<and> lf_holder (files t) \<noteq> None"
    by (rule flock_cases [OF u])
      (use run u P in \<open>auto simp: on_os_error_def catching_def raise_def hold_def split: if_splits\<close>)
qed

lemma triple_take_lock:
  assumes "\<And>c f h. P c f \<Longrightarrow> lf_holder f = h \<Longrightarrow> h = None \<or> h = Some d \<Longrightarrow> P c (f\<lparr>lf_holder := None\<rparr>) \<and> P c (f\<lparr>lf_holder := Some d\<rparr>)"
  shows "triple (viewed P) (take_lock env sc d now)
     (\<lambda>_ s. lf_holder (files s) = Some d \<and> lc_descriptor (client s) = Some d \<and> lc_owner (client s) = None \<and>
        (\<exists>c f. P c f \<and> lf_holder f = None \<and> files s = hold d f)) (\<lambda>_. viewed P)"
  unfolding take_lock_def
proof (rule triple_bnd [OF triple_flock], rule triple_if)
  fix got assume "\<not> got"
  then show "triple (\<lambda>s. if got then lf_holder (files s) = Some d \<and> (\<exists>f. P (client s) f \<and> lf_holder f = None \<and> files s = hold d f)
        else viewed P s \<and> lf_holder (files s) \<noteq> None)
      (bnd (fetch (\<lambda>s. read_owner env (files s))) (\<lambda>owner. raise (contention_error env (best_effort owner))))
      (\<lambda>_ s. lf_holder (files s) = Some d \<and> lc_descriptor (client s) = Some d \<and> lc_owner (client s) = None \<and>
        (\<exists>c f. P c f \<and> lf_holder f = None \<and> files s = hold d f)) (\<lambda>_. viewed P)"
    by (simp add: triple_def bnd_def fetch_def raise_def)
next
  fix got assume "\<not> \<not> got"
  let ?H = "\<lambda>s. lf_holder (files s) = Some d \<and> (\<exists>f. P (client s) f \<and> lf_holder f = None \<and> files s = hold d f)"
  let ?Q = "\<lambda>_ s. lf_holder (files s) = Some d \<and> lc_descriptor (client s) = Some d \<and> lc_owner (client s) = None \<and>
        (\<exists>c f. P c f \<and> lf_holder f = None \<and> files s = hold d f)"
  have P: "viewed P s" if "?H s" for s using that assms by (auto simp: hold_def)
  have undo: "triple (viewed P) (andthen (unlock_and_close sc d) (raise e)) ?Q (\<lambda>_. viewed P)" for e
    by (rule triple_andthen [OF keeps_unlock_and_close [unfolded keeps_def] triple_raiseI]) (use assms in auto)
  have taken: "triple ?H (bnd (lift_result (aware_time now)) (\<lambda>since.
          set_client (\<lambda>c. c\<lparr>lc_descriptor := Some d, lc_acquired_at := Some since,
            lc_previous_owner := previous, lc_owner := None\<rparr>))) ?Q (\<lambda>_. viewed P)" for previous
    by (rule triple_lift_bnd, rule P, assumption) (auto simp: triple_def set_client_def modify_def client_def files_def)
  have branch: "triple ?H (case owner of Inl e \<Rightarrow> andthen (unlock_and_close sc d) (raise e)
       | Inr previous \<Rightarrow> bnd (lift_result (aware_time now)) (\<lambda>since.
          set_client (\<lambda>c. c\<lparr>lc_descriptor := Some d, lc_acquired_at := Some since,
            lc_previous_owner := previous, lc_owner := None\<rparr>))) ?Q (\<lambda>_. viewed P)" for owner
    using taken triple_pre [OF undo P] by (cases owner) simp_all
  show "triple (\<lambda>s. if got then lf_holder (files s) = Some d \<and> (\<exists>f. P (client s) f \<and> lf_holder f = None \<and> files s = hold d f)
        else viewed P s \<and> lf_holder (files s) \<noteq> None)
      (bnd (fetch (\<lambda>s. read_owner env (files s))) (\<lambda>owner. case owner of
         Inl e \<Rightarrow> andthen (unlock_and_close sc d) (raise e)
       | Inr previous \<Rightarrow> bnd (lift_result (aware_time now)) (\<lambda>since.
          set_client (\<lambda>c. c\<lparr>lc_descriptor := Some d, lc_acquired_at := Some since,
            lc_previous_owner := previous, lc_owner := None\<rparr>)))) ?Q (\<lambda>_. viewed P)"
    by (rule triple_fetch_bnd, rule triple_pre [OF branch]) (use \<open>\<not> \<not> got\<close> in simp)
qed

lemma triple_acquire:
  assumes "\<And>c f h. P c f \<Longrightarrow> lf_holder f = h \<Longrightarrow> h = None \<or> h = Some d \<Longrightarrow> P c (f\<lparr>lf_holder := None\<rparr>) \<and> P c (f\<lparr>lf_holder := Some d\<rparr>)"
    and "\<And>c f x. P c f \<Longrightarrow> P c (f\<lparr>lf_directory := x\<rparr>)" "\<And>c f x. P c f \<Longrightarrow> P c (f\<lparr>lf_lock := x\<rparr>)"
  shows "triple (viewed P) (acquire env sc d now)
     (\<lambda>_ s. lf_holder (files s) = Some d \<and> lc_descriptor (client s) = Some d \<and> lc_owner (client s) = None \<and>
        (\<exists>c f. P c f \<and> lf_holder f = None \<and> files s = hold d f)) (\<lambda>_. viewed P)"
proof -
  have close: "triple (viewed P) (andthen (ignoring (lock_call sc (let_go d))) (raise e)) Q (\<lambda>_. viewed P)"
    for e and Q :: "unit \<Rightarrow> lock_view osys \<Rightarrow> bool"
    by (rule triple_andthen [OF keeps_ignoring [OF keeps_let_go, unfolded keeps_def] triple_raiseI])
      (use assms(1) in auto)
  show ?thesis
    unfolding acquire_def on_failure_def
    by (rule triple_fetch_bnd, rule triple_if, rule triple_raiseI, blast,
        rule triple_andthen [OF triple_pre [OF keeps_ensure_lock_layout [unfolded keeps_def]]],
        erule assms(2), blast,
        rule triple_andthen [OF keeps_open_lock [unfolded keeps_def]], erule assms(3),
        rule triple_catching [OF triple_take_lock], erule assms(1), assumption, assumption,
        rule triple_if, rule triple_raiseI, assumption, rule close)
qed

text \<open>What the operations of a process do to a file that another one has locked, and to the record.\<close>

definition locked_out :: "nat \<times> nat \<Rightarrow> lock_owner_metadata slot \<Rightarrow> lock_client \<Rightarrow> lock_files \<Rightarrow> bool" where
  "locked_out h sl c f \<longleftrightarrow> lc_descriptor c = None \<and> lf_holder f = Some h \<and> lf_owner f = sl"

lemma acquire_locked_out:
  "h \<noteq> d \<Longrightarrow> triple (viewed (locked_out h sl)) (acquire env sc d now) (\<lambda>_ _. False) (\<lambda>_. viewed (locked_out h sl))"
  by (rule triple_weaken [OF triple_acquire [where P = "locked_out h sl"]]) (auto simp: locked_out_def)

lemma keeps_inspect:
  assumes "\<And>c f h. P c f \<Longrightarrow> lf_holder f = h \<Longrightarrow> h = None \<or> h = Some d \<Longrightarrow> P c (f\<lparr>lf_holder := None\<rparr>) \<and> P c (f\<lparr>lf_holder := Some d\<rparr>)"
  shows "keeps (viewed P) (inspect_lock env sc d)"
proof -
  have go: "keeps (viewed P) (ignoring (lock_call sc (let_go d)))"
    by (intro keeps_ignoring keeps_let_go) (use assms in auto)
  have "keeps (viewed P) (flock sc d)"
    by (rule keeps_flock) (use assms in auto)
  then have probe: "keeps (viewed P) (probe_lock env sc d)"
    unfolding probe_lock_def by (intro keeps_bnd keeps_andthen keeps_on_os_error keeps_simple go)
  have opened: "keeps (viewed P) (lock_call sc id)" by (rule keeps_lock_call) simp
  show ?thesis
    unfolding inspect_lock_def
    by (intro keeps_bnd keeps_simple)
      (auto split: root_state.split option.split sum.split
        intro!: keeps_bnd keeps_if keeps_andthen keeps_on_os_error keeps_simple opened probe)
qed

lemma record_without_descriptor:
  "lc_descriptor (client s) = None \<Longrightarrow> record_owner env sc uuid u oid ty p ack s =
     (Inl (runtime_error ''the kernel lock must be held before recording an owner''), s)"
  by (simp add: record_owner_def bnd_def fetch_def raise_def)

lemma release_without_descriptor: "lc_descriptor (client s) = None \<Longrightarrow> release env sc u now s = (Inr (), s)"
  by (simp add: release_def bnd_def fetch_def ret_def)

lemma record_cases:
  assumes "record_owner env sc uuid u oid ty p ack s = (r, t)"
  obtains (refused) "t = s"
  | (written) d since current where "lc_descriptor (client s) = Some d" "lc_owner (client s) = None"
      "read_owner env (files s) = Inr current" "acknowledged env current ack = Inr ()"
      "bnd (write_owner env sc u \<lparr>lo_owner_id = ''lock_'' @ uuid, lo_operation_id = oid,
          lo_operation_type = ty, lo_process = p, lo_state = LO_active, lo_acquired_at = since,
          lo_released_at = None\<rparr>) (\<lambda>p. andthen (set_client (\<lambda>c. c\<lparr>lc_owner := Some p\<rparr>)) (ret p)) s = (r, t)"
proof (cases "\<exists>d since current. lc_descriptor (client s) = Some d \<and> lc_acquired_at (client s) = Some since \<and>
    lc_owner (client s) = None \<and> read_owner env (files s) = Inr current \<and> current = lc_previous_owner (client s) \<and>
    acknowledged env current ack = Inr () \<and>
    valid_lock_owner \<lparr>lo_owner_id = ''lock_'' @ uuid, lo_operation_id = oid,
          lo_operation_type = ty, lo_process = p, lo_state = LO_active, lo_acquired_at = since,
          lo_released_at = None\<rparr>")
  case True
  then obtain d since current where *: "lc_descriptor (client s) = Some d" "lc_acquired_at (client s) = Some since"
    "lc_owner (client s) = None" "read_owner env (files s) = Inr current" "current = lc_previous_owner (client s)"
    "acknowledged env current ack = Inr ()"
    "valid_lock_owner \<lparr>lo_owner_id = ''lock_'' @ uuid, lo_operation_id = oid,
          lo_operation_type = ty, lo_process = p, lo_state = LO_active, lo_acquired_at = since,
          lo_released_at = None\<rparr>" by blast
  then have "record_owner env sc uuid u oid ty p ack s =
      bnd (write_owner env sc u \<lparr>lo_owner_id = ''lock_'' @ uuid, lo_operation_id = oid,
          lo_operation_type = ty, lo_process = p, lo_state = LO_active, lo_acquired_at = since,
          lo_released_at = None\<rparr>) (\<lambda>p. andthen (set_client (\<lambda>c. c\<lparr>lc_owner := Some p\<rparr>)) (ret p)) s"
    by (simp add: record_owner_def bnd_fetch_run bnd_lift_run andthen_def Let_def)
  with written [OF *(1,3,4,6)] assms show ?thesis by simp
next
  case False
  have "t = s"
  proof (cases "lc_descriptor (client s) = None \<or> lc_acquired_at (client s) = None \<or> lc_owner (client s) \<noteq> None")
    case True
    then show ?thesis using assms
      by (auto simp: record_owner_def bnd_fetch_run raise_def split: option.splits)
  next
    case held: False
    show ?thesis
    proof (cases "read_owner env (files s)")
      case (Inl e)
      then show ?thesis using assms held
        by (auto simp: record_owner_def bnd_fetch_run bnd_def [of "lift_result _"] lift_result_def)
    next
      case (Inr current)
      then show ?thesis using assms held False
        by (cases "acknowledged env current ack")
          (auto simp: record_owner_def bnd_fetch_run bnd_lift_run andthen_def bnd_def [of "lift_result _"]
            lift_result_def raise_def Let_def split: if_splits)
    qed
  qed
  then show ?thesis by (rule refused)
qed

lemma persisted_owner_Inr:
  "persisted_owner env m = Inr p \<Longrightarrow> valid_lock_owner p \<and> lo_state p = lo_state m"
  by (auto simp: persisted_owner_def Let_def redact_owner_def stored_lock_owner_def split: if_splits)

lemma record_own:
  assumes "\<And>m. 0 < le_owner_size env m" and "own env i (client s) (files s)"
    and "record_owner env sc uuid u oid ty p ack s = (r, t)"
  shows "own env i (client t) (files t)"
  using assms(3)
proof (cases rule: record_cases)
  case refused
  then show ?thesis using assms(2) by simp
next
  case (written d since current)
  let ?o = "\<lparr>lo_owner_id = ''lock_'' @ uuid, lo_operation_id = oid, lo_operation_type = ty, lo_process = p,
    lo_state = LO_active, lo_acquired_at = since, lo_released_at = None\<rparr>"
  obtain q v where v: "write_owner env sc u ?o s = (q, v)" by fastforce
  note triple = triple_write_owner [where c = "client s" and f = "files s", OF assms(1), of sc u ?o]
  have held: "fst d = i" "lf_holder (files s) = Some d" using assms(2) written(1) by (simp_all add: own_def)
  show ?thesis
  proof (cases q)
    case (Inl e)
    then have "t = v" using written(5) v by (simp add: bnd_def)
    with tripleD_Inl [OF triple _, of s e v] v Inl written(1,2) held show ?thesis by (auto simp: own_def)
  next
    case (Inr x)
    then have t: "client t = (client v)\<lparr>lc_owner := Some x\<rparr>" "files t = files v"
      using written(5) v by (auto simp: bnd_def andthen_def set_client_def modify_def ret_def client_def files_def)
    from tripleD_Inr [OF triple _, of s x v] v Inr obtain sl where
      sl: "client v = client s" "persisted_owner env ?o = Inr x" "le_owner_size env x \<le> max_owner_bytes"
        "files v = (files s)\<lparr>lf_owner := sl\<rparr>" "sl_target sl = Some (private_file (Whole x))" by auto
    with persisted_owner_Inr [OF sl(2)] assms(1) held written(1) t show ?thesis
      by (auto simp: own_def stored_owner_def)
  qed
qed

text \<open>A release always gives the descriptor up, unless the process dies in it.\<close>

lemma triple_attempt: "triple (\<lambda>_. True) (attempt m) (\<lambda>_ _. True) (\<lambda>e _. e = killed)"
  by (auto simp: triple_def attempt_def on_failure_def catching_def andthen_def bnd_def ret_def raise_def
      split: prod.split sum.split)

lemma triple_unlock: "triple (\<lambda>_. True) (unlock_and_close sc d) (\<lambda>_ _. True) (\<lambda>e _. e = killed)"
proof -
  have part: "triple (\<lambda>_. True) (on_os_error (andthen (lock_call sc g) (ret [])) (ret x)) (\<lambda>_ _. True) (\<lambda>e _. e = killed)"
    for g and x :: "string list"
  proof (rule tripleI)
    fix s e t assume run: "on_os_error (andthen (lock_call sc g) (ret [])) (ret x) s = (Inl e, t)"
    obtain r u where u: "lock_call sc g s = (r, u)" by fastforce
    show "e = killed"
      by (rule lock_call_cases [OF u])
        (use run u in \<open>auto simp: on_os_error_def catching_def andthen_def bnd_def ret_def raise_def split: if_splits\<close>)
  qed simp
  show ?thesis
    unfolding unlock_and_close_def by (intro triple_bnd [OF part] triple_retI) simp
qed

lemma release_gives_up:
  assumes "release env sc u now s = (r, t)" and "r \<noteq> Inl killed"
  shows "lc_descriptor (client t) = None"
proof -
  have "triple (\<lambda>_. True) (release env sc u now) (\<lambda>_. viewed no_descriptor) (\<lambda>e s. e = killed \<or> viewed no_descriptor s)"
    unfolding release_def
  proof (rule triple_fetch_bnd)
    fix held
    have finish: "triple (\<lambda>_. True) (andthen (set_client (\<lambda>c. c\<lparr>lc_descriptor := None, lc_acquired_at := None\<rparr>)) m)
        (\<lambda>_. viewed no_descriptor) (\<lambda>e s. e = killed \<or> viewed no_descriptor s)"
      if "m = ret () \<or> (\<exists>e. m = raise e)" for m
      using that by (auto simp: triple_def andthen_def bnd_def set_client_def modify_def client_def ret_def raise_def)
    have release: "triple (\<lambda>_. True)
        (bnd (attempt (finalize_owner env sc u now)) (\<lambda>problem.
         bnd (unlock_and_close sc d) (\<lambda>errors.
         andthen (set_client (\<lambda>c. c\<lparr>lc_descriptor := None, lc_acquired_at := None\<rparr>))
          (case problem of Some e \<Rightarrow> raise e
           | None \<Rightarrow> if errors \<noteq> [] then raise (lock_recovery_error env (join_details errors) (lock_path env)) else ret ()))))
        (\<lambda>_. viewed no_descriptor) (\<lambda>e s. e = killed \<or> viewed no_descriptor s)" for d
      by (rule triple_bnd [OF triple_weaken [OF triple_attempt]], simp, assumption, simp,
          rule triple_bnd [OF triple_weaken [OF triple_unlock]], simp, assumption, simp,
          rule finish, auto split: option.split)
    show "triple (\<lambda>s. True \<and> held = lc_descriptor (client s))
        (case held of None \<Rightarrow> ret () | Some d \<Rightarrow>
         bnd (attempt (finalize_owner env sc u now)) (\<lambda>problem.
         bnd (unlock_and_close sc d) (\<lambda>errors.
         andthen (set_client (\<lambda>c. c\<lparr>lc_descriptor := None, lc_acquired_at := None\<rparr>))
          (case problem of Some e \<Rightarrow> raise e
           | None \<Rightarrow> if errors \<noteq> [] then raise (lock_recovery_error env (join_details errors) (lock_path env)) else ret ()))))
        (\<lambda>_. viewed no_descriptor) (\<lambda>e s. e = killed \<or> viewed no_descriptor s)"
      by (cases held) (auto intro: triple_retI triple_pre [OF release])
  qed
  then have all: "triple (\<lambda>_. True) (release env sc u now) (\<lambda>_. viewed no_descriptor)
    (\<lambda>e s. e = killed \<or> viewed no_descriptor s)" .
  show ?thesis
  proof (cases r)
    case (Inl e)
    with tripleD_Inl [OF all TrueI, of s e t] assms show ?thesis by simp
  next
    case (Inr x)
    with tripleD_Inr [OF all TrueI, of s x t] assms show ?thesis by simp
  qed
qed

lemma client_of_view [simp]: "client (lock_view_of i s) = sy_client s i" "files (lock_view_of i s) = sy_files s"
  by (simp_all add: client_def files_def lock_view_of_def)

text \<open>The process itself.\<close>

lemma acquire_own:
  assumes "acquire env sc d now s = (r, t)" and "fst d = i" and "own env i (client s) (files s)"
  shows "own env i (client t) (files t)"
proof (cases "lc_descriptor (client s)")
  case None
  have taken: "triple (viewed no_descriptor) (acquire env sc d now)
     (\<lambda>_ s. lf_holder (files s) = Some d \<and> lc_descriptor (client s) = Some d \<and> lc_owner (client s) = None)
     (\<lambda>_. viewed no_descriptor)"
    by (rule triple_weaken [OF triple_acquire [where P = no_descriptor]]) simp_all
  show ?thesis
  proof (cases r)
    case (Inl e)
    with tripleD_Inl [OF taken, of s e t] assms(1) None show ?thesis by (simp add: own_without)
  next
    case (Inr x)
    with tripleD_Inr [OF taken, of s x t] assms(1,2) None show ?thesis by (simp add: own_def)
  qed
next
  case (Some x)
  then show ?thesis using assms(1,3) by (simp add: acquire_def bnd_fetch_run raise_def)
qed

lemma inspect_own:
  assumes "inspect_lock env sc d s = (r, t)" and "own env i (client s) (files s)"
    and "lf_holder (files s) \<noteq> Some d"
  shows "own env i (client t) (files t)"
proof -
  let ?P = "\<lambda>c f. own env i c f \<and> lc_descriptor c \<noteq> Some d"
  have "keeps (viewed ?P) (inspect_lock env sc d)"
    by (rule keeps_inspect) (auto simp: own_def)
  moreover have "viewed ?P s" using assms(2,3) unfolding own_def by blast
  ultimately show ?thesis using assms(1) by (blast dest: keepsD)
qed

section \<open>The system\<close>

definition all_own :: "lock_env \<Rightarrow> lock_system \<Rightarrow> bool" where
  "all_own env s \<longleftrightarrow> (\<forall>i. own env i (sy_client s i) (sy_files s))"

lemma own_other:
  assumes "own env j c f" and "lf_holder f' = lf_holder f" and "lf_owner f' = lf_owner f"
  shows "own env j c f'"
  using assms by (simp add: own_def stored_owner_def)

lemma close_other: "lf_holder f = Some h \<Longrightarrow> fst h \<noteq> i \<Longrightarrow> close_process i f = f"
  by (simp add: close_process_def)

lemma own_new [simp]: "own env i new_client f"
  by (simp add: own_def new_client_def)

text \<open>Another process that has the lock: its lock and the record stay as they are.\<close>

lemma run_locked_out:
  assumes "keeps (viewed (locked_out h sl)) m" and "fst h \<noteq> i"
    and "locked_out h sl (sy_client s i) (sy_files s)"
  shows "lf_holder (sy_files (run_process i m s)) = Some h \<and> lf_owner (sy_files (run_process i m s)) = sl"
proof -
  obtain r t where t: "m (lock_view_of i s) = (r, t)" by fastforce
  have "locked_out h sl (client t) (files t)" using keepsD [OF assms(1) t] assms(3) by simp
  with t assms(2) show ?thesis
    by (simp add: run_process_def Let_def crash_def locked_out_def close_other)
qed

lemma serve_locked_out:
  assumes "fst h \<noteq> i" and "locked_out h sl (sy_client s i) (sy_files s)"
  shows "lf_holder (sy_files (serve env sc i req s)) = Some h \<and> lf_owner (sy_files (serve env sc i req s)) = sl"
proof (cases req)
  case (Acquire d now)
  have "keeps (viewed (locked_out h sl)) (acquire env sc (i, d) now)"
    unfolding keeps_def by (rule triple_weaken [OF acquire_locked_out]) (use assms(1) in auto)
  with run_locked_out [OF this assms] Acquire show ?thesis by simp
next
  case (Inspect d)
  have "keeps (viewed (locked_out h sl)) (inspect_lock env sc (i, d))"
    by (rule keeps_inspect) (use assms(1) in \<open>auto simp: locked_out_def\<close>)
  with run_locked_out [OF this assms] Inspect show ?thesis by simp
next
  case (Record_owner uuid u oid ty p ack)
  have "keeps (viewed (locked_out h sl)) (record_owner env sc uuid u oid ty p ack)"
    by (rule keepsI) (auto simp: locked_out_def record_without_descriptor)
  with run_locked_out [OF this assms] Record_owner show ?thesis by simp
next
  case (Release u now)
  have "keeps (viewed (locked_out h sl)) (release env sc u now)"
    by (rule keepsI) (auto simp: locked_out_def release_without_descriptor)
  with run_locked_out [OF this assms] Release show ?thesis by simp
next
  case Crash
  then show ?thesis using assms by (auto simp: crash_def locked_out_def close_other)
qed

lemma run_own:
  assumes "\<And>r t. m (lock_view_of i s) = (r, t) \<Longrightarrow> r \<noteq> Inl killed \<Longrightarrow> own env i (client t) (files t)"
  shows "own env i (sy_client (run_process i m s) i) (sy_files (run_process i m s))"
proof -
  obtain r t where t: "m (lock_view_of i s) = (r, t)" by fastforce
  with assms [OF t] show ?thesis by (simp add: run_process_def Let_def crash_def)
qed

lemma serve_own:
  assumes "\<And>m. 0 < le_owner_size env m" and "fresh_descriptor i req s" and "own env i (sy_client s i) (sy_files s)"
  shows "own env i (sy_client (serve env sc i req s) i) (sy_files (serve env sc i req s))"
proof (cases req)
  case (Acquire d now)
  then show ?thesis by (simp add: run_own assms(3) acquire_own)
next
  case (Inspect d)
  then have "lf_holder (files (lock_view_of i s)) \<noteq> Some (i, d)" using assms(2) by (simp add: fresh_descriptor_def)
  from inspect_own [OF _ _ this] Inspect show ?thesis by (simp add: run_own assms(3))
next
  case (Record_owner uuid u oid ty p ack)
  have "own env i (sy_client (run_process i (record_owner env sc uuid u oid ty p ack) s) i)
      (sy_files (run_process i (record_owner env sc uuid u oid ty p ack) s))"
    by (rule run_own, rule record_own [OF assms(1)]) (simp_all add: assms(3))
  with Record_owner show ?thesis by simp
next
  case (Release u now)
  have "own env i (sy_client (run_process i (release env sc u now) s) i)
      (sy_files (run_process i (release env sc u now) s))"
    by (rule run_own, rule own_without, rule release_gives_up)
  with Release show ?thesis by simp
next
  case Crash
  then show ?thesis by (simp add: crash_def)
qed

lemma serve_client: "j \<noteq> i \<Longrightarrow> sy_client (serve env sc i req s) j = sy_client s j"
  by (cases req) (simp_all add: run_process_def Let_def crash_def split: prod.split)

lemma step_all_own:
  assumes "\<And>m. 0 < le_owner_size env m" and "lock_step env s t" and "all_own env s"
  shows "all_own env t"
  using assms(2)
proof cases
  case (step i req sc)
  have "own env j (sy_client t j) (sy_files t)" for j
  proof (cases "j = i")
    case True
    then show ?thesis using step serve_own [OF assms(1)] assms(3) by (simp add: all_own_def)
  next
    case False
    have own: "own env j (sy_client s j) (sy_files s)" "own env i (sy_client s i) (sy_files s)"
      using assms(3) by (simp_all add: all_own_def)
    show ?thesis
    proof (cases "lc_descriptor (sy_client s j)")
      case None
      then show ?thesis using False step by (simp add: serve_client own_without)
    next
      case (Some h)
      then have h: "fst h = j" "lf_holder (sy_files s) = Some h" using own(1) by (simp_all add: own_def)
      have "lc_descriptor (sy_client s i) = None"
        using own(2) h False by (cases "lc_descriptor (sy_client s i)") (auto simp: own_def)
      then have out: "locked_out h (lf_owner (sy_files s)) (sy_client s i) (sy_files s)"
        using h by (simp add: locked_out_def)
      have "fst h \<noteq> i" using h False by simp
      from serve_locked_out [OF this out] step h own_other [OF own(1)] show ?thesis
        by (simp add: serve_client [OF False])
    qed
  qed
  then show ?thesis by (simp add: all_own_def)
qed

lemma reachable_all_own:
  assumes "\<And>m. 0 < le_owner_size env m" and "(lock_step env)\<^sup>*\<^sup>* s t" and "at_rest s"
  shows "all_own env t"
  using assms(2,3)
proof (induction rule: rtranclp_induct)
  case base
  then show ?case by (simp add: all_own_def at_rest_def)
next
  case (step t u)
  then show ?case using step_all_own [OF assms(1)] by blast
qed

text \<open>
  C30. The deployment lock is exclusive: from a state where nobody has it, whatever processes
  acquire, record, release, inspect and die, and whatever system calls fail, at most one process
  has it; it is the kernel's holder, and the owner it recorded reads back as its own, active.
\<close>

theorem lock_is_exclusive:
  assumes "\<And>m. 0 < le_owner_size env m" and "at_rest s" and "(lock_step env)\<^sup>*\<^sup>* s t"
  shows "(\<forall>i d. lc_descriptor (sy_client t i) = Some d \<longrightarrow> fst d = i \<and> lf_holder (sy_files t) = Some d) \<and>
    (\<forall>i j. lc_descriptor (sy_client t i) \<noteq> None \<and> lc_descriptor (sy_client t j) \<noteq> None \<longrightarrow> i = j) \<and>
    (\<forall>i m. lc_descriptor (sy_client t i) \<noteq> None \<and> lc_owner (sy_client t i) = Some m \<longrightarrow>
       read_owner env (sy_files t) = Inr (Some m) \<and> lo_state m = LO_active)"
proof -
  have own: "own env i (sy_client t i) (sy_files t)" for i
    using reachable_all_own [OF assms(1,3,2)] by (simp add: all_own_def)
  have holds: "fst d = i \<and> lf_holder (sy_files t) = Some d" if "lc_descriptor (sy_client t i) = Some d" for i d
    using own [of i] that by (simp add: own_def)
  moreover have "i = j" if "lc_descriptor (sy_client t i) \<noteq> None" "lc_descriptor (sy_client t j) \<noteq> None" for i j
    using that holds [of i] holds [of j] by (metis not_None_eq option.inject)
  moreover have "read_owner env (sy_files t) = Inr (Some m) \<and> lo_state m = LO_active"
    if "lc_descriptor (sy_client t i) \<noteq> None" "lc_owner (sy_client t i) = Some m" for i m
    using own [of i] that by (simp add: own_def stored_owner_read)
  ultimately show ?thesis by blast
qed

section \<open>The evidence of a dead process\<close>

abbreviation owner_is :: "lock_owner_metadata slot \<Rightarrow> lock_client \<Rightarrow> lock_files \<Rightarrow> bool" where
  "owner_is sl c f \<equiv> lf_owner f = sl"

lemma run_keeps_owner:
  assumes "\<And>r t. m (lock_view_of i s) = (r, t) \<Longrightarrow> lf_owner (files t) = lf_owner (sy_files s)"
  shows "lf_owner (sy_files (run_process i m s)) = lf_owner (sy_files s)"
proof -
  obtain r t where t: "m (lock_view_of i s) = (r, t)" by fastforce
  have "lf_owner (close_process i f) = lf_owner f" for f by (simp add: close_process_def split: option.split)
  with assms [OF t] t show ?thesis by (simp add: run_process_def Let_def crash_def)
qed

lemma acquire_keeps_owner:
  assumes "acquire env sc d now s = (r, t)"
  shows "lf_owner (files t) = lf_owner (files s)"
proof -
  have taken: "triple (viewed (owner_is sl)) (acquire env sc d now) (\<lambda>_. viewed (owner_is sl)) (\<lambda>_. viewed (owner_is sl))" for sl
    by (rule triple_weaken [OF triple_acquire [where P = "owner_is sl"]]) (auto simp: hold_def)
  then have "keeps (viewed (owner_is (lf_owner (files s)))) (acquire env sc d now)" by (simp add: keeps_def)
  from keepsD [OF this assms] show ?thesis by simp
qed

lemma inspect_keeps_owner:
  assumes "inspect_lock env sc d s = (r, t)"
  shows "lf_owner (files t) = lf_owner (files s)"
proof -
  have "keeps (viewed (owner_is (lf_owner (files s)))) (inspect_lock env sc d)"
    by (rule keeps_inspect) simp_all
  from keepsD [OF this assms] show ?thesis by simp
qed

lemma record_keeps_owner:
  assumes "record_owner env sc uuid u oid ty p ack s = (r, t)"
    and "read_owner env (files s) = Inr (Some m)" "lo_state m = LO_active"
    and "lc_descriptor (client s) = None \<or> ack \<noteq> Some (lo_owner_id m)"
  shows "lf_owner (files t) = lf_owner (files s)"
  using assms(1)
proof (cases rule: record_cases)
  case refused
  then show ?thesis by simp
next
  case (written d since current)
  then have "current = Some m" using assms(2) by simp
  then show ?thesis using written(1,4) assms(3,4) by (simp add: acknowledged_def)
qed

lemma release_keeps_owner:
  assumes "release env sc u now s = (r, t)" and "lc_descriptor (client s) = None \<or> lc_owner (client s) = None"
  shows "lf_owner (files t) = lf_owner (files s)"
proof (cases "lc_descriptor (client s)")
  case None
  then show ?thesis using assms(1) by (simp add: release_without_descriptor)
next
  case (Some d)
  let ?P = "\<lambda>c f. lc_owner c = None \<and> lf_owner f = lf_owner (files s)"
  have fin: "keeps (viewed ?P) (finalize_owner env sc u now)"
    by (rule keepsI) (auto simp: finalize_owner_def bnd_fetch_run ret_def)
  have unlock: "keeps (viewed ?P) (unlock_and_close sc e)" for e by (rule keeps_unlock_and_close) simp
  have drop: "keeps (viewed ?P) (set_client (\<lambda>c. c\<lparr>lc_descriptor := None, lc_acquired_at := None\<rparr>))"
    by (rule keeps_set_client) simp
  have "keeps (viewed ?P) (release env sc u now)"
    unfolding release_def attempt_def
    by (intro keeps_bnd keeps_option keeps_andthen keeps_on_failure keeps_if keeps_simple fin unlock drop)
  from keepsD [OF this assms(1)] Some assms(2) show ?thesis by simp
qed

text \<open>
  The record of an owner that did not release survives it: a step that replaces a stored
  active record is a step of the process that has the lock, and it is either the release of the
  very owner that recorded it or a new record that names its token.
\<close>

theorem stale_owner_is_kept:
  assumes "\<And>m. 0 < le_owner_size env m" and "at_rest s0" and "(lock_step env)\<^sup>*\<^sup>* s0 s"
    and "read_owner env (sy_files s) = Inr (Some m)" and "lo_state m = LO_active"
    and "lf_owner (sy_files (serve env sc i req s)) \<noteq> lf_owner (sy_files s)"
  shows "lc_descriptor (sy_client s i) \<noteq> None \<and> lf_holder (sy_files s) = lc_descriptor (sy_client s i) \<and>
    ((\<exists>u now. req = Release u now \<and> lc_owner (sy_client s i) = Some m) \<or>
     (\<exists>uuid u oid ty p. req = Record_owner uuid u oid ty p (Some (lo_owner_id m))))"
proof -
  have own: "own env i (sy_client s i) (sy_files s)"
    using reachable_all_own [OF assms(1,3,2)] by (simp add: all_own_def)
  have "lc_descriptor (sy_client s i) \<noteq> None \<and>
    ((\<exists>u now. req = Release u now \<and> lc_owner (sy_client s i) = Some m) \<or>
     (\<exists>uuid u oid ty p. req = Record_owner uuid u oid ty p (Some (lo_owner_id m))))"
  proof (cases req)
    case (Acquire d now)
    then show ?thesis using assms(6) by (simp add: run_keeps_owner acquire_keeps_owner)
  next
    case (Inspect d)
    then show ?thesis using assms(6) by (simp add: run_keeps_owner inspect_keeps_owner)
  next
    case (Record_owner uuid u oid ty p ack)
    have kept: "lf_owner (sy_files (run_process i (record_owner env sc uuid u oid ty p ack) s)) = lf_owner (sy_files s)"
      if "lc_descriptor (sy_client s i) = None \<or> ack \<noteq> Some (lo_owner_id m)"
      by (rule run_keeps_owner) (use record_keeps_owner [where m = m] assms(4,5) that in simp)
    have "\<not> (lc_descriptor (sy_client s i) = None \<or> ack \<noteq> Some (lo_owner_id m))"
      using kept Record_owner assms(6) by force
    with Record_owner show ?thesis by simp
  next
    case (Release u now)
    have kept: "lf_owner (sy_files (run_process i (release env sc u now) s)) = lf_owner (sy_files s)"
      if "lc_descriptor (sy_client s i) = None \<or> lc_owner (sy_client s i) = None"
      by (rule run_keeps_owner) (use release_keeps_owner that in simp)
    have "\<not> (lc_descriptor (sy_client s i) = None \<or> lc_owner (sy_client s i) = None)"
      using kept Release assms(6) by force
    then have held: "lc_descriptor (sy_client s i) \<noteq> None" "lc_owner (sy_client s i) \<noteq> None" by simp_all
    then obtain x where x: "lc_owner (sy_client s i) = Some x" by blast
    with held own assms(4) have "x = m" by (auto simp: own_def dest: stored_owner_read)
    with x held Release show ?thesis by blast
  next
    case Crash
    then show ?thesis using assms(6) by (simp add: crash_def close_process_def split: option.splits if_splits)
  qed
  moreover have "lf_holder (sy_files s) = lc_descriptor (sy_client s i)" if "lc_descriptor (sy_client s i) \<noteq> None"
    using own that by (auto simp: own_def)
  ultimately show ?thesis by blast
qed

section \<open>What an inspection tells\<close>

definition unheld :: "lock_files \<Rightarrow> lock_files" where
  "unheld f = f\<lparr>lf_holder := None\<rparr>"

lemma unheld_simps [simp]: "unheld (hold d f) = unheld f" "unheld (let_go d f) = unheld f"
  by (simp_all add: unheld_def hold_def let_go_def)

lemma read_owner_only: "lf_owner f = lf_owner g \<Longrightarrow> read_owner env f = read_owner env g"
  by (simp add: read_owner_def)

lemma unheld_owner: "unheld f = unheld g \<Longrightarrow> lf_owner f = lf_owner g \<and> lf_lock f = lf_lock g \<and> lf_directory f = lf_directory g"
  by (simp add: unheld_def) (metis lock_files.select_convs lock_files.surjective lock_files.update_convs(4))

definition sound_inspection :: "lock_env \<Rightarrow> lock_files \<Rightarrow> lock_inspection \<Rightarrow> bool" where
  "sound_inspection env f seen \<longleftrightarrow>
     (li_held seen \<longleftrightarrow> li_state seen = LI_active) \<and> (li_held seen \<longrightarrow> lf_holder f \<noteq> None) \<and>
     (li_state seen \<in> {LI_idle, LI_stale_owner} \<longrightarrow> read_owner env f = Inr (li_owner seen)) \<and>
     (li_state seen = LI_stale_owner \<longrightarrow> (\<exists>m. li_owner seen = Some m \<and> lo_state m = LO_active)) \<and>
     (li_state seen = LI_idle \<longrightarrow> (\<forall>m. li_owner seen = Some m \<longrightarrow> lo_state m \<noteq> LO_active))"

lemma sound_inspections:
  "sound_inspection env f (inspection_recovery x)"
  "sound_inspection env f (classify_available env f)"
  "lf_holder f \<noteq> None \<Longrightarrow> sound_inspection env f (inspect_held env f)"
  by (auto simp: sound_inspection_def inspection_recovery_def classify_available_def inspect_held_def
      split: sum.split option.split)

lemma classify_unheld: "classify_available env (hold d f) = classify_available env f"
proof -
  have "read_owner env (hold d f) = read_owner env f" by (rule read_owner_only) (simp add: hold_def)
  then show ?thesis by (simp add: classify_available_def)
qed

lemma let_go_quiet:
  assumes "ignoring (lock_call sc (let_go d)) s = (r, t)"
  shows "unheld (files t) = unheld (files s) \<and> client t = client s"
proof -
  obtain q u where u: "lock_call sc (let_go d) s = (q, u)" by fastforce
  show ?thesis
    by (rule lock_call_cases [OF u])
      (use assms u in \<open>auto simp: ignoring_def on_os_error_def catching_def ret_def raise_def split: if_splits\<close>)
qed

lemma probe_sound:
  assumes "probe_lock env sc d s = (Inr seen, t)"
  shows "unheld (files t) = unheld (files s) \<and> client t = client s \<and> sound_inspection env (files s) seen \<and>
    (li_state seen \<in> {LI_idle, LI_stale_owner} \<longrightarrow> lf_holder (files s) = None)"
proof -
  let ?m = "on_os_error (bnd (flock sc d) (\<lambda>got. fetch (\<lambda>s.
            if got then classify_available env (files s) else inspect_held env (files s))))
          (ret (inspection_recovery (lock_recovery_error env ''deployment lock probe failed: '' (lock_path env))))"
  obtain q u where u: "flock sc d s = (q, u)" by fastforce
  obtain r v where v: "?m s = (r, v)" by fastforce
  have quiet: "unheld (files t) = unheld (files v) \<and> client t = client v \<and> r = Inr seen"
    using assms v by (auto simp: probe_lock_def bnd_def andthen_def ret_def split: sum.splits prod.splits
        dest!: let_go_quiet)
  have "unheld (files v) = unheld (files s) \<and> client v = client s \<and> sound_inspection env (files s) seen \<and>
    (li_state seen \<in> {LI_idle, LI_stale_owner} \<longrightarrow> lf_holder (files s) = None)"
  proof (rule flock_cases [OF u])
    assume *: "q = Inr True" "lf_holder (files s) = None" "client u = client s" "files u = hold d (files s)"
    then have "v = u" "seen = classify_available env (files s)"
      using u v quiet by (simp_all add: on_os_error_def catching_def bnd_def fetch_def classify_unheld)
    with * sound_inspections(2) show ?thesis by simp
  next
    assume *: "q = Inr False" "lf_holder (files s) \<noteq> None" "client u = client s" "files u = files s"
    then have "v = u" "seen = inspect_held env (files s)"
      using u v quiet by (simp_all add: on_os_error_def catching_def bnd_def fetch_def)
    with * sound_inspections(3) [of "files s" env] show ?thesis
      by (auto simp: inspect_held_def split: sum.splits)
  next
    fix e assume *: "q = Inl e" "os_raised e" "client u = client s" "files u = files s"
    with u v quiet have "v = u \<and> (\<exists>x. seen = inspection_recovery x)"
      by (auto simp: on_os_error_def catching_def bnd_def ret_def raise_def split: if_splits)
    with * sound_inspections(1) show ?thesis by (auto simp: inspection_recovery_def)
  qed
  with quiet show ?thesis by simp
qed

text \<open>
  An inspection changes neither the record nor any file, and says what is: the lock is
  reported held only when it is, reported free only when nobody has it, and a stale owner is the
  stored record of an owner that is still marked active.
\<close>

theorem inspection_is_sound:
  assumes "inspect_lock env sc d s = (Inr seen, t)" and "lf_directory (files s) \<noteq> Root_missing"
  shows "unheld (files t) = unheld (files s) \<and> client t = client s \<and> sound_inspection env (files s) seen \<and>
    (li_state seen \<in> {LI_idle, LI_stale_owner} \<longrightarrow> lf_lock (files s) = None \<or> lf_holder (files s) = None)"
proof -
  have recovery: ?thesis if "seen = inspection_recovery x" "t = s" for x
    using that sound_inspections(1) by (auto simp: inspection_recovery_def)
  show ?thesis
  proof (cases "\<exists>g is_dir. lf_directory (files s) = Root_entry True directory_mode \<and> lf_lock (files s) = Some g \<and>
      \<not> (f_kind g = FK_symlink \<and> \<not> lf_link_resolves (files s)) \<and> check_lock_file env g = Inr ()")
    case False
    then show ?thesis using assms recovery sound_inspections(2) [of env "files s"]
      by (auto simp: inspect_lock_def bnd_fetch_run ret_def split: root_state.splits if_splits option.splits sum.splits)
  next
    case True
    obtain q u where u: "lock_call sc id s = (q, u)" by fastforce
    from True have run: "inspect_lock env sc d s =
        bnd (on_os_error (andthen (lock_call sc id) (ret True)) (ret False)) (\<lambda>opened.
              if opened then probe_lock env sc d
              else ret (inspection_recovery (lock_recovery_error env
                ''deployment lock could not be inspected safely: '' (lock_path env)))) s"
      by (auto simp: inspect_lock_def bnd_fetch_run)
    show ?thesis
    proof (rule lock_call_cases [OF u])
      assume *: "q = Inr ()" "client u = client s" "files u = id (files s)"
      then have "probe_lock env sc d u = (Inr seen, t)"
        using assms(1) u unfolding run by (simp add: on_os_error_def catching_def andthen_def bnd_def ret_def)
      from probe_sound [OF this] * show ?thesis by simp
    next
      fix e assume *: "q = Inl e" "os_raised e" "client u = client s" "files u = files s"
      then have "t = u \<and> (\<exists>x. seen = inspection_recovery x)"
        using assms(1) u unfolding run
        by (auto simp: on_os_error_def catching_def andthen_def bnd_def ret_def raise_def split: if_splits)
      with * sound_inspections(1) show ?thesis by (auto simp: inspection_recovery_def)
    qed
  qed
qed

section \<open>A lock to evaluate on\<close>

definition example_lock_env :: lock_env where
  "example_lock_env = \<lparr>le_path = ''/var/lib/dploydb'', le_redact = id, le_utc = (\<lambda>_. ''''),
     le_owner_size = (\<lambda>_. 100)\<rparr>"

definition stale_record :: lock_owner_metadata where
  "stale_record = \<lparr>lo_owner_id = ''lock_00112233445566778899aabbccddeeff'',
     lo_operation_id = ''op_00112233445566778899aabbccddeeff'', lo_operation_type = ''deploy'',
     lo_process = \<lparr>pi_pid = 7, pi_hostname = ''web''\<rparr>, lo_state = LO_active, lo_acquired_at = 1000,
     lo_released_at = None\<rparr>"

text \<open>A dead process left its record; process 1 takes the lock.\<close>

definition stale_files :: lock_files where
  "stale_files = \<lparr>lf_directory = Root_entry True directory_mode, lf_lock = Some (private_file ()),
     lf_link_resolves = True, lf_holder = None,
     lf_owner = \<lparr>sl_target = Some (private_file (Whole stale_record)), sl_temps = []\<rparr>\<rparr>"

definition stale_system :: lock_system where
  "stale_system = \<lparr>sy_files = stale_files, sy_client = (\<lambda>_. new_client)\<rparr>"

definition taken_system :: lock_system where
  "taken_system = serve example_lock_env all_work 1 (Acquire 3 (Aware 5000)) stale_system"

lemma stale_at_rest: "at_rest stale_system"
  by (simp add: at_rest_def stale_system_def stale_files_def)

lemma example_owner_size [simp]: "le_owner_size example_lock_env m = 100"
  by (simp add: example_lock_env_def)

lemma stale_record_valid: "valid_lock_owner stale_record"
  by (simp add: valid_lock_owner_iff stale_record_def is_lock_id_def is_operation_id_def hex_tail_def
      is_lower_hex_def is_operation_type_def word_like_def is_lower_def process_identity_ok_def length_between_def)

lemma stale_read: "lf_owner f = lf_owner stale_files \<Longrightarrow> read_owner example_lock_env f = Inr (Some stale_record)"
  using stale_record_valid by (simp add: read_owner_def stale_files_def Let_def max_owner_bytes_def)

lemma taken_eq:
  "taken_system = \<lparr>sy_files = hold (1, 3) stale_files, sy_client = (sy_client stale_system)(1 :=
     \<lparr>lc_descriptor = Some (1, 3), lc_acquired_at = Some 5000, lc_owner = None,
      lc_previous_owner = Some stale_record\<rparr>)\<rparr>"
  by (simp add: stale_read stale_files_def killed_def ensure_def id_def taken_system_def run_process_def acquire_def bnd_def andthen_def fetch_def
      ensure_lock_layout_def Let_def ensure_directory_def check_directory_def directory_mode_def
      open_lock_def check_lock_file_def lock_call_def on_failure_def take_lock_def flock_def
      aware_time_def set_client_def modify_def client_def files_def lock_view_of_def stale_system_def
      hold_def run_simps syscall_def next_call_def all_work_def new_client_def)

lemma taken_reachable: "(lock_step example_lock_env)\<^sup>*\<^sup>* stale_system taken_system"
  unfolding taken_system_def
  by (rule r_into_rtranclp, rule lock_step.step) (simp add: fresh_descriptor_def stale_system_def stale_files_def)

theorem lock_is_exclusive_witness:
  "lc_descriptor (sy_client taken_system 1) = Some (1, 3) \<and> lf_holder (sy_files taken_system) = Some (1, 3)"
proof -
  have "lc_descriptor (sy_client taken_system 1) = Some (1, 3)" by (simp add: taken_eq)
  with lock_is_exclusive [OF _ stale_at_rest taken_reachable] show ?thesis by auto
qed

theorem inspection_is_sound_witness:
  "\<exists>seen t. inspect_lock example_lock_env all_work (2, 0) (lock_view_of 2 taken_system) = (Inr seen, t) \<and>
     li_held seen \<and> sound_inspection example_lock_env (sy_files taken_system) seen"
proof -
  obtain seen t where run: "inspect_lock example_lock_env all_work (2, 0) (lock_view_of 2 taken_system) = (Inr seen, t)"
    and held: "li_held seen"
    by (simp add: stale_read inspect_lock_def taken_eq lock_view_of_def files_def hold_def stale_files_def bnd_def fetch_def
        check_lock_file_def probe_lock_def flock_def lock_call_def run_simps syscall_def next_call_def
        all_work_def ignoring_def inspect_held_def let_go_def ensure_def)
  moreover have "lf_directory (files (lock_view_of 2 taken_system)) \<noteq> Root_missing"
    by (simp add: taken_eq hold_def stale_files_def)
  ultimately show ?thesis using inspection_is_sound [OF run] by auto
qed

definition next_request :: lock_request where
  "next_request = Record_owner ''ffeeddccbbaa99887766554433221100'' ''u'' ''op_ffeeddccbbaa99887766554433221100''
     ''recover'' \<lparr>pi_pid = 8, pi_hostname = ''web''\<rparr> (Some ''lock_00112233445566778899aabbccddeeff'')"

lemma next_record_stored:
  "lf_owner (sy_files (serve example_lock_env all_work 1 next_request taken_system)) \<noteq> lf_owner (sy_files taken_system)"
proof -
  let ?o = "\<lparr>lo_owner_id = ''lock_ffeeddccbbaa99887766554433221100'',
    lo_operation_id = ''op_ffeeddccbbaa99887766554433221100'', lo_operation_type = ''recover'',
    lo_process = \<lparr>pi_pid = 8, pi_hostname = ''web''\<rparr>, lo_state = LO_active, lo_acquired_at = 5000,
    lo_released_at = None\<rparr>"
  have valid: "valid_lock_owner ?o" "persisted_owner example_lock_env ?o = Inr ?o"
    by (simp_all add: valid_lock_owner_iff is_lock_id_def is_operation_id_def hex_tail_def
      is_lower_hex_def is_operation_type_def word_like_def is_lower_def process_identity_ok_def length_between_def
      persisted_owner_def Let_def redact_owner_def stored_lock_owner_def owner_forms_kept_def example_lock_env_def
      serialize_utc_timestamp_def)
  have "sl_target (lf_owner (sy_files (serve example_lock_env all_work 1 next_request taken_system))) =
      Some (private_file (Whole ?o))"
    using valid
    by (simp add: stale_read killed_def id_def next_request_def run_process_def record_owner_def taken_eq lock_view_of_def client_def files_def
        bnd_def andthen_def fetch_def lift_result_def acknowledged_def stale_record_def hold_def stale_files_def
        ensure_def Let_def write_owner_def max_owner_bytes_def in_slot_def put_owner_def atomic_write_def
        replace_document_def run_simps syscall_def write_once_def next_call_def all_work_def put_temp_def
        fill_temp_def written_document_def rename_temp_def drop_temp_def set_client_def modify_def)
  then show ?thesis by (auto simp: taken_eq hold_def stale_files_def stale_record_def private_file_def)
qed

theorem stale_owner_is_kept_witness:
  "read_owner example_lock_env (sy_files taken_system) = Inr (Some stale_record) \<and>
   lf_owner (sy_files (serve example_lock_env all_work 1 next_request taken_system)) \<noteq> lf_owner (sy_files taken_system) \<and>
   (\<exists>uuid u oid ty p. next_request = Record_owner uuid u oid ty p (Some (lo_owner_id stale_record)))"
proof -
  have read: "read_owner example_lock_env (sy_files taken_system) = Inr (Some stale_record)"
    by (rule stale_read) (simp add: taken_eq hold_def)
  have "lo_state stale_record = LO_active" by (simp add: stale_record_def)
  from stale_owner_is_kept [OF _ stale_at_rest taken_reachable read this next_record_stored] read next_record_stored
  show ?thesis by (auto simp: next_request_def)
qed

end
