(* ===== verification/Backup_Store.thy ===== *)
theory Backup_Store
  imports Files Retention
begin

text \<open>
  Local backup storage (\<^verbatim>\<open>dploydb/storage/local.py\<close>): a private directory with one database and
  one metadata document per backup, the metadata published last as the commit marker and
  deleted first. Database bytes are an arbitrary type. Files are association lists keyed by
  the backup ID, which is the stem of both file names (the metadata validator forces the
  database name). The store interprets the \<open>inventory\<close> protocol of \<open>Retention\<close>.
\<close>

section \<open>State\<close>

record 'd backup_store =
  bs_path :: string
  bs_root :: root_state
  bs_staged :: "(string \<times> 'd disk_file) list"
  bs_databases :: "(string \<times> 'd disk_file) list"
  bs_metadata :: "(string \<times> backup_metadata document disk_file) list"
  bs_metadata_temps :: "(string \<times> backup_metadata document disk_file) list"

definition storage_error :: "'d backup_store \<Rightarrow> string \<Rightarrow> exn" where
  "storage_error st detail = Dploy (mk_error OperationFailedError detail False None
     (Some (bs_path st)) ''Correct local backup storage, then retry the backup.'')"

definition storage_verification_error :: "'d backup_store \<Rightarrow> string \<Rightarrow> exn" where
  "storage_verification_error st detail = Dploy (mk_error SafetyCheckError detail False None
     (Some (bs_path st)) ''Use another committed verified backup or create a new backup.'')"

section \<open>Reading\<close>

definition validate_backup_id :: "'d backup_store \<Rightarrow> string \<Rightarrow> unit result" where
  "validate_backup_id st i =
     ensure (is_backup_id i) (storage_verification_error st ''backup ID is invalid'')"

definition validate_layout :: "'d backup_store \<Rightarrow> unit result" where
  "validate_layout st = check_directory
     (storage_verification_error st ''backup directory is a symlink'')
     (storage_verification_error st ''backup directory is unavailable'')
     (storage_verification_error st ''backup directory must be a mode-0700 directory'')
     (bs_root st)"

definition validate_committed_file :: "'d backup_store \<Rightarrow> string \<Rightarrow> 'c disk_file option \<Rightarrow> 'c result" where
  "validate_committed_file st label f = (case f of
      None \<Rightarrow> Inl (storage_verification_error st (label @ '' is unavailable''))
    | Some g \<Rightarrow>
        (if f_kind g \<noteq> FK_regular
         then Inl (storage_verification_error st (label @ '' must be a regular non-symlink file''))
         else if f_mode g \<noteq> file_mode
         then Inl (storage_verification_error st (label @ '' must have mode 0600''))
         else Inr (f_content g)))"

definition max_metadata_bytes :: nat where "max_metadata_bytes = 131072"

text \<open>\<open>msize\<close> is the length of the JSON serialisation of a metadata record.\<close>

definition verify_metadata ::
  "(backup_metadata \<Rightarrow> nat) \<Rightarrow> 'd backup_store \<Rightarrow> string \<Rightarrow> backup_metadata result" where
  "verify_metadata msize st i =
     rbind (validate_backup_id st i) (\<lambda>_.
     rbind (validate_layout st) (\<lambda>_.
     rbind (validate_committed_file st ''backup metadata'' (map_of (bs_metadata st) i)) (\<lambda>d.
     case d of
       Whole m \<Rightarrow>
         (if msize m = 0 \<or> msize m > max_metadata_bytes \<or> \<not> valid_backup_metadata m
          then Inl (storage_verification_error st ''backup metadata is invalid'')
          else if bm_backup_id m \<noteq> i
          then Inl (storage_verification_error st ''backup metadata ID does not match its path'')
          else Inr m)
     | _ \<Rightarrow> Inl (storage_verification_error st ''backup metadata is invalid''))))"

definition artifact_of :: "'d backup_store \<Rightarrow> backup_metadata \<Rightarrow> string \<Rightarrow> backup_artifact" where
  "artifact_of st m i =
     \<lparr>ba_metadata = m, ba_directory = bs_path st, ba_metadata_directory = bs_path st,
      ba_database_name = bm_database_file_name m, ba_metadata_name = i @ ''.json''\<rparr>"

definition get_backup ::
  "(backup_metadata \<Rightarrow> nat) \<Rightarrow> 'd backup_store \<Rightarrow> string \<Rightarrow> backup_artifact result" where
  "get_backup msize st i =
     rbind (verify_metadata msize st i) (\<lambda>m.
     rbind (validate_committed_file st ''backup database'' (map_of (bs_databases st) i)) (\<lambda>_.
     Inr (artifact_of st m i)))"

text \<open>\<^verbatim>\<open>glob("backup_*.json")\<close>, sorted by name, every entry verified.\<close>

fun collect :: "('a \<Rightarrow> 'b result) \<Rightarrow> 'a list \<Rightarrow> 'b list result" where
  "collect f [] = Inr []"
| "collect f (x # xs) = rbind (f x) (\<lambda>y. rbind (collect f xs) (\<lambda>ys. Inr (y # ys)))"

definition metadata_names :: "'d backup_store \<Rightarrow> string list" where
  "metadata_names st =
     sort_key (\<lambda>i. i @ ''.json'') (filter (\<lambda>i. take 7 i = ''backup_'') (map fst (bs_metadata st)))"

definition list_backups ::
  "(backup_metadata \<Rightarrow> nat) \<Rightarrow> 'd backup_store \<Rightarrow> backup_metadata list result" where
  "list_backups msize st =
     rbind (validate_layout st) (\<lambda>_. collect (verify_metadata msize st) (metadata_names st))"

section \<open>Publishing\<close>

type_synonym ('d, 'a) store_act = "('d backup_store osys, exn, 'a) act"

definition storage_raise :: "string \<Rightarrow> ('d, 'a) store_act" where
  "storage_raise detail = bnd (fetch os_world) (\<lambda>st. raise (storage_error st detail))"

definition ensure_layout :: "schedule \<Rightarrow> ('d, unit) store_act" where
  "ensure_layout sc =
     bnd (fetch os_world) (\<lambda>st.
     if bs_root st = Root_symlink then storage_raise ''refusing a symlinked backup directory''
     else andthen
       (on_os_error
         (case bs_root st of
            Root_missing \<Rightarrow> syscall sc (\<lambda>w. w\<lparr>bs_root := Root_entry True directory_mode\<rparr>)
          | Root_entry False _ \<Rightarrow> raise os_error
          | _ \<Rightarrow> syscall sc id)
         (storage_raise ''backup directory could not be created''))
       (bnd (fetch os_world) (\<lambda>w.
          case bs_root w of
            Root_entry True m \<Rightarrow>
              (if m = directory_mode then ret ()
               else storage_raise ''backup directory must be a mode-0700 directory'')
          | _ \<Rightarrow> storage_raise ''backup directory must be a mode-0700 directory'')))"

definition validate_staged :: "'d backup_store \<Rightarrow> string \<Rightarrow> string \<Rightarrow> 'd result" where
  "validate_staged st name i = (case map_of (bs_staged st) name of
      None \<Rightarrow> Inl (storage_error st ''backup staging file is unsafe'')
    | Some f \<Rightarrow>
        (if take (length i + 2) name = ''.'' @ i @ ''.'' \<and> is_private_file f
         then Inr (f_content f)
         else Inl (storage_error st ''backup staging file is not a private managed file'')))"

definition set_metadata_temp ::
  "string \<Rightarrow> backup_metadata document \<Rightarrow> 'd backup_store \<Rightarrow> 'd backup_store" where
  "set_metadata_temp u d st =
     st\<lparr>bs_metadata_temps := AList.update u (private_file d) (bs_metadata_temps st)\<rparr>"

definition drop_metadata_temp :: "string \<Rightarrow> 'd backup_store \<Rightarrow> 'd backup_store" where
  "drop_metadata_temp u st = st\<lparr>bs_metadata_temps := AList.delete u (bs_metadata_temps st)\<rparr>"

definition link_metadata :: "string \<Rightarrow> string \<Rightarrow> 'd backup_store \<Rightarrow> 'd backup_store" where
  "link_metadata u i st = (case map_of (bs_metadata_temps st) u of
      None \<Rightarrow> st
    | Some f \<Rightarrow> st\<lparr>bs_metadata := AList.update i f (bs_metadata st)\<rparr>)"

text \<open>\<^verbatim>\<open>_publish_metadata\<close>; its handler unlinks the temporary file only.\<close>

definition publish_document ::
  "schedule \<Rightarrow> (backup_metadata \<Rightarrow> nat) \<Rightarrow> string \<Rightarrow> backup_metadata \<Rightarrow> ('d, unit) store_act" where
  "publish_document sc msize u m =
     (if msize m > max_metadata_bytes
      then storage_raise ''serialized backup metadata exceeds the size limit''
      else on_os_error
        (andthen (syscall sc (set_metadata_temp u (Partial 0)))
        (andthen (syscall sc id)
        (andthen (write_all sc (\<lambda>n. set_metadata_temp u (written_document m (msize m) n)) (msize m) 0)
        (andthen (syscall sc id)
        (andthen (syscall sc id)
        (andthen (syscall sc (link_metadata u (bm_backup_id m)))
        (andthen (syscall sc (drop_metadata_temp u))
                 (syscall sc id))))))))
        (andthen (ignoring (syscall sc (drop_metadata_temp u)))
                 (storage_raise ''backup metadata could not be published'')))"

definition publish_metadata ::
  "schedule \<Rightarrow> (backup_metadata \<Rightarrow> nat) \<Rightarrow> string \<Rightarrow> backup_metadata \<Rightarrow> ('d, unit) store_act" where
  "publish_metadata sc msize u m = publish_document sc msize u (stored_metadata m)"

definition link_database :: "string \<Rightarrow> string \<Rightarrow> 'd backup_store \<Rightarrow> 'd backup_store" where
  "link_database name i st = (case map_of (bs_staged st) name of
      None \<Rightarrow> st
    | Some f \<Rightarrow> st\<lparr>bs_databases := AList.update i f (bs_databases st)\<rparr>)"

definition unlink_staged :: "string \<Rightarrow> 'd backup_store \<Rightarrow> 'd backup_store" where
  "unlink_staged name st = st\<lparr>bs_staged := AList.delete name (bs_staged st)\<rparr>"

definition chmod_database :: "string \<Rightarrow> 'd backup_store \<Rightarrow> 'd backup_store" where
  "chmod_database i st =
     st\<lparr>bs_databases := AList.map_entry i (\<lambda>f. f\<lparr>f_mode := file_mode\<rparr>) (bs_databases st)\<rparr>"

definition unlink_database :: "string \<Rightarrow> 'd backup_store \<Rightarrow> 'd backup_store" where
  "unlink_database i st = st\<lparr>bs_databases := AList.delete i (bs_databases st)\<rparr>"

definition unlink_metadata :: "string \<Rightarrow> 'd backup_store \<Rightarrow> 'd backup_store" where
  "unlink_metadata i st = st\<lparr>bs_metadata := AList.delete i (bs_metadata st)\<rparr>"

definition is_storage_failure :: "exn \<Rightarrow> bool" where
  "is_storage_failure e \<longleftrightarrow> is_os_error e \<or>
     (case e of Dploy d \<Rightarrow> de_class d = OperationFailedError \<or>
                           de_class d = MigrationWorkspaceCleanupError | _ \<Rightarrow> False)"

definition put_backup ::
  "schedule \<Rightarrow> (backup_metadata \<Rightarrow> nat) \<Rightarrow> string \<Rightarrow> string \<Rightarrow> backup_metadata \<Rightarrow>
   ('d, backup_artifact) store_act" where
  "put_backup sc msize name u m =
    (let i = bm_backup_id m in
     andthen (ensure_layout sc)
    (bnd (fetch os_world) (\<lambda>st.
     andthen (lift_result (validate_backup_id st i))
    (andthen (lift_result (validate_staged st name i))
    (andthen (when_act (map_of (bs_databases st) i \<noteq> None)
               (storage_raise ''backup database already exists''))
    (andthen (when_act (map_of (bs_metadata st) i \<noteq> None)
               (storage_raise ''backup metadata already exists''))
    (andthen (catching (syscall sc (link_database name i))
               (\<lambda>e. if is_os_error e then storage_raise ''backup publication failed'' else raise e))
    (andthen
      (catching
        (andthen (syscall sc (unlink_staged name))
        (andthen (syscall sc (chmod_database i))
        (andthen (syscall sc id)
                 (publish_metadata sc msize u m))))
        (\<lambda>e. if is_storage_failure e
             then andthen
               (on_os_error (andthen (syscall sc (unlink_database i)) (syscall sc id))
                 (storage_raise
                   ''backup publication failed; incomplete database cleanup also failed''))
               (storage_raise ''backup publication failed'')
             else raise e))
    (bnd (fetch os_world) (\<lambda>w. lift_result (get_backup msize w i)))))))))))"

section \<open>Deleting\<close>

definition delete_backup ::
  "schedule \<Rightarrow> (backup_metadata \<Rightarrow> nat) \<Rightarrow> string \<Rightarrow> ('d, unit) store_act" where
  "delete_backup sc msize i =
     bnd (fetch os_world) (\<lambda>st.
     andthen (lift_result (validate_backup_id st i))
    (andthen (lift_result (validate_layout st))
    (let metadata_present = (map_of (bs_metadata st) i \<noteq> None);
         database_present = (map_of (bs_databases st) i \<noteq> None)
     in if \<not> metadata_present \<and> \<not> database_present then ret ()
     else
     andthen (when_act metadata_present
       (bnd (lift_result (verify_metadata msize st i)) (\<lambda>_.
         when_act (\<not> database_present) (raise (storage_verification_error st
           ''committed backup metadata exists but its database is missing'')))))
    (andthen (when_act database_present
       (bnd (lift_result (validate_committed_file st ''backup database'' (map_of (bs_databases st) i)))
          (\<lambda>_. ret ())))
    (on_os_error
      (andthen (when_act metadata_present
                 (andthen (syscall sc (unlink_metadata i)) (syscall sc id)))
               (when_act database_present
                 (andthen (syscall sc (unlink_database i)) (syscall sc id))))
      (storage_raise ''backup deletion failed''))))))"

section \<open>The metadata is the commit marker\<close>

definition committed :: "'d backup_store \<Rightarrow> bool" where
  "committed st \<longleftrightarrow> dom (map_of (bs_metadata st)) \<subseteq> dom (map_of (bs_databases st))"

lemma committed_frame [simp]:
  "committed (st\<lparr>bs_root := r\<rparr>) = committed st"
  "committed (set_metadata_temp u d st) = committed st"
  "committed (drop_metadata_temp u st) = committed st"
  "committed (unlink_staged name st) = committed st"
  by (simp_all add: committed_def set_metadata_temp_def drop_metadata_temp_def unlink_staged_def)

lemma committed_chmod [simp]: "committed (chmod_database i st) = committed st"
  by (simp add: committed_def chmod_database_def dom_map_entry_lookup)

lemma committed_link_database [simp]: "committed st \<Longrightarrow> committed (link_database name i st)"
  by (auto simp: committed_def link_database_def update_conv' split: option.splits)

lemma committed_unlink_metadata [simp]: "committed st \<Longrightarrow> committed (unlink_metadata i st)"
  by (auto simp: committed_def unlink_metadata_def delete_conv')

lemma metadata_frame [simp]:
  "bs_metadata (set_metadata_temp u d st) = bs_metadata st"
  "bs_metadata (drop_metadata_temp u st) = bs_metadata st"
  "bs_metadata (unlink_staged name st) = bs_metadata st"
  "bs_metadata (chmod_database i st) = bs_metadata st"
  "bs_metadata (link_database name i st) = bs_metadata st"
  "bs_metadata (unlink_database i st) = bs_metadata st"
  "bs_databases (set_metadata_temp u d st) = bs_databases st"
  "bs_databases (drop_metadata_temp u st) = bs_databases st"
  "bs_databases (unlink_staged name st) = bs_databases st"
  "bs_databases (unlink_metadata i st) = bs_databases st"
  by (simp_all add: set_metadata_temp_def drop_metadata_temp_def unlink_staged_def
      chmod_database_def link_database_def unlink_database_def unlink_metadata_def split: option.split)

definition uncommitted :: "string \<Rightarrow> 'd backup_store \<Rightarrow> bool" where
  "uncommitted i st \<longleftrightarrow> committed st \<and> map_of (bs_metadata st) i = None"

definition database_ready :: "string \<Rightarrow> 'd backup_store \<Rightarrow> bool" where
  "database_ready i st \<longleftrightarrow> uncommitted i st \<and> i \<in> dom (map_of (bs_databases st))"

lemma uncommitted_steps [simp]:
  "uncommitted i st \<Longrightarrow> uncommitted i (set_metadata_temp u d st)"
  "uncommitted i st \<Longrightarrow> uncommitted i (drop_metadata_temp u st)"
  "uncommitted i st \<Longrightarrow> uncommitted i (unlink_staged name st)"
  "uncommitted i st \<Longrightarrow> uncommitted i (chmod_database i st)"
  "uncommitted i st \<Longrightarrow> uncommitted i (link_database name i st)"
  by (simp_all add: uncommitted_def)

lemma uncommitted_unlink [simp]: "uncommitted i st \<Longrightarrow> uncommitted i (unlink_database i st)"
  by (auto simp: uncommitted_def committed_def unlink_database_def delete_conv')

lemma database_ready_steps [simp]:
  "database_ready i st \<Longrightarrow> database_ready i (set_metadata_temp u d st)"
  "database_ready i st \<Longrightarrow> database_ready i (drop_metadata_temp u st)"
  "database_ready i st \<Longrightarrow> database_ready i (unlink_staged name st)"
  "database_ready i st \<Longrightarrow> database_ready i (chmod_database i st)"
  by (simp_all add: database_ready_def chmod_database_def dom_map_entry_lookup uncommitted_def
      committed_def set_metadata_temp_def drop_metadata_temp_def unlink_staged_def)

lemma database_ready_link [simp]: "database_ready i st \<Longrightarrow> committed (link_metadata u i st)"
  by (auto simp: database_ready_def uncommitted_def committed_def link_metadata_def update_conv'
      split: option.split)

lemma committed_delete_order:
  "committed st \<Longrightarrow> map_of (bs_metadata st) i = None \<Longrightarrow> committed (unlink_database i st)"
  using uncommitted_unlink [of i st] by (simp add: uncommitted_def)

section \<open>Deletion keeps the marker rule, and finishes what was begun\<close>

lemma triple_storage_raise:
  "(\<And>e s. P s \<Longrightarrow> E e s) \<Longrightarrow> triple P (storage_raise d) Q E"
  unfolding storage_raise_def
  by (rule triple_fetch_bnd, rule triple_pre [OF triple_raise]) auto

lemma triple_syscall_world:
  assumes "\<And>w. I w \<Longrightarrow> J (eff w)" and "\<And>w. I w \<Longrightarrow> K w"
  shows "triple (\<lambda>s. I (os_world s)) (syscall sc eff) (\<lambda>_ s. J (os_world s))
    (\<lambda>_ s. K (os_world s))"
  by (rule triple_weaken [OF triple_syscall_step [where I = I and J = J]]) (auto simp: assms)

lemma uncommitted_committed [simp]: "uncommitted i st \<Longrightarrow> committed st"
  by (simp add: uncommitted_def)

lemma uncommitted_unlink_metadata [simp]:
  "committed st \<Longrightarrow> uncommitted i (unlink_metadata i st)"
  by (simp add: uncommitted_def) (simp add: unlink_metadata_def delete_conv')

lemma triple_unlink_metadata:
  "triple (\<lambda>s. committed (os_world s)) (andthen (syscall sc (unlink_metadata i)) (syscall sc id))
     (\<lambda>_ s. uncommitted i (os_world s)) (\<lambda>_ s. committed (os_world s))"
  by (rule triple_andthen [OF triple_syscall_world [where J = "uncommitted i"] triple_syscall_world])
    simp_all

lemma triple_unlink_database:
  "triple (\<lambda>s. uncommitted i (os_world s)) (andthen (syscall sc (unlink_database i)) (syscall sc id))
     (\<lambda>_ s. committed (os_world s)) (\<lambda>_ s. committed (os_world s))"
  by (rule triple_andthen [OF triple_syscall_world [where J = "uncommitted i"] triple_syscall_world])
    simp_all

lemma triple_delete_files:
  "triple (\<lambda>s. os_world s = st \<and> committed st)
     (andthen (when_act (map_of (bs_metadata st) i \<noteq> None)
                 (andthen (syscall sc (unlink_metadata i)) (syscall sc id)))
               (when_act (map_of (bs_databases st) i \<noteq> None)
                 (andthen (syscall sc (unlink_database i)) (syscall sc id))))
     (\<lambda>_ s. committed (os_world s)) (\<lambda>_ s. committed (os_world s))"
  apply (rule triple_andthen [where R = "\<lambda>s. uncommitted i (os_world s)"])
   apply (rule triple_when [OF triple_pre [OF triple_unlink_metadata]])
    apply (auto simp: uncommitted_def) [2]
  apply (rule triple_when [OF triple_unlink_database])
  apply simp
  done

lemma delete_keeps_committed: "keeps (\<lambda>s. committed (os_world s)) (delete_backup sc msize i)"
  unfolding keeps_def delete_backup_def Let_def
  apply (rule triple_fetch_bnd)
  apply (rule triple_lift_andthen, simp)
  apply (rule triple_lift_andthen, simp)
  subgoal for st
    apply (cases "map_of (bs_metadata st) i = None \<and> map_of (bs_databases st) i = None")
     apply (simp, rule triple_pre [OF triple_ret], simp)
    apply (simp only: if_False not_not)
    apply (rule triple_andthen [where R = "\<lambda>s. os_world s = st \<and> committed st"])
     apply (rule triple_when [OF triple_lift_bnd], simp)
      apply (rule triple_when [OF triple_pre [OF triple_raise]]; simp)
     apply simp
    apply (rule triple_andthen [where R = "\<lambda>s. os_world s = st \<and> committed st"])
     apply (rule triple_when [OF triple_lift_bnd], simp)
      apply (rule triple_pre [OF triple_ret], simp)
     apply simp
    apply (rule triple_on_os_error [OF triple_weaken [OF triple_delete_files], OF _ _ _ triple_storage_raise])
    apply auto
    done
  done

section \<open>Publication keeps the marker rule when calls do not fail\<close>

lemma triple_crash_step:
  assumes "crash_only sc" and "\<And>w. I w \<Longrightarrow> J (eff w)" and "\<And>w. I w \<Longrightarrow> committed w"
  shows "triple (\<lambda>s. I (os_world s)) (syscall sc eff) (\<lambda>_ s. J (os_world s))
    (\<lambda>e s. e = killed \<and> committed (os_world s))"
  by (rule triple_weaken [OF triple_syscall_step [where I = I and J = J]]) (auto simp: assms)

lemma triple_crash_handler:
  assumes "triple P m Q (\<lambda>e s. e = killed \<and> committed (os_world s))"
  shows "triple P (on_os_error m h) Q (\<lambda>e s. e = killed \<and> committed (os_world s))"
  by (rule triple_on_os_error [where R = "\<lambda>_. False"], rule triple_weaken [OF assms])
    (auto simp: triple_def)

lemma ready_committed [simp]: "database_ready i st \<Longrightarrow> committed st"
  by (auto simp: database_ready_def)

lemma storage_failures [simp]:
  "\<not> is_storage_failure killed" "is_storage_failure (storage_error st d)"
  by (simp_all add: is_storage_failure_def storage_error_def killed_def is_os_error_def os_error_def
      mk_error_def)

lemma triple_publish_document_crash:
  assumes "crash_only sc" and "0 < msize m" and "bm_backup_id m = i"
  shows "triple (\<lambda>s. database_ready i (os_world s)) (publish_document sc msize u m)
    (\<lambda>_ s. committed (os_world s))
    (\<lambda>e s. committed (os_world s) \<and> (is_storage_failure e \<longrightarrow> uncommitted i (os_world s)))"
proof (cases "msize m > max_metadata_bytes")
  case True
  then show ?thesis
    by (auto simp: publish_document_def database_ready_def intro!: triple_storage_raise)
next
  case False
  let ?R = "\<lambda>s. database_ready i (os_world s)" and ?C = "\<lambda>s. committed (os_world s)"
  note step = triple_crash_step [OF assms(1)]
  have w: "triple ?R (write_all sc (\<lambda>n. set_metadata_temp u (written_document m (msize m) n)) (msize m) 0)
     (\<lambda>_. ?R) (\<lambda>e s. e = killed \<and> committed (os_world s))"
    by (rule triple_weaken [OF triple_write_all_step [where I = "database_ready i" and J = "database_ready i"]])
      (auto simp: assms)
  have seq: "triple ?R
        (andthen (syscall sc (set_metadata_temp u (Partial 0)))
        (andthen (syscall sc id)
        (andthen (write_all sc (\<lambda>n. set_metadata_temp u (written_document m (msize m) n)) (msize m) 0)
        (andthen (syscall sc id)
        (andthen (syscall sc id)
        (andthen (syscall sc (link_metadata u (bm_backup_id m)))
        (andthen (syscall sc (drop_metadata_temp u))
                 (syscall sc id))))))))
    (\<lambda>_. ?C) (\<lambda>e s. e = killed \<and> committed (os_world s))"
    by (intro triple_andthen [OF step [where I = "database_ready i" and J = "database_ready i"]]
        triple_andthen [OF w] triple_andthen [OF step [where I = "database_ready i" and J = committed]]
        triple_andthen [OF step [where I = committed and J = committed]] step)
      (simp_all add: assms)
  from False show ?thesis
    unfolding publish_document_def if_not_P [OF False]
    by (intro triple_weaken [OF triple_crash_handler [OF seq]]) simp_all
qed

lemma triple_publish_crash:
  assumes "crash_only sc" and "0 < msize (stored_metadata m)" and "bm_backup_id m = i"
  shows "triple (\<lambda>s. database_ready i (os_world s)) (publish_metadata sc msize u m)
    (\<lambda>_ s. committed (os_world s))
    (\<lambda>e s. committed (os_world s) \<and> (is_storage_failure e \<longrightarrow> uncommitted i (os_world s)))"
  unfolding publish_metadata_def
  by (rule triple_publish_document_crash [where msize = msize and m = "stored_metadata m", OF assms(1,2)]) (simp add: assms(3))

lemma triple_rollback_publication:
  assumes "crash_only sc"
  shows "triple (\<lambda>s. uncommitted i (os_world s))
    (andthen
      (on_os_error (andthen (syscall sc (unlink_database i)) (syscall sc id)) (storage_raise d1))
      (storage_raise d2))
    Q (\<lambda>_ s. committed (os_world s))"
proof (rule triple_andthen [where R = "\<lambda>s. uncommitted i (os_world s)"])
  note step = triple_crash_step [OF assms, where I = "uncommitted i" and J = "uncommitted i"]
  show "triple (\<lambda>s. uncommitted i (os_world s))
     (on_os_error (andthen (syscall sc (unlink_database i)) (syscall sc id)) (storage_raise d1))
     (\<lambda>_ s. uncommitted i (os_world s)) (\<lambda>_ s. committed (os_world s))"
    by (rule triple_weaken [OF triple_crash_handler [OF triple_andthen [OF step step]]]) simp_all
  show "triple (\<lambda>s. uncommitted i (os_world s)) (storage_raise d2) Q (\<lambda>_ s. committed (os_world s))"
    by (rule triple_storage_raise) simp
qed

lemma ensure_layout_frame:
  assumes "\<And>st r. I st \<Longrightarrow> I (st\<lparr>bs_root := r\<rparr>)"
  shows "keeps (\<lambda>s. I (os_world s)) (ensure_layout sc)"
proof -
  have raises: "keeps (\<lambda>s. I (os_world s)) (storage_raise d)" for d
    by (simp add: keeps_def triple_storage_raise)
  have create: "keeps (\<lambda>s. I (os_world s)) (syscall sc (\<lambda>w. w\<lparr>bs_root := r\<rparr>))"
    "keeps (\<lambda>s. I (os_world s)) (syscall sc id)" for r
    by (rule keeps_syscall, simp add: assms)+
  show ?thesis
    unfolding ensure_layout_def
    apply (intro keeps_bnd keeps_if keeps_andthen keeps_on_os_error keeps_simple raises)
     apply (auto intro: create keeps_simple split: root_state.split bool.split) []
    apply (auto intro: raises keeps_simple split: root_state.split bool.split)
    done
qed

lemma triple_fill_database:
  assumes "crash_only sc" and "0 < msize (stored_metadata m)" and "bm_backup_id m = i"
  shows "triple (\<lambda>s. database_ready i (os_world s))
    (andthen (syscall sc (unlink_staged name))
        (andthen (syscall sc (chmod_database i))
        (andthen (syscall sc id)
                 (publish_metadata sc msize u m))))
    (\<lambda>_ s. committed (os_world s))
    (\<lambda>e s. committed (os_world s) \<and> (is_storage_failure e \<longrightarrow> uncommitted i (os_world s)))"
proof -
  have step: "triple (\<lambda>s. database_ready i (os_world s)) (syscall sc eff)
      (\<lambda>_ s. database_ready i (os_world s))
      (\<lambda>e s. committed (os_world s) \<and> (is_storage_failure e \<longrightarrow> uncommitted i (os_world s)))"
    if "\<And>w. database_ready i w \<Longrightarrow> database_ready i (eff w)" for eff
    by (rule triple_weaken [OF triple_crash_step [OF assms(1), where I = "database_ready i"
            and J = "database_ready i"]]) (auto simp: that)
  show ?thesis
    by (intro triple_andthen [OF step] triple_publish_crash assms) simp_all
qed

lemma link_database_ready:
  "uncommitted i st \<Longrightarrow> validate_staged st name i = Inr d \<Longrightarrow> database_ready i (link_database name i st)"
  unfolding database_ready_def
  by (rule conjI, simp)
    (auto simp: validate_staged_def link_database_def update_conv' split: option.splits)

lemma triple_link_database:
  assumes "validate_staged st name i = Inr d"
  shows "triple (\<lambda>s. uncommitted i (os_world s) \<and> st = os_world s)
    (catching (syscall sc (link_database name i)) (\<lambda>e. if is_os_error e then storage_raise t else raise e))
    (\<lambda>_ s. database_ready i (os_world s)) (\<lambda>_ s. committed (os_world s))"
  apply (rule triple_catching [where R = "\<lambda>_ s. committed (os_world s)"])
   apply (rule triple_pre [OF triple_syscall])
   using assms apply (auto simp: link_database_ready) []
  subgoal for e
    by (cases "is_os_error e") (auto intro: triple_storage_raise triple_pre [OF triple_raise])
  done

lemma put_keeps_committed:
  assumes "crash_only sc" and "0 < msize (stored_metadata m)"
  shows "keeps (\<lambda>s. committed (os_world s)) (put_backup sc msize name u m)"
  unfolding keeps_def put_backup_def Let_def
  apply (rule triple_andthen)
   apply (rule ensure_layout_frame [where I = committed, unfolded keeps_def], simp)
  apply (rule triple_fetch_bnd)
  apply (rule triple_lift_andthen, simp)
  apply (rule triple_lift_andthen, simp)
  apply (rule_tac R = "\<lambda>s. committed (os_world s) \<and> x = os_world s" in triple_andthen)
   apply (rule triple_when [OF triple_storage_raise]; simp)
  apply (rule_tac R = "\<lambda>s. uncommitted (bm_backup_id m) (os_world s) \<and> x = os_world s" in triple_andthen)
   apply (rule triple_when [OF triple_storage_raise]; simp add: uncommitted_def)
  apply (rule triple_andthen [OF triple_link_database], assumption)
  apply (rule triple_andthen [where R = "\<lambda>s. committed (os_world s)"])
   apply (rule triple_catching [OF triple_fill_database [where m = m and i = "bm_backup_id m" and msize = msize, OF assms refl]])
  subgoal for st u1 d e
    by (cases "is_storage_failure e")
      (auto intro!: triple_pre [OF triple_raise] triple_pre [OF triple_rollback_publication [OF assms(1)]])
  apply (rule triple_fetch_bnd)
  apply (rule triple_pre [OF triple_lift_result], simp split: sum.split)
  done

section \<open>What a returned publication has stored\<close>

definition has_bytes :: "'d \<Rightarrow> string \<Rightarrow> 'd backup_store \<Rightarrow> bool" where
  "has_bytes d i st \<longleftrightarrow> (\<exists>f. map_of (bs_databases st) i = Some f \<and> f_content f = d)"

definition temp_holds :: "string \<Rightarrow> backup_metadata \<Rightarrow> 'd backup_store \<Rightarrow> bool" where
  "temp_holds u m st \<longleftrightarrow> map_of (bs_metadata_temps st) u = Some (private_file (Whole m))"

definition stores :: "'d \<Rightarrow> backup_metadata \<Rightarrow> 'd backup_store \<Rightarrow> bool" where
  "stores d m st \<longleftrightarrow> has_bytes d (bm_backup_id m) st \<and>
     map_of (bs_metadata st) (bm_backup_id m) = Some (private_file (Whole m))"

lemma has_bytes_steps [simp]:
  "has_bytes d i (set_metadata_temp u x st) = has_bytes d i st"
  "has_bytes d i (drop_metadata_temp u st) = has_bytes d i st"
  "has_bytes d i (unlink_staged name st) = has_bytes d i st"
  by (simp_all add: has_bytes_def)

lemma has_bytes_chmod [simp]: "has_bytes d i st \<Longrightarrow> has_bytes d i (chmod_database i st)"
  by (auto simp: has_bytes_def chmod_database_def map_entry_lookup)

lemma has_bytes_link:
  "validate_staged st name i = Inr d \<Longrightarrow> has_bytes d i (link_database name i st)"
  by (auto simp: has_bytes_def validate_staged_def link_database_def update_conv'
      split: option.splits if_splits)

lemma temp_holds_set [simp]: "temp_holds u m (set_metadata_temp u (Whole m) st)"
  by (simp add: temp_holds_def set_metadata_temp_def update_conv')

lemma stores_link [simp]:
  "has_bytes d (bm_backup_id m) st \<Longrightarrow> temp_holds u m st \<Longrightarrow>
   stores d m (link_metadata u (bm_backup_id m) st)"
  by (auto simp: stores_def temp_holds_def link_metadata_def update_conv' has_bytes_def)

lemma stores_drop [simp]: "stores d m (drop_metadata_temp u st) = stores d m st"
  by (simp add: stores_def)

lemma triple_publish_document_stores:
  assumes "0 < msize m"
  shows "triple (\<lambda>s. has_bytes d (bm_backup_id m) (os_world s)) (publish_document sc msize u m)
    (\<lambda>_ s. stores d m (os_world s)) (\<lambda>_ _. True)"
proof (cases "msize m > max_metadata_bytes")
  case True
  then show ?thesis by (simp add: publish_document_def triple_storage_raise)
next
  case False
  let ?B = "has_bytes d (bm_backup_id m)"
  let ?T = "\<lambda>w. ?B w \<and> temp_holds u m w"
  note step = triple_syscall_world [where K = "\<lambda>_. True"]
  have w: "triple (\<lambda>s. ?B (os_world s))
     (write_all sc (\<lambda>n. set_metadata_temp u (written_document m (msize m) n)) (msize m) 0)
     (\<lambda>_ s. ?T (os_world s)) (\<lambda>_ _. True)"
    by (rule triple_weaken [OF triple_write_all_step [where I = ?B and J = ?T]])
      (auto simp: assms written_document_def)
  show ?thesis
    unfolding publish_document_def if_not_P [OF False]
    apply (rule triple_on_os_error [where R = "\<lambda>_. True"])
     apply (rule triple_weaken [where E = "\<lambda>_ _. True" and Q = "\<lambda>_ s. stores d m (os_world s)" and
         P = "\<lambda>s. ?B (os_world s)"])
        apply (rule triple_andthen [OF step [where J = ?B]], simp, simp)
        apply (rule triple_andthen [OF step [where J = ?B]], simp, simp)
        apply (rule triple_andthen [OF w])
        apply (rule triple_andthen [OF step [where J = ?T]], simp, simp)
        apply (rule triple_andthen [OF step [where J = ?T]], simp, simp)
        apply (rule triple_andthen [OF step [where J = "stores d m"]], simp, simp)
        apply (rule triple_andthen [OF step [where J = "stores d m"]], simp, simp)
        apply (rule step, simp_all)
    apply (rule triple_andthen [where R = "\<lambda>_. True"])
     apply (auto simp: triple_def storage_raise_def bnd_def fetch_def raise_def split: prod.split sum.split)
    done
qed

lemma triple_publish_stores:
  assumes "0 < msize (stored_metadata m)"
  shows "triple (\<lambda>s. has_bytes d (bm_backup_id m) (os_world s)) (publish_metadata sc msize u m)
    (\<lambda>_ s. stores d (stored_metadata m) (os_world s)) (\<lambda>_ _. True)"
  unfolding publish_metadata_def
  using triple_publish_document_stores [where msize = msize and m = "stored_metadata m", OF assms] by simp

definition staged_bytes :: "string \<Rightarrow> 'd \<Rightarrow> 'd backup_store \<Rightarrow> bool" where
  "staged_bytes name d st \<longleftrightarrow> (\<exists>f. map_of (bs_staged st) name = Some f \<and> f_content f = d)"

lemma staged_validated:
  "validate_staged st name i = Inr d' \<Longrightarrow> staged_bytes name d st \<Longrightarrow> d' = d"
  by (auto simp: validate_staged_def staged_bytes_def split: option.splits if_splits)

lemma get_backup_stored:
  "stores d m st \<Longrightarrow> get_backup msize st (bm_backup_id m) = Inr a \<Longrightarrow> ba_metadata a = m"
  by (auto simp: get_backup_def verify_metadata_def stores_def rbind_Inr_iff validate_committed_file_def
      artifact_of_def split: option.splits if_splits)

lemma triple_put_stores:
  assumes "0 < msize (stored_metadata m)"
  shows "triple (\<lambda>s. staged_bytes name d (os_world s)) (put_backup sc msize name u m)
    (\<lambda>a s. stores d (stored_metadata m) (os_world s) \<and> get_backup msize (os_world s) (bm_backup_id m) = Inr a)
    (\<lambda>_ _. True)"
  unfolding put_backup_def Let_def
  apply (rule triple_andthen [where R = "\<lambda>s. staged_bytes name d (os_world s)"])
   apply (rule triple_weaken [OF ensure_layout_frame [where I = "staged_bytes name d", unfolded keeps_def]])
      apply (simp_all add: staged_bytes_def) [4]
  apply (rule triple_fetch_bnd)
  apply (rule triple_lift_andthen, simp)
  apply (rule triple_lift_andthen, simp)
  apply (rule_tac R = "\<lambda>s. staged_bytes name d (os_world s) \<and> x = os_world s" in triple_andthen)
   apply (rule triple_when [OF triple_storage_raise]; simp)
  apply (rule_tac R = "\<lambda>s. staged_bytes name d (os_world s) \<and> x = os_world s" in triple_andthen)
   apply (rule triple_when [OF triple_storage_raise]; simp)
  apply (rule_tac R = "\<lambda>s. has_bytes d (bm_backup_id m) (os_world s)" in triple_andthen)
   apply (rule triple_catching [where R = "\<lambda>_ _. True"])
    apply (rule triple_pre [OF triple_syscall])
    apply (auto dest: staged_validated has_bytes_link) []
   apply (auto intro: triple_storage_raise triple_pre [OF triple_raise]) []
  apply (rule triple_andthen [where R = "\<lambda>s. stores d (stored_metadata m) (os_world s)"])
   apply (rule triple_catching [where R = "\<lambda>_ _. True"])
    apply (rule triple_andthen [OF triple_syscall_world [where J = "has_bytes d (bm_backup_id m)"]], simp, simp)
    apply (rule triple_andthen [OF triple_syscall_world [where J = "has_bytes d (bm_backup_id m)"]], simp, simp)
    apply (rule triple_andthen [OF triple_syscall_world [where J = "has_bytes d (bm_backup_id m)"]], simp, simp)
    apply (rule triple_publish_stores, rule assms)
  subgoal for st u1 x e
    by (cases "is_storage_failure e")
      (auto simp: triple_def andthen_def bnd_def storage_raise_def fetch_def raise_def
        split: prod.split sum.split)
  apply (rule triple_fetch_bnd)
  apply (rule triple_pre [OF triple_lift_result], auto split: sum.split)
  done

section \<open>The store behind the inventory protocol\<close>

definition backup_record :: "backup_metadata \<Rightarrow> inventory_record" where
  "backup_record m = Inventory_record (bm_backup_id m) (bm_project m) (bm_created_at m)"

definition local_inventory ::
  "(backup_metadata \<Rightarrow> nat) \<Rightarrow> 'd backup_store osys \<Rightarrow> inventory_record list result" where
  "local_inventory msize s = rbind (list_backups msize (os_world s)) (\<lambda>ms. Inr (map backup_record ms))"

lemma collect_filter:
  assumes "collect f xs = Inr ys" and "\<And>x y. f x = Inr y \<Longrightarrow> g y = x" and "\<And>x. x \<noteq> k \<Longrightarrow> f' x = f x"
  shows "collect f' (filter (\<lambda>x. x \<noteq> k) xs) = Inr (filter (\<lambda>y. g y \<noteq> k) ys)"
  using assms(1)
proof (induction xs arbitrary: ys)
  case (Cons x xs)
  then show ?case using assms(2) [of x] assms(3) [of x] by (auto simp: rbind_Inr_iff)
qed simp

lemma collect_cong: "(\<And>x. x \<in> set xs \<Longrightarrow> f x = g x) \<Longrightarrow> collect f xs = collect g xs"
  by (induction xs) simp_all

lemma verify_metadata_id: "verify_metadata msize st i = Inr m \<Longrightarrow> bm_backup_id m = i"
  unfolding verify_metadata_def rbind_Inr_iff
  by (elim exE conjE, rename_tac d, case_tac d) (simp_all split: if_split_asm)

text \<open>What a listing looks at.\<close>

definition same_layout :: "'d backup_store \<Rightarrow> 'd backup_store \<Rightarrow> bool" where
  "same_layout st st' \<longleftrightarrow> bs_path st' = bs_path st \<and> bs_root st' = bs_root st"

lemma error_frame:
  "same_layout st st' \<Longrightarrow> storage_verification_error st' = storage_verification_error st"
  by (rule ext) (simp add: same_layout_def storage_verification_error_def)

lemma layout_frame:
  assumes "same_layout st st'"
  shows "validate_layout st' = validate_layout st"
  unfolding validate_layout_def error_frame [OF assms] using assms by (simp add: same_layout_def)

lemma verify_metadata_frame:
  assumes "same_layout st st'" and "map_of (bs_metadata st') i = map_of (bs_metadata st) i"
  shows "verify_metadata msize st' i = verify_metadata msize st i"
  unfolding verify_metadata_def validate_backup_id_def layout_frame [OF assms(1)] assms(2)
    validate_committed_file_def error_frame [OF assms(1)] by (rule refl)

lemma map_fst_delete: "map fst (AList.delete k al) = filter (\<lambda>x. x \<noteq> k) (map fst al)"
  by (induction al) auto

lemma list_backups_delete:
  assumes "same_layout st st'" and "bs_metadata st' = AList.delete k (bs_metadata st)"
    and "list_backups msize st = Inr ms"
  shows "list_backups msize st' = Inr (filter (\<lambda>m. bm_backup_id m \<noteq> k) ms)"
proof -
  have names: "metadata_names st' = filter (\<lambda>x. x \<noteq> k) (metadata_names st)"
    unfolding metadata_names_def filter_sort assms(2) map_fst_delete by (simp add: conj_commute)
  have "verify_metadata msize st' i = verify_metadata msize st i" if "i \<noteq> k" for i
    using that by (intro verify_metadata_frame assms(1)) (simp add: assms(2) delete_conv')
  then show ?thesis
    using assms(3) unfolding list_backups_def layout_frame [OF assms(1)] names
    by (auto simp: rbind_Inr_iff intro!: collect_filter dest: verify_metadata_id)
qed

lemma list_backups_same:
  assumes "same_layout st st'" and "bs_metadata st' = bs_metadata st"
  shows "list_backups msize st' = list_backups msize st"
proof -
  have "verify_metadata msize st' i = verify_metadata msize st i" for i
    by (rule verify_metadata_frame [OF assms(1)]) (simp add: assms(2))
  then show ?thesis
    unfolding list_backups_def metadata_names_def layout_frame [OF assms(1)] assms(2)
    by (simp cong: collect_cong)
qed

lemma list_backups_absent:
  assumes "map_of (bs_metadata st) k = None" and "list_backups msize st = Inr ms"
  shows "filter (\<lambda>m. bm_backup_id m \<noteq> k) ms = ms"
proof -
  have "AList.delete k (bs_metadata st) = bs_metadata st"
    using assms(1) by (simp add: delete_idem map_of_eq_None_iff)
  then show ?thesis
    using list_backups_delete [OF _ _ assms(2), of st k] assms(2) by (simp add: same_layout_def)
qed

definition delete_effect ::
  "string \<Rightarrow> 'd backup_store \<Rightarrow> bool \<Rightarrow> 'd backup_store \<Rightarrow> bool" where
  "delete_effect k st returned st' \<longleftrightarrow> same_layout st st' \<and>
     (bs_metadata st' = AList.delete k (bs_metadata st) \<or>
      bs_metadata st' = bs_metadata st \<and> (returned \<longrightarrow> map_of (bs_metadata st) k = None))"

lemma delete_effect_steps:
  "same_layout st st' \<Longrightarrow> same_layout st (unlink_metadata k st')"
  "same_layout st st' \<Longrightarrow> same_layout st (unlink_database k st')"
  "bs_metadata (unlink_metadata k st') = AList.delete k (bs_metadata st')"
  by (simp_all add: same_layout_def unlink_metadata_def unlink_database_def)

lemma triple_delete_effect:
  "triple (\<lambda>s. os_world s = st) (delete_backup sc msize k)
     (\<lambda>_ s. delete_effect k st True (os_world s)) (\<lambda>_ s. delete_effect k st False (os_world s))"
proof -
  let ?A = "\<lambda>w. same_layout st w \<and> bs_metadata w = AList.delete k (bs_metadata st)"
  let ?N = "\<lambda>w. same_layout st w \<and> bs_metadata w = bs_metadata st \<and> map_of (bs_metadata st) k = None"
  let ?E = "\<lambda>_ s. delete_effect k st False (os_world s)"
  have meta: "triple (\<lambda>s. os_world s = st)
      (when_act (map_of (bs_metadata st) k \<noteq> None) (andthen (syscall sc (unlink_metadata k)) (syscall sc id)))
      (\<lambda>_ s. delete_effect k st True (os_world s)) ?E"
    apply (rule triple_when)
     apply (rule triple_andthen [OF triple_syscall_world [where I = "\<lambda>w. w = st" and J = ?A]])
       apply (simp add: same_layout_def unlink_metadata_def)
      apply (simp add: delete_effect_def same_layout_def)
     apply (rule triple_weaken [OF triple_syscall_world [where I = ?A and J = ?A and K = ?A]])
         apply (auto simp: delete_effect_def same_layout_def)
    done
  have data: "triple (\<lambda>s. delete_effect k st True (os_world s))
      (when_act b (andthen (syscall sc (unlink_database k)) (syscall sc id)))
      (\<lambda>_ s. delete_effect k st True (os_world s)) ?E" for b
    apply (rule triple_when)
     apply (rule triple_andthen [OF triple_syscall_world [where J = "delete_effect k st True"]])
       apply (simp add: delete_effect_steps delete_effect_def same_layout_def unlink_database_def)
      apply (auto simp: delete_effect_def) []
     apply (rule triple_syscall_world)
      apply (auto simp: delete_effect_def)
    done
  show ?thesis
    unfolding delete_backup_def Let_def
    apply (rule triple_fetch_bnd)
    apply (rule triple_lift_andthen, simp add: delete_effect_def same_layout_def)
    apply (rule triple_lift_andthen, simp add: delete_effect_def same_layout_def)
    subgoal for x
      apply (cases "map_of (bs_metadata x) k = None \<and> map_of (bs_databases x) k = None")
       apply (simp, rule triple_pre [OF triple_ret], auto simp: delete_effect_def same_layout_def) []
      apply (simp only: if_False not_not)
      apply (rule triple_andthen [where R = "\<lambda>s. os_world s = st \<and> x = st"])
       apply (rule triple_when [OF triple_lift_bnd], simp add: delete_effect_def same_layout_def)
        apply (rule triple_when [OF triple_pre [OF triple_raise]]; simp add: delete_effect_def same_layout_def)
       apply simp
      apply (rule triple_andthen [where R = "\<lambda>s. os_world s = st \<and> x = st"])
       apply (rule triple_when [OF triple_lift_bnd], simp add: delete_effect_def same_layout_def)
        apply (rule triple_pre [OF triple_ret], simp)
       apply simp
      apply (cases "x = st"; hypsubst?)
       apply (rule triple_on_os_error [where R = "\<lambda>s. delete_effect k st False (os_world s)"])
        apply (rule triple_weaken [OF triple_andthen [OF meta data]])
          apply simp_all [4]
       apply (rule triple_storage_raise, assumption)
      apply (simp add: triple_def)
      done
    done
qed

lemma list_backups_effect:
  assumes "delete_effect k st b st'" and "list_backups msize st = Inr ms"
  shows "list_backups msize st' = Inr ms \<and> \<not> b \<or>
    list_backups msize st' = Inr (filter (\<lambda>m. bm_backup_id m \<noteq> k) ms)"
  using assms list_backups_delete [of st st' k msize ms] list_backups_same [of st st' msize]
    list_backups_absent [of st k msize ms]
  unfolding delete_effect_def by fastforce

lemma delete_backup_effect:
  "delete_backup sc msize k s = (r, t) \<Longrightarrow> delete_effect k (os_world s) (\<not> isl r) (os_world t)"
  by (cases r) (simp_all add: tripleD_Inl [OF triple_delete_effect refl]
      tripleD_Inr [OF triple_delete_effect refl])

lemma local_inventory_delete:
  assumes "local_inventory msize s = Inr rs" and "delete_backup sc msize k s = (r, t)"
  shows "local_inventory msize t = Inr rs \<and> r \<noteq> Inr () \<or>
    local_inventory msize t = Inr (filter (\<lambda>q. record_id q \<noteq> k) rs)"
proof -
  obtain ms where ms: "list_backups msize (os_world s) = Inr ms" "rs = map backup_record ms"
    using assms(1) by (auto simp: local_inventory_def rbind_Inr_iff)
  from list_backups_effect [OF delete_backup_effect [OF assms(2)] ms(1)]
  consider "list_backups msize (os_world t) = Inr ms" "isl r"
    | "list_backups msize (os_world t) = Inr (filter (\<lambda>m. bm_backup_id m \<noteq> k) ms)"
    by blast
  then show ?thesis
    by cases (auto simp: local_inventory_def ms(2) filter_map o_def backup_record_def)
qed

interpretation store: inventory
  "local_inventory msize" "delete_backup sc msize" "\<lambda>s. committed (os_world s)"
  using keepsD [OF delete_keeps_committed] local_inventory_delete by unfold_locales blast+

section \<open>A store to evaluate on\<close>

definition example_backup_id :: string where
  "example_backup_id = ''backup_0123456789abcdef0123456789abcdef''"

definition example_metadata :: backup_metadata where
  "example_metadata = \<lparr>bm_backup_id = example_backup_id, bm_project = ''shop'', bm_purpose = BP_final,
     bm_source_database_path = ''/srv/app.db'', bm_database_file_name = example_backup_id @ ''.db'',
     bm_size_bytes = 4096,
     bm_sha256 = ''0123456789abcdef0123456789abcdef0123456789abcdef0123456789abcdef'',
     bm_sqlite = \<lparr>sv_quick_check_passed = True, sv_foreign_key_check_passed = True,
       sv_integrity_check_passed = None, sv_checked_at = 1000, sv_duration = 0\<rparr>,
     bm_operation_id = None, bm_created_at = 1000, bm_completed_at = 2000\<rparr>"

definition example_staging_name :: string where
  "example_staging_name = ''.'' @ example_backup_id @ ''.tmp''"

definition example_store :: "nat backup_store osys" where
  "example_store = \<lparr>os_calls = 0, os_world = \<lparr>bs_path = ''/srv/backups'',
     bs_root = Root_entry True directory_mode,
     bs_staged = [(example_staging_name, private_file 7)], bs_databases = [], bs_metadata = [],
     bs_metadata_temps = []\<rparr>\<rparr>"

text \<open>The twelfth call of this publication is the unlink after the metadata link.\<close>

definition fails_at :: "nat \<Rightarrow> schedule" where
  "fails_at k n = (if n = k then Fails else Works)"

definition ready_to_put :: "(backup_metadata \<Rightarrow> nat) \<Rightarrow> string \<Rightarrow> backup_metadata \<Rightarrow> 'd disk_file \<Rightarrow> 'd backup_store \<Rightarrow> bool" where
  "ready_to_put msize name m f st \<longleftrightarrow>
     bs_root st = Root_entry True directory_mode \<and> is_backup_id (bm_backup_id m) \<and>
     map_of (bs_staged st) name = Some f \<and> is_private_file f \<and>
     take (length (bm_backup_id m) + 2) name = ''.'' @ bm_backup_id m @ ''.'' \<and>
     map_of (bs_databases st) (bm_backup_id m) = None \<and>
     map_of (bs_metadata st) (bm_backup_id m) = None \<and>
     valid_backup_metadata m \<and> 0 < msize (stored_metadata m) \<and>
     msize (stored_metadata m) \<le> max_metadata_bytes"

lemma storage_raise_run: "storage_raise d s = (Inl (storage_error (os_world s) d), s)"
  by (simp add: storage_raise_def run_simps)

lemma put_succeeds:
  assumes "ready_to_put msize name m f (os_world s)"
  shows "\<exists>a t. put_backup all_work msize name u m s = (Inr a, t)"
  using assms
  apply (cases s)
  apply (simp add: ready_to_put_def put_backup_def run_simps storage_raise_run ensure_layout_def
      all_work_def validate_backup_id_def validate_staged_def ensure_def
      publish_metadata_def publish_document_def)
  apply (simp add: get_backup_def verify_metadata_def validate_backup_id_def validate_layout_def check_directory_def ensure_def
     valid_stored_metadata validate_committed_file_def link_metadata_def set_metadata_temp_def drop_metadata_temp_def chmod_database_def
     link_database_def unlink_staged_def update_conv' map_entry_lookup written_document_def is_private_file_def)
  done

lemma example_ready: "ready_to_put (\<lambda>_. 100) example_staging_name example_metadata (private_file 7) (os_world example_store)"
  by (simp add: ready_to_put_def example_store_def example_metadata_def example_staging_name_def
      example_backup_id_def is_backup_id_def hex_tail_def is_lower_hex_def valid_backup_metadata_def
      backup_metadata_checks_def valid_sqlite_verification_def length_between_def is_sha256_def is_absolute_def
      max_metadata_bytes_def)

lemma example_committed: "committed (os_world example_store)"
  by (simp add: committed_def example_store_def)

definition example_committed_store :: "nat backup_store osys" where
  "example_committed_store = \<lparr>os_calls = 0, os_world = \<lparr>bs_path = ''/srv/backups'',
     bs_root = Root_entry True directory_mode, bs_staged = [],
     bs_databases = [(example_backup_id, private_file 7)],
     bs_metadata = [(example_backup_id, private_file (Whole example_metadata))],
     bs_metadata_temps = []\<rparr>\<rparr>"

lemma example_committed_ok: "committed (os_world example_committed_store)"
  by (simp add: committed_def example_committed_store_def)

lemma example_committed_listing:
  "local_inventory (\<lambda>_. 100) example_committed_store = Inr [backup_record example_metadata]"
proof -
  have "valid_backup_metadata example_metadata" "is_backup_id example_backup_id"
    "bm_backup_id example_metadata = example_backup_id"
    using example_ready by (simp_all add: ready_to_put_def example_metadata_def)
  moreover have "metadata_names (os_world example_committed_store) = [example_backup_id]"
    by (simp add: metadata_names_def example_committed_store_def) (simp add: example_backup_id_def)
  ultimately show ?thesis
    by (simp add: local_inventory_def list_backups_def validate_layout_def check_directory_def ensure_def verify_metadata_def
        validate_backup_id_def validate_committed_file_def max_metadata_bytes_def)
      (simp add: example_committed_store_def validate_layout_def check_directory_def ensure_def max_metadata_bytes_def)
qed

text \<open>
  When no system call fails, publishing a backup never leaves metadata without its
  database, at whatever call the process is killed: the metadata is linked only after the
  database, and the handler that removes the database runs only before the link.
\<close>

theorem publication_keeps_marker:
  assumes "crash_only sc" and "0 < msize (stored_metadata m)" and "committed (os_world s)"
  shows "committed (os_world (snd (put_backup sc msize name u m s)))"
  using keepsD [OF put_keeps_committed [where msize = msize and m = m, OF assms(1,2)] _ assms(3)] by (metis prod.collapse)

theorem publication_keeps_marker_witness:
  "committed (os_world (snd (put_backup all_work (\<lambda>_. 100) example_staging_name ''t''
     example_metadata example_store)))"
  by (rule publication_keeps_marker [OF crash_only_all_work _ example_committed]) simp

text \<open>
  Deleting a backup never leaves metadata without its database, whatever calls fail and
  wherever the process is killed.
\<close>

theorem deletion_keeps_marker:
  assumes "committed (os_world s)"
  shows "committed (os_world (snd (delete_backup sc msize i s)))"
  using keepsD [OF delete_keeps_committed _ assms] by (metis prod.collapse)

theorem deletion_keeps_marker_witness:
  "committed (os_world (snd (delete_backup (fails_at 0) (\<lambda>_. 100) example_backup_id example_store)))"
  by (rule deletion_keeps_marker [OF example_committed])

text \<open>
  C13. A publication that returns has stored what it was given: the artifact it returns carries
  the metadata, the store gives the same artifact when asked for the ID, and the database file
  holds the staged bytes.
\<close>

theorem published_backup_reads_back:
  assumes "map_of (bs_staged (os_world s)) name = Some f" and "0 < msize (stored_metadata m)"
    and "put_backup sc msize name u m s = (Inr a, t)"
  shows "ba_metadata a = stored_metadata m \<and> get_backup msize (os_world t) (bm_backup_id m) = Inr a \<and>
    (\<exists>g. map_of (bs_databases (os_world t)) (bm_backup_id m) = Some g \<and> f_content g = f_content f)"
proof -
  have "staged_bytes name (f_content f) (os_world s)" using assms(1) by (simp add: staged_bytes_def)
  note stored = tripleD_Inr [OF triple_put_stores [where msize = msize and m = m, OF assms(2)] this assms(3)]
  have "ba_metadata a = stored_metadata m"
    using get_backup_stored [OF conjunct1 [OF stored]] conjunct2 [OF stored] by simp
  with stored show ?thesis by (auto simp: stores_def has_bytes_def)
qed

theorem published_backup_reads_back_witness:
  "\<exists>a t. get_backup (\<lambda>_. 100) (os_world t) example_backup_id = Inr a \<and> ba_metadata a = example_metadata \<and>
     t = snd (put_backup all_work (\<lambda>_. 100) example_staging_name ''t'' example_metadata example_store)"
proof -
  obtain a t where run: "put_backup all_work (\<lambda>_. 100) example_staging_name ''t'' example_metadata
      example_store = (Inr a, t)"
    using put_succeeds [OF example_ready] by blast
  have "map_of (bs_staged (os_world example_store)) example_staging_name = Some (private_file 7)"
    by (simp add: example_store_def)
  from published_backup_reads_back [OF this _ run] run show ?thesis
    by (simp add: example_metadata_def stored_metadata_def stored_sqlite_verification_def
        serialize_utc_timestamp_def)
qed



text \<open>
  C32. A fault after the metadata link leaves metadata without a database: the unlink of the
  temporary file fails, the handler removes the database and keeps the metadata, and from then
  on no deletion of that backup can succeed.
\<close>

theorem publication_fault_orphans_metadata:
  assumes "ready_to_put msize name m f (os_world s)" and "os_calls s = 0"
  shows "\<exists>e t. put_backup (fails_at 11) msize name u m s = (Inl e, t) \<and> \<not> committed (os_world t) \<and>
    (\<forall>sc. \<exists>e'. delete_backup sc msize (bm_backup_id m) t = (Inl e', t))"
  using assms
  apply (cases s)
  apply (simp add: ready_to_put_def put_backup_def run_simps storage_raise_run ensure_layout_def
      fails_at_def validate_backup_id_def validate_staged_def ensure_def
      publish_metadata_def publish_document_def valid_stored_metadata ignoring_def)
  apply (simp add: delete_backup_def run_simps storage_raise_run committed_def)
  apply (simp add: get_backup_def verify_metadata_def validate_backup_id_def validate_layout_def check_directory_def ensure_def
     valid_stored_metadata validate_committed_file_def link_metadata_def set_metadata_temp_def drop_metadata_temp_def chmod_database_def
     link_database_def unlink_staged_def update_conv' map_entry_lookup written_document_def is_private_file_def
     unlink_database_def delete_conv' dom_update run_simps storage_raise_run bnd_def)
  done

theorem publication_fault_orphans_metadata_witness:
  "\<not> committed (os_world (snd (put_backup (fails_at 11) (\<lambda>_. 100) example_staging_name ''t''
     example_metadata example_store)))"
proof -
  have "os_calls example_store = 0" by (simp add: example_store_def)
  from publication_fault_orphans_metadata [OF example_ready this]
  obtain e t where "put_backup (fails_at 11) (\<lambda>_. 100) example_staging_name ''t''
      example_metadata example_store = (Inl e, t)" "\<not> committed (os_world t)" by blast
  then show ?thesis by simp
qed

end
