(* ===== verification/Recovery_Plan.thy ===== *)
theory Recovery_Plan
  imports Releases Operations Evidence "HOL-Library.Sublist"
begin

text \<open>
  The recovery plan of \<^verbatim>\<open>dploydb/recovery.py\<close>: a pure decision from the durable records of an
  interrupted deployment and what can be observed live. The properties say when a plan may
  restore the database, how its actions are ordered, that it reads the recorded evidence of the
  activation the way the coordinator judged it, and where a plan can never be completed.
\<close>

section \<open>Facts and plans\<close>

datatype runtime_state = RS_running | RS_stopped | RS_absent | RS_unknown

datatype disposition = RD_no_action | RD_recover_previous | RD_complete_new | RD_manual_required

datatype recovery_action =
    RA_remove_new_application | RA_restore_final_backup | RA_restart_previous_application
  | RA_activate_previous_traffic | RA_disable_maintenance | RA_verify_previous
  | RA_mark_rolled_back | RA_verify_new | RA_mark_active

fun recovery_action_value :: "recovery_action \<Rightarrow> string" where
  "recovery_action_value RA_remove_new_application = ''remove_new_application''"
| "recovery_action_value RA_restore_final_backup = ''restore_final_backup''"
| "recovery_action_value RA_restart_previous_application = ''restart_previous_application''"
| "recovery_action_value RA_activate_previous_traffic = ''activate_previous_traffic''"
| "recovery_action_value RA_disable_maintenance = ''disable_maintenance''"
| "recovery_action_value RA_verify_previous = ''verify_previous''"
| "recovery_action_value RA_mark_rolled_back = ''mark_rolled_back''"
| "recovery_action_value RA_verify_new = ''verify_new''"
| "recovery_action_value RA_mark_active = ''mark_active''"

fun disposition_value :: "disposition \<Rightarrow> string" where
  "disposition_value RD_no_action = ''no_action''"
| "disposition_value RD_recover_previous = ''recover_previous''"
| "disposition_value RD_complete_new = ''complete_new''"
| "disposition_value RD_manual_required = ''manual_required''"

record live_state =
  ls_previous :: runtime_state
  ls_new :: runtime_state
  ls_final_verified :: bool
  ls_production_sha256 :: "string option"
  ls_final_sha256 :: "string option"

record recovery_plan =
  pl_disposition :: disposition
  pl_release_id :: string
  pl_operation_id :: string
  pl_durable_stage :: string
  pl_production_changed :: bool
  pl_traffic_switched :: bool
  pl_restore_allowed :: bool
  pl_actions :: "recovery_action list"
  pl_reason :: string
  pl_next_safe_action :: string
  pl_final_backup_id :: "string option"

definition plan_executable :: "recovery_plan \<Rightarrow> bool" where
  "plan_executable p \<longleftrightarrow> pl_disposition p \<in> {RD_recover_previous, RD_complete_new}"

definition plan_json :: "recovery_plan \<Rightarrow> json" where
  "plan_json p = JObj
     [(''disposition'', JStr (disposition_value (pl_disposition p))),
      (''release_id'', JStr (pl_release_id p)),
      (''operation_id'', JStr (pl_operation_id p)),
      (''durable_stage'', JStr (pl_durable_stage p)),
      (''production_may_have_changed'', JBool (pl_production_changed p)),
      (''traffic_may_have_switched'', JBool (pl_traffic_switched p)),
      (''automatic_database_restore_allowed'', JBool (pl_restore_allowed p)),
      (''actions'', JList (map (\<lambda>a. JStr (recovery_action_value a)) (pl_actions p))),
      (''reason'', JStr (pl_reason p)),
      (''next_safe_action'', JStr (pl_next_safe_action p)),
      (''final_backup_id'', optional JStr (pl_final_backup_id p))]"

section \<open>Reading the durable evidence\<close>

definition identity_problem ::
  "operation_manifest \<Rightarrow> operation_event list \<Rightarrow> release_manifest \<Rightarrow> string option" where
  "identity_problem operation events release =
    (if om_operation_type operation \<noteq> ''deploy''
     then Some ''The unfinished operation is not a deployment.''
     else if om_operation_id operation \<noteq> rm_operation_id release
     then Some ''The release and operation identities do not match.''
     else if events = [] \<or> ev_operation_id (last events) \<noteq> om_operation_id operation
     then Some ''The operation event trail is missing or belongs to another operation.''
     else if ev_sequence (last events) \<noteq> om_last_event_sequence operation
     then Some ''The operation event trail is incomplete.''
     else None)"

datatype conclusion = AC_succeeded | AC_not_attempted | AC_not_started | AC_uncertain

text \<open>The last \<^verbatim>\<open>traffic_hook\<close> evidence of the activation in the trail.\<close>

definition activation_evidence :: "operation_event \<Rightarrow> (string \<times> json) list option" where
  "activation_evidence e = (case json_get (ev_evidence e) ''traffic_hook'' of
      Some (JObj hook) \<Rightarrow>
       (if json_get hook ''action'' = Some (JStr ''activate_new'') then Some hook else None)
    | _ \<Rightarrow> None)"

fun last_activation :: "operation_event list \<Rightarrow> (string \<times> json) list option" where
  "last_activation [] = None"
| "last_activation (e # es) =
    (case last_activation es of Some hook \<Rightarrow> Some hook | None \<Rightarrow> activation_evidence e)"

definition json_is_none :: "(string \<times> json) list \<Rightarrow> string \<Rightarrow> bool" where
  "json_is_none kvs k \<longleftrightarrow> json_get kvs k = None \<or> json_get kvs k = Some JNull"

definition judge_activation :: "(string \<times> json) list \<Rightarrow> conclusion" where
  "judge_activation hook = (case json_get hook ''command'' of
      Some (JObj command) \<Rightarrow>
       (let outcome = json_get command ''outcome'' in
        if json_get hook ''passed'' = Some (JBool True) \<and> outcome = Some (JStr ''succeeded'')
        then AC_succeeded
        else if outcome = Some (JStr ''start_failed'') \<or>
                (outcome = Some (JStr ''cancelled'') \<and> json_is_none command ''exit_code'')
        then AC_not_started
        else AC_uncertain)
    | _ \<Rightarrow> AC_uncertain)"

definition activation_conclusion :: "release_manifest \<Rightarrow> operation_event list \<Rightarrow> conclusion" where
  "activation_conclusion release events =
    (if rm_traffic_activated release then AC_succeeded
     else if \<not> rm_traffic_activation_attempted release then AC_not_attempted
     else case last_activation events of None \<Rightarrow> AC_uncertain | Some hook \<Rightarrow> judge_activation hook)"

definition manual_plan ::
  "operation_manifest \<Rightarrow> release_manifest \<Rightarrow> string \<Rightarrow> bool \<Rightarrow> bool \<Rightarrow> recovery_plan" where
  "manual_plan operation release reason changed switched =
     \<lparr>pl_disposition = RD_manual_required, pl_release_id = rm_release_id release,
      pl_operation_id = om_operation_id operation, pl_durable_stage = om_stage operation,
      pl_production_changed = changed, pl_traffic_switched = switched, pl_restore_allowed = False,
      pl_actions = [], pl_reason = reason,
      pl_next_safe_action =
        ''Preserve all evidence, determine the live application and traffic target, and do '' @
        ''not restore the database automatically.'',
      pl_final_backup_id = rm_final_backup_id release\<rparr>"

section \<open>The plan\<close>

definition production_may_have_changed :: "operation_manifest \<Rightarrow> release_manifest \<Rightarrow> bool" where
  "production_may_have_changed operation release \<longleftrightarrow>
     rm_production_changed release \<or> rm_production_migration_started release \<or>
     sf_production_changed (om_safety operation)"

text \<open>The actions that bring the previous release back, or the reason why not.\<close>

definition previous_actions :: "release_manifest \<Rightarrow> live_state \<Rightarrow> bool \<Rightarrow> string + recovery_action list" where
  "previous_actions release live changed =
    (let removing = ls_new live \<in> {RS_running, RS_stopped};
         matches = (ls_production_sha256 live \<noteq> None \<and> ls_production_sha256 live = ls_final_sha256 live)
     in if removing \<and> rm_new_application release = None
        then Inl ''A new-release resource exists without a durable exact application handle.''
        else if changed \<and> (rm_final_backup_id release = None \<or> \<not> ls_final_verified live)
        then Inl ''Production may have changed but the final backup is not verified.''
        else if changed \<and> \<not> matches \<and> ls_previous live = RS_running
        then Inl ''The previous application is running while the database needs restoration.''
        else Inr
          ((if removing then [RA_remove_new_application] else []) @
           (if changed \<and> \<not> matches then [RA_restore_final_backup] else []) @
           (if ls_previous live = RS_stopped then [RA_restart_previous_application] else []) @
           [RA_activate_previous_traffic, RA_disable_maintenance, RA_verify_previous, RA_mark_rolled_back]))"

definition recover_previous_plan ::
  "operation_manifest \<Rightarrow> release_manifest \<Rightarrow> live_state \<Rightarrow> bool \<Rightarrow> recovery_plan" where
  "recover_previous_plan operation release live changed =
    (if rm_previous_application release = None
     then manual_plan operation release ''The exact previous application identity is missing.'' changed False
     else if ls_previous live \<in> {RS_absent, RS_unknown}
     then manual_plan operation release ''The exact previous application cannot be inspected safely.'' changed False
     else if ls_new live = RS_unknown
     then manual_plan operation release ''New-release application presence cannot be proven.'' changed False
     else case previous_actions release live changed of
       Inl reason \<Rightarrow> manual_plan operation release reason changed False
     | Inr actions \<Rightarrow>
         \<lparr>pl_disposition = RD_recover_previous, pl_release_id = rm_release_id release,
          pl_operation_id = om_operation_id operation, pl_durable_stage = om_stage operation,
          pl_production_changed = changed, pl_traffic_switched = False, pl_restore_allowed = True,
          pl_actions = actions,
          pl_reason = ''Durable evidence proves recovery to the previous release is safe.'',
          pl_next_safe_action = ''Execute the ordered recovery plan and verify every resulting state.'',
          pl_final_backup_id = rm_final_backup_id release\<rparr>)"

definition complete_new_plan :: "operation_manifest \<Rightarrow> release_manifest \<Rightarrow> live_state \<Rightarrow> recovery_plan" where
  "complete_new_plan operation release live =
    (if ls_new live \<noteq> RS_running
     then manual_plan operation release
       ''New traffic was activated but the exact checked application is not running.'' True True
     else
       \<lparr>pl_disposition = RD_complete_new, pl_release_id = rm_release_id release,
        pl_operation_id = om_operation_id operation, pl_durable_stage = om_stage operation,
        pl_production_changed = True, pl_traffic_switched = True, pl_restore_allowed = False,
        pl_actions = [RA_disable_maintenance, RA_verify_new, RA_mark_active],
        pl_reason = ''New traffic activation succeeded before the operation was interrupted.'',
        pl_next_safe_action =
          ''Keep the new database and application; finish maintenance cleanup and verify '' @
          ''the new release.'',
        pl_final_backup_id = rm_final_backup_id release\<rparr>)"

definition no_action_plan :: "operation_manifest \<Rightarrow> release_manifest \<Rightarrow> recovery_plan" where
  "no_action_plan operation release =
     \<lparr>pl_disposition = RD_no_action, pl_release_id = rm_release_id release,
      pl_operation_id = om_operation_id operation, pl_durable_stage = om_stage operation,
      pl_production_changed = rm_production_changed release,
      pl_traffic_switched = rm_traffic_activated release,
      pl_restore_allowed = (\<not> rm_traffic_activated release), pl_actions = [],
      pl_reason = ''The deployment already has a proven terminal state.'',
      pl_next_safe_action = ''No recovery action is required.'',
      pl_final_backup_id = rm_final_backup_id release\<rparr>"

definition build_recovery_plan ::
  "operation_manifest \<Rightarrow> operation_event list \<Rightarrow> release_manifest \<Rightarrow> live_state \<Rightarrow> recovery_plan" where
  "build_recovery_plan operation events release live =
    (case identity_problem operation events release of
       Some reason \<Rightarrow> manual_plan operation release reason True False
     | None \<Rightarrow>
        if rm_status release \<in> {DS_active, DS_rolled_back, DS_failed_safe} \<and>
           (om_status operation \<noteq> OS_in_progress \<or> rm_recovery_operation_id release \<noteq> None)
        then no_action_plan operation release
        else if rm_recovery_protocol_version release \<noteq> Some 2
        then manual_plan operation release
          ''The interrupted release predates durable recovery intent markers.'' True False
        else (case activation_conclusion release events of
          AC_succeeded \<Rightarrow> complete_new_plan operation release live
        | AC_uncertain \<Rightarrow> manual_plan operation release
            ''New-traffic activation was attempted without proof of the live target.'' True True
        | _ \<Rightarrow>
            if rm_status release \<in> {DS_created, DS_preflight_passed, DS_snapshot_verified,
                 DS_rehearsal_passed, DS_candidate_healthy}
            then manual_plan operation release
              ''The operation stopped before the exact production application was durably stored.'' False False
            else recover_previous_plan operation release live
              (production_may_have_changed operation release)))"

section \<open>What a plan may do\<close>

lemmas plan_defs = build_recovery_plan_def manual_plan_def no_action_plan_def complete_new_plan_def
  recover_previous_plan_def

lemma manual_plan_simps [simp]:
  "pl_actions (manual_plan op rel r c s) = []" "pl_disposition (manual_plan op rel r c s) = RD_manual_required"
  "pl_actions (no_action_plan op rel) = []" "pl_disposition (no_action_plan op rel) = RD_no_action"
  by (simp_all add: manual_plan_def no_action_plan_def)

definition canonical_rollback :: "recovery_action list" where
  "canonical_rollback = [RA_remove_new_application, RA_restore_final_backup, RA_restart_previous_application,
     RA_activate_previous_traffic, RA_disable_maintenance, RA_verify_previous, RA_mark_rolled_back]"

text \<open>Every plan is a manual one, nothing to do, the completion, or a rollback.\<close>

lemma plan_cases:
  obtains (idle) "pl_actions (build_recovery_plan operation events release live) = []"
      "\<not> plan_executable (build_recovery_plan operation events release live)"
  | (completing) "pl_actions (build_recovery_plan operation events release live) =
        [RA_disable_maintenance, RA_verify_new, RA_mark_active]"
      "pl_disposition (build_recovery_plan operation events release live) = RD_complete_new"
      "activation_conclusion release events = AC_succeeded" "ls_new live = RS_running"
  | (rolling) "previous_actions release live (production_may_have_changed operation release) =
        Inr (pl_actions (build_recovery_plan operation events release live))"
      "pl_disposition (build_recovery_plan operation events release live) = RD_recover_previous"
      "activation_conclusion release events \<in> {AC_not_attempted, AC_not_started}"
      "rm_previous_application release \<noteq> None" "ls_previous live \<in> {RS_running, RS_stopped}"
      "ls_new live \<noteq> RS_unknown"
proof -
  have executable: "plan_executable p \<longleftrightarrow> pl_disposition p \<in> {RD_recover_previous, RD_complete_new}" for p
    by (simp add: plan_executable_def)
  let ?p = "build_recovery_plan operation events release live"
  consider (a) "\<exists>r c s. ?p = manual_plan operation release r c s" | (b) "?p = no_action_plan operation release"
    | (c) "?p = complete_new_plan operation release live" "activation_conclusion release events = AC_succeeded"
    | (d) "?p = recover_previous_plan operation release live (production_may_have_changed operation release)"
        "activation_conclusion release events \<in> {AC_not_attempted, AC_not_started}"
  proof -
    note eq = build_recovery_plan_def [of operation events release live]
    show thesis
    proof (cases "identity_problem operation events release")
      case (Some r)
      then have "?p = manual_plan operation release r True False" unfolding eq by simp
      with a show ?thesis by blast
    next
      case None
      let ?terminal = "rm_status release \<in> {DS_active, DS_rolled_back, DS_failed_safe} \<and>
           (om_status operation \<noteq> OS_in_progress \<or> rm_recovery_operation_id release \<noteq> None)"
      show ?thesis
      proof (cases ?terminal)
        case True
        have "?p = no_action_plan operation release" unfolding eq None option.case if_P [OF True] by (rule refl)
        with b show ?thesis by blast
      next
        case False
        note plan = eq [unfolded None option.case if_not_P [OF False]]
        show ?thesis
        proof (cases "rm_recovery_protocol_version release \<noteq> Some 2")
          case True
          have "?p = manual_plan operation release
              ''The interrupted release predates durable recovery intent markers.'' True False"
            unfolding plan if_P [OF True] by (rule refl)
          with a show ?thesis by blast
        next
          case proto: False
          note plan = plan [unfolded if_not_P [OF proto]]
          have rollback: thesis if "activation_conclusion release events \<in> {AC_not_attempted, AC_not_started}"
          proof (cases "rm_status release \<in> {DS_created, DS_preflight_passed, DS_snapshot_verified,
                 DS_rehearsal_passed, DS_candidate_healthy}")
            case True
            with that plan have "?p = manual_plan operation release
                ''The operation stopped before the exact production application was durably stored.'' False False"
              by auto
            with a show ?thesis by blast
          next
            case late: False
            with that plan have "?p = recover_previous_plan operation release live (production_may_have_changed operation release)"
              by auto
            with d that show ?thesis by blast
          qed
          show ?thesis
          proof (cases "activation_conclusion release events")
            case AC_succeeded
            with plan c show ?thesis by simp
          next
            case AC_uncertain
            with plan have "?p = manual_plan operation release
                ''New-traffic activation was attempted without proof of the live target.'' True True"
              by simp
            with a show ?thesis by blast
          qed (use rollback in simp_all)
        qed
      qed
    qed
  qed
  then show ?thesis
  proof cases
    case a
    then show ?thesis by (intro idle) (auto simp: executable)
  next
    case b
    then show ?thesis by (intro idle) (auto simp: executable)
  next
    case c
    show ?thesis
    proof (cases "ls_new live = RS_running")
      case True
      with c show ?thesis by (intro completing) (simp_all add: complete_new_plan_def)
    next
      case False
      with c show ?thesis by (intro idle) (simp_all add: complete_new_plan_def executable)
    qed
  next
    case d
    show ?thesis
    proof (cases "rm_previous_application release = None \<or> ls_previous live \<in> {RS_absent, RS_unknown} \<or> ls_new live = RS_unknown")
      case True
      with d(1) show ?thesis by (intro idle) (auto simp: recover_previous_plan_def executable)
    next
      case False
      then have prev: "ls_previous live \<in> {RS_running, RS_stopped}" by (cases "ls_previous live") auto
      show ?thesis
      proof (cases "previous_actions release live (production_may_have_changed operation release)")
        case (Inl r)
        with d(1) False show ?thesis by (intro idle) (auto simp: recover_previous_plan_def executable)
      next
        case (Inr actions)
        with d False prev show ?thesis by (intro rolling) (auto simp: recover_previous_plan_def)
      qed
    qed
  qed
qed

lemma previous_actions_Inr:
  assumes "previous_actions release live changed = Inr actions"
  shows "subseq actions canonical_rollback \<and> last actions = RA_mark_rolled_back \<and> actions \<noteq> [] \<and>
    (RA_remove_new_application \<in> set actions \<longleftrightarrow> ls_new live \<in> {RS_running, RS_stopped}) \<and>
    (ls_new live \<in> {RS_running, RS_stopped} \<longrightarrow> (\<exists>rest. actions = RA_remove_new_application # rest)) \<and>
    (RA_restart_previous_application \<in> set actions \<longleftrightarrow> ls_previous live = RS_stopped) \<and>
    (RA_restore_final_backup \<in> set actions \<longrightarrow> changed \<and> ls_previous live \<noteq> RS_running \<and>
       ls_final_verified live \<and> rm_final_backup_id release \<noteq> None)"
  using assms
  by (auto simp: previous_actions_def canonical_rollback_def Let_def split: if_splits)

lemma judged [simp]: "judge_activation hook \<noteq> AC_not_attempted"
  by (simp add: judge_activation_def Let_def split: option.split json.split)

lemma plan_restores_safely:
  assumes "RA_restore_final_backup \<in> set (pl_actions (build_recovery_plan operation events release live))"
  shows "\<not> rm_traffic_activated release \<and>
    (rm_traffic_activation_attempted release \<longrightarrow>
       (\<exists>hook. last_activation events = Some hook \<and> judge_activation hook = AC_not_started)) \<and>
    ls_previous live = RS_stopped \<and> ls_final_verified live \<and> rm_final_backup_id release \<noteq> None \<and>
    (ls_new live = RS_absent \<or>
     (\<exists>rest. pl_actions (build_recovery_plan operation events release live) = RA_remove_new_application # rest))"
proof (rule plan_cases [of operation events release live])
  assume roll: "previous_actions release live (production_may_have_changed operation release) =
      Inr (pl_actions (build_recovery_plan operation events release live))"
    "activation_conclusion release events \<in> {AC_not_attempted, AC_not_started}"
    "ls_previous live \<in> {RS_running, RS_stopped}" "ls_new live \<noteq> RS_unknown"
  from previous_actions_Inr [OF roll(1)] assms roll(3)
  have live: "ls_previous live = RS_stopped" "ls_final_verified live" "rm_final_backup_id release \<noteq> None" by auto
  have "ls_new live = RS_absent \<or>
     (\<exists>rest. pl_actions (build_recovery_plan operation events release live) = RA_remove_new_application # rest)"
    using previous_actions_Inr [OF roll(1)] roll(4) by (cases "ls_new live") simp_all
  moreover have "\<not> rm_traffic_activated release"
    "rm_traffic_activation_attempted release \<longrightarrow>
       (\<exists>hook. last_activation events = Some hook \<and> judge_activation hook = AC_not_started)"
    using roll(2) by (auto simp: activation_conclusion_def split: option.splits if_splits)
  ultimately show ?thesis using live by blast
qed (use assms in auto)

section \<open>The recorded activation\<close>

lemma last_activation_append:
  "last_activation (es @ fs) = (case last_activation fs of Some hook \<Rightarrow> Some hook | None \<Rightarrow> last_activation es)"
  by (induction es) (auto split: option.splits)

lemma last_activation_None: "(\<forall>e \<in> set es. activation_evidence e = None) \<Longrightarrow> last_activation es = None"
  by (induction es) auto

text \<open>
  C36. Recovery judges an activation from the trail exactly as the coordinator judged it when it
  ran: the last recorded activation hook counts as succeeded when it passed, as not started when
  it cannot have run, and as uncertain otherwise.
\<close>

theorem recorded_activation_reads_back:
  assumes "ev_evidence e = [(''traffic_hook'', hook_as_evidence h)]" and "hr_action h = TA_activate_new"
    and "\<forall>x \<in> set later. activation_evidence x = None"
    and "rm_traffic_activation_attempted release" and "\<not> rm_traffic_activated release"
  shows "activation_conclusion release (earlier @ e # later) =
    (if hook_passed h then AC_succeeded else if hook_may_have_run h then AC_uncertain else AC_not_started)"
proof -
  have ev: "activation_evidence e = Some [(''action'', JStr ''activate_new''), (''passed'', JBool (hook_passed h)),
      (''command'', command_as_evidence (hr_command h))]"
    using assms(1,2) by (simp add: activation_evidence_def json_get_def hook_as_evidence_def)
  have "last_activation (earlier @ e # later) = activation_evidence e"
    using last_activation_None [OF assms(3)] ev by (simp add: last_activation_append)
  moreover have "judge_activation [(''action'', JStr ''activate_new''), (''passed'', JBool (hook_passed h)),
      (''command'', command_as_evidence (hr_command h))] =
    (if hook_passed h then AC_succeeded else if hook_may_have_run h then AC_uncertain else AC_not_started)"
    by (cases "cr_outcome (hr_command h)"; cases "cr_exit_code (hr_command h)")
      (simp_all add: judge_activation_def json_get_def command_as_evidence_def optional_def json_is_none_def
        hook_passed_def hook_may_have_run_def)
  ultimately show ?thesis using assms(4,5) ev by (simp add: activation_conclusion_def)
qed

section \<open>Plans that cannot be completed\<close>

text \<open>
  C37. A deployment interrupted between storing its active release and finishing its operation
  cannot be recovered: the plan is to complete the new release, but taking ownership first moves
  the release to recovery-required, which its store refuses for an active release; and once the
  operation itself is marked, the plan is that no action is required.
\<close>

theorem interrupted_completion_is_stuck:
  assumes "identity_problem operation events release = None" and "rm_status release = DS_active"
    and "valid_release release" and "rm_recovery_operation_id release = None"
    and "rm_recovery_protocol_version release = Some 2"
    and "om_status operation = OS_in_progress" and "ls_new live = RS_running"
    and "read_manifest env (os_world s) (rm_release_id release) = Inr release"
  shows "plan_executable (build_recovery_plan operation events release live) \<and>
    pl_actions (build_recovery_plan operation events release live) = [RA_disable_maintenance, RA_verify_new, RA_mark_active] \<and>
    (\<exists>x. transition env now u (rm_release_id release) DS_recovery_required changes s = (Inl x, s)) \<and>
    (\<forall>marked trail. identity_problem marked trail release = None \<and> om_status marked \<noteq> OS_in_progress \<longrightarrow>
       pl_disposition (build_recovery_plan marked trail release live) = RD_no_action)"
proof (intro conjI allI impI)
  have "rm_traffic_activated release"
    using assms(2,3) by (simp add: valid_release_iff release_checks_def Let_def)
  then have "build_recovery_plan operation events release live = complete_new_plan operation release live"
    using assms(1,2,4,5,6) by (simp add: build_recovery_plan_def activation_conclusion_def)
  then show "plan_executable (build_recovery_plan operation events release live)"
    "pl_actions (build_recovery_plan operation events release live) = [RA_disable_maintenance, RA_verify_new, RA_mark_active]"
    using assms(7) by (simp_all add: complete_new_plan_def plan_executable_def)
  show "\<exists>x. transition env now u (rm_release_id release) DS_recovery_required changes s = (Inl x, s)"
    using assms(2,8)
    by (simp add: transition_def update_release_def reading_def bnd_def fetch_def lift_result_def advance_def)
  show "pl_disposition (build_recovery_plan marked trail release live) = RD_no_action"
    if "identity_problem marked trail release = None \<and> om_status marked \<noteq> OS_in_progress" for marked trail
    using that assms(2) by (simp add: build_recovery_plan_def)
qed

text \<open>
  A release that required recovery before its rehearsal backup was verified has no way back:
  a rollback plan for it ends with marking it rolled back, which is refused for every clock,
  operation and traffic fact, because a rolled-back release must name that backup.
\<close>

theorem early_recovery_cannot_be_marked:
  assumes "pl_disposition (build_recovery_plan operation events release live) = RD_recover_previous"
    and "valid_release release" and "rm_rehearsal_backup_id release = None"
  shows "last (pl_actions (build_recovery_plan operation events release live)) = RA_mark_rolled_back \<and>
    (\<exists>x. resolve now release DS_rolled_back i traffic = Inl x)"
proof
  show "last (pl_actions (build_recovery_plan operation events release live)) = RA_mark_rolled_back"
    by (rule plan_cases [of operation events release live])
      (use assms(1) previous_actions_Inr in \<open>auto simp: plan_executable_def\<close>)
  show "\<exists>x. resolve now release DS_rolled_back i traffic = Inl x"
    using assms(2,3)
    by (auto simp: resolve_def Let_def revalidate_release_def valid_release_iff release_checks_def stored_release_def)
qed

section \<open>Interrupted deployments to evaluate on\<close>

definition interrupted_release :: release_manifest where
  "interrupted_release = example_release\<lparr>rm_status := DS_production_migrated,
     rm_previous_application := Some example_handle, rm_rehearsal_backup_id := Some final_backup_id,
     rm_rehearsal_backup_sha256 := Some final_sha, rm_final_backup_id := Some final_backup_id,
     rm_final_backup_sha256 := Some final_sha, rm_production_migration_started := True,
     rm_production_changed := True\<rparr>"

definition stopped_live :: live_state where
  "stopped_live = \<lparr>ls_previous = RS_stopped, ls_new = RS_absent, ls_final_verified = True,
     ls_production_sha256 = Some ''0'', ls_final_sha256 = Some final_sha\<rparr>"

definition new_handle :: application_handle where
  "new_handle = example_handle\<lparr>ah_source := Src_release, ah_version := Some ''v1'',
     ah_release_id := Some example_release_id, ah_operation_id := Some example_operation_id\<rparr>"

definition completed_release :: release_manifest where
  "completed_release = interrupted_release\<lparr>rm_status := DS_active, rm_new_application := Some new_handle,
     rm_production_health_passed := True, rm_traffic_activation_attempted := True,
     rm_traffic_activated := True, rm_completed_at := Some 1000\<rparr>"

definition completed_store :: "release_store osys" where
  "completed_store = \<lparr>os_calls = 0, os_world = \<lparr>rs_root = Root_entry True directory_mode,
     rs_dir = Root_entry True directory_mode,
     rs_entries = [(example_release_id, Release_dir directory_mode
       \<lparr>sl_target = Some (private_file (Whole completed_release)), sl_temps = []\<rparr> [])],
     rs_pointer = no_slot\<rparr>\<rparr>"

lemma example_protocol: "rm_recovery_protocol_version example_release = Some 2"
  by (simp add: example_release_def new_release_def)

lemma example_identity:
  "identity_problem example_operation [example_event] interrupted_release = None"
  "identity_problem example_operation [example_event] completed_release = None"
  by (simp_all add: identity_problem_def example_operation_def example_event_def interrupted_release_def
      completed_release_def example_release_def new_release_def example_op_id_def example_operation_id_def)

theorem recorded_activation_reads_back_witness:
  "activation_conclusion (example_release\<lparr>rm_traffic_activation_attempted := True\<rparr>)
     [example_event\<lparr>ev_evidence := [(''traffic_hook'', hook_as_evidence \<lparr>hr_action = TA_activate_new, hr_command = failed_command\<rparr>)]\<rparr>] =
   AC_uncertain"
proof -
  let ?h = "\<lparr>hr_action = TA_activate_new, hr_command = failed_command\<rparr>"
  have "\<not> hook_passed ?h" "hook_may_have_run ?h" by (simp_all add: hook_passed_def hook_may_have_run_def)
  then show ?thesis
    using recorded_activation_reads_back [of "example_event\<lparr>ev_evidence := [(''traffic_hook'', hook_as_evidence ?h)]\<rparr>" ?h "[]"
      "example_release\<lparr>rm_traffic_activation_attempted := True\<rparr>" "[]"]
    by (simp add: example_release_def new_release_def)
qed

lemma completed_valid: "valid_release completed_release"
  by (simp add: valid_release_iff release_fields_ok_def release_checks_def Let_def completed_release_def
      interrupted_release_def example_release_def new_release_def length_between_def is_absolute_def
      is_version_def is_word_of_def word_like_def is_alnum_def is_lower_def is_digit_def new_handle_def
      valid_handle_def handle_checks_def example_handle_def
      is_container_id_def is_database_target_def is_lower_hex_def)


lemma completed_read: "read_manifest example_env (os_world completed_store) example_release_id = Inr completed_release"
  using completed_valid
  by (simp add: read_manifest_def validate_release_id_def ensure_def read_private_def release_slot_def
      completed_store_def max_release_bytes_def)
    (simp add: completed_release_def interrupted_release_def example_release_def new_release_def)

theorem interrupted_completion_is_stuck_witness:
  "\<exists>x. transition example_env 5000 ''u'' example_release_id DS_recovery_required no_changes completed_store =
     (Inl x, completed_store)"
proof -
  have facts: "rm_status completed_release = DS_active" "rm_recovery_operation_id completed_release = None"
    "rm_recovery_protocol_version completed_release = Some 2" "rm_release_id completed_release = example_release_id"
    "om_status example_operation = OS_in_progress" "ls_new (stopped_live\<lparr>ls_new := RS_running\<rparr>) = RS_running"
    by (simp_all add: completed_release_def interrupted_release_def example_release_def new_release_def
        example_operation_def)
  show ?thesis
    using interrupted_completion_is_stuck [OF example_identity(2) facts(1) completed_valid facts(2,3,5,6),
        of example_env completed_store 5000 "''u''" no_changes] completed_read
    by (simp only: facts(4))
qed

definition early_release :: release_manifest where
  "early_release = example_release\<lparr>rm_status := DS_recovery_required,
     rm_previous_application := Some example_handle,
     rm_failure := Some \<lparr>fr_error_code = ''recovery_required'', fr_what_failed = ''x'', fr_log_path = None,
       fr_next_safe_action = ''y''\<rparr>, rm_completed_at := Some 1000\<rparr>"

theorem early_recovery_cannot_be_marked_witness:
  "\<exists>x. resolve 5000 early_release DS_rolled_back example_op_id False = Inl x"
proof -
  have plan: "pl_disposition (build_recovery_plan example_operation [example_event] early_release
      (stopped_live\<lparr>ls_previous := RS_running\<rparr>)) = RD_recover_previous"
    by (simp add: build_recovery_plan_def identity_problem_def early_release_def activation_conclusion_def
        recover_previous_plan_def previous_actions_def stopped_live_def production_may_have_changed_def
        example_release_def new_release_def example_operation_def example_event_def Let_def
        example_op_id_def example_operation_id_def default_safety_def)
  have valid: "valid_release early_release"
    by (simp add: valid_release_iff release_fields_ok_def release_checks_def Let_def early_release_def
      example_release_def new_release_def length_between_def is_absolute_def
      is_version_def is_word_of_def word_like_def is_alnum_def is_lower_def is_digit_def
      valid_handle_def handle_checks_def example_handle_def
      is_container_id_def is_database_target_def is_lower_hex_def failure_record_ok_def)
  have "rm_rehearsal_backup_id early_release = None"
    by (simp add: early_release_def example_release_def new_release_def)
  from early_recovery_cannot_be_marked [OF plan valid this] show ?thesis by blast
qed

end
