(* ===== verification/Recovery.thy ===== *)
theory Recovery
  imports Recovery_Plan Deploy Locking
begin

text \<open>
  Diagnosis and execution of a recovery, \<^verbatim>\<open>dploydb/recovery.py\<close>: what is read before a plan is
  built, who may take over an interrupted deployment, the execution of the plan action by action,
  and the record of a recovery that failed. The stores, the lock and the dependencies are the
  operations of a record over a world of any type; every call on them is noted in a trace.
\<close>

section \<open>The boundary\<close>

record recovery_env =
  rx_state_directory :: string
  rx_owner_path :: string
  rx_log :: "string \<Rightarrow> string"
  rx_redact :: "string \<Rightarrow> string"
  rx_utc :: "int \<Rightarrow> string"

record 'w recovery_ops =
  rv_configure :: "('w, unit) world_act"
  rv_close :: "('w, unit) world_act"
  rv_lock :: "('w, unit) world_act"
  rv_unlock :: "('w, unit) world_act"
  rv_previous_owner :: "'w \<Rightarrow> lock_owner_metadata option"
  rv_record_owner :: "string \<Rightarrow> string option \<Rightarrow> ('w, unit) world_act"
  rv_inspect_lock :: "('w, lock_inspection) world_act"
  rv_list_operations :: "('w, operation_manifest list) world_act"
  rv_read_operation :: "string \<Rightarrow> ('w, operation_manifest) world_act"
  rv_read_events :: "string \<Rightarrow> ('w, operation_event list) world_act"
  rv_create_operation :: "string \<Rightarrow> string \<Rightarrow> evidence \<Rightarrow> ('w, operation_manifest) world_act"
  rv_transition :: "string \<Rightarrow> operation_status \<Rightarrow> string \<Rightarrow> string \<Rightarrow> evidence \<Rightarrow>
    safety_facts option \<Rightarrow> failure_record option \<Rightarrow> ('w, operation_manifest) world_act"
  rv_append_event :: "string \<Rightarrow> string \<Rightarrow> evidence \<Rightarrow> ('w, operation_event) world_act"
  rv_read_history :: "('w, history_snapshot) world_act"
  rv_read_release :: "string \<Rightarrow> ('w, release_manifest) world_act"
  rv_release_transition :: "string \<Rightarrow> deployment_state \<Rightarrow> release_changes \<Rightarrow>
    ('w, release_manifest) world_act"
  rv_resolve :: "string \<Rightarrow> deployment_state \<Rightarrow> string \<Rightarrow> bool \<Rightarrow> ('w, release_manifest) world_act"
  rv_activate_release :: "string \<Rightarrow> ('w, release_pointers) world_act"
  rv_inspect_live :: "application_handle \<Rightarrow> ('w, production_inspection) world_act"
  rv_prove_absent :: "string \<Rightarrow> string \<Rightarrow> ('w, cleanup_proof) world_act"
  rv_inspect :: "application_handle \<Rightarrow> bool \<Rightarrow> ('w, production_inspection) world_act"
  rv_remove_new :: "application_handle \<Rightarrow> ('w, production_cleanup) world_act"
  rv_restart_previous :: "application_handle \<Rightarrow> ('w, production_restart) world_act"
  rv_run_hook :: "traffic_action \<Rightarrow> ('w, command_result) world_act"
  rv_open_backup :: "string \<Rightarrow> ('w, backup_artifact) world_act"
  rv_close_backup :: "backup_artifact \<Rightarrow> ('w, unit) world_act"
  rv_production_sha256 :: "('w, string) world_act"
  rv_restore :: "backup_artifact \<Rightarrow> bool \<Rightarrow> bool \<Rightarrow> ('w, restore_proof) world_act"
  rv_verify_sqlite :: "('w, sqlite_verification) world_act"
  rv_check_application :: "string \<Rightarrow> ('w, health_result) world_act"
  rv_inject :: "string \<Rightarrow> ('w, unit) world_act"

definition recovery_error ::
  "string \<Rightarrow> bool \<Rightarrow> bool option \<Rightarrow> string \<Rightarrow> string \<Rightarrow> exn" where
  "recovery_error what changed running log_path advice =
     Dploy (mk_error RecoveryRequiredError what changed running (Some log_path) advice)"

section \<open>Diagnosis\<close>

definition check_lock_free :: "recovery_env \<Rightarrow> lock_inspection \<Rightarrow> unit result" where
  "check_lock_free env l =
    (if li_state l = LI_active
     then Inl (Dploy (mk_error LockUnavailableError
       ''another DployDB operation still holds the deployment lock'' False None (Some (rx_owner_path env))
       ''Wait for the active operation, then run recovery diagnosis again.''))
     else if li_state l = LI_recovery_required
     then Inl (recovery_error (or_else (li_metadata_error l) ''deployment lock evidence is contradictory'')
       True None (rx_owner_path env) ''Preserve the lock evidence and inspect the host manually.'')
     else Inr ())"

text \<open>\<^verbatim>\<open>operations_by_id\<close>: of two entries with one key a dict comprehension keeps the later.\<close>

definition operation_of :: "operation_manifest list \<Rightarrow> string \<Rightarrow> operation_manifest option" where
  "operation_of ops i = map_of (rev (map (\<lambda>m. (om_operation_id m, m)) ops)) i"

definition incomplete_resolutions ::
  "operation_manifest list \<Rightarrow> release_manifest list \<Rightarrow> (release_manifest \<times> operation_manifest) list" where
  "incomplete_resolutions ops rels = List.map_filter (\<lambda>r.
     case Option.bind (rm_recovery_operation_id r) (operation_of ops) of
       Some m \<Rightarrow> if om_status m \<noteq> OS_succeeded then Some (r, m) else None
     | None \<Rightarrow> None) rels"

definition paired_releases ::
  "operation_manifest list \<Rightarrow> release_manifest list \<Rightarrow> (release_manifest \<times> operation_manifest) list" where
  "paired_releases ops rels = List.map_filter (\<lambda>r.
     map_option (Pair r) (operation_of ops (rm_operation_id r))) rels"

definition unresolved_releases ::
  "operation_manifest list \<Rightarrow> release_manifest list \<Rightarrow> (release_manifest \<times> operation_manifest) list" where
  "unresolved_releases ops rels =
     filter (\<lambda>(r, _). rm_status r \<notin> {DS_active, DS_rolled_back, DS_failed_safe}) (paired_releases ops rels)"

text \<open>\<^verbatim>\<open>max(paired, key=...)\<close>: the first of the greatest.\<close>

definition newest_pair ::
  "release_manifest \<times> operation_manifest \<Rightarrow> (release_manifest \<times> operation_manifest) list \<Rightarrow>
   release_manifest \<times> operation_manifest" where
  "newest_pair p ps = fold (\<lambda>n b. if operation_key (snd b) < operation_key (snd n) then n else b) ps p"

definition select_deployment ::
  "recovery_env \<Rightarrow> operation_manifest list \<Rightarrow> release_manifest list \<Rightarrow>
   (release_manifest \<times> operation_manifest) result" where
  "select_deployment env ops rels =
    (case incomplete_resolutions ops rels of
       (r, m) # _ \<Rightarrow> Inl (recovery_error
         ''release recovery was resolved but its recovery operation is not durably complete''
         (rm_production_changed r) (Some (rm_status r = DS_rolled_back)) (rx_log env (om_operation_id m))
         (''Do not repeat database actions; preserve both records and reconcile the '' @
          ''recovery operation manually.''))
     | [] \<Rightarrow> (case unresolved_releases ops rels of
         [p] \<Rightarrow> Inr p
       | _ # _ # _ \<Rightarrow> Inl (recovery_error
           ''multiple unresolved releases make automatic recovery ambiguous'' True None
           (rx_state_directory env)
           ''Preserve state and correlate the operations and releases manually.'')
       | [] \<Rightarrow> (case paired_releases ops rels of
           [] \<Rightarrow> Inl (recovery_error ''no deployment operation maps to a release manifest'' False None
             (rx_state_directory env) ''Preserve state and correlate operation history manually.'')
         | p # ps \<Rightarrow> Inr (newest_pair p ps))))"

definition inspect_application ::
  "'w recovery_ops \<Rightarrow> application_handle option \<Rightarrow> ('w, runtime_state) world_act" where
  "inspect_application ops handle = (case handle of
      None \<Rightarrow> ret RS_unknown
    | Some h \<Rightarrow> catching
        (bnd (rv_inspect_live ops h) (\<lambda>i. ret (if pn_running i then RS_running else RS_stopped)))
        (\<lambda>x. case x of ProductionInspectionError _ \<Rightarrow> ret RS_unknown | _ \<Rightarrow> raise x))"

definition prove_new_absent :: "'w recovery_ops \<Rightarrow> release_manifest \<Rightarrow> ('w, runtime_state) world_act" where
  "prove_new_absent ops rel = on_exception
     (bnd (rv_prove_absent ops (rm_release_id rel) (rm_requested_version rel)) (\<lambda>p.
      ret (if cleanup_proven p then RS_absent else RS_unknown)))
     (\<lambda>_. ret RS_unknown)"

definition inspect_new_application ::
  "'w recovery_ops \<Rightarrow> release_manifest \<Rightarrow> ('w, runtime_state) world_act" where
  "inspect_new_application ops rel =
     (if rm_new_application rel \<noteq> None
      then bnd (inspect_application ops (rm_new_application rel)) (\<lambda>st.
        if st \<noteq> RS_unknown then ret st else prove_new_absent ops rel)
      else prove_new_absent ops rel)"

text \<open>
  The facts read before an exception of the context manager's exit stay assigned, so closing the
  backup cannot take them back.
\<close>

definition verify_final ::
  "'w recovery_ops \<Rightarrow> release_manifest \<Rightarrow> ('w, bool \<times> string option) world_act" where
  "verify_final ops rel = (case rm_final_backup_id rel of
      None \<Rightarrow> ret (False, None)
    | Some i \<Rightarrow> on_exception
        (bnd (rv_open_backup ops i) (\<lambda>a.
         andthen (on_exception (rv_close_backup ops a) (\<lambda>_. ret ()))
          (ret (Some (bm_sha256 (ba_metadata a)) = rm_final_backup_sha256 rel,
                Some (bm_sha256 (ba_metadata a))))))
        (\<lambda>_. ret (False, None)))"

definition observe_live :: "'w recovery_ops \<Rightarrow> release_manifest \<Rightarrow> ('w, live_state) world_act" where
  "observe_live ops rel =
     bnd (inspect_application ops (rm_previous_application rel)) (\<lambda>previous.
     bnd (inspect_new_application ops rel) (\<lambda>new.
     bnd (verify_final ops rel) (\<lambda>(verified, final_sha256).
     bnd (on_exception (bnd (rv_production_sha256 ops) (\<lambda>h. ret (Some h))) (\<lambda>_. ret None)) (\<lambda>sha.
     ret \<lparr>ls_previous = previous, ls_new = new, ls_final_verified = verified,
          ls_production_sha256 = sha, ls_final_sha256 = final_sha256\<rparr>))))"

definition diagnose_configured_recovery ::
  "recovery_env \<Rightarrow> 'w recovery_ops \<Rightarrow> bool \<Rightarrow> ('w, recovery_plan) world_act" where
  "diagnose_configured_recovery env ops check_lock =
     andthen (if check_lock
              then bnd (rv_inspect_lock ops) (\<lambda>l. lift_result (check_lock_free env l))
              else ret ())
    (bnd (rv_list_operations ops) (\<lambda>operations.
     if operations = []
     then raise (Dploy (mk_error SafetyCheckError ''there is no deployment operation to recover''
       False None (Some (rx_state_directory env)) ''Run dploydb status; no recovery action is required.''))
     else bnd (rv_read_history ops) (\<lambda>history.
       bnd (lift_result (select_deployment env operations (hs_releases history))) (\<lambda>(rel, operation).
       bnd (rv_read_events ops (om_operation_id operation)) (\<lambda>events.
       bnd (observe_live ops rel) (\<lambda>live.
       ret (build_recovery_plan operation events rel live)))))))"

definition preview_configured_recovery :: "recovery_env \<Rightarrow> 'w recovery_ops \<Rightarrow> ('w, recovery_plan) world_act" where
  "preview_configured_recovery env ops =
     andthen (rv_configure ops)
       (finally_act (diagnose_configured_recovery env ops True) (rv_close ops))"

section \<open>Taking over\<close>

definition names_plan :: "recovery_plan \<Rightarrow> operation_event list \<Rightarrow> bool" where
  "names_plan plan events = (case events of
      [] \<Rightarrow> False
    | e # _ \<Rightarrow> (case json_get (ev_evidence e) ''source_plan'' of
        Some (JObj source) \<Rightarrow>
          json_get source ''operation_id'' = Some (JStr (pl_operation_id plan)) \<and>
          json_get source ''release_id'' = Some (JStr (pl_release_id plan))
      | _ \<Rightarrow> False))"

definition acknowledged_stale_owner_id ::
  "recovery_env \<Rightarrow> 'w recovery_ops \<Rightarrow> recovery_plan \<Rightarrow> ('w, string option) world_act" where
  "acknowledged_stale_owner_id env ops plan =
     bnd (fetch (rv_previous_owner ops)) (\<lambda>previous. case previous of
       None \<Rightarrow> ret None
     | Some owner \<Rightarrow>
        if lo_state owner = LO_released then ret None
        else if lo_operation_id owner = pl_operation_id plan then ret (Some (lo_owner_id owner))
        else bnd (on_dploy
               (bnd (rv_read_operation ops (lo_operation_id owner)) (\<lambda>m.
                bnd (rv_read_events ops (lo_operation_id owner)) (\<lambda>es. ret (m, es))))
               (\<lambda>_. raise (recovery_error
                 ''stale deployment-lock ownership cannot be correlated to durable state''
                 (pl_production_changed plan) None (rx_owner_path env)
                 ''Preserve the lock metadata and operation history for inspection.'')))
             (\<lambda>(m, es).
              if om_operation_type m = ''recover'' \<and> om_status m = OS_in_progress \<and> names_plan plan es
              then ret (Some (lo_owner_id owner))
              else raise (recovery_error ''stale deployment-lock ownership belongs to a different operation''
                (pl_production_changed plan) None (rx_owner_path env)
                ''Do not replace the owner token; reconcile the recorded lock and operations.'')))"

definition interruption_record :: "recovery_env \<Rightarrow> recovery_plan \<Rightarrow> failure_record result" where
  "interruption_record env plan =
    (let f = \<lparr>fr_error_code = ''recovery_required'',
              fr_what_failed = ''The prior operation was interrupted and recovery took ownership.'',
              fr_log_path = Some (rx_log env (pl_operation_id plan)),
              fr_next_safe_action = ''Continue only through the recorded recovery plan.''\<rparr>
     in if failure_record_ok f then Inr f else Inl validation_error)"

fun supersede_operations ::
  "recovery_env \<Rightarrow> 'w recovery_ops \<Rightarrow> recovery_plan \<Rightarrow> failure_record \<Rightarrow> operation_manifest list \<Rightarrow>
   ('w, unit) world_act"
where
  "supersede_operations env ops plan failure [] = ret ()"
| "supersede_operations env ops plan failure (m # ms) =
    (if om_status m \<noteq> OS_in_progress then supersede_operations env ops plan failure ms
     else if om_operation_id m \<noteq> pl_operation_id plan \<and> om_operation_type m \<noteq> ''recover''
     then raise (recovery_error ''an unrelated unfinished operation blocks automatic recovery''
       (pl_production_changed plan) None (rx_log env (om_operation_id m))
       ''Resolve the unrelated operation before deployment recovery.'')
     else andthen (rv_transition ops (om_operation_id m) OS_recovery_required ''recovery_required''
         ''An interrupted operation was superseded by explicit recovery.'' []
         (Some (facts (sf_production_changed (om_safety m) \<or> pl_production_changed plan) None True))
         (Some failure))
       (supersede_operations env ops plan failure ms))"

definition take_recovery_ownership ::
  "recovery_env \<Rightarrow> 'w recovery_ops \<Rightarrow> recovery_plan \<Rightarrow> release_manifest \<Rightarrow> ('w, unit) world_act" where
  "take_recovery_ownership env ops plan rel =
     bnd (lift_result (interruption_record env plan)) (\<lambda>failure.
     bnd (rv_list_operations ops) (\<lambda>operations.
     andthen (supersede_operations env ops plan failure operations)
      (if rm_status rel \<noteq> DS_recovery_required
       then andthen (rv_release_transition ops (rm_release_id rel) DS_recovery_required
          (no_changes\<lparr>ch_production_changed := Some (pl_production_changed plan),
             ch_traffic_activated := Some (pl_disposition plan = RD_complete_new),
             ch_failure := Some (Some failure)\<rparr>)) (ret ())
       else ret ())))"

section \<open>Calls\<close>

datatype recovery_call =
    RC_diagnose | RC_acknowledge | RC_ownership | RC_create | RC_owner | RC_read_release
  | RC_stage recovery_action | RC_inspect application_handle bool
  | RC_remove application_handle | RC_open_backup string | RC_restore | RC_close_backup
  | RC_restart application_handle | RC_hook traffic_action | RC_check_database
  | RC_check_health string | RC_event | RC_fault_point string
  | RC_resolve deployment_state bool | RC_activate | RC_succeed
  | RC_read_operation | RC_mark_failed

datatype recovery_event = Called recovery_call | Returned recovery_call | Hook_outcome hook_result

record 'w recovery_context =
  rc_trace :: "recovery_event list"
  rc_world :: 'w

type_synonym ('w, 'a) recovery_act = "('w recovery_context, exn, 'a) act"

definition mark :: "recovery_event \<Rightarrow> ('w, unit) recovery_act" where
  "mark e = modify (\<lambda>s. s\<lparr>rc_trace := e # rc_trace s\<rparr>)"

definition on_world :: "('w, 'a) world_act \<Rightarrow> ('w, 'a) recovery_act" where
  "on_world m s = (case m (rc_world s) of (r, w) \<Rightarrow> (r, s\<lparr>rc_world := w\<rparr>))"

definition invoke :: "recovery_call \<Rightarrow> ('w, 'a) world_act \<Rightarrow> ('w, 'a) recovery_act" where
  "invoke c m = andthen (mark (Called c)) (bnd (on_world m) (\<lambda>x. andthen (mark (Returned c)) (ret x)))"

definition note_progress ::
  "'w recovery_ops \<Rightarrow> string \<Rightarrow> string \<Rightarrow> evidence \<Rightarrow> ('w, unit) recovery_act" where
  "note_progress ops i message evidence =
     andthen (invoke RC_event (rv_append_event ops i message evidence)) (ret ())"

section \<open>Executing a plan\<close>

record recovery_result =
  rz_plan :: recovery_plan
  rz_operation :: operation_manifest
  rz_release :: release_manifest
  rz_log_path :: string

definition recovery_result_json :: "recovery_result \<Rightarrow> json" where
  "recovery_result_json z = JObj
     [(''ok'', JBool True), (''command'', JStr ''recover''),
      (''outcome'', JStr (if rm_status (rz_release z) = DS_active then ''active'' else ''rolled_back'')),
      (''recovery_operation_id'', JStr (om_operation_id (rz_operation z))),
      (''source_operation_id'', JStr (pl_operation_id (rz_plan z))),
      (''release_id'', JStr (rm_release_id (rz_release z))),
      (''release_status'', JStr (deployment_state_value (rm_status (rz_release z)))),
      (''production_changed'', JBool (sf_production_changed (om_safety (rz_operation z)))),
      (''previous_application_running'',
         optional JBool (sf_previous_application_running (om_safety (rz_operation z)))),
      (''recovery_required'', JBool False),
      (''actions'', JList (map (\<lambda>a. JStr (recovery_action_value a)) (pl_actions (rz_plan z)))),
      (''log_path'', JStr (rz_log_path z))]"

definition hook_evidence_json :: "hook_evidence \<Rightarrow> json" where
  "hook_evidence_json e = JObj
     [(''action'', JStr (action_value (he_action e))), (''passed'', JBool (he_passed e)),
      (''outcome'', JStr (outcome_value (he_outcome e))), (''exit_code'', optional JInt (he_exit_code e)),
      (''output_complete'', JBool (he_output_complete e)), (''duration_seconds'', JFloat (he_duration e)),
      (''termination_reason'', optional (\<lambda>t. JStr (termination_value t)) (he_termination_reason e)),
      (''forced_kill'', JBool (he_forced_kill e)), (''cleanup_error'', optional JStr (he_cleanup_error e))]"

definition record_recovery_hook :: "'w recovery_ops \<Rightarrow> string \<Rightarrow> hook_result \<Rightarrow> ('w, unit) recovery_act" where
  "record_recovery_hook ops i h =
     bnd (lift_result (hook_summary h)) (\<lambda>e.
     note_progress ops i
       (''Recovery traffic hook '' @ action_value (hr_action h) @ '' reached a terminal outcome.'')
       [(''traffic_hook'', hook_as_evidence h), (''hook_summary'', hook_evidence_json e)])"

definition require_recovery_hook ::
  "recovery_env \<Rightarrow> string \<Rightarrow> recovery_plan \<Rightarrow> hook_result \<Rightarrow> unit result" where
  "require_recovery_hook env i plan h =
     ensure (hook_passed h) (recovery_error
       (''recovery traffic hook '' @ action_value (hr_action h) @ '' ended '' @
        outcome_value (cr_outcome (hr_command h)))
       (pl_production_changed plan) None (rx_log env i)
       ''Keep maintenance enabled and inspect the recorded hook evidence.'')"

definition recovery_hook ::
  "recovery_env \<Rightarrow> 'w recovery_ops \<Rightarrow> string \<Rightarrow> recovery_plan \<Rightarrow> traffic_action \<Rightarrow> ('w, unit) recovery_act" where
  "recovery_hook env ops i plan a =
     bnd (invoke (RC_hook a) (rv_run_hook ops a)) (\<lambda>c.
     let h = \<lparr>hr_action = a, hr_command = c\<rparr>
     in andthen (mark (Hook_outcome h))
       (andthen (record_recovery_hook ops i h)
         (lift_result (require_recovery_hook env i plan h))))"

definition execute_database_recovery ::
  "recovery_env \<Rightarrow> 'w recovery_ops \<Rightarrow> string \<Rightarrow> release_manifest \<Rightarrow> ('w, unit) recovery_act" where
  "execute_database_recovery env ops i rel =
    (case (rm_previous_application rel, rm_final_backup_id rel) of
       (Some previous, Some b) \<Rightarrow>
         andthen (invoke (RC_inspect previous False) (rv_inspect ops previous False))
        (bnd (invoke (RC_open_backup b) (rv_open_backup ops b)) (\<lambda>artifact.
         bnd (finally_act
           (if Some (bm_sha256 (ba_metadata artifact)) \<noteq> rm_final_backup_sha256 rel
            then raise (recovery_error ''recovery final backup checksum contradicts the release manifest''
              True (Some False) (backup_path artifact) ''Do not restore the contradictory backup.'')
            else invoke RC_restore (rv_restore ops artifact True False))
           (invoke RC_close_backup (rv_close_backup ops artifact))) (\<lambda>restored.
         note_progress ops i ''The verified final backup was restored during recovery.''
           [(''database_restore'', restore_proof_json (rx_utc env) restored)])))
     | _ \<Rightarrow> raise (recovery_error ''recovery database prerequisites are incomplete'' True None (rx_log env i)
         ''Keep every application stopped and inspect the final backup.''))"

datatype recovery_role = Role_previous | Role_new

fun role_value :: "recovery_role \<Rightarrow> string" where
  "role_value Role_previous = ''previous''"
| "role_value Role_new = ''new''"

fun role_title :: "recovery_role \<Rightarrow> string" where
  "role_title Role_previous = ''Previous''"
| "role_title Role_new = ''New''"

definition verify_recovery_application ::
  "recovery_env \<Rightarrow> 'w recovery_ops \<Rightarrow> string \<Rightarrow> application_handle option \<Rightarrow> string \<Rightarrow> recovery_role \<Rightarrow>
   ('w, unit) recovery_act" where
  "verify_recovery_application env ops i handle version role = (case handle of
      None \<Rightarrow> raise (recovery_error
        (role_value role @ '' application identity is missing for recovery verification'') True None
        (rx_log env i) ''Inspect the live production application manually.'')
    | Some _ \<Rightarrow>
        bnd (invoke RC_check_database (rv_verify_sqlite ops)) (\<lambda>database.
        bnd (invoke (RC_check_health version) (rv_check_application ops version)) (\<lambda>health.
        note_progress ops i
          (role_title role @ '' database and application health passed recovery checks.'')
          [(''database'', sqlite_json (rx_utc env) database),
           (''application_health'', health_as_evidence health)])))"

definition previous_version :: "release_manifest \<Rightarrow> string" where
  "previous_version rel =
     or_else (Option.bind (rm_previous_application rel) ah_version) ''previous''"

definition complete_recovery ::
  "recovery_env \<Rightarrow> 'w recovery_ops \<Rightarrow> string \<Rightarrow> recovery_plan \<Rightarrow> release_manifest \<Rightarrow> bool \<Rightarrow>
   ('w, recovery_result) recovery_act" where
  "complete_recovery env ops i plan rel active =
    (let st = (if active then DS_active else DS_rolled_back) in
     bnd (invoke (RC_resolve st active) (rv_resolve ops (rm_release_id rel) st i active)) (\<lambda>resolved.
     bnd (if active
          then bnd (invoke RC_activate (rv_activate_release ops (rm_release_id resolved))) (\<lambda>p.
            ret [(''release_id'', JStr (rm_release_id resolved)),
                 (''active_release_id'', JStr (rp_active_release_id p))])
          else ret [(''release_id'', JStr (rm_release_id resolved))]) (\<lambda>evidence.
     bnd (invoke RC_succeed (rv_transition ops i OS_succeeded
            (if active then ''recovered_active'' else ''recovered_rolled_back'')
            (if active then ''Recovery verified and activated the new release.''
             else ''Recovery restored and verified the previous release.'')
            evidence (Some (facts (pl_production_changed plan) (Some (\<not> active)) False)) None)) (\<lambda>operation.
     ret \<lparr>rz_plan = plan, rz_operation = operation, rz_release = resolved, rz_log_path = rx_log env i\<rparr>))))"

definition execute_action ::
  "recovery_env \<Rightarrow> 'w recovery_ops \<Rightarrow> string \<Rightarrow> recovery_plan \<Rightarrow> release_manifest \<Rightarrow> recovery_action \<Rightarrow>
   ('w, unit) recovery_act" where
  "execute_action env ops i plan rel a = (case a of
      RA_remove_new_application \<Rightarrow> (case rm_new_application rel of
          None \<Rightarrow> raise (recovery_error ''recovery plan requires a missing new-application handle''
            (pl_production_changed plan) (Some False) (rx_log env i)
            ''Keep traffic blocked and inspect release resources.'')
        | Some new \<Rightarrow> bnd (invoke (RC_remove new) (rv_remove_new ops new)) (\<lambda>cleanup.
            note_progress ops i ''New-release cleanup was proven during recovery.''
              [(''production_cleanup'', cleanup_evidence cleanup)]))
    | RA_restore_final_backup \<Rightarrow> execute_database_recovery env ops i rel
    | RA_restart_previous_application \<Rightarrow> (case rm_previous_application rel of
          None \<Rightarrow> raise (recovery_error ''recovery previous-application identity is missing''
            (pl_production_changed plan) None (rx_log env i)
            ''Keep maintenance enabled and inspect production.'')
        | Some previous \<Rightarrow> bnd (invoke (RC_restart previous) (rv_restart_previous ops previous)) (\<lambda>restarted.
            note_progress ops i ''The exact previous application was restarted during recovery.''
              [(''previous_restart'', restart_evidence restarted)]))
    | RA_activate_previous_traffic \<Rightarrow> recovery_hook env ops i plan TA_activate_old
    | RA_disable_maintenance \<Rightarrow> recovery_hook env ops i plan TA_disable_maintenance
    | RA_verify_previous \<Rightarrow> verify_recovery_application env ops i (rm_previous_application rel)
        (previous_version rel) Role_previous
    | RA_verify_new \<Rightarrow>
        andthen (case rm_new_application rel of
            None \<Rightarrow> ret ()
          | Some new \<Rightarrow> andthen (invoke (RC_inspect new True) (rv_inspect ops new True)) (ret ()))
         (verify_recovery_application env ops i (rm_new_application rel)
           (rm_requested_version rel) Role_new)
    | _ \<Rightarrow> ret ())"

definition announce_action ::
  "'w recovery_ops \<Rightarrow> string \<Rightarrow> recovery_plan \<Rightarrow> recovery_action \<Rightarrow> ('w, unit) recovery_act" where
  "announce_action ops i plan a =
     andthen (invoke (RC_stage a) (rv_transition ops i OS_in_progress
       (''recovery_'' @ recovery_action_value a)
       (''Recovery action '' @ recovery_action_value a @ '' is starting.'')
       [(''action'', JStr (recovery_action_value a))]
       (Some (facts (pl_production_changed plan) None False)) None)) (ret ())"

fun execute_actions ::
  "recovery_env \<Rightarrow> 'w recovery_ops \<Rightarrow> string \<Rightarrow> recovery_plan \<Rightarrow> release_manifest \<Rightarrow> recovery_action list \<Rightarrow>
   ('w, recovery_result) recovery_act"
where
  "execute_actions env ops i plan rel [] =
     raise (recovery_error ''recovery plan ended without a terminal marking action''
       (pl_production_changed plan) None (rx_log env i) ''Preserve recovery evidence and inspect the plan.'')"
| "execute_actions env ops i plan rel (a # as) =
     andthen (announce_action ops i plan a)
      (if a \<in> {RA_mark_rolled_back, RA_mark_active}
       then complete_recovery env ops i plan rel (a = RA_mark_active)
       else andthen (execute_action env ops i plan rel a)
         (andthen (invoke (RC_fault_point (''after_'' @ recovery_action_value a))
             (rv_inject ops (''after_'' @ recovery_action_value a)))
           (execute_actions env ops i plan rel as)))"

definition execute_recovery_plan ::
  "recovery_env \<Rightarrow> 'w recovery_ops \<Rightarrow> string \<Rightarrow> recovery_plan \<Rightarrow> ('w, recovery_result) recovery_act" where
  "execute_recovery_plan env ops i plan =
     bnd (invoke RC_read_release (rv_read_release ops (pl_release_id plan))) (\<lambda>rel.
     execute_actions env ops i plan rel (pl_actions plan))"

section \<open>The entry point\<close>

definition normalize_recovery_error ::
  "recovery_env \<Rightarrow> string \<Rightarrow> recovery_plan \<Rightarrow> exn \<Rightarrow> dploydb_error option" where
  "normalize_recovery_error env i plan x =
    (if \<not> is_exception x then None
     else Some (mk_error RecoveryRequiredError
       (''recovery execution could not be proven: '' @
        (case x of Dploy e \<Rightarrow> err_what e | _ \<Rightarrow> rx_redact env (describe_exn x)))
       (pl_production_changed plan) None (Some (rx_log env i))
       (''Preserve the recovery log and rerun dploydb recover; repeated actions are '' @
        ''re-inspected before execution.'')))"

definition finish_recovery_operation ::
  "'w recovery_ops \<Rightarrow> string \<Rightarrow> dploydb_error \<Rightarrow> ('w, unit) recovery_act" where
  "finish_recovery_operation ops i e =
     bnd (invoke RC_read_operation (rv_read_operation ops i)) (\<lambda>current.
     if om_status current \<noteq> OS_in_progress then ret ()
     else bnd (lift_result (failure_record_of e)) (\<lambda>failure.
       andthen (invoke RC_mark_failed (rv_transition ops i OS_recovery_required ''recovery_required''
         ''Recovery execution did not reach a proven terminal state.'' []
         (Some (facts (err_changed e) (err_running e) True)) (Some failure))) (ret ())))"

definition guarded_recovery ::
  "recovery_env \<Rightarrow> 'w recovery_ops \<Rightarrow> string \<Rightarrow> recovery_plan \<Rightarrow> ('w, recovery_result) recovery_act" where
  "guarded_recovery env ops i plan =
     catching (execute_recovery_plan env ops i plan) (\<lambda>x.
       case normalize_recovery_error env i plan x of
         None \<Rightarrow> raise x
       | Some e \<Rightarrow> andthen (finish_recovery_operation ops i e) (raise (Dploy e)))"

definition recover_locked :: "recovery_env \<Rightarrow> 'w recovery_ops \<Rightarrow> ('w, recovery_result) recovery_act" where
  "recover_locked env ops =
     bnd (invoke RC_diagnose (diagnose_configured_recovery env ops False)) (\<lambda>plan.
     if \<not> plan_executable plan
     then raise (recovery_error (pl_reason plan) (pl_production_changed plan) None
       (rx_log env (pl_operation_id plan)) (pl_next_safe_action plan))
     else
     bnd (invoke RC_read_release (rv_read_release ops (pl_release_id plan))) (\<lambda>rel.
     bnd (invoke RC_acknowledge (acknowledged_stale_owner_id env ops plan)) (\<lambda>stale.
     andthen (invoke RC_ownership (take_recovery_ownership env ops plan rel))
    (bnd (invoke RC_create (rv_create_operation ops ''recover'' ''recovery_started''
            [(''source_plan'', plan_json plan)])) (\<lambda>operation.
     let i = om_operation_id operation in
     andthen (invoke RC_owner (rv_record_owner ops i stale))
      (guarded_recovery env ops i plan))))))"

definition recover_configured_deployment ::
  "recovery_env \<Rightarrow> 'w recovery_ops \<Rightarrow> ('w, recovery_result) recovery_act" where
  "recover_configured_deployment env ops =
     andthen (on_world (rv_configure ops))
       (finally_act
         (andthen (on_world (rv_lock ops))
           (finally_act (recover_locked env ops) (on_world (rv_unlock ops))))
         (on_world (rv_close ops)))"

end
