(* ===== verification/Recovery_Order.thy ===== *)
theory Recovery_Order
  imports Recovery Deploy_Order
begin

text \<open>
  What a recovery does, for every behaviour of the stores and dependencies: it executes exactly
  the actions of its plan in their order, it takes over before it acts, and it records a failure
  before it reports it. A plan resumed after some of its actions is the rest of the plan.
\<close>

section \<open>Milestones\<close>

datatype milestone = M_called recovery_call | M_returned recovery_call | M_passed traffic_action

text \<open>
  Progress events, fault points, the closing of the backup and the record of a failure are no
  milestones; the end of a hook is one when the hook passed.
\<close>

definition minor :: "recovery_call \<Rightarrow> bool" where
  "minor c \<longleftrightarrow> c \<in> {RC_event, RC_close_backup, RC_read_operation, RC_mark_failed} \<or> (\<exists>n. c = RC_fault_point n)"

fun milestone_of :: "recovery_event \<Rightarrow> milestone list" where
  "milestone_of (Called c) = (if minor c then [] else [M_called c])"
| "milestone_of (Returned c) = (if minor c then [] else [M_returned c])"
| "milestone_of (Hook_outcome h) = (if hook_passed h then [M_passed (hr_action h)] else [])"

definition milestones :: "'w recovery_context \<Rightarrow> milestone list" where
  "milestones s = concat (map milestone_of (rev (rc_trace s)))"

definition call_of :: "recovery_call \<Rightarrow> milestone list" where
  "call_of c = [M_called c, M_returned c]"

definition hook_of :: "traffic_action \<Rightarrow> milestone list" where
  "hook_of a = call_of (RC_hook a) @ [M_passed a]"

lemma length_call [simp]: "length (call_of c) = 2"
  by (simp add: call_of_def)

text \<open>What the execution of one action goes through, and of a plan up to its marking action.\<close>

fun action_milestones :: "release_manifest \<Rightarrow> recovery_action \<Rightarrow> milestone list" where
  "action_milestones rel RA_remove_new_application = call_of (RC_remove (the (rm_new_application rel)))"
| "action_milestones rel RA_restore_final_backup =
     call_of (RC_inspect (the (rm_previous_application rel)) False) @
     call_of (RC_open_backup (the (rm_final_backup_id rel))) @ call_of RC_restore"
| "action_milestones rel RA_restart_previous_application =
     call_of (RC_restart (the (rm_previous_application rel)))"
| "action_milestones rel RA_activate_previous_traffic = hook_of TA_activate_old"
| "action_milestones rel RA_disable_maintenance = hook_of TA_disable_maintenance"
| "action_milestones rel RA_verify_previous =
     call_of RC_check_database @ call_of (RC_check_health (previous_version rel))"
| "action_milestones rel RA_verify_new =
     call_of (RC_inspect (the (rm_new_application rel)) True) @ call_of RC_check_database @
     call_of (RC_check_health (rm_requested_version rel))"
| "action_milestones rel RA_mark_rolled_back = call_of (RC_resolve DS_rolled_back False) @ call_of RC_succeed"
| "action_milestones rel RA_mark_active =
     call_of (RC_resolve DS_active True) @ call_of RC_activate @ call_of RC_succeed"

definition marking :: "recovery_action \<Rightarrow> bool" where
  "marking a \<longleftrightarrow> a \<in> {RA_mark_rolled_back, RA_mark_active}"

fun plan_milestones :: "release_manifest \<Rightarrow> recovery_action list \<Rightarrow> milestone list" where
  "plan_milestones rel [] = []"
| "plan_milestones rel (a # as) = call_of (RC_stage a) @ action_milestones rel a @
     (if marking a then [] else plan_milestones rel as)"

section \<open>The milestones of each action\<close>

lemma emits_mark: "emits milestones (milestone_of e) (mark e)"
  by (rule emitsI) (simp_all add: mark_def modify_def milestones_def)

lemma emits_on_world [emitting]: "emits milestones [] (on_world m)"
  by (rule emits_nilI) (auto simp: on_world_def milestones_def split: prod.splits)

lemma emits_invoke [emitting]:
  "\<not> minor c \<Longrightarrow> emits milestones (call_of c) (invoke c m)"
  unfolding invoke_def call_of_def
  using emits_andthen [OF emits_mark [of "Called c"] emits_bnd_nil [OF emits_on_world
      emits_andthen_last [OF emits_mark [of "Returned c"] emits_pure(1)]]]
  by simp

lemma emits_invoke_minor [emitting]: "minor c \<Longrightarrow> emits milestones [] (invoke c m)"
  unfolding invoke_def
  using emits_andthen [OF emits_mark [of "Called c"] emits_bnd_nil [OF emits_on_world
      emits_andthen_last [OF emits_mark [of "Returned c"] emits_pure(1)]]]
  by simp

lemma emits_note [emitting]: "emits milestones [] (note_progress ops i m ev)"
  unfolding note_progress_def by (rule emits_andthen_nil) (auto intro: emitting simp: minor_def)

lemma emits_record_hook [emitting]: "emits milestones [] (record_recovery_hook ops i h)"
  unfolding record_recovery_hook_def by (rule emits_bnd_nil; intro emitting)

lemma lift_result_Inl: "lift_result (Inl e) = raise e"
  by (simp add: lift_result_def raise_def fun_eq_iff)

text \<open>A hook that did not pass raises, so what follows its outcome does not matter.\<close>

lemma emits_hook [emitting]: "emits milestones (hook_of a) (recovery_hook env ops i plan a)"
proof -
  let ?after = "\<lambda>h. andthen (mark (Hook_outcome h))
     (andthen (record_recovery_hook ops i h) (lift_result (require_recovery_hook env i plan h)))"
  have "emits milestones [M_passed a] (?after \<lparr>hr_action = a, hr_command = c\<rparr>)" for c
  proof (cases "hook_passed \<lparr>hr_action = a, hr_command = c\<rparr>")
    case True
    then have "emits milestones [M_passed a] (mark (Hook_outcome \<lparr>hr_action = a, hr_command = c\<rparr>))"
      using emits_mark [of "Hook_outcome \<lparr>hr_action = a, hr_command = c\<rparr>"] by simp
    then show ?thesis
      by (rule emits_andthen_last) (rule emits_andthen_nil; intro emitting)
  next
    case False
    then have quiet: "emits milestones [] (mark (Hook_outcome \<lparr>hr_action = a, hr_command = c\<rparr>))"
      using emits_mark [of "Hook_outcome \<lparr>hr_action = a, hr_command = c\<rparr>"] by simp
    obtain e where "require_recovery_hook env i plan \<lparr>hr_action = a, hr_command = c\<rparr> = Inl e"
      unfolding require_recovery_hook_def using False by (simp add: ensure_def)
    then have "emits milestones [M_passed a]
        (lift_result (require_recovery_hook env i plan \<lparr>hr_action = a, hr_command = c\<rparr>))"
      by (simp only: lift_result_Inl emits_raise)
    then show ?thesis
      by (intro emits_andthen_nil [OF quiet] emits_andthen_nil [OF emits_record_hook])
  qed
  then show ?thesis
    unfolding recovery_hook_def hook_of_def Let_def
    by (intro emits_bnd emits_invoke) (simp_all add: minor_def)
qed

lemma emits_finally:
  assumes "emits view seg m" and "emits view [] c"
  shows "emits view seg (finally_act m c)"
proof (rule emitsI)
  show "view t = view s @ seg" if "finally_act m c s = (Inr x, t)" for s x t
    using that emits_Inr [OF assms(1)] emits_nil [OF assms(2)]
    by (fastforce simp: finally_act_def split: prod.splits sum.splits)
  show "\<exists>n. view t = view s @ take n seg" if run: "finally_act m c s = (Inl e, t)" for s e t
  proof -
    obtain r u where m: "m s = (r, u)" by fastforce
    have "view t = view u"
      using run m emits_nil [OF assms(2)] by (fastforce simp: finally_act_def split: prod.splits sum.splits)
    moreover have "\<exists>n. view u = view s @ take n seg"
    proof (cases r)
      case (Inl x)
      with m emits_Inl [OF assms(1)] show ?thesis by blast
    next
      case (Inr x)
      with m emits_Inr [OF assms(1)] have "view u = view s @ take (length seg) seg" by simp
      then show ?thesis by blast
    qed
    ultimately show ?thesis by simp
  qed
qed

lemma emits_database_recovery [emitting]:
  "emits milestones (action_milestones rel RA_restore_final_backup) (execute_database_recovery env ops i rel)"
proof (cases "rm_previous_application rel"; cases "rm_final_backup_id rel")
  fix p b assume some: "rm_previous_application rel = Some p" "rm_final_backup_id rel = Some b"
  show ?thesis
    unfolding execute_database_recovery_def some prod.case option.case action_milestones.simps option.sel
    by (intro emits_andthen emits_bnd emits_bnd_last emits_invoke emits_finally emits_if emits_raise
        emits_invoke_minor emits_note) (simp_all add: minor_def)
qed (simp_all add: execute_database_recovery_def emits_raise)

lemma emits_verify [emitting]:
  "emits milestones (call_of RC_check_database @ call_of (RC_check_health v))
     (verify_recovery_application env ops i handle v role)"
proof (cases handle)
  case (Some h)
  show ?thesis
    unfolding verify_recovery_application_def Some option.case
    by (intro emits_bnd emits_bnd_last emits_invoke emits_note) (simp_all add: minor_def)
qed (simp add: verify_recovery_application_def emits_raise)

lemma emits_action [emitting]:
  assumes "\<not> marking a"
  shows "emits milestones (action_milestones rel a) (execute_action env ops i plan rel a)"
proof (cases a)
  case RA_remove_new_application
  show ?thesis
  proof (cases "rm_new_application rel")
    case (Some h)
    show ?thesis
      unfolding RA_remove_new_application execute_action_def recovery_action.case Some option.case
        action_milestones.simps option.sel
      by (intro emits_bnd_last emits_invoke emits_note) (simp add: minor_def)
  qed (simp add: execute_action_def RA_remove_new_application emits_raise)
next
  case RA_restart_previous_application
  show ?thesis
  proof (cases "rm_previous_application rel")
    case (Some h)
    show ?thesis
      unfolding RA_restart_previous_application execute_action_def recovery_action.case Some option.case
        action_milestones.simps option.sel
      by (intro emits_bnd_last emits_invoke emits_note) (simp add: minor_def)
  qed (simp add: execute_action_def RA_restart_previous_application emits_raise)
next
  case RA_verify_new
  show ?thesis
  proof (cases "rm_new_application rel")
    case (Some h)
    show ?thesis
      unfolding RA_verify_new execute_action_def recovery_action.case action_milestones.simps Some option.case option.sel
      by (intro emits_andthen emits_verify emits_andthen_last [OF emits_invoke] emits_pure) (simp add: minor_def)
  next
    case None
    have "verify_recovery_application env ops i None v Role_new = raise (recovery_error
        (''new'' @ '' application identity is missing for recovery verification'') True None
        (rx_log env i) ''Inspect the live production application manually.'')" for v
      by (simp add: verify_recovery_application_def)
    then show ?thesis
      unfolding RA_verify_new execute_action_def recovery_action.case None option.case
      by (intro emits_andthen_nil emits_pure) (simp only: emits_raise)
  qed
next
  case RA_restore_final_backup
  show ?thesis
    unfolding RA_restore_final_backup execute_action_def recovery_action.case by (rule emits_database_recovery)
qed (use assms in \<open>simp_all only: execute_action_def recovery_action.case action_milestones.simps emits_hook
       emits_verify marking_def insert_iff simp_thms\<close>)

lemma emits_complete [emitting]:
  "emits milestones (action_milestones rel (if active then RA_mark_active else RA_mark_rolled_back))
     (complete_recovery env ops i plan rel active)"
proof (cases active)
  case True
  then have act: "active = True" by simp
  show ?thesis
    unfolding complete_recovery_def Let_def act if_True action_milestones.simps
    by (intro emits_bnd [OF emits_invoke] emits_bnd [OF emits_bnd_last [OF emits_invoke]]
        emits_bnd_last [OF emits_invoke] emits_pure) (simp_all add: minor_def)
next
  case False
  then have inactive: "active = False" by simp
  show ?thesis
    unfolding complete_recovery_def Let_def inactive if_False action_milestones.simps
    by (intro emits_bnd [OF emits_invoke] emits_bnd_nil [OF emits_pure(1)] emits_bnd_last [OF emits_invoke]
        emits_pure) (simp_all add: minor_def)
qed

lemma emits_announce [emitting]: "emits milestones (call_of (RC_stage a)) (announce_action ops i plan a)"
  unfolding announce_action_def
  by (intro emits_andthen_last emits_invoke emits_pure) (simp add: minor_def)

lemma emits_actions: "emits milestones (plan_milestones rel as) (execute_actions env ops i plan rel as)"
proof (induction as)
  case (Cons a as)
  show ?case
  proof (cases "marking a")
    case True
    then have eq: "action_milestones rel a =
        action_milestones rel (if a = RA_mark_active then RA_mark_active else RA_mark_rolled_back)"
      by (auto simp: marking_def)
    have "emits milestones (call_of (RC_stage a) @ action_milestones rel a)
        (andthen (announce_action ops i plan a) (complete_recovery env ops i plan rel (a = RA_mark_active)))"
      using emits_andthen [OF emits_announce [of a ops i plan] emits_complete [of rel "a = RA_mark_active" env ops i plan]]
      by (simp only: eq [symmetric])
    with True show ?thesis by (simp add: marking_def)
  next
    case False
    then have "emits milestones (action_milestones rel a @ plan_milestones rel as)
        (andthen (execute_action env ops i plan rel a)
         (andthen (invoke (RC_fault_point (''after_'' @ recovery_action_value a))
             (rv_inject ops (''after_'' @ recovery_action_value a)))
           (execute_actions env ops i plan rel as)))"
      by (intro emits_andthen emits_action emits_andthen_nil [OF emits_invoke_minor] Cons.IH) (simp_all add: minor_def)
    from emits_andthen [OF emits_announce this] False show ?thesis by (simp add: marking_def)
  qed
qed (simp add: emits_raise)


section \<open>The whole recovery\<close>

text \<open>What a run appends to the view of its state, related to its result.\<close>

definition appends :: "('s \<Rightarrow> 'v list) \<Rightarrow> ('e + 'a \<Rightarrow> 'v list \<Rightarrow> bool) \<Rightarrow> ('s, 'e, 'a) act \<Rightarrow> bool" where
  "appends view R m \<longleftrightarrow> (\<forall>s r t. m s = (r, t) \<longrightarrow> (\<exists>ys. view t = view s @ ys \<and> R r ys))"

lemma appendsD: "appends view R m \<Longrightarrow> m s = (r, t) \<Longrightarrow> \<exists>ys. view t = view s @ ys \<and> R r ys"
  by (simp add: appends_def)

lemma appends_mono: "appends view R m \<Longrightarrow> (\<And>r ys. R r ys \<Longrightarrow> S r ys) \<Longrightarrow> appends view S m"
  unfolding appends_def by blast

lemma appends_result:
  assumes "appends view R m" and "\<And>s t z. m s = (Inr z, t) \<Longrightarrow> P z"
  shows "appends view (\<lambda>r ys. R r ys \<and> (\<forall>z. r = Inr z \<longrightarrow> P z)) m"
  unfolding appends_def
proof (intro allI impI)
  fix s r t assume run: "m s = (r, t)"
  from appendsD [OF assms(1) run] obtain ys where ys: "view t = view s @ ys" "R r ys" by blast
  moreover have "\<forall>z. r = Inr z \<longrightarrow> P z" using assms(2) [of s _ t] run by simp
  ultimately show "\<exists>ys. view t = view s @ ys \<and> R r ys \<and> (\<forall>z. r = Inr z \<longrightarrow> P z)" by blast
qed

lemma appends_raise: "R (Inl e) [] \<Longrightarrow> appends view R (raise e)"
  by (simp add: appends_def raise_def)

lemma appends_emits:
  assumes "emits view seg m"
  shows "appends view (\<lambda>r ys. case r of Inr _ \<Rightarrow> ys = seg | Inl _ \<Rightarrow> \<exists>n. ys = take n seg) m"
  unfolding appends_def
proof (intro allI impI)
  fix s r t assume "m s = (r, t)"
  with emits_Inr [OF assms] emits_Inl [OF assms]
  show "\<exists>ys. view t = view s @ ys \<and> (case r of Inr _ \<Rightarrow> ys = seg | Inl _ \<Rightarrow> \<exists>n. ys = take n seg)"
    by (cases r) fastforce+
qed

lemma appends_bnd:
  assumes "emits view a m" and "\<And>e n. R (Inl e) (take n a)"
    and "\<And>x s t. m s = (Inr x, t) \<Longrightarrow> appends view (\<lambda>r ys. R r (a @ ys)) (f x)"
  shows "appends view R (bnd m f)"
  unfolding appends_def
proof (intro allI impI)
  fix s r t assume run: "bnd m f s = (r, t)"
  obtain q u where m: "m s = (q, u)" by fastforce
  show "\<exists>ys. view t = view s @ ys \<and> R r ys"
  proof (cases q)
    case (Inl e)
    then have "t = u" "r = Inl e" using run m by (simp_all add: bnd_def)
    with emits_Inl [OF assms(1)] m Inl assms(2) show ?thesis by blast
  next
    case (Inr x)
    then have "f x u = (r, t)" using run m by (simp add: bnd_def)
    from appendsD [OF assms(3) this] m Inr obtain ys where "view t = view u @ ys" "R r (a @ ys)" by blast
    with emits_Inr [OF assms(1)] m Inr show ?thesis by fastforce
  qed
qed

lemma appends_andthen:
  assumes "emits view a m" and "\<And>e n. R (Inl e) (take n a)" and "appends view (\<lambda>r ys. R r (a @ ys)) k"
  shows "appends view R (andthen m k)"
  unfolding andthen_def using assms by (intro appends_bnd) auto

lemma appends_finally:
  assumes "appends view R m" and "emits view [] c" and "\<And>r e ys. R r ys \<Longrightarrow> R (Inl e) ys"
  shows "appends view R (finally_act m c)"
  unfolding appends_def
proof (intro allI impI)
  fix s r t assume run: "finally_act m c s = (r, t)"
  obtain q u where m: "m s = (q, u)" by fastforce
  obtain q' v where c: "c u = (q', v)" by fastforce
  have t: "t = v" "r = q \<or> (\<exists>e. r = Inl e)" using run m c by (auto simp: finally_act_def split: sum.splits)
  from appendsD [OF assms(1) m] obtain ys where ys: "view u = view s @ ys" "R q ys" by blast
  with emits_nil [OF assms(2) c] t assms(3) [OF ys(2)] show "\<exists>ys. view t = view s @ ys \<and> R r ys" by auto
qed

text \<open>A run that may raise where the plan is followed only in part.\<close>

definition executed :: "recovery_plan \<Rightarrow> release_manifest \<Rightarrow> milestone list" where
  "executed plan rel = call_of RC_read_release @ plan_milestones rel (pl_actions plan)"

definition followed :: "recovery_plan \<Rightarrow> exn + recovery_result \<Rightarrow> milestone list \<Rightarrow> bool" where
  "followed plan r ys \<longleftrightarrow> (case r of
      Inr z \<Rightarrow> rz_plan z = plan \<and> (\<exists>rel. ys = executed plan rel)
    | Inl _ \<Rightarrow> (\<exists>rel n. ys = take n (executed plan rel)))"

lemma complete_result: "complete_recovery env ops i plan rel active s = (Inr z, t) \<Longrightarrow> rz_plan z = plan"
  by (auto simp: complete_recovery_def Let_def bnd_def ret_def split: prod.splits sum.splits if_splits)

lemma execute_result: "execute_actions env ops i plan rel as s = (Inr z, t) \<Longrightarrow> rz_plan z = plan"
proof (induction as arbitrary: s)
  case (Cons a as)
  then show ?case
    by (auto simp: andthen_def bnd_def intro: complete_result split: prod.splits sum.splits if_splits)
qed (simp add: raise_def)

lemma appends_execute: "appends milestones (followed plan) (execute_recovery_plan env ops i plan)"
  unfolding execute_recovery_plan_def
proof (rule appends_bnd [OF emits_invoke])
  show "followed plan (Inl e) (take n (call_of RC_read_release))" for e n
  proof -
    have "take n (call_of RC_read_release) =
        take (min n 2) (executed plan undefined)"
      by (simp add: executed_def call_of_def min_def take_Cons' split: nat.split)
    then show ?thesis by (auto simp: followed_def)
  qed
  fix rel s t
  have "appends milestones (\<lambda>(r :: exn + recovery_result) ys. (case r of Inr _ \<Rightarrow> ys = plan_milestones rel (pl_actions plan)
      | Inl _ \<Rightarrow> \<exists>n. ys = take n (plan_milestones rel (pl_actions plan))) \<and> (\<forall>z. r = Inr z \<longrightarrow> rz_plan z = plan))
     (execute_actions env ops i plan rel (pl_actions plan))"
    by (rule appends_result [OF appends_emits [OF emits_actions]]) (rule execute_result)
  then show "appends milestones (\<lambda>r ys. followed plan r (call_of RC_read_release @ ys))
     (execute_actions env ops i plan rel (pl_actions plan))"
  proof (rule appends_mono)
    fix r :: "exn + recovery_result" and ys
    assume *: "(case r of Inr _ \<Rightarrow> ys = plan_milestones rel (pl_actions plan)
      | Inl _ \<Rightarrow> \<exists>n. ys = take n (plan_milestones rel (pl_actions plan))) \<and> (\<forall>z. r = Inr z \<longrightarrow> rz_plan z = plan)"
    show "followed plan r (call_of RC_read_release @ ys)"
    proof (cases r)
      case (Inr z)
      with * show ?thesis by (auto simp: followed_def executed_def)
    next
      case (Inl e)
      with * obtain n where "ys = take n (plan_milestones rel (pl_actions plan))" by auto
      then have "call_of RC_read_release @ ys = take (2 + n) (executed plan rel)"
        by (simp add: executed_def call_of_def)
      with Inl show ?thesis by (auto simp: followed_def)
    qed
  qed
qed (simp add: minor_def)


lemma emits_finish [emitting]: "emits milestones [] (finish_recovery_operation ops i e)"
  unfolding finish_recovery_operation_def
  by (intro emits_bnd_nil emits_invoke_minor emits_if emits_pure emits_andthen_nil) (simp_all add: minor_def)

lemma followed_Inl: "followed plan (Inl e) ys \<Longrightarrow> followed plan (Inl e') ys"
  by (simp add: followed_def)

lemma appends_guarded: "appends milestones (followed plan) (guarded_recovery env ops i plan)"
  unfolding appends_def
proof (intro allI impI)
  fix s r t assume run: "guarded_recovery env ops i plan s = (r, t)"
  obtain q u where m: "execute_recovery_plan env ops i plan s = (q, u)" by fastforce
  from appendsD [OF appends_execute m] obtain ys where ys: "milestones u = milestones s @ ys" "followed plan q ys"
    by blast
  show "\<exists>ys. milestones t = milestones s @ ys \<and> followed plan r ys"
  proof (cases q)
    case (Inr z)
    with run m ys show ?thesis by (simp add: guarded_recovery_def catching_def)
  next
    case (Inl x)
    have "milestones t = milestones u \<and> (\<exists>x'. r = Inl x')"
    proof (cases "normalize_recovery_error env i plan x")
      case None
      with run m Inl show ?thesis by (auto simp: guarded_recovery_def catching_def raise_def)
    next
      case (Some e)
      then have h: "andthen (finish_recovery_operation ops i e) (raise (Dploy e)) u = (r, t)"
        using run m Inl by (simp add: guarded_recovery_def catching_def)
      have "milestones t = milestones u"
        using emits_nil [OF emits_andthen_nil [OF emits_finish emits_raise] h] .
      moreover have "\<exists>x'. r = Inl x'" using h by (auto simp: andthen_def bnd_def raise_def split: prod.splits sum.splits)
      ultimately show ?thesis by blast
    qed
    moreover from this obtain x' where "r = Inl x'" by blast
    then have "followed plan r ys" using followed_Inl ys(2) Inl by simp
    ultimately show ?thesis using ys(1) by auto
  qed
qed

definition take_over :: "milestone list" where
  "take_over = call_of RC_diagnose @ call_of RC_read_release @ call_of RC_acknowledge @
     call_of RC_ownership @ call_of RC_create @ call_of RC_owner"

text \<open>A recovery as a whole: how far it came, and by which plan.\<close>

definition diagnosed :: "recovery_env \<Rightarrow> 'w recovery_ops \<Rightarrow> recovery_plan \<Rightarrow> bool" where
  "diagnosed env ops plan \<longleftrightarrow> (\<exists>w w'. diagnose_configured_recovery env ops False w = (Inr plan, w'))"

definition recovered :: "recovery_env \<Rightarrow> 'w recovery_ops \<Rightarrow> exn + recovery_result \<Rightarrow> milestone list \<Rightarrow> bool" where
  "recovered env ops r ys \<longleftrightarrow> (case r of
      Inr z \<Rightarrow> diagnosed env ops (rz_plan z) \<and> plan_executable (rz_plan z) \<and>
        (\<exists>rel. ys = take_over @ executed (rz_plan z) rel)
    | Inl _ \<Rightarrow> (\<exists>n \<le> 2. ys = take n (call_of RC_diagnose)) \<or>
        (\<exists>plan rel n. diagnosed env ops plan \<and> plan_executable plan \<and> ys = take n (take_over @ executed plan rel)))"


text \<open>The calls of a take-over, the last first, and what can only come after a plan was followed.\<close>

lemma take_call: "take n (call_of c) = take (min n 2) (call_of c)"
  by (simp add: call_of_def min_def)

lemma followed_prefix:
  "followed plan r ys \<Longrightarrow> (\<exists>rel n. ys = take n (executed plan rel)) \<and>
    (\<forall>z. r = Inr z \<longrightarrow> rz_plan z = plan \<and> (\<exists>rel. ys = executed plan rel))"
  by (auto simp: followed_def split: sum.splits) (metis order_refl take_all)

definition after_diagnosis :: "recovery_plan \<Rightarrow> milestone list \<Rightarrow> exn + recovery_result \<Rightarrow> milestone list \<Rightarrow> bool" where
  "after_diagnosis plan a r ys \<longleftrightarrow> (case r of
      Inr z \<Rightarrow> rz_plan z = plan \<and> (\<exists>rel. ys = a @ executed plan rel)
    | Inl _ \<Rightarrow> (\<exists>rel n. ys = take n (a @ executed plan rel)))"

lemma after_diagnosis_followed: "followed plan r ys \<Longrightarrow> after_diagnosis plan a r (a @ ys)"
proof (cases r)
  case (Inl e)
  assume "followed plan r ys"
  with Inl obtain rel n where "ys = take n (executed plan rel)" by (auto simp: followed_def)
  then have "a @ ys = take (length a + n) (a @ executed plan rel)" by simp
  with Inl show ?thesis unfolding after_diagnosis_def by (simp only: sum.case) blast
qed (auto simp: followed_def after_diagnosis_def)

lemma after_diagnosis_part: "after_diagnosis plan (a @ b) (Inl e) (take n a)"
proof -
  have "take n a = take (min n (length a)) ((a @ b) @ executed plan undefined)" by (simp add: min_def)
  then show ?thesis unfolding after_diagnosis_def by (simp only: sum.case) blast
qed

lemma after_diagnosis_append:
  "after_diagnosis plan b r ys \<Longrightarrow> after_diagnosis plan (a @ b) r (a @ ys)"
proof (cases r)
  case (Inl e)
  assume "after_diagnosis plan b r ys"
  with Inl obtain rel n where "ys = take n (b @ executed plan rel)" by (auto simp: after_diagnosis_def)
  then have "a @ ys = take (length a + n) ((a @ b) @ executed plan rel)" by simp
  with Inl show ?thesis unfolding after_diagnosis_def by (simp only: sum.case) blast
qed (auto simp: after_diagnosis_def)

text \<open>One call before the rest: the shape of every step of the take-over.\<close>

lemma appends_call:
  assumes "\<not> minor c" and "\<And>x. appends milestones (after_diagnosis plan b) (f x)"
  shows "appends milestones (after_diagnosis plan (call_of c @ b)) (bnd (invoke c m) f)"
proof (rule appends_bnd [OF emits_invoke [OF assms(1)]])
  show "after_diagnosis plan (call_of c @ b) (Inl e) (take n (call_of c))" for e n
    by (rule after_diagnosis_part)
  show "appends milestones (\<lambda>r ys. after_diagnosis plan (call_of c @ b) r (call_of c @ ys)) (f x)" for x
    by (rule appends_mono [OF assms(2)]) (rule after_diagnosis_append)
qed

lemma appends_call_andthen:
  assumes "\<not> minor c" and "appends milestones (after_diagnosis plan b) k"
  shows "appends milestones (after_diagnosis plan (call_of c @ b)) (andthen (invoke c m) k)"
  unfolding andthen_def using assms by (rule appends_call)

lemma appends_taking_over:
  "appends milestones (after_diagnosis plan (call_of RC_read_release @ call_of RC_acknowledge @
     call_of RC_ownership @ call_of RC_create @ call_of RC_owner @ []))
   (bnd (invoke RC_read_release m) (\<lambda>rel. bnd (invoke RC_acknowledge (n rel)) (\<lambda>stale.
      andthen (invoke RC_ownership (k rel stale)) (bnd (invoke RC_create l) (\<lambda>operation.
        let i = om_operation_id operation in
        andthen (invoke RC_owner (j i stale)) (guarded_recovery env ops i plan))))))"
  unfolding Let_def
  by (intro appends_call appends_call_andthen appends_mono [OF appends_guarded] after_diagnosis_followed [of _ _ _ "[]", simplified])
    (simp_all add: minor_def)


lemma diagnosed_by: "invoke RC_diagnose (diagnose_configured_recovery env ops False) s = (Inr plan, t) \<Longrightarrow>
  diagnosed env ops plan"
  by (fastforce simp: invoke_def mark_def modify_def andthen_def bnd_def ret_def on_world_def diagnosed_def
      split: prod.splits sum.splits)

lemma recovered_early: "recovered env ops (Inl e) (take n (call_of RC_diagnose))"
proof -
  have "min n 2 \<le> 2 \<and> take n (call_of RC_diagnose) = take (min n 2) (call_of RC_diagnose)"
    using take_call by simp
  then show ?thesis unfolding recovered_def by (simp only: sum.case) blast
qed

lemma recovered_late:
  assumes "diagnosed env ops plan" and "plan_executable plan" and "after_diagnosis plan take_over r ys"
  shows "recovered env ops r ys"
proof (cases r)
  case (Inl e)
  with assms(3) obtain rel n where "ys = take n (take_over @ executed plan rel)" by (auto simp: after_diagnosis_def)
  with assms(1,2) Inl show ?thesis unfolding recovered_def by (simp only: sum.case) blast
next
  case (Inr z)
  with assms show ?thesis by (auto simp: after_diagnosis_def recovered_def)
qed

lemma appends_locked: "appends milestones (recovered env ops) (recover_locked env ops)"
  unfolding recover_locked_def
proof (rule appends_bnd [OF emits_invoke])
  show "recovered env ops (Inl e) (take n (call_of RC_diagnose))" for e n by (rule recovered_early)
next
  fix plan s t assume "invoke RC_diagnose (diagnose_configured_recovery env ops False) s = (Inr plan, t)"
  from diagnosed_by [OF this] have found: "diagnosed env ops plan" .
  show "appends milestones (\<lambda>r ys. recovered env ops r (call_of RC_diagnose @ ys))
      (if \<not> plan_executable plan
       then raise (recovery_error (pl_reason plan) (pl_production_changed plan) None
         (rx_log env (pl_operation_id plan)) (pl_next_safe_action plan))
       else bnd (invoke RC_read_release (rv_read_release ops (pl_release_id plan))) (\<lambda>rel.
         bnd (invoke RC_acknowledge (acknowledged_stale_owner_id env ops plan)) (\<lambda>stale.
         andthen (invoke RC_ownership (take_recovery_ownership env ops plan rel))
        (bnd (invoke RC_create (rv_create_operation ops ''recover'' ''recovery_started''
            [(''source_plan'', plan_json plan)])) (\<lambda>operation.
         let i = om_operation_id operation in
         andthen (invoke RC_owner (rv_record_owner ops i stale))
          (guarded_recovery env ops i plan))))))"
  proof (cases "plan_executable plan")
    case False
    have "recovered env ops (Inl e) (call_of RC_diagnose @ [])" for e
      using recovered_early [of env ops e 2] by (simp add: call_of_def)
    then show ?thesis using False by (simp only: simp_thms if_True) (rule appends_raise)
  next
    case True
    have late: "recovered env ops r (call_of RC_diagnose @ ys)"
      if "after_diagnosis plan (call_of RC_read_release @ call_of RC_acknowledge @ call_of RC_ownership @
        call_of RC_create @ call_of RC_owner @ []) r ys" for r ys
      by (rule recovered_late [OF found True])
        (use after_diagnosis_append [OF that, of "call_of RC_diagnose"] in \<open>simp add: take_over_def\<close>)
    show ?thesis
      by (simp only: True not_True_eq_False if_False) (rule appends_mono [OF appends_taking_over late])
  qed
qed (simp add: minor_def)


lemma recovered_raises: "recovered env ops r ys \<Longrightarrow> recovered env ops (Inl e) ys"
proof (cases r)
  case (Inr z)
  assume "recovered env ops r ys"
  with Inr obtain rel where z: "diagnosed env ops (rz_plan z)" "plan_executable (rz_plan z)"
    "ys = take_over @ executed (rz_plan z) rel" by (auto simp: recovered_def)
  have "after_diagnosis (rz_plan z) take_over (Inl e) ys"
    unfolding after_diagnosis_def z(3) sum.case by (metis order_refl take_all)
  from recovered_late [OF z(1,2) this] show ?thesis .
qed (auto simp: recovered_def)

lemma appends_recovery: "appends milestones (recovered env ops) (recover_configured_deployment env ops)"
proof -
  have empty: "recovered env ops (Inl e) (take n [])" for e n
    using recovered_early [of env ops e 0] by simp
  have "appends milestones (\<lambda>r ys. recovered env ops r ([] @ ys))
      (finally_act (recover_locked env ops) (on_world (rv_unlock ops)))"
    using appends_finally [OF appends_locked emits_on_world recovered_raises] by simp
  from appends_finally [OF appends_andthen [OF emits_on_world empty this] emits_on_world recovered_raises]
  have "appends milestones (\<lambda>r ys. recovered env ops r ([] @ ys)) (finally_act (andthen (on_world (rv_lock ops))
      (finally_act (recover_locked env ops) (on_world (rv_unlock ops)))) (on_world (rv_close ops)))"
    by simp
  from appends_andthen [OF emits_on_world empty this] show ?thesis
    unfolding recover_configured_deployment_def .
qed



section \<open>Failures\<close>

definition unproven_detail :: "recovery_env \<Rightarrow> exn \<Rightarrow> string" where
  "unproven_detail env x = (case x of Dploy e \<Rightarrow> err_what e | _ \<Rightarrow> rx_redact env (describe_exn x))"

lemma normalize_detail:
  "is_exception x \<Longrightarrow> normalize_recovery_error env i plan x = Some (mk_error RecoveryRequiredError
     (''recovery execution could not be proven: '' @ unproven_detail env x)
     (pl_production_changed plan) None (Some (rx_log env i))
     (''Preserve the recovery log and rerun dploydb recover; repeated actions are '' @
      ''re-inspected before execution.''))"
  unfolding normalize_recovery_error_def unproven_detail_def by (simp only: not_True_eq_False if_False)

lemma invoke_run:
  "invoke c m s = (case m (rc_world s) of
     (Inl e, w) \<Rightarrow> (Inl e, s\<lparr>rc_trace := Called c # rc_trace s, rc_world := w\<rparr>)
   | (Inr x, w) \<Rightarrow> (Inr x, s\<lparr>rc_trace := Returned c # Called c # rc_trace s, rc_world := w\<rparr>))"
  by (simp add: invoke_def mark_def modify_def andthen_def bnd_def on_world_def ret_def split: prod.split sum.split)

definition failure_transition ::
  "'w recovery_ops \<Rightarrow> string \<Rightarrow> bool \<Rightarrow> bool option \<Rightarrow> failure_record \<Rightarrow> ('w, operation_manifest) world_act" where
  "failure_transition ops i changed running failure =
     rv_transition ops i OS_recovery_required ''recovery_required''
       ''Recovery execution did not reach a proven terminal state.'' []
       (Some (facts changed running True)) (Some failure)"

lemma finish_cases:
  assumes "finish_recovery_operation ops i e s = (r, t)"
  obtains (unread) x where "r = Inl x" "rv_read_operation ops i (rc_world s) = (Inl x, rc_world t)"
  | (settled) m where "r = Inr ()" "rv_read_operation ops i (rc_world s) = (Inr m, rc_world t)" "om_status m \<noteq> OS_in_progress"
  | (unrecordable) m where "r = Inl validation_error" "rv_read_operation ops i (rc_world s) = (Inr m, rc_world t)"
      "om_status m = OS_in_progress" "failure_record_of e = Inl validation_error"
  | (recorded) m w f q where "rv_read_operation ops i (rc_world s) = (Inr m, w)" "om_status m = OS_in_progress"
      "failure_record_of e = Inr f"
      "failure_transition ops i (err_changed e) (err_running e) f w = (q, rc_world t)"
      "r = (case q of Inl x \<Rightarrow> Inl x | Inr _ \<Rightarrow> Inr ())"
proof (cases "rv_read_operation ops i (rc_world s)")
  case (Pair q w)
  show thesis
  proof (cases q)
    case (Inl x)
    with Pair assms have "r = Inl x \<and> rc_world t = w"
      by (auto simp: finish_recovery_operation_def invoke_run bnd_def)
    with unread Pair Inl show thesis by simp
  next
    case (Inr m)
    show thesis
    proof (cases "om_status m = OS_in_progress")
      case False
      with Pair Inr assms have "r = Inr () \<and> rc_world t = w"
        by (auto simp: finish_recovery_operation_def invoke_run bnd_def ret_def)
      with settled [of m] Pair Inr False show thesis by simp
    next
      case True
      show thesis
      proof (cases "failure_record_of e")
        case (Inl x)
        then have "x = validation_error" by (simp add: failure_record_of_def Let_def split: if_splits)
        moreover from this Pair Inr True Inl assms have "r = Inl validation_error \<and> rc_world t = w"
          by (auto simp: finish_recovery_operation_def invoke_run bnd_def lift_result_def)
        ultimately show thesis using unrecordable [of m] Pair Inr True Inl by simp
      next
        case f: (Inr f)
        obtain p v where run: "failure_transition ops i (err_changed e) (err_running e) f w = (p, v)" by fastforce
        have "r = (case p of Inl x \<Rightarrow> Inl x | Inr _ \<Rightarrow> Inr ()) \<and> v = rc_world t"
          using Pair Inr True f assms run
          by (cases p) (simp_all add: finish_recovery_operation_def invoke_run bnd_def lift_result_def andthen_def
              ret_def failure_transition_def, auto)
        with recorded [OF _ True f, of w p] Pair Inr run show thesis by simp
      qed
    qed
  qed
qed



text \<open>
  A recovery that fails with a long error text is not recorded: when the text exceeds what a
  failure record holds after the prefix, a validation error leaves the recovery instead of the
  recovery-required error, and nothing is stored, so that the operation stays in progress.
\<close>

theorem long_recovery_failures_are_unrecorded:
  assumes "execute_recovery_plan env ops i plan s = (Inl x, u)" and "is_exception x"
    and "4056 < length (unproven_detail env x)"
    and "rv_read_operation ops i (rc_world u) = (Inr m, w)" and "om_status m = OS_in_progress"
  shows "\<exists>t. guarded_recovery env ops i plan s = (Inl validation_error, t) \<and> rc_world t = w"
proof -
  obtain e where e: "normalize_recovery_error env i plan x = Some e"
    "err_what e = ''recovery execution could not be proven: '' @ unproven_detail env x"
    using normalize_detail [OF assms(2)] by fastforce
  then have "failure_record_of e = Inl validation_error"
    using assms(3) by (simp add: failure_record_of_def failure_record_ok_def length_between_def)
  then have "finish_recovery_operation ops i e u =
      (Inl validation_error, u\<lparr>rc_trace := Returned RC_read_operation # Called RC_read_operation # rc_trace u, rc_world := w\<rparr>)"
    using assms(4,5) by (simp add: finish_recovery_operation_def invoke_run bnd_def lift_result_def)
  then show ?thesis
    using assms(1) e(1) by (simp add: guarded_recovery_def catching_def andthen_def bnd_def)
qed


section \<open>Resuming\<close>

text \<open>What an action that succeeded changes in the next observation.\<close>

fun after_action :: "recovery_action \<Rightarrow> live_state \<Rightarrow> live_state" where
  "after_action RA_remove_new_application live = live\<lparr>ls_new := RS_absent\<rparr>"
| "after_action RA_restore_final_backup live = live\<lparr>ls_production_sha256 := ls_final_sha256 live\<rparr>"
| "after_action RA_restart_previous_application live = live\<lparr>ls_previous := RS_running\<rparr>"
| "after_action _ live = live"

definition live_action :: "recovery_action \<Rightarrow> bool" where
  "live_action a \<longleftrightarrow> a \<in> {RA_remove_new_application, RA_restore_final_backup, RA_restart_previous_application}"

lemma live_action_simps [simp]:
  "live_action RA_remove_new_application" "live_action RA_restore_final_backup"
  "live_action RA_restart_previous_application" "\<not> live_action RA_activate_previous_traffic"
  "\<not> live_action RA_disable_maintenance" "\<not> live_action RA_verify_previous" "\<not> live_action RA_mark_rolled_back"
  by (simp_all add: live_action_def)

text \<open>The live actions come first, so that what was done of them is a prefix of the plan.\<close>

lemma resumed_action:
  assumes "previous_actions rel live changed = Inr (a # rest)" and "live_action a"
    and "ls_previous live \<in> {RS_running, RS_stopped}" and "ls_final_sha256 live \<noteq> None"
  shows "previous_actions rel (after_action a live) changed = Inr rest"
proof -
  consider "a = RA_remove_new_application" | "a = RA_restore_final_backup" | "a = RA_restart_previous_application"
    using assms(2) by (auto simp: live_action_def)
  then show ?thesis
    by cases (use assms in \<open>auto simp: previous_actions_def Let_def split: if_splits\<close>)
qed

lemma resumed_actions:
  assumes "previous_actions rel live changed = Inr (xs @ ys)" and "list_all live_action xs"
    and "ls_previous live \<in> {RS_running, RS_stopped}" and "ls_final_sha256 live \<noteq> None"
  shows "previous_actions rel (fold after_action xs live) changed = Inr ys"
  using assms
proof (induction xs arbitrary: live)
  case (Cons a xs)
  have "ls_previous (after_action a live) \<in> {RS_running, RS_stopped}" "ls_final_sha256 (after_action a live) \<noteq> None"
    using Cons.prems(3,4) by (cases a; simp)+
  with Cons.IH [OF resumed_action [OF _ _ Cons.prems(3,4)]] Cons.prems(1,2) show ?case by simp
qed simp


lemma after_actions_known:
  assumes "ls_previous live \<in> {RS_running, RS_stopped}" and "ls_new live \<noteq> RS_unknown"
  shows "ls_previous (fold after_action xs live) \<in> {RS_running, RS_stopped} \<and>
    ls_new (fold after_action xs live) \<noteq> RS_unknown"
  using assms
proof (induction xs arbitrary: live)
  case (Cons a xs)
  have "ls_previous (after_action a live) \<in> {RS_running, RS_stopped}" "ls_new (after_action a live) \<noteq> RS_unknown"
    using Cons.prems by (cases a; simp)+
  from Cons.IH [OF this] show ?case by simp
qed simp

text \<open>
  C8. An interrupted recovery resumes where it stopped: when a first part of the live actions of a
  rollback plan was carried out (the new application removed, the database restored, the previous
  application restarted) and the records still describe the same deployment, the next diagnosis
  plans exactly the actions that are left.
\<close>

theorem interrupted_recovery_resumes:
  assumes "pl_disposition (build_recovery_plan operation events rel live) = RD_recover_previous"
    and "pl_actions (build_recovery_plan operation events rel live) = xs @ ys" and "list_all live_action xs"
    and "ls_final_sha256 live \<noteq> None"
    and "identity_problem operation' events' rel' = None" and "rm_status rel' = DS_recovery_required"
    and "rm_recovery_protocol_version rel' = Some 2"
    and "activation_conclusion rel' events' = activation_conclusion rel events"
    and "production_may_have_changed operation' rel' = production_may_have_changed operation rel"
    and "rm_previous_application rel' = rm_previous_application rel"
    and "rm_new_application rel' = rm_new_application rel"
    and "rm_final_backup_id rel' = rm_final_backup_id rel"
  shows "pl_disposition (build_recovery_plan operation' events' rel' (fold after_action xs live)) = RD_recover_previous \<and>
    pl_actions (build_recovery_plan operation' events' rel' (fold after_action xs live)) = ys"
proof -
  let ?live = "fold after_action xs live"
  let ?changed = "production_may_have_changed operation rel"
  have roll: "previous_actions rel live ?changed = Inr (xs @ ys)"
    "activation_conclusion rel events \<in> {AC_not_attempted, AC_not_started}" "rm_previous_application rel \<noteq> None"
    "ls_previous live \<in> {RS_running, RS_stopped}" "ls_new live \<noteq> RS_unknown"
    by (rule plan_cases [of operation events rel live]; use assms(1,2) in \<open>simp add: plan_executable_def\<close>)+
  have "previous_actions rel' ?live ?changed = previous_actions rel ?live ?changed"
    unfolding previous_actions_def assms(11,12) by (rule refl)
  then have left: "previous_actions rel' ?live ?changed = Inr ys"
    using resumed_actions [OF roll(1) assms(3) roll(4) assms(4)] by simp
  have "build_recovery_plan operation' events' rel' ?live = recover_previous_plan operation' rel' ?live ?changed"
    using assms(5-9) roll(2) by (auto simp: build_recovery_plan_def)
  then show ?thesis
    using left after_actions_known [OF roll(4,5), of xs] roll(3) assms(10)
    by (auto simp: recover_previous_plan_def)
qed

section \<open>Who may take over\<close>

text \<open>
  The recovery operation names the deployment it recovers, and a later recovery reads the
  name back: the first event of an interrupted recovery, whose evidence is the JSON of its plan,
  belongs to a new plan exactly when both plans are for the same operation and release.
\<close>

theorem recovery_lineage_reads_back:
  assumes "ev_evidence e = [(''source_plan'', plan_json earlier)]"
  shows "names_plan plan (e # es) \<longleftrightarrow>
    pl_operation_id earlier = pl_operation_id plan \<and> pl_release_id earlier = pl_release_id plan"
  using assms by (simp add: names_plan_def json_get_def plan_json_def)

text \<open>
  A stale lock owner is replaced only by the recovery of its own deployment: the token that a
  recovery acknowledges is that of the previous owner, which never released, and that owner was
  the operation of the plan or an unfinished recovery whose first event names the plan.
\<close>

theorem stale_owner_is_related:
  assumes "acknowledged_stale_owner_id env ops plan w = (Inr token, w')"
  shows "case token of
      None \<Rightarrow> (\<forall>owner. rv_previous_owner ops w = Some owner \<longrightarrow> lo_state owner = LO_released)
    | Some i \<Rightarrow> (\<exists>owner. rv_previous_owner ops w = Some owner \<and> lo_state owner \<noteq> LO_released \<and>
        i = lo_owner_id owner \<and>
        (lo_operation_id owner = pl_operation_id plan \<or>
         (\<exists>m es w1. rv_read_operation ops (lo_operation_id owner) w = (Inr m, w1) \<and>
            rv_read_events ops (lo_operation_id owner) w1 = (Inr es, w') \<and>
            om_operation_type m = ''recover'' \<and> om_status m = OS_in_progress \<and> names_plan plan es)))"
proof (cases "rv_previous_owner ops w")
  case None
  then show ?thesis using assms by (simp add: acknowledged_stale_owner_id_def bnd_def fetch_def ret_def)
next
  case (Some owner)
  consider (released) "lo_state owner = LO_released"
    | (own) "lo_state owner \<noteq> LO_released" "lo_operation_id owner = pl_operation_id plan"
    | (other) "lo_state owner \<noteq> LO_released" "lo_operation_id owner \<noteq> pl_operation_id plan" by blast
  then show ?thesis
  proof cases
    case released
    then show ?thesis using assms Some by (simp add: acknowledged_stale_owner_id_def bnd_def fetch_def ret_def)
  next
    case own
    then show ?thesis using assms Some by (auto simp: acknowledged_stale_owner_id_def bnd_def fetch_def ret_def)
  next
    case other
    obtain q w1 where m: "rv_read_operation ops (lo_operation_id owner) w = (q, w1)" by fastforce
    show ?thesis
    proof (cases q)
      case (Inl x)
      then show ?thesis using assms Some other m
        by (auto simp: acknowledged_stale_owner_id_def bnd_def fetch_def ret_def on_dploy_def catching_def raise_def
            split: exn.splits)
    next
      case (Inr op)
      obtain p w2 where es: "rv_read_events ops (lo_operation_id owner) w1 = (p, w2)" by fastforce
      then show ?thesis using assms Some other m Inr
        by (cases p) (auto simp: acknowledged_stale_owner_id_def bnd_def fetch_def ret_def on_dploy_def catching_def
            raise_def split: exn.splits if_splits)
    qed
  qed
qed


section \<open>Restoring during a recovery\<close>

lemma verified_final_of:
  assumes "verify_final ops rel w = (Inr (True, h), w')"
  shows "h = rm_final_backup_sha256 rel"
proof (cases "rm_final_backup_id rel")
  case (Some i)
  then show ?thesis
    using assms by (cases "rv_open_backup ops i w"; cases "fst (rv_open_backup ops i w)")
      (auto simp: verify_final_def on_exception_def catching_def bnd_def andthen_def ret_def raise_def
        split: prod.splits sum.splits if_splits)
qed (use assms in \<open>simp add: verify_final_def ret_def\<close>)

lemma observed_final:
  assumes "observe_live ops rel w = (Inr live, w')" and "ls_final_verified live"
  shows "ls_final_sha256 live = rm_final_backup_sha256 rel"
proof -
  from assms obtain u v x h where "verify_final ops rel u = (Inr (x, h), v)"
    "ls_final_verified live = x" "ls_final_sha256 live = h"
    unfolding observe_live_def
    by (elim bnd_InrE) (auto simp: ret_def split: prod.splits elim!: bnd_InrE)
  with assms(2) verified_final_of [of ops rel u h v] show ?thesis by simp
qed

text \<open>What a diagnosis rests on: the deployment it selected and what it observed.\<close>

lemma diagnosis_builds:
  assumes "diagnose_configured_recovery env ops locked w = (Inr plan, w')"
  shows "\<exists>operations releases rel operation events live. plan = build_recovery_plan operation events rel live \<and>
    select_deployment env operations releases = Inr (rel, operation) \<and>
    (ls_final_verified live \<longrightarrow> ls_final_sha256 live = rm_final_backup_sha256 rel)"
proof -
  from assms obtain operations w1 w2 where rest:
    "bnd (rv_read_history ops) (\<lambda>history.
       bnd (lift_result (select_deployment env operations (hs_releases history))) (\<lambda>(rel, operation).
       bnd (rv_read_events ops (om_operation_id operation)) (\<lambda>events.
       bnd (observe_live ops rel) (\<lambda>live.
       ret (build_recovery_plan operation events rel live))))) w1 = (Inr plan, w2)"
    unfolding diagnose_configured_recovery_def
    by (elim andthen_InrE, elim bnd_InrE) (auto simp: raise_def split: if_split_asm)
  from rest obtain history :: history_snapshot and w3 where "bnd (lift_result (select_deployment env operations (hs_releases history)))
      (\<lambda>(rel, operation). bnd (rv_read_events ops (om_operation_id operation)) (\<lambda>events.
       bnd (observe_live ops rel) (\<lambda>live. ret (build_recovery_plan operation events rel live)))) w3 = (Inr plan, w2)"
    by (rule bnd_InrE) blast
  then obtain p w4 where p: "select_deployment env operations (hs_releases history) = Inr p"
    and more: "(case p of (rel, operation) \<Rightarrow> bnd (rv_read_events ops (om_operation_id operation)) (\<lambda>events.
       bnd (observe_live ops rel) (\<lambda>live. ret (build_recovery_plan operation events rel live)))) w4 = (Inr plan, w2)"
    by (rule bnd_InrE) (auto simp: lift_result_def)
  obtain rel operation where pair: "p = (rel, operation)" by fastforce
  from more obtain events live w5 w6 where "observe_live ops rel w5 = (Inr live, w6)"
    "plan = build_recovery_plan operation events rel live"
    unfolding pair prod.case by (elim bnd_InrE) (auto simp: ret_def)
  moreover from this(1) have "ls_final_verified live \<longrightarrow> ls_final_sha256 live = rm_final_backup_sha256 rel"
    by (intro impI observed_final)
  moreover from p pair have "select_deployment env operations (hs_releases history) = Inr (rel, operation)" by simp
  ultimately show ?thesis by blast
qed

lemma select_deployment_sound:
  assumes "select_deployment env operations releases = Inr (rel, operation)"
  shows "rel \<in> set releases \<and> operation \<in> set operations \<and>
    incomplete_resolutions operations releases = [] \<and>
    (unresolved_releases operations releases = [(rel, operation)] \<or> unresolved_releases operations releases = [])"
proof -
  have paired: "(r, m) \<in> set (paired_releases operations releases) \<Longrightarrow> r \<in> set releases \<and> m \<in> set operations" for r m
    using map_of_SomeD
    by (fastforce simp: paired_releases_def map_filter_def operation_of_def)
  have newest: "newest_pair p ps \<in> set (p # ps)" for p ps
    unfolding newest_pair_def using fold_greatest [where f = "\<lambda>b. operation_key (snd b)"] by blast
  have "incomplete_resolutions operations releases = [] \<and>
      (unresolved_releases operations releases = [(rel, operation)] \<or> unresolved_releases operations releases = []) \<and>
      (rel, operation) \<in> set (paired_releases operations releases)"
  proof (cases "unresolved_releases operations releases")
    case Nil
    with assms obtain p ps where "incomplete_resolutions operations releases = []"
      "paired_releases operations releases = p # ps" "(rel, operation) = newest_pair p ps"
      by (auto simp: select_deployment_def split: list.splits)
    with Nil newest [of p ps] show ?thesis by simp
  next
    case (Cons p ps)
    then have "p \<in> set (paired_releases operations releases)"
      unfolding unresolved_releases_def by (metis filter_eq_Cons_iff in_set_conv_decomp)
    with assms Cons show ?thesis by (auto simp: select_deployment_def split: list.splits)
  qed
  with paired show ?thesis by blast
qed


text \<open>An event that does not occur before another.\<close>

fun guarded_by :: "'a \<Rightarrow> 'a \<Rightarrow> 'a list \<Rightarrow> bool" where
  "guarded_by a b [] = True"
| "guarded_by a b (x # xs) \<longleftrightarrow> x = a \<or> (x \<noteq> b \<and> guarded_by a b xs)"

lemma guarded_by_append:
  "guarded_by a b xs \<Longrightarrow> a \<in> set xs \<or> guarded_by a b ys \<Longrightarrow> guarded_by a b (xs @ ys)"
  by (induction xs) auto

lemma guarded_by_free: "b \<notin> set xs \<Longrightarrow> guarded_by a b xs"
  by (induction xs) auto

lemma guarded_by_take: "guarded_by a b xs \<Longrightarrow> guarded_by a b (take n xs)"
proof (induction xs arbitrary: n)
  case (Cons x xs)
  then show ?case by (cases n) auto
qed simp

lemma guarded_by_first:
  "guarded_by a b (us @ b # vs) \<Longrightarrow> b \<notin> set us \<Longrightarrow> a \<noteq> b \<Longrightarrow> a \<in> set us"
  by (induction us) auto

lemma restore_milestone:
  "M_called RC_restore \<in> set (action_milestones rel a) \<longleftrightarrow> a = RA_restore_final_backup"
  by (cases a) (simp_all add: call_of_def hook_of_def)

lemma plan_restore_milestone:
  "M_called RC_restore \<in> set (plan_milestones rel as) \<Longrightarrow> RA_restore_final_backup \<in> set as"
  by (induction as) (auto simp: restore_milestone call_of_def split: if_splits)

lemma restore_inspected:
  "guarded_by (M_returned (RC_inspect (the (rm_previous_application rel)) False)) (M_called RC_restore)
     (plan_milestones rel as)"
proof (induction as)
  case (Cons a as)
  show ?case
  proof (cases "a = RA_restore_final_backup")
    case True
    then show ?thesis by (simp add: call_of_def)
  next
    case False
    have "M_called RC_restore \<notin> set (call_of (RC_stage a) @ action_milestones rel a)"
      using False restore_milestone by (simp add: call_of_def)
    from guarded_by_append [OF guarded_by_free [OF this], OF disjI2, of _ "if marking a then [] else plan_milestones rel as"]
    show ?thesis using Cons.IH by simp
  qed
qed simp



section \<open>A recovery to evaluate on\<close>

definition example_owner :: lock_owner_metadata where
  "example_owner = \<lparr>lo_owner_id = ''lock_1'', lo_operation_id = example_op_id, lo_operation_type = ''deploy'',
     lo_process = \<lparr>pi_pid = 7, pi_hostname = ''web''\<rparr>, lo_state = LO_active, lo_acquired_at = 0,
     lo_released_at = None\<rparr>"

definition example_recovery :: recovery_env where
  "example_recovery = \<lparr>rx_state_directory = ''/srv'', rx_owner_path = ''/srv/owner'', rx_log = (\<lambda>i. ''/srv/log''),
     rx_redact = id, rx_utc = (\<lambda>_. '''')\<rparr>"

text \<open>A deployment interrupted after its migration, whose previous application is stopped.\<close>

definition example_recovery_ops :: "unit recovery_ops" where
  "example_recovery_ops =
     \<lparr>rv_configure = ret (), rv_close = ret (), rv_lock = ret (), rv_unlock = ret (),
      rv_previous_owner = (\<lambda>w. Some example_owner),
      rv_record_owner = (\<lambda>i token. ret ()),
      rv_inspect_lock = ret \<lparr>li_state = LI_idle, li_held = False, li_owner = None, li_metadata_error = None\<rparr>,
      rv_list_operations = ret [example_operation],
      rv_read_operation = (\<lambda>i. ret example_operation),
      rv_read_events = (\<lambda>i. ret [example_event]),
      rv_create_operation = (\<lambda>ty stage ev. ret example_operation),
      rv_transition = (\<lambda>i st stage msg ev sf fl. ret example_operation),
      rv_append_event = (\<lambda>i msg ev. ret example_event),
      rv_read_history = ret \<lparr>hs_releases = [interrupted_release], hs_pointers = None\<rparr>,
      rv_read_release = (\<lambda>i. ret interrupted_release),
      rv_release_transition = (\<lambda>i st ch. ret interrupted_release),
      rv_resolve = (\<lambda>i st oid act. ret interrupted_release),
      rv_activate_release = (\<lambda>i. ret \<lparr>rp_active_release_id = example_release_id,
        rp_previous_release_id = None, rp_updated_at = 0\<rparr>),
      rv_inspect_live = (\<lambda>h. ret (example_inspection h False)),
      rv_prove_absent = (\<lambda>i v. ret \<lparr>cp_container_absent = True, cp_networks_absent = True,
        cp_container_query = example_command, cp_network_query = example_command\<rparr>),
      rv_inspect = (\<lambda>h running. ret (example_inspection h running)),
      rv_remove_new = (\<lambda>h. ret \<lparr>pc_presence_query = example_command, pc_remove_command = None,
        pc_compose_down = example_command, pc_proof = \<lparr>cp_container_absent = True, cp_networks_absent = True,
          cp_container_query = example_command, cp_network_query = example_command\<rparr>\<rparr>),
      rv_restart_previous = (\<lambda>h. ret \<lparr>pr_handle = h, pr_command = example_command,
        pr_inspection = example_inspection h True, pr_network_refreshes = []\<rparr>),
      rv_run_hook = (\<lambda>a. ret example_command),
      rv_open_backup = (\<lambda>i. ret example_final),
      rv_close_backup = (\<lambda>a. ret ()),
      rv_production_sha256 = ret ''0'',
      rv_restore = (\<lambda>a stopped activated. ret \<lparr>vr_backup_id = final_backup_id,
        vr_database_path = ''/srv/data/app.db'', vr_size_bytes = 4096, vr_sha256 = final_sha,
        vr_sqlite = example_sqlite, vr_restored_at = 0\<rparr>),
      rv_verify_sqlite = ret example_sqlite,
      rv_check_application = (\<lambda>v. ret example_health),
      rv_inject = (\<lambda>name. ret ())\<rparr>"

definition fresh_recovery :: "'w \<Rightarrow> 'w recovery_context" where
  "fresh_recovery w = \<lparr>rc_trace = [], rc_world = w\<rparr>"

lemmas act_eval = bnd_def andthen_def ret_def raise_def fetch_def lift_result_def catching_def on_exception_def
  on_dploy_def finally_act_def invoke_run on_world_def mark_def modify_def

lemma interrupted_facts [simp]:
  "rm_previous_application interrupted_release = Some example_handle"
  "rm_new_application interrupted_release = None"
  "rm_final_backup_id interrupted_release = Some final_backup_id"
  "rm_final_backup_sha256 interrupted_release = Some final_sha"
  "rm_status interrupted_release = DS_production_migrated"
  "rm_recovery_operation_id interrupted_release = None"
  "rm_recovery_protocol_version interrupted_release = Some 2"
  "\<not> rm_traffic_activated interrupted_release" "\<not> rm_traffic_activation_attempted interrupted_release"
  "rm_production_changed interrupted_release" "rm_operation_id interrupted_release = example_op_id"
  by (simp_all add: interrupted_release_def example_release_def new_release_def example_op_id_def example_operation_id_def)

definition example_live :: live_state where
  "example_live = \<lparr>ls_previous = RS_stopped, ls_new = RS_absent, ls_final_verified = True,
     ls_production_sha256 = Some ''0'', ls_final_sha256 = Some final_sha\<rparr>"

abbreviation example_plan :: recovery_plan where
  "example_plan \<equiv> build_recovery_plan example_operation [example_event] interrupted_release example_live"

lemma example_diagnosis:
  "diagnose_configured_recovery example_recovery example_recovery_ops False () = (Inr example_plan, ())"
  by (simp add: diagnose_configured_recovery_def select_deployment_def incomplete_resolutions_def
      unresolved_releases_def paired_releases_def operation_of_def map_filter_def observe_live_def
      inspect_application_def inspect_new_application_def prove_new_absent_def verify_final_def
      example_recovery_ops_def act_eval example_operation_def cleanup_proven_def example_inspection_def
      example_final_def example_live_def)

lemma example_plan_facts:
  "plan_executable example_plan" "pl_actions example_plan = [RA_restore_final_backup, RA_restart_previous_application,
     RA_activate_previous_traffic, RA_disable_maintenance, RA_verify_previous, RA_mark_rolled_back]"
  "pl_operation_id example_plan = example_op_id" "pl_production_changed example_plan"
  "pl_disposition example_plan = RD_recover_previous"
  using example_identity(1)
  by (simp_all add: build_recovery_plan_def activation_conclusion_def recover_previous_plan_def previous_actions_def
      example_live_def production_may_have_changed_def example_operation_def plan_executable_def Let_def final_sha_def)


lemma example_acknowledged: "acknowledged_stale_owner_id example_recovery example_recovery_ops example_plan () =
    (Inr (Some ''lock_1''), ())"
  using example_plan_facts(3)
  by (simp add: acknowledged_stale_owner_id_def act_eval example_recovery_ops_def example_owner_def)

lemma example_ownership:
  "take_recovery_ownership example_recovery example_recovery_ops example_plan interrupted_release () = (Inr (), ())"
  using example_plan_facts(3)
  by (simp add: take_recovery_ownership_def interruption_record_def failure_record_ok_def length_between_def
      act_eval example_recovery_ops_def example_recovery_def example_operation_def)

lemma example_execution:
  "\<exists>t. guarded_recovery example_recovery example_recovery_ops example_op_id example_plan s =
     (Inr \<lparr>rz_plan = example_plan, rz_operation = example_operation, rz_release = interrupted_release,
        rz_log_path = ''/srv/log''\<rparr>, t) \<and>
     (\<exists>later. rc_trace t = later @ rc_trace s \<and> Called RC_restore \<in> set later)"
  by (simp add: guarded_recovery_def execute_recovery_plan_def example_plan_facts(2) execute_action_def
      announce_action_def complete_recovery_def execute_database_recovery_def verify_recovery_application_def
      recovery_hook_def record_recovery_hook_def require_recovery_hook_def note_progress_def act_eval
      example_recovery_ops_def example_recovery_def example_final_def ensure_def Let_def)

lemma example_recovered:
  "\<exists>t. recover_configured_deployment example_recovery example_recovery_ops (fresh_recovery ()) =
     (Inr \<lparr>rz_plan = example_plan, rz_operation = example_operation, rz_release = interrupted_release,
        rz_log_path = ''/srv/log''\<rparr>, t) \<and> M_called RC_restore \<in> set (milestones t)"
proof -
  have id: "om_operation_id example_operation = example_op_id" by (simp add: example_operation_def)
  have ops: "rv_configure example_recovery_ops = ret ()" "rv_close example_recovery_ops = ret ()"
    "rv_lock example_recovery_ops = ret ()" "rv_unlock example_recovery_ops = ret ()"
    "rv_read_release example_recovery_ops i = ret interrupted_release"
    "rv_create_operation example_recovery_ops a b c = ret example_operation"
    "rv_record_owner example_recovery_ops i d = ret ()" for i a b c d
    by (simp_all add: example_recovery_ops_def)
  let ?s = "\<lparr>rc_trace = [Returned RC_owner, Called RC_owner, Returned RC_create, Called RC_create,
     Returned RC_ownership, Called RC_ownership, Returned RC_acknowledge, Called RC_acknowledge,
     Returned RC_read_release, Called RC_read_release, Returned RC_diagnose, Called RC_diagnose], rc_world = ()\<rparr>"
  obtain t later where t: "guarded_recovery example_recovery example_recovery_ops example_op_id example_plan ?s =
     (Inr \<lparr>rz_plan = example_plan, rz_operation = example_operation, rz_release = interrupted_release,
        rz_log_path = ''/srv/log''\<rparr>, t)" "rc_trace t = later @ rc_trace ?s" "Called RC_restore \<in> set later"
    using example_execution by blast
  have "M_called RC_restore \<in> set (milestones t)"
    using t(2,3) by (force simp: milestones_def minor_def)
  moreover have "recover_configured_deployment example_recovery example_recovery_ops (fresh_recovery ()) =
     (Inr \<lparr>rz_plan = example_plan, rz_operation = example_operation, rz_release = interrupted_release,
        rz_log_path = ''/srv/log''\<rparr>, t)"
    using t(1) example_plan_facts(1)
    by (simp add: recover_configured_deployment_def recover_locked_def act_eval ops id fresh_recovery_def
        example_diagnosis example_acknowledged example_ownership Let_def)
  ultimately show ?thesis by blast
qed



definition lost_release_ops :: "unit recovery_ops" where
  "lost_release_ops = example_recovery_ops\<lparr>rv_read_release :=
     (\<lambda>i. raise (PyException ''OSError'' ''release state is gone''))\<rparr>"

lemma lost_release_run:
  "\<exists>e t. guarded_recovery example_recovery lost_release_ops example_op_id example_plan (fresh_recovery ()) =
     (Inl (Dploy e), t) \<and> de_class e = RecoveryRequiredError"
  by (simp add: guarded_recovery_def execute_recovery_plan_def lost_release_ops_def act_eval
      normalize_recovery_error_def is_exception_def finish_recovery_operation_def example_recovery_ops_def
      example_operation_def failure_record_of_def failure_record_ok_def length_between_def
      describe_exn_def example_recovery_def fresh_recovery_def)


theorem long_recovery_failures_are_unrecorded_witness:
  "\<exists>t. guarded_recovery example_recovery
     (example_recovery_ops\<lparr>rv_read_release := (\<lambda>i. raise (PyException ''E'' (replicate 5000 CHR ''x'')))\<rparr>)
     example_op_id example_plan (fresh_recovery ()) = (Inl validation_error, t)"
proof -
  let ?ops = "example_recovery_ops\<lparr>rv_read_release := (\<lambda>i. raise (PyException ''E'' (replicate 5000 CHR ''x'')))\<rparr>"
  have run: "execute_recovery_plan example_recovery ?ops example_op_id example_plan (fresh_recovery ()) =
     (Inl (PyException ''E'' (replicate 5000 CHR ''x'')),
      \<lparr>rc_trace = [Called RC_read_release], rc_world = ()\<rparr>)"
    by (simp add: execute_recovery_plan_def act_eval fresh_recovery_def)
  have long: "is_exception (PyException ''E'' (replicate 5000 CHR ''x''))"
    "4056 < length (unproven_detail example_recovery (PyException ''E'' (replicate 5000 CHR ''x'')))"
    by (simp_all add: is_exception_def unproven_detail_def describe_exn_def example_recovery_def)
  have read: "rv_read_operation ?ops example_op_id (rc_world \<lparr>rc_trace = [Called RC_read_release], rc_world = ()\<rparr>) =
     (Inr example_operation, ())" "om_status example_operation = OS_in_progress"
    by (simp_all add: example_recovery_ops_def ret_def example_operation_def)
  from long_recovery_failures_are_unrecorded [OF run long read] show ?thesis by blast
qed


theorem interrupted_recovery_resumes_witness:
  "pl_actions (build_recovery_plan example_operation [example_event]
       (interrupted_release\<lparr>rm_status := DS_recovery_required\<rparr>)
       (fold after_action [RA_restore_final_backup, RA_restart_previous_application] example_live)) =
     [RA_activate_previous_traffic, RA_disable_maintenance, RA_verify_previous, RA_mark_rolled_back]"
proof -
  have later: "identity_problem example_operation [example_event]
      (interrupted_release\<lparr>rm_status := DS_recovery_required\<rparr>) = None"
    by (simp add: identity_problem_def example_operation_def example_event_def)
  have known: "ls_final_sha256 example_live \<noteq> None" by (simp add: example_live_def)
  have "pl_actions example_plan = [RA_restore_final_backup, RA_restart_previous_application] @
      [RA_activate_previous_traffic, RA_disable_maintenance, RA_verify_previous, RA_mark_rolled_back]"
    by (simp add: example_plan_facts(2))
  from interrupted_recovery_resumes [OF example_plan_facts(5) this _ known later] show ?thesis
    by (simp add: activation_conclusion_def production_may_have_changed_def)
qed

theorem recovery_lineage_reads_back_witness:
  "names_plan example_plan [example_event\<lparr>ev_evidence := [(''source_plan'', plan_json example_plan)]\<rparr>]"
  using recovery_lineage_reads_back [of "example_event\<lparr>ev_evidence := [(''source_plan'', plan_json example_plan)]\<rparr>"
      example_plan example_plan "[]"] by simp

theorem stale_owner_is_related_witness:
  "\<exists>owner. rv_previous_owner example_recovery_ops () = Some owner \<and> lo_owner_id owner = ''lock_1'' \<and>
     lo_state owner \<noteq> LO_released"
  using stale_owner_is_related [OF example_acknowledged] by auto


text \<open>
  C38. A recovery that dies between superseding an earlier recovery and recording itself as lock
  owner blocks every later one: the stale owner is then the superseded recovery, which is no
  longer in progress, so that no recovery of the deployment is allowed to replace it, and the
  refusal changes nothing.
\<close>

theorem superseded_owner_blocks_recovery:
  assumes "rv_previous_owner ops w = Some owner" and "lo_state owner = LO_active"
    and "lo_operation_id owner \<noteq> pl_operation_id plan"
    and "rv_read_operation ops (lo_operation_id owner) w = (Inr m, w)" and "om_status m = OS_recovery_required"
    and "rv_read_events ops (lo_operation_id owner) w = (Inr es, w)"
  shows "\<exists>e. acknowledged_stale_owner_id env ops plan w = (Inl (Dploy e), w) \<and> err_recovery e"
  using assms
  by (simp add: acknowledged_stale_owner_id_def act_eval recovery_error_def)

theorem superseded_owner_blocks_recovery_witness:
  "\<exists>e. acknowledged_stale_owner_id example_recovery
     (example_recovery_ops\<lparr>rv_previous_owner := (\<lambda>w. Some (example_owner\<lparr>lo_operation_id := ''op_2''\<rparr>)),
        rv_read_operation := (\<lambda>i. ret (example_operation\<lparr>om_operation_type := ''recover'',
          om_status := OS_recovery_required\<rparr>))\<rparr>) example_plan () = (Inl (Dploy e), ()) \<and> err_recovery e"
  by (rule superseded_owner_blocks_recovery [where owner = "example_owner\<lparr>lo_operation_id := ''op_2''\<rparr>"
        and m = "example_operation\<lparr>om_operation_type := ''recover'', om_status := OS_recovery_required\<rparr>"
        and es = "[example_event]"])
    (simp_all add: example_recovery_ops_def example_owner_def ret_def example_plan_facts(3) example_op_id_def)

end
