(* ===== verification/Manual_Restore.thy ===== *)
theory Manual_Restore
  imports Recovery
begin

text \<open>
  The release-aware manual restore, \<^verbatim>\<open>dploydb/manual_restore.py\<close>: which release may be restored,
  the sequence from the inspection of both applications to the activated previous release, the
  way back before traffic, and the record of a failure. The stores, the lock, the backups and the
  dependencies are the operations of a record over a world of any type; every call on them is
  noted in a trace.
\<close>

section \<open>The boundary\<close>

record manual_env =
  ma_state_directory :: string
  ma_owner_path :: string
  ma_releases_directory :: string
  ma_pointer_path :: string
  ma_database_path :: string
  ma_log :: "string \<Rightarrow> string"
  ma_redact :: "string \<Rightarrow> string"
  ma_utc :: "int \<Rightarrow> string"
  ma_topology :: "unit result"

record 'w manual_ops =
  mo_lock :: "('w, unit) world_act"
  mo_unlock :: "('w, unit) world_act"
  mo_previous_owner :: "'w \<Rightarrow> lock_owner_metadata option"
  mo_latest_operation :: "('w, operation_manifest option) world_act"
  mo_lookup_release :: "string \<Rightarrow> ('w, release_manifest \<times> release_pointers option) world_act"
  mo_read_release :: "string \<Rightarrow> ('w, release_manifest) world_act"
  mo_dependencies :: "('w, unit) world_act"
  mo_close :: "('w, unit) world_act"
  mo_create_operation :: "string \<Rightarrow> string \<Rightarrow> evidence \<Rightarrow> ('w, operation_manifest) world_act"
  mo_record_owner :: "string \<Rightarrow> ('w, unit) world_act"
  mo_read_operation :: "string \<Rightarrow> ('w, operation_manifest) world_act"
  mo_append_event :: "string \<Rightarrow> string \<Rightarrow> evidence \<Rightarrow> ('w, operation_event) world_act"
  mo_transition :: "string \<Rightarrow> operation_status \<Rightarrow> string \<Rightarrow> string \<Rightarrow> evidence \<Rightarrow>
    safety_facts option \<Rightarrow> failure_record option \<Rightarrow> ('w, operation_manifest) world_act"
  mo_open_backup :: "string \<Rightarrow> ('w, backup_artifact) world_act"
  mo_close_backup :: "backup_artifact \<Rightarrow> ('w, unit) world_act"
  mo_inspect :: "application_handle \<Rightarrow> bool \<Rightarrow> ('w, production_inspection) world_act"
  mo_stop_current :: "application_handle \<Rightarrow> ('w, production_stop) world_act"
  mo_restart_previous :: "application_handle \<Rightarrow> ('w, production_restart) world_act"
  mo_run_hook :: "traffic_action \<Rightarrow> ('w, command_result) world_act"
  mo_create_backup :: "backup_purpose \<Rightarrow> string \<Rightarrow> ('w, backup_artifact) world_act"
  mo_restore :: "backup_artifact \<Rightarrow> bool \<Rightarrow> bool \<Rightarrow> ('w, restore_proof) world_act"
  mo_verify_sqlite :: "('w, sqlite_verification) world_act"
  mo_check_application :: "string \<Rightarrow> ('w, health_result) world_act"
  mo_activate_release :: "string \<Rightarrow> ('w, release_pointers) world_act"
  mo_inject :: "string \<Rightarrow> ('w, unit) world_act"

text \<open>\<^verbatim>\<open>require_clean_operation_state\<close> of \<^verbatim>\<open>migration.py\<close>\<close>

definition require_clean_operation_state ::
  "string \<Rightarrow> (string \<Rightarrow> string) \<Rightarrow> lock_owner_metadata option \<Rightarrow> ('w, operation_manifest option) world_act \<Rightarrow>
   ('w, unit) world_act"
where
  "require_clean_operation_state owner_file log_path previous_owner latest =
    (if (case previous_owner of Some owner \<Rightarrow> lo_state owner = LO_active | None \<Rightarrow> False)
     then raise (Dploy (mk_error RecoveryRequiredError ''A prior operation left active lock-owner evidence.''
       False None (Some owner_file) ''Run dploydb status and preserve the interrupted evidence.''))
     else bnd latest (\<lambda>m. case m of
         None \<Rightarrow> ret ()
       | Some m \<Rightarrow>
          if om_status m \<in> {OS_in_progress, OS_recovery_required}
          then raise (Dploy (mk_error RecoveryRequiredError
            ''An unfinished or recovery-required operation blocks migration rehearsal.''
            (sf_production_changed (om_safety m)) (sf_previous_application_running (om_safety m))
            (Some (log_path (om_operation_id m)))
            ''Run dploydb status and resolve the recorded operation first.''))
          else ret ()))"

section \<open>The selection\<close>

record restore_selection =
  sl_active :: release_manifest
  sl_selected :: release_manifest
  sl_backup :: backup_metadata
  sl_current_application :: application_handle
  sl_selected_application :: application_handle
  sl_database_path :: string

definition data_loss_warning :: string where
  "data_loss_warning =
     ''WARNING: restoring an older release replaces the current production database and may '' @
     ''permanently discard data written after that release. DployDB will first create and verify '' @
     ''a backup of the current state.''"

definition selection_evidence :: "restore_selection \<Rightarrow> evidence" where
  "selection_evidence s =
     [(''active_release_id'', JStr (rm_release_id (sl_active s))),
      (''active_version'', JStr (rm_requested_version (sl_active s))),
      (''selected_release_id'', JStr (rm_release_id (sl_selected s))),
      (''selected_version'', JStr (rm_requested_version (sl_selected s))),
      (''selected_backup_id'', JStr (bm_backup_id (sl_backup s))),
      (''selected_backup_sha256'', JStr (bm_sha256 (sl_backup s))),
      (''current_container_id'', JStr (ah_container_id (sl_current_application s))),
      (''current_container_name'', JStr (ah_container_name (sl_current_application s))),
      (''selected_container_id'', JStr (ah_container_id (sl_selected_application s))),
      (''selected_container_name'', JStr (ah_container_name (sl_selected_application s))),
      (''database_path'', JStr (sl_database_path s)),
      (''data_loss_possible'', JBool True),
      (''pre_restore_backup_required'', JBool True),
      (''warning'', JStr data_loss_warning)]"

definition unsafe_selection :: "string \<Rightarrow> string \<Rightarrow> string \<Rightarrow> exn" where
  "unsafe_selection what path advice = Dploy (mk_error SafetyCheckError what False None (Some path) advice)"

text \<open>The protected previous release of the pointers, which must be the one asked for.\<close>

definition protected_pointers :: "manual_env \<Rightarrow> string \<Rightarrow> release_pointers option \<Rightarrow> release_pointers result" where
  "protected_pointers env i pointers =
    (case pointers of
       Some p \<Rightarrow> (case rp_previous_release_id p of
           None \<Rightarrow> Inl (unsafe_selection ''there is no protected previous release to restore''
             (ma_releases_directory env) ''Deploy a verified release before requesting a previous restore.'')
         | Some previous \<Rightarrow>
             if i \<noteq> previous
             then Inl (unsafe_selection ''manual restore is limited to the immediately previous protected release''
               (ma_pointer_path env) (''Select protected previous release '' @ previous @ ''; older '' @
                 ''history is read-only during the hackathon.''))
             else Inr p)
     | None \<Rightarrow> Inl (unsafe_selection ''there is no protected previous release to restore''
         (ma_releases_directory env) ''Deploy a verified release before requesting a previous restore.''))"

text \<open>
  The two releases must be active, follow each other, and name two distinct applications, and the
  active one must name its final backup: the database before its migration.
\<close>

definition matching_releases ::
  "manual_env \<Rightarrow> release_manifest \<Rightarrow> release_manifest \<Rightarrow>
   (application_handle \<times> application_handle \<times> string) result" where
  "matching_releases env active selected =
    (if rm_status active \<noteq> DS_active \<or> rm_status selected \<noteq> DS_active
     then Inl (unsafe_selection ''active/previous release status is not safe for manual restore''
       (ma_pointer_path env) ''Run dploydb status and resolve release-state contradictions first.'')
     else if rm_previous_release_id active \<noteq> Some (rm_release_id selected)
     then Inl (unsafe_selection ''active release lineage does not match the protected previous pointer''
       (ma_pointer_path env) ''Preserve release state and inspect the active manifest manually.'')
     else case (rm_new_application active, rm_new_application selected) of
       (Some current, Some target) \<Rightarrow>
         if rm_previous_application active \<noteq> Some target
         then Inl (unsafe_selection
           ''active release does not preserve the selected previous application identity''
           (rm_operation_log_path active) ''Do not restore until the application identity is reconciled.'')
         else if ah_container_id current = ah_container_id target
         then Inl (unsafe_selection
           ''active and selected releases unexpectedly identify the same container''
           (rm_operation_log_path active) ''Inspect the release manifests and live Docker state.'')
         else (case (rm_final_backup_id active, rm_final_backup_sha256 active) of
             (Some b, Some _) \<Rightarrow> Inr (current, target, b)
           | _ \<Rightarrow> Inl (unsafe_selection
               ''active release does not reference its verified pre-migration final backup''
               (rm_operation_log_path active) ''Do not restore an older release without its final backup.''))
     | _ \<Rightarrow> Inl (unsafe_selection ''manual restore requires exact active and previous application identities''
         (rm_operation_log_path active) ''Do not guess a container; preserve the release manifests.''))"

definition backup_of_release :: "release_manifest \<Rightarrow> backup_metadata \<Rightarrow> bool" where
  "backup_of_release active m \<longleftrightarrow> bm_purpose m = BP_final \<and> bm_operation_id m = Some (rm_operation_id active) \<and>
     Some (bm_sha256 m) = rm_final_backup_sha256 active"

definition with_open_backup ::
  "'w manual_ops \<Rightarrow> string \<Rightarrow> (backup_artifact \<Rightarrow> ('w, 'a) world_act) \<Rightarrow> ('w, 'a) world_act" where
  "with_open_backup ops i body =
     bnd (mo_open_backup ops i) (\<lambda>a. finally_act (body a) (mo_close_backup ops a))"

definition preview_configured_restore ::
  "manual_env \<Rightarrow> 'w manual_ops \<Rightarrow> string \<Rightarrow> ('w, restore_selection) world_act" where
  "preview_configured_restore env ops i =
     bnd (mo_lookup_release ops i) (\<lambda>(selected, pointers).
     bnd (lift_result (protected_pointers env i pointers)) (\<lambda>p.
     bnd (mo_read_release ops (rp_active_release_id p)) (\<lambda>active.
     bnd (lift_result (matching_releases env active selected)) (\<lambda>(current, target, backup_id).
     bnd (with_open_backup ops backup_id (\<lambda>a.
            if backup_of_release active (ba_metadata a) then ret (ba_metadata a)
            else raise (unsafe_selection ''selected restore backup contradicts the active release manifest''
              (ba_metadata_directory a @ ''/'' @ ba_metadata_name a)
              ''Preserve the backup and release evidence; do not restore it.''))) (\<lambda>m.
     ret \<lparr>sl_active = active, sl_selected = selected, sl_backup = m, sl_current_application = current,
          sl_selected_application = target, sl_database_path = ma_database_path env\<rparr>)))))"

section \<open>The context\<close>

datatype manual_call =
    MC_inspect application_handle bool | MC_stop application_handle | MC_restart application_handle
  | MC_create_backup | MC_restore backup_artifact | MC_check_database | MC_check_health string
  | MC_hook traffic_action | MC_event | MC_fault_point string | MC_activate string | MC_read_operation
  | MC_stage operation_status string bool "bool option"

datatype manual_event = M_called manual_call | M_returned manual_call | M_hook hook_result

record 'w manual_context =
  mc_maintenance_enabled :: bool
  mc_current_stopped :: bool
  mc_current_stop_attempted :: bool
  mc_selected_running :: bool
  mc_selected_restart_attempted :: bool
  mc_database_replaced :: bool
  mc_traffic_activation_attempted :: bool
  mc_normal_traffic_may_be_enabled :: bool
  mc_selected_backup :: "backup_artifact option"
  mc_pre_restore_backup :: "backup_artifact option"
  mc_database_restore :: "restore_proof option"
  mc_trace :: "manual_event list"
  mc_world :: 'w

type_synonym ('w, 'a) manual_act = "('w manual_context, exn, 'a) act"

definition new_manual_context :: "'w \<Rightarrow> 'w manual_context" where
  "new_manual_context w = \<lparr>mc_maintenance_enabled = False, mc_current_stopped = False,
     mc_current_stop_attempted = False, mc_selected_running = False, mc_selected_restart_attempted = False,
     mc_database_replaced = False, mc_traffic_activation_attempted = False,
     mc_normal_traffic_may_be_enabled = False, mc_selected_backup = None, mc_pre_restore_backup = None,
     mc_database_restore = None, mc_trace = [], mc_world = w\<rparr>"

definition record_event :: "manual_event \<Rightarrow> ('w, unit) manual_act" where
  "record_event e = modify (\<lambda>s. s\<lparr>mc_trace := e # mc_trace s\<rparr>)"

definition in_manual_world :: "('w, 'a) world_act \<Rightarrow> ('w, 'a) manual_act" where
  "in_manual_world m s = (case m (mc_world s) of (r, w) \<Rightarrow> (r, s\<lparr>mc_world := w\<rparr>))"

definition request :: "manual_call \<Rightarrow> ('w, 'a) world_act \<Rightarrow> ('w, 'a) manual_act" where
  "request c m = andthen (record_event (M_called c))
     (bnd (in_manual_world m) (\<lambda>x. andthen (record_event (M_returned c)) (ret x)))"

record manual_run =
  mu_selection :: restore_selection
  mu_operation :: string
  mu_env :: manual_env

definition manual_log :: "manual_run \<Rightarrow> string" where
  "manual_log run = ma_log (mu_env run) (mu_operation run)"

definition manual_stage ::
  "manual_run \<Rightarrow> 'w manual_ops \<Rightarrow> operation_status \<Rightarrow> string \<Rightarrow> string \<Rightarrow> evidence \<Rightarrow> safety_facts \<Rightarrow>
   failure_record option \<Rightarrow> ('w, operation_manifest) manual_act"
where
  "manual_stage run ops st stage message evidence safety failure =
     request (MC_stage st stage (sf_production_changed safety) (sf_previous_application_running safety))
       (mo_transition ops (mu_operation run) st stage message evidence (Some safety) failure)"

definition manual_progress ::
  "manual_run \<Rightarrow> 'w manual_ops \<Rightarrow> string \<Rightarrow> string \<Rightarrow> evidence \<Rightarrow> safety_facts \<Rightarrow> ('w, unit) manual_act" where
  "manual_progress run ops stage message evidence safety =
     andthen (manual_stage run ops OS_in_progress stage message evidence safety None) (ret ())"

definition manual_note :: "manual_run \<Rightarrow> 'w manual_ops \<Rightarrow> string \<Rightarrow> evidence \<Rightarrow> ('w, unit) manual_act" where
  "manual_note run ops message evidence =
     andthen (request MC_event (mo_append_event ops (mu_operation run) message evidence)) (ret ())"

section \<open>Hooks\<close>

definition health_summary_json :: "health_evidence \<Rightarrow> json" where
  "health_summary_json h = JObj
     [(''role'', JStr (case hv_role h of HR_new \<Rightarrow> ''new'' | HR_previous \<Rightarrow> ''previous'')),
      (''version'', JStr (hv_version h)), (''url'', JStr (hv_url h)),
      (''readiness_attempts'', JInt (hv_readiness_attempts h)),
      (''smoke_outcome'', if hv_smoke_succeeded h then JStr ''succeeded'' else JNull)]"

definition manual_hook :: "'w manual_ops \<Rightarrow> traffic_action \<Rightarrow> ('w, hook_result) manual_act" where
  "manual_hook ops a =
     bnd (request (MC_hook a) (mo_run_hook ops a)) (\<lambda>c.
     let h = \<lparr>hr_action = a, hr_command = c\<rparr>
     in andthen (record_event (M_hook h)) (ret h))"

definition record_restore_hook :: "manual_run \<Rightarrow> 'w manual_ops \<Rightarrow> hook_result \<Rightarrow> ('w, unit) manual_act" where
  "record_restore_hook run ops h =
     bnd (lift_result (hook_summary h)) (\<lambda>e.
     manual_note run ops
       (''Manual restore traffic hook '' @ action_value (hr_action h) @ '' reached a terminal outcome.'')
       [(''traffic_hook'', hook_as_evidence h), (''hook_summary'', hook_evidence_json e)])"

definition manual_error ::
  "manual_run \<Rightarrow> error_class \<Rightarrow> string \<Rightarrow> bool \<Rightarrow> bool option \<Rightarrow> string \<Rightarrow> dploydb_error" where
  "manual_error run c what changed running advice = mk_error c what changed running (Some (manual_log run)) advice"

definition restore_hook_error ::
  "manual_run \<Rightarrow> 'w manual_context \<Rightarrow> hook_result \<Rightarrow> bool \<Rightarrow> dploydb_error" where
  "restore_hook_error run s h recovery =
     manual_error run
       (if recovery \<or> cr_outcome (hr_command h) = CO_cleanup_failed then RecoveryRequiredError else ExternalCommandError)
       (''manual restore traffic hook '' @ action_value (hr_action h) @ '' ended '' @ outcome_value (cr_outcome (hr_command h)))
       (mc_database_replaced s) (Some (mc_selected_running s))
       ''Keep maintenance enabled and inspect the recorded hook evidence.''"

definition raise_restore_hook :: "manual_run \<Rightarrow> hook_result \<Rightarrow> bool \<Rightarrow> ('w, 'a) manual_act" where
  "raise_restore_hook run h recovery = bnd (fetch (\<lambda>s. restore_hook_error run s h recovery)) (\<lambda>e. raise (Dploy e))"

definition restore_hook_may_have_run :: "hook_result \<Rightarrow> bool" where
  "restore_hook_may_have_run h \<longleftrightarrow>
     \<not> (cr_outcome (hr_command h) = CO_start_failed \<or>
        (cr_outcome (hr_command h) = CO_cancelled \<and> cr_exit_code (hr_command h) = None))"

definition enable_restore_maintenance :: "manual_run \<Rightarrow> 'w manual_ops \<Rightarrow> ('w, unit) manual_act" where
  "enable_restore_maintenance run ops =
     bnd (manual_hook ops TA_enable_maintenance) (\<lambda>h.
     andthen (record_restore_hook run ops h)
    (if \<not> hook_passed h
     then bnd (manual_hook ops TA_disable_maintenance) (\<lambda>cleanup.
       andthen (record_restore_hook run ops cleanup)
      (if \<not> hook_passed cleanup
       then raise (Dploy (manual_error run RecoveryRequiredError
         ''maintenance enable failed and cleanup could not be proven'' False (Some True)
         ''Keep the current application running and disable maintenance.''))
       else raise_restore_hook run h False))
     else
       andthen (modify (\<lambda>s. s\<lparr>mc_maintenance_enabled := True\<rparr>))
      (manual_progress run ops ''manual_restore_maintenance_enabled''
         ''Maintenance mode is enabled before manual restore.'' [(''traffic_hook'', hook_as_evidence h)]
         (facts False (Some True) False))))"

section \<open>The sequence\<close>

definition inspect_both :: "manual_run \<Rightarrow> 'w manual_ops \<Rightarrow> ('w, unit) manual_act" where
  "inspect_both run ops = (let sel = mu_selection run in
     bnd (request (MC_inspect (sl_current_application sel) True)
            (mo_inspect ops (sl_current_application sel) True)) (\<lambda>current.
     bnd (request (MC_inspect (sl_selected_application sel) False)
            (mo_inspect ops (sl_selected_application sel) False)) (\<lambda>selected.
     manual_note run ops ''Active and selected application identities were inspected.''
       [(''current_application'', inspection_evidence current),
        (''selected_application'', inspection_evidence selected)])))"

definition stop_current_application :: "manual_run \<Rightarrow> 'w manual_ops \<Rightarrow> ('w, unit) manual_act" where
  "stop_current_application run ops = (let current = sl_current_application (mu_selection run) in
     andthen (modify (\<lambda>s. s\<lparr>mc_current_stop_attempted := True\<rparr>))
    (bnd (request (MC_stop current) (mo_stop_current ops current)) (\<lambda>stopped.
     andthen (modify (\<lambda>s. s\<lparr>mc_current_stopped := True\<rparr>))
    (manual_progress run ops ''manual_restore_current_app_stopped''
       ''The exact current application was stopped and inspected.''
       [(''production_stop'', stop_evidence stopped)] (facts False (Some False) False)))))"

definition back_up_current :: "manual_run \<Rightarrow> 'w manual_ops \<Rightarrow> ('w, unit) manual_act" where
  "back_up_current run ops =
     bnd (request MC_create_backup (mo_create_backup ops BP_pre_restore (mu_operation run))) (\<lambda>backup.
     andthen (modify (\<lambda>s. s\<lparr>mc_pre_restore_backup := Some backup\<rparr>))
    (andthen (manual_progress run ops ''manual_restore_prepared''
       ''The selected and current-state backups are verified.''
       [(''selected_backup_id'', JStr (bm_backup_id (sl_backup (mu_selection run)))),
        (''pre_restore_backup_id'', JStr (bm_backup_id (ba_metadata backup)))]
       (facts False (Some False) False))
    (request (MC_fault_point ''after_pre_restore_backup'') (mo_inject ops ''after_pre_restore_backup''))))"

text \<open>\<^verbatim>\<open>assert context.selected_backup is not None\<close>\<close>

definition the_backup :: "('w manual_context \<Rightarrow> backup_artifact option) \<Rightarrow> exn \<Rightarrow> ('w, backup_artifact) manual_act" where
  "the_backup get x = bnd (fetch get) (\<lambda>b. case b of None \<Rightarrow> raise x | Some a \<Rightarrow> ret a)"

definition assertion_error :: exn where
  "assertion_error = PyException ''AssertionError'' ''''"

definition restore_selected_database :: "manual_run \<Rightarrow> 'w manual_ops \<Rightarrow> ('w, unit) manual_act" where
  "restore_selected_database run ops =
     andthen (manual_progress run ops ''manual_restore_started''
       ''Production database replacement is starting with traffic blocked.'' [] (facts True (Some False) False))
    (bnd (the_backup mc_selected_backup assertion_error) (\<lambda>backup.
     bnd (request (MC_restore backup) (mo_restore ops backup True False)) (\<lambda>proof.
     andthen (modify (\<lambda>s. s\<lparr>mc_database_restore := Some proof, mc_database_replaced := True\<rparr>))
    (andthen (manual_note run ops ''The selected previous database was restored and verified.''
       [(''database_restore'', restore_proof_json (ma_utc (mu_env run)) proof)])
     (request (MC_fault_point ''after_database_restore'') (mo_inject ops ''after_database_restore''))))))"

definition restart_selected_application :: "manual_run \<Rightarrow> 'w manual_ops \<Rightarrow> ('w, unit) manual_act" where
  "restart_selected_application run ops = (let selected = sl_selected_application (mu_selection run) in
     andthen (modify (\<lambda>s. s\<lparr>mc_selected_restart_attempted := True\<rparr>))
    (bnd (request (MC_restart selected) (mo_restart_previous ops selected)) (\<lambda>restarted.
     andthen (modify (\<lambda>s. s\<lparr>mc_selected_running := True\<rparr>))
    (manual_note run ops ''The selected previous application was restarted and inspected.''
       [(''selected_restart'', restart_evidence restarted)]))))"

definition check_selected_release :: "manual_run \<Rightarrow> 'w manual_ops \<Rightarrow> ('w, unit) manual_act" where
  "check_selected_release run ops =
    (let version = rm_requested_version (sl_selected (mu_selection run)) in
     bnd (request MC_check_database (mo_verify_sqlite ops)) (\<lambda>sqlite.
     bnd (request (MC_check_health version) (mo_check_application ops version)) (\<lambda>health.
     bnd (lift_result (health_summary health HR_previous version)) (\<lambda>summary.
     andthen (manual_progress run ops ''manual_restore_selected_healthy''
       ''The selected database and application passed final checks.''
       [(''database'', sqlite_json (ma_utc (mu_env run)) sqlite),
        (''application_health'', health_as_evidence health),
        (''health_summary'', health_summary_json summary)]
       (facts True (Some True) False))
     (request (MC_fault_point ''before_traffic_activation'') (mo_inject ops ''before_traffic_activation''))))))"

definition activate_selected_traffic :: "manual_run \<Rightarrow> 'w manual_ops \<Rightarrow> ('w, unit) manual_act" where
  "activate_selected_traffic run ops =
     andthen (modify (\<lambda>s. s\<lparr>mc_traffic_activation_attempted := True\<rparr>))
    (andthen (manual_progress run ops ''manual_restore_traffic_activation_started''
       ''Selected-release traffic activation is about to run.'' [] (facts True (Some True) False))
    (bnd (manual_hook ops TA_activate_old) (\<lambda>h.
     andthen (record_restore_hook run ops h)
    (if \<not> hook_passed h
     then andthen (modify (\<lambda>s. s\<lparr>mc_traffic_activation_attempted := restore_hook_may_have_run h\<rparr>))
            (raise_restore_hook run h False)
     else manual_progress run ops ''manual_restore_traffic_target_selected''
       ''The selected previous traffic target is active behind maintenance.''
       [(''traffic_hook'', hook_as_evidence h)] (facts True (Some True) False)))))"

definition expose_selected_release :: "manual_run \<Rightarrow> 'w manual_ops \<Rightarrow> ('w, unit) manual_act" where
  "expose_selected_release run ops =
     andthen (modify (\<lambda>s. s\<lparr>mc_normal_traffic_may_be_enabled := True\<rparr>))
    (andthen (manual_progress run ops ''manual_restore_maintenance_disable_started''
       ''Maintenance disable is about to expose the selected previous release.'' [] (facts True (Some True) False))
    (bnd (manual_hook ops TA_disable_maintenance) (\<lambda>h.
     andthen (record_restore_hook run ops h)
    (if \<not> hook_passed h then raise_restore_hook run h True
     else
       andthen (modify (\<lambda>s. s\<lparr>mc_maintenance_enabled := False\<rparr>))
         (request (MC_fault_point ''after_traffic_activation'') (mo_inject ops ''after_traffic_activation''))))))"

record manual_result =
  ml_operation :: operation_manifest
  ml_selected :: release_manifest
  ml_replaced :: release_manifest
  ml_pre_restore_backup :: backup_artifact
  ml_database_restore :: restore_proof
  ml_pointers :: release_pointers
  ml_log_path :: string

definition activate_selected_release :: "manual_run \<Rightarrow> 'w manual_ops \<Rightarrow> ('w, manual_result) manual_act" where
  "activate_selected_release run ops = (let sel = mu_selection run in
     bnd (request (MC_activate (rm_release_id (sl_selected sel)))
            (mo_activate_release ops (rm_release_id (sl_selected sel)))) (\<lambda>p.
     bnd (the_backup mc_pre_restore_backup assertion_error) (\<lambda>pre.
     bnd (fetch mc_database_restore) (\<lambda>d. case d of
       None \<Rightarrow> raise assertion_error
     | Some proof \<Rightarrow>
       bnd (manual_stage run ops OS_succeeded ''manual_restore_completed''
         ''The protected previous release is active and verified.''
         [(''selected_release_id'', JStr (rm_release_id (sl_selected sel))),
          (''replaced_release_id'', JStr (rm_release_id (sl_active sel))),
          (''pre_restore_backup_id'', JStr (bm_backup_id (ba_metadata pre))),
          (''active_release_id'', JStr (rp_active_release_id p)),
          (''previous_release_id'', optional JStr (rp_previous_release_id p))]
         (facts True (Some True) False) None) (\<lambda>operation.
       ret \<lparr>ml_operation = operation, ml_selected = sl_selected sel, ml_replaced = sl_active sel,
            ml_pre_restore_backup = pre, ml_database_restore = proof, ml_pointers = p,
            ml_log_path = manual_log run\<rparr>)))))"

definition manual_restore_sequence :: "manual_run \<Rightarrow> 'w manual_ops \<Rightarrow> ('w, manual_result) manual_act" where
  "manual_restore_sequence run ops =
     andthen (inspect_both run ops)
    (andthen (enable_restore_maintenance run ops)
    (andthen (stop_current_application run ops)
    (andthen (back_up_current run ops)
    (andthen (restore_selected_database run ops)
    (andthen (restart_selected_application run ops)
    (andthen (check_selected_release run ops)
    (andthen (activate_selected_traffic run ops)
    (andthen (expose_selected_release run ops)
     (activate_selected_release run ops)))))))))"

section \<open>Failures\<close>

definition normalize_restore_error :: "manual_run \<Rightarrow> 'w manual_context \<Rightarrow> exn \<Rightarrow> dploydb_error option" where
  "normalize_restore_error run s x = (case x of
      Dploy e \<Rightarrow> Some e
    | _ \<Rightarrow>
      if \<not> is_exception x then None
      else if mc_current_stop_attempted s \<and> \<not> mc_current_stopped s
      then Some (manual_error run RecoveryRequiredError
        ''the current application stop was attempted without durable stopped proof'' False None
        ''Keep maintenance enabled and inspect the exact current container.'')
      else if mc_selected_restart_attempted s \<and> \<not> mc_selected_running s
      then Some (manual_error run RecoveryRequiredError
        ''the selected application restart was attempted without durable running proof''
        (mc_database_replaced s) None
        (''Keep maintenance enabled and inspect both exact containers before database '' @ ''rollback.''))
      else Some (manual_error run OperationFailedError
        (''manual restore boundary failed: '' @ ma_redact (mu_env run) (describe_exn x))
        (mc_database_replaced s) (Some (\<not> mc_current_stopped s))
        ''Keep maintenance enabled until the original release is restored.''))"

definition finish_restore_failure :: "manual_run \<Rightarrow> 'w manual_ops \<Rightarrow> dploydb_error \<Rightarrow> ('w, unit) manual_act" where
  "finish_restore_failure run ops e =
     bnd (request MC_read_operation (mo_read_operation ops (mu_operation run))) (\<lambda>current.
     if om_status current \<noteq> OS_in_progress then ret ()
     else
      let st = (if fp_recovery_required (de_payload e) then OS_recovery_required else OS_failed_safe) in
      bnd (lift_result (failure_record_of e)) (\<lambda>failure.
      andthen (manual_stage run ops st (operation_status_value st) ''Manual restore did not complete.'' []
        (facts (err_changed e) (err_running e) (fp_recovery_required (de_payload e))) (Some failure)) (ret ())))"

definition pre_restore_missing :: exn where
  "pre_restore_missing = PyException ''RuntimeError'' ''pre-restore backup identity is unavailable''"

definition roll_back_steps :: "manual_run \<Rightarrow> 'w manual_ops \<Rightarrow> ('w, unit) manual_act" where
  "roll_back_steps run ops =
    (let sel = mu_selection run; current = sl_current_application sel; selected = sl_selected_application sel;
         version = rm_requested_version (sl_active sel) in
     andthen
       (bnd (fetch mc_selected_running) (\<lambda>running. when_act running
          (andthen (request (MC_stop selected) (mo_stop_current ops selected))
            (modify (\<lambda>s. s\<lparr>mc_selected_running := False\<rparr>)))))
    (andthen
       (bnd (fetch mc_database_replaced) (\<lambda>replaced. when_act replaced
          (bnd (the_backup mc_pre_restore_backup pre_restore_missing) (\<lambda>backup.
           andthen (request (MC_restore backup) (mo_restore ops backup True False)) (ret ())))))
    (andthen
       (bnd (fetch mc_current_stopped) (\<lambda>stopped. when_act stopped
          (andthen (request (MC_restart current) (mo_restart_previous ops current)) (ret ()))))
    (bnd (manual_hook ops TA_activate_new) (\<lambda>target.
     andthen (record_restore_hook run ops target)
    (if \<not> hook_passed target
     then raise (PyException ''RuntimeError'' ''current traffic target could not be restored'')
     else
     bnd (manual_hook ops TA_disable_maintenance) (\<lambda>off.
     andthen (record_restore_hook run ops off)
    (if \<not> hook_passed off
     then raise (PyException ''RuntimeError'' ''maintenance could not be disabled after restore rollback'')
     else
     andthen (request (MC_check_health version) (mo_check_application ops version))
    (andthen (request MC_check_database (mo_verify_sqlite ops)) (ret ()))))))))))"

definition rollback_manual_restore ::
  "manual_run \<Rightarrow> 'w manual_ops \<Rightarrow> dploydb_error \<Rightarrow> ('w, dploydb_error) manual_act" where
  "rollback_manual_restore run ops original =
     andthen (on_exception (roll_back_steps run ops) (\<lambda>x.
       bnd (fetch mc_database_replaced) (\<lambda>replaced. raise (Dploy (manual_error run RecoveryRequiredError
         (''manual restore failed and the original release could not be proven restored: '' @
           ma_redact (mu_env run) (exn_text x)) replaced (Some False)
         (''Keep maintenance enabled and restore the recorded pre-restore backup and active '' @
          ''application manually.''))))))
    (bnd (fetch mc_database_replaced) (\<lambda>replaced. ret (manual_error run OperationFailedError
       (''manual restore did not complete; the original database and application were restored '' @
        ''and verified: '' @ err_what original) replaced (Some True)
       ''Inspect the restore log, correct the failure, and request restore again.'')))"

definition restore_unresolved :: "manual_run \<Rightarrow> 'w manual_context \<Rightarrow> dploydb_error \<Rightarrow> dploydb_error" where
  "restore_unresolved run s e = manual_error run RecoveryRequiredError
     (''manual restore requires recovery: '' @ err_what e) (mc_database_replaced s)
     (Some (mc_selected_running s))
     (''Keep the recorded database and applications unchanged. Determine the live '' @
      ''traffic and maintenance state before any database restore.'')"

definition handle_restore_failure ::
  "manual_run \<Rightarrow> 'w manual_ops \<Rightarrow> exn \<Rightarrow> ('w, manual_result) manual_act" where
  "handle_restore_failure run ops x =
     bnd (fetch (\<lambda>s. s)) (\<lambda>s. case normalize_restore_error run s x of
       None \<Rightarrow> raise x
     | Some e \<Rightarrow>
        if fp_recovery_required (de_payload e) \<or> mc_traffic_activation_attempted s \<or>
           mc_normal_traffic_may_be_enabled s
        then let recovery = restore_unresolved run s e in
          andthen (finish_restore_failure run ops recovery) (raise (Dploy recovery))
        else
          bnd (on_dploy (rollback_manual_restore run ops e) (\<lambda>r.
            andthen (finish_restore_failure run ops r) (raise (Dploy r)))) (\<lambda>rolled_back.
          andthen (finish_restore_failure run ops rolled_back) (raise (Dploy rolled_back))))"

definition run_manual_restore :: "manual_run \<Rightarrow> 'w manual_ops \<Rightarrow> ('w, manual_result) manual_act" where
  "run_manual_restore run ops = catching (manual_restore_sequence run ops) (handle_restore_failure run ops)"

section \<open>Entry\<close>

definition restore_crashed :: "manual_run \<Rightarrow> 'w manual_context \<Rightarrow> exn \<Rightarrow> dploydb_error" where
  "restore_crashed run s x = manual_error run RecoveryRequiredError
     (''manual restore coordinator failed unexpectedly: '' @ ma_redact (mu_env run) (describe_exn x))
     (mc_database_replaced s) (if mc_current_stopped s then Some False else None)
     (''Keep maintenance enabled, preserve the pre-restore backup and operation '' @
      ''evidence, and inspect both recorded applications.'')"

definition guarded_manual_restore :: "manual_run \<Rightarrow> 'w manual_ops \<Rightarrow> ('w, manual_result) manual_act" where
  "guarded_manual_restore run ops =
     finally_act
       (catching
         (bnd (in_manual_world (mo_open_backup ops (bm_backup_id (sl_backup (mu_selection run))))) (\<lambda>backup.
          finally_act
            (andthen (modify (\<lambda>s. s\<lparr>mc_selected_backup := Some backup\<rparr>)) (run_manual_restore run ops))
            (in_manual_world (mo_close_backup ops backup))))
         (\<lambda>x. case x of
            Dploy e \<Rightarrow> andthen (finish_restore_failure run ops e) (raise x)
          | _ \<Rightarrow>
            if \<not> is_exception x then raise x
            else bnd (fetch (\<lambda>s. restore_crashed run s x)) (\<lambda>recovery.
              andthen (finish_restore_failure run ops recovery) (raise (Dploy recovery)))))
       (in_manual_world (mo_close ops))"

definition restore_configured_release ::
  "manual_env \<Rightarrow> 'w manual_ops \<Rightarrow> string \<Rightarrow> ('w, manual_result) world_act" where
  "restore_configured_release env ops i =
     andthen (lift_result (ma_topology env))
    (andthen (mo_lock ops) (finally_act
      (andthen (bnd (fetch (mo_previous_owner ops)) (\<lambda>previous.
         require_clean_operation_state (ma_owner_path env) (ma_log env) previous (mo_latest_operation ops)))
      (bnd (preview_configured_restore env ops i) (\<lambda>sel.
       andthen (mo_dependencies ops)
      (bnd (mo_create_operation ops ''restore'' ''restore_previewed'' (selection_evidence sel)) (\<lambda>operation.
       andthen (mo_record_owner ops (om_operation_id operation))
         (\<lambda>w. case guarded_manual_restore \<lparr>mu_selection = sel, mu_operation = om_operation_id operation, mu_env = env\<rparr>
              ops (new_manual_context w) of (r, s) \<Rightarrow> (r, mc_world s)))))))
      (mo_unlock ops)))"

end
