(* ===== verification/Backup.thy ===== *)
theory Backup
  imports Backup_Store "HOL-Library.Word"
begin

text \<open>
  The SQLite checks and the verified backups: \<^verbatim>\<open>dploydb/sqlite_checks.py\<close> and
  \<^verbatim>\<open>dploydb/backup.py\<close>, over the local backup store and the files of the production database.
  What SQLite answers and what a hash function returns are parameters; every system call is
  under a fault schedule.
\<close>

type_synonym bytes = "8 word list"

section \<open>SQLite checks\<close>

datatype query = Rows "string list list" | Query_failed string

text \<open>
  What one verification observes: whether time was left to connect, the error of connecting, the
  rows of each check, whether the deadline had passed when SQLite raised an error, and whether
  the file was still the same one after the checks.
\<close>

record sqlite_session =
  sq_readable :: bool
  sq_in_time :: bool
  sq_connect_error :: "string option"
  sq_quick :: query
  sq_foreign :: query
  sq_integrity :: query
  sq_expired :: bool
  sq_same_file :: bool
  sq_checked_at :: int
  sq_duration :: rat

definition check_error :: "string \<Rightarrow> string \<Rightarrow> exn" where
  "check_error path detail = Dploy (mk_error SafetyCheckError detail False None (Some path)
     ''Repair or replace the database from a verified backup, then retry.'')"

definition validate_database_file :: "string \<Rightarrow> sqlite_session \<Rightarrow> bytes disk_file option \<Rightarrow> unit result" where
  "validate_database_file path q f = (case f of
      None \<Rightarrow> Inl (check_error path ''database file could not be inspected'')
    | Some g \<Rightarrow>
        if f_kind g \<noteq> FK_regular
        then Inl (check_error path ''database path must be a regular non-symlink file'')
        else ensure (sq_readable q) (check_error path ''database file is not readable''))"

definition sqlite_failure :: "string \<Rightarrow> sqlite_session \<Rightarrow> exn" where
  "sqlite_failure path q =
    (if sq_expired q then check_error path ''SQLite verification timed out''
     else check_error path ''SQLite verification could not complete'')"

text \<open>One check whose rows must be exactly the given ones; \<open>head\<close> looks at the first row only.\<close>

definition require_rows :: "string \<Rightarrow> sqlite_session \<Rightarrow> string \<Rightarrow> string list list \<Rightarrow> query \<Rightarrow> unit result" where
  "require_rows path q text expected answer = (case answer of
      Query_failed _ \<Rightarrow> Inl (sqlite_failure path q)
    | Rows rows \<Rightarrow> ensure (rows = expected) (check_error path text))"

definition verify_sqlite_database ::
  "string \<Rightarrow> bool \<Rightarrow> rat \<Rightarrow> bytes disk_file option \<Rightarrow> sqlite_session \<Rightarrow> sqlite_verification result" where
  "verify_sqlite_database path deep timeout f q =
    (if timeout \<le> 0 then Inl (value_error ''SQLite verification timeout must be positive'')
     else
     rbind (validate_database_file path q f) (\<lambda>_.
     if \<not> sq_in_time q then Inl (check_error path ''SQLite verification timed out'')
     else if sq_connect_error q \<noteq> None then Inl (sqlite_failure path q)
     else
     rbind (require_rows path q ''SQLite quick_check failed'' [[''ok'']] (sq_quick q)) (\<lambda>_.
     rbind (require_rows path q ''SQLite foreign_key_check failed'' [] (sq_foreign q)) (\<lambda>_.
     rbind (if deep then require_rows path q ''SQLite integrity_check failed'' [[''ok'']] (sq_integrity q)
            else Inr ()) (\<lambda>_.
     rbind (validate_database_file path q f) (\<lambda>_.
     if \<not> sq_same_file q then Inl (check_error path ''database changed identity during verification'')
     else Inr \<lparr>sv_quick_check_passed = True, sv_foreign_key_check_passed = True,
        sv_integrity_check_passed = (if deep then Some True else None),
        sv_checked_at = sq_checked_at q, sv_duration = max 0 (sq_duration q)\<rparr>))))))"

section \<open>Files\<close>

text \<open>
  The directory of the production database: the database, its two SQLite side files, and the
  files a restore stages there. \<open>bw_store\<close> is the local backup store.
\<close>

record database_files =
  df_directory :: root_state
  df_target :: "bytes disk_file option"
  df_wal :: "file_kind option"
  df_shm :: "file_kind option"
  df_staged :: "(string \<times> bytes disk_file) list"

record backup_world =
  bw_store :: "bytes backup_store"
  bw_files :: database_files

type_synonym 'a backup_act = "(backup_world osys, exn, 'a) act"

record backup_env =
  be_schedule :: schedule
  be_sha256 :: "bytes \<Rightarrow> string"
  be_sqlite :: "nat \<Rightarrow> bytes \<Rightarrow> sqlite_session"
  be_snapshot :: "nat \<Rightarrow> bytes \<Rightarrow> exn + bytes"
  be_now :: "nat \<Rightarrow> int"
  be_late :: "nat \<Rightarrow> bool"
  be_metadata_size :: "backup_metadata \<Rightarrow> nat"
  be_redact :: "string \<Rightarrow> string"
  be_database_path :: string
  be_project :: string

definition in_store :: "(bytes backup_store osys, exn, 'a) act \<Rightarrow> 'a backup_act" where
  "in_store = in_slot bw_store (\<lambda>st w. w\<lparr>bw_store := st\<rparr>)"

definition in_files :: "(database_files osys, exn, 'a) act \<Rightarrow> 'a backup_act" where
  "in_files = in_slot bw_files (\<lambda>f w. w\<lparr>bw_files := f\<rparr>)"

text \<open>A file the program hashes or opens with SQLite, by where it is.\<close>

datatype location = At_target | At_restore_staging string | At_backup string | At_backup_staging string

definition file_at :: "location \<Rightarrow> backup_world \<Rightarrow> bytes disk_file option" where
  "file_at l w = (case l of
      At_target \<Rightarrow> df_target (bw_files w)
    | At_restore_staging u \<Rightarrow> map_of (df_staged (bw_files w)) u
    | At_backup i \<Rightarrow> map_of (bs_databases (bw_store w)) i
    | At_backup_staging u \<Rightarrow> map_of (bs_staged (bw_store w)) u)"

definition verification_error :: "string \<Rightarrow> string \<Rightarrow> exn" where
  "verification_error path detail = Dploy (mk_error SafetyCheckError detail False None (Some path)
     ''Do not restore this backup; use another verified backup or create one.'')"

text \<open>
  \<^verbatim>\<open>calculate_sha256\<close>: opening and reading can fail, also by the timeout; a symlink is not
  followed. No other process writes the files of the model, so that they do not change in
  between.
\<close>

definition hash_file ::
  "backup_env \<Rightarrow> string \<Rightarrow> ('w \<Rightarrow> bytes disk_file option) \<Rightarrow> ('w osys, exn, int \<times> string) act" where
  "hash_file env path get =
     on_os_error
       (andthen (syscall (be_schedule env) id)
       (bnd (fetch (get \<circ> os_world)) (\<lambda>f. case f of
          None \<Rightarrow> raise os_error
        | Some g \<Rightarrow>
            if f_kind g \<noteq> FK_regular then raise os_error
            else ret (int (length (f_content g)), be_sha256 env (f_content g)))))
       (raise (verification_error path ''backup checksum could not be calculated''))"

definition calculate_sha256 :: "backup_env \<Rightarrow> string \<Rightarrow> location \<Rightarrow> (int \<times> string) backup_act" where
  "calculate_sha256 env path l = hash_file env path (file_at l)"

text \<open>A verification of a file, at the moment given by the number of calls made.\<close>

definition check_file ::
  "backup_env \<Rightarrow> string \<Rightarrow> rat \<Rightarrow> ('w \<Rightarrow> bytes disk_file option) \<Rightarrow> ('w osys, exn, sqlite_verification) act" where
  "check_file env path timeout get =
     bnd (fetch (\<lambda>s. (os_calls s, get (os_world s)))) (\<lambda>(n, f).
     lift_result (verify_sqlite_database path False timeout f
       (be_sqlite env n (case f of None \<Rightarrow> [] | Some g \<Rightarrow> f_content g))))"

definition check_sqlite :: "backup_env \<Rightarrow> string \<Rightarrow> rat \<Rightarrow> location \<Rightarrow> sqlite_verification backup_act" where
  "check_sqlite env path timeout l = check_file env path timeout (file_at l)"

section \<open>Creating a backup\<close>

definition staging_name :: "string \<Rightarrow> string \<Rightarrow> string" where
  "staging_name i u = ''.'' @ i @ ''.'' @ u @ ''.tmp''"

definition put_staged :: "string \<Rightarrow> bytes \<Rightarrow> bytes backup_store \<Rightarrow> bytes backup_store" where
  "put_staged name c st = st\<lparr>bs_staged := AList.update name (private_file c) (bs_staged st)\<rparr>"

definition create_staging_database :: "backup_env \<Rightarrow> string \<Rightarrow> string \<Rightarrow> string backup_act" where
  "create_staging_database env i u =
    (let sc = be_schedule env; name = staging_name i u in
     bnd (fetch (bw_store \<circ> os_world)) (\<lambda>st.
     andthen (lift_result (validate_backup_id st i))
    (andthen (in_store (ensure_layout sc))
    (andthen
      (on_os_error
        (andthen (in_store (syscall sc (put_staged name [])))
        (andthen (syscall sc id)
        (andthen (syscall sc id) (syscall sc id))))
        (andthen (ignoring (in_store (syscall sc (unlink_staged name))))
          (in_store (storage_raise ''backup staging file could not be created''))))
      (ret name)))))"

definition safe_metadata_path :: "backup_env \<Rightarrow> string \<Rightarrow> string" where
  "safe_metadata_path env path =
    (if is_absolute (be_redact env path) then be_redact env path else ''/[REDACTED]'')"

definition backup_error :: "string \<Rightarrow> exn" where
  "backup_error path = Dploy (mk_error OperationFailedError ''verified SQLite backup could not be created''
     False None (Some path) ''Production was not changed; correct the failure and create a new backup.'')"

definition cleanup_staging :: "backup_env \<Rightarrow> string \<Rightarrow> unit backup_act" where
  "cleanup_staging env name =
     bnd (fetch (\<lambda>s. map_of (bs_staged (bw_store (os_world s))) name)) (\<lambda>f.
     when_act (f \<noteq> None) (ignoring (in_store (syscall (be_schedule env) (unlink_staged name)))))"

text \<open>
  The online snapshot copies the pages of the source through SQLite: what it makes of the source
  at that moment is a parameter, which may also raise an error of SQLite, time out, or fail.
\<close>

definition online_snapshot :: "backup_env \<Rightarrow> string \<Rightarrow> unit backup_act" where
  "online_snapshot env name =
     bnd (fetch (\<lambda>s. (os_calls s, df_target (bw_files (os_world s))))) (\<lambda>(n, f).
     case f of
       None \<Rightarrow> raise (PyException ''sqlite3.OperationalError'' '''')
     | Some g \<Rightarrow> bnd (lift_result (be_snapshot env n (f_content g))) (\<lambda>c.
         in_store (syscall (be_schedule env) (put_staged name c))))"

definition is_sqlite_error :: "exn \<Rightarrow> bool" where
  "is_sqlite_error x \<longleftrightarrow> (case x of PyException n _ \<Rightarrow> take 8 n = ''sqlite3.'' | _ \<Rightarrow> False)"

definition verify_backup :: "backup_env \<Rightarrow> string \<Rightarrow> backup_artifact backup_act" where
  "verify_backup env i =
     bnd (fetch (bw_store \<circ> os_world)) (\<lambda>st.
     bnd (lift_result (get_backup (be_metadata_size env) st i)) (\<lambda>a.
     let path = ba_directory a @ ''/'' @ ba_database_name a; m = ba_metadata a in
     bnd (calculate_sha256 env path (At_backup i)) (\<lambda>(size_bytes, sha).
     if size_bytes \<noteq> bm_size_bytes m then raise (verification_error path ''backup size mismatch'')
     else if sha \<noteq> bm_sha256 m then raise (verification_error path ''backup SHA-256 checksum mismatch'')
     else bnd (check_sqlite env path 10 (At_backup i)) (\<lambda>_.
     bnd (calculate_sha256 env path (At_backup i)) (\<lambda>(final_size, final_sha).
     if final_size \<noteq> size_bytes \<or> final_sha \<noteq> sha
     then raise (verification_error path ''backup changed while its SQLite contents were verified'')
     else ret a)))))"

definition new_backup ::
  "backup_env \<Rightarrow> backup_purpose \<Rightarrow> string option \<Rightarrow> string \<Rightarrow> string \<Rightarrow> rat \<Rightarrow> int \<Rightarrow> string \<Rightarrow>
   backup_artifact backup_act"
where
  "new_backup env purpose operation_id i name timeout created_at u =
    (let sc = be_schedule env; path = be_database_path env in
     andthen (check_sqlite env path (min timeout 10) At_target)
    (andthen (online_snapshot env name)
    (andthen (syscall sc id)
    (bnd (check_sqlite env name (min timeout 10) (At_backup_staging name)) (\<lambda>evidence.
     bnd (calculate_sha256 env name (At_backup_staging name)) (\<lambda>(size_bytes, sha).
     bnd (fetch os_calls) (\<lambda>n.
     let m = \<lparr>bm_backup_id = i, bm_project = be_redact env (be_project env), bm_purpose = purpose,
         bm_source_database_path = safe_metadata_path env path, bm_database_file_name = i @ ''.db'',
         bm_size_bytes = size_bytes, bm_sha256 = sha, bm_sqlite = evidence,
         bm_operation_id = operation_id, bm_created_at = created_at, bm_completed_at = be_now env n\<rparr>
     in if \<not> valid_backup_metadata m then raise validation_error
        else andthen (in_store (put_backup sc (be_metadata_size env) name u m))
               (verify_backup env i))))))))"

definition create_verified_backup ::
  "backup_env \<Rightarrow> backup_purpose \<Rightarrow> string option \<Rightarrow> string \<Rightarrow> string \<Rightarrow> string \<Rightarrow> rat \<Rightarrow> backup_artifact backup_act"
where
  "create_verified_backup env purpose operation_id i u u' timeout =
    (if timeout \<le> 0 then raise (value_error ''backup timeout must be positive'')
     else
     bnd (fetch os_calls) (\<lambda>n.
     bnd (create_staging_database env i u) (\<lambda>name.
     catching (new_backup env purpose operation_id i name timeout (be_now env n) u') (\<lambda>x.
       case x of
         Dploy e \<Rightarrow> andthen (cleanup_staging env name) (raise x)
       | _ \<Rightarrow> if is_os_error x \<or> is_sqlite_error x
              then andthen (cleanup_staging env name) (raise (backup_error (be_database_path env)))
              else raise x))))"

section \<open>Opening a backup\<close>

definition verify_configured_backup :: "backup_env \<Rightarrow> string \<Rightarrow> backup_artifact backup_act" where
  "verify_configured_backup env i =
     bnd (verify_backup env i) (\<lambda>a.
     if bm_project (ba_metadata a) \<noteq> be_redact env (be_project env)
     then raise (verification_error (ba_metadata_directory a @ ''/'' @ ba_metadata_name a)
       ''backup project does not match the configured project'')
     else ret a)"

definition local_artifact_absent :: "bytes backup_store \<Rightarrow> string \<Rightarrow> bool" where
  "local_artifact_absent st i \<longleftrightarrow>
     map_of (bs_databases st) i = None \<and> map_of (bs_metadata st) i = None"

text \<open>\<^verbatim>\<open>try: ... finally: ...\<close> around system calls; a killed process runs no handler.\<close>

definition closing :: "('s, exn, 'a) act \<Rightarrow> ('s, exn, unit) act \<Rightarrow> ('s, exn, 'a) act" where
  "closing m c s = (case m s of (r, t) \<Rightarrow>
     if r = Inl killed then (r, t)
     else (case c t of (Inl e, u) \<Rightarrow> (Inl e, u) | (Inr _, u) \<Rightarrow> (r, u)))"

definition hydration_store :: "string \<Rightarrow> bytes backup_store" where
  "hydration_store dir = \<lparr>bs_path = dir, bs_root = Root_entry True directory_mode, bs_staged = [],
     bs_databases = [], bs_metadata = [], bs_metadata_temps = []\<rparr>"

text \<open>
  A temporary directory takes the place of the store while the body runs, and is gone afterwards.
\<close>

definition in_temporary_store :: "backup_env \<Rightarrow> string \<Rightarrow> 'a backup_act \<Rightarrow> 'a backup_act" where
  "in_temporary_store env dir m s =
    (case andthen (syscall (be_schedule env) (\<lambda>w. w\<lparr>bw_store := hydration_store dir\<rparr>))
            (andthen (syscall (be_schedule env) id) m) s of
       (r, t) \<Rightarrow> (r, t\<lparr>os_world := (os_world t)\<lparr>bw_store := bw_store (os_world s)\<rparr>\<rparr>))"

definition hydrate_backup ::
  "backup_env \<Rightarrow> (string \<Rightarrow> string \<Rightarrow> backup_metadata backup_act) \<Rightarrow> string \<Rightarrow> string \<Rightarrow> string \<Rightarrow>
   (backup_artifact \<Rightarrow> 'a backup_act) \<Rightarrow> 'a backup_act"
where
  "hydrate_backup env download i u u' body =
     bnd (create_staging_database env i u) (\<lambda>name.
     closing
       (bnd (download i name) (\<lambda>m.
        if bm_project m \<noteq> be_redact env (be_project env)
        then raise (verification_error name ''remote backup project does not match the configured project'')
        else andthen (in_store (put_backup (be_schedule env) (be_metadata_size env) name u' m))
          (bnd (verify_backup env i) body)))
       (in_store (syscall (be_schedule env) (unlink_staged name))))"

definition is_safety_error :: "exn \<Rightarrow> bool" where
  "is_safety_error x \<longleftrightarrow> (case x of Dploy e \<Rightarrow> de_class e = SafetyCheckError | _ \<Rightarrow> False)"

text \<open>\<^verbatim>\<open>with open_verified_configured_backup(...) as artifact: body\<close>\<close>

definition with_verified_backup ::
  "backup_env \<Rightarrow> (string \<Rightarrow> string \<Rightarrow> backup_metadata backup_act) option \<Rightarrow> string \<Rightarrow> string \<Rightarrow> string \<Rightarrow> string \<Rightarrow>
   (backup_artifact \<Rightarrow> 'a backup_act) \<Rightarrow> 'a backup_act"
where
  "with_verified_backup env remote dir i u u' body =
     bnd (catching (bnd (verify_configured_backup env i) (\<lambda>a. ret (Some a))) (\<lambda>x.
            bnd (fetch (bw_store \<circ> os_world)) (\<lambda>st.
            if is_safety_error x \<and> local_artifact_absent st i then ret None else raise x)))
       (\<lambda>local. case local of
          Some a \<Rightarrow> body a
        | None \<Rightarrow> bnd (fetch (bw_store \<circ> os_world)) (\<lambda>st. case remote of
            None \<Rightarrow> raise (verification_error (bs_path st @ ''/'' @ i @ ''.json'')
              ''backup is absent locally and remote backup is not enabled'')
          | Some download \<Rightarrow> in_temporary_store env dir (hydrate_backup env download i u u' body)))"


section \<open>Production is only read\<close>

lemma keeps_in_store [keeping]: "keeps (\<lambda>s. P (bw_files (os_world s))) (in_store m)"
  by (rule keepsI) (auto simp: in_store_def in_slot_def split: prod.splits)

lemma keeps_files_syscall [keeping]: "keeps (\<lambda>s. P (bw_files (os_world s))) (syscall sc id)"
  by (rule keeps_syscall) simp

lemma keeps_ignoring_act [keeping]: "keeps I m \<Longrightarrow> keeps I (ignoring m)"
  unfolding ignoring_def by (intro keeping)

lemma keeps_pair [keeping]: "(\<And>x y. keeps I (f x y)) \<Longrightarrow> keeps I (case p of (x, y) \<Rightarrow> f x y)"
  by (cases p) simp

lemma keeps_let [keeping]: "keeps I (f x) \<Longrightarrow> keeps I (let y = x in f y)"
  by simp

lemma keeps_exn [keeping]:
  "(\<And>e. keeps I (f e)) \<Longrightarrow> (\<And>e. keeps I (g e)) \<Longrightarrow> keeps I (case x of Dploy e \<Rightarrow> f e | y \<Rightarrow> g y)"
  by (cases x) simp_all

lemma keeps_calculate [keeping]: "keeps (\<lambda>s. P (bw_files (os_world s))) (calculate_sha256 env path l)"
  unfolding calculate_sha256_def hash_file_def by (intro keeping)

lemma keeps_check [keeping]: "keeps (\<lambda>s. P (bw_files (os_world s))) (check_sqlite env path t l)"
  unfolding check_sqlite_def check_file_def by (intro keeping)

lemma keeps_staging [keeping]: "keeps (\<lambda>s. P (bw_files (os_world s))) (create_staging_database env i u)"
  unfolding create_staging_database_def by (intro keeping)

lemma keeps_cleanup [keeping]: "keeps (\<lambda>s. P (bw_files (os_world s))) (cleanup_staging env name)"
  unfolding cleanup_staging_def by (intro keeping)

lemma keeps_snapshot [keeping]: "keeps (\<lambda>s. P (bw_files (os_world s))) (online_snapshot env name)"
  unfolding online_snapshot_def by (intro keeping)

lemma keeps_verify_backup [keeping]: "keeps (\<lambda>s. P (bw_files (os_world s))) (verify_backup env i)"
  unfolding verify_backup_def by (intro keeping)

lemma keeps_new_backup [keeping]:
  "keeps (\<lambda>s. P (bw_files (os_world s))) (new_backup env purpose oid i name t n u)"
  unfolding new_backup_def by (intro keeping)

lemma keeps_create_backup [keeping]:
  "keeps (\<lambda>s. P (bw_files (os_world s))) (create_verified_backup env purpose oid i u u' t)"
  unfolding create_verified_backup_def by (intro keeping)


section \<open>What a verification proves\<close>

definition holds_backup :: "backup_env \<Rightarrow> backup_metadata \<Rightarrow> bytes disk_file option \<Rightarrow> bool" where
  "holds_backup env m f \<longleftrightarrow> (case f of None \<Rightarrow> False | Some g \<Rightarrow>
     f_kind g = FK_regular \<and> int (length (f_content g)) = bm_size_bytes m \<and>
     be_sha256 env (f_content g) = bm_sha256 m)"

definition sqlite_passed :: "backup_env \<Rightarrow> bytes disk_file option \<Rightarrow> bool" where
  "sqlite_passed env f \<longleftrightarrow> (case f of None \<Rightarrow> False | Some g \<Rightarrow>
     (\<exists>n. sq_quick (be_sqlite env n (f_content g)) = Rows [[''ok'']] \<and>
          sq_foreign (be_sqlite env n (f_content g)) = Rows []))"

lemma require_rows_Inr: "require_rows path q text expected a = Inr u \<longleftrightarrow> a = Rows expected"
  by (cases a) (auto simp: require_rows_def)

lemma verify_sqlite_Inr:
  assumes "verify_sqlite_database path deep timeout f q = Inr v"
  shows "0 < timeout \<and> f \<noteq> None \<and> sq_quick q = Rows [[''ok'']] \<and> sq_foreign q = Rows [] \<and>
    (deep \<longrightarrow> sq_integrity q = Rows [[''ok'']]) \<and> sq_same_file q \<and> sv_integrity_check_passed v = (if deep then Some True else None)"
  using assms
  by (auto simp: verify_sqlite_database_def rbind_Inr_iff require_rows_Inr validate_database_file_def
      split: if_splits option.splits)

lemma hash_file_Inr:
  assumes "hash_file env path get s = (Inr (n, h), t)"
  shows "os_world t = os_world s \<and> (\<exists>g. get (os_world s) = Some g \<and> f_kind g = FK_regular \<and>
    n = int (length (f_content g)) \<and> h = be_sha256 env (f_content g))"
  using assms
  by (cases "be_schedule env (os_calls s)"; cases "get (os_world s)")
    (auto simp: hash_file_def on_os_error_def catching_def andthen_def bnd_def syscall_def next_call_def
      fetch_def ret_def raise_def split: if_splits)

lemmas calculate_Inr = hash_file_Inr [where get = "file_at l" for l, folded calculate_sha256_def]

lemma check_file_Inr:
  assumes "check_file env path timeout get s = (Inr v, t)"
  shows "t = s \<and> sqlite_passed env (get (os_world s)) \<and> 0 < timeout"
proof -
  from assms have "t = s" "verify_sqlite_database path False timeout (get (os_world s))
      (be_sqlite env (os_calls s) (case get (os_world s) of None \<Rightarrow> [] | Some g \<Rightarrow> f_content g)) = Inr v"
    by (auto simp: check_file_def bnd_def fetch_def lift_result_def)
  with verify_sqlite_Inr [OF this(2)] show ?thesis
    by (auto simp: sqlite_passed_def split: option.splits)
qed

lemmas check_sqlite_Inr = check_file_Inr [where get = "file_at l" for l, folded check_sqlite_def]

lemma verify_backup_Inr:
  assumes "verify_backup env i s = (Inr a, t)"
  shows "os_world t = os_world s \<and> get_backup (be_metadata_size env) (bw_store (os_world s)) i = Inr a \<and>
    holds_backup env (ba_metadata a) (file_at (At_backup i) (os_world s)) \<and>
    sqlite_passed env (file_at (At_backup i) (os_world s))"
proof -
  let ?path = "ba_directory a @ ''/'' @ ba_database_name a"
  from assms obtain n h s1 v s2 n' h' s3 where run:
    "get_backup (be_metadata_size env) (bw_store (os_world s)) i = Inr a"
    "calculate_sha256 env ?path (At_backup i) s = (Inr (n, h), s1)"
    "n = bm_size_bytes (ba_metadata a)" "h = bm_sha256 (ba_metadata a)"
    "check_sqlite env ?path 10 (At_backup i) s1 = (Inr v, s2)"
    "calculate_sha256 env ?path (At_backup i) s2 = (Inr (n', h'), s3)" "t = s3"
    unfolding verify_backup_def Let_def
    by (elim bnd_InrE) (auto simp: fetch_def lift_result_def raise_def ret_def split: if_splits elim!: bnd_InrE)
  from calculate_Inr [OF run(2)] check_sqlite_Inr [OF run(5)] calculate_Inr [OF run(6)] run(1,3,4,7)
  show ?thesis by (auto simp: holds_backup_def)
qed

lemma verified_metadata:
  assumes "verify_metadata msize st i = Inr m"
  shows "valid_backup_metadata m \<and> bm_backup_id m = i"
proof -
  from assms obtain d where
    "(case d of Whole m \<Rightarrow> if msize m = 0 \<or> msize m > max_metadata_bytes \<or> \<not> valid_backup_metadata m
          then Inl (storage_verification_error st ''backup metadata is invalid'')
          else if bm_backup_id m \<noteq> i
          then Inl (storage_verification_error st ''backup metadata ID does not match its path'')
          else Inr m
        | _ \<Rightarrow> Inl (storage_verification_error st ''backup metadata is invalid'')) = Inr m"
    unfolding verify_metadata_def by (elim rbind_InrE)
  then show ?thesis by (cases d) (auto split: if_splits)
qed

text \<open>
  A backup that verifies is what its metadata says: the verification changes nothing, the
  metadata is valid and names this backup, and the stored database is a private regular file of
  the recorded size and checksum that passed both SQLite checks.
\<close>

theorem verified_backup_is_sound:
  assumes "verify_backup env i s = (Inr a, t)"
  shows "os_world t = os_world s \<and> valid_backup_metadata (ba_metadata a) \<and> bm_backup_id (ba_metadata a) = i \<and>
    (\<exists>c. map_of (bs_databases (bw_store (os_world s))) i = Some (private_file c) \<and>
       int (length c) = bm_size_bytes (ba_metadata a) \<and> be_sha256 env c = bm_sha256 (ba_metadata a) \<and>
       (\<exists>n. sq_quick (be_sqlite env n c) = Rows [[''ok'']] \<and> sq_foreign (be_sqlite env n c) = Rows []))"
proof -
  note facts = verify_backup_Inr [OF assms]
  from facts have got: "get_backup (be_metadata_size env) (bw_store (os_world s)) i = Inr a" by blast
  then have "valid_backup_metadata (ba_metadata a) \<and> bm_backup_id (ba_metadata a) = i"
    by (auto simp: get_backup_def artifact_of_def rbind_Inr_iff dest: verified_metadata)
  moreover from got obtain g where "map_of (bs_databases (bw_store (os_world s))) i = Some g"
    "f_kind g = FK_regular" "f_mode g = file_mode"
    by (auto simp: get_backup_def rbind_Inr_iff validate_committed_file_def split: option.splits if_splits)
  moreover from this(2,3) have "g = private_file (f_content g)"
    by (cases g) (simp add: private_file_def file_mode_def)
  moreover from facts calculation(2) obtain n where
    "int (length (f_content g)) = bm_size_bytes (ba_metadata a)" "be_sha256 env (f_content g) = bm_sha256 (ba_metadata a)"
    "sq_quick (be_sqlite env n (f_content g)) = Rows [[''ok'']]" "sq_foreign (be_sqlite env n (f_content g)) = Rows []"
    by (auto simp: holds_backup_def sqlite_passed_def file_at_def)
  ultimately show ?thesis
    using facts by (intro conjI exI [where x = "f_content g"]) (simp_all, blast)
qed

text \<open>A sequence that can return only from its last call.\<close>

named_theorems ending "rules for the computations that return only from a given last call"

definition ends_in :: "('s, 'e, 'a) act \<Rightarrow> ('s, 'e, 'a) act \<Rightarrow> bool" where
  "ends_in m p \<longleftrightarrow> (\<forall>s x t. p s = (Inr x, t) \<longrightarrow> (\<exists>w. m w = (Inr x, t)))"

lemma ends_inE:
  assumes "ends_in m p" and "p s = (Inr x, t)"
  obtains w where "m w = (Inr x, t)"
  using assms unfolding ends_in_def by blast

lemma ends_in_refl [ending]: "ends_in m m"
  unfolding ends_in_def by blast

lemma ends_in_raise [ending]: "ends_in m (raise e)"
  by (simp add: ends_in_def raise_def)

lemma ends_in_bnd [ending]: "(\<And>x. ends_in m (f x)) \<Longrightarrow> ends_in m (bnd n f)"
  unfolding ends_in_def by (blast elim: bnd_InrE)

lemma ends_in_andthen [ending]: "ends_in m n \<Longrightarrow> ends_in m (andthen l n)"
  unfolding andthen_def by (rule ends_in_bnd)

lemma ends_in_catching [ending]: "ends_in m n \<Longrightarrow> (\<And>e. ends_in m (h e)) \<Longrightarrow> ends_in m (catching n h)"
  unfolding ends_in_def catching_def by (fastforce split: prod.splits sum.splits)

lemma ends_in_branches [ending]:
  "ends_in m n \<Longrightarrow> ends_in m l \<Longrightarrow> ends_in m (if b then n else l)"
  "(\<And>x y. ends_in m (g x y)) \<Longrightarrow> ends_in m (case p of (x, y) \<Rightarrow> g x y)"
  "(\<And>e. ends_in m (f e)) \<Longrightarrow> (\<And>e. ends_in m (k e)) \<Longrightarrow> ends_in m (case x of Dploy e \<Rightarrow> f e | y \<Rightarrow> k y)"
  by (simp, cases p, simp, cases x, simp_all)

lemma ending_new_backup: "ends_in (verify_backup env i) (new_backup env purpose oid i name timeout n u)"
  unfolding new_backup_def Let_def by (intro ending)

lemma ending_create_backup: "ends_in (verify_backup env i) (create_verified_backup env purpose oid i u u' timeout)"
  unfolding create_verified_backup_def by (intro ending ending_new_backup)

text \<open>
  C18. Creating a backup never writes the production database or its side files, whatever calls
  fail and wherever the process dies; and a backup that is returned is committed in the store
  under its identifier with the size and checksum of its metadata, and passed the SQLite checks.
\<close>

theorem created_backup_is_verified:
  "bw_files (os_world (snd (create_verified_backup env purpose oid i u u' timeout s))) = bw_files (os_world s) \<and>
   (\<forall>a t. create_verified_backup env purpose oid i u u' timeout s = (Inr a, t) \<longrightarrow>
      get_backup (be_metadata_size env) (bw_store (os_world t)) i = Inr a \<and>
      holds_backup env (ba_metadata a) (map_of (bs_databases (bw_store (os_world t))) i) \<and>
      sqlite_passed env (map_of (bs_databases (bw_store (os_world t))) i))"
proof (intro conjI allI impI)
  obtain r t where run: "create_verified_backup env purpose oid i u u' timeout s = (r, t)"
    by (cases "create_verified_backup env purpose oid i u u' timeout s")
  show "bw_files (os_world (snd (create_verified_backup env purpose oid i u u' timeout s))) = bw_files (os_world s)"
    using keepsD [OF keeps_create_backup [where P = "\<lambda>f. f = bw_files (os_world s)"] run] run by simp
next
  fix a t
  assume "create_verified_backup env purpose oid i u u' timeout s = (Inr a, t)"
  then obtain w where "verify_backup env i w = (Inr a, t)" by (rule ends_inE [OF ending_create_backup])
  note facts = verify_backup_Inr [OF this]
  then show "get_backup (be_metadata_size env) (bw_store (os_world t)) i = Inr a"
    "holds_backup env (ba_metadata a) (map_of (bs_databases (bw_store (os_world t))) i)"
    "sqlite_passed env (map_of (bs_databases (bw_store (os_world t))) i)"
    by (simp_all add: file_at_def)
qed

section \<open>An example\<close>

definition example_session :: sqlite_session where
  "example_session = \<lparr>sq_readable = True, sq_in_time = True, sq_connect_error = None,
     sq_quick = Rows [[''ok'']], sq_foreign = Rows [], sq_integrity = Rows [[''ok'']],
     sq_expired = False, sq_same_file = True, sq_checked_at = 1000, sq_duration = 0\<rparr>"

definition example_backup_env :: backup_env where
  "example_backup_env = \<lparr>be_schedule = all_work,
     be_sha256 = (\<lambda>_. ''0123456789abcdef0123456789abcdef0123456789abcdef0123456789abcdef''),
     be_sqlite = (\<lambda>_ _. example_session), be_snapshot = (\<lambda>_ c. Inr c), be_now = (\<lambda>_. 2000), be_late = (\<lambda>_. False),
     be_metadata_size = (\<lambda>_. 100), be_redact = id, be_database_path = ''/srv/app.db'',
     be_project = ''shop''\<rparr>"

definition example_backup_world :: "backup_world osys" where
  "example_backup_world = \<lparr>os_calls = 0, os_world =
     \<lparr>bw_store = \<lparr>bs_path = ''/srv/backups'', bs_root = Root_entry True directory_mode,
        bs_staged = [], bs_databases = [], bs_metadata = [], bs_metadata_temps = []\<rparr>,
      bw_files = \<lparr>df_directory = Root_entry True directory_mode, df_target = Some (private_file [1, 2, 3]),
        df_wal = None, df_shm = None, df_staged = []\<rparr>\<rparr>\<rparr>"

lemma example_staging:
  "create_staging_database example_backup_env example_backup_id ''u'' example_backup_world =
     (Inr (staging_name example_backup_id ''u''), \<lparr>os_calls = 5, os_world = (os_world example_backup_world)
        \<lparr>bw_store := put_staged (staging_name example_backup_id ''u'') [] (bw_store (os_world example_backup_world))\<rparr>\<rparr>)"
proof -
  have "is_backup_id example_backup_id" using example_ready by (simp add: ready_to_put_def example_metadata_def)
  then show ?thesis
    by (simp add: create_staging_database_def act_defs syscall_def next_call_def in_store_def in_slot_def
      on_os_error_def validate_backup_id_def ensure_def ensure_layout_def all_work_def example_backup_env_def
      example_backup_world_def Let_def put_staged_def)
qed

lemmas backup_run = act_defs syscall_def next_call_def in_store_def in_slot_def on_os_error_def ensure_def
  ignoring_def Let_def write_all_run calculate_sha256_def hash_file_def check_sqlite_def check_file_def file_at_def

lemma example_snapshot:
  "online_snapshot example_backup_env (staging_name example_backup_id ''u'')
     (snd (create_staging_database example_backup_env example_backup_id ''u'' example_backup_world)) =
   (Inr (), \<lparr>os_calls = 6, os_world = (os_world example_backup_world)
        \<lparr>bw_store := put_staged (staging_name example_backup_id ''u'') [1, 2, 3] (bw_store (os_world example_backup_world))\<rparr>\<rparr>)"
  by (simp add: example_staging)
    (simp add: online_snapshot_def backup_run example_backup_env_def example_backup_world_def all_work_def put_staged_def)

lemma example_new_backup_metadata:
  "option_all is_operation_id oid \<Longrightarrow>
   valid_backup_metadata \<lparr>bm_backup_id = example_backup_id, bm_project = ''shop'', bm_purpose = purpose,
     bm_source_database_path = ''/srv/app.db'', bm_database_file_name = example_backup_id @ ''.db'',
     bm_size_bytes = 3, bm_sha256 = ''0123456789abcdef0123456789abcdef0123456789abcdef0123456789abcdef'',
     bm_sqlite = \<lparr>sv_quick_check_passed = True, sv_foreign_key_check_passed = True,
        sv_integrity_check_passed = None, sv_checked_at = 1000, sv_duration = 0\<rparr>,
     bm_operation_id = oid, bm_created_at = 2000, bm_completed_at = 2000\<rparr>"
  by (simp add: example_backup_id_def is_backup_id_def hex_tail_def is_lower_hex_def valid_backup_metadata_def
      backup_metadata_checks_def valid_sqlite_verification_def length_between_def is_sha256_def is_absolute_def)

lemma example_new_backup:
  assumes oid: "option_all is_operation_id oid" and timeout: "10 \<le> timeout"
  shows "\<exists>a t. create_verified_backup example_backup_env purpose oid example_backup_id ''u'' ''v'' timeout
     example_backup_world = (Inr a, t)"
proof -
  have time: "\<not> timeout \<le> 0" "min timeout 10 = 10" using timeout by simp_all
  note metadata = example_new_backup_metadata [OF oid]
  have "is_backup_id example_backup_id" using example_ready by (simp add: ready_to_put_def example_metadata_def)
  moreover have "verify_sqlite_database path False 10 (Some f) example_session = Inr
    \<lparr>sv_quick_check_passed = True, sv_foreign_key_check_passed = True,
        sv_integrity_check_passed = None, sv_checked_at = 1000, sv_duration = 0\<rparr>"
    if "f_kind f = FK_regular" for path and f :: "bytes disk_file"
    using that by (simp add: verify_sqlite_database_def validate_database_file_def require_rows_def ensure_def example_session_def)
  ultimately show ?thesis
    apply (simp add: create_verified_backup_def bnd_def [of "fetch _"] fetch_def bnd_def [of "create_staging_database _ _ _"]
      example_staging new_backup_def time)
    apply (simp add: backup_run example_backup_env_def example_backup_world_def all_work_def put_staged_def online_snapshot_def
      safe_metadata_path_def is_absolute_def metadata)
    apply (simp add: put_backup_def backup_run ensure_layout_def validate_backup_id_def validate_staged_def
      publish_metadata_def publish_document_def staging_name_def max_metadata_bytes_def write_all.simps
      stored_metadata_def stored_sqlite_verification_def serialize_utc_timestamp_def metadata)
    apply (simp add: get_backup_def verify_metadata_def validate_backup_id_def validate_layout_def check_directory_def
      validate_committed_file_def link_metadata_def set_metadata_temp_def drop_metadata_temp_def chmod_database_def
      link_database_def unlink_staged_def written_document_def max_metadata_bytes_def metadata
      verify_backup_def artifact_of_def backup_run)
    done
qed

text \<open>Witnesses\<close>

theorem verified_backup_is_sound_witness:
  "\<exists>a s t. verify_backup example_backup_env example_backup_id s = (Inr a, t) \<and>
     os_world t = os_world s \<and> valid_backup_metadata (ba_metadata a)"
proof -
  obtain a t where "create_verified_backup example_backup_env BP_final None example_backup_id ''u'' ''v'' 60
      example_backup_world = (Inr a, t)"
    using example_new_backup [of None 60 BP_final] by auto
  then obtain w where run: "verify_backup example_backup_env example_backup_id w = (Inr a, t)"
    by (rule ends_inE [OF ending_create_backup])
  from verified_backup_is_sound [OF run] run show ?thesis by blast
qed

theorem created_backup_is_verified_witness:
  "\<exists>a t. create_verified_backup example_backup_env BP_final None example_backup_id ''u'' ''v'' 60
       example_backup_world = (Inr a, t) \<and>
     holds_backup example_backup_env (ba_metadata a) (map_of (bs_databases (bw_store (os_world t))) example_backup_id)"
proof -
  obtain a t where run: "create_verified_backup example_backup_env BP_final None example_backup_id ''u'' ''v'' 60
      example_backup_world = (Inr a, t)"
    using example_new_backup [of None 60 BP_final] by auto
  with conjunct2 [OF created_backup_is_verified, rule_format, OF run] show ?thesis by blast
qed

end
