(* ===== verification/Copying.thy ===== *)
theory Copying
  imports Backup
begin

text \<open>
  Copying a file in chunks, as the restore (\<^verbatim>\<open>dploydb/restore.py\<close>) and the rehearsal
  (\<^verbatim>\<open>dploydb/migration.py\<close>) do it, and the rules for runs of system calls that their proofs share.
\<close>

section \<open>The loop\<close>

definition copy_chunk_bytes :: nat where "copy_chunk_bytes = 1048576"

text \<open>
  \<open>put c\<close> makes the target hold \<open>c\<close>; one chunk is read and written in full before the next.
  \<open>late\<close> says at which moments the deadline has passed.
\<close>

function copy_loop ::
  "schedule \<Rightarrow> (nat \<Rightarrow> bool) \<Rightarrow> (bytes \<Rightarrow> 'w \<Rightarrow> 'w) \<Rightarrow> bytes \<Rightarrow> nat \<Rightarrow> ('w osys, exn, unit) act"
where
  "copy_loop sc late put content offset s =
     (if late (os_calls s) then (Inl os_error, s)
      else case syscall sc id s of
        (Inl e, t) \<Rightarrow> (Inl e, t)
      | (Inr _, t) \<Rightarrow>
          if length content \<le> offset then (Inr (), t)
          else (let n = min copy_chunk_bytes (length content - offset)
                in case write_all sc (\<lambda>k. put (take (offset + k) content)) n 0 t of
                     (Inl e, v) \<Rightarrow> (Inl e, v)
                   | (Inr _, v) \<Rightarrow> copy_loop sc late put content (offset + n) v))"
  by pat_completeness auto
termination
  by (relation "measure (\<lambda>(sc, late, put, content, offset, s). length content - offset)")
    (auto simp: copy_chunk_bytes_def)

declare copy_loop.simps [simp del]

definition closing_on_error :: "('s, exn, 'a) act \<Rightarrow> ('s, exn, unit) act \<Rightarrow> ('s, exn, 'a) act" where
  "closing_on_error m c = catching m (\<lambda>x. if x = killed then raise x else andthen c (raise x))"

text \<open>\<^verbatim>\<open>_fsync_directory\<close>: open, sync and close.\<close>

definition sync_directory :: "schedule \<Rightarrow> ('w osys, exn, unit) act" where
  "sync_directory sc = andthen (syscall sc id) (closing (syscall sc id) (syscall sc id))"

text \<open>
  The copy keeps every property that a write keeps; when it returns, the target holds the whole
  content.
\<close>

lemma copy_loop_run:
  assumes keep: "\<And>c w. P w \<Longrightarrow> P (put c w)" and holds: "\<And>c w. Q c (put c w)"
    and "copy_loop sc late put content offset s = (r, t)" and "P (os_world s)"
  shows "P (os_world t) \<and> r \<in> {Inr (), Inl os_error, Inl killed} \<and>
    (r = Inr () \<longrightarrow> Q (take offset content) (os_world s) \<longrightarrow> Q content (os_world t))"
  using assms(3,4)
proof (induction "length content - offset" arbitrary: offset s rule: less_induct)
  case less
  note eq = less.prems(1) [unfolded copy_loop.simps [of sc late put content offset s]]
  show ?case
  proof (cases "late (os_calls s)")
    case True
    with eq less.prems(2) show ?thesis by auto
  next
    case False
    obtain r1 s1 where read: "syscall sc id s = (r1, s1)" by (cases "syscall sc id s")
    then have same: "os_world s1 = os_world s" and raised: "r1 = Inr () \<or> r1 = Inl os_error \<or> r1 = Inl killed"
      by (auto simp: syscall_def next_call_def split: fate.splits)
    show ?thesis
    proof (cases "r1 = Inr () \<and> \<not> length content \<le> offset")
      case True
      let ?n = "min copy_chunk_bytes (length content - offset)"
      let ?upd = "\<lambda>k. put (take (offset + k) content)"
      obtain r2 s2 where wrote: "write_all sc ?upd ?n 0 s1 = (r2, s2)" by (cases "write_all sc ?upd ?n 0 s1")
      have pos: "0 < ?n" "length content - (offset + ?n) < length content - offset"
        using True by (auto simp: copy_chunk_bytes_def)
      have "P (os_world s1)" using same less.prems(2) by simp
      note written = write_all_cases [of P ?upd, OF keep this wrote]
      show ?thesis
      proof (cases "r2 = Inr ()")
        case False
        with written eq read wrote True \<open>\<not> late (os_calls s)\<close> show ?thesis by (auto simp: Let_def)
      next
        case wrote_all: True
        with written pos obtain w where w: "os_world s2 = ?upd ?n w" and P2: "P (os_world s2)" by auto
        have rest: "copy_loop sc late put content (offset + ?n) s2 = (r, t)"
          using eq read wrote wrote_all True \<open>\<not> late (os_calls s)\<close> by (simp add: Let_def)
        have "Q (take (offset + ?n) content) (os_world s2)" unfolding w by (rule holds)
        with less.hyps [OF pos(2) rest P2] show ?thesis by simp
      qed
    next
      case False
      with raised eq read same \<open>\<not> late (os_calls s)\<close> less.prems(2) show ?thesis by auto
    qed
  qed
qed

section \<open>Runs of calls\<close>

lemma closing_InrE:
  assumes "closing m c s = (Inr x, t)"
  obtains v y where "m s = (Inr x, v)" "c v = (Inr y, t)"
  using assms by (auto simp: closing_def split: prod.splits sum.splits if_splits)

lemma on_exception_InrE:
  assumes "on_exception m h s = (Inr x, t)" and "\<And>e u v y. h e u \<noteq> (Inr y, v)"
  shows "m s = (Inr x, t)"
  using assms(1) assms(2) [of _ _ x t]
  by (auto simp: on_exception_def catching_def raise_def split: prod.splits sum.splits if_splits)

lemma andthen_raise: "andthen m (raise e) s \<noteq> (Inr y, v)"
  by (auto simp: andthen_def bnd_def raise_def split: prod.splits sum.splits)

text \<open>The error of a sequence comes from the first call that failed.\<close>

lemma andthen_InlE:
  assumes "andthen m n s = (Inl e, t)"
  obtains "m s = (Inl e, t)" | x u where "m s = (Inr x, u)" "n u = (Inl e, t)"
  using assms by (auto simp: andthen_def bnd_def split: prod.splits sum.splits)

lemma bnd_InlE:
  assumes "bnd m f s = (Inl e, t)"
  obtains "m s = (Inl e, t)" | x u where "m s = (Inr x, u)" "f x u = (Inl e, t)"
  using assms by (auto simp: bnd_def split: prod.splits sum.splits)

lemma keeps_idle:
  "(\<And>w k. I \<lparr>os_calls = k, os_world = w\<rparr> \<Longrightarrow> I \<lparr>os_calls = Suc k, os_world = w\<rparr>) \<Longrightarrow> keeps I (syscall sc id)"
  by (rule keepsI; rename_tac s r t; case_tac s)
    (auto simp: syscall_def next_call_def split: fate.splits)

lemma keeps_closing [keeping]: "keeps I m \<Longrightarrow> keeps I c \<Longrightarrow> keeps I (closing m c)"
  by (rule keepsI) (auto simp: closing_def split: prod.splits sum.splits if_splits dest: keepsD)

lemma keeps_closing_on_error [keeping]: "keeps I m \<Longrightarrow> keeps I c \<Longrightarrow> keeps I (closing_on_error m c)"
  unfolding closing_on_error_def by (intro keeping)

lemma syscall_Inr: "syscall sc f s = (Inr x, t) \<Longrightarrow> os_world t = f (os_world s)"
  by (auto simp: syscall_def next_call_def split: fate.splits)


section \<open>Calls that raise nothing but their own errors\<close>

named_theorems os_calls "rules for computations that raise errors of the operating system only"

definition only_os :: "('s, exn, 'a) act \<Rightarrow> bool" where
  "only_os m \<longleftrightarrow> (\<forall>s e t. m s = (Inl e, t) \<longrightarrow> os_raised e)"

lemma only_osD: "only_os m \<Longrightarrow> m s = (Inl e, t) \<Longrightarrow> os_raised e"
  unfolding only_os_def by blast

lemma only_os_simple [os_calls]: "only_os (ret x)" "only_os (fetch get)" "only_os (raise os_error)" "only_os (syscall sc f)"
  by (auto simp: only_os_def ret_def fetch_def raise_def syscall_def split: fate.splits)

lemma only_os_bnd [os_calls]: "only_os m \<Longrightarrow> (\<And>x. only_os (f x)) \<Longrightarrow> only_os (bnd m f)"
  unfolding only_os_def by (blast elim: bnd_InlE)

lemma only_os_andthen [os_calls]: "only_os m \<Longrightarrow> only_os n \<Longrightarrow> only_os (andthen m n)"
  unfolding only_os_def by (blast elim: andthen_InlE)

lemma only_os_closing [os_calls]: "only_os m \<Longrightarrow> only_os c \<Longrightarrow> only_os (closing m c)"
  unfolding only_os_def closing_def by (auto split: prod.splits sum.splits if_splits; blast)

lemma only_os_branches [os_calls]:
  "only_os m \<Longrightarrow> only_os n \<Longrightarrow> only_os (if b then m else n)"
  "only_os m \<Longrightarrow> (\<And>x. only_os (f x)) \<Longrightarrow> only_os (case z of None \<Rightarrow> m | Some x \<Rightarrow> f x)"
  by (simp_all split: option.split)

section \<open>Runs in which every call works\<close>

text \<open>\<open>m\<close> returns \<open>x\<close> and takes the world from \<open>w\<close> to \<open>v\<close>, however many calls were made before.\<close>

named_theorems yielding "rules for runs in which every call works"

definition yields :: "('w osys, exn, 'a) act \<Rightarrow> 'w \<Rightarrow> 'a \<Rightarrow> 'w \<Rightarrow> bool" where
  "yields m w x v \<longleftrightarrow> (\<forall>k. \<exists>j. m \<lparr>os_calls = k, os_world = w\<rparr> = (Inr x, \<lparr>os_calls = j, os_world = v\<rparr>))"

lemma yieldsD: "yields m w x v \<Longrightarrow> os_world s = w \<Longrightarrow> \<exists>t. m s = (Inr x, t) \<and> os_world t = v"
  unfolding yields_def by (cases s) (metis osys.select_convs(2))

lemma yields_ret [yielding]: "yields (ret x) w x w"
  by (simp add: yields_def ret_def)

lemma yields_lift [yielding]: "yields (lift_result (Inr x)) w x w"
  by (simp add: yields_def lift_result_def)

lemma yields_bnd [yielding]: "yields m w y v \<Longrightarrow> yields (f y) v x u \<Longrightarrow> yields (bnd m f) w x u"
  unfolding yields_def bnd_def by (metis (no_types, lifting) case_prod_conv old.sum.simps(6))

lemma yields_andthen [yielding]: "yields m w y v \<Longrightarrow> yields n v x u \<Longrightarrow> yields (andthen m n) w x u"
  unfolding andthen_def by (rule yields_bnd)

lemma yields_fetch [yielding]: "yields (fetch (f \<circ> os_world)) w (f w) w"
  by (simp add: yields_def fetch_def)

lemma yields_bnd_fetch: "(\<And>k. yields (g (f \<lparr>os_calls = k, os_world = w\<rparr>)) w x v) \<Longrightarrow> yields (bnd (fetch f) g) w x v"
  by (simp add: yields_def fetch_def bnd_def)

lemma yields_catching [yielding]: "yields m w x v \<Longrightarrow> yields (catching m h) w x v"
  unfolding yields_def catching_def by (metis (no_types, lifting) case_prod_conv old.sum.simps(6))

lemma yields_handled [yielding]:
  "yields m w x v \<Longrightarrow> yields (on_exception m h) w x v"
  "yields m w x v \<Longrightarrow> yields (on_os_error m h') w x v"
  "yields m w x v \<Longrightarrow> yields (closing_on_error m c) w x v"
  unfolding on_exception_def on_os_error_def closing_on_error_def by (rule yields_catching, assumption)+

lemma yields_handled_unit [yielding]: "yields m w () v \<Longrightarrow> yields (ignoring m) w () v"
  unfolding ignoring_def by (rule yields_handled)

lemma yields_closing [yielding]: "yields m w x v \<Longrightarrow> yields c v () u \<Longrightarrow> yields (closing m c) w x u"
proof -
  assume m: "yields m w x v" and c: "yields c v () u"
  have "\<exists>j. closing m c \<lparr>os_calls = k, os_world = w\<rparr> = (Inr x, \<lparr>os_calls = j, os_world = u\<rparr>)" for k
  proof -
    from m obtain j where "m \<lparr>os_calls = k, os_world = w\<rparr> = (Inr x, \<lparr>os_calls = j, os_world = v\<rparr>)"
      unfolding yields_def by blast
    moreover from c obtain i where "c \<lparr>os_calls = j, os_world = v\<rparr> = (Inr (), \<lparr>os_calls = i, os_world = u\<rparr>)"
      unfolding yields_def by blast
    ultimately show ?thesis by (simp add: closing_def)
  qed
  then show ?thesis by (simp add: yields_def)
qed

lemma yields_syscall [yielding]: "yields (syscall all_work f) w () (f w)"
  by (simp add: yields_def syscall_def next_call_def all_work_def)

lemma yields_write_all: "0 < n \<Longrightarrow> yields (write_all all_work upd n 0) w () (upd n w)"
  by (simp add: yields_def write_all.simps [of "\<lambda>_. Works" upd n 0] next_call_def all_work_def)

lemma yields_if:
  "b \<Longrightarrow> yields m w x v \<Longrightarrow> yields (if b then m else n) w x v"
  "\<not> b \<Longrightarrow> yields n w x v \<Longrightarrow> yields (if b then m else n) w x v"
  by simp_all

lemma yields_bnd_world: "yields (g (f w)) w x v \<Longrightarrow> yields (bnd (fetch (f \<circ> os_world)) g) w x v"
  by (rule yields_bnd_fetch) simp

lemma yields_hash_file:
  assumes "be_schedule env = all_work" and "get w = Some g" and "f_kind g = FK_regular"
  shows "yields (hash_file env path get) w (int (length (f_content g)), be_sha256 env (f_content g)) w"
  unfolding hash_file_def assms(1)
  by (rule yielding)+ (simp add: assms(2,3) yields_ret)

lemma yields_check_file:
  assumes "\<And>n. verify_sqlite_database path False timeout (get w)
      (be_sqlite env n (case get w of None \<Rightarrow> [] | Some g \<Rightarrow> f_content g)) = Inr v"
  shows "yields (check_file env path timeout get) w v w"
  unfolding check_file_def by (rule yields_bnd_fetch) (simp add: assms yields_lift)

lemma yields_sync: "yields (sync_directory all_work) w () w"
  unfolding sync_directory_def by (metis id_apply yields_andthen yields_closing yields_syscall)

lemma copy_step:
  assumes "offset < length content"
  shows "copy_loop all_work (\<lambda>_. False) put content offset \<lparr>os_calls = k, os_world = w\<rparr> =
    copy_loop all_work (\<lambda>_. False) put content (offset + min copy_chunk_bytes (length content - offset))
      \<lparr>os_calls = Suc (Suc k), os_world = put (take (offset + min copy_chunk_bytes (length content - offset)) content) w\<rparr>"
proof -
  let ?n = "min copy_chunk_bytes (length content - offset)"
  have pos: "0 < ?n" using assms by (simp add: copy_chunk_bytes_def)
  with assms show ?thesis
    by (subst copy_loop.simps)
      (simp add: syscall_def next_call_def all_work_def Let_def write_all.simps [of "\<lambda>_. Works" _ ?n 0])
qed

lemma yields_copy_from:
  assumes "\<And>b c w. put c (put b w) = put c w" and "offset < length content"
  shows "yields (copy_loop all_work (\<lambda>_. False) put content offset) w () (put content w)"
  using assms(2)
proof (induction "length content - offset" arbitrary: offset w rule: less_induct)
  case less
  let ?n = "min copy_chunk_bytes (length content - offset)"
  let ?w = "put (take (offset + ?n) content) w"
  have pos: "0 < ?n" using less.prems by (simp add: copy_chunk_bytes_def)
  show ?case
  proof (cases "offset + ?n < length content")
    case True
    from less.hyps [OF _ True, of ?w] pos less.prems
    have "yields (copy_loop all_work (\<lambda>_. False) put content (offset + ?n)) ?w () (put content w)"
      by (simp add: assms(1))
    then show ?thesis unfolding yields_def copy_step [OF less.prems] by blast
  next
    case False
    then have all: "offset + ?n = length content" using less.prems by simp
    have "yields (copy_loop all_work (\<lambda>_. False) put content (length content)) v () v" for v
      unfolding yields_def
      by (subst copy_loop.simps) (simp add: syscall_def next_call_def all_work_def)
    then show ?thesis unfolding yields_def copy_step [OF less.prems] unfolding all by simp
  qed
qed

lemma yields_copy_loop:
  assumes "sc = all_work" and "late = (\<lambda>_. False)" and "\<And>b c w. put c (put b w) = put c w" and "content \<noteq> []"
  shows "yields (copy_loop sc late put content 0) w () (put content w)"
  unfolding assms(1,2) by (rule yields_copy_from) (use assms(3,4) in simp_all)

text \<open>\<open>m\<close> returns from \<open>w\<close>, whatever it returns, in a world with \<open>Q\<close>.\<close>

definition returns :: "('w osys, exn, 'a) act \<Rightarrow> 'w \<Rightarrow> ('w \<Rightarrow> bool) \<Rightarrow> bool" where
  "returns m w Q \<longleftrightarrow> (\<forall>k. \<exists>x t. m \<lparr>os_calls = k, os_world = w\<rparr> = (Inr x, t) \<and> Q (os_world t))"

lemma returns_yields: "yields m w x v \<Longrightarrow> Q v \<Longrightarrow> returns m w Q"
  unfolding yields_def returns_def by (metis osys.select_convs(2))

lemma returnsE:
  assumes "returns m (os_world s) Q"
  obtains x t where "m s = (Inr x, t)" "Q (os_world t)"
  using assms unfolding returns_def by (metis (full_types) osys.surjective unit.exhaust)

lemma returns_bnd:
  assumes "returns m w P" and "\<And>x v. P v \<Longrightarrow> returns (f x) v Q"
  shows "returns (bnd m f) w Q"
  unfolding returns_def
proof
  fix k
  from returnsE [of m "\<lparr>os_calls = k, os_world = w\<rparr>" P] assms(1)
  obtain x t where "m \<lparr>os_calls = k, os_world = w\<rparr> = (Inr x, t)" "P (os_world t)" by auto
  moreover from this(2) obtain y u where "f x t = (Inr y, u)" "Q (os_world u)"
    using returnsE [OF assms(2)] by blast
  ultimately show "\<exists>x t. bnd m f \<lparr>os_calls = k, os_world = w\<rparr> = (Inr x, t) \<and> Q (os_world t)"
    by (simp add: bnd_def)
qed

lemma returns_andthen: "returns m w P \<Longrightarrow> (\<And>v. P v \<Longrightarrow> returns n v Q) \<Longrightarrow> returns (andthen m n) w Q"
  unfolding andthen_def by (rule returns_bnd)

lemma returns_after:
  "yields m w x v \<Longrightarrow> returns (f x) v Q \<Longrightarrow> returns (bnd m f) w Q"
  "yields m w y v \<Longrightarrow> returns n v Q \<Longrightarrow> returns (andthen m n) w Q"
  unfolding andthen_def yields_def returns_def bnd_def by (metis (no_types, lifting) case_prod_conv old.sum.simps(6))+

lemma returns_calls: "(\<And>k. returns (f k) w Q) \<Longrightarrow> returns (bnd (fetch os_calls) f) w Q"
  by (simp add: returns_def bnd_def fetch_def)

end
