(* ===== verification/Restore.thy ===== *)
theory Restore
  imports Copying Cutover
begin

text \<open>
  Restoring a verified backup over the production database, \<^verbatim>\<open>dploydb/restore.py\<close>: the copy of
  the backup into the database directory, its verification, the removal of the SQLite side
  files, the replacement, and what is reported when a call fails or the process dies.
\<close>

section \<open>The staged copy\<close>

definition files_call :: "backup_env \<Rightarrow> (database_files \<Rightarrow> database_files) \<Rightarrow> unit backup_act" where
  "files_call env f = syscall (be_schedule env) (\<lambda>w. w\<lparr>bw_files := f (bw_files w)\<rparr>)"

definition stage_file :: "string \<Rightarrow> bytes \<Rightarrow> database_files \<Rightarrow> database_files" where
  "stage_file u c d = d\<lparr>df_staged := AList.update u (private_file c) (df_staged d)\<rparr>"

definition unstage_file :: "string \<Rightarrow> database_files \<Rightarrow> database_files" where
  "unstage_file u d = d\<lparr>df_staged := AList.delete u (df_staged d)\<rparr>"

text \<open>
  The loop of \<^verbatim>\<open>_materialize_backup\<close>: one chunk is read and written in full before the next;
  \<open>be_late\<close> says at which moments the deadline has passed.
\<close>

definition copy_chunks :: "backup_env \<Rightarrow> string \<Rightarrow> bytes \<Rightarrow> nat \<Rightarrow> unit backup_act" where
  "copy_chunks env u =
     copy_loop (be_schedule env) (be_late env) (\<lambda>c w. w\<lparr>bw_files := stage_file u c (bw_files w)\<rparr>)"

definition fsync_directory :: "backup_env \<Rightarrow> unit backup_act" where
  "fsync_directory env = sync_directory (be_schedule env)"

definition unlinking :: "backup_env \<Rightarrow> string \<Rightarrow> 'a backup_act \<Rightarrow> 'a backup_act" where
  "unlinking env u m = on_exception m (\<lambda>x. andthen (ignoring (files_call env (unstage_file u))) (raise x))"

definition check_directory_state :: "backup_env \<Rightarrow> unit backup_act" where
  "check_directory_state env =
     bnd (fetch (df_directory \<circ> bw_files \<circ> os_world)) (\<lambda>d. case d of
       Root_entry True _ \<Rightarrow> syscall (be_schedule env) id
     | _ \<Rightarrow> raise os_error)"

definition open_source :: "backup_env \<Rightarrow> string \<Rightarrow> bytes backup_act" where
  "open_source env i =
     andthen (syscall (be_schedule env) id)
       (bnd (fetch (file_at (At_backup i) \<circ> os_world)) (\<lambda>f. case f of
          None \<Rightarrow> raise os_error
        | Some g \<Rightarrow> if f_kind g = FK_regular then ret (f_content g) else raise os_error))"

definition open_destination :: "backup_env \<Rightarrow> string \<Rightarrow> unit backup_act" where
  "open_destination env u =
     bnd (fetch (\<lambda>s. map_of (df_staged (bw_files (os_world s))) u)) (\<lambda>f.
     if f \<noteq> None then raise os_error else files_call env (stage_file u []))"

definition materialize_backup :: "backup_env \<Rightarrow> backup_artifact \<Rightarrow> string \<Rightarrow> string backup_act" where
  "materialize_backup env a u =
    (let sc = be_schedule env in
     andthen (check_directory_state env)
    (bnd (unlinking env u (open_source env (bm_backup_id (ba_metadata a)))) (\<lambda>content.
     andthen (closing_on_error (unlinking env u (open_destination env u)) (syscall sc id))
    (andthen
      (closing
        (unlinking env u
          (andthen (syscall sc id)
          (andthen (copy_chunks env u content 0) (syscall sc id))))
        (andthen (syscall sc id) (syscall sc id)))
    (andthen (fsync_directory env) (ret u))))))"

definition materialized_error :: "string \<Rightarrow> exn" where
  "materialized_error path = Dploy (mk_error SafetyCheckError
     ''materialized restore file does not match selected backup metadata'' False (Some False) (Some path)
     ''Do not activate this restore file; preserve the verified backup.'')"

definition verify_materialized ::
  "backup_env \<Rightarrow> string \<Rightarrow> location \<Rightarrow> backup_artifact \<Rightarrow> unit backup_act" where
  "verify_materialized env path l a =
     bnd (calculate_sha256 env path l) (\<lambda>(size_bytes, sha).
     if size_bytes \<noteq> bm_size_bytes (ba_metadata a) \<or> sha \<noteq> bm_sha256 (ba_metadata a)
     then raise (materialized_error path)
     else andthen (check_sqlite env path 10 l) (ret ()))"

section \<open>The replacement\<close>

text \<open>One side file: absent, removed, or refused when it is no regular file.\<close>

definition remove_sidecar ::
  "backup_env \<Rightarrow> (database_files \<Rightarrow> file_kind option) \<Rightarrow> (database_files \<Rightarrow> database_files) \<Rightarrow> unit backup_act"
where
  "remove_sidecar env get rid =
     bnd (fetch (get \<circ> bw_files \<circ> os_world)) (\<lambda>k. case k of
       None \<Rightarrow> ret ()
     | Some kind \<Rightarrow> andthen (syscall (be_schedule env) id)
         (if kind \<noteq> FK_regular then raise os_error else files_call env rid))"

definition drop_wal :: "database_files \<Rightarrow> database_files" where
  "drop_wal d = d\<lparr>df_wal := None\<rparr>"

definition drop_shm :: "database_files \<Rightarrow> database_files" where
  "drop_shm d = d\<lparr>df_shm := None\<rparr>"

definition remove_sqlite_sidecars :: "backup_env \<Rightarrow> unit backup_act" where
  "remove_sqlite_sidecars env =
     andthen (remove_sidecar env df_wal drop_wal)
    (andthen (remove_sidecar env df_shm drop_shm)
     (fsync_directory env))"

definition replace_target :: "string \<Rightarrow> database_files \<Rightarrow> database_files" where
  "replace_target u d = (case map_of (df_staged d) u of
      None \<Rightarrow> d
    | Some f \<Rightarrow> (unstage_file u d)\<lparr>df_target := Some f\<rparr>)"

definition chmod_target :: "database_files \<Rightarrow> database_files" where
  "chmod_target d = d\<lparr>df_target := map_option (\<lambda>f. f\<lparr>f_mode := file_mode\<rparr>) (df_target d)\<rparr>"

definition replace_file :: "backup_env \<Rightarrow> string \<Rightarrow> unit backup_act" where
  "replace_file env u =
     bnd (fetch (bw_files \<circ> os_world)) (\<lambda>d.
     if map_of (df_staged d) u = None \<or> (case df_target d of Some f \<Rightarrow> f_kind f = FK_directory | None \<Rightarrow> False)
     then raise os_error
     else files_call env (replace_target u))"

type_synonym injector = "string \<Rightarrow> unit result"

definition no_fault :: injector where "no_fault _ = Inr ()"

section \<open>Restoring inside a cutover\<close>

definition cleanup_restore :: "backup_env \<Rightarrow> string option \<Rightarrow> unit backup_act" where
  "cleanup_restore env staged = (case staged of
      None \<Rightarrow> ret ()
    | Some u \<Rightarrow> ignoring (files_call env (unstage_file u)))"

text \<open>
  The handler of \<^verbatim>\<open>restore_verified_database\<close>. Which part of its body failed is told by the two
  local variables \<^verbatim>\<open>staged\<close> and \<^verbatim>\<open>replacement_started\<close>; each part of the body is put under the
  handler with their values.
\<close>

definition restore_failure :: "backup_env \<Rightarrow> bool \<Rightarrow> exn \<Rightarrow> exn" where
  "restore_failure env replaced x =
    (if replaced
     then Dploy (mk_error RecoveryRequiredError
       (''verified database rollback started replacement but could not be proven: '' @
         be_redact env (describe_exn x)) True (Some False) (Some (be_database_path env))
       (''Keep every application stopped and verify or restore the recorded final '' @ ''backup manually.''))
     else Dploy (mk_error OperationFailedError
       (''verified database rollback failed before replacement: '' @ be_redact env (describe_exn x))
       True (Some False) (Some (be_database_path env))
       ''Keep every application stopped, reverify the final backup, and retry rollback.''))"

definition restoring :: "backup_env \<Rightarrow> string option \<Rightarrow> bool \<Rightarrow> 'a backup_act \<Rightarrow> 'a backup_act" where
  "restoring env staged replaced m =
     on_exception m (\<lambda>x. andthen (cleanup_restore env staged) (raise (restore_failure env replaced x)))"

definition artifact_path :: "backup_artifact \<Rightarrow> string" where
  "artifact_path a = ba_directory a @ ''/'' @ ba_database_name a"

definition stage_backup :: "backup_env \<Rightarrow> backup_artifact \<Rightarrow> string \<Rightarrow> string backup_act" where
  "stage_backup env a u =
     andthen (verify_materialized env (artifact_path a) (At_backup (bm_backup_id (ba_metadata a))) a)
       (materialize_backup env a u)"

definition replace_database :: "backup_env \<Rightarrow> injector \<Rightarrow> backup_artifact \<Rightarrow> string \<Rightarrow> unit backup_act" where
  "replace_database env inject a u =
     andthen (verify_materialized env u (At_restore_staging u) a)
    (andthen (lift_result (inject ''rollback_after_staging''))
    (andthen (remove_sqlite_sidecars env)
     (replace_file env u)))"

definition prove_restored :: "backup_env \<Rightarrow> injector \<Rightarrow> backup_artifact \<Rightarrow> restore_proof backup_act" where
  "prove_restored env inject a =
    (let path = be_database_path env in
     andthen (files_call env chmod_target)
    (andthen (fsync_directory env)
    (andthen (lift_result (inject ''rollback_after_replace''))
    (andthen (verify_materialized env path At_target a)
    (bnd (calculate_sha256 env path At_target) (\<lambda>(size_bytes, sha).
     bnd (check_sqlite env path 10 At_target) (\<lambda>v.
     bnd (fetch os_calls) (\<lambda>n.
     let p = \<lparr>vr_backup_id = bm_backup_id (ba_metadata a), vr_database_path = path,
         vr_size_bytes = size_bytes, vr_sha256 = sha, vr_sqlite = v, vr_restored_at = be_now env n\<rparr>
     in if valid_restore_proof p then ret p else raise validation_error))))))))"

definition restore_verified_database ::
  "backup_env \<Rightarrow> injector \<Rightarrow> string \<Rightarrow> backup_artifact \<Rightarrow> bool \<Rightarrow> bool \<Rightarrow> restore_proof backup_act"
where
  "restore_verified_database env inject u a application_stopped traffic_activated =
    (if traffic_activated
     then raise (Dploy (mk_error SafetyCheckError
       ''automatic database restore is forbidden after new traffic was activated'' True (Some False)
       (Some (be_database_path env))
       ''Keep the current database and use the confirmed manual restore workflow.''))
     else if \<not> application_stopped
     then raise (Dploy (mk_error SafetyCheckError
       ''automatic database restore requires every managed database user to be stopped'' True None
       (Some (be_database_path env)) ''Stop and prove every database user before retrying rollback.''))
     else if \<not> is_absolute (be_database_path env) \<or> be_database_path env = artifact_path a
     then raise (value_error
       ''restore target must be an absolute production path distinct from backup'')
     else
       bnd (restoring env None False (stage_backup env a u)) (\<lambda>staged.
       andthen (restoring env (Some staged) False (replace_database env inject a staged))
       (restoring env None True (prove_restored env inject a))))"

section \<open>What each call leaves alone\<close>

text \<open>The store and the live database: what only a replacement may change.\<close>

definition live_view :: "backup_world osys \<Rightarrow> bytes backup_store \<times> bytes disk_file option" where
  "live_view s = (bw_store (os_world s), df_target (bw_files (os_world s)))"

definition side_view :: "backup_world osys \<Rightarrow> file_kind option \<times> file_kind option" where
  "side_view s = (df_wal (bw_files (os_world s)), df_shm (bw_files (os_world s)))"

lemma keeps_files_call:
  "(\<And>w k. I \<lparr>os_calls = k, os_world = w\<rparr> \<Longrightarrow> I \<lparr>os_calls = Suc k, os_world = w\<rparr>) \<Longrightarrow>
   (\<And>w k. I \<lparr>os_calls = k, os_world = w\<rparr> \<Longrightarrow> I \<lparr>os_calls = Suc k, os_world = w\<lparr>bw_files := f (bw_files w)\<rparr>\<rparr>) \<Longrightarrow>
   keeps I (files_call env f)"
  by (rule keepsI; rename_tac s r t; case_tac s)
    (auto simp: files_call_def syscall_def next_call_def split: fate.splits)

text \<open>A property of the files alone: counting the calls does not change it.\<close>

definition of_world :: "(backup_world \<Rightarrow> bool) \<Rightarrow> backup_world osys \<Rightarrow> bool" where
  "of_world P s = P (os_world s)"

lemma keeps_idle_world [keeping]: "keeps (of_world P) (syscall sc id)"
  by (rule keeps_idle) (simp add: of_world_def)

lemma keeps_files_world: "(\<And>w. P w \<Longrightarrow> P (w\<lparr>bw_files := f (bw_files w)\<rparr>)) \<Longrightarrow> keeps (of_world P) (files_call env f)"
  by (rule keeps_files_call) (simp_all add: of_world_def)

lemma keeps_calculate_world [keeping]: "keeps (of_world P) (calculate_sha256 env path l)"
  unfolding calculate_sha256_def hash_file_def by (intro keeping)

lemma keeps_check_world [keeping]: "keeps (of_world P) (check_sqlite env path timeout l)"
  unfolding check_sqlite_def check_file_def by (intro keeping)

lemma keeps_verify_world [keeping]: "keeps (of_world P) (verify_materialized env path l a)"
  unfolding verify_materialized_def by (intro keeping)

lemma keeps_fsync_world [keeping]: "keeps (of_world P) (fsync_directory env)"
  unfolding fsync_directory_def sync_directory_def by (intro keeping)

lemma keeps_directory_world [keeping]: "keeps (of_world P) (check_directory_state env)"
  unfolding check_directory_state_def
  by (intro keeping) (auto intro: keeping split: root_state.splits bool.splits)

text \<open>A property that does not look at the staged copies.\<close>

definition blind :: "(backup_world \<Rightarrow> bool) \<Rightarrow> bool" where
  "blind P \<longleftrightarrow> (\<forall>w xs. P w \<longrightarrow> P (w\<lparr>bw_files := (bw_files w)\<lparr>df_staged := xs\<rparr>\<rparr>))"

lemma blind_staging [simp]:
  "blind P \<Longrightarrow> P w \<Longrightarrow> P (w\<lparr>bw_files := stage_file u c (bw_files w)\<rparr>)"
  "blind P \<Longrightarrow> P w \<Longrightarrow> P (w\<lparr>bw_files := unstage_file u (bw_files w)\<rparr>)"
  by (simp_all add: blind_def stage_file_def unstage_file_def)

lemma keeps_stage [keeping]: "blind P \<Longrightarrow> keeps (of_world P) (files_call env (stage_file u c))"
  by (rule keeps_files_world) simp

lemma keeps_unstage [keeping]: "blind P \<Longrightarrow> keeps (of_world P) (files_call env (unstage_file u))"
  by (rule keeps_files_world) simp

lemma keeps_unlinking [keeping]: "blind P \<Longrightarrow> keeps (of_world P) m \<Longrightarrow> keeps (of_world P) (unlinking env u m)"
  unfolding unlinking_def by (intro keeping)

lemma keeps_open_source [keeping]: "keeps (of_world P) (open_source env i)"
  unfolding open_source_def by (intro keeping)

lemma keeps_open_destination [keeping]: "blind P \<Longrightarrow> keeps (of_world P) (open_destination env u)"
  unfolding open_destination_def by (intro keeping)

text \<open>
  The copy keeps such a property; when it returns, the staged file holds the whole content.
\<close>

lemma copy_chunks_run:
  assumes "blind P" and "copy_chunks env u content offset s = (r, t)" and "P (os_world s)"
  shows "P (os_world t) \<and> r \<in> {Inr (), Inl os_error, Inl killed} \<and>
    (r = Inr () \<longrightarrow> map_of (df_staged (bw_files (os_world s))) u = Some (private_file (take offset content)) \<longrightarrow>
       map_of (df_staged (bw_files (os_world t))) u = Some (private_file content))"
proof -
  let ?put = "\<lambda>c w. w\<lparr>bw_files := stage_file u c (bw_files w)\<rparr>"
  let ?Q = "\<lambda>c w. map_of (df_staged (bw_files w)) u = Some (private_file c)"
  have 1: "P (?put c w)" if "P w" for c w using assms(1) that by simp
  have 2: "?Q c (?put c w)" for c w by (simp add: stage_file_def update_conv')
  from copy_loop_run [where P = P and Q = ?Q and put = ?put, OF 1 2 assms(2) [unfolded copy_chunks_def] assms(3)]
  show ?thesis .
qed

lemma keeps_copy_chunks [keeping]: "blind P \<Longrightarrow> keeps (of_world P) (copy_chunks env u content offset)"
  by (rule keepsI) (auto simp: of_world_def dest: copy_chunks_run)

lemma keeps_materialize [keeping]: "blind P \<Longrightarrow> keeps (of_world P) (materialize_backup env a u)"
  unfolding materialize_backup_def Let_def by (intro keeping)

lemma keeps_stage_backup [keeping]: "blind P \<Longrightarrow> keeps (of_world P) (stage_backup env a u)"
  unfolding stage_backup_def by (intro keeping)

lemma unlinking_Inr: "unlinking env u m s = (Inr x, t) \<Longrightarrow> m s = (Inr x, t)"
  unfolding unlinking_def by (erule on_exception_InrE) (rule andthen_raise)

lemma closing_on_error_Inr: "closing_on_error m c s = (Inr x, t) \<Longrightarrow> m s = (Inr x, t)"
  by (auto simp: closing_on_error_def catching_def andthen_def bnd_def raise_def
      split: prod.splits sum.splits if_splits)

lemma files_call_Inr: "files_call env f s = (Inr x, t) \<Longrightarrow> os_world t = (os_world s)\<lparr>bw_files := f (bw_files (os_world s))\<rparr>"
  by (auto simp: files_call_def dest: syscall_Inr)

lemma unchanged:
  assumes "\<And>P. keeps (of_world P) m" and "m s = (r, t)"
  shows "os_world t = os_world s"
  using keepsD [OF assms(1) [of "\<lambda>w. w = os_world s"] assms(2)] by (simp add: of_world_def)

lemmas fsync_unchanged = unchanged [OF keeps_fsync_world]

lemma open_source_Inr:
  assumes "open_source env i s = (Inr c, t)"
  shows "os_world t = os_world s \<and> (\<exists>g. file_at (At_backup i) (os_world s) = Some g \<and> f_kind g = FK_regular \<and> f_content g = c)"
  using assms unfolding open_source_def
  by (auto simp: fetch_def ret_def raise_def dest!: syscall_Inr elim!: bnd_InrE andthen_InrE split: option.splits if_splits)

lemma open_destination_Inr:
  assumes "open_destination env u s = (Inr x, t)"
  shows "os_world t = (os_world s)\<lparr>bw_files := stage_file u [] (bw_files (os_world s))\<rparr>"
  using assms unfolding open_destination_def
  by (auto simp: fetch_def raise_def dest!: files_call_Inr elim!: bnd_InrE split: if_splits)

lemma copy_phase_Inr:
  assumes "closing (unlinking env u (andthen (syscall sc id)
       (andthen (copy_chunks env u c 0) (syscall sc id)))) (andthen (syscall sc id) (syscall sc id)) s = (Inr x, t)"
    and "map_of (df_staged (bw_files (os_world s))) u = Some (private_file [])"
  shows "map_of (df_staged (bw_files (os_world t))) u = Some (private_file c)"
proof -
  from assms(1) obtain y s3 where body: "andthen (syscall sc id) (andthen (copy_chunks env u c 0) (syscall sc id)) s = (Inr x, s3)"
    and closed: "andthen (syscall sc id) (syscall sc id) s3 = (Inr y, t)"
    by (elim closing_InrE) (blast dest: unlinking_Inr)
  from closed have "os_world t = os_world s3" by (elim andthen_InrE) (simp add: syscall_Inr)
  moreover from body have "map_of (df_staged (bw_files (os_world s3))) u = Some (private_file c)"
  proof (elim andthen_InrE)
    fix y1 s1 y2 s2
    assume run: "syscall sc id s = (Inr y1, s1)" "copy_chunks env u c 0 s1 = (Inr y2, s2)" "syscall sc id s2 = (Inr x, s3)"
    have "blind (\<lambda>_. True)" by (simp add: blind_def)
    from copy_chunks_run [OF this run(2)] syscall_Inr [OF run(1)] syscall_Inr [OF run(3)] assms(2)
    show ?thesis by simp
  qed
  ultimately show ?thesis by simp
qed

lemma materialize_Inr:
  assumes "materialize_backup env a u s = (Inr v, t)"
  shows "v = u \<and> (\<exists>g. file_at (At_backup (bm_backup_id (ba_metadata a))) (os_world s) = Some g \<and>
    map_of (df_staged (bw_files (os_world t))) u = Some (private_file (f_content g)))"
  using assms unfolding materialize_backup_def Let_def
proof (elim andthen_InrE bnd_InrE)
  fix s1 c s2 s3 s4 s5 x1 x2 x3 x4
  assume run: "check_directory_state env s = (Inr x1, s1)"
    "unlinking env u (open_source env (bm_backup_id (ba_metadata a))) s1 = (Inr c, s2)"
    "closing_on_error (unlinking env u (open_destination env u)) (syscall (be_schedule env) id) s2 = (Inr x2, s3)"
    "closing (unlinking env u (andthen (syscall (be_schedule env) id)
       (andthen (copy_chunks env u c 0) (syscall (be_schedule env) id))))
       (andthen (syscall (be_schedule env) id) (syscall (be_schedule env) id)) s3 = (Inr x3, s4)"
    "fsync_directory env s4 = (Inr x4, s5)" "ret u s5 = (Inr v, t)"
  have "os_world s1 = os_world s" by (rule unchanged [OF keeps_directory_world run(1)])
  with open_source_Inr [OF unlinking_Inr [OF run(2)]] obtain g where g:
    "file_at (At_backup (bm_backup_id (ba_metadata a))) (os_world s) = Some g" "f_content g = c"
    by auto
  from open_destination_Inr [OF unlinking_Inr [OF closing_on_error_Inr [OF run(3)]]]
  have "map_of (df_staged (bw_files (os_world s3))) u = Some (private_file [])"
    by (simp add: stage_file_def update_conv')
  from copy_phase_Inr [OF run(4) this] fsync_unchanged [OF run(5)] run(6) g show ?thesis
    by (auto simp: ret_def)
qed

section \<open>The three parts of a restore\<close>

definition proven_file :: "backup_env \<Rightarrow> backup_artifact \<Rightarrow> bytes disk_file option \<Rightarrow> bool" where
  "proven_file env a f \<longleftrightarrow> holds_backup env (ba_metadata a) f \<and> sqlite_passed env f"

lemma verify_materialized_Inr:
  assumes "verify_materialized env path l a s = (Inr x, t)"
  shows "os_world t = os_world s \<and> proven_file env a (file_at l (os_world s))"
  using assms unfolding verify_materialized_def
proof (elim bnd_InrE)
  fix nh s1
  assume run: "calculate_sha256 env path l s = (Inr nh, s1)"
    "(case nh of (size_bytes, sha) \<Rightarrow>
       if size_bytes \<noteq> bm_size_bytes (ba_metadata a) \<or> sha \<noteq> bm_sha256 (ba_metadata a)
       then raise (materialized_error path)
       else andthen (check_sqlite env path 10 l) (ret ())) s1 = (Inr x, t)"
  obtain n h where nh: "nh = (n, h)" by (cases nh)
  with run(2) have same: "n = bm_size_bytes (ba_metadata a)" "h = bm_sha256 (ba_metadata a)"
    and "andthen (check_sqlite env path 10 l) (ret ()) s1 = (Inr x, t)"
    by (auto simp: raise_def split: if_splits)
  from this(3) obtain v where "check_sqlite env path 10 l s1 = (Inr v, t)"
    by (elim andthen_InrE) (simp add: ret_def)
  from check_sqlite_Inr [OF this] calculate_Inr [OF run(1) [unfolded nh]] same
  show ?thesis by (auto simp: proven_file_def holds_backup_def)
qed

lemma remove_sidecar_Inr:
  assumes "remove_sidecar env get rid s = (Inr x, t)" and "\<And>d. get (rid d) = None"
  shows "get (bw_files (os_world t)) = None \<and>
    (os_world t = os_world s \<or> os_world t = (os_world s)\<lparr>bw_files := rid (bw_files (os_world s))\<rparr>)"
  using assms(1) unfolding remove_sidecar_def
  by (elim bnd_InrE)
    (auto simp: fetch_def ret_def raise_def assms(2) dest!: files_call_Inr syscall_Inr elim!: andthen_InrE
      split: option.splits if_splits)

lemma remove_sidecars_Inr:
  assumes "remove_sqlite_sidecars env s = (Inr x, t)"
  shows "side_view t = (None, None) \<and> live_view t = live_view s \<and>
    df_staged (bw_files (os_world t)) = df_staged (bw_files (os_world s))"
  using assms unfolding remove_sqlite_sidecars_def
proof (elim andthen_InrE)
  fix y1 s1 y2 s2
  assume run: "remove_sidecar env df_wal drop_wal s = (Inr y1, s1)"
    "remove_sidecar env df_shm drop_shm s1 = (Inr y2, s2)" "fsync_directory env s2 = (Inr x, t)"
  from remove_sidecar_Inr [OF run(1)] remove_sidecar_Inr [OF run(2)] fsync_unchanged [OF run(3)]
  show ?thesis by (auto simp: side_view_def live_view_def drop_wal_def drop_shm_def)
qed

lemma keeps_sidecars:
  assumes "\<And>w. P w \<Longrightarrow> P (w\<lparr>bw_files := drop_wal (bw_files w)\<rparr>)" "\<And>w. P w \<Longrightarrow> P (w\<lparr>bw_files := drop_shm (bw_files w)\<rparr>)"
  shows "keeps (of_world P) (remove_sqlite_sidecars env)"
  unfolding remove_sqlite_sidecars_def remove_sidecar_def
  by (intro keeping keeps_files_world assms) assumption+

lemma replace_file_runs:
  assumes "replace_file env u s = (r, t)"
  shows "case r of Inl e \<Rightarrow> os_world t = os_world s
    | Inr _ \<Rightarrow> os_world t = (os_world s)\<lparr>bw_files := replace_target u (bw_files (os_world s))\<rparr> \<and>
        map_of (df_staged (bw_files (os_world s))) u \<noteq> None"
  using assms unfolding replace_file_def files_call_def
  by (auto simp: bnd_def fetch_def raise_def syscall_def next_call_def split: if_splits fate.splits)

definition not_replaced :: "bytes backup_store \<Rightarrow> bytes disk_file option \<Rightarrow> backup_world \<Rightarrow> bool" where
  "not_replaced st old w \<longleftrightarrow> bw_store w = st \<and> df_target (bw_files w) = old"

lemma not_replaced_blind [simp]: "blind (not_replaced st old)"
  by (simp add: blind_def not_replaced_def)

definition replaced_by :: "bytes backup_store \<Rightarrow> bytes \<Rightarrow> backup_world \<Rightarrow> bool" where
  "replaced_by st c w \<longleftrightarrow> bw_store w = st \<and> df_target (bw_files w) = Some (private_file c) \<and>
     df_wal (bw_files w) = None \<and> df_shm (bw_files w) = None"

lemma replaced_by_blind [simp]: "blind (replaced_by st c)"
  by (simp add: blind_def replaced_by_def)

lemma keeps_not_replaced: "keeps (of_world (not_replaced st old)) (remove_sqlite_sidecars env)"
  by (rule keeps_sidecars) (simp_all add: not_replaced_def drop_wal_def drop_shm_def)

lemma chmod_private: "map_option (\<lambda>f. f\<lparr>f_mode := file_mode\<rparr>) (Some (private_file c)) = Some (private_file c)"
  by (simp add: private_file_def file_mode_def)

lemma keeps_replaced: "keeps (of_world (replaced_by st c)) (prove_restored env inject a)"
  unfolding prove_restored_def Let_def
  by (intro keeping keeps_files_world) (simp add: replaced_by_def chmod_target_def chmod_private)

lemma replace_database_runs:
  assumes "replace_database env inject a u s = (r, t)"
    and "map_of (df_staged (bw_files (os_world s))) u = Some (private_file c)"
    and "not_replaced st old (os_world s)"
  shows "case r of Inl e \<Rightarrow> not_replaced st old (os_world t)
    | Inr _ \<Rightarrow> replaced_by st c (os_world t) \<and> proven_file env a (Some (private_file c))"
proof -
  have keep: "keeps (of_world (not_replaced st old)) (verify_materialized env u (At_restore_staging u) a)"
    "keeps (of_world (not_replaced st old)) (lift_result (inject ''rollback_after_staging''))"
    by (intro keeping)+
  note kept = keepsD [OF keep(1)] keepsD [OF keep(2)] keepsD [OF keeps_not_replaced]
  show ?thesis
  proof (cases r)
    case (Inl e)
    from assms(1) Inl show ?thesis
      unfolding replace_database_def
      by (auto elim!: andthen_InlE dest!: kept replace_file_runs simp: of_world_def assms(3))
  next
    case (Inr v)
    from assms(1) [unfolded Inr] have ?thesis unfolding replace_database_def
    proof (elim andthen_InrE)
      fix y1 s1 y2 s2 y3 s3
      assume run: "verify_materialized env u (At_restore_staging u) a s = (Inr y1, s1)"
        "lift_result (inject ''rollback_after_staging'') s1 = (Inr y2, s2)"
        "remove_sqlite_sidecars env s2 = (Inr y3, s3)" "replace_file env u s3 = (Inr v, t)"
      from verify_materialized_Inr [OF run(1)] assms(2)
      have first: "os_world s1 = os_world s" "proven_file env a (Some (private_file c))"
        by (simp_all add: file_at_def)
      from run(2) have "s2 = s1" by (simp add: lift_result_def)
      with remove_sidecars_Inr [OF run(3)] replace_file_runs [OF run(4)] first assms(2,3) Inr
      show ?thesis
        by (auto simp: replaced_by_def not_replaced_def live_view_def side_view_def replace_target_def unstage_file_def)
    qed
    then show ?thesis .
  qed
qed

lemma prove_restored_Inr:
  assumes "prove_restored env inject a s = (Inr p, t)"
    and "replaced_by st c (os_world s)"
  shows "replaced_by st c (os_world t) \<and> proven_file env a (Some (private_file c)) \<and>
    vr_backup_id p = bm_backup_id (ba_metadata a) \<and> vr_size_bytes p = bm_size_bytes (ba_metadata a) \<and>
    vr_sha256 p = bm_sha256 (ba_metadata a) \<and> valid_restore_proof p"
  using assms(1) unfolding prove_restored_def Let_def
proof (elim andthen_InrE bnd_InrE)
  fix y1 s1 y2 s2 y3 s3 y4 s4 nh s5
  assume run: "files_call env chmod_target s = (Inr y1, s1)" "fsync_directory env s1 = (Inr y2, s2)"
    "lift_result (inject ''rollback_after_replace'') s2 = (Inr y3, s3)"
    "verify_materialized env (be_database_path env) At_target a s3 = (Inr y4, s4)"
    "calculate_sha256 env (be_database_path env) At_target s4 = (Inr nh, s5)"
    "(case nh of (size_bytes, sha) \<Rightarrow> bnd (check_sqlite env (be_database_path env) 10 At_target) (\<lambda>v.
       bnd (fetch os_calls) (\<lambda>n.
         if valid_restore_proof \<lparr>vr_backup_id = bm_backup_id (ba_metadata a), vr_database_path = be_database_path env,
           vr_size_bytes = size_bytes, vr_sha256 = sha, vr_sqlite = v, vr_restored_at = be_now env n\<rparr>
         then ret \<lparr>vr_backup_id = bm_backup_id (ba_metadata a), vr_database_path = be_database_path env,
           vr_size_bytes = size_bytes, vr_sha256 = sha, vr_sqlite = v, vr_restored_at = be_now env n\<rparr>
         else raise validation_error))) s5 = (Inr p, t)"
  from files_call_Inr [OF run(1)] assms(2) have "replaced_by st c (os_world s1)"
    by (simp add: replaced_by_def chmod_target_def chmod_private)
  with fsync_unchanged [OF run(2)] run(3) have three: "replaced_by st c (os_world s3)" by (simp add: lift_result_def)
  from verify_materialized_Inr [OF run(4)]
  have four: "os_world s4 = os_world s3" "proven_file env a (df_target (bw_files (os_world s3)))"
    by (simp_all add: file_at_def)
  obtain n h where nh: "nh = (n, h)" by (cases nh)
  from calculate_Inr [OF run(5) [unfolded nh]] four
  have five: "os_world s5 = os_world s4" "n = bm_size_bytes (ba_metadata a)" "h = bm_sha256 (ba_metadata a)"
    by (auto simp: file_at_def proven_file_def holds_backup_def)
  from run(6) nh obtain v s6 k where
    "check_sqlite env (be_database_path env) 10 At_target s5 = (Inr v, s6)"
    and p: "p = \<lparr>vr_backup_id = bm_backup_id (ba_metadata a), vr_database_path = be_database_path env,
           vr_size_bytes = n, vr_sha256 = h, vr_sqlite = v, vr_restored_at = be_now env k\<rparr>" "valid_restore_proof p" "t = s6"
    by (auto simp: fetch_def ret_def raise_def elim!: bnd_InrE split: if_splits)
  from check_sqlite_Inr [OF this(1)] p five four three show ?thesis
    by (auto simp: replaced_by_def)
qed

section \<open>A restore is all or nothing\<close>

definition is_recovery_error :: "exn \<Rightarrow> bool" where
  "is_recovery_error x \<longleftrightarrow> (case x of Dploy e \<Rightarrow> de_class e = RecoveryRequiredError | _ \<Rightarrow> False)"

lemma restore_failure_class [simp]: "is_recovery_error (restore_failure env replaced x) = replaced"
  by (cases replaced) (simp_all add: restore_failure_def is_recovery_error_def)

text \<open>
  The production database is exactly the stored backup, which matches its metadata and passed
  the checks, no side file is left, and the store is the one before.
\<close>

definition restored_world :: "backup_env \<Rightarrow> backup_artifact \<Rightarrow> backup_world \<Rightarrow> backup_world \<Rightarrow> bool" where
  "restored_world env a w w' \<longleftrightarrow>
     (case file_at (At_backup (bm_backup_id (ba_metadata a))) w of
        None \<Rightarrow> False
      | Some g \<Rightarrow> replaced_by (bw_store w) (f_content g) w' \<and> proven_file env a (Some (private_file (f_content g))))"

definition untouched_world :: "backup_world \<Rightarrow> backup_world \<Rightarrow> bool" where
  "untouched_world w w' \<longleftrightarrow> not_replaced (bw_store w) (df_target (bw_files w)) w'"

definition restore_outcome ::
  "backup_env \<Rightarrow> backup_artifact \<Rightarrow> backup_world \<Rightarrow> restore_proof result \<Rightarrow> backup_world \<Rightarrow> bool" where
  "restore_outcome env a w r w' \<longleftrightarrow> (case r of
      Inr p \<Rightarrow> restored_world env a w w' \<and> vr_backup_id p = bm_backup_id (ba_metadata a) \<and>
        vr_size_bytes p = bm_size_bytes (ba_metadata a) \<and> vr_sha256 p = bm_sha256 (ba_metadata a)
    | Inl x \<Rightarrow>
        if is_recovery_error x then restored_world env a w w'
        else if is_exception x then untouched_world w w'
        else untouched_world w w' \<or> restored_world env a w w')"

lemma restoring_Inr: "restoring env staged replaced m s = (Inr x, t) \<Longrightarrow> m s = (Inr x, t)"
  unfolding restoring_def by (erule on_exception_InrE) (rule andthen_raise)

lemma on_exception_InlE:
  assumes "on_exception m h s = (Inl e, t)"
  obtains x v where "m s = (Inl x, v)" "is_exception x" "h x v = (Inl e, t)"
    | "m s = (Inl e, t)" "\<not> is_exception e"
  using assms by (auto simp: on_exception_def catching_def raise_def split: prod.splits sum.splits if_splits)

lemma files_call_Inl: "files_call env f s = (Inl e, t) \<Longrightarrow> os_world t = os_world s \<and> (e = os_error \<or> e = killed)"
  by (auto simp: files_call_def syscall_def next_call_def split: fate.splits)

lemma cleanup_restore_runs:
  assumes "cleanup_restore env staged s = (r, t)" and "blind P" and "P (os_world s)"
  shows "P (os_world t) \<and> (r = Inr () \<or> r = Inl killed)"
proof (cases staged)
  case None
  with assms show ?thesis by (simp add: cleanup_restore_def ret_def)
next
  case (Some u)
  obtain q v where call: "files_call env (unstage_file u) s = (q, v)" by (cases "files_call env (unstage_file u) s")
  show ?thesis
  proof (cases q)
    case (Inl e)
    with call files_call_Inl [of env "unstage_file u" s e v] assms Some show ?thesis
      by (auto simp: cleanup_restore_def ignoring_def on_os_error_def catching_def ret_def raise_def split: if_splits)
  next
    case (Inr x)
    with call files_call_Inr [of env "unstage_file u" s x v] assms Some show ?thesis
      by (auto simp: cleanup_restore_def ignoring_def on_os_error_def catching_def)
  qed
qed

lemma restoring_Inl:
  assumes "restoring env staged replaced m s = (Inl e, t)" and "blind P"
    and "\<And>x v. m s = (Inl x, v) \<Longrightarrow> P (os_world v)"
  shows "P (os_world t) \<and> (is_exception e \<longrightarrow> (is_recovery_error e \<longleftrightarrow> replaced))"
proof -
  from assms(1) show ?thesis
    unfolding restoring_def
  proof (cases rule: on_exception_InlE)
    case 2
    with assms(3) show ?thesis by blast
  next
    case (1 x v)
    obtain q w where clean: "cleanup_restore env staged v = (q, w)" by (cases "cleanup_restore env staged v")
    from cleanup_restore_runs [OF clean assms(2) assms(3) [OF 1(1)]] 1(3) clean
    show ?thesis
      by (auto simp: andthen_def bnd_def raise_def is_exception_def killed_def)
  qed
qed

lemma stage_backup_Inr:
  assumes "stage_backup env a u s = (Inr v, t)"
  shows "v = u \<and> (\<exists>g. file_at (At_backup (bm_backup_id (ba_metadata a))) (os_world s) = Some g \<and>
    map_of (df_staged (bw_files (os_world t))) u = Some (private_file (f_content g)))"
  using assms unfolding stage_backup_def
  by (elim andthen_InrE) (auto dest!: materialize_Inr verify_materialized_Inr)

lemma untouched_outcome:
  assumes "not_replaced (bw_store w) (df_target (bw_files w)) w'" and "is_exception e \<longrightarrow> \<not> is_recovery_error e"
  shows "restore_outcome env a w (Inl e) w'"
  using assms by (auto simp: restore_outcome_def untouched_world_def is_exception_def is_recovery_error_def split: exn.splits)

lemma recovery_outcome:
  assumes "restored_world env a w w'" and "is_exception e \<longrightarrow> is_recovery_error e"
  shows "restore_outcome env a w (Inl e) w'"
  using assms by (simp add: restore_outcome_def)

lemma last_part_outcome:
  assumes "restoring env None True (prove_restored env inject a) s = (r, t)"
    and "replaced_by (bw_store w) (f_content g) (os_world s)" and "proven_file env a (Some (private_file (f_content g)))"
    and "file_at (At_backup (bm_backup_id (ba_metadata a))) w = Some g"
  shows "restore_outcome env a w r (os_world t)"
proof (cases r)
  case (Inl e)
  have kept: "replaced_by (bw_store w) (f_content g) (os_world v)" if "prove_restored env inject a s = (Inl x, v)" for x v
    using keepsD [OF keeps_replaced that] assms(2) by (simp add: of_world_def)
  from restoring_Inl [OF assms(1) [unfolded Inl] replaced_by_blind kept] assms(3,4) recovery_outcome
  show ?thesis unfolding Inl restored_world_def by simp
next
  case (Inr p)
  from prove_restored_Inr [OF restoring_Inr [OF assms(1) [unfolded Inr]] assms(2)] Inr assms(4)
  show ?thesis by (auto simp: restore_outcome_def restored_world_def)
qed

lemma later_parts_outcome:
  assumes "andthen (restoring env (Some u) False (replace_database env inject a u))
      (restoring env None True (prove_restored env inject a)) s = (r, t)"
    and "not_replaced (bw_store w) (df_target (bw_files w)) (os_world s)"
    and "file_at (At_backup (bm_backup_id (ba_metadata a))) w = Some g"
    and "map_of (df_staged (bw_files (os_world s))) u = Some (private_file (f_content g))"
  shows "restore_outcome env a w r (os_world t)"
proof -
  note second = replace_database_runs [OF _ assms(4,2)]
  obtain q v where two: "restoring env (Some u) False (replace_database env inject a u) s = (q, v)"
    by (cases "restoring env (Some u) False (replace_database env inject a u) s")
  show ?thesis
  proof (cases q)
    case (Inl e)
    with assms(1) two have end_state: "r = Inl e" "t = v" by (simp_all add: andthen_def bnd_def)
    have "not_replaced (bw_store w) (df_target (bw_files w)) (os_world z)"
      if "replace_database env inject a u s = (Inl x, z)" for x z
      using second [OF that] by simp
    from restoring_Inl [OF two [unfolded Inl] not_replaced_blind this] show ?thesis
      unfolding end_state by (intro untouched_outcome) simp_all
  next
    case (Inr x)
    from second [OF restoring_Inr [OF two [unfolded Inr]]]
    have "replaced_by (bw_store w) (f_content g) (os_world v)" "proven_file env a (Some (private_file (f_content g)))"
      by simp_all
    moreover from assms(1) two Inr have "restoring env None True (prove_restored env inject a) v = (r, t)"
      by (simp add: andthen_def bnd_def)
    ultimately show ?thesis by (intro last_part_outcome [OF _ _ _ assms(3)])
  qed
qed

lemma restore_outcomes:
  "case restore_verified_database env inject u a stopped traffic s of
     (r, t) \<Rightarrow> restore_outcome env a (os_world s) r (os_world t)"
proof -
  obtain r t where run: "restore_verified_database env inject u a stopped traffic s = (r, t)"
    by (cases "restore_verified_database env inject u a stopped traffic s")
  let ?kept = "\<lambda>s'. not_replaced (bw_store (os_world s)) (df_target (bw_files (os_world s))) (os_world s')"
  have start: "?kept s" by (simp add: not_replaced_def)
  have "restore_outcome env a (os_world s) r (os_world t)"
  proof (cases "traffic \<or> \<not> stopped \<or> \<not> is_absolute (be_database_path env) \<or> be_database_path env = artifact_path a")
    case True
    with run obtain e where "t = s" "r = Inl e" "\<not> is_recovery_error e"
      by (auto simp: restore_verified_database_def raise_def is_recovery_error_def value_error_def split: if_splits)
    with start show ?thesis by (auto intro: untouched_outcome)
  next
    case False
    obtain q v where one: "restoring env None False (stage_backup env a u) s = (q, v)"
      by (cases "restoring env None False (stage_backup env a u) s")
    from False run one have rest: "(case q of Inl e \<Rightarrow> (Inl e, v) | Inr staged \<Rightarrow>
        andthen (restoring env (Some staged) False (replace_database env inject a staged))
          (restoring env None True (prove_restored env inject a)) v) = (r, t)"
      by (simp add: restore_verified_database_def bnd_def)
    have staging: "?kept z" if "stage_backup env a u s = (p, z)" for p z
      using keepsD [OF keeps_stage_backup [OF not_replaced_blind] that] start by (simp add: of_world_def)
    show ?thesis
    proof (cases q)
      case (Inl e)
      have "?kept z" if "stage_backup env a u s = (Inl x, z)" for x z by (rule staging [OF that])
      from restoring_Inl [OF one [unfolded Inl] not_replaced_blind this]
      have "restore_outcome env a (os_world s) (Inl e) (os_world v)"
        by (intro untouched_outcome) simp_all
      with rest Inl show ?thesis by simp
    next
      case (Inr x)
      note first = restoring_Inr [OF one [unfolded Inr]]
      from stage_backup_Inr [OF first] obtain g where "x = u"
        "file_at (At_backup (bm_backup_id (ba_metadata a))) (os_world s) = Some g"
        "map_of (df_staged (bw_files (os_world v))) u = Some (private_file (f_content g))" by blast
      with rest Inr staging [OF first] show ?thesis by (intro later_parts_outcome) simp_all
    qed
  qed
  with run show ?thesis by simp
qed


section \<open>The restore of the final backup rests on this\<close>

text \<open>
  What the cutover needs of a backup engine: verifying changes nothing, and a restore leaves the
  backup in place of the database (\<open>occupied\<close>) or the database as it was (\<open>untouched\<close>), and its
  error tells which.
\<close>

locale restore_engine =
  fixes verify :: "string \<Rightarrow> ('w, exn, backup_artifact) act"
    and restore :: "backup_artifact \<Rightarrow> bool \<Rightarrow> bool \<Rightarrow> ('w, exn, restore_proof) act"
    and occupied :: "backup_artifact \<Rightarrow> 'w \<Rightarrow> 'w \<Rightarrow> bool"
    and untouched :: "'w \<Rightarrow> 'w \<Rightarrow> bool"
  assumes verify_reads: "verify i s = (r, t) \<Longrightarrow> untouched s t"
    and untouched_refl: "untouched s s"
    and untouched_trans: "untouched s u \<Longrightarrow> untouched u t \<Longrightarrow> untouched s t"
    and verify_occupied: "verify i s = (r, u) \<Longrightarrow> occupied a u t \<Longrightarrow> occupied a s t"
    and restore_returns: "restore a stopped traffic s = (Inr p, t) \<Longrightarrow> occupied a s t \<and>
      vr_backup_id p = bm_backup_id (ba_metadata a) \<and> vr_size_bytes p = bm_size_bytes (ba_metadata a) \<and>
      vr_sha256 p = bm_sha256 (ba_metadata a)"
    and restore_raises: "restore a stopped traffic s = (Inl x, t) \<Longrightarrow>
      (if is_recovery_error x then occupied a s t
       else if is_exception x then untouched s t else untouched s t \<or> occupied a s t)"
begin

definition cutover_outcome :: "backup_artifact \<Rightarrow> 'w \<Rightarrow> restore_proof result \<Rightarrow> 'w \<Rightarrow> bool" where
  "cutover_outcome a s r t \<longleftrightarrow> (case r of
      Inr p \<Rightarrow> occupied a s t \<and> vr_backup_id p = bm_backup_id (ba_metadata a) \<and>
        vr_sha256 p = bm_sha256 (ba_metadata a)
    | Inl x \<Rightarrow> if is_recovery_error x then occupied a s t
        else if is_exception x then untouched s t else untouched s t \<or> occupied a s t)"

lemma refused: "untouched s t \<Longrightarrow> \<not> is_recovery_error x \<Longrightarrow> cutover_outcome a s (Inl x) t"
  by (simp add: cutover_outcome_def)

lemma verified_final:
  assumes "verify_final_backup cenv ops a i changed s = (r, u)" and "co_verify_backup ops = verify"
  shows "untouched s u \<and> (\<forall>b. occupied b u t \<longrightarrow> occupied b s t) \<and>
    (case r of Inr v \<Rightarrow> v = a | Inl x \<Rightarrow> \<not> is_recovery_error x)"
proof -
  let ?i = "bm_backup_id (ba_metadata a)"
  obtain q v where run: "verify ?i s = (q, v)" by (cases "verify ?i s")
  from assms run have "u = v \<and> (case r of Inr w \<Rightarrow> w = a | Inl x \<Rightarrow> \<not> is_recovery_error x)"
    by (cases q) (auto simp: verify_final_backup_def bnd_def on_dploy_def catching_def raise_def ret_def
        final_backup_error_def is_recovery_error_def split: exn.splits if_splits)
  with verify_reads [OF run] verify_occupied [OF run] show ?thesis by blast
qed

lemma final_restore:
  assumes "co_verify_backup ops = verify" and "co_restore_database ops = restore"
    and "restore_final_backup cenv ops i stopped a traffic s = (r, t)"
  shows "cutover_outcome a s r t"
proof (cases "is_operation_id i \<and> stopped_proof_ok cenv stopped \<and> \<not> traffic")
  case False
  with assms(3) obtain x where "r = Inl x" "t = s" "\<not> is_recovery_error x"
    by (auto simp: restore_final_backup_def validated_operation_id_def require_stopped_def not_stopped_error_def
        bnd_def andthen_def lift_result_def raise_def ensure_def is_recovery_error_def validation_error_def value_error_def
        split: if_splits)
  with untouched_refl show ?thesis by (simp add: refused)
next
  case True
  with assms(3) have body: "bnd (verify_final_backup cenv ops a i True) (\<lambda>verified.
     bnd (restore verified True traffic) (\<lambda>restored.
     if vr_backup_id restored \<noteq> bm_backup_id (ba_metadata verified) \<or>
        vr_size_bytes restored \<noteq> bm_size_bytes (ba_metadata verified) \<or>
        vr_sha256 restored \<noteq> bm_sha256 (ba_metadata verified)
     then raise (Dploy (mk_error RecoveryRequiredError
            ''database rollback result contradicts the verified final backup''
            True (Some False) (Some (ce_database_path cenv))
            ''Keep applications stopped and verify the final backup manually.''))
     else ret restored)) s = (r, t)"
    by (simp add: restore_final_backup_def validated_operation_id_def require_stopped_def andthen_def bnd_def
        lift_result_def ensure_def assms(2))
  obtain q u where first: "verify_final_backup cenv ops a i True s = (q, u)"
    by (cases "verify_final_backup cenv ops a i True s")
  note facts = verified_final [OF first assms(1)]
  show ?thesis
  proof (cases q)
    case (Inl x)
    with body first facts [of t] show ?thesis by (auto simp: bnd_def intro: refused)
  next
    case (Inr v)
    obtain p w where second: "restore a True traffic u = (p, w)" by (cases "restore a True traffic u")
    show ?thesis
    proof (cases p)
      case (Inl x)
      with body first Inr facts [of t] second have "r = Inl x" "t = w" by (auto simp: bnd_def)
      with restore_raises [OF second [unfolded Inl]] facts [of t] untouched_trans show ?thesis
        by (auto simp: cutover_outcome_def split: if_splits)
    next
      case (Inr z)
      from restore_returns [OF second [unfolded Inr]] body first \<open>q = Inr v\<close> Inr facts [of t] second
      show ?thesis by (auto simp: bnd_def ret_def cutover_outcome_def)
    qed
  qed
qed

end

lemma keeps_verify_configured: "keeps (of_world P) (verify_configured_backup env i)"
  unfolding verify_configured_backup_def verify_backup_def Let_def by (intro keeping)

lemma restore_run_outcome:
  "restore_verified_database env inject u a stopped traffic s = (r, t) \<Longrightarrow> restore_outcome env a (os_world s) r (os_world t)"
  using restore_outcomes [where env = env and inject = inject and u = u and a = a and stopped = stopped
      and traffic = traffic and s = s] by simp

text \<open>The verification and the restore of the program are such an engine.\<close>

interpretation engine: restore_engine "verify_configured_backup env" "restore_verified_database env inject u"
  "\<lambda>a s t. restored_world env a (os_world s) (os_world t)" "\<lambda>s t. untouched_world (os_world s) (os_world t)"
  for env inject u
proof
  fix i s r t and a :: backup_artifact and s' t' :: "backup_world osys"
  assume "verify_configured_backup env i s = (r, t)"
  then have same: "os_world t = os_world s" by (rule unchanged [OF keeps_verify_configured])
  then show "untouched_world (os_world s) (os_world t)" by (simp add: untouched_world_def not_replaced_def)
  show "restored_world env a (os_world t) (os_world t') \<Longrightarrow> restored_world env a (os_world s) (os_world t')"
    using same by simp
next
  fix s u t :: "backup_world osys"
  show "untouched_world (os_world s) (os_world s)" by (simp add: untouched_world_def not_replaced_def)
  show "untouched_world (os_world s) (os_world u) \<Longrightarrow> untouched_world (os_world u) (os_world t) \<Longrightarrow>
      untouched_world (os_world s) (os_world t)"
    by (simp add: untouched_world_def not_replaced_def)
next
  fix a stopped traffic s p t
  assume "restore_verified_database env inject u a stopped traffic s = (Inr p, t)"
  from restore_run_outcome [OF this]
  show "restored_world env a (os_world s) (os_world t) \<and> vr_backup_id p = bm_backup_id (ba_metadata a) \<and>
      vr_size_bytes p = bm_size_bytes (ba_metadata a) \<and> vr_sha256 p = bm_sha256 (ba_metadata a)"
    by (simp add: restore_outcome_def)
next
  fix a stopped traffic s x t
  assume "restore_verified_database env inject u a stopped traffic s = (Inl x, t)"
  from restore_run_outcome [OF this]
  show "if is_recovery_error x then restored_world env a (os_world s) (os_world t)
      else if is_exception x then untouched_world (os_world s) (os_world t)
      else untouched_world (os_world s) (os_world t) \<or> restored_world env a (os_world s) (os_world t)"
    by (simp add: restore_outcome_def)
qed


end
