(* ===== verification/Manual_Restore_Order.thy ===== *)
theory Manual_Restore_Order
  imports Manual_Restore Restore
begin

text \<open>
  What a manual restore guarantees about the order of its calls: when it may replace the database,
  and what a restore that returns has done.
\<close>

section \<open>When the database may be replaced\<close>

text \<open>
  Of a trace, newest event first: at every replacement of the database the current application had
  been stopped, its database backed up and the start recorded, maintenance had not been lifted, and
  no activation of the previous release may have run.
\<close>

definition restore_started :: manual_event where
  "restore_started = M_returned (MC_stage OS_in_progress ''manual_restore_started'' True (Some False))"

definition lifted :: "manual_event list \<Rightarrow> bool" where
  "lifted tr \<longleftrightarrow> M_called (MC_hook TA_disable_maintenance) \<in> set tr"

definition previous_may_be_active :: "manual_event list \<Rightarrow> bool" where
  "previous_may_be_active tr \<longleftrightarrow>
     (\<exists>h. M_hook h \<in> set tr \<and> hr_action h = TA_activate_old \<and> restore_hook_may_have_run h)"

definition may_replace :: "application_handle \<Rightarrow> manual_event list \<Rightarrow> bool" where
  "may_replace current tr \<longleftrightarrow> M_returned (MC_stop current) \<in> set tr \<and> M_returned MC_create_backup \<in> set tr \<and>
     restore_started \<in> set tr \<and> \<not> lifted tr \<and> \<not> previous_may_be_active tr"

fun replacements_ok :: "application_handle \<Rightarrow> manual_event list \<Rightarrow> bool" where
  "replacements_ok current [] = True"
| "replacements_ok current (e # tr) =
    (replacements_ok current tr \<and> (case e of M_called (MC_restore b) \<Rightarrow> may_replace current tr | _ \<Rightarrow> True))"

text \<open>The invariant of the sequence, which relates the flags of the context to the trace.\<close>

definition manual_inv :: "application_handle \<Rightarrow> 'w manual_context \<Rightarrow> bool" where
  "manual_inv current s \<longleftrightarrow> replacements_ok current (mc_trace s) \<and>
     (mc_current_stopped s \<longrightarrow> M_returned (MC_stop current) \<in> set (mc_trace s)) \<and>
     (mc_pre_restore_backup s \<noteq> None \<longrightarrow> M_returned MC_create_backup \<in> set (mc_trace s)) \<and>
     (mc_database_replaced s \<longrightarrow> mc_current_stopped s \<and> mc_pre_restore_backup s \<noteq> None \<and>
        restore_started \<in> set (mc_trace s)) \<and>
     (previous_may_be_active (mc_trace s) \<longrightarrow> mc_traffic_activation_attempted s) \<and>
     (mc_database_replaced s \<longrightarrow> lifted (mc_trace s) \<longrightarrow> mc_normal_traffic_may_be_enabled s)"

text \<open>Events that none of this is about.\<close>

definition quiet :: "manual_event \<Rightarrow> bool" where
  "quiet e \<longleftrightarrow> (case e of
      M_called c \<Rightarrow> (\<forall>b. c \<noteq> MC_restore b) \<and> c \<noteq> MC_hook TA_disable_maintenance
    | M_returned c \<Rightarrow> True
    | M_hook h \<Rightarrow> hr_action h \<noteq> TA_activate_old)"

definition calm :: "('w manual_context \<Rightarrow> bool) \<Rightarrow> bool" where
  "calm A \<longleftrightarrow> (\<forall>s e w. A s \<longrightarrow> quiet e \<longrightarrow> A (s\<lparr>mc_trace := e # mc_trace s, mc_world := w\<rparr>))"

lemma calmI: "(\<And>s e w. A s \<Longrightarrow> quiet e \<Longrightarrow> A (s\<lparr>mc_trace := e # mc_trace s, mc_world := w\<rparr>)) \<Longrightarrow> calm A"
  by (simp add: calm_def)

lemma calm_event: "calm A \<Longrightarrow> A s \<Longrightarrow> quiet e \<Longrightarrow> A (s\<lparr>mc_trace := e # mc_trace s\<rparr>)"
  unfolding calm_def by (drule spec [of _ s], drule spec [of _ e], drule spec [of _ "mc_world s"]) simp

lemma calm_conj: "calm A \<Longrightarrow> calm B \<Longrightarrow> calm (\<lambda>s. A s \<and> B s)"
  by (simp add: calm_def)

lemma quiet_lifted [simp]: "quiet e \<Longrightarrow> lifted (e # tr) = lifted tr"
  by (auto simp: quiet_def lifted_def split: manual_event.splits)

lemma quiet_active [simp]: "quiet e \<Longrightarrow> previous_may_be_active (e # tr) = previous_may_be_active tr"
  by (auto simp: quiet_def previous_may_be_active_def)

lemma quiet_replacements [simp]: "quiet e \<Longrightarrow> replacements_ok current (e # tr) = replacements_ok current tr"
  by (auto simp: quiet_def split: manual_event.splits manual_call.splits)

lemma quiet_returned [simp]: "quiet (M_returned c)"
  by (simp add: quiet_def)

lemma calm_inv [simp]: "calm (manual_inv current)"
  by (rule calmI) (simp add: manual_inv_def del: replacements_ok.simps)

lemma in_manual_world_run:
  assumes "in_manual_world m s = (r, t)"
  obtains w where "t = s\<lparr>mc_world := w\<rparr>"
  using assms by (auto simp: in_manual_world_def split: prod.splits)

lemma request_Inr:
  assumes "request c m s = (Inr x, t)"
  obtains w where "t = s\<lparr>mc_trace := M_returned c # M_called c # mc_trace s, mc_world := w\<rparr>"
    and "m (mc_world s) = (Inr x, w)"
  using assms by (auto simp: request_def record_event_def act_defs in_manual_world_def split: prod.splits sum.splits)

lemma request_Inl:
  assumes "request c m s = (Inl e, t)"
  obtains w where "t = s\<lparr>mc_trace := M_called c # mc_trace s, mc_world := w\<rparr>" and "m (mc_world s) = (Inl e, w)"
  using assms by (auto simp: request_def record_event_def act_defs in_manual_world_def split: prod.splits sum.splits)

lemma triple_request:
  assumes "\<And>s w. P s \<Longrightarrow> E (s\<lparr>mc_trace := M_called c # mc_trace s, mc_world := w\<rparr>)"
    and "\<And>s w. P s \<Longrightarrow> Q (s\<lparr>mc_trace := M_returned c # M_called c # mc_trace s, mc_world := w\<rparr>)"
  shows "triple P (request c m) (\<lambda>_. Q) (\<lambda>_. E)"
  using assms by (intro tripleI) (auto elim!: request_Inr request_Inl)

lemma keeps_request:
  assumes "calm A" and "quiet (M_called c)"
  shows "keeps A (request c m)"
proof -
  have called: "A (s\<lparr>mc_trace := M_called c # mc_trace s, mc_world := w\<rparr>)" if "A s" for s w
    using assms that unfolding calm_def by blast
  moreover have "A (s\<lparr>mc_trace := M_returned c # M_called c # mc_trace s, mc_world := w\<rparr>)" if "A s" for s w
  proof -
    from called [OF that] have "A ((s\<lparr>mc_trace := M_called c # mc_trace s, mc_world := w\<rparr>)
        \<lparr>mc_trace := M_returned c # mc_trace (s\<lparr>mc_trace := M_called c # mc_trace s, mc_world := w\<rparr>), mc_world := w\<rparr>)"
      using assms(1) quiet_returned unfolding calm_def by blast
    then show ?thesis by simp
  qed
  ultimately show ?thesis unfolding keeps_def by (rule triple_request)
qed

lemma keeps_manual_stage [keeping]: "calm A \<Longrightarrow> keeps A (manual_stage run ops st stage message ev safety failure)"
  unfolding manual_stage_def by (rule keeps_request) (simp_all add: quiet_def)

lemma keeps_progress [keeping]: "calm A \<Longrightarrow> keeps A (manual_progress run ops stage message ev safety)"
  unfolding manual_progress_def by (intro keeping)

lemma keeps_note [keeping]: "calm A \<Longrightarrow> keeps A (manual_note run ops message ev)"
  unfolding manual_note_def by (intro keeping keeps_request) (simp_all add: quiet_def)

lemma keeps_record_hook [keeping]: "calm A \<Longrightarrow> keeps A (record_restore_hook run ops h)"
  unfolding record_restore_hook_def by (intro keeping)

lemma keeps_finish [keeping]: "calm A \<Longrightarrow> keeps A (finish_restore_failure run ops e)"
  unfolding finish_restore_failure_def Let_def
  by (intro keeping keeps_request) (simp_all add: quiet_def)

lemma keeps_the_backup [keeping]: "keeps A (the_backup get x)"
  unfolding the_backup_def by (intro keeping)

lemma keeps_raise_hook [keeping]: "keeps A (raise_restore_hook run h recovery)"
  unfolding raise_restore_hook_def by (intro keeping)

lemma keeps_hook:
  assumes "calm A" and "a \<noteq> TA_disable_maintenance" and "a \<noteq> TA_activate_old"
  shows "keeps A (manual_hook ops a)"
  unfolding manual_hook_def Let_def record_event_def
  using assms by (intro keeping keeps_request keeps_modify) (simp_all add: quiet_def calm_event)

text \<open>The positions of the sequence.\<close>

definition blocked :: "'w manual_context \<Rightarrow> bool" where
  "blocked s \<longleftrightarrow> \<not> lifted (mc_trace s) \<and> \<not> previous_may_be_active (mc_trace s) \<and>
     \<not> mc_normal_traffic_may_be_enabled s"

definition before_restore :: "application_handle \<Rightarrow> 'w manual_context \<Rightarrow> bool" where
  "before_restore current s \<longleftrightarrow> manual_inv current s \<and> blocked s \<and> \<not> mc_database_replaced s"

definition after_restore :: "application_handle \<Rightarrow> 'w manual_context \<Rightarrow> bool" where
  "after_restore current s \<longleftrightarrow> manual_inv current s \<and> blocked s \<and> mc_database_replaced s"

lemma calm_blocked [simp]: "calm blocked"
  by (rule calmI) (simp add: blocked_def)

lemma calm_positions [simp]: "calm (before_restore current)" "calm (after_restore current)"
  by (rule calmI; use calm_inv calm_blocked in \<open>auto simp: before_restore_def after_restore_def calm_def\<close>)+

lemma before_inv: "before_restore current s \<Longrightarrow> manual_inv current s"
  by (simp add: before_restore_def)

lemma after_inv: "after_restore current s \<Longrightarrow> manual_inv current s"
  by (simp add: after_restore_def)

lemma keeps_triple: "keeps I m \<Longrightarrow> (\<And>s. I s \<Longrightarrow> J s) \<Longrightarrow> triple I m (\<lambda>_. I) (\<lambda>_. J)"
  unfolding keeps_def by (erule triple_weaken) auto

lemma keeps_before: "keeps (before_restore c) m \<Longrightarrow> triple (before_restore c) m (\<lambda>_. before_restore c) (\<lambda>_. manual_inv c)"
  by (erule keeps_triple) (rule before_inv)

lemma keeps_after: "keeps (after_restore c) m \<Longrightarrow> triple (after_restore c) m (\<lambda>_. after_restore c) (\<lambda>_. manual_inv c)"
  by (erule keeps_triple) (rule after_inv)

text \<open>A step that moves a flag only.\<close>

lemma triple_flag: "(\<And>s. P s \<Longrightarrow> Q (f s)) \<Longrightarrow> triple P (modify f) (\<lambda>_. Q) E"
  by (simp add: triple_def modify_def)

lemma enable_positions:
  "triple (before_restore current) (enable_restore_maintenance run ops)
     (\<lambda>_. before_restore current) (\<lambda>_. manual_inv current)"
proof -
  let ?A = "before_restore current"
  let ?B = "\<lambda>s. manual_inv current s \<and> \<not> mc_database_replaced s"
  have calmB: "calm ?B" by (intro calm_conj calm_inv) (simp add: calm_def)
  have hook: "keeps ?A (manual_hook ops TA_enable_maintenance)"
    by (rule keeps_hook) simp_all
  have off: "triple ?A (manual_hook ops TA_disable_maintenance) (\<lambda>_. ?B) (\<lambda>_. manual_inv current)"
    unfolding manual_hook_def Let_def
    apply (rule triple_bnd [where R = "\<lambda>_. ?B"])
     apply (rule triple_request)
      apply (auto simp: before_restore_def manual_inv_def blocked_def previous_may_be_active_def) [2]
    apply (rule triple_andthen [where R = ?B])
     apply (auto simp: record_event_def manual_inv_def previous_may_be_active_def intro!: triple_flag) []
    apply (simp add: triple_def ret_def)
    done
  show ?thesis
    unfolding enable_restore_maintenance_def
    apply (rule triple_bnd [where R = "\<lambda>_. ?A", OF keeps_before [OF hook]])
    apply (rule triple_andthen [where R = ?A, OF keeps_before [OF keeps_record_hook]], simp)
    apply (rule triple_if)
     apply (rule triple_bnd [where R = "\<lambda>_. ?B", OF off])
     apply (rule triple_andthen [where R = ?B])
      apply (rule keeps_triple [OF keeps_record_hook [OF calmB]], simp)
     apply (rule triple_if)
      apply (simp add: triple_raise_stop triple_def raise_def)
     apply (simp add: raise_restore_hook_def triple_def bnd_def fetch_def raise_def)
    apply (rule triple_andthen [where R = ?A])
     apply (rule triple_flag)
     apply (simp add: before_restore_def manual_inv_def blocked_def)
    apply (rule keeps_before [OF keeps_progress], simp)
    done
qed

lemma stop_positions:
  assumes "current = sl_current_application (mu_selection run)"
  shows "triple (before_restore current) (stop_current_application run ops)
     (\<lambda>_ s. before_restore current s \<and> mc_current_stopped s) (\<lambda>_. manual_inv current)"
proof -
  let ?A = "before_restore current"
  let ?B = "\<lambda>s. ?A s \<and> mc_current_stopped s"
  have calmB: "calm ?B" by (intro calm_conj calm_positions) (simp add: calm_def)
  show ?thesis
    unfolding stop_current_application_def Let_def assms [symmetric]
    apply (rule triple_andthen [where R = ?A])
     apply (rule triple_flag)
     apply (simp add: before_restore_def manual_inv_def blocked_def)
    apply (rule triple_bnd [where R = "\<lambda>_ s. ?A s \<and> M_returned (MC_stop current) \<in> set (mc_trace s)"])
     apply (rule triple_request)
      apply (auto simp: before_restore_def manual_inv_def lifted_def previous_may_be_active_def blocked_def) [2]
    apply (rule triple_andthen [where R = ?B])
     apply (rule triple_flag)
     apply (simp add: before_restore_def manual_inv_def blocked_def)
    apply (rule keeps_triple [OF keeps_progress [OF calmB]])
    apply (simp add: before_restore_def)
    done
qed

lemma backup_positions:
  "triple (\<lambda>s. before_restore current s \<and> mc_current_stopped s) (back_up_current run ops)
     (\<lambda>_ s. before_restore current s \<and> mc_current_stopped s \<and> mc_pre_restore_backup s \<noteq> None)
     (\<lambda>_. manual_inv current)"
proof -
  let ?A = "\<lambda>s. before_restore current s \<and> mc_current_stopped s"
  let ?B = "\<lambda>s. before_restore current s \<and> mc_current_stopped s \<and> mc_pre_restore_backup s \<noteq> None"
  have calmB: "calm ?B" by (intro calm_conj calm_positions) (simp_all add: calm_def)
  have inv: "?B s \<Longrightarrow> manual_inv current s" for s by (simp add: before_restore_def)
  show ?thesis
    unfolding back_up_current_def Let_def
    apply (rule triple_bnd [where R = "\<lambda>_ s. ?A s \<and> M_returned MC_create_backup \<in> set (mc_trace s)"])
     apply (rule triple_request)
      apply (auto simp: before_restore_def manual_inv_def lifted_def previous_may_be_active_def blocked_def) [2]
    apply (rule triple_andthen [where R = ?B])
     apply (rule triple_flag)
     apply (simp add: before_restore_def manual_inv_def blocked_def)
    apply (rule triple_andthen [where R = ?B])
     apply (rule keeps_triple [OF keeps_progress [OF calmB]])
     apply (rule inv, assumption)
    apply (rule keeps_triple [OF keeps_request [OF calmB]])
     apply (simp add: quiet_def)
    apply (rule inv, assumption)
    done
qed

lemma restore_positions:
  "triple (\<lambda>s. before_restore current s \<and> mc_current_stopped s \<and> mc_pre_restore_backup s \<noteq> None)
     (restore_selected_database run ops) (\<lambda>_. after_restore current) (\<lambda>_. manual_inv current)"
proof -
  let ?A = "\<lambda>s. before_restore current s \<and> mc_current_stopped s \<and> mc_pre_restore_backup s \<noteq> None"
  let ?B = "\<lambda>s. ?A s \<and> restore_started \<in> set (mc_trace s)"
  have inv: "?A s \<Longrightarrow> manual_inv current s" for s by (simp add: before_restore_def)
  have start: "triple ?A (manual_progress run ops ''manual_restore_started''
      ''Production database replacement is starting with traffic blocked.'' [] (facts True (Some False) False))
      (\<lambda>_. ?B) (\<lambda>_. manual_inv current)"
    unfolding manual_progress_def manual_stage_def
    apply (rule triple_andthen [where R = ?B])
     apply (rule triple_request)
      apply (auto simp: before_restore_def manual_inv_def lifted_def previous_may_be_active_def blocked_def
        facts_def restore_started_def) [2]
    apply (simp add: triple_def ret_def)
    done
  show ?thesis
    unfolding restore_selected_database_def
    apply (rule triple_andthen [where R = ?B, OF start])
    apply (rule triple_bnd [where R = "\<lambda>_. ?B", OF keeps_triple [OF keeps_the_backup]])
     apply (simp add: before_restore_def)
    apply (rule triple_bnd [where R = "\<lambda>_. ?B"])
     apply (rule triple_request)
      apply (auto simp: before_restore_def manual_inv_def lifted_def previous_may_be_active_def blocked_def
        may_replace_def) [2]
    apply (rule triple_andthen [where R = "after_restore current"])
     apply (rule triple_flag)
     apply (auto simp: before_restore_def after_restore_def manual_inv_def blocked_def) []
    apply (rule triple_andthen [where R = "after_restore current"])
     apply (rule keeps_after [OF keeps_note], simp)
    apply (rule keeps_after [OF keeps_request])
     apply (simp_all add: quiet_def)
    done
qed

lemma restart_positions:
  "triple (after_restore current) (restart_selected_application run ops) (\<lambda>_. after_restore current) (\<lambda>_. manual_inv current)"
  unfolding restart_selected_application_def Let_def
  by (intro keeps_after keeping keeps_request keeps_modify)
    (auto simp: quiet_def after_restore_def manual_inv_def blocked_def)

lemma check_positions:
  "triple (after_restore current) (check_selected_release run ops) (\<lambda>_. after_restore current) (\<lambda>_. manual_inv current)"
  unfolding check_selected_release_def Let_def
  by (intro keeps_after keeping keeps_request) (simp_all add: quiet_def)

text \<open>Once the activation of the previous release may run, its flag is up.\<close>

definition activating :: "application_handle \<Rightarrow> 'w manual_context \<Rightarrow> bool" where
  "activating current s \<longleftrightarrow> manual_inv current s \<and> \<not> lifted (mc_trace s) \<and> mc_traffic_activation_attempted s"

lemma calm_activating [simp]: "calm (activating current)"
  by (rule calmI; use calm_inv in \<open>auto simp: activating_def calm_def\<close>)

lemma activating_inv: "activating current s \<Longrightarrow> manual_inv current s"
  by (simp add: activating_def)

lemma keeps_activating:
  "keeps (activating c) m \<Longrightarrow> triple (activating c) m (\<lambda>_. activating c) (\<lambda>_. manual_inv c)"
  by (erule keeps_triple) (rule activating_inv)

lemma old_hook_positions:
  "triple (\<lambda>s. after_restore current s \<and> mc_traffic_activation_attempted s) (manual_hook ops TA_activate_old)
     (\<lambda>h s. activating current s \<and> hr_action h = TA_activate_old \<and>
        (previous_may_be_active (mc_trace s) \<longrightarrow> restore_hook_may_have_run h)) (\<lambda>_. manual_inv current)"
proof -
  let ?A = "\<lambda>s. after_restore current s \<and> mc_traffic_activation_attempted s"
  have "keeps ?A (request (MC_hook TA_activate_old) (mo_run_hook ops TA_activate_old))"
    by (intro keeps_request calm_conj calm_positions) (simp_all add: quiet_def calm_def)
  then have first: "triple ?A (request (MC_hook TA_activate_old) (mo_run_hook ops TA_activate_old)) (\<lambda>_. ?A) (\<lambda>_. manual_inv current)"
    by (rule keeps_triple) (simp add: after_restore_def)
  show ?thesis
    unfolding manual_hook_def Let_def
    by (rule triple_bnd [OF first])
      (auto simp: triple_def andthen_def bnd_def record_event_def modify_def ret_def activating_def after_restore_def
        manual_inv_def blocked_def lifted_def previous_may_be_active_def)
qed

lemma activate_positions:
  "triple (after_restore current) (activate_selected_traffic run ops) (\<lambda>_. activating current) (\<lambda>_. manual_inv current)"
proof -
  let ?A = "\<lambda>s. after_restore current s \<and> mc_traffic_activation_attempted s"
  let ?H = "\<lambda>h s. activating current s \<and> hr_action h = TA_activate_old \<and>
    (previous_may_be_active (mc_trace s) \<longrightarrow> restore_hook_may_have_run h)"
  have calmA: "calm ?A" by (intro calm_conj calm_positions) (simp add: calm_def)
  have calmH: "calm (?H h)" for h by (intro calm_conj calm_activating) (simp_all add: calm_def)
  show ?thesis
    unfolding activate_selected_traffic_def
    apply (rule triple_andthen [where R = ?A])
     apply (rule triple_flag)
     apply (simp add: after_restore_def manual_inv_def blocked_def)
    apply (rule triple_andthen [where R = ?A])
     apply (rule keeps_triple [OF keeps_progress [OF calmA]])
     apply (simp add: after_restore_def)
    apply (rule triple_bnd [where R = ?H, OF old_hook_positions])
    apply (rule triple_andthen [where R = "?H h" for h])
     apply (rule keeps_triple [OF keeps_record_hook [OF calmH]])
     apply (simp add: activating_def)
    apply (rule triple_if)
     apply (rule triple_andthen [where R = "manual_inv current"])
      apply (rule triple_flag)
      apply (auto simp: activating_def manual_inv_def) []
     apply (simp add: raise_restore_hook_def triple_def bnd_def fetch_def raise_def)
    apply (rule triple_pre [OF keeps_activating [OF keeps_progress]], simp)
    apply simp
    done
qed

lemma expose_positions:
  "triple (activating current) (expose_selected_release run ops) (\<lambda>_. manual_inv current) (\<lambda>_. manual_inv current)"
proof -
  let ?N = "\<lambda>s. manual_inv current s \<and> mc_normal_traffic_may_be_enabled s"
  have calmN: "calm ?N" by (intro calm_conj calm_inv) (simp add: calm_def)
  have hook: "triple ?N (manual_hook ops TA_disable_maintenance) (\<lambda>_. ?N) (\<lambda>_. manual_inv current)"
    unfolding manual_hook_def Let_def
    apply (rule triple_bnd [where R = "\<lambda>_. ?N"])
     apply (rule triple_request)
      apply (auto simp: manual_inv_def previous_may_be_active_def) [2]
    apply (auto simp: triple_def andthen_def bnd_def record_event_def modify_def ret_def manual_inv_def
        previous_may_be_active_def lifted_def)
    done
  have inv: "?N s \<Longrightarrow> manual_inv current s" for s by simp
  show ?thesis
    unfolding expose_selected_release_def
    apply (rule triple_andthen [where R = ?N])
     apply (rule triple_flag)
     apply (simp add: activating_def manual_inv_def)
    apply (rule triple_andthen [where R = ?N])
     apply (rule keeps_triple [OF keeps_progress [OF calmN]], simp)
    apply (rule triple_bnd [where R = "\<lambda>_. ?N", OF hook])
    apply (rule triple_andthen [where R = ?N])
     apply (rule keeps_triple [OF keeps_record_hook [OF calmN]], simp)
    apply (rule triple_if)
     apply (simp add: raise_restore_hook_def triple_def bnd_def fetch_def raise_def)
    apply (rule triple_andthen [where R = "manual_inv current"])
     apply (rule triple_flag)
     apply (simp add: manual_inv_def)
    apply (rule keeps_triple [OF keeps_request])
      apply (simp_all add: quiet_def)
    done
qed

lemma keeps_activate_release: "calm A \<Longrightarrow> keeps A (activate_selected_release run ops)"
  unfolding activate_selected_release_def Let_def
  by (intro keeping keeps_request) (simp_all add: quiet_def)

lemma keeps_inspect_both: "calm A \<Longrightarrow> keeps A (inspect_both run ops)"
  unfolding inspect_both_def Let_def
  by (intro keeping keeps_request) (simp_all add: quiet_def)

lemma sequence_positions:
  assumes "current = sl_current_application (mu_selection run)"
  shows "triple (before_restore current) (manual_restore_sequence run ops) (\<lambda>_. manual_inv current) (\<lambda>_. manual_inv current)"
  unfolding manual_restore_sequence_def
  by (rule triple_andthen [OF keeps_before [OF keeps_inspect_both]], simp,
      rule triple_andthen [OF enable_positions], rule triple_andthen [OF stop_positions [OF assms]],
      rule triple_andthen [OF backup_positions], rule triple_andthen [OF restore_positions],
      rule triple_andthen [OF restart_positions], rule triple_andthen [OF check_positions],
      rule triple_andthen [OF activate_positions], rule triple_andthen [OF expose_positions],
      rule keeps_triple [OF keeps_activate_release]) simp_all

section \<open>The way back\<close>

definition history_ok :: "application_handle \<Rightarrow> 'w manual_context \<Rightarrow> bool" where
  "history_ok current s = replacements_ok current (mc_trace s)"

lemma calm_history [simp]: "calm (history_ok current)"
  by (rule calmI) (simp add: history_ok_def del: replacements_ok.simps)

lemma inv_history: "manual_inv current s \<Longrightarrow> history_ok current s"
  by (simp add: manual_inv_def history_ok_def)

lemma keeps_history_hook: "keeps (history_ok current) (manual_hook ops a)"
  unfolding manual_hook_def Let_def record_event_def
  apply (rule keeps_bnd)
   apply (simp add: keeps_def)
   apply (rule triple_request)
    apply (simp_all add: history_ok_def)
  apply (intro keeping keeps_modify)
  apply (simp add: history_ok_def)
  done

definition returning :: "application_handle \<Rightarrow> 'w manual_context \<Rightarrow> bool" where
  "returning current s \<longleftrightarrow> manual_inv current s \<and> \<not> mc_traffic_activation_attempted s \<and>
     \<not> mc_normal_traffic_may_be_enabled s"

lemma calm_returning [simp]: "calm (returning current)"
  unfolding returning_def by (intro calm_conj calm_inv) (simp_all add: calm_def)

lemma returning_replace:
  assumes "returning current s" and "mc_database_replaced s"
  shows "may_replace current (mc_trace s)"
  using assms by (auto simp: returning_def manual_inv_def may_replace_def)

lemma roll_back_positions:
  "triple (returning current) (roll_back_steps run ops) (\<lambda>_. history_ok current) (\<lambda>_. history_ok current)"
proof -
  let ?R = "returning current" and ?H = "history_ok current"
  have inv: "?R s \<Longrightarrow> ?H s" for s by (simp add: returning_def inv_history)
  have first: "keeps ?R (bnd (fetch mc_selected_running) (\<lambda>running. when_act running
      (andthen (request (MC_stop a) m) (modify (\<lambda>s. s\<lparr>mc_selected_running := False\<rparr>)))))"
    for a and m :: "('a, production_stop) world_act"
    by (intro keeping keeps_request keeps_modify) (auto simp: quiet_def returning_def manual_inv_def)
  have replace: "triple ?R (bnd (fetch mc_database_replaced) (\<lambda>replaced. when_act replaced
      (bnd (the_backup mc_pre_restore_backup pre_restore_missing) (\<lambda>backup.
        andthen (request (MC_restore backup) (mo_restore ops backup True False)) (ret ()))))) (\<lambda>_. ?H) (\<lambda>_. ?H)"
    apply (rule triple_fetch_bnd)
    apply (rule triple_when)
     apply (rule triple_bnd [where R = "\<lambda>_ s. ?R s \<and> mc_database_replaced s"])
      apply (rule triple_pre [OF keeps_triple [OF keeps_the_backup]])
       apply (auto intro: inv) [2]
     apply (rule triple_andthen [where R = ?H])
      apply (rule triple_request)
       apply (auto simp: history_ok_def returning_replace returning_def manual_inv_def) [2]
     apply (simp add: triple_def ret_def)
    apply (auto intro: inv)
    done
  have rest: "keeps ?H m \<Longrightarrow> triple ?H m (\<lambda>_. ?H) (\<lambda>_. ?H)" for m :: "('a, 'b) manual_act"
    by (simp add: keeps_def)
  show ?thesis
    unfolding roll_back_steps_def Let_def
    apply (rule triple_andthen [OF keeps_triple [OF first inv]], assumption)
    apply (rule triple_andthen [OF replace])
    apply (fold keeps_def)
    apply (intro keeping keeps_history_hook keeps_request)
                     apply (simp_all add: quiet_def)
    done
qed

lemma rollback_positions:
  "triple (returning current) (rollback_manual_restore run ops e) (\<lambda>_. history_ok current) (\<lambda>_. history_ok current)"
  unfolding rollback_manual_restore_def on_exception_def
  apply (rule triple_andthen [where R = "history_ok current"])
   apply (rule triple_catching [OF roll_back_positions])
   apply (fold keeps_def)
   apply (intro keeping)+
  done

lemma handle_positions:
  "triple (manual_inv current) (handle_restore_failure run ops x) (\<lambda>_. history_ok current) (\<lambda>_. history_ok current)"
proof -
  let ?H = "history_ok current"
  have finish: "triple ?H (andthen (finish_restore_failure run ops e) (raise y)) (\<lambda>_. ?H) (\<lambda>_. ?H)" for e y
    unfolding keeps_def [symmetric] by (intro keeping) simp
  have inv: "\<And>s. manual_inv current s \<Longrightarrow> ?H s" by (rule inv_history)
  show ?thesis
    unfolding handle_restore_failure_def Let_def
    apply (rule triple_fetch_bnd)
    subgoal for s
      apply (cases "normalize_restore_error run s x")
       apply (simp add: triple_def raise_def inv_history)
      apply simp
      apply (intro conjI impI)
         apply (rule triple_pre [OF finish], simp add: inv_history)+
      apply (rule triple_bnd [where R = "\<lambda>_. ?H", OF _ finish])
      apply (rule triple_pre [where P = "returning current"])
       apply (unfold on_dploy_def)
       apply (rule triple_catching [OF rollback_positions])
       subgoal for _ e by (cases e) (use finish in \<open>simp_all add: triple_def raise_def\<close>)
      apply (simp add: returning_def)
      done
    done
qed

lemma run_positions:
  assumes "current = sl_current_application (mu_selection run)"
  shows "triple (before_restore current) (run_manual_restore run ops) (\<lambda>_. history_ok current) (\<lambda>_. history_ok current)"
  unfolding run_manual_restore_def
  by (rule triple_catching [OF triple_weaken [OF sequence_positions [OF assms]] handle_positions])
    (simp_all add: inv_history)

lemma fresh_position: "before_restore current ((new_manual_context w)\<lparr>mc_selected_backup := b\<rparr>)"
  by (simp add: before_restore_def manual_inv_def blocked_def new_manual_context_def lifted_def previous_may_be_active_def)

lemma keeps_world [keeping]: "calm A \<Longrightarrow> (\<And>s w. A s \<Longrightarrow> A (s\<lparr>mc_world := w\<rparr>)) \<Longrightarrow> keeps A (in_manual_world m)"
  by (rule keepsI) (auto elim: in_manual_world_run)

lemma keeps_finally: "triple P m (\<lambda>_. I) (\<lambda>_. I) \<Longrightarrow> keeps I c \<Longrightarrow> triple P (finally_act m c) (\<lambda>_. I) (\<lambda>_. I)"
proof -
  assume m: "triple P m (\<lambda>_. I) (\<lambda>_. I)" and c: "keeps I c"
  have "I t" if pre: "P s" and fin: "finally_act m c s = (r, t)" for s r t
  proof -
    obtain q u where run: "m s = (q, u)" by (cases "m s")
    have "I u" using tripleD_Inl [OF m pre] tripleD_Inr [OF m pre] run by (cases q) auto
    moreover obtain v where "c u = (v, t)"
      using fin run by (auto simp: finally_act_def split: prod.splits sum.splits)
    ultimately show ?thesis using keepsD [OF c] by blast
  qed
  then show ?thesis by (intro tripleI)
qed

text \<open>
  C19. A manual restore replaces the production database, with the selected backup or on the way
  back with the backup made before, only after the current application was stopped, its database
  backed up and the start recorded durably, and only while maintenance was never lifted and no hook
  that activates the previous release may have run; whatever the stores, the applications, the
  hooks and the backups do.
\<close>

theorem manual_restores_are_blocked:
  "replacements_ok (sl_current_application (mu_selection run))
     (mc_trace (snd (guarded_manual_restore run ops (new_manual_context w))))"
proof -
  let ?c = "sl_current_application (mu_selection run)"
  let ?start = "\<lambda>s. \<exists>b w. s = (new_manual_context w)\<lparr>mc_selected_backup := b\<rparr>"
  let ?H = "history_ok ?c"
  have world: "?H s \<Longrightarrow> ?H (s\<lparr>mc_world := w\<rparr>)" for s w by (simp add: history_ok_def)
  have start: "?start s \<Longrightarrow> ?H s" for s
    by (elim exE) (simp add: inv_history [OF before_inv [OF fresh_position]])
  have opened: "triple ?start (in_manual_world m) (\<lambda>_. ?start) (\<lambda>_. ?start)" for m
    by (rule tripleI) (auto elim!: in_manual_world_run simp: new_manual_context_def)
  have body: "triple ?start (run_manual_restore run ops) (\<lambda>_. ?H) (\<lambda>_. ?H)"
    by (rule triple_pre [OF run_positions [OF refl]]) (elim exE, simp add: fresh_position)
  have inner: "triple ?start (bnd (in_manual_world (mo_open_backup ops i)) (\<lambda>backup. finally_act
      (andthen (modify (\<lambda>s. s\<lparr>mc_selected_backup := Some backup\<rparr>)) (run_manual_restore run ops))
      (in_manual_world (mo_close_backup ops backup)))) (\<lambda>_. ?H) (\<lambda>_. ?H)" for i
    apply (rule triple_bnd [OF triple_weaken [OF opened]], assumption, assumption)
     apply (erule start)
    apply (rule keeps_finally)
     apply (rule triple_andthen [OF _ body])
     apply (rule triple_flag)
     apply (elim exE)
     apply (rule exI)+
     apply simp
    apply (intro keeps_world calm_history world)
    apply assumption
    done
  have handler: "keeps ?H (case x of Dploy e \<Rightarrow> andthen (finish_restore_failure run ops e) (raise x)
      | _ \<Rightarrow> if \<not> is_exception x then raise x else bnd (fetch (\<lambda>s. restore_crashed run s x)) (\<lambda>recovery.
          andthen (finish_restore_failure run ops recovery) (raise (Dploy recovery))))" for x
    by (intro keeping keeps_exn calm_history)
  have "triple ?start (guarded_manual_restore run ops) (\<lambda>_. ?H) (\<lambda>_. ?H)"
    unfolding guarded_manual_restore_def
    by (rule keeps_finally [OF triple_catching [OF inner handler [unfolded keeps_def]]])
      (intro keeps_world calm_history world)
  moreover have "?start (new_manual_context w)"
    by (intro exI [where x = None] exI [where x = w]) (simp add: new_manual_context_def)
  ultimately have "?H (snd (guarded_manual_restore run ops (new_manual_context w)))"
    using tripleD_Inl tripleD_Inr by (cases "guarded_manual_restore run ops (new_manual_context w)"; cases "fst (guarded_manual_restore run ops (new_manual_context w))") fastforce+
  then show ?thesis by (simp add: history_ok_def)
qed

section \<open>A restore that returns\<close>

datatype manual_step = Did manual_call | Hook_passed traffic_action | Hook_failed traffic_action

definition step_of :: "manual_event \<Rightarrow> manual_step list" where
  "step_of e = (case e of
      M_called _ \<Rightarrow> []
    | M_returned c \<Rightarrow> [Did c]
    | M_hook h \<Rightarrow> [if hook_passed h then Hook_passed (hr_action h) else Hook_failed (hr_action h)])"

definition steps_done :: "'w manual_context \<Rightarrow> manual_step list" where
  "steps_done s = concat (map step_of (rev (mc_trace s)))"

definition stage_done :: "string \<Rightarrow> bool \<Rightarrow> bool \<Rightarrow> manual_step" where
  "stage_done stage changed running = Did (MC_stage OS_in_progress stage changed (Some running))"

definition hook_done :: "traffic_action \<Rightarrow> manual_step list" where
  "hook_done a = [Did (MC_hook a), Hook_passed a, Did MC_event]"

definition manual_protocol :: "restore_selection \<Rightarrow> backup_artifact \<Rightarrow> manual_step list" where
  "manual_protocol sel b =
     [Did (MC_inspect (sl_current_application sel) True), Did (MC_inspect (sl_selected_application sel) False),
      Did MC_event] @
     (hook_done TA_enable_maintenance @ [stage_done ''manual_restore_maintenance_enabled'' False True]) @
     [Did (MC_stop (sl_current_application sel)), stage_done ''manual_restore_current_app_stopped'' False False] @
     [Did MC_create_backup, stage_done ''manual_restore_prepared'' False False,
      Did (MC_fault_point ''after_pre_restore_backup'')] @
     [stage_done ''manual_restore_started'' True False, Did (MC_restore b), Did MC_event,
      Did (MC_fault_point ''after_database_restore'')] @
     [Did (MC_restart (sl_selected_application sel)), Did MC_event] @
     [Did MC_check_database, Did (MC_check_health (rm_requested_version (sl_selected sel))),
      stage_done ''manual_restore_selected_healthy'' True True, Did (MC_fault_point ''before_traffic_activation'')] @
     (stage_done ''manual_restore_traffic_activation_started'' True True # hook_done TA_activate_old @
      [stage_done ''manual_restore_traffic_target_selected'' True True]) @
     (stage_done ''manual_restore_maintenance_disable_started'' True True # hook_done TA_disable_maintenance @
      [Did (MC_fault_point ''after_traffic_activation'')]) @
     [Did (MC_activate (rm_release_id (sl_selected sel))),
      Did (MC_stage OS_succeeded ''manual_restore_completed'' True (Some True))]"

text \<open>
  A computation that, when it returns, has appended the given steps, for the opened backup if one
  is given.
\<close>

named_theorems doing "rules for the steps of a computation that returns"

definition opened_as :: "backup_artifact option \<Rightarrow> 'w manual_context \<Rightarrow> bool" where
  "opened_as b s \<longleftrightarrow> b = None \<or> mc_selected_backup s = b"

definition does :: "backup_artifact option \<Rightarrow> manual_step list \<Rightarrow> ('w, 'a) manual_act \<Rightarrow> bool" where
  "does b seg m \<longleftrightarrow> (\<forall>s x t. opened_as b s \<longrightarrow> m s = (Inr x, t) \<longrightarrow>
     mc_selected_backup t = mc_selected_backup s \<and> steps_done t = steps_done s @ seg)"

lemma doesD:
  "does b seg m \<Longrightarrow> opened_as b s \<Longrightarrow> m s = (Inr x, t) \<Longrightarrow>
   mc_selected_backup t = mc_selected_backup s \<and> steps_done t = steps_done s @ seg"
  unfolding does_def by blast

lemma opened_as_same: "opened_as b s \<Longrightarrow> mc_selected_backup t = mc_selected_backup s \<Longrightarrow> opened_as b t"
  by (simp add: opened_as_def)

lemma does_pure [doing]:
  "does b [] (ret x)" "does b [] (fetch f)" "does b [] (lift_result r)"
  by (simp_all add: does_def ret_def fetch_def lift_result_def)

lemma does_raise [doing]: "does b seg (raise e)"
  by (simp add: does_def raise_def)

lemma does_bnd: "does b p m \<Longrightarrow> (\<And>x. does b q (f x)) \<Longrightarrow> does b (p @ q) (bnd m f)"
proof -
  assume m: "does b p m" and f: "\<And>x. does b q (f x)"
  have "mc_selected_backup t = mc_selected_backup s \<and> steps_done t = steps_done s @ p @ q"
    if b: "opened_as b s" and run: "bnd m f s = (Inr x, t)" for s x t
  proof -
    from run obtain y u where first: "m s = (Inr y, u)" and second: "f y u = (Inr x, t)" by (rule bnd_InrE)
    from doesD [OF m b first] have u: "mc_selected_backup u = mc_selected_backup s" "steps_done u = steps_done s @ p"
      by simp_all
    from doesD [OF f [of y] opened_as_same [OF b u(1)] second] show ?thesis unfolding u by simp
  qed
  then show ?thesis unfolding does_def by blast
qed

lemma does_andthen: "does b p m \<Longrightarrow> does b q n \<Longrightarrow> does b (p @ q) (andthen m n)"
  unfolding andthen_def by (rule does_bnd)

lemma does_flag [doing]:
  "(\<And>s. mc_selected_backup (f s) = mc_selected_backup s \<and> mc_trace (f s) = mc_trace s) \<Longrightarrow> does b [] (modify f)"
  by (simp add: does_def modify_def steps_done_def)

lemma does_request [doing]: "does b [Did c] (request c m)"
  unfolding does_def by (auto elim!: request_Inr simp: steps_done_def step_of_def)

lemma does_if: "does b seg m \<Longrightarrow> does b seg n \<Longrightarrow> does b seg (if c then m else n)"
  by simp

lemma does_seq:
  "does b p m \<Longrightarrow> does b q n \<Longrightarrow> seg = p @ q \<Longrightarrow> does b seg (andthen m n)"
  "does b p m \<Longrightarrow> (\<And>x. does b q (f x)) \<Longrightarrow> seg = p @ q \<Longrightarrow> does b seg (bnd m f)"
  by (simp_all add: does_andthen does_bnd)

lemma does_stage [doing]:
  "does b [Did (MC_stage st stage (sf_production_changed safety) (sf_previous_application_running safety))]
     (manual_stage run ops st stage message ev safety failure)"
  unfolding manual_stage_def by (rule doing)

lemma does_progress [doing]:
  "does b [stage_done stage changed running] (manual_progress run ops stage message ev (facts changed (Some running) r))"
  unfolding manual_progress_def
  by (rule does_seq [OF does_stage does_pure(1)]) (simp add: facts_def stage_done_def)

lemma does_note [doing]: "does b [Did MC_event] (manual_note run ops message ev)"
  unfolding manual_note_def by (rule does_seq [OF does_request does_pure(1)]) simp

lemma does_record [doing]: "does b [Did MC_event] (record_restore_hook run ops h)"
  unfolding record_restore_hook_def by (rule does_seq(2) [OF does_pure(3) does_note]) simp

text \<open>A hook whose failure raises.\<close>

lemma raises_never: "bnd (fetch f) (\<lambda>e. raise (g e)) s \<noteq> (Inr x, t)"
  by (simp add: bnd_def fetch_def raise_def)

lemma does_hook:
  assumes "\<And>h. hook_passed h \<Longrightarrow> does b q (n h)" and "\<And>h s x t. \<not> hook_passed h \<Longrightarrow> l h s \<noteq> (Inr x, t)"
  shows "does b (hook_done a @ q)
    (bnd (manual_hook ops a) (\<lambda>h. andthen (record_restore_hook run ops h) (if \<not> hook_passed h then l h else n h)))"
  unfolding does_def
proof (intro allI impI)
  fix s x t
  assume b: "opened_as b s"
    and run: "bnd (manual_hook ops a) (\<lambda>h. andthen (record_restore_hook run ops h)
      (if \<not> hook_passed h then l h else n h)) s = (Inr x, t)"
  then obtain h u y v where hook: "manual_hook ops a s = (Inr h, u)" and recorded: "record_restore_hook run ops h u = (Inr y, v)"
    and rest: "(if \<not> hook_passed h then l h else n h) v = (Inr x, t)"
    by (elim bnd_InrE andthen_InrE)
  from rest assms(2) have passed: "hook_passed h" by (cases "hook_passed h") auto
  from hook obtain c where h: "h = \<lparr>hr_action = a, hr_command = c\<rparr>"
    and u: "mc_trace u = M_hook h # M_returned (MC_hook a) # M_called (MC_hook a) # mc_trace s"
      "mc_selected_backup u = mc_selected_backup s"
    unfolding manual_hook_def Let_def
    by (elim bnd_InrE request_Inr) (auto simp: andthen_def bnd_def record_event_def modify_def ret_def)
  have first: "steps_done u = steps_done s @ [Did (MC_hook a), Hook_passed a]"
    using passed by (simp add: u h steps_done_def step_of_def)
  from doesD [OF does_record opened_as_same [OF b u(2)] recorded]
  have second: "mc_selected_backup v = mc_selected_backup u" "steps_done v = steps_done u @ [Did MC_event]"
    by simp_all
  from rest passed have "n h v = (Inr x, t)" by simp
  from doesD [OF assms(1) [OF passed] opened_as_same [OF opened_as_same [OF b u(2)] second(1)] this]
  show "mc_selected_backup t = mc_selected_backup s \<and> steps_done t = steps_done s @ hook_done a @ q"
    by (simp add: first second u(2) hook_done_def)
qed

lemma inspect_does:
  "does b [Did (MC_inspect (sl_current_application (mu_selection run)) True),
     Did (MC_inspect (sl_selected_application (mu_selection run)) False), Did MC_event] (inspect_both run ops)"
  unfolding inspect_both_def Let_def
  by (rule does_seq(2) [OF does_request does_seq(2) [OF does_request does_note]]) simp_all

lemma cleanup_never:
  "bnd (manual_hook ops a) (\<lambda>cleanup. andthen (record_restore_hook run ops cleanup)
     (if \<not> hook_passed cleanup then raise e else raise_restore_hook run h r)) s \<noteq> (Inr x, t)"
  by (auto simp: raise_restore_hook_def raise_def raises_never elim!: bnd_InrE andthen_InrE split: if_splits)

lemma enable_does:
  "does b (hook_done TA_enable_maintenance @ [stage_done ''manual_restore_maintenance_enabled'' False True])
     (enable_restore_maintenance run ops)"
  unfolding enable_restore_maintenance_def
  by (rule does_hook, rule does_seq(1) [OF does_flag does_progress]) (simp_all add: cleanup_never)

lemma stop_does:
  "does b [Did (MC_stop (sl_current_application (mu_selection run))),
     stage_done ''manual_restore_current_app_stopped'' False False] (stop_current_application run ops)"
  unfolding stop_current_application_def Let_def
  by (rule does_seq(1) [OF does_flag does_seq(2) [OF does_request does_seq(1) [OF does_flag does_progress]]])
    simp_all

lemma backup_does:
  "does b [Did MC_create_backup, stage_done ''manual_restore_prepared'' False False,
     Did (MC_fault_point ''after_pre_restore_backup'')] (back_up_current run ops)"
  unfolding back_up_current_def
  by (rule does_seq(2) [OF does_request does_seq(1) [OF does_flag does_seq(1) [OF does_progress does_request]]])
    simp_all

lemma the_backup_selected: "the_backup mc_selected_backup e s = (Inr a, t) \<Longrightarrow> t = s \<and> mc_selected_backup s = Some a"
  by (auto simp: the_backup_def bnd_def fetch_def raise_def ret_def split: option.splits)

lemma restore_does:
  "does (Some b) [stage_done ''manual_restore_started'' True False, Did (MC_restore b), Did MC_event,
     Did (MC_fault_point ''after_database_restore'')] (restore_selected_database run ops)"
proof -
  have rest: "does (Some b) [Did (MC_restore b), Did MC_event, Did (MC_fault_point ''after_database_restore'')]
      (bnd (request (MC_restore b) (mo_restore ops b True False)) (\<lambda>proof.
        andthen (modify (\<lambda>s. s\<lparr>mc_database_restore := Some proof, mc_database_replaced := True\<rparr>))
       (andthen (manual_note run ops ''The selected previous database was restored and verified.''
          [(''database_restore'', restore_proof_json (ma_utc (mu_env run)) proof)])
        (request (MC_fault_point ''after_database_restore'') (mo_inject ops ''after_database_restore'')))))"
    by (rule does_seq(2) [OF does_request does_seq(1) [OF does_flag does_seq(1) [OF does_note does_request]]])
      simp_all
  then have "does (Some b) [Did (MC_restore b), Did MC_event, Did (MC_fault_point ''after_database_restore'')]
      (bnd (the_backup mc_selected_backup assertion_error) (\<lambda>backup.
        bnd (request (MC_restore backup) (mo_restore ops backup True False)) (\<lambda>proof.
        andthen (modify (\<lambda>s. s\<lparr>mc_database_restore := Some proof, mc_database_replaced := True\<rparr>))
       (andthen (manual_note run ops ''The selected previous database was restored and verified.''
          [(''database_restore'', restore_proof_json (ma_utc (mu_env run)) proof)])
        (request (MC_fault_point ''after_database_restore'') (mo_inject ops ''after_database_restore''))))))"
    unfolding does_def
  proof (intro allI impI, elim bnd_InrE [where m = "the_backup mc_selected_backup assertion_error"])
    fix s x t a u
    assume b: "opened_as (Some b) s" and got: "the_backup mc_selected_backup assertion_error s = (Inr a, u)"
      and run: "bnd (request (MC_restore a) (mo_restore ops a True False)) (\<lambda>proof.
        andthen (modify (\<lambda>s. s\<lparr>mc_database_restore := Some proof, mc_database_replaced := True\<rparr>))
       (andthen (manual_note run ops ''The selected previous database was restored and verified.''
          [(''database_restore'', restore_proof_json (ma_utc (mu_env run)) proof)])
        (request (MC_fault_point ''after_database_restore'') (mo_inject ops ''after_database_restore'')))) u = (Inr x, t)"
    from the_backup_selected [OF got] b have "u = s" "a = b" by (simp_all add: opened_as_def)
    with doesD [OF rest b] run
    show "mc_selected_backup t = mc_selected_backup s \<and> steps_done t = steps_done s @ [Did (MC_restore b), Did MC_event,
        Did (MC_fault_point ''after_database_restore'')]"
      by simp
  qed
  then show ?thesis
    unfolding restore_selected_database_def by (rule does_seq(1) [OF does_progress]) simp
qed

lemma restart_does:
  "does b [Did (MC_restart (sl_selected_application (mu_selection run))), Did MC_event]
     (restart_selected_application run ops)"
  unfolding restart_selected_application_def Let_def
  by (rule does_seq(1) [OF does_flag does_seq(2) [OF does_request does_seq(1) [OF does_flag does_note]]])
    simp_all

lemma check_does:
  "does b [Did MC_check_database, Did (MC_check_health (rm_requested_version (sl_selected (mu_selection run)))),
     stage_done ''manual_restore_selected_healthy'' True True, Did (MC_fault_point ''before_traffic_activation'')]
     (check_selected_release run ops)"
  unfolding check_selected_release_def Let_def
  by (rule does_seq(2) [OF does_request does_seq(2) [OF does_request
        does_seq(2) [OF does_pure(3) does_seq(1) [OF does_progress does_request]]]]) simp_all

lemma activate_does:
  "does b (stage_done ''manual_restore_traffic_activation_started'' True True # hook_done TA_activate_old @
     [stage_done ''manual_restore_traffic_target_selected'' True True]) (activate_selected_traffic run ops)"
proof -
  have hook: "does b (hook_done TA_activate_old @ [stage_done ''manual_restore_traffic_target_selected'' True True])
      (bnd (manual_hook ops TA_activate_old) (\<lambda>h.
        andthen (record_restore_hook run ops h)
       (if \<not> hook_passed h
        then andthen (modify (\<lambda>s. s\<lparr>mc_traffic_activation_attempted := restore_hook_may_have_run h\<rparr>))
               (raise_restore_hook run h False)
        else manual_progress run ops ''manual_restore_traffic_target_selected''
          ''The selected previous traffic target is active behind maintenance.''
          [(''traffic_hook'', hook_as_evidence h)] (facts True (Some True) False))))"
    by (rule does_hook) (auto simp: raise_restore_hook_def raises_never intro: does_progress elim!: andthen_InrE)
  show ?thesis
    unfolding activate_selected_traffic_def
    by (rule does_seq(1) [OF does_flag does_seq(1) [OF does_progress hook]]) simp_all
qed

lemma expose_does:
  "does b (stage_done ''manual_restore_maintenance_disable_started'' True True # hook_done TA_disable_maintenance @
     [Did (MC_fault_point ''after_traffic_activation'')]) (expose_selected_release run ops)"
proof -
  have hook: "does b (hook_done TA_disable_maintenance @ [Did (MC_fault_point ''after_traffic_activation'')])
      (bnd (manual_hook ops TA_disable_maintenance) (\<lambda>h.
        andthen (record_restore_hook run ops h)
       (if \<not> hook_passed h then raise_restore_hook run h True
        else andthen (modify (\<lambda>s. s\<lparr>mc_maintenance_enabled := False\<rparr>))
          (request (MC_fault_point ''after_traffic_activation'') (mo_inject ops ''after_traffic_activation'')))))"
    by (rule does_hook, rule does_seq(1) [OF does_flag does_request])
      (simp_all add: raise_restore_hook_def raises_never)
  show ?thesis
    unfolding expose_selected_release_def
    by (rule does_seq(1) [OF does_flag does_seq(1) [OF does_progress hook]]) simp_all
qed

lemma release_does:
  "does b [Did (MC_activate (rm_release_id (sl_selected (mu_selection run)))),
     Did (MC_stage OS_succeeded ''manual_restore_completed'' True (Some True))] (activate_selected_release run ops)"
proof -
  have backup: "does b [] (the_backup get e)" for get e
    unfolding the_backup_def
    by (rule does_seq(2) [OF does_pure(2), where q = "[]"]) (auto intro: doing split: option.splits)
  show ?thesis
    unfolding activate_selected_release_def Let_def
    apply (rule does_seq(2) [OF does_request])
     apply (rule does_seq(2) [OF backup])
      apply (rule does_seq(2) [OF does_pure(2)])
       apply (case_tac xb)
        apply (simp add: does_raise)
       apply simp
       apply (rule does_seq(2) [OF does_stage does_pure(1)])
       apply (rule refl)
      apply (simp_all add: facts_def)
    done
qed

lemma sequence_does: "does (Some b) (manual_protocol (mu_selection run) b) (manual_restore_sequence run ops)"
  unfolding manual_restore_sequence_def manual_protocol_def
  by (rule does_andthen inspect_does enable_does stop_does backup_does restore_does restart_does
      check_does activate_does expose_does release_does)+

text \<open>A computation that only raises.\<close>

definition raises :: "('s, 'e, 'a) act \<Rightarrow> bool" where
  "raises m \<longleftrightarrow> (\<forall>s x t. m s \<noteq> (Inr x, t))"

named_theorems raising "rules for the computations that only raise"

lemma raises_raise [raising]: "raises (raise e)"
  by (simp add: raises_def raise_def)

lemma raises_bnd [raising]: "(\<And>x. raises (f x)) \<Longrightarrow> raises (bnd m f)"
  unfolding raises_def by (blast elim: bnd_InrE)

lemma raises_andthen [raising]: "raises n \<Longrightarrow> raises (andthen m n)"
  unfolding raises_def by (blast elim: andthen_InrE)

lemma raises_branches [raising]:
  "raises m \<Longrightarrow> raises n \<Longrightarrow> raises (if b then m else n)"
  "raises m \<Longrightarrow> (\<And>x. raises (f x)) \<Longrightarrow> raises (case y of None \<Rightarrow> m | Some x \<Rightarrow> f x)"
  "(\<And>e. raises (g e)) \<Longrightarrow> (\<And>e. raises (k e)) \<Longrightarrow> raises (case z of Dploy e \<Rightarrow> g e | y \<Rightarrow> k y)"
  by (simp, cases y, simp_all, cases z, simp_all)

lemma catching_raises: "catching m h s = (Inr x, t) \<Longrightarrow> (\<And>e. raises (h e)) \<Longrightarrow> m s = (Inr x, t)"
  by (auto simp: catching_def raises_def split: prod.splits sum.splits)

lemma finally_InrE:
  assumes "finally_act m c s = (Inr x, t)"
  obtains u y where "m s = (Inr x, u)" "c u = (Inr y, t)"
  using assms by (auto simp: finally_act_def split: prod.splits sum.splits)

lemma handle_raises: "raises (handle_restore_failure run ops x)"
  unfolding handle_restore_failure_def Let_def by (intro raising)

lemma same_steps:
  assumes "in_manual_world m s = (r, t)"
  shows "steps_done t = steps_done s" "mc_selected_backup t = mc_selected_backup s"
  using assms by (auto elim!: in_manual_world_run simp: steps_done_def)

lemma release_result:
  assumes "activate_selected_release run ops s = (Inr z, t)"
  shows "ml_selected z = sl_selected (mu_selection run) \<and> ml_replaced z = sl_active (mu_selection run)"
  using assms unfolding activate_selected_release_def Let_def
  by (elim bnd_InrE) (auto simp: fetch_def raise_def ret_def split: option.splits elim!: bnd_InrE)

lemma ending_sequence: "ends_in (activate_selected_release run ops) (manual_restore_sequence run ops)"
  unfolding manual_restore_sequence_def by (intro ending)

lemma returned_protocol:
  assumes "guarded_manual_restore run ops (new_manual_context w) = (Inr z, t)"
  obtains b where "steps_done t = manual_protocol (mu_selection run) b" "mc_selected_backup t = Some b"
    and "ml_selected z = sl_selected (mu_selection run)" "ml_replaced z = sl_active (mu_selection run)"
proof -
  have handler: "raises (case x of Dploy e \<Rightarrow> andthen (finish_restore_failure run ops e) (raise x)
      | _ \<Rightarrow> if \<not> is_exception x then raise x else bnd (fetch (\<lambda>s. restore_crashed run s x)) (\<lambda>recovery.
          andthen (finish_restore_failure run ops recovery) (raise (Dploy recovery))))" for x
    by (intro raising)
  from assms obtain u y where "in_manual_world (mo_close ops) u = (Inr y, t)"
    and "catching (bnd (in_manual_world (mo_open_backup ops (bm_backup_id (sl_backup (mu_selection run))))) (\<lambda>backup.
        finally_act (andthen (modify (\<lambda>s. s\<lparr>mc_selected_backup := Some backup\<rparr>)) (run_manual_restore run ops))
          (in_manual_world (mo_close_backup ops backup))))
       (\<lambda>x. case x of Dploy e \<Rightarrow> andthen (finish_restore_failure run ops e) (raise x)
        | _ \<Rightarrow> if \<not> is_exception x then raise x else bnd (fetch (\<lambda>s. restore_crashed run s x)) (\<lambda>recovery.
          andthen (finish_restore_failure run ops recovery) (raise (Dploy recovery)))) (new_manual_context w) = (Inr z, u)"
    unfolding guarded_manual_restore_def by (elim finally_InrE)
  note close = same_steps [OF this(1)] and body = catching_raises [OF this(2) handler]
  from body obtain b s1 s2 y' where opened: "in_manual_world (mo_open_backup ops (bm_backup_id (sl_backup (mu_selection run))))
      (new_manual_context w) = (Inr b, s1)"
    and run: "andthen (modify (\<lambda>s. s\<lparr>mc_selected_backup := Some b\<rparr>)) (run_manual_restore run ops) s1 = (Inr z, s2)"
    and closed: "in_manual_world (mo_close_backup ops b) s2 = (Inr y', u)"
    by (elim bnd_InrE finally_InrE)
  from run have "run_manual_restore run ops (s1\<lparr>mc_selected_backup := Some b\<rparr>) = (Inr z, s2)"
    by (simp add: andthen_def bnd_def modify_def)
  then have seq: "manual_restore_sequence run ops (s1\<lparr>mc_selected_backup := Some b\<rparr>) = (Inr z, s2)"
    unfolding run_manual_restore_def by (rule catching_raises) (rule handle_raises)
  have "steps_done (s1\<lparr>mc_selected_backup := Some b\<rparr>) = []" "opened_as (Some b) (s1\<lparr>mc_selected_backup := Some b\<rparr>)"
    using same_steps(1) [OF opened] by (simp_all add: steps_done_def new_manual_context_def opened_as_def)
  with doesD [OF sequence_does _ seq]
  have "mc_selected_backup s2 = Some b" "steps_done s2 = manual_protocol (mu_selection run) b" by simp_all
  with close same_steps [OF closed] have "steps_done t = manual_protocol (mu_selection run) b" "mc_selected_backup t = Some b"
    by simp_all
  moreover obtain v where "activate_selected_release run ops v = (Inr z, s2)"
    by (rule ends_inE [OF ending_sequence seq])
  note release_result [OF this]
  ultimately show ?thesis using that by blast
qed

text \<open>
  A manual restore that returns did everything: every step of the protocol, in its order and
  none besides, from the inspection of both applications over the stop, the backup, the
  replacement, the restart and the checks to the activated release, with every hook passed; and
  its result names the selected and the replaced release.
\<close>

theorem returned_manual_restores:
  assumes "guarded_manual_restore run ops (new_manual_context w) = (Inr z, t)"
  shows "(\<exists>b. steps_done t = manual_protocol (mu_selection run) b \<and> mc_selected_backup t = Some b) \<and>
    ml_selected z = sl_selected (mu_selection run) \<and> ml_replaced z = sl_active (mu_selection run)"
  using returned_protocol [OF assms] by metis

end
