(* ===== verification/Restore_Runs.thy ===== *)
theory Restore_Runs
  imports Restore
begin

text \<open>
  Restores that get through: when the backup and the directory of the database are in order and no
  call fails, the restore of \<^verbatim>\<open>restore.py\<close> returns and puts exactly the backup in place.
\<close>

section \<open>The calls of a restore\<close>

lemma yields_calculate:
  assumes "be_schedule env = all_work" and "file_at l w = Some g" and "f_kind g = FK_regular"
  shows "yields (calculate_sha256 env path l) w (int (length (f_content g)), be_sha256 env (f_content g)) w"
  unfolding calculate_sha256_def by (rule yields_hash_file) (simp_all add: assms)

lemma yields_check:
  assumes "\<And>n. verify_sqlite_database path False timeout (file_at l w)
      (be_sqlite env n (case file_at l w of None \<Rightarrow> [] | Some g \<Rightarrow> f_content g)) = Inr v"
  shows "yields (check_sqlite env path timeout l) w v w"
  unfolding check_sqlite_def by (rule yields_check_file) (rule assms)

lemma stage_again [simp]: "stage_file u c (stage_file u b d) = stage_file u c d"
  by (simp add: stage_file_def update_last)

text \<open>A restore in which every call works: an environment, and the backup and the files it finds.\<close>

definition works :: "backup_env \<Rightarrow> bool" where
  "works env \<longleftrightarrow> be_schedule env = all_work \<and> be_late env = (\<lambda>_. False)"

lemma yields_fsync: "works env \<Longrightarrow> yields (fsync_directory env) w () w"
  unfolding fsync_directory_def works_def by (simp add: yields_sync)

lemma yields_files_call: "works env \<Longrightarrow> yields (files_call env f) w () (w\<lparr>bw_files := f (bw_files w)\<rparr>)"
  unfolding files_call_def works_def using yields_syscall [of "\<lambda>w. w\<lparr>bw_files := f (bw_files w)\<rparr>" w] by simp

lemma yields_idle: "works env \<Longrightarrow> yields (syscall (be_schedule env) id) w () w"
  unfolding works_def using yields_syscall [of id w] by simp

lemma yields_copy:
  assumes "works env" and "content \<noteq> []"
  shows "yields (copy_chunks env u content 0) w () (w\<lparr>bw_files := stage_file u content (bw_files w)\<rparr>)"
  using assms unfolding copy_chunks_def works_def
  by (intro yields_copy_loop [where put = "\<lambda>c w. w\<lparr>bw_files := stage_file u c (bw_files w)\<rparr>"]) simp_all

lemma yields_open_source:
  assumes "works env" and "file_at (At_backup i) w = Some g" and "f_kind g = FK_regular"
  shows "yields (open_source env i) w (f_content g) w"
  unfolding open_source_def
  by (rule yields_andthen [OF yields_idle [OF assms(1)]], rule yields_bnd_world)
    (simp add: assms(2,3) yields_ret)

lemma yields_open_destination:
  assumes "works env" and "map_of (df_staged (bw_files w)) u = None"
  shows "yields (open_destination env u) w () (w\<lparr>bw_files := stage_file u [] (bw_files w)\<rparr>)"
  unfolding open_destination_def
  by (rule yields_bnd_fetch) (simp add: assms yields_files_call)

lemma yields_directory:
  assumes "works env" and "df_directory (bw_files w) = Root_entry True m"
  shows "yields (check_directory_state env) w () w"
  unfolding check_directory_state_def
  by (rule yields_bnd_fetch) (simp add: assms yields_idle)

lemma yields_unlinking: "yields m w x v \<Longrightarrow> yields (unlinking env u m) w x v"
  unfolding unlinking_def by (rule yielding)

lemma yields_materialize:
  assumes "works env" and "df_directory (bw_files w) = Root_entry True m" and "map_of (df_staged (bw_files w)) u = None"
    and "file_at (At_backup (bm_backup_id (ba_metadata a))) w = Some g" and "f_kind g = FK_regular" and "f_content g \<noteq> []"
  shows "yields (materialize_backup env a u) w u (w\<lparr>bw_files := stage_file u (f_content g) (bw_files w)\<rparr>)"
proof -
  let ?w = "w\<lparr>bw_files := stage_file u [] (bw_files w)\<rparr>"
  let ?v = "w\<lparr>bw_files := stage_file u (f_content g) (bw_files w)\<rparr>"
  note idle = yields_idle [OF assms(1)]
  have copy: "yields (copy_chunks env u (f_content g) 0) ?w () ?v"
    using yields_copy [of env "f_content g" u ?w] assms(1,6) by simp
  have dest: "yields (closing_on_error (unlinking env u (open_destination env u)) (syscall (be_schedule env) id)) w () ?w"
    by (intro yields_handled yields_unlinking yields_open_destination assms)
  have body: "yields (closing (unlinking env u (andthen (syscall (be_schedule env) id)
      (andthen (copy_chunks env u (f_content g) 0) (syscall (be_schedule env) id))))
      (andthen (syscall (be_schedule env) id) (syscall (be_schedule env) id))) ?w () ?v"
    by (rule yields_closing [OF yields_unlinking [OF yields_andthen [OF idle yields_andthen [OF copy idle]]]
          yields_andthen [OF idle idle]])
  show ?thesis
    unfolding materialize_backup_def Let_def
    by (rule yields_andthen [OF yields_directory [OF assms(1,2)]], rule yields_bnd,
        rule yields_unlinking [OF yields_open_source [OF assms(1,4,5)]],
        rule yields_andthen [OF dest yields_andthen [OF body yields_andthen [OF yields_fsync [OF assms(1)] yields_ret]]])
qed

lemma yields_calculate_sha:
  assumes "works env" and "file_at l w = Some (private_file c)"
  shows "yields (calculate_sha256 env path l) w (int (length c), be_sha256 env c) w"
  using yields_calculate [OF _ assms(2)] assms(1) by (simp add: works_def)

text \<open>The metadata describes the content, and SQLite accepts it whenever it is asked.\<close>

definition good_content :: "backup_env \<Rightarrow> backup_metadata \<Rightarrow> sqlite_verification \<Rightarrow> bytes \<Rightarrow> bool" where
  "good_content env m v c \<longleftrightarrow> c \<noteq> [] \<and> int (length c) = bm_size_bytes m \<and> be_sha256 env c = bm_sha256 m \<and>
     (\<forall>n path. verify_sqlite_database path False 10 (Some (private_file c)) (be_sqlite env n c) = Inr v)"

lemma yields_check_good:
  assumes "good_content env m v c" and "file_at l w = Some (private_file c)"
  shows "yields (check_sqlite env path 10 l) w v w"
  by (rule yields_check) (use assms in \<open>simp add: good_content_def\<close>)

lemma yields_verify_materialized:
  assumes "works env" and "good_content env (ba_metadata a) v c" and "file_at l w = Some (private_file c)"
  shows "yields (verify_materialized env path l a) w () w"
  unfolding verify_materialized_def
  supply rest = yields_andthen [OF yields_check_good [OF assms(2,3)] yields_ret]
  by (rule yields_bnd [OF yields_calculate_sha [OF assms(1,3)]])
    (use assms(2) rest in \<open>simp add: good_content_def\<close>)

lemma yields_sidecar:
  assumes "works env" and "get (bw_files w) \<noteq> Some FK_symlink" and "get (bw_files w) \<noteq> Some FK_directory"
    and "get (bw_files w) = None \<Longrightarrow> rid (bw_files w) = bw_files w"
  shows "yields (remove_sidecar env get rid) w () (w\<lparr>bw_files := rid (bw_files w)\<rparr>)"
proof (cases "get (bw_files w)")
  case None
  with assms(4) show ?thesis
    unfolding remove_sidecar_def by (intro yields_bnd_fetch) (simp add: yields_ret)
next
  case (Some k)
  with assms(2,3) have "k = FK_regular" by (cases k) simp_all
  with Some show ?thesis
    unfolding remove_sidecar_def
    by (intro yields_bnd_fetch) (simp add: yields_andthen [OF yields_idle yields_files_call] assms(1))
qed

definition ready_files :: "database_files \<Rightarrow> bool" where
  "ready_files d \<longleftrightarrow> (\<exists>m. df_directory d = Root_entry True m) \<and>
     df_wal d \<in> {None, Some FK_regular} \<and> df_shm d \<in> {None, Some FK_regular} \<and>
     (\<forall>f. df_target d = Some f \<longrightarrow> f_kind f \<noteq> FK_directory)"

lemma yields_sidecars:
  assumes "works env" and "ready_files (bw_files w)"
  shows "yields (remove_sqlite_sidecars env) w () (w\<lparr>bw_files := drop_shm (drop_wal (bw_files w))\<rparr>)"
proof -
  have "yields (remove_sidecar env df_wal drop_wal) w () (w\<lparr>bw_files := drop_wal (bw_files w)\<rparr>)"
    using assms by (intro yields_sidecar) (auto simp: ready_files_def drop_wal_def)
  moreover have "yields (remove_sidecar env df_shm drop_shm) (w\<lparr>bw_files := drop_wal (bw_files w)\<rparr>) ()
      (w\<lparr>bw_files := drop_shm (drop_wal (bw_files w))\<rparr>)"
    using yields_sidecar [of env df_shm "w\<lparr>bw_files := drop_wal (bw_files w)\<rparr>" drop_shm] assms
    by (auto simp: ready_files_def drop_wal_def drop_shm_def)
  ultimately show ?thesis
    unfolding remove_sqlite_sidecars_def by (blast intro: yields_andthen yields_fsync [OF assms(1)])
qed

lemma yields_replace:
  assumes "works env" and "ready_files (bw_files w)" and "map_of (df_staged (bw_files w)) u = Some f"
  shows "yields (replace_file env u) w () (w\<lparr>bw_files := replace_target u (bw_files w)\<rparr>)"
  unfolding replace_file_def
  by (rule yields_bnd_fetch)
    (use assms in \<open>auto simp: ready_files_def yields_files_call split: option.splits\<close>)

definition restore_files :: "bytes \<Rightarrow> string \<Rightarrow> database_files \<Rightarrow> database_files" where
  "restore_files c u d = replace_target u (drop_shm (drop_wal (stage_file u c d)))"

lemma restore_files_target [simp]: "df_target (restore_files c u d) = Some (private_file c)"
  by (simp add: restore_files_def replace_target_def drop_shm_def drop_wal_def stage_file_def update_conv')

lemma chmod_restored [simp]: "chmod_target (restore_files c u d) = restore_files c u d"
  by (simp add: chmod_target_def chmod_private)

lemma yields_replace_database:
  assumes "works env" and "\<forall>st. inject st = Inr ()" and "good_content env (ba_metadata a) v c"
    and "ready_files (bw_files w)"
  shows "yields (replace_database env inject a u) (w\<lparr>bw_files := stage_file u c (bw_files w)\<rparr>) ()
    (w\<lparr>bw_files := restore_files c u (bw_files w)\<rparr>)"
proof -
  let ?w = "w\<lparr>bw_files := stage_file u c (bw_files w)\<rparr>"
  let ?x = "w\<lparr>bw_files := drop_shm (drop_wal (stage_file u c (bw_files w)))\<rparr>"
  have staged: "file_at (At_restore_staging u) ?w = Some (private_file c)"
    by (simp add: file_at_def stage_file_def update_conv')
  have "ready_files (bw_files ?w)" "ready_files (bw_files ?x)"
    using assms(4) by (simp_all add: ready_files_def stage_file_def drop_wal_def drop_shm_def)
  with yields_sidecars [OF assms(1), of ?w] yields_replace [OF assms(1), of ?x u "private_file c"]
  have "yields (remove_sqlite_sidecars env) ?w () ?x"
    "yields (replace_file env u) ?x () (w\<lparr>bw_files := restore_files c u (bw_files w)\<rparr>)"
    by (simp_all add: drop_wal_def drop_shm_def stage_file_def update_conv' restore_files_def)
  then show ?thesis
    unfolding replace_database_def assms(2) [rule_format]
    by (blast intro: yields_andthen yields_lift yields_verify_materialized [OF assms(1,3) staged])
qed

lemma yields_prove_restored:
  assumes "works env" and "\<forall>st. inject st = Inr ()" and "good_content env (ba_metadata a) v c"
    and "df_target (bw_files w) = Some (private_file c)" and "chmod_target (bw_files w) = bw_files w"
    and "\<And>n. valid_restore_proof (p n)"
    and "p = (\<lambda>n. \<lparr>vr_backup_id = bm_backup_id (ba_metadata a), vr_database_path = be_database_path env,
        vr_size_bytes = int (length c), vr_sha256 = be_sha256 env c, vr_sqlite = v, vr_restored_at = be_now env n\<rparr>)"
  shows "\<exists>j n. prove_restored env inject a \<lparr>os_calls = k, os_world = w\<rparr> = (Inr (p n), \<lparr>os_calls = j, os_world = w\<rparr>)"
proof -
  have at: "file_at At_target w = Some (private_file c)" using assms(4) by (simp add: file_at_def)
  have chmod: "yields (files_call env chmod_target) w () w"
    using yields_files_call [OF assms(1), of chmod_target w] assms(5) by simp
  note parts = chmod yields_fsync [OF assms(1), of w] yields_verify_materialized [OF assms(1,3) at]
    yields_calculate_sha [OF assms(1) at] yields_check_good [OF assms(3) at]
  from parts(1) obtain k1 where 1: "files_call env chmod_target \<lparr>os_calls = k, os_world = w\<rparr> = (Inr (), \<lparr>os_calls = k1, os_world = w\<rparr>)"
    unfolding yields_def by blast
  from parts(2) obtain k2 where 2: "fsync_directory env \<lparr>os_calls = k1, os_world = w\<rparr> = (Inr (), \<lparr>os_calls = k2, os_world = w\<rparr>)"
    unfolding yields_def by blast
  from parts(3) obtain k3 where 3: "verify_materialized env (be_database_path env) At_target a \<lparr>os_calls = k2, os_world = w\<rparr> =
      (Inr (), \<lparr>os_calls = k3, os_world = w\<rparr>)"
    unfolding yields_def by blast
  from parts(4) obtain k4 where 4: "calculate_sha256 env (be_database_path env) At_target \<lparr>os_calls = k3, os_world = w\<rparr> =
      (Inr (int (length c), be_sha256 env c), \<lparr>os_calls = k4, os_world = w\<rparr>)"
    unfolding yields_def by blast
  from parts(5) obtain k5 where 5: "check_sqlite env (be_database_path env) 10 At_target \<lparr>os_calls = k4, os_world = w\<rparr> =
      (Inr v, \<lparr>os_calls = k5, os_world = w\<rparr>)"
    unfolding yields_def by blast
  from assms(6) [of k5] show ?thesis
    unfolding assms(7) prove_restored_def Let_def
    by (auto simp: andthen_def bnd_def 1 2 3 4 5 assms(2) lift_result_def fetch_def ret_def)
qed

lemma valid_proof:
  assumes "valid_backup_metadata m" and "valid_sqlite_verification v" and "is_absolute path"
    and "int n = bm_size_bytes m" and "h = bm_sha256 m"
  shows "valid_restore_proof \<lparr>vr_backup_id = bm_backup_id m, vr_database_path = path, vr_size_bytes = int n,
    vr_sha256 = h, vr_sqlite = v, vr_restored_at = t\<rparr>"
  using assms by (auto simp: valid_restore_proof_def valid_backup_metadata_def backup_metadata_checks_def split: if_splits)

definition restorable :: "backup_env \<Rightarrow> injector \<Rightarrow> string \<Rightarrow> backup_artifact \<Rightarrow> bytes \<Rightarrow> backup_world \<Rightarrow> bool" where
  "restorable env inject u a c w \<longleftrightarrow>
     works env \<and> (\<forall>st. inject st = Inr ()) \<and> is_absolute (be_database_path env) \<and>
     be_database_path env \<noteq> artifact_path a \<and> valid_backup_metadata (ba_metadata a) \<and>
     file_at (At_backup (bm_backup_id (ba_metadata a))) w = Some (private_file c) \<and>
     (\<exists>v. valid_sqlite_verification v \<and> good_content env (ba_metadata a) v c) \<and>
     ready_files (bw_files w) \<and> map_of (df_staged (bw_files w)) u = None"

lemma replacement_runs:
  assumes "restorable env no_fault u a c (os_world s)" and "inject ''rollback_after_staging'' = Inr ()"
  shows "\<exists>s1 s2. restoring env None False (stage_backup env a u) s = (Inr u, s1) \<and>
    restoring env (Some u) False (replace_database env inject a u) s1 = (Inr (), s2) \<and>
    os_world s2 = (os_world s)\<lparr>bw_files := restore_files c u (bw_files (os_world s))\<rparr>"
proof -
  let ?w = "os_world s"
  from assms(1) obtain v where env: "works env" and good: "good_content env (ba_metadata a) v c"
    and source: "file_at (At_backup (bm_backup_id (ba_metadata a))) ?w = Some (private_file c)"
    and files: "ready_files (bw_files ?w)" and fresh: "map_of (df_staged (bw_files ?w)) u = None"
    by (auto simp: restorable_def)
  from files obtain m where dir: "df_directory (bw_files ?w) = Root_entry True m" by (auto simp: ready_files_def)
  have "f_content (private_file c) \<noteq> []" using good by (simp add: good_content_def)
  from yields_materialize [OF env dir fresh source _ this]
  have stage: "yields (stage_backup env a u) ?w u (?w\<lparr>bw_files := stage_file u c (bw_files ?w)\<rparr>)"
    unfolding stage_backup_def by (intro yields_andthen [OF yields_verify_materialized [OF env good source]]) simp
  have restoring: "yields (restoring env st b n) w x y" if "yields n w x y" for st b x w y and n :: "'b backup_act"
    using that unfolding restoring_def by (rule yields_handled)
  from restoring [OF stage] obtain s1 where one: "restoring env None False (stage_backup env a u) s = (Inr u, s1)"
    "os_world s1 = ?w\<lparr>bw_files := stage_file u c (bw_files ?w)\<rparr>"
    by (meson yieldsD)
  have same: "replace_database env inject a u = replace_database env no_fault a u"
    using assms(2) by (simp add: replace_database_def no_fault_def)
  have "\<forall>st. no_fault st = Inr ()" by (simp add: no_fault_def)
  from yieldsD [OF restoring [OF yields_replace_database [where a = a and v = v and c = c and w = ?w and u = u,
        OF env this good files]] one(2), of "Some u" False] one show ?thesis
    unfolding same by blast
qed

lemma restore_runs:
  assumes "restorable env inject u a c (os_world s)"
  shows "\<exists>p t. restore_verified_database env inject u a True False s = (Inr p, t) \<and>
    os_world t = (os_world s)\<lparr>bw_files := restore_files c u (bw_files (os_world s))\<rparr>"
proof -
  let ?w = "os_world s"
  from assms obtain v where env: "works env" and inject: "\<forall>st. inject st = Inr ()"
    and v: "valid_sqlite_verification v" and good: "good_content env (ba_metadata a) v c"
    and path: "is_absolute (be_database_path env)" "be_database_path env \<noteq> artifact_path a"
    and valid: "valid_backup_metadata (ba_metadata a)"
    by (auto simp: restorable_def)
  from assms have "restorable env no_fault u a c ?w" by (simp add: restorable_def no_fault_def)
  from replacement_runs [OF this, of inject] inject obtain s1 s2 where
    one: "restoring env None False (stage_backup env a u) s = (Inr u, s1)"
    and two: "restoring env (Some u) False (replace_database env inject a u) s1 = (Inr (), s2)"
    "os_world s2 = ?w\<lparr>bw_files := restore_files c u (bw_files ?w)\<rparr>"
    by blast
  have "valid_restore_proof \<lparr>vr_backup_id = bm_backup_id (ba_metadata a), vr_database_path = be_database_path env,
      vr_size_bytes = int (length c), vr_sha256 = be_sha256 env c, vr_sqlite = v, vr_restored_at = be_now env n\<rparr>" for n
    using good by (intro valid_proof [OF valid v path(1)]) (simp_all add: good_content_def)
  moreover have "df_target (bw_files (os_world s2)) = Some (private_file c)"
    "chmod_target (bw_files (os_world s2)) = bw_files (os_world s2)"
    by (simp_all add: two(2))
  ultimately have "\<exists>p j. prove_restored env inject a s2 = (Inr p, \<lparr>os_calls = j, os_world = os_world s2\<rparr>)"
    using yields_prove_restored [where a = a and v = v and c = c and w = "os_world s2" and k = "os_calls s2",
        OF env inject good _ _ _ refl]
    by (cases s2) auto
  then obtain p s3 where "prove_restored env inject a s2 = (Inr p, s3)" "os_world s3 = os_world s2" by auto
  then have three: "restoring env None True (prove_restored env inject a) s2 = (Inr p, s3)"
    by (simp add: restoring_def on_exception_def catching_def)
  with one two path \<open>os_world s3 = os_world s2\<close> show ?thesis
    by (simp add: restore_verified_database_def bnd_def andthen_def)
qed

text \<open>A restore that fails after the replacement, at its fault point.\<close>

lemma restore_fails_late:
  assumes "restorable env no_fault u a c (os_world s)" and "inject ''rollback_after_staging'' = Inr ()"
    and "inject ''rollback_after_replace'' = Inl e" and "is_exception e"
  shows "\<exists>t. restore_verified_database env inject u a True False s = (Inl (restore_failure env True e), t)"
proof -
  from assms(1) have env: "works env" and path: "is_absolute (be_database_path env)" "be_database_path env \<noteq> artifact_path a"
    by (auto simp: restorable_def)
  from replacement_runs [where inject = inject, OF assms(1,2)] obtain s1 s2 where
    one: "restoring env None False (stage_backup env a u) s = (Inr u, s1)"
    and two: "restoring env (Some u) False (replace_database env inject a u) s1 = (Inr (), s2)"
    by blast
  from yieldsD [OF yields_files_call [OF env, of chmod_target "os_world s2"] refl] obtain s3 where
    chmod: "files_call env chmod_target s2 = (Inr (), s3)" by blast
  from yieldsD [OF yields_fsync [OF env, of "os_world s3"] refl] obtain s4 where
    sync: "fsync_directory env s3 = (Inr (), s4)" by blast
  have "prove_restored env inject a s2 = (Inl e, s4)"
    by (simp add: prove_restored_def Let_def andthen_def bnd_def chmod sync lift_result_def assms(3))
  then have "restoring env None True (prove_restored env inject a) s2 = (Inl (restore_failure env True e), s4)"
    using assms(4) by (simp add: restoring_def on_exception_def catching_def cleanup_restore_def andthen_def bnd_def
        ret_def raise_def)
  with one two path show ?thesis
    by (simp add: restore_verified_database_def bnd_def andthen_def)
qed

text \<open>
  C16. A restore gets through: when the stored backup matches its metadata and SQLite accepts its
  bytes, the database directory is in order and no call fails, restoring it with every database
  user stopped before the activation of new traffic returns a proof and puts exactly the bytes of
  the backup in place, whatever their length, with no staged copy left behind.
\<close>

theorem restore_succeeds:
  assumes "restorable env inject u a c (os_world s)"
  shows "\<exists>p t. restore_verified_database env inject u a True False s = (Inr p, t) \<and>
    df_target (bw_files (os_world t)) = Some (private_file c) \<and>
    map_of (df_staged (bw_files (os_world t))) u = None \<and> vr_sha256 p = bm_sha256 (ba_metadata a)"
proof -
  from restore_runs [OF assms] obtain p t where run: "restore_verified_database env inject u a True False s = (Inr p, t)"
    and "os_world t = (os_world s)\<lparr>bw_files := restore_files c u (bw_files (os_world s))\<rparr>" by blast
  moreover from restore_run_outcome [OF run] have "vr_sha256 p = bm_sha256 (ba_metadata a)"
    by (simp add: restore_outcome_def)
  ultimately show ?thesis
    by (auto simp: restore_files_def replace_target_def stage_file_def drop_wal_def drop_shm_def unstage_file_def
        update_conv' delete_conv' split: option.splits)
qed

section \<open>An example\<close>

definition example_content :: bytes where
  "example_content = replicate 4096 0"

definition example_restore_env :: backup_env where
  "example_restore_env = example_backup_env\<lparr>be_sha256 := (\<lambda>_. final_sha), be_database_path := ''/srv/data/app.db''\<rparr>"

definition example_restore_world :: "backup_world osys" where
  "example_restore_world = \<lparr>os_calls = 0, os_world =
     \<lparr>bw_store = \<lparr>bs_path = ''/srv/backups'', bs_root = Root_entry True directory_mode, bs_staged = [],
        bs_databases = [(final_backup_id, private_file example_content)],
        bs_metadata = [(final_backup_id, private_file (Whole (ba_metadata example_final)))],
        bs_metadata_temps = []\<rparr>,
      bw_files = \<lparr>df_directory = Root_entry True directory_mode, df_target = Some (private_file [9]),
        df_wal = Some FK_regular, df_shm = None, df_staged = []\<rparr>\<rparr>\<rparr>"

lemma example_final_id [simp]: "bm_backup_id (ba_metadata example_final) = final_backup_id"
  by (simp add: example_final_def)

lemma example_restorable: "restorable example_restore_env no_fault ''r'' example_final example_content (os_world example_restore_world)"
proof -
  have "verify_sqlite_database path False 10 (Some (private_file example_content)) example_session = Inr
      \<lparr>sv_quick_check_passed = True, sv_foreign_key_check_passed = True,
       sv_integrity_check_passed = None, sv_checked_at = 1000, sv_duration = 0\<rparr>" for path
    by (simp add: verify_sqlite_database_def validate_database_file_def require_rows_def ensure_def example_session_def)
  moreover have "valid_backup_metadata (ba_metadata example_final)"
    by (simp add: example_final_def valid_backup_metadata_def backup_metadata_checks_def length_between_def is_absolute_def)
  ultimately show ?thesis
    by (auto simp: restorable_def works_def example_restore_env_def example_backup_env_def no_fault_def is_absolute_def
        artifact_path_def example_restore_world_def file_at_def ready_files_def good_content_def example_content_def
        valid_sqlite_verification_def example_final_def)
qed

theorem restore_succeeds_witness:
  "\<exists>p t. restore_verified_database example_restore_env no_fault ''r'' example_final True False example_restore_world = (Inr p, t) \<and>
    df_target (bw_files (os_world t)) = Some (private_file example_content)"
  using restore_succeeds [OF example_restorable] by blast

definition example_engine :: "backup_world osys cutover_ops" where
  "example_engine = \<lparr>co_create_backup = (\<lambda>_ _ _. raise os_error), co_verify_backup = verify_configured_backup example_restore_env,
     co_run_migration = raise os_error, co_verify_sqlite = raise os_error,
     co_restore_database = restore_verified_database example_restore_env no_fault ''r'', co_now = (\<lambda>_. 0)\<rparr>"

lemma example_verify: "yields (verify_configured_backup example_restore_env final_backup_id) (os_world example_restore_world)
   example_final (os_world example_restore_world)"
proof -
  let ?w = "os_world example_restore_world"
  let ?m = "ba_metadata example_final"
  from example_restorable obtain v where works: "works example_restore_env" and good: "good_content example_restore_env ?m v example_content"
    and valid: "valid_backup_metadata ?m"
    and source: "file_at (At_backup final_backup_id) ?w = Some (private_file example_content)"
    by (auto simp: restorable_def)
  have "is_backup_id final_backup_id"
    by (simp add: final_backup_id_def is_backup_id_def hex_tail_def is_lower_hex_def)
  with valid have got: "get_backup (be_metadata_size example_restore_env) (bw_store ?w) final_backup_id = Inr example_final"
    by (simp add: get_backup_def verify_metadata_def validate_backup_id_def validate_layout_def check_directory_def ensure_def
        validate_committed_file_def max_metadata_bytes_def example_restore_world_def example_restore_env_def
        example_backup_env_def artifact_of_def)
      (simp add: example_final_def)
  note sum = yields_calculate_sha [OF works source] and check = yields_check_good [OF good source]
  have "yields (verify_backup example_restore_env final_backup_id) ?w example_final ?w"
    unfolding verify_backup_def
    apply (rule yields_bnd_world)
    apply (simp only: got)
    apply (rule yields_bnd [OF yields_lift])
    apply (simp only: Let_def)
    apply (rule yields_bnd [OF sum])
    using good apply (simp add: good_content_def)
    apply (rule yields_bnd [OF check])
    apply (rule yields_bnd [OF sum])
    using good apply (simp add: good_content_def yields_ret)
    done
  then show ?thesis
    unfolding verify_configured_backup_def
    by (rule yields_bnd) (simp add: example_final_def example_restore_env_def example_backup_env_def yields_ret)
qed


end
