(* ===== verification/Manual_Restore_Failures.thy ===== *)
theory Manual_Restore_Failures
  imports Manual_Restore_Order Restore_Runs Deploy_Order
begin

text \<open>
  Which release and backup a manual restore selects, what it undoes and records when it fails, and
  what it does not record; at the end a restore to evaluate on.
\<close>

section \<open>Selection\<close>

lemma protected_pointers_Inr:
  "protected_pointers env i pointers = Inr p \<Longrightarrow> pointers = Some p \<and> rp_previous_release_id p = Some i"
  by (auto simp: protected_pointers_def split: option.splits if_splits)

text \<open>What a selection promises about the two releases and the backup between them.\<close>

definition sound_selection :: "restore_selection \<Rightarrow> bool" where
  "sound_selection sel \<longleftrightarrow>
     rm_status (sl_active sel) = DS_active \<and> rm_status (sl_selected sel) = DS_active \<and>
     rm_previous_release_id (sl_active sel) = Some (rm_release_id (sl_selected sel)) \<and>
     rm_new_application (sl_active sel) = Some (sl_current_application sel) \<and>
     rm_new_application (sl_selected sel) = Some (sl_selected_application sel) \<and>
     rm_previous_application (sl_active sel) = Some (sl_selected_application sel) \<and>
     ah_container_id (sl_current_application sel) \<noteq> ah_container_id (sl_selected_application sel) \<and>
     bm_purpose (sl_backup sel) = BP_final \<and>
     bm_operation_id (sl_backup sel) = Some (rm_operation_id (sl_active sel)) \<and>
     rm_final_backup_sha256 (sl_active sel) = Some (bm_sha256 (sl_backup sel))"

lemma matching_releases_Inr:
  "matching_releases env active selected = Inr (current, target, b) \<Longrightarrow>
    rm_status active = DS_active \<and> rm_status selected = DS_active \<and>
    rm_previous_release_id active = Some (rm_release_id selected) \<and>
    rm_new_application active = Some current \<and> rm_new_application selected = Some target \<and>
    rm_previous_application active = Some target \<and> ah_container_id current \<noteq> ah_container_id target \<and>
    rm_final_backup_id active = Some b"
  by (auto simp: matching_releases_def split: option.splits if_splits)

lemma with_open_backup_Inr:
  assumes "with_open_backup ops i body w = (Inr x, w')"
  obtains a u v where "mo_open_backup ops i w = (Inr a, u)" "body a u = (Inr x, v)"
  using assms unfolding with_open_backup_def by (elim bnd_InrE finally_InrE) blast

lemma preview_Inr:
  assumes "preview_configured_restore env ops i w = (Inr sel, w')"
  obtains p u where "mo_lookup_release ops i w = (Inr (sl_selected sel, Some p), u)"
    "rp_previous_release_id p = Some i" "sound_selection sel"
    "\<exists>v v'. mo_read_release ops (rp_active_release_id p) v = (Inr (sl_active sel), v')"
  using assms unfolding preview_configured_restore_def
proof (elim bnd_InrE)
  fix sp w1
  assume look: "mo_lookup_release ops i w = (Inr sp, w1)"
    and run: "(case sp of (selected, pointers) \<Rightarrow>
       bnd (lift_result (protected_pointers env i pointers)) (\<lambda>p.
       bnd (mo_read_release ops (rp_active_release_id p)) (\<lambda>active.
       bnd (lift_result (matching_releases env active selected)) (\<lambda>(current, target, backup_id).
       bnd (with_open_backup ops backup_id (\<lambda>a.
            if backup_of_release active (ba_metadata a) then ret (ba_metadata a)
            else raise (unsafe_selection ''selected restore backup contradicts the active release manifest''
              (ba_metadata_directory a @ ''/'' @ ba_metadata_name a)
              ''Preserve the backup and release evidence; do not restore it.''))) (\<lambda>m.
       ret \<lparr>sl_active = active, sl_selected = selected, sl_backup = m, sl_current_application = current,
          sl_selected_application = target, sl_database_path = ma_database_path env\<rparr>))))) w1 = (Inr sel, w')"
  obtain selected pointers where sp: "sp = (selected, pointers)" by (cases sp)
  from run [unfolded sp prod.case] show thesis
  proof (elim bnd_InrE)
    fix p w2 active w3 cl w4
    assume p: "lift_result (protected_pointers env i pointers) w1 = (Inr p, w2)"
      and active: "mo_read_release ops (rp_active_release_id p) w2 = (Inr active, w3)"
      and cl: "lift_result (matching_releases env active selected) w3 = (Inr cl, w4)"
      and rest: "(case cl of (current, target, backup_id) \<Rightarrow>
        bnd (with_open_backup ops backup_id (\<lambda>a.
            if backup_of_release active (ba_metadata a) then ret (ba_metadata a)
            else raise (unsafe_selection ''selected restore backup contradicts the active release manifest''
              (ba_metadata_directory a @ ''/'' @ ba_metadata_name a)
              ''Preserve the backup and release evidence; do not restore it.''))) (\<lambda>m.
        ret \<lparr>sl_active = active, sl_selected = selected, sl_backup = m, sl_current_application = current,
          sl_selected_application = target, sl_database_path = ma_database_path env\<rparr>)) w4 = (Inr sel, w')"
    obtain current target b where c: "cl = (current, target, b)" by (cases cl)
    from rest [unfolded c prod.case] obtain m w5 where
      opened: "with_open_backup ops b (\<lambda>a.
            if backup_of_release active (ba_metadata a) then ret (ba_metadata a)
            else raise (unsafe_selection ''selected restore backup contradicts the active release manifest''
              (ba_metadata_directory a @ ''/'' @ ba_metadata_name a)
              ''Preserve the backup and release evidence; do not restore it.'')) w4 = (Inr m, w5)"
      and sel: "sel = \<lparr>sl_active = active, sl_selected = selected, sl_backup = m, sl_current_application = current,
          sl_selected_application = target, sl_database_path = ma_database_path env\<rparr>"
      by (elim bnd_InrE) (simp add: ret_def)
    from opened have m: "backup_of_release active m"
      by (elim with_open_backup_Inr) (simp add: ret_def raise_def split: if_splits)
    from p have pointers: "pointers = Some p" "rp_previous_release_id p = Some i"
      using protected_pointers_Inr by (auto simp: lift_result_def)
    from cl c have "matching_releases env active selected = Inr (current, target, b)"
      by (simp add: lift_result_def)
    from matching_releases_Inr [OF this] m sel have "sound_selection sel"
      by (simp add: sound_selection_def backup_of_release_def)
    with that [of p w1] pointers look sp active sel show thesis by auto
  qed
qed

text \<open>The entry of a manual restore that returns.\<close>

definition latest_is_settled :: "operation_manifest option \<Rightarrow> bool" where
  "latest_is_settled m \<longleftrightarrow> (case m of None \<Rightarrow> True | Some m \<Rightarrow> om_status m \<notin> {OS_in_progress, OS_recovery_required})"

lemma require_clean_Inr:
  assumes "require_clean_operation_state path log_path owner latest w = (Inr x, w')"
  shows "(\<forall>o'. owner = Some o' \<longrightarrow> lo_state o' \<noteq> LO_active) \<and> (\<exists>m. latest w = (Inr m, w') \<and> latest_is_settled m)"
  using assms unfolding require_clean_operation_state_def
  by (auto simp: raise_def ret_def latest_is_settled_def elim!: bnd_InrE split: option.splits if_splits)

lemma entry_Inr:
  assumes "restore_configured_release env ops i w = (Inr z, w')"
  obtains sel w1 w2 oid w3 t where
    "\<forall>o'. mo_previous_owner ops w1 = Some o' \<longrightarrow> lo_state o' \<noteq> LO_active"
    "\<exists>m. mo_latest_operation ops w1 = (Inr m, w2) \<and> latest_is_settled m"
    "\<exists>v. preview_configured_restore env ops i w2 = (Inr sel, v)"
    "guarded_manual_restore \<lparr>mu_selection = sel, mu_operation = oid, mu_env = env\<rparr> ops (new_manual_context w3) = (Inr z, t)"
  using assms unfolding restore_configured_release_def
proof (elim andthen_InrE finally_InrE bnd_InrE)
  fix w1 w1' w2 previous u1 sel w4 operation w7 v'
  assume run: "fetch (mo_previous_owner ops) w1 = (Inr previous, w1')"
    "require_clean_operation_state (ma_owner_path env) (ma_log env) previous (mo_latest_operation ops) w1' = (Inr u1, w2)"
    "preview_configured_restore env ops i w2 = (Inr sel, w4)"
    "(case guarded_manual_restore \<lparr>mu_selection = sel, mu_operation = om_operation_id operation, mu_env = env\<rparr>
            ops (new_manual_context w7) of (r, s) \<Rightarrow> (r, mc_world s)) = (Inr z, v')"
  from run(1) have "previous = mo_previous_owner ops w1" "w1' = w1" by (auto simp: fetch_def)
  with require_clean_Inr [OF run(2)] run(3,4) that [of w1 w2 sel "om_operation_id operation" w7]
  show thesis by (auto split: prod.splits)
qed

lemma returned_selection:
  assumes "restore_configured_release env ops i w = (Inr z, w')"
  shows "\<exists>sel p b run s. sound_selection sel \<and> rp_previous_release_id p = Some i \<and>
    (\<exists>v v'. mo_lookup_release ops i v = (Inr (sl_selected sel, Some p), v')) \<and>
    (\<exists>v v'. mo_read_release ops (rp_active_release_id p) v = (Inr (sl_active sel), v')) \<and>
    (\<exists>v v' m. mo_latest_operation ops v = (Inr m, v') \<and> latest_is_settled m) \<and>
    ml_selected z = sl_selected sel \<and> ml_replaced z = sl_active sel \<and> mu_selection run = sel \<and>
    guarded_manual_restore run ops (new_manual_context s) = (Inr z, b) \<and>
    (\<exists>a. steps_done b = manual_protocol sel a)"
proof -
  from entry_Inr [OF assms] obtain sel w2 v oid w3 t m w1 where
    settled: "mo_latest_operation ops w1 = (Inr m, w2)" "latest_is_settled m"
    and preview: "preview_configured_restore env ops i w2 = (Inr sel, v)"
    and run: "guarded_manual_restore \<lparr>mu_selection = sel, mu_operation = oid, mu_env = env\<rparr> ops
      (new_manual_context w3) = (Inr z, t)"
    by metis
  obtain p u where look: "mo_lookup_release ops i w2 = (Inr (sl_selected sel, Some p), u)"
    "rp_previous_release_id p = Some i" "sound_selection sel"
    and "\<exists>v v'. mo_read_release ops (rp_active_release_id p) v = (Inr (sl_active sel), v')"
    by (rule preview_Inr [OF preview])
  then obtain v1 v2 where active: "mo_read_release ops (rp_active_release_id p) v1 = (Inr (sl_active sel), v2)" by blast
  let ?run = "\<lparr>mu_selection = sel, mu_operation = oid, mu_env = env\<rparr>"
  obtain b where steps: "steps_done t = manual_protocol (mu_selection ?run) b"
    and result: "ml_selected z = sl_selected (mu_selection ?run)" "ml_replaced z = sl_active (mu_selection ?run)"
    by (rule returned_protocol [OF run])
  show ?thesis
    by (rule exI [where x = sel], rule exI [where x = p], rule exI [where x = t], rule exI [where x = ?run],
        rule exI [where x = w3])
      (intro conjI exI, use look active settled run steps result in \<open>simp_all\<close>)
qed


section \<open>Errors\<close>

text \<open>The way back from a failure in the context \<open>s\<close>, call by call.\<close>

definition way_back :: "manual_run \<Rightarrow> 'w manual_context \<Rightarrow> manual_step list" where
  "way_back run s =
     (if mc_selected_running s then [Did (MC_stop (sl_selected_application (mu_selection run)))] else []) @
     (if mc_database_replaced s
      then (case mc_pre_restore_backup s of None \<Rightarrow> [] | Some b \<Rightarrow> [Did (MC_restore b)]) else []) @
     (if mc_current_stopped s then [Did (MC_restart (sl_current_application (mu_selection run)))] else []) @
     hook_done TA_activate_new @ hook_done TA_disable_maintenance @
     [Did (MC_check_health (rm_requested_version (sl_active (mu_selection run)))), Did MC_check_database]"

lemma hooks_back_does:
  "does b (hook_done TA_activate_new @ hook_done TA_disable_maintenance @
     [Did (MC_check_health version), Did MC_check_database])
   (bnd (manual_hook ops TA_activate_new) (\<lambda>target.
     andthen (record_restore_hook run ops target)
    (if \<not> hook_passed target
     then raise e
     else
     bnd (manual_hook ops TA_disable_maintenance) (\<lambda>off.
     andthen (record_restore_hook run ops off)
    (if \<not> hook_passed off
     then raise e'
     else
     andthen (request (MC_check_health version) (mo_check_application ops version))
    (andthen (request MC_check_database (mo_verify_sqlite ops)) (ret ())))))))"
  by (rule does_hook, rule does_hook,
      rule does_seq(1) [OF does_request does_seq(1) [OF does_request does_pure(1)]])
    (simp_all add: raise_def)

lemma roll_back_Inr:
  assumes "roll_back_steps run ops s = (Inr x, t)"
  shows "steps_done t = steps_done s @ way_back run s"
proof -
  let ?sel = "mu_selection run"
  from assms obtain s1 s2 s3 y1 y2 y3 where
    stop: "bnd (fetch mc_selected_running) (\<lambda>running. when_act running
      (andthen (request (MC_stop (sl_selected_application ?sel)) (mo_stop_current ops (sl_selected_application ?sel)))
        (modify (\<lambda>s. s\<lparr>mc_selected_running := False\<rparr>)))) s = (Inr y1, s1)"
    and restore: "bnd (fetch mc_database_replaced) (\<lambda>replaced. when_act replaced
      (bnd (the_backup mc_pre_restore_backup pre_restore_missing) (\<lambda>backup.
        andthen (request (MC_restore backup) (mo_restore ops backup True False)) (ret ())))) s1 = (Inr y2, s2)"
    and restart: "bnd (fetch mc_current_stopped) (\<lambda>stopped. when_act stopped
      (andthen (request (MC_restart (sl_current_application ?sel)) (mo_restart_previous ops (sl_current_application ?sel))) (ret ())))
      s2 = (Inr y3, s3)"
    and hooks: "bnd (manual_hook ops TA_activate_new) (\<lambda>target.
     andthen (record_restore_hook run ops target)
    (if \<not> hook_passed target
     then raise (PyException ''RuntimeError'' ''current traffic target could not be restored'')
     else
     bnd (manual_hook ops TA_disable_maintenance) (\<lambda>off.
     andthen (record_restore_hook run ops off)
    (if \<not> hook_passed off
     then raise (PyException ''RuntimeError'' ''maintenance could not be disabled after restore rollback'')
     else
     andthen (request (MC_check_health (rm_requested_version (sl_active ?sel)))
       (mo_check_application ops (rm_requested_version (sl_active ?sel))))
    (andthen (request MC_check_database (mo_verify_sqlite ops)) (ret ())))))) s3 = (Inr x, t)"
    unfolding roll_back_steps_def Let_def by (elim andthen_InrE)
  from stop have 1: "steps_done s1 = steps_done s @
      (if mc_selected_running s then [Did (MC_stop (sl_selected_application ?sel))] else [])"
    "mc_database_replaced s1 = mc_database_replaced s" "mc_pre_restore_backup s1 = mc_pre_restore_backup s"
    "mc_current_stopped s1 = mc_current_stopped s"
    by (auto simp: fetch_def when_act_def ret_def modify_def steps_done_def step_of_def
        elim!: bnd_InrE andthen_InrE request_Inr split: if_splits)
  from restore have 2: "steps_done s2 = steps_done s1 @ (if mc_database_replaced s1
      then (case mc_pre_restore_backup s1 of None \<Rightarrow> [] | Some b \<Rightarrow> [Did (MC_restore b)]) else [])"
    "mc_current_stopped s2 = mc_current_stopped s1"
    by (auto simp: fetch_def when_act_def ret_def raise_def the_backup_def steps_done_def step_of_def
        elim!: bnd_InrE andthen_InrE request_Inr split: if_splits option.splits)
  from restart have 3: "steps_done s3 = steps_done s2 @
      (if mc_current_stopped s2 then [Did (MC_restart (sl_current_application ?sel))] else [])"
    by (auto simp: fetch_def when_act_def ret_def steps_done_def step_of_def
        elim!: bnd_InrE andthen_InrE request_Inr split: if_splits)
  from doesD [OF hooks_back_does _ hooks, of None]
  show ?thesis by (simp add: 1 2 3 way_back_def opened_as_def)
qed

lemma rollback_Inr:
  assumes "rollback_manual_restore run ops e s = (Inr r, t)"
  shows "steps_done t = steps_done s @ way_back run s"
proof -
  have never: "bnd (fetch mc_database_replaced) (\<lambda>b. raise (g b)) u \<noteq> (Inr y, v)" for g u y v
    by (simp add: bnd_def fetch_def raise_def)
  from assms obtain u y where "on_exception (roll_back_steps run ops) (\<lambda>x.
       bnd (fetch mc_database_replaced) (\<lambda>replaced. raise (Dploy (manual_error run RecoveryRequiredError
         (''manual restore failed and the original release could not be proven restored: '' @
           ma_redact (mu_env run) (exn_text x)) replaced (Some False)
         (''Keep maintenance enabled and restore the recorded pre-restore backup and active '' @
          ''application manually.''))))) s = (Inr y, u)" "t = u"
    unfolding rollback_manual_restore_def by (elim andthen_InrE) (auto simp: bnd_def fetch_def ret_def)
  with roll_back_Inr [OF on_exception_InrE [OF this(1) never]] show ?thesis by simp
qed

lemma rollback_Inl:
  assumes "rollback_manual_restore run ops e s = (Inl (Dploy r), t)"
  shows "err_recovery r"
  using assms unfolding rollback_manual_restore_def
  by (elim andthen_InlE)
    (auto simp: on_exception_def catching_def bnd_def fetch_def raise_def ret_def manual_error_def is_exception_def
      split: prod.splits sum.splits if_splits exn.splits)

text \<open>Recording a failure: the operation is read, and marked if it is still in progress.\<close>

definition recording :: "dploydb_error \<Rightarrow> manual_step list set" where
  "recording e = {[Did MC_read_operation], [Did MC_read_operation,
     Did (let st = (if err_recovery e then OS_recovery_required else OS_failed_safe)
          in MC_stage st (operation_status_value st) (err_changed e) (err_running e))]}"

lemma finish_runs:
  assumes "andthen (finish_restore_failure run ops e) (raise (Dploy e)) s = (Inl x, t)"
  shows "(\<exists>c. hd (mc_trace t) = M_called c) \<or> x = validation_error \<or>
    (x = Dploy e \<and> (\<exists>rec \<in> recording e. steps_done t = steps_done s @ rec))"
  using assms
proof (cases rule: andthen_InlE)
  case 1
  then show ?thesis
    unfolding finish_restore_failure_def Let_def
    by (cases rule: bnd_InlE)
      (auto elim!: request_Inl bnd_InlE andthen_InlE simp: ret_def lift_result_def failure_record_of_def Let_def
        manual_stage_def split: if_splits)
next
  case (2 y u)
  from 2(1) have "\<exists>rec \<in> recording e. steps_done u = steps_done s @ rec"
    unfolding finish_restore_failure_def Let_def
    by (auto elim!: bnd_InrE andthen_InrE request_Inr simp: ret_def lift_result_def manual_stage_def steps_done_def
        step_of_def recording_def facts_def split: if_splits)
  with 2(2) show ?thesis by (simp add: raise_def)
qed

lemma finish_Dploy:
  assumes "andthen (finish_restore_failure run ops r) (raise (Dploy r)) s = (Inl (Dploy e), t)"
    and "\<forall>c. hd (mc_trace t) \<noteq> M_called c"
  shows "e = r \<and> (\<exists>rec \<in> recording e. steps_done t = steps_done s @ rec)"
  using finish_runs [OF assms(1)] assms(2) by (auto simp: validation_error_def)

lemma rollback_part:
  assumes "bnd (on_dploy (rollback_manual_restore run ops e0) (\<lambda>r.
        andthen (finish_restore_failure run ops r) (raise (Dploy r)))) (\<lambda>rolled_back.
      andthen (finish_restore_failure run ops rolled_back) (raise (Dploy rolled_back))) u = (Inl (Dploy e), t)"
    and "\<not> err_recovery e" and "\<forall>c. hd (mc_trace t) \<noteq> M_called c"
  shows "\<exists>rec \<in> recording e. steps_done t = steps_done u @ way_back run u @ rec"
  using assms(1)
proof (cases rule: bnd_InlE)
  case 1
  from 1 obtain x v where roll: "rollback_manual_restore run ops e0 u = (Inl x, v)"
    and rest: "(case x of Dploy r \<Rightarrow> andthen (finish_restore_failure run ops r) (raise (Dploy r)) | _ \<Rightarrow> raise x) v = (Inl (Dploy e) :: exn + dploydb_error, t)"
    by (auto simp: on_dploy_def catching_def split: prod.splits sum.splits)
  show ?thesis
  proof (cases x)
    case (Dploy r)
    with rest have "andthen (finish_restore_failure run ops r) (raise (Dploy r)) v = (Inl (Dploy e) :: exn + dploydb_error, t)"
      by simp
    from finish_Dploy [OF this assms(3)] rollback_Inl [OF roll [unfolded Dploy]] assms(2) show ?thesis by simp
  qed (use rest in \<open>simp_all add: raise_def\<close>)
next
  case (2 r v)
  from 2(1) have "rollback_manual_restore run ops e0 u = (Inr r, v)"
    unfolding on_dploy_def
    by (rule catching_raises) (auto intro!: raising)
  from rollback_Inr [OF this] finish_Dploy [OF 2(2) assms(3)] show ?thesis by auto
qed

lemma undone_failures:
  assumes "run_manual_restore run ops s = (Inl (Dploy e), t)" and "\<not> err_recovery e"
    and "\<forall>c. hd (mc_trace t) \<noteq> M_called c"
  shows "\<exists>x u. manual_restore_sequence run ops s = (Inl x, u) \<and>
    \<not> mc_traffic_activation_attempted u \<and> \<not> mc_normal_traffic_may_be_enabled u \<and>
    (\<exists>rec \<in> recording e. steps_done t = steps_done u @ way_back run u @ rec)"
proof -
  from assms(1) obtain x u where seq: "manual_restore_sequence run ops s = (Inl x, u)"
    and handle: "handle_restore_failure run ops x u = (Inl (Dploy e), t)"
    unfolding run_manual_restore_def by (auto simp: catching_def split: prod.splits sum.splits)
  show ?thesis
  proof (cases "normalize_restore_error run u x")
    case None
    with handle have "x = Dploy e" by (simp add: handle_restore_failure_def bnd_def fetch_def raise_def)
    with None show ?thesis by (simp add: normalize_restore_error_def)
  next
    case (Some e0)
    let ?stuck = "err_recovery e0 \<or> mc_traffic_activation_attempted u \<or> mc_normal_traffic_may_be_enabled u"
    show ?thesis
    proof (cases ?stuck)
      case True
      with handle Some have "andthen (finish_restore_failure run ops (restore_unresolved run u e0))
          (raise (Dploy (restore_unresolved run u e0))) u = (Inl (Dploy e) :: exn + manual_result, t)"
        by (auto simp: handle_restore_failure_def bnd_def [of "fetch _"] fetch_def Let_def)
      from finish_Dploy [OF this assms(3)] assms(2) show ?thesis
        by (simp add: restore_unresolved_def manual_error_def)
    next
      case False
      with handle Some have "bnd (on_dploy (rollback_manual_restore run ops e0) (\<lambda>r.
            andthen (finish_restore_failure run ops r) (raise (Dploy r)))) (\<lambda>rolled_back.
          andthen (finish_restore_failure run ops rolled_back) (raise (Dploy rolled_back))) u =
          (Inl (Dploy e) :: exn + manual_result, t)"
        by (simp add: handle_restore_failure_def bnd_def [of "fetch _"] fetch_def)
      from rollback_part [OF this assms(2,3)] seq False show ?thesis by blast
    qed
  qed
qed

text \<open>
  C21. A manual restore that fails without asking for recovery undid what it had done: traffic was
  never pointed at the selected release, and the selected application was stopped again, the backup
  of the current database restored, the current application restarted, the traffic hooks run and
  passed and application and database checked, each where needed and in this order, before the
  failure was recorded. (The one exception is an error raised by a store while recording.)
\<close>

theorem plain_manual_failures_are_undone:
  assumes "run_manual_restore run ops s = (Inl (Dploy e), t)" and "\<not> err_recovery e"
    and "\<forall>c. hd (mc_trace t) \<noteq> M_called c"
  shows "\<exists>x u. manual_restore_sequence run ops s = (Inl x, u) \<and>
    \<not> mc_traffic_activation_attempted u \<and> \<not> mc_normal_traffic_may_be_enabled u \<and>
    (\<exists>rec \<in> recording e. steps_done t = steps_done u @ way_back run u @ rec)"
  by (rule undone_failures [OF assms])

section \<open>A replacement that is not reported\<close>

text \<open>The calls that ended a run with an error.\<close>

lemma request_fails:
  "request c m s = (Inl e, t) \<Longrightarrow> hd (mc_trace t) = M_called c"
  "request c m s = (Inl e, t) \<Longrightarrow> m (mc_world s) = (Inl e, mc_world t)"
  "request c m s = (Inl e, t) \<Longrightarrow> mc_database_replaced t = mc_database_replaced s"
  by (auto elim!: request_Inl)

text \<open>No restore call is pending, and the database is not marked replaced.\<close>

definition settled :: "bool \<Rightarrow> 'w manual_context \<Rightarrow> bool" where
  "settled b s \<longleftrightarrow> (\<forall>a tr. mc_trace s \<noteq> M_called (MC_restore a) # tr) \<and>
     (b \<longrightarrow> \<not> mc_database_replaced s)"

lemma keeps_settled_request: "(\<And>a. c \<noteq> MC_restore a) \<Longrightarrow> keeps (settled b) (request c m)"
  unfolding keeps_def by (rule triple_request) (auto simp: settled_def)

lemma keeps_settled_hook: "keeps (settled b) (manual_hook ops a)"
  unfolding manual_hook_def Let_def record_event_def
  by (intro keeping keeps_settled_request keeps_modify) (simp_all add: settled_def)

lemma keeps_settled_flag:
  "(\<And>s. mc_trace (f s) = mc_trace s \<and> mc_database_replaced (f s) = mc_database_replaced s) \<Longrightarrow> keeps (settled b) (modify f)"
  by (rule keeps_modify) (simp add: settled_def)

lemma keeps_settled_parts:
  "keeps (settled b) (manual_stage run ops st stage message ev safety failure)"
  "keeps (settled b) (manual_progress run ops stage message ev safety)"
  "keeps (settled b) (manual_note run ops message ev)"
  "keeps (settled b) (record_restore_hook run ops h)"
  unfolding manual_progress_def manual_stage_def record_restore_hook_def manual_note_def
  by (intro keeping keeps_settled_request; simp)+

lemmas settling = keeping keeps_settled_request keeps_settled_hook keeps_settled_flag keeps_settled_parts

lemma settled_steps:
  "keeps (settled b) (inspect_both run ops)"
  "keeps (settled b) (enable_restore_maintenance run ops)"
  "keeps (settled b) (stop_current_application run ops)"
  "keeps (settled b) (back_up_current run ops)"
  "keeps (settled b) (restart_selected_application run ops)"
  "keeps (settled b) (check_selected_release run ops)"
  "keeps (settled b) (activate_selected_traffic run ops)"
  "keeps (settled b) (expose_selected_release run ops)"
  "keeps (settled b) (activate_selected_release run ops)"
  unfolding inspect_both_def enable_restore_maintenance_def stop_current_application_def back_up_current_def
    restart_selected_application_def check_selected_release_def activate_selected_traffic_def
    expose_selected_release_def activate_selected_release_def Let_def
  by (intro settling; simp)+

text \<open>A run that ended in the database restore: the call that failed.\<close>

definition failed_restore :: "'w manual_ops \<Rightarrow> exn \<Rightarrow> 'w manual_context \<Rightarrow> bool" where
  "failed_restore ops e s \<longleftrightarrow> (\<forall>b tr. mc_trace s = M_called (MC_restore b) # tr \<longrightarrow>
     \<not> mc_database_replaced s \<and> (\<exists>w. mo_restore ops b True False w = (Inl e, mc_world s)))"

lemma settled_failed: "settled b s \<Longrightarrow> failed_restore ops e s"
  by (simp add: settled_def failed_restore_def)

lemma settled_triple: "keeps (settled b) m \<Longrightarrow> triple (settled b) m (\<lambda>_. settled b) (failed_restore ops)"
  unfolding keeps_def by (erule triple_weaken) (auto intro: settled_failed)

lemma restore_call_fails:
  "triple (\<lambda>s. settled True s) (request (MC_restore a) (mo_restore ops a True False)) (\<lambda>_. settled False) (failed_restore ops)"
  by (rule tripleI) (auto elim!: request_Inr request_Inl simp: settled_def failed_restore_def)

lemma restore_step_fails:
  "triple (settled True) (restore_selected_database run ops) (\<lambda>_. settled False) (failed_restore ops)"
  unfolding restore_selected_database_def
  apply (rule triple_andthen [OF settled_triple [OF keeps_settled_parts(2)]])
  apply (rule triple_bnd [OF settled_triple])
   apply (unfold the_backup_def, intro settling) []
  apply (rule triple_bnd [OF restore_call_fails])
  apply (rule triple_andthen [where R = "settled False"])
   apply (rule triple_flag, simp add: settled_def)
  apply (rule triple_andthen [OF settled_triple [OF keeps_settled_parts(3)]])
  apply (rule settled_triple [OF keeps_settled_request], simp)
  done

lemma sequence_fails:
  "triple (settled True) (manual_restore_sequence run ops) (\<lambda>_ _. True) (failed_restore ops)"
  unfolding manual_restore_sequence_def
  apply (rule triple_andthen [OF settled_triple [OF settled_steps(1)]])
  apply (rule triple_andthen [OF settled_triple [OF settled_steps(2)]])
  apply (rule triple_andthen [OF settled_triple [OF settled_steps(3)]])
  apply (rule triple_andthen [OF settled_triple [OF settled_steps(4)]])
  apply (rule triple_andthen [OF restore_step_fails])
  apply (rule triple_andthen [OF settled_triple [OF settled_steps(5)]])
  apply (rule triple_andthen [OF settled_triple [OF settled_steps(6)]])
  apply (rule triple_andthen [OF settled_triple [OF settled_steps(7)]])
  apply (rule triple_andthen [OF settled_triple [OF settled_steps(8)]])
  apply (rule triple_weaken [OF settled_triple [OF settled_steps(9)]])
    apply simp_all
  done


lemma fresh_settled: "settled True ((new_manual_context w)\<lparr>mc_selected_backup := a\<rparr>)"
  by (simp add: settled_def new_manual_context_def)

lemma unresolved_run:
  assumes "manual_restore_sequence run ops s = (Inl (Dploy x), v)" and "fp_recovery_required (de_payload x)"
    and "run_manual_restore run ops s = (Inl (Dploy e) :: exn + manual_result, t)"
    and "\<forall>c. hd (mc_trace t) \<noteq> M_called c"
  shows "e = restore_unresolved run v x \<and> (\<exists>rec \<in> recording e. steps_done t = steps_done v @ rec)"
proof -
  have "andthen (finish_restore_failure run ops (restore_unresolved run v x))
      (raise (Dploy (restore_unresolved run v x))) v = (Inl (Dploy e) :: exn + manual_result, t)"
    using assms(3) by (simp add: run_manual_restore_def catching_def assms(1,2) handle_restore_failure_def
        bnd_def [of "fetch _"] fetch_def normalize_restore_error_def Let_def)
  from finish_Dploy [OF this assms(4)] show ?thesis .
qed

lemma recovery_flag: "wf_error x \<Longrightarrow> is_recovery_error (Dploy x) \<Longrightarrow> fp_recovery_required (de_payload x)"
  by (simp add: wf_error_def is_recovery_error_def)

lemma failed_replacement:
  assumes "mo_restore ops = restore_verified_database env inject u"
    and "manual_restore_sequence run ops ((new_manual_context w)\<lparr>mc_selected_backup := Some a\<rparr>) = (Inl (Dploy x), v)"
    and "mc_trace v = M_called (MC_restore b) # tr" and "is_recovery_error (Dploy x)"
  shows "\<not> mc_database_replaced v \<and> (\<exists>before :: backup_world osys. restored_world env b (os_world before) (os_world (mc_world v)))"
proof -
  have "failed_restore ops (Dploy x) v"
    using sequence_fails [where run = run and ops = ops] fresh_settled [where w = w and a = "Some a"] assms(2) by (auto simp: triple_def)
  with assms(3) obtain before where not: "\<not> mc_database_replaced v"
    and "mo_restore ops b True False before = (Inl (Dploy x), mc_world v)"
    by (auto simp: failed_restore_def)
  then have "restore_outcome env b (os_world before) (Inl (Dploy x)) (os_world (mc_world v))"
    using restore_run_outcome assms(1) by metis
  then show ?thesis using not assms(4) by (auto simp: restore_outcome_def)
qed

lemma unreported_replacement:
  assumes "mo_restore ops = restore_verified_database env inject u"
    and "manual_restore_sequence run ops ((new_manual_context w)\<lparr>mc_selected_backup := Some a\<rparr>) = (Inl (Dploy x), v)"
    and "mc_trace v = M_called (MC_restore b) # tr" and "wf_error x" and "is_recovery_error (Dploy x)"
    and "run_manual_restore run ops ((new_manual_context w)\<lparr>mc_selected_backup := Some a\<rparr>) = (Inl (Dploy e), t)"
    and "\<forall>c. hd (mc_trace t) \<noteq> M_called c"
  shows "(\<exists>before :: backup_world osys. restored_world env b (os_world before) (os_world (mc_world v))) \<and>
    err_recovery e \<and> \<not> err_changed e \<and>
    (\<exists>rec \<in> {[Did MC_read_operation], [Did MC_read_operation,
       Did (MC_stage OS_recovery_required ''recovery_required'' False (err_running e))]}.
     steps_done t = steps_done v @ rec)"
proof -
  from failed_replacement [OF assms(1,2,3,5)]
  have not: "\<not> mc_database_replaced v"
    and world: "\<exists>before :: backup_world osys. restored_world env b (os_world before) (os_world (mc_world v))"
    by blast+
  from unresolved_run [OF assms(2) recovery_flag [OF assms(4,5)] assms(6,7)]
  have e: "e = restore_unresolved run v x" and rec: "\<exists>rec \<in> recording e. steps_done t = steps_done v @ rec"
    by blast+
  from e not have fields: "err_recovery e" "\<not> err_changed e"
    by (simp_all add: restore_unresolved_def manual_error_def)
  have "recording e = {[Did MC_read_operation], [Did MC_read_operation,
       Did (MC_stage OS_recovery_required ''recovery_required'' False (err_running e))]}"
    using fields by (simp add: recording_def Let_def)
  with rec fields world show ?thesis by metis
qed

text \<open>
  C22. A restore that fails after the replacement, when the previous database is gone and production
  is exactly the selected backup, is not reported as a change: the manual restore marks the
  replacement only when the call returns, so the error that asks for recovery and the record of the
  operation both say that production did not change.
\<close>

theorem failed_replacement_is_reported_unchanged:
  assumes "mo_restore ops = restore_verified_database env inject u"
    and "manual_restore_sequence run ops ((new_manual_context w)\<lparr>mc_selected_backup := Some a\<rparr>) = (Inl (Dploy x), v)"
    and "mc_trace v = M_called (MC_restore b) # tr" and "wf_error x" and "is_recovery_error (Dploy x)"
    and "run_manual_restore run ops ((new_manual_context w)\<lparr>mc_selected_backup := Some a\<rparr>) = (Inl (Dploy e), t)"
    and "\<forall>c. hd (mc_trace t) \<noteq> M_called c"
  shows "(\<exists>before :: backup_world osys. restored_world env b (os_world before) (os_world (mc_world v))) \<and>
    err_recovery e \<and> \<not> err_changed e \<and>
    (\<exists>rec \<in> {[Did MC_read_operation], [Did MC_read_operation,
       Did (MC_stage OS_recovery_required ''recovery_required'' False (err_running e))]}.
     steps_done t = steps_done v @ rec)"
  by (rule unreported_replacement [OF assms])


section \<open>A restore to evaluate on\<close>

definition other_release_id :: string where
  "other_release_id = ''release_fedcba9876543210fedcba9876543210''"

definition other_handle :: application_handle where
  "other_handle = example_handle\<lparr>ah_container_id := ''ba9876543210''\<rparr>"

text \<open>The selected release, and the active one that follows it.\<close>

definition selected_release :: release_manifest where
  "selected_release = example_release\<lparr>rm_status := DS_active, rm_new_application := Some example_handle\<rparr>"

definition following_release :: release_manifest where
  "following_release = example_release\<lparr>rm_release_id := other_release_id, rm_operation_id := final_operation_id,
     rm_status := DS_active, rm_previous_release_id := Some (rm_release_id selected_release),
     rm_new_application := Some other_handle, rm_previous_application := Some example_handle,
     rm_final_backup_id := Some final_backup_id, rm_final_backup_sha256 := Some final_sha\<rparr>"

definition example_manual_env :: manual_env where
  "example_manual_env = \<lparr>ma_state_directory = ''/var/lib/dploydb'', ma_owner_path = ''/var/lib/dploydb/owner'',
     ma_releases_directory = ''/var/lib/dploydb/releases'', ma_pointer_path = ''/var/lib/dploydb/pointers'',
     ma_database_path = ''/srv/data/app.db'', ma_log = id, ma_redact = id, ma_utc = (\<lambda>_. ''''),
     ma_topology = Inr ()\<rparr>"

text \<open>Dependencies that all succeed, over the files of a backup store, and the program's own restore.\<close>

definition example_manual_ops :: "injector \<Rightarrow> command_result \<Rightarrow> (backup_world osys) manual_ops" where
  "example_manual_ops inject hook =
     \<lparr>mo_lock = ret (), mo_unlock = ret (), mo_previous_owner = (\<lambda>_. None), mo_latest_operation = ret None,
      mo_lookup_release = (\<lambda>i. ret (selected_release, Some \<lparr>rp_active_release_id = other_release_id,
        rp_previous_release_id = Some example_release_id, rp_updated_at = 0\<rparr>)),
      mo_read_release = (\<lambda>i. ret following_release),
      mo_dependencies = ret (), mo_close = ret (),
      mo_create_operation = (\<lambda>ty stage ev. ret example_operation),
      mo_record_owner = (\<lambda>i. ret ()), mo_read_operation = (\<lambda>i. ret example_operation),
      mo_append_event = (\<lambda>i msg ev. ret example_event),
      mo_transition = (\<lambda>i st stage msg ev sf fl. ret example_operation),
      mo_open_backup = (\<lambda>i. ret example_final), mo_close_backup = (\<lambda>a. ret ()),
      mo_inspect = (\<lambda>h running. ret (example_inspection h running)),
      mo_stop_current = (\<lambda>h. ret example_stop),
      mo_restart_previous = (\<lambda>h. ret \<lparr>pr_handle = h, pr_command = example_command,
        pr_inspection = example_inspection h True, pr_network_refreshes = []\<rparr>),
      mo_run_hook = (\<lambda>a. ret (if a = TA_enable_maintenance then hook else example_command)),
      mo_create_backup = (\<lambda>p i. ret example_final),
      mo_restore = restore_verified_database example_restore_env inject ''r'',
      mo_verify_sqlite = ret example_sqlite, mo_check_application = (\<lambda>v. ret example_health),
      mo_activate_release = (\<lambda>i. ret \<lparr>rp_active_release_id = i, rp_previous_release_id = None, rp_updated_at = 0\<rparr>),
      mo_inject = (\<lambda>name. ret ())\<rparr>"

definition example_selection :: restore_selection where
  "example_selection = \<lparr>sl_active = following_release, sl_selected = selected_release,
     sl_backup = ba_metadata example_final, sl_current_application = other_handle,
     sl_selected_application = example_handle, sl_database_path = ''/srv/data/app.db''\<rparr>"

definition example_manual_run :: manual_run where
  "example_manual_run = \<lparr>mu_selection = example_selection, mu_operation = example_op_id, mu_env = example_manual_env\<rparr>"

lemmas manual_steps = manual_restore_sequence_def inspect_both_def enable_restore_maintenance_def
  stop_current_application_def back_up_current_def restore_selected_database_def the_backup_def
  manual_hook_def record_restore_hook_def manual_note_def manual_progress_def manual_stage_def
  request_def record_event_def in_manual_world_def

lemmas manual_combinators = andthen_def bnd_def modify_def fetch_def ret_def raise_def lift_result_def Let_def


lemma example_versions [simp]:
  "rm_requested_version selected_release = ''v1''" "rm_requested_version following_release = ''v1''"
  "rm_release_id following_release = other_release_id" "rm_release_id selected_release = example_release_id"
  by (simp_all add: selected_release_def following_release_def example_release_def new_release_def)

lemma example_summary:
  "health_summary example_health HR_previous ''v1'' = Inr \<lparr>hv_role = HR_previous, hv_version = ''v1'',
     hv_url = ''http://127.0.0.1:8000/health'', hv_readiness_attempts = 1, hv_smoke_succeeded = False\<rparr>"
  by (simp add: health_summary_def example_health_def valid_health_evidence_def Let_def is_version_def is_word_of_def
      word_like_def is_alnum_def is_lower_def is_digit_def length_between_def)

lemmas manual_example = example_manual_ops_def example_manual_run_def example_selection_def example_summary

abbreviation opened_example :: "(backup_world osys) manual_context" where
  "opened_example \<equiv> (new_manual_context example_restore_world)\<lparr>mc_selected_backup := Some example_final\<rparr>"

lemma example_sequence_fails:
  assumes "restore_verified_database example_restore_env inject ''r'' example_final True False example_restore_world = (Inl x, w)"
  shows "\<exists>v tr. manual_restore_sequence example_manual_run (example_manual_ops inject example_command) opened_example = (Inl x, v) \<and>
    mc_trace v = M_called (MC_restore example_final) # tr"
  using assms
  by (simp add: manual_steps manual_combinators manual_example new_manual_context_def)


text \<open>The fault point after the replacement fails.\<close>

definition late_fault :: injector where
  "late_fault st = (if st = ''rollback_after_replace'' then Inl os_error else Inr ())"

lemma late_failure:
  "\<exists>t. restore_verified_database example_restore_env late_fault ''r'' example_final True False example_restore_world =
     (Inl (restore_failure example_restore_env True os_error), t)"
  by (rule restore_fails_late [OF example_restorable])
    (simp_all add: late_fault_def os_error_def is_exception_def)

definition late_error :: dploydb_error where
  "late_error = mk_error RecoveryRequiredError
       (''verified database rollback started replacement but could not be proven: '' @
         be_redact example_restore_env (describe_exn os_error)) True (Some False) (Some (be_database_path example_restore_env))
       (''Keep every application stopped and verify or restore the recorded final '' @ ''backup manually.'')"

lemma late_failure_error: "restore_failure example_restore_env True os_error = Dploy late_error"
  by (simp add: restore_failure_def late_error_def)

lemma example_records:
  "mo_read_operation (example_manual_ops inject hook) = (\<lambda>i. ret example_operation)"
  "mo_transition (example_manual_ops inject hook) = (\<lambda>i st stage msg ev sf fl. ret example_operation)"
  "om_status example_operation = OS_in_progress"
  by (simp_all add: example_manual_ops_def example_operation_def)

lemma late_record: "failure_record_ok
    \<lparr>fr_error_code = fp_error_code (de_payload (restore_unresolved example_manual_run v late_error)),
     fr_what_failed = err_what (restore_unresolved example_manual_run v late_error),
     fr_log_path = fp_log_path (de_payload (restore_unresolved example_manual_run v late_error)),
     fr_next_safe_action = fp_next_safe_action (de_payload (restore_unresolved example_manual_run v late_error))\<rparr>"
  by (simp add: failure_record_ok_def restore_unresolved_def late_error_def manual_error_def length_between_def
      example_manual_run_def manual_log_def example_manual_env_def describe_exn_def os_error_def example_op_id_def
      example_restore_env_def example_backup_env_def)

theorem failed_replacement_is_reported_unchanged_witness:
  "\<exists>e t. run_manual_restore example_manual_run (example_manual_ops late_fault example_command) opened_example = (Inl (Dploy e), t) \<and>
     err_recovery e \<and> \<not> err_changed e"
proof -
  let ?ops = "example_manual_ops late_fault example_command"
  from late_failure late_failure_error obtain w where
    "restore_verified_database example_restore_env late_fault ''r'' example_final True False example_restore_world =
      (Inl (Dploy late_error), w)" by auto
  from example_sequence_fails [OF this] obtain v tr where
    seq: "manual_restore_sequence example_manual_run ?ops opened_example = (Inl (Dploy late_error), v)"
    and tr: "mc_trace v = M_called (MC_restore example_final) # tr" by blast
  have late: "wf_error late_error" "is_recovery_error (Dploy late_error)"
    by (simp_all add: late_error_def is_recovery_error_def)
  note flag = recovery_flag [OF late]
  have "\<exists>t. run_manual_restore example_manual_run ?ops opened_example =
      (Inl (Dploy (restore_unresolved example_manual_run v late_error)), t) \<and> (\<forall>c. hd (mc_trace t) \<noteq> M_called c)"
    by (simp add: run_manual_restore_def catching_def seq handle_restore_failure_def normalize_restore_error_def
        finish_restore_failure_def manual_stage_def request_def record_event_def in_manual_world_def
        manual_combinators example_records failure_record_of_def late_record
        flag)
  then obtain e t where run: "run_manual_restore example_manual_run ?ops opened_example = (Inl (Dploy e), t)"
    "\<forall>c. hd (mc_trace t) \<noteq> M_called c" by blast
  have "mo_restore ?ops = restore_verified_database example_restore_env late_fault ''r''"
    by (simp add: example_manual_ops_def)
  from failed_replacement_is_reported_unchanged [OF this seq tr late run] run show ?thesis by blast
qed


text \<open>The same restore in which every call works, from its entry.\<close>

lemma example_sequence_returns:
  assumes "restore_verified_database example_restore_env inject ''r'' example_final True False example_restore_world = (Inr p, w)"
  shows "\<exists>z v. manual_restore_sequence example_manual_run (example_manual_ops inject example_command) opened_example = (Inr z, v)"
  using assms
  by (simp add: manual_steps restart_selected_application_def check_selected_release_def activate_selected_traffic_def
      expose_selected_release_def activate_selected_release_def manual_combinators manual_example new_manual_context_def)

lemma fresh_world: "mc_world (new_manual_context w) = w" "(new_manual_context w)\<lparr>mc_world := w\<rparr> = new_manual_context w"
  by (simp_all add: new_manual_context_def)

lemma example_guarded_returns:
  "\<exists>z t. guarded_manual_restore example_manual_run (example_manual_ops no_fault example_command)
     (new_manual_context example_restore_world) = (Inr z, t)"
proof -
  from restore_runs [OF example_restorable] obtain p w where
    "restore_verified_database example_restore_env no_fault ''r'' example_final True False example_restore_world = (Inr p, w)"
    by blast
  from example_sequence_returns [OF this] obtain z v where
    "manual_restore_sequence example_manual_run (example_manual_ops no_fault example_command) opened_example = (Inr z, v)"
    by blast
  moreover have "mo_open_backup (example_manual_ops inject hook) = (\<lambda>i. ret example_final)"
    "mo_close_backup (example_manual_ops inject hook) = (\<lambda>a. ret ())" "mo_close (example_manual_ops inject hook) = ret ()"
    for inject hook by (simp_all add: example_manual_ops_def)
  ultimately show ?thesis
    by (simp add: guarded_manual_restore_def finally_act_def catching_def in_manual_world_def manual_combinators
        run_manual_restore_def fresh_world)
qed

theorem returned_manual_restores_witness:
  "\<exists>z t. guarded_manual_restore example_manual_run (example_manual_ops no_fault example_command)
     (new_manual_context example_restore_world) = (Inr z, t) \<and> ml_selected z = selected_release \<and>
     ml_replaced z = following_release"
proof -
  from example_guarded_returns obtain z t where run:
    "guarded_manual_restore example_manual_run (example_manual_ops no_fault example_command)
     (new_manual_context example_restore_world) = (Inr z, t)" by blast
  with returned_manual_restores [OF run] show ?thesis
    by (simp add: example_manual_run_def example_selection_def)
qed

lemma example_preview:
  "preview_configured_restore example_manual_env (example_manual_ops inject hook) example_release_id w = (Inr example_selection, w)"
  by (simp add: preview_configured_restore_def manual_combinators example_manual_ops_def protected_pointers_def
      matching_releases_def selected_release_def following_release_def with_open_backup_def finally_act_def
      backup_of_release_def other_handle_def example_handle_def example_selection_def example_final_def
      example_manual_env_def)

lemma example_entry:
  "\<exists>z w. restore_configured_release example_manual_env (example_manual_ops no_fault example_command) example_release_id
     example_restore_world = (Inr z, w)"
proof -
  let ?ops = "example_manual_ops no_fault example_command"
  have "\<lparr>mu_selection = example_selection, mu_operation = om_operation_id example_operation, mu_env = example_manual_env\<rparr> =
      example_manual_run"
    by (simp add: example_manual_run_def example_operation_def)
  moreover have "ma_topology example_manual_env = Inr ()" by (simp add: example_manual_env_def)
  moreover have "mo_lock ?ops = ret ()" "mo_unlock ?ops = ret ()" "mo_previous_owner ?ops = (\<lambda>_. None)"
    "mo_latest_operation ?ops = ret None" "mo_dependencies ?ops = ret ()"
    "mo_create_operation ?ops = (\<lambda>ty stage ev. ret example_operation)" "mo_record_owner ?ops = (\<lambda>i. ret ())"
    by (simp_all add: example_manual_ops_def)
  moreover note example_guarded_returns
  ultimately show ?thesis
    by (auto simp: restore_configured_release_def finally_act_def manual_combinators example_preview
        require_clean_operation_state_def)
qed


text \<open>A restore whose first hook fails.\<close>

lemma failed_summary:
  "hook_summary \<lparr>hr_action = a, hr_command = failed_command\<rparr> =
     Inr (summarised_hook \<lparr>hr_action = a, hr_command = failed_command\<rparr>)"
  "\<not> hook_passed \<lparr>hr_action = a, hr_command = failed_command\<rparr>"
  by (simp_all add: hook_passed_def hook_summary_def summarised_hook_def valid_hook_evidence_def failed_command_def
      example_command_def example_output_def Let_def length_between_def output_complete_def)

definition undone_error :: dploydb_error where
  "undone_error = manual_error example_manual_run OperationFailedError
     (''manual restore did not complete; the original database and application were restored '' @
        ''and verified: '' @ err_what (restore_hook_error example_manual_run (new_manual_context example_restore_world)
          \<lparr>hr_action = TA_enable_maintenance, hr_command = failed_command\<rparr> False)) False (Some True)
       ''Inspect the restore log, correct the failure, and request restore again.''"


lemma undone_record: "failure_record_ok
    \<lparr>fr_error_code = fp_error_code (de_payload undone_error), fr_what_failed = err_what undone_error,
     fr_log_path = fp_log_path (de_payload undone_error), fr_next_safe_action = fp_next_safe_action (de_payload undone_error)\<rparr>"
  by (simp add: failure_record_ok_def undone_error_def manual_error_def restore_hook_error_def length_between_def
      example_manual_run_def manual_log_def example_manual_env_def example_op_id_def)

lemma example_undone:
  "\<exists>t. run_manual_restore example_manual_run (example_manual_ops no_fault failed_command) opened_example =
      (Inl (Dploy undone_error), t) \<and> (\<forall>c. hd (mc_trace t) \<noteq> M_called c)"
  using undone_record
  by (simp add: run_manual_restore_def catching_def manual_steps manual_combinators manual_example failed_summary
      new_manual_context_def raise_restore_hook_def handle_restore_failure_def normalize_restore_error_def
      restore_hook_error_def manual_error_def rollback_manual_restore_def roll_back_steps_def when_act_def on_dploy_def
      on_exception_def finish_restore_failure_def failure_record_of_def undone_error_def example_operation_def)

theorem plain_manual_failures_are_undone_witness:
  "\<exists>t x u. run_manual_restore example_manual_run (example_manual_ops no_fault failed_command) opened_example =
       (Inl (Dploy undone_error), t) \<and>
     manual_restore_sequence example_manual_run (example_manual_ops no_fault failed_command) opened_example = (Inl x, u) \<and>
     \<not> mc_traffic_activation_attempted u"
proof -
  from example_undone obtain t where run: "run_manual_restore example_manual_run (example_manual_ops no_fault failed_command)
      opened_example = (Inl (Dploy undone_error), t)" and trace: "\<forall>c. hd (mc_trace t) \<noteq> M_called c"
    by blast
  have "\<not> err_recovery undone_error" by (simp add: undone_error_def manual_error_def)
  from plain_manual_failures_are_undone [OF run this trace] run show ?thesis by blast
qed

end
