(* ===== verification/Rehearsal.thy ===== *)
theory Rehearsal
  imports Copying Cutover
begin

text \<open>
  The migration rehearsal, \<^verbatim>\<open>dploydb/migration.py\<close>: a verified snapshot is copied into a private
  workspace, the migration runs on the copy, the copy is checked, and the workspace is removed
  again whatever happened. The command is a parameter that may change anything it can reach.
\<close>

section \<open>The workspace\<close>

text \<open>
  The directory of one rehearsal, by its entries; the migration may also have replaced it by a
  file or by a link, which points to something or to nothing. The world holds the backups and the
  production files, the workspaces, and whatever else the body of a rehearsal works on.
\<close>

datatype workspace =
    Space_directory "(string \<times> bytes disk_file) list" | Space_symlink (link_resolves: bool) | Space_file

record rehearsal_files =
  rf_root :: root_state
  rf_spaces :: "(string \<times> workspace) list"

record 'x rehearsal_world =
  rw_backups :: backup_world
  rw_files :: rehearsal_files
  rw_rest :: 'x

type_synonym ('x, 'a) rehearsal_act = "('x rehearsal_world osys, exn, 'a) act"

record 'x rehearsal_env =
  re_backup :: backup_env
  re_root :: string
  re_log :: string
  re_command :: "nat \<Rightarrow> string \<Rightarrow> 'x rehearsal_world \<Rightarrow> command_result result \<times> 'x rehearsal_world"

definition workspace_database :: string where "workspace_database = ''rehearsal.db''"

definition put_space :: "string \<Rightarrow> workspace \<Rightarrow> 'x rehearsal_world \<Rightarrow> 'x rehearsal_world" where
  "put_space i sp w = w\<lparr>rw_files := (rw_files w)\<lparr>rf_spaces := AList.update i sp (rf_spaces (rw_files w))\<rparr>\<rparr>"

definition drop_space :: "string \<Rightarrow> 'x rehearsal_world \<Rightarrow> 'x rehearsal_world" where
  "drop_space i w = w\<lparr>rw_files := (rw_files w)\<lparr>rf_spaces := AList.delete i (rf_spaces (rw_files w))\<rparr>\<rparr>"

definition space_of :: "string \<Rightarrow> 'x rehearsal_world \<Rightarrow> workspace option" where
  "space_of i w = map_of (rf_spaces (rw_files w)) i"

definition entries_of :: "string \<Rightarrow> 'x rehearsal_world \<Rightarrow> (string \<times> bytes disk_file) list" where
  "entries_of i w = (case space_of i w of Some (Space_directory es) \<Rightarrow> es | _ \<Rightarrow> [])"

definition space_file :: "string \<Rightarrow> string \<Rightarrow> 'x rehearsal_world \<Rightarrow> bytes disk_file option" where
  "space_file i name w = map_of (entries_of i w) name"

definition put_entry :: "string \<Rightarrow> string \<Rightarrow> bytes \<Rightarrow> 'x rehearsal_world \<Rightarrow> 'x rehearsal_world" where
  "put_entry i name c w = put_space i (Space_directory (AList.update name (private_file c) (entries_of i w))) w"

definition drop_entry :: "string \<Rightarrow> string \<Rightarrow> 'x rehearsal_world \<Rightarrow> 'x rehearsal_world" where
  "drop_entry i name w = put_space i (Space_directory (AList.delete name (entries_of i w))) w"

definition put_root :: "root_state \<Rightarrow> 'x rehearsal_world \<Rightarrow> 'x rehearsal_world" where
  "put_root r w = w\<lparr>rw_files := (rw_files w)\<lparr>rf_root := r\<rparr>\<rparr>"

abbreviation re_schedule :: "'x rehearsal_env \<Rightarrow> schedule" where
  "re_schedule env \<equiv> be_schedule (re_backup env)"

definition database_path :: "'x rehearsal_env \<Rightarrow> string \<Rightarrow> string" where
  "database_path env i = re_root env @ ''/'' @ i @ ''/'' @ workspace_database"

section \<open>The snapshot\<close>

definition snapshot_error :: "string \<Rightarrow> string \<Rightarrow> exn" where
  "snapshot_error what path = Dploy (mk_error SafetyCheckError what False None (Some path)
     ''Create a new verified rehearsal snapshot before retrying.'')"

definition snapshot_path :: "backup_artifact \<Rightarrow> string" where
  "snapshot_path a = ba_directory a @ ''/'' @ ba_database_name a"

abbreviation snapshot_file :: "backup_artifact \<Rightarrow> 'x rehearsal_world \<Rightarrow> bytes disk_file option" where
  "snapshot_file a w \<equiv> file_at (At_backup (bm_backup_id (ba_metadata a))) (rw_backups w)"

definition verify_snapshot :: "'x rehearsal_env \<Rightarrow> backup_artifact \<Rightarrow> ('x, unit) rehearsal_act" where
  "verify_snapshot env a = (let path = snapshot_path a; m = ba_metadata a in
     bnd (hash_file (re_backup env) path (snapshot_file a)) (\<lambda>before.
     if before \<noteq> (bm_size_bytes m, bm_sha256 m)
     then raise (snapshot_error ''rehearsal snapshot no longer matches its verified metadata'' path)
     else
     bnd (check_file (re_backup env) path 10 (snapshot_file a)) (\<lambda>_.
     bnd (hash_file (re_backup env) path (snapshot_file a)) (\<lambda>afterwards.
     if afterwards \<noteq> before
     then raise (snapshot_error ''rehearsal snapshot changed while it was reverified'' path)
     else ret ()))))"

definition create_workspace :: "'x rehearsal_env \<Rightarrow> string \<Rightarrow> ('x, string) rehearsal_act" where
  "create_workspace env i = (let sc = re_schedule env in
     if \<not> is_absolute (re_root env) \<or> re_root env = ''/''
     then raise (value_error ''rehearsal workspace root must be an absolute non-root path'')
     else if \<not> is_operation_id i
     then raise (value_error ''operation ID is invalid or unsafe for a rehearsal workspace'')
     else
     andthen (ensure_directory sc (rf_root \<circ> rw_files) put_root os_error os_error os_error os_error)
    (bnd (fetch (space_of i \<circ> os_world)) (\<lambda>sp.
     if sp \<noteq> None then raise os_error
     else
     andthen (syscall sc (put_space i (Space_directory [])))
    (andthen
      (on_os_error (sync_directory sc)
        (andthen (ignoring (syscall sc (drop_space i))) (raise os_error)))
      (ret i)))))"

text \<open>The copy of the snapshot, which must hold exactly its bytes and pass the checks of SQLite.\<close>

definition unlink_copy :: "'x rehearsal_env \<Rightarrow> string \<Rightarrow> ('x, 'a) rehearsal_act \<Rightarrow> ('x, 'a) rehearsal_act" where
  "unlink_copy env i m = on_exception m (\<lambda>x.
     andthen (ignoring (syscall (re_schedule env) (drop_entry i workspace_database))) (raise x))"

definition open_snapshot :: "'x rehearsal_env \<Rightarrow> backup_artifact \<Rightarrow> ('x, bytes) rehearsal_act" where
  "open_snapshot env a =
     andthen (syscall (re_schedule env) id)
       (bnd (fetch (snapshot_file a \<circ> os_world)) (\<lambda>f. case f of
          None \<Rightarrow> raise os_error
        | Some g \<Rightarrow> if f_kind g = FK_regular then ret (f_content g) else raise os_error))"

definition open_copy :: "'x rehearsal_env \<Rightarrow> string \<Rightarrow> ('x, unit) rehearsal_act" where
  "open_copy env i =
     bnd (fetch (space_file i workspace_database \<circ> os_world)) (\<lambda>f.
     if f \<noteq> None then raise os_error
     else syscall (re_schedule env) (put_entry i workspace_database []))"

definition materialize_snapshot :: "'x rehearsal_env \<Rightarrow> backup_artifact \<Rightarrow> string \<Rightarrow> ('x, string) rehearsal_act" where
  "materialize_snapshot env a i =
    (let sc = re_schedule env; path = database_path env i; copied = space_file i workspace_database;
         m = ba_metadata a in
     bnd (unlink_copy env i (open_snapshot env a)) (\<lambda>content.
     andthen (closing_on_error (unlink_copy env i (open_copy env i)) (syscall sc id))
    (andthen
      (closing
        (unlink_copy env i
          (andthen (syscall sc id)
          (andthen (copy_loop sc (be_late (re_backup env)) (put_entry i workspace_database) content 0)
            (syscall sc id))))
        (andthen (syscall sc id) (syscall sc id)))
    (andthen (sync_directory sc)
    (bnd (hash_file (re_backup env) path copied) (\<lambda>(size_bytes, sha).
     if size_bytes \<noteq> bm_size_bytes m \<or> sha \<noteq> bm_sha256 m
     then raise (Dploy (mk_error SafetyCheckError
       ''disposable rehearsal database does not match the verified snapshot'' False None (Some path)
       ''Discard the rehearsal workspace and create a new verified snapshot.''))
     else andthen (check_file (re_backup env) path 10 copied) (ret path)))))))"

section \<open>The command\<close>

definition usable_rehearsal :: "string \<Rightarrow> command_result \<Rightarrow> unit result" where
  "usable_rehearsal log_path r =
    (if co_truncated (cr_stdout r) \<or> co_truncated (cr_stderr r)
     then Inl (Dploy (mk_error OperationFailedError
            ''migration output exceeded the complete-capture safety bound'' False None (Some log_path)
            (''Production was not changed; reduce migration output and retry so complete '' @
             ''stdout and stderr can be preserved.'')))
     else if cr_outcome r = CO_succeeded then Inr ()
     else if cr_outcome r = CO_cleanup_failed
     then Inl (Dploy (mk_error RecoveryRequiredError
            (''migration process cleanup could not be proven: '' @
               or_else (cr_cleanup_error r) ''unknown cleanup failure'') False None (Some log_path)
            (''Production was not changed. Preserve the evidence and confirm the complete '' @
             ''migration process group is stopped before running recovery.'')))
     else Inl (Dploy (mk_error ExternalCommandError
            (case cr_outcome r of
               CO_nonzero_exit \<Rightarrow> ''migration command exited with status '' @ exit_text (cr_exit_code r)
             | CO_timed_out \<Rightarrow> ''migration command timed out and its process group was terminated''
             | CO_cancelled \<Rightarrow> ''migration command was cancelled and its process group was terminated''
             | _ \<Rightarrow> ''migration command could not start: '' @ or_else (cr_start_error r) ''unknown error'')
            False None (Some log_path)
            (''Production was not changed; inspect the captured migration output, correct the '' @
             ''command, and retry.''))))"

definition run_migration :: "'x rehearsal_env \<Rightarrow> string \<Rightarrow> ('x, command_result) rehearsal_act" where
  "run_migration env path s =
    (case re_command env (os_calls s) path (os_world s) of (r, w) \<Rightarrow> (r, (next_call s)\<lparr>os_world := w\<rparr>))"

record rehearsal_result =
  rr_operation_id :: string
  rr_backup_id :: string
  rr_backup_sha256 :: string
  rr_database_size_bytes :: int
  rr_database_sha256 :: string
  rr_command :: command_result
  rr_sqlite :: sqlite_verification
  rr_completed_at :: int

definition valid_rehearsal_result :: "rehearsal_result \<Rightarrow> bool" where
  "valid_rehearsal_result r \<longleftrightarrow> is_operation_id (rr_operation_id r) \<and> is_backup_id (rr_backup_id r) \<and>
     is_sha256 (rr_backup_sha256 r) \<and> 0 < rr_database_size_bytes r \<and> is_sha256 (rr_database_sha256 r) \<and>
     valid_sqlite_verification (rr_sqlite r)"

record active_rehearsal =
  ar_database_path :: string
  ar_result :: rehearsal_result

text \<open>The body of the rehearsal up to its \<^verbatim>\<open>yield\<close>, once the workspace exists.\<close>

definition prepare_rehearsal ::
  "'x rehearsal_env \<Rightarrow> backup_artifact \<Rightarrow> string \<Rightarrow> (command_result \<Rightarrow> ('x, unit) rehearsal_act) \<Rightarrow> string \<Rightarrow>
   ('x, active_rehearsal) rehearsal_act"
where
  "prepare_rehearsal env a i sink sp =
     bnd (materialize_snapshot env a sp) (\<lambda>path.
     bnd (run_migration env path) (\<lambda>r.
     bnd (lift_result (migration_command_evidence r)) (\<lambda>evidence.
     andthen (sink evidence)
    (andthen (lift_result (usable_rehearsal (re_log env) r))
    (bnd (on_dploy (check_file (re_backup env) path 10 (space_file sp workspace_database)) (\<lambda>e.
            raise (Dploy (mk_error OperationFailedError
              (''post-migration SQLite verification failed: '' @ err_what e) False None (Some (re_log env))
              (''Production was not changed; correct the migration so the rehearsed '' @
               ''database passes every SQLite check.''))))) (\<lambda>sqlite.
     bnd (hash_file (re_backup env) path (space_file sp workspace_database)) (\<lambda>(size_bytes, sha).
     bnd (fetch os_calls) (\<lambda>n.
     let result = \<lparr>rr_operation_id = i, rr_backup_id = bm_backup_id (ba_metadata a),
           rr_backup_sha256 = bm_sha256 (ba_metadata a), rr_database_size_bytes = size_bytes,
           rr_database_sha256 = sha, rr_command = evidence, rr_sqlite = sqlite,
           rr_completed_at = be_now (re_backup env) n\<rparr>
     in if valid_rehearsal_result result then ret \<lparr>ar_database_path = path, ar_result = result\<rparr>
        else raise validation_error))))))))"

section \<open>Cleanup\<close>

text \<open>One named file of the workspace: absent, removed, or refused when it is no regular file.\<close>

definition remove_entry :: "'x rehearsal_env \<Rightarrow> string \<Rightarrow> string \<Rightarrow> ('x, unit) rehearsal_act" where
  "remove_entry env i name =
     bnd (fetch (space_file i name \<circ> os_world)) (\<lambda>f. case f of
       None \<Rightarrow> ret ()
     | Some g \<Rightarrow> andthen (syscall (re_schedule env) id)
         (if f_kind g \<noteq> FK_regular then raise os_error
          else syscall (re_schedule env) (drop_entry i name)))"

definition remove_directory :: "'x rehearsal_env \<Rightarrow> string \<Rightarrow> ('x, unit) rehearsal_act" where
  "remove_directory env i = (let sc = re_schedule env in
     andthen (remove_entry env i (workspace_database @ ''-wal''))
    (andthen (remove_entry env i (workspace_database @ ''-shm''))
    (andthen (remove_entry env i (workspace_database @ ''-journal''))
    (andthen (remove_entry env i workspace_database)
    (andthen (syscall sc id)
    (bnd (fetch (entries_of i \<circ> os_world)) (\<lambda>es.
     if es \<noteq> [] then raise os_error
     else andthen (syscall sc (drop_space i)) (sync_directory sc))))))))"

definition remove_workspace :: "'x rehearsal_env \<Rightarrow> string \<Rightarrow> ('x, unit) rehearsal_act" where
  "remove_workspace env i =
     bnd (fetch (space_of i \<circ> os_world)) (\<lambda>sp. case sp of
       None \<Rightarrow> ret ()
     | Some (Space_symlink resolves) \<Rightarrow> if resolves then raise os_error else ret ()
     | Some Space_file \<Rightarrow> andthen (syscall (re_schedule env) id) (raise os_error)
     | Some (Space_directory _) \<Rightarrow> remove_directory env i)"

text \<open>\<^verbatim>\<open>_cleanup_workspace\<close> returns the text of an error instead of raising it.\<close>

definition cleanup_workspace :: "'x rehearsal_env \<Rightarrow> string \<Rightarrow> ('x, string option) rehearsal_act" where
  "cleanup_workspace env i =
     on_os_error (andthen (remove_workspace env i) (ret None)) (ret (Some ''OSError''))"

definition workspace_error :: "string \<Rightarrow> string \<Rightarrow> exn" where
  "workspace_error detail log_path = Dploy (mk_error MigrationWorkspaceCleanupError
     (''rehearsal workspace cleanup failed: '' @ detail) False None (Some log_path)
     (''Production was not changed; inspect the log and remove only the recorded private '' @
      ''rehearsal workspace before retrying.''))"

definition also_failed :: "string \<Rightarrow> string \<Rightarrow> exn \<Rightarrow> exn" where
  "also_failed log_path detail x =
    (let what = exn_text x @ ''; rehearsal workspace cleanup also failed: '' @ detail in
     case x of
       PyInterrupt _ \<Rightarrow> x
     | _ \<Rightarrow>
       if (case x of Dploy e \<Rightarrow> de_class e = RecoveryRequiredError | _ \<Rightarrow> False)
       then Dploy (mk_error RecoveryRequiredError what False None (Some log_path)
         (''Preserve the operation evidence, confirm the migration process group '' @
          ''is gone, and clean the private rehearsal workspace before recovery.''))
       else Dploy (mk_error MigrationWorkspaceCleanupError what False None (Some log_path)
         (''Production was not changed; inspect the log and remove only the '' @
          ''recorded private rehearsal workspace before retrying.'')))"

text \<open>
  \<^verbatim>\<open>with migration_rehearsal(...) as active: body\<close>, for any way to set up, to prepare and to clean
  a workspace: once it exists, it is cleaned whatever the body does; a killed process runs no
  handler.
\<close>

definition with_rehearsal ::
  "string \<Rightarrow> ('s, exn, 'sp) act \<Rightarrow> ('sp \<Rightarrow> ('s, exn, active_rehearsal) act) \<Rightarrow> ('sp \<Rightarrow> ('s, exn, string option) act) \<Rightarrow>
   (active_rehearsal \<Rightarrow> ('s, exn, 'a) act) \<Rightarrow> ('s, exn, 'a) act"
where
  "with_rehearsal log_path setup prepare clean body =
     bnd setup (\<lambda>sp s. case bnd (prepare sp) body s of (r, t) \<Rightarrow>
       if r = Inl killed then (r, t)
       else (case clean sp t of
          (Inl x, u) \<Rightarrow> (Inl x, u)
        | (Inr None, u) \<Rightarrow> (r, u)
        | (Inr (Some detail), u) \<Rightarrow> (Inl (case r of
              Inr _ \<Rightarrow> workspace_error detail log_path
            | Inl x \<Rightarrow> also_failed log_path detail x), u)))"

definition migration_rehearsal ::
  "'x rehearsal_env \<Rightarrow> backup_artifact \<Rightarrow> string \<Rightarrow> (command_result \<Rightarrow> ('x, unit) rehearsal_act) \<Rightarrow>
   (active_rehearsal \<Rightarrow> ('x, 'a) rehearsal_act) \<Rightarrow> ('x, 'a) rehearsal_act"
where
  "migration_rehearsal env a i sink body =
     with_rehearsal (re_log env)
       (andthen (verify_snapshot env a) (create_workspace env i))
       (prepare_rehearsal env a i sink) (cleanup_workspace env) body"


section \<open>What a rehearsal leaves alone\<close>

definition confined :: "('x rehearsal_world \<Rightarrow> bool) \<Rightarrow> 'x rehearsal_world osys \<Rightarrow> bool" where
  "confined P s = P (os_world s)"

text \<open>A property that does not look at the workspaces.\<close>

definition outside :: "('x rehearsal_world \<Rightarrow> bool) \<Rightarrow> bool" where
  "outside P \<longleftrightarrow> (\<forall>w f. P w \<longrightarrow> P (w\<lparr>rw_files := f\<rparr>))"

lemma outside_updates:
  assumes "outside P" and "P w"
  shows "P (put_space i sp w)" "P (drop_space i w)" "P (put_entry i name c w)" "P (drop_entry i name w)" "P (put_root r w)"
  using assms by (simp_all add: outside_def put_space_def drop_space_def put_entry_def drop_entry_def put_root_def)

lemma keeps_confined_call: "(\<And>w. P w \<Longrightarrow> P (f w)) \<Longrightarrow> keeps (confined P) (syscall sc f)"
  unfolding confined_def by (rule keeps_syscall)

lemma keeps_confined_idle [keeping]: "keeps (confined P) (syscall sc id)"
  by (rule keeps_confined_call) simp

lemma keeps_confined_reads [keeping]:
  "keeps (confined P) (hash_file env path get)" "keeps (confined P) (check_file env path timeout get)"
  "keeps (confined P) (sync_directory sc)"
  unfolding hash_file_def check_file_def sync_directory_def by (intro keeping)+

lemma keeps_confined_copy:
  assumes "\<And>c w. P w \<Longrightarrow> P (put c w)"
  shows "keeps (confined P) (copy_loop sc late put content offset)"
proof (rule keepsI)
  fix s r t assume "copy_loop sc late put content offset s = (r, t)" "confined P s"
  from copy_loop_run [where P = P and Q = "\<lambda>_ _. True", OF assms _ this(1)] this(2)
  show "confined P t" by (simp add: confined_def)
qed

lemma keeps_setup:
  assumes "outside P"
  shows "keeps (confined P) (verify_snapshot env a)" "keeps (confined P) (create_workspace env i)"
proof -
  show "keeps (confined P) (verify_snapshot env a)"
    unfolding verify_snapshot_def Let_def by (intro keeping)
  have "keeps (confined P) (ensure_directory sc get put_root e1 e2 e3 e4)" for sc get e1 e2 e3 e4
    unfolding confined_def [abs_def] by (rule keeps_ensure_directory) (rule outside_updates [OF assms])
  then show "keeps (confined P) (create_workspace env i)"
    unfolding create_workspace_def Let_def ignoring_def
    by (intro keeping keeps_confined_call outside_updates [OF assms])
qed

lemma keeps_materialize_snapshot:
  assumes "outside P"
  shows "keeps (confined P) (materialize_snapshot env a i)"
proof -
  have unlink: "keeps (confined P) m \<Longrightarrow> keeps (confined P) (unlink_copy env i m)" for m :: "('a, 'b) rehearsal_act"
    unfolding unlink_copy_def ignoring_def by (intro keeping keeps_confined_call outside_updates [OF assms])
  have "keeps (confined P) (open_snapshot env a)" unfolding open_snapshot_def by (intro keeping)
  moreover have "keeps (confined P) (open_copy env i)"
    unfolding open_copy_def by (intro keeping keeps_confined_call outside_updates [OF assms])
  ultimately show ?thesis
    unfolding materialize_snapshot_def Let_def
    by (intro keeping unlink keeps_confined_copy outside_updates [OF assms])
qed


lemma keeps_cleanup_workspace:
  assumes "outside P"
  shows "keeps (confined P) (cleanup_workspace env i)"
proof -
  have "keeps (confined P) (remove_entry env i name)" for name
    unfolding remove_entry_def by (intro keeping keeps_confined_call outside_updates [OF assms])
  then have "keeps (confined P) (remove_directory env i)"
    unfolding remove_directory_def Let_def by (intro keeping keeps_confined_call outside_updates [OF assms])
  then have "keeps (confined P) (remove_workspace env i)"
    unfolding remove_workspace_def
    by (intro keeping) (auto split: option.split workspace.split
      intro!: keeping keeps_confined_call outside_updates [OF assms])
  then show ?thesis unfolding cleanup_workspace_def by (intro keeping)
qed

lemma keeps_with_rehearsal:
  assumes "keeps I setup" and "\<And>sp. keeps I (prepare sp)" and "\<And>sp. keeps I (clean sp)" and "\<And>active. keeps I (body active)"
  shows "keeps I (with_rehearsal log_path setup prepare clean body)"
  unfolding with_rehearsal_def
proof (rule keeps_bnd [OF assms(1)], rule keepsI)
  fix sp s r t
  assume run: "(case bnd (prepare sp) body s of (r, t) \<Rightarrow> if r = Inl killed then (r, t)
     else (case clean sp t of (Inl x, u) \<Rightarrow> (Inl x, u) | (Inr None, u) \<Rightarrow> (r, u)
        | (Inr (Some detail), u) \<Rightarrow> (Inl (case r of Inr _ \<Rightarrow> workspace_error detail log_path
            | Inl x \<Rightarrow> also_failed log_path detail x), u))) = (r, t)" and "I s"
  obtain r1 s1 where one: "bnd (prepare sp) body s = (r1, s1)" by (cases "bnd (prepare sp) body s")
  have "keeps I (bnd (prepare sp) body)" by (intro keeps_bnd assms)
  from keepsD [OF this one \<open>I s\<close>] have "I s1" .
  moreover obtain r2 s2 where two: "clean sp s1 = (r2, s2)" by (cases "clean sp s1")
  ultimately have "I s2" using keepsD [OF assms(3)] by blast
  with \<open>I s1\<close> run one two show "I t" by (auto split: if_splits sum.splits option.splits)
qed

lemma keeps_prepare:
  assumes "outside P" and "\<And>k path w. P w \<Longrightarrow> P (snd (re_command env k path w))" and "\<And>e. keeps (confined P) (sink e)"
  shows "keeps (confined P) (prepare_rehearsal env a i sink sp)"
proof -
  have "keeps (confined P) (run_migration env path)" for path
  proof (rule keepsI)
    fix s r t assume "run_migration env path s = (r, t)" "confined P s"
    with assms(2) [of "os_world s" "os_calls s" path] show "confined P t"
      by (auto simp: run_migration_def confined_def split: prod.splits)
  qed
  then show ?thesis
    unfolding prepare_rehearsal_def Let_def
    by (intro keeping keeps_materialize_snapshot assms)
qed

lemma keeps_rehearsal:
  assumes "outside P" and "\<And>k path w. P w \<Longrightarrow> P (snd (re_command env k path w))"
    and "\<And>e. keeps (confined P) (sink e)" and "\<And>active. keeps (confined P) (body active)"
  shows "keeps (confined P) (migration_rehearsal env a i sink body)"
  unfolding migration_rehearsal_def
  by (intro keeps_with_rehearsal keeps_andthen keeps_setup keeps_prepare keeps_cleanup_workspace assms)

section \<open>What a rehearsal proves\<close>

lemma keeps_run: "keeps (confined P) m \<Longrightarrow> m s = (r, t) \<Longrightarrow> P (os_world s) \<Longrightarrow> P (os_world t)"
  using keepsD [of "confined P" m s r t] by (simp add: confined_def)

text \<open>The copy holds exactly the bytes that the metadata of the snapshot describes.\<close>

lemma materialize_snapshot_Inr:
  assumes "materialize_snapshot env a i s = (Inr path, t)"
  shows "path = database_path env i \<and>
    holds_backup (re_backup env) (ba_metadata a) (space_file i workspace_database (os_world t)) \<and>
    sqlite_passed (re_backup env) (space_file i workspace_database (os_world t))"
  using assms unfolding materialize_snapshot_def Let_def
proof (elim bnd_InrE andthen_InrE)
  fix nh u v
  assume run: "hash_file (re_backup env) (database_path env i) (space_file i workspace_database) u = (Inr nh, v)"
    "(case nh of (size_bytes, sha) \<Rightarrow>
       if size_bytes \<noteq> bm_size_bytes (ba_metadata a) \<or> sha \<noteq> bm_sha256 (ba_metadata a)
       then raise (Dploy (mk_error SafetyCheckError
         ''disposable rehearsal database does not match the verified snapshot'' False None (Some (database_path env i))
         ''Discard the rehearsal workspace and create a new verified snapshot.''))
       else andthen (check_file (re_backup env) (database_path env i) 10 (space_file i workspace_database))
         (ret (database_path env i))) v = (Inr path, t)"
  obtain n h where nh: "nh = (n, h)" by (cases nh)
  with run(2) have same: "n = bm_size_bytes (ba_metadata a)" "h = bm_sha256 (ba_metadata a)"
    and "andthen (check_file (re_backup env) (database_path env i) 10 (space_file i workspace_database))
         (ret (database_path env i)) v = (Inr path, t)"
    by (auto simp: raise_def split: if_splits)
  from this(3) obtain x where "check_file (re_backup env) (database_path env i) 10 (space_file i workspace_database) v = (Inr x, t)"
    and "path = database_path env i"
    by (elim andthen_InrE) (auto simp: ret_def)
  with check_file_Inr [OF this(1)] hash_file_Inr [OF run(1) [unfolded nh]] same
  show ?thesis by (auto simp: holds_backup_def)
qed


definition proven_rehearsal ::
  "'x rehearsal_env \<Rightarrow> backup_artifact \<Rightarrow> string \<Rightarrow> (command_result \<Rightarrow> ('x, unit) rehearsal_act) \<Rightarrow> string \<Rightarrow>
   active_rehearsal \<Rightarrow> 'x rehearsal_world \<Rightarrow> bool"
where
  "proven_rehearsal env a i sink sp active w \<longleftrightarrow>
    (let r = ar_result active; copied = space_file sp workspace_database in
     ar_database_path active = database_path env sp \<and> rr_operation_id r = i \<and>
     rr_backup_id r = bm_backup_id (ba_metadata a) \<and> rr_backup_sha256 r = bm_sha256 (ba_metadata a) \<and>
     command_succeeded (rr_command r) \<and> output_complete (rr_command r) \<and>
     (\<exists>u v x v'. holds_backup (re_backup env) (ba_metadata a) (copied (os_world u)) \<and>
        sqlite_passed (re_backup env) (copied (os_world u)) \<and>
        run_migration env (database_path env sp) u = (Inr (rr_command r), v) \<and>
        sink (rr_command r) v = (Inr x, v')) \<and>
     sqlite_passed (re_backup env) (copied w) \<and>
     (\<exists>g. copied w = Some g \<and> rr_database_size_bytes r = int (length (f_content g)) \<and>
        rr_database_sha256 r = be_sha256 (re_backup env) (f_content g)))"

lemma usable_rehearsal_Inr: "usable_rehearsal log_path r = Inr x \<longleftrightarrow> command_succeeded r \<and> output_complete r"
  by (auto simp: usable_rehearsal_def command_succeeded_def output_complete_def split: command_outcome.splits)

lemma on_dploy_raise_Inr: "on_dploy m (\<lambda>e. raise (f e)) s = (Inr x, t) \<Longrightarrow> m s = (Inr x, t)"
  by (auto simp: on_dploy_def catching_def raise_def split: prod.splits sum.splits exn.splits)

lemma prepare_rehearsal_Inr:
  assumes "prepare_rehearsal env a i sink sp s = (Inr active, t)"
  shows "proven_rehearsal env a i sink sp active (os_world t)"
  using assms unfolding prepare_rehearsal_def
proof (elim bnd_InrE andthen_InrE)
  fix path s1 r s2 evidence s3 y s4 y' s5 sqlite s6 nh s7 n s8
  assume run: "materialize_snapshot env a sp s = (Inr path, s1)" "run_migration env path s1 = (Inr r, s2)"
    "lift_result (migration_command_evidence r) s2 = (Inr evidence, s3)" "sink evidence s3 = (Inr y, s4)"
    "lift_result (usable_rehearsal (re_log env) r) s4 = (Inr y', s5)"
    "on_dploy (check_file (re_backup env) path 10 (space_file sp workspace_database)) (\<lambda>e.
            raise (Dploy (mk_error OperationFailedError
              (''post-migration SQLite verification failed: '' @ err_what e) False None (Some (re_log env))
              (''Production was not changed; correct the migration so the rehearsed '' @
               ''database passes every SQLite check.'')))) s5 = (Inr sqlite, s6)"
    "hash_file (re_backup env) path (space_file sp workspace_database) s6 = (Inr nh, s7)"
    "(case nh of (size_bytes, sha) \<Rightarrow> bnd (fetch os_calls) (\<lambda>n.
     let result = \<lparr>rr_operation_id = i, rr_backup_id = bm_backup_id (ba_metadata a),
           rr_backup_sha256 = bm_sha256 (ba_metadata a), rr_database_size_bytes = size_bytes,
           rr_database_sha256 = sha, rr_command = evidence, rr_sqlite = sqlite,
           rr_completed_at = be_now (re_backup env) n\<rparr>
     in if valid_rehearsal_result result then ret \<lparr>ar_database_path = path, ar_result = result\<rparr>
        else raise validation_error)) s7 = (Inr active, t)"
  obtain size sha where nh: "nh = (size, sha)" by (cases nh)
  note copy = materialize_snapshot_Inr [OF run(1)]
  from run(3) have evidence: "evidence = r" "s3 = s2"
    by (auto simp: lift_result_def migration_command_evidence_def split: if_splits)
  from run(5) have usable: "command_succeeded r" "output_complete r" "s5 = s4"
    by (auto simp: lift_result_def usable_rehearsal_Inr)
  note check = check_file_Inr [OF on_dploy_raise_Inr [OF run(6)]] and sum = hash_file_Inr [OF run(7) [unfolded nh]]
  from run(8) have active: "ar_database_path active = path" "rr_operation_id (ar_result active) = i"
    "rr_backup_id (ar_result active) = bm_backup_id (ba_metadata a)"
    "rr_backup_sha256 (ar_result active) = bm_sha256 (ba_metadata a)"
    "rr_command (ar_result active) = evidence" "rr_database_size_bytes (ar_result active) = size"
    "rr_database_sha256 (ar_result active) = sha" "t = s7"
    by (auto simp: nh bnd_def fetch_def ret_def raise_def Let_def split: if_splits)
  from copy have path: "path = database_path env sp" by simp
  have "\<exists>u v x v'. holds_backup (re_backup env) (ba_metadata a) (space_file sp workspace_database (os_world u)) \<and>
      sqlite_passed (re_backup env) (space_file sp workspace_database (os_world u)) \<and>
      run_migration env (database_path env sp) u = (Inr r, v) \<and> sink r v = (Inr x, v')"
    using copy run(2,4) evidence path by blast
  with active evidence usable check sum path show ?thesis
    by (auto simp: proven_rehearsal_def Let_def)
qed

section \<open>What a rehearsal leaves behind\<close>

definition workspace_gone :: "string \<Rightarrow> 'x rehearsal_world \<Rightarrow> bool" where
  "workspace_gone i w \<longleftrightarrow> space_of i w = None \<or> space_of i w = Some (Space_symlink False)"

lemma space_of_drop [simp]: "space_of i (drop_space i w) = None"
  by (simp add: space_of_def drop_space_def delete_conv')

lemma sync_directory_Inr: "sync_directory sc s = (Inr x, t) \<Longrightarrow> os_world t = os_world s"
  unfolding sync_directory_def by (auto elim!: andthen_InrE closing_InrE dest!: syscall_Inr)

lemma remove_directory_Inr:
  assumes "remove_directory env i s = (Inr x, t)"
  shows "space_of i (os_world t) = None"
  using assms unfolding remove_directory_def Let_def
proof (elim bnd_InrE andthen_InrE)
  fix es u
  assume "(if es \<noteq> [] then raise os_error
     else andthen (syscall (re_schedule env) (drop_space i)) (sync_directory (re_schedule env))) u = (Inr x, t)"
  then show ?thesis
    by (auto simp: raise_def dest!: syscall_Inr sync_directory_Inr elim!: andthen_InrE split: if_splits)
qed

lemma remove_workspace_Inr:
  assumes "remove_workspace env i s = (Inr x, t)"
  shows "workspace_gone i (os_world t)"
  using assms remove_directory_Inr [of env i s x t]
  by (auto simp: remove_workspace_def bnd_def fetch_def ret_def raise_def workspace_gone_def
      andthen_raise split: option.splits workspace.splits if_splits)

lemma cleanup_workspace_runs:
  assumes "cleanup_workspace env i s = (r, t)"
  shows "(\<exists>x. r = Inl x \<and> \<not> is_os_error x) \<or> (r = Inr None \<and> workspace_gone i (os_world t)) \<or> r = Inr (Some ''OSError'')"
proof -
  obtain r1 s1 where one: "remove_workspace env i s = (r1, s1)" by (cases "remove_workspace env i s")
  with assms remove_workspace_Inr [of env i s] show ?thesis
    by (cases r1) (auto simp: cleanup_workspace_def on_os_error_def catching_def andthen_def bnd_def ret_def raise_def
        split: if_splits)
qed

text \<open>
  The errors of a rehearsal whose workspace could not be removed; an interrupt leaves as it is, with
  a note.
\<close>

definition leftover_error :: "exn \<Rightarrow> bool" where
  "leftover_error x \<longleftrightarrow> (case x of
      Dploy e \<Rightarrow> de_class e \<in> {MigrationWorkspaceCleanupError, RecoveryRequiredError}
    | PyInterrupt _ \<Rightarrow> True
    | _ \<Rightarrow> False)"

lemma also_failed_leftover: "leftover_error (also_failed log_path detail x)"
  by (auto simp: also_failed_def leftover_error_def Let_def split: exn.splits)


lemma cleanup_raises: "cleanup_workspace env i s = (Inl x, t) \<Longrightarrow> x = killed"
proof -
  assume run: "cleanup_workspace env i s = (Inl x, t)"
  have "only_os (remove_entry env i name)" for name
    unfolding remove_entry_def by (intro os_calls)
  then have "only_os (remove_directory env i)"
    unfolding remove_directory_def Let_def sync_directory_def by (intro os_calls)
  then have "only_os (remove_workspace env i)"
    unfolding remove_workspace_def by (intro os_calls) (auto split: workspace.split intro: os_calls)
  from only_osD [OF this] have "remove_workspace env i u = (Inl y, v) \<Longrightarrow> os_raised y" for y u v .
  with run show ?thesis
    by (auto simp: cleanup_workspace_def on_os_error_def catching_def andthen_def bnd_def ret_def raise_def
        is_os_error_def split: prod.splits sum.splits if_splits)
qed

lemma with_rehearsal_run:
  assumes "with_rehearsal log_path setup prepare clean body s = (r, t)"
  obtains (refused) x where "setup s = (Inl x, t)" "r = Inl x"
  | (killed) "r = Inl killed"
  | (clean) sp s1 r1 s2 where "setup s = (Inr sp, s1)" "bnd (prepare sp) body s1 = (r1, s2)" "clean sp s2 = (Inr None, t)" "r = r1"
  | (dirty) sp s1 r1 s2 detail where "setup s = (Inr sp, s1)" "bnd (prepare sp) body s1 = (r1, s2)"
      "clean sp s2 = (Inr (Some detail), t)"
      "r = Inl (case r1 of Inr _ \<Rightarrow> workspace_error detail log_path | Inl x \<Rightarrow> also_failed log_path detail x)"
  | (aborted) x sp s2 where "clean sp s2 = (Inl x, t)" "r = Inl x"
proof (cases "setup s")
  case (Pair r0 s1)
  show ?thesis
  proof (cases r0)
    case (Inl x)
    with assms Pair that(1) [of x] show ?thesis by (simp add: with_rehearsal_def bnd_def)
  next
    case (Inr sp)
    obtain r1 s2 where one: "bnd (prepare sp) body s1 = (r1, s2)" by (cases "bnd (prepare sp) body s1")
    obtain r2 s3 where two: "clean sp s2 = (r2, s3)" by (cases "clean sp s2")
    from assms Pair Inr one have run: "(if r1 = Inl killed then (r1, s2)
       else (case clean sp s2 of (Inl x, u) \<Rightarrow> (Inl x, u) | (Inr None, u) \<Rightarrow> (r1, u)
        | (Inr (Some detail), u) \<Rightarrow> (Inl (case r1 of Inr _ \<Rightarrow> workspace_error detail log_path
            | Inl x \<Rightarrow> also_failed log_path detail x), u))) = (r, t)"
      by (simp add: with_rehearsal_def bnd_def [of "setup"])
    show ?thesis
    proof (cases "r1 = Inl killed")
      case True
      with run that(2) show ?thesis by simp
    next
      case False
      show ?thesis
      proof (cases r2)
        case (Inl x)
        with run two False that(5) show ?thesis by simp
      next
        case (Inr d)
        have set_up: "setup s = (Inr sp, s1)" using Pair \<open>r0 = Inr sp\<close> by simp
        show ?thesis
        proof (cases d)
          case None
          with run two Inr False have "clean sp s2 = (Inr None, t)" "r = r1" by simp_all
          with that(3) set_up one show ?thesis by blast
        next
          case (Some detail)
          with run two Inr False have "clean sp s2 = (Inr (Some detail), t)"
            "r = Inl (case r1 of Inr _ \<Rightarrow> workspace_error detail log_path | Inl x \<Rightarrow> also_failed log_path detail x)"
            by simp_all
          with that(4) set_up one show ?thesis by blast
        qed
      qed
    qed
  qed
qed

lemma rehearsal_workspace:
  assumes "migration_rehearsal env a i sink body s = (r, t)"
  shows "(\<exists>x. andthen (verify_snapshot env a) (create_workspace env i) s = (Inl x, t)) \<or> r = Inl killed \<or>
    workspace_gone i (os_world t) \<or> (\<exists>x. r = Inl x \<and> leftover_error x)"
  using assms unfolding migration_rehearsal_def
proof (cases rule: with_rehearsal_run)
  case (refused x)
  then show ?thesis by blast
next
  case killed
  then show ?thesis by blast
next
  case (clean sp s1 r1 s2)
  from clean(1) have "sp = i"
    by (elim andthen_InrE) (auto simp: create_workspace_def Let_def raise_def ret_def elim!: andthen_InrE bnd_InrE split: if_splits)
  with cleanup_workspace_runs [OF clean(3)] show ?thesis by auto
next
  case (dirty sp s1 r1 s2 detail)
  then show ?thesis using also_failed_leftover
    by (auto simp: leftover_error_def workspace_error_def split: sum.splits)
next
  case (aborted x sp s2)
  from aborted(1) cleanup_raises have "x = killed" by blast
  with aborted show ?thesis by simp
qed


text \<open>
  A rehearsal stays in its workspace and does not leave it behind: when the migration command,
  the record of its outcome and the body leave the backups and the production files alone, so does
  the rehearsal, whatever fails; and unless the process is killed or the workspace was never set
  up, at the end it is gone or the error says that it is not (an interrupt carries a note).
\<close>

theorem rehearsals_are_contained:
  assumes "\<And>k path w. rw_backups (snd (re_command env k path w)) = rw_backups w"
    and "\<And>e s. rw_backups (os_world (snd (sink e s))) = rw_backups (os_world s)"
    and "\<And>active s. rw_backups (os_world (snd (body active s))) = rw_backups (os_world s)"
    and "migration_rehearsal env a i sink body s = (r, t)"
  shows "rw_backups (os_world t) = rw_backups (os_world s) \<and>
    ((\<exists>x. andthen (verify_snapshot env a) (create_workspace env i) s = (Inl x, t)) \<or> r = Inl killed \<or>
     workspace_gone i (os_world t) \<or> (\<exists>x. r = Inl x \<and> leftover_error x))"
proof -
  let ?P = "\<lambda>w. rw_backups w = rw_backups (os_world s)"
  have sink: "keeps (confined ?P) (sink e)" and body: "keeps (confined ?P) (body active)" for e active
    by (intro keepsI; metis confined_def snd_conv assms(2,3))+
  have "outside ?P" by (simp add: outside_def)
  from keeps_run [OF keeps_rehearsal [OF this _ sink body] assms(4)] assms(1)
  show ?thesis using rehearsal_workspace [OF assms(4)] by simp
qed

text \<open>
  C29. A rehearsal that returns is real: its command ran on a copy of exactly the bytes that the
  metadata of the snapshot describes and SQLite accepted, it succeeded with complete output that
  was recorded first, the migrated copy passed SQLite's checks, the result names its size and
  checksum, the body ran only then, and the workspace is gone.
\<close>

theorem rehearsed_migration_is_proven:
  assumes "migration_rehearsal env a i sink body s = (Inr x, t)"
  shows "\<exists>active u v. proven_rehearsal env a i sink i active (os_world u) \<and> body active u = (Inr x, v) \<and>
    workspace_gone i (os_world t)"
  using assms unfolding migration_rehearsal_def
proof (cases rule: with_rehearsal_run)
  case (clean sp s1 r1 s2)
  from clean(1) have "sp = i"
    by (elim andthen_InrE) (auto simp: create_workspace_def Let_def raise_def ret_def elim!: andthen_InrE bnd_InrE split: if_splits)
  from clean(2,4) obtain active u where "prepare_rehearsal env a i sink sp s1 = (Inr active, u)" "body active u = (Inr x, s2)"
    by (auto elim: bnd_InrE)
  with prepare_rehearsal_Inr [OF this(1)] cleanup_workspace_runs [OF clean(3)] \<open>sp = i\<close> show ?thesis by blast
qed (auto simp: killed_def)

end
