(* ===== verification/Candidate.thy ===== *)
theory Candidate
  imports Rehearsal Manual_Restore
begin

text \<open>
  The candidate validation of \<^verbatim>\<open>dploydb/candidate.py\<close>: a new release is started on the rehearsed
  copy of the database, inspected and checked, and stopped again, with production left alone. The
  container runner, the health checker and the operation store are the operations of a record over
  a world of any type, as in the coordinator; every call on them is noted in a trace.
\<close>

section \<open>The runner's evidence and errors\<close>

text \<open>The candidate part of \<^verbatim>\<open>runners/base.py\<close>.\<close>

record candidate_handle =
  kh_operation_id :: string
  kh_version :: string
  kh_compose_project :: string
  kh_container_name :: string
  kh_rehearsal_database_path :: string
  kh_candidate_database_path :: string

record candidate_inspection =
  ki_container_id :: string
  ki_container_name :: string
  ki_running :: bool
  ki_compose_project :: string
  ki_compose_service :: string
  ki_operation_id :: string
  ki_host_ip :: string
  ki_host_port :: int
  ki_container_port :: int
  ki_mounts :: "container_mount list"
  ki_command :: command_result

record candidate_start =
  ks_handle :: candidate_handle
  ks_container_reference :: string
  ks_command :: command_result

record candidate_logs =
  kl_handle :: candidate_handle
  kl_command :: command_result

record candidate_cleanup =
  kc_presence_query :: command_result
  kc_remove_command :: "command_result option"
  kc_compose_down :: command_result
  kc_proof :: cleanup_proof

text \<open>
  What the runtime part of the stage may raise: the typed errors of the runner with their evidence,
  those of the health checks with theirs, or anything else.
\<close>

datatype runner_class = Candidate_start | Candidate_inspection | Candidate_cleanup | Candidate_runner

datatype runtime_exn =
    Raised exn
  | Runner_failed runner_class string "command_result option" "candidate_cleanup option"
  | Not_ready readiness_evidence
  | Smoke_failed string readiness_evidence command_result

fun runner_class_name :: "runner_class \<Rightarrow> string" where
  "runner_class_name Candidate_start = ''CandidateStartError''"
| "runner_class_name Candidate_inspection = ''CandidateInspectionError''"
| "runner_class_name Candidate_cleanup = ''CandidateCleanupError''"
| "runner_class_name Candidate_runner = ''CandidateRunnerError''"

text \<open>\<^verbatim>\<open>CandidateRunnerError.cleanup_proven\<close> and \<^verbatim>\<open>SmokeCheckError.cleanup_proven\<close>\<close>

definition runner_cleanup_proven :: "candidate_cleanup option \<Rightarrow> bool option" where
  "runner_cleanup_proven c = map_option (\<lambda>k. cleanup_proven (kc_proof k)) c"

definition smoke_cleanup_proven :: "command_result \<Rightarrow> bool" where
  "smoke_cleanup_proven c \<longleftrightarrow> cr_outcome c \<noteq> CO_cleanup_failed"

text \<open>The same exception where only its class and its text matter.\<close>

definition exn_of :: "runtime_exn \<Rightarrow> exn" where
  "exn_of x = (case x of
      Raised y \<Rightarrow> y
    | Runner_failed c msg _ _ \<Rightarrow> PyException (runner_class_name c) msg
    | Not_ready r \<Rightarrow> ReadinessCheckError (rd_reason r)
    | Smoke_failed msg _ c \<Rightarrow> SmokeCheckError msg (smoke_cleanup_proven c))"

section \<open>Evidence\<close>

definition candidate_start_json :: "candidate_start \<Rightarrow> json" where
  "candidate_start_json s = (let h = ks_handle s in JObj
     [(''operation_id'', JStr (kh_operation_id h)),
      (''version'', JStr (kh_version h)),
      (''compose_project'', JStr (kh_compose_project h)),
      (''container_name'', JStr (kh_container_name h)),
      (''rehearsal_database_path'', JStr (kh_rehearsal_database_path h)),
      (''candidate_database_path'', JStr (kh_candidate_database_path h)),
      (''container_reference'', JStr (ks_container_reference s)),
      (''command'', command_as_evidence (ks_command s))])"

definition candidate_inspection_json :: "candidate_inspection \<Rightarrow> json" where
  "candidate_inspection_json i = JObj
     [(''container_id'', JStr (ki_container_id i)),
      (''container_name'', JStr (ki_container_name i)),
      (''running'', JBool (ki_running i)),
      (''compose_project'', JStr (ki_compose_project i)),
      (''compose_service'', JStr (ki_compose_service i)),
      (''operation_id'', JStr (ki_operation_id i)),
      (''host_ip'', JStr (ki_host_ip i)),
      (''host_port'', JInt (ki_host_port i)),
      (''container_port'', JInt (ki_container_port i)),
      (''mounts'', JList (map mount_evidence (ki_mounts i))),
      (''command'', command_as_evidence (ki_command i))]"

definition candidate_cleanup_json :: "candidate_cleanup \<Rightarrow> json" where
  "candidate_cleanup_json c = (let p = kc_proof c in JObj
     [(''presence_query'', command_as_evidence (kc_presence_query c)),
      (''remove_command'', optional command_as_evidence (kc_remove_command c)),
      (''compose_down'', command_as_evidence (kc_compose_down c)),
      (''proof'', JObj
         [(''container_absent'', JBool (cp_container_absent p)),
          (''networks_absent'', JBool (cp_networks_absent p)),
          (''proven'', JBool (cleanup_proven p)),
          (''container_query'', command_as_evidence (cp_container_query p)),
          (''network_query'', command_as_evidence (cp_network_query p))])])"

text \<open>\<^verbatim>\<open>_primary_evidence\<close>; an exception without a case of its own is described by \<^verbatim>\<open>type(error).__name__\<close>.\<close>

definition exn_kind :: "exn \<Rightarrow> string" where
  "exn_kind x = (case x of
      Dploy e \<Rightarrow> class_name (de_class e)
    | ProductionStartError _ _ \<Rightarrow> ''ProductionStartError''
    | ProductionCleanupError _ \<Rightarrow> ''ProductionCleanupError''
    | ProductionInspectionError _ \<Rightarrow> ''ProductionInspectionError''
    | ProductionRunnerError _ _ \<Rightarrow> ''ProductionRunnerError''
    | ReadinessCheckError _ \<Rightarrow> ''ReadinessCheckError''
    | SmokeCheckError _ _ \<Rightarrow> ''SmokeCheckError''
    | PyException n _ \<Rightarrow> n
    | PyInterrupt n \<Rightarrow> n)"

definition primary_evidence :: "runtime_exn \<Rightarrow> json" where
  "primary_evidence x = JObj (case x of
      Runner_failed Candidate_start msg command cleanup \<Rightarrow>
        [(''kind'', JStr ''candidate_start''), (''message'', JStr msg),
         (''command'', optional command_as_evidence command),
         (''cleanup'', optional candidate_cleanup_json cleanup)]
    | Runner_failed Candidate_inspection msg command _ \<Rightarrow>
        [(''kind'', JStr ''candidate_inspection''), (''message'', JStr msg),
         (''command'', optional command_as_evidence command)]
    | Not_ready r \<Rightarrow> [(''kind'', JStr ''readiness''), (''readiness'', readiness_as_evidence r)]
    | Smoke_failed _ r c \<Rightarrow>
        [(''kind'', JStr ''smoke''), (''readiness'', readiness_as_evidence r), (''smoke'', command_as_evidence c)]
    | Raised (Dploy e) \<Rightarrow> [(''kind'', JStr ''dploydb''), (''failure'', payload_json (de_payload e))]
    | _ \<Rightarrow> [(''kind'', JStr (exn_kind (exn_of x))), (''message'', JStr (exn_text (exn_of x)))])"

definition rehearsal_summary :: "(int \<Rightarrow> string) \<Rightarrow> rehearsal_result \<Rightarrow> evidence" where
  "rehearsal_summary utc r =
     [(''backup_id'', JStr (rr_backup_id r)),
      (''backup_sha256'', JStr (rr_backup_sha256 r)),
      (''database_size_bytes'', JInt (rr_database_size_bytes r)),
      (''database_sha256'', JStr (rr_database_sha256 r)),
      (''migration_outcome'', JStr (outcome_value (cr_outcome (rr_command r)))),
      (''migration_duration_seconds'', JFloat (cr_duration (rr_command r))),
      (''sqlite'', sqlite_json utc (rr_sqlite r))]"

section \<open>The context\<close>

datatype candidate_call =
    KC_start | KC_inspect candidate_handle | KC_check | KC_logs candidate_handle | KC_stop candidate_handle
  | KC_event string | KC_stage operation_status string | KC_observe deployment_state | KC_close

datatype candidate_event =
  K_called candidate_call | K_returned candidate_call | K_raised candidate_call runtime_exn

text \<open>
  The local variables of \<^verbatim>\<open>_validate_runtime\<close> that its handlers read, and \<^verbatim>\<open>owned_health\<close> of
  \<^verbatim>\<open>run_candidate_stage\<close>.
\<close>

record 'w candidate_context =
  kx_started :: "candidate_start option"
  kx_inspection :: "candidate_inspection option"
  kx_health :: "health_result option"
  kx_logs :: "candidate_logs option"
  kx_cleanup :: "candidate_cleanup option"
  kx_owned_health :: bool
  kx_trace :: "candidate_event list"
  kx_world :: 'w

type_synonym ('w, 'a) candidate_act = "('w candidate_context, exn, 'a) act"
type_synonym ('w, 'a) runtime_act = "('w candidate_context, runtime_exn, 'a) act"

record candidate_env =
  ke_version :: string
  ke_operation_id :: string
  ke_log :: string
  ke_redact :: "string \<Rightarrow> string"
  ke_utc :: "int \<Rightarrow> string"

record 'w candidate_ops =
  ko_start :: "string \<Rightarrow> string \<Rightarrow> string \<Rightarrow> ('w, runtime_exn, candidate_start) act"
  ko_inspect :: "candidate_handle \<Rightarrow> ('w, runtime_exn, candidate_inspection) act"
  ko_check :: "string \<Rightarrow> string \<Rightarrow> ('w, runtime_exn, health_result) act"
  ko_collect_logs :: "candidate_handle \<Rightarrow> ('w, runtime_exn, candidate_logs) act"
  ko_stop :: "candidate_handle \<Rightarrow> ('w, runtime_exn, candidate_cleanup) act"
  ko_append_event :: "string \<Rightarrow> string \<Rightarrow> evidence \<Rightarrow> ('w, operation_event) world_act"
  ko_transition :: "string \<Rightarrow> operation_status \<Rightarrow> string \<Rightarrow> string \<Rightarrow> evidence \<Rightarrow>
    safety_facts option \<Rightarrow> failure_record option \<Rightarrow> ('w, operation_manifest) world_act"
  ko_read_manifest :: "string \<Rightarrow> ('w, operation_manifest) world_act"
  ko_observe :: "(deployment_state \<Rightarrow> evidence \<Rightarrow> ('w, unit) world_act) option"
  ko_close_health :: "('w, unit) world_act option"

text \<open>One call, noted with its outcome; \<open>wrap\<close> says how its errors appear in the trace.\<close>

definition ask :: "('e \<Rightarrow> runtime_exn) \<Rightarrow> candidate_call \<Rightarrow> ('w, 'e, 'a) act \<Rightarrow> ('w candidate_context, 'e, 'a) act" where
  "ask wrap c m s =
    (case m (kx_world s) of
       (Inl e, w) \<Rightarrow> (Inl e, s\<lparr>kx_world := w, kx_trace := K_raised c (wrap e) # K_called c # kx_trace s\<rparr>)
     | (Inr x, w) \<Rightarrow> (Inr x, s\<lparr>kx_world := w, kx_trace := K_returned c # K_called c # kx_trace s\<rparr>))"

text \<open>Errors of one type as errors of the other.\<close>

definition map_error :: "('e \<Rightarrow> 'f) \<Rightarrow> ('s, 'e, 'a) act \<Rightarrow> ('s, 'f, 'a) act" where
  "map_error f m s = (case m s of (Inl e, t) \<Rightarrow> (Inl (f e), t) | (Inr x, t) \<Rightarrow> (Inr x, t))"

definition candidate_note :: "candidate_env \<Rightarrow> 'w candidate_ops \<Rightarrow> string \<Rightarrow> evidence \<Rightarrow> ('w, unit) runtime_act" where
  "candidate_note env ops message evidence = map_error Raised
     (andthen (ask Raised (KC_event message) (ko_append_event ops (ke_operation_id env) message evidence)) (ret ()))"

text \<open>\<^verbatim>\<open>except BaseException\<close>: everything but the death of the process.\<close>

definition on_any :: "('s, runtime_exn, 'a) act \<Rightarrow> (runtime_exn \<Rightarrow> ('s, runtime_exn, 'a) act) \<Rightarrow> ('s, runtime_exn, 'a) act" where
  "on_any m h = catching m (\<lambda>x. if x = Raised killed then raise x else h x)"


section \<open>The runtime checks\<close>

definition start_candidate :: "candidate_env \<Rightarrow> 'w candidate_ops \<Rightarrow> string \<Rightarrow> ('w, candidate_start) runtime_act" where
  "start_candidate env ops path =
     bnd (ask id KC_start (ko_start ops (ke_operation_id env) (ke_version env) path)) (\<lambda>started.
     andthen (modify (\<lambda>s. s\<lparr>kx_started := Some started\<rparr>))
    (andthen (candidate_note env ops ''Candidate Compose startup completed.''
       [(''candidate_start'', candidate_start_json started)])
     (ret started)))"

definition check_candidate :: "candidate_env \<Rightarrow> 'w candidate_ops \<Rightarrow> string \<Rightarrow> candidate_start \<Rightarrow> ('w, unit) runtime_act" where
  "check_candidate env ops path started =
     bnd (ask id (KC_inspect (ks_handle started)) (ko_inspect ops (ks_handle started))) (\<lambda>inspection.
     andthen (modify (\<lambda>s. s\<lparr>kx_inspection := Some inspection\<rparr>))
    (andthen (candidate_note env ops ''Candidate live isolation inspection passed.''
       [(''candidate_inspection'', candidate_inspection_json inspection)])
    (bnd (ask id KC_check (ko_check ops (ke_version env) path)) (\<lambda>health.
     andthen (modify (\<lambda>s. s\<lparr>kx_health := Some health\<rparr>))
     (candidate_note env ops ''Candidate HTTP readiness and optional smoke checks passed.''
       [(''candidate_health'', health_as_evidence health)])))))"

definition run_checks :: "candidate_env \<Rightarrow> 'w candidate_ops \<Rightarrow> string \<Rightarrow> ('w, unit) runtime_act" where
  "run_checks env ops path = bnd (start_candidate env ops path) (check_candidate env ops path)"

text \<open>The first \<^verbatim>\<open>try\<close>: its result is \<^verbatim>\<open>primary\<close>, which the error of its own record replaces.\<close>

definition primary_failure :: "candidate_env \<Rightarrow> 'w candidate_ops \<Rightarrow> string \<Rightarrow> ('w, runtime_exn option) runtime_act" where
  "primary_failure env ops path =
     on_any (andthen (run_checks env ops path) (ret None)) (\<lambda>x.
       on_any
         (andthen (candidate_note env ops ''Candidate startup, inspection, or health checks were rejected.''
            [(''candidate_failure'', primary_evidence x)])
            (ret (Some x)))
         (\<lambda>y. ret (Some y)))"

text \<open>Every error of this module leaves production unchanged and says nothing of the application.\<close>

definition candidate_error :: "candidate_env \<Rightarrow> error_class \<Rightarrow> string \<Rightarrow> string \<Rightarrow> dploydb_error" where
  "candidate_error env c what advice = mk_error c what False None (Some (ke_log env)) advice"

definition logs_failure :: "candidate_env \<Rightarrow> command_result \<Rightarrow> dploydb_error option" where
  "logs_failure env r =
    (if cr_outcome r = CO_succeeded then None
     else if cr_outcome r = CO_cleanup_failed
     then Some (candidate_error env RecoveryRequiredError
       ''candidate log-collection process cleanup could not be proven''
       ''Confirm the log process is gone before recovery.'')
     else Some (candidate_error env OperationFailedError
       (''candidate log collection ended with '' @ outcome_value (cr_outcome r))
       ''Inspect Docker logs directly, correct the cause, and retry.''))"

text \<open>
  The second \<^verbatim>\<open>try\<close>, entered once the candidate is started: the new \<^verbatim>\<open>primary\<close>, if an interrupt
  replaces it, and \<^verbatim>\<open>logs_failure\<close>.
\<close>

definition collect_candidate_logs ::
  "candidate_env \<Rightarrow> 'w candidate_ops \<Rightarrow> candidate_handle \<Rightarrow>
   ('w, runtime_exn option \<times> dploydb_error option) runtime_act"
where
  "collect_candidate_logs env ops h =
     on_any
       (bnd (ask id (KC_logs h) (ko_collect_logs ops h)) (\<lambda>logs.
        andthen (modify (\<lambda>s. s\<lparr>kx_logs := Some logs\<rparr>))
       (andthen (candidate_note env ops ''Bounded candidate application logs were collected.''
          [(''candidate_logs'', command_as_evidence (kl_command logs))])
        (ret (None, logs_failure env (kl_command logs))))))
       (\<lambda>x. case exn_of x of
          Dploy e \<Rightarrow> ret (None, Some e)
        | PyInterrupt _ \<Rightarrow> ret (Some x, None)
        | _ \<Rightarrow> ret (None, Some (candidate_error env OperationFailedError
            (''candidate log collection failed: '' @ ke_redact env (describe_exn (exn_of x)))
            (''Production was not changed; inspect Docker directly and retry after '' @
             ''correcting log collection.''))))"

definition cleanup_failure :: "candidate_env \<Rightarrow> string \<Rightarrow> candidate_cleanup option \<Rightarrow> dploydb_error" where
  "cleanup_failure env msg cleanup =
     candidate_error env
       (if runner_cleanup_proven cleanup = Some True then OperationFailedError else RecoveryRequiredError) msg
       (''Production was not changed. Inspect the exact candidate container and isolated '' @
        ''network evidence before retrying.'')"

definition unknown_cleanup_failure :: "candidate_env \<Rightarrow> runtime_exn \<Rightarrow> dploydb_error" where
  "unknown_cleanup_failure env x =
    (case exn_of x of
       Dploy e \<Rightarrow> e
     | y \<Rightarrow> candidate_error env RecoveryRequiredError
         (''candidate cleanup could not be proven: '' @ ke_redact env (describe_exn y))
         (''Production was not changed. Confirm the operation-labeled candidate container and '' @
          ''network are absent before recovery.''))"

text \<open>
  The third \<^verbatim>\<open>try\<close>: the candidate is stopped; the result is \<^verbatim>\<open>cleanup_failure\<close>. Its handlers
  are \<open>failed_stop\<close>.
\<close>

definition note_cleanup :: "candidate_env \<Rightarrow> 'w candidate_ops \<Rightarrow> string \<Rightarrow> candidate_cleanup \<Rightarrow> ('w, unit) runtime_act" where
  "note_cleanup env ops message cleanup =
     andthen (modify (\<lambda>s. s\<lparr>kx_cleanup := Some cleanup\<rparr>))
       (candidate_note env ops message [(''candidate_cleanup'', candidate_cleanup_json cleanup)])"

definition failed_stop :: "candidate_env \<Rightarrow> 'w candidate_ops \<Rightarrow> runtime_exn \<Rightarrow> ('w, dploydb_error option) runtime_act" where
  "failed_stop env ops x =
    (case x of
       Runner_failed Candidate_cleanup msg _ None \<Rightarrow> ret (Some (cleanup_failure env msg None))
     | Runner_failed Candidate_cleanup msg _ (Some cleanup) \<Rightarrow>
         on_any
           (andthen (note_cleanup env ops ''Candidate cleanup command reported a failure.'' cleanup)
             (ret (Some (cleanup_failure env msg (Some cleanup)))))
           (\<lambda>y. ret (Some (unknown_cleanup_failure env y)))
     | _ \<Rightarrow> ret (Some (unknown_cleanup_failure env x)))"

definition stop_candidate ::
  "candidate_env \<Rightarrow> 'w candidate_ops \<Rightarrow> candidate_handle \<Rightarrow> ('w, dploydb_error option) runtime_act" where
  "stop_candidate env ops h =
     on_any
       (bnd (ask id (KC_stop h) (ko_stop ops h)) (\<lambda>cleanup.
        andthen (note_cleanup env ops ''Candidate container and isolated network cleanup was proven.'' cleanup)
          (ret None)))
       (failed_stop env ops)"

section \<open>The failure of the stage\<close>

definition normalize_primary :: "candidate_env \<Rightarrow> bool \<Rightarrow> runtime_exn option \<Rightarrow> dploydb_error option" where
  "normalize_primary env started x =
    (case x of
       None \<Rightarrow> None
     | Some (Raised (Dploy e)) \<Rightarrow> Some e
     | Some (Runner_failed Candidate_start msg _ cleanup) \<Rightarrow> Some (
         if runner_cleanup_proven cleanup \<noteq> Some True
         then candidate_error env RecoveryRequiredError msg
           (''Production was not changed. Confirm the operation-labeled candidate '' @
            ''container and network are gone before recovery.'')
         else candidate_error env ExternalCommandError msg
           (''Production was not changed and candidate cleanup was proven; inspect startup '' @
            ''evidence, correct the release, and retry.''))
     | Some (Runner_failed Candidate_inspection msg _ _) \<Rightarrow> Some (candidate_error env RecoveryRequiredError msg
         (''Production was not changed. Preserve the contradictory inspection evidence '' @
          ''and confirm candidate isolation before recovery.''))
     | Some (Not_ready r) \<Rightarrow> Some (candidate_error env OperationFailedError (rd_reason r)
         (''Production was not changed and candidate cleanup was proven; inspect readiness '' @
          ''and application logs, correct the release, and retry.''))
     | Some (Smoke_failed msg _ c) \<Rightarrow> Some (candidate_error env
         (if smoke_cleanup_proven c then OperationFailedError else RecoveryRequiredError) msg
         ''Production was not changed. Inspect smoke and cleanup evidence before retrying.'')
     | Some (Runner_failed _ msg _ _) \<Rightarrow> Some (candidate_error env RecoveryRequiredError msg
         ''Preserve the event log and inspect candidate resources manually.'')
     | Some (Raised (PyInterrupt _)) \<Rightarrow> None
     | Some (Raised y) \<Rightarrow> Some (candidate_error env (if started then OperationFailedError else RecoveryRequiredError)
         (''unexpected candidate runtime failure: '' @ ke_redact env (describe_exn y))
         (''Production was not changed; preserve the evidence and inspect candidate resources '' @
          ''before retrying.'')))"

text \<open>\<^verbatim>\<open>"; ".join(...)\<close>\<close>

fun join_texts :: "string list \<Rightarrow> string" where
  "join_texts [] = ''''"
| "join_texts [x] = x"
| "join_texts (x # xs) = x @ ''; '' @ join_texts xs"

definition combined_failure :: "candidate_env \<Rightarrow> dploydb_error list \<Rightarrow> dploydb_error" where
  "combined_failure env es =
     candidate_error env (if list_ex err_recovery es then RecoveryRequiredError else OperationFailedError)
       (join_texts (map err_what es))
       (''Production was not changed. Resolve every recorded candidate, log, and cleanup '' @
        ''failure before retrying.'')"

record runtime_result =
  rn_health :: health_result
  rn_logs :: candidate_logs
  rn_cleanup :: candidate_cleanup

definition incomplete_runtime :: "candidate_env \<Rightarrow> exn" where
  "incomplete_runtime env = Dploy (candidate_error env RecoveryRequiredError
     ''candidate validation ended without a complete runtime evidence set''
     ''Preserve the event log and inspect candidate resources manually.'')"

definition runtime_result_of :: "'w candidate_context \<Rightarrow> runtime_result option" where
  "runtime_result_of s =
    (case (kx_started s, kx_inspection s, kx_health s, kx_logs s, kx_cleanup s) of
       (Some _, Some _, Some health, Some logs, Some cleanup) \<Rightarrow>
         Some \<lparr>rn_health = health, rn_logs = logs, rn_cleanup = cleanup\<rparr>
     | _ \<Rightarrow> None)"

definition conclude_runtime ::
  "candidate_env \<Rightarrow> runtime_exn option \<Rightarrow> dploydb_error option \<Rightarrow> dploydb_error option \<Rightarrow>
   ('w, runtime_result) candidate_act"
where
  "conclude_runtime env primary logs_failed cleanup_failed =
     bnd (fetch (\<lambda>s. s)) (\<lambda>s.
     case List.map_filter id [normalize_primary env (kx_started s \<noteq> None) primary, logs_failed, cleanup_failed] of
       [e] \<Rightarrow> raise (Dploy e)
     | e # es \<Rightarrow> raise (Dploy (combined_failure env (e # es)))
     | [] \<Rightarrow> (case primary of
         Some x \<Rightarrow> raise (exn_of x)
       | None \<Rightarrow> (case runtime_result_of s of None \<Rightarrow> raise (incomplete_runtime env) | Some r \<Rightarrow> ret r)))"

definition validate_runtime :: "candidate_env \<Rightarrow> 'w candidate_ops \<Rightarrow> string \<Rightarrow> ('w, runtime_result) candidate_act" where
  "validate_runtime env ops path =
     andthen (modify (\<lambda>s. s\<lparr>kx_started := None, kx_inspection := None, kx_health := None, kx_logs := None,
       kx_cleanup := None\<rparr>))
    (bnd (map_error exn_of (primary_failure env ops path)) (\<lambda>primary.
     bnd (fetch kx_started) (\<lambda>started. case started of
       None \<Rightarrow> conclude_runtime env primary None None
     | Some st \<Rightarrow>
        bnd (map_error exn_of (collect_candidate_logs env ops (ks_handle st))) (\<lambda>(interrupt, logs_failed).
        bnd (map_error exn_of (stop_candidate env ops (ks_handle st))) (\<lambda>cleanup_failed.
        conclude_runtime env (case interrupt of Some x \<Rightarrow> Some x | None \<Rightarrow> primary) logs_failed cleanup_failed)))))"

end
