(* ===== verification/Rehearsal_Runs.thy ===== *)
theory Rehearsal_Runs
  imports Rehearsal Restore_Runs
begin

text \<open>
  Rehearsals that get through: when the snapshot is in order, no call fails and the migration
  leaves a sound database, the rehearsal of \<^verbatim>\<open>migration.py\<close> returns.
\<close>

section \<open>The calls of a rehearsal\<close>

lemma space_of_put [simp]: "space_of i (put_space i sp w) = Some sp"
  by (simp add: space_of_def put_space_def update_conv')

lemma space_file_put [simp]: "space_file i name (put_entry i name c w) = Some (private_file c)"
  by (simp add: space_file_def entries_of_def put_entry_def update_conv')

lemma put_space_again [simp]: "put_space i sp' (put_space i sp w) = put_space i sp' w"
  by (simp add: put_space_def update_last)

lemma put_entry_again: "put_entry i name c (put_entry i name b w) = put_entry i name c w"
  unfolding put_entry_def by (simp add: entries_of_def update_last)

lemma workspace_updates [simp]:
  "rw_backups (put_space i sp w) = rw_backups w" "rw_backups (put_entry i name c w) = rw_backups w"
  "rw_rest (put_space i sp w) = rw_rest w" "rw_rest (put_entry i name c w) = rw_rest w"
  "rf_root (rw_files (put_space i sp w)) = rf_root (rw_files w)"
  by (simp_all add: put_entry_def put_space_def)

lemma yields_ready_directory:
  assumes "get w = Root_entry True directory_mode"
  shows "yields (ensure_directory all_work get put e1 e2 e3 e4) w () w"
proof -
  have "yields (on_os_error (syscall all_work id) (raise e2)) w () w"
    using yields_handled(2) [OF yields_syscall [of id w]] by simp
  then show ?thesis
    unfolding ensure_directory_def
    by (intro yields_bnd_world yields_if(2) yields_andthen [where v = w and y = "()"])
      (simp_all add: assms check_directory_def ensure_def yields_lift yields_ret)
qed

lemma yields_idle_call: "yields (syscall all_work id) w () w"
  using yields_syscall [of id w] by simp

text \<open>A snapshot that a rehearsal can use: its bytes are described by the metadata and sound.\<close>

definition usable_snapshot :: "'x rehearsal_env \<Rightarrow> backup_artifact \<Rightarrow> sqlite_verification \<Rightarrow> bytes \<Rightarrow> 'x rehearsal_world \<Rightarrow> bool" where
  "usable_snapshot env a v c w \<longleftrightarrow> works (re_backup env) \<and> good_content (re_backup env) (ba_metadata a) v c \<and>
     snapshot_file a w = Some (private_file c)"

lemma yields_reads:
  assumes "works (re_backup env)" and "good_content (re_backup env) m v c" and "get w = Some (private_file c)"
  shows "yields (hash_file (re_backup env) path get) w (int (length c), be_sha256 (re_backup env) c) w"
    and "yields (check_file (re_backup env) path 10 get) w v w"
proof -
  show "yields (hash_file (re_backup env) path get) w (int (length c), be_sha256 (re_backup env) c) w"
    using yields_hash_file [of "re_backup env" get w "private_file c" path] assms by (simp add: works_def)
  show "yields (check_file (re_backup env) path 10 get) w v w"
    by (rule yields_check_file) (use assms in \<open>simp add: good_content_def\<close>)
qed

lemma yields_verify_snapshot:
  assumes "usable_snapshot env a v c w"
  shows "yields (verify_snapshot env a) w () w"
proof -
  from assms have facts: "works (re_backup env)" "good_content (re_backup env) (ba_metadata a) v c"
    "snapshot_file a w = Some (private_file c)" by (simp_all add: usable_snapshot_def)
  note reads = yields_reads [where get = "snapshot_file a", OF facts]
  have "yields (bnd (check_file (re_backup env) (snapshot_path a) 10 (snapshot_file a)) (\<lambda>_.
     bnd (hash_file (re_backup env) (snapshot_path a) (snapshot_file a)) (\<lambda>afterwards.
     if afterwards \<noteq> (int (length c), be_sha256 (re_backup env) c)
     then raise (snapshot_error ''rehearsal snapshot changed while it was reverified'' (snapshot_path a))
     else ret ()))) w () w"
    by (rule yields_bnd [OF reads(2)], rule yields_bnd [OF reads(1)]) (simp add: yields_ret)
  moreover have "(int (length c), be_sha256 (re_backup env) c) = (bm_size_bytes (ba_metadata a), bm_sha256 (ba_metadata a))"
    using facts(2) by (simp add: good_content_def)
  ultimately show ?thesis
    unfolding verify_snapshot_def Let_def by (intro yields_bnd [OF reads(1)] yields_if(2)) auto
qed

lemma yields_create_workspace:
  assumes "works (re_backup env)" and "is_absolute (re_root env)" and "re_root env \<noteq> ''/''" and "is_operation_id i"
    and "rf_root (rw_files w) = Root_entry True directory_mode" and "space_of i w = None"
  shows "yields (create_workspace env i) w i (put_space i (Space_directory []) w)"
proof -
  let ?v = "put_space i (Space_directory []) w"
  have sc: "re_schedule env = all_work" using assms(1) by (simp add: works_def)
  have "yields (andthen (syscall all_work (put_space i (Space_directory [])))
    (andthen (on_os_error (sync_directory all_work)
        (andthen (ignoring (syscall all_work (drop_space i))) (raise os_error))) (ret i))) w i ?v"
    by (rule yields_andthen [OF yields_syscall yields_andthen [OF yields_handled(2) [OF yields_sync] yields_ret]])
  then have "yields (bnd (fetch (space_of i \<circ> os_world)) (\<lambda>sp. if sp \<noteq> None then raise os_error
     else andthen (syscall all_work (put_space i (Space_directory [])))
    (andthen (on_os_error (sync_directory all_work)
        (andthen (ignoring (syscall all_work (drop_space i))) (raise os_error))) (ret i)))) w i ?v"
    by (intro yields_bnd_world yields_if(2)) (simp add: assms(6))
  with yields_ready_directory [where get = "rf_root \<circ> rw_files" and w = w] assms(2-5) show ?thesis
    unfolding create_workspace_def Let_def sc by (intro yields_if(2) yields_andthen) auto
qed

lemma yields_unlink_copy: "yields m w x v \<Longrightarrow> yields (unlink_copy env i m) w x v"
  unfolding unlink_copy_def by (rule yields_handled)

lemma yields_materialize_snapshot:
  assumes "usable_snapshot env a v c w" and "space_of i w = Some (Space_directory [])"
  shows "yields (materialize_snapshot env a i) w (database_path env i) (put_entry i workspace_database c w)"
proof -
  let ?v = "put_entry i workspace_database c w"
  from assms(1) have facts: "works (re_backup env)" "good_content (re_backup env) (ba_metadata a) v c"
    "snapshot_file a w = Some (private_file c)" by (simp_all add: usable_snapshot_def)
  have sc: "re_schedule env = all_work" and late: "be_late (re_backup env) = (\<lambda>_. False)" and "c \<noteq> []"
    using facts(1,2) by (auto simp: works_def good_content_def)
  have "yields (open_snapshot env a) w c w"
    unfolding open_snapshot_def sc
    by (rule yields_andthen [OF yields_idle_call], rule yields_bnd_world) (simp add: facts(3) yields_ret)
  note source = yields_unlink_copy [OF this]
  have "space_file i workspace_database w = None" using assms(2) by (simp add: space_file_def entries_of_def)
  then have "yields (open_copy env i) w () (put_entry i workspace_database [] w)"
    unfolding open_copy_def sc by (intro yields_bnd_world) (simp add: yields_syscall)
  note target = yields_handled(3) [OF yields_unlink_copy [OF this]]
  have "yields (copy_loop all_work (\<lambda>_. False) (put_entry i workspace_database) c 0)
      (put_entry i workspace_database [] w) () (put_entry i workspace_database c (put_entry i workspace_database [] w))"
    by (rule yields_copy_loop [OF refl refl put_entry_again \<open>c \<noteq> []\<close>])
  then have "yields (copy_loop all_work (\<lambda>_. False) (put_entry i workspace_database) c 0) (put_entry i workspace_database [] w) () ?v"
    by (simp only: put_entry_again)
  note copied = yields_closing [OF yields_unlink_copy [OF yields_andthen [OF yields_idle_call yields_andthen [OF this yields_idle_call]]]
      yields_andthen [OF yields_idle_call yields_idle_call]]
  have "space_file i workspace_database ?v = Some (private_file c)" by simp
  note reads = yields_reads [where get = "space_file i workspace_database", OF facts(1,2) this]
  show ?thesis
    unfolding materialize_snapshot_def Let_def sc late
    apply (rule yields_bnd [OF source])
    apply (rule yields_andthen [OF target])
    apply (rule yields_andthen [OF copied])
    apply (rule yields_andthen [OF yields_sync])
    apply (rule yields_bnd [OF reads(1)])
    using facts(2) yields_andthen [OF reads(2) yields_ret] by (simp add: good_content_def)
qed

section \<open>A rehearsal\<close>

text \<open>What the migration leaves in the workspace: a database that SQLite accepts.\<close>

definition sound_database :: "backup_env \<Rightarrow> sqlite_verification \<Rightarrow> bytes \<Rightarrow> bool" where
  "sound_database env v c \<longleftrightarrow> c \<noteq> [] \<and> is_sha256 (be_sha256 env c) \<and> valid_sqlite_verification v \<and>
     (\<forall>n path. verify_sqlite_database path False 10 (Some (private_file c)) (be_sqlite env n c) = Inr v)"

text \<open>\<open>m\<close> returns and leaves the files and the workspaces alone.\<close>

definition passes :: "('x, 'a) rehearsal_act \<Rightarrow> bool" where
  "passes m \<longleftrightarrow> (\<forall>w. returns m w (\<lambda>v. rw_files v = rw_files w))"

lemma same_files:
  fixes v w :: "'x rehearsal_world"
  assumes "rw_files v = rw_files w"
  shows "space_of i v = space_of i w" "space_file i name v = space_file i name w"
  using assms by (simp_all add: space_file_def entries_of_def space_of_def)

definition rehearsal_ready ::
  "'x rehearsal_env \<Rightarrow> backup_artifact \<Rightarrow> string \<Rightarrow> sqlite_verification \<Rightarrow> bytes \<Rightarrow> 'x rehearsal_world \<Rightarrow> bool" where
  "rehearsal_ready env a i v c w \<longleftrightarrow> usable_snapshot env a v c w \<and> is_operation_id i \<and>
     is_backup_id (bm_backup_id (ba_metadata a)) \<and> is_sha256 (bm_sha256 (ba_metadata a)) \<and>
     is_absolute (re_root env) \<and> re_root env \<noteq> ''/'' \<and>
     rf_root (rw_files w) = Root_entry True directory_mode \<and> space_of i w = None"

text \<open>The command succeeds with complete output and leaves \<open>c\<close> in the workspace.\<close>

definition migrates_to :: "'x rehearsal_env \<Rightarrow> string \<Rightarrow> command_result \<Rightarrow> bytes \<Rightarrow> bool" where
  "migrates_to env i r c \<longleftrightarrow> command_succeeded r \<and> output_complete r \<and> migration_command_evidence r = Inr r \<and>
     (\<forall>k w. re_command env k (database_path env i) w = (Inr r, put_entry i workspace_database c w))"

lemma yields_migration: "migrates_to env i r c \<Longrightarrow>
    yields (run_migration env (database_path env i)) w r (put_entry i workspace_database c w)"
  by (simp add: yields_def run_migration_def migrates_to_def next_call_def)

lemma prepare_rehearsal_returns:
  fixes env :: "'x rehearsal_env"
  assumes ready: "usable_snapshot env a v c w" "is_operation_id i" "is_backup_id (bm_backup_id (ba_metadata a))"
      "is_sha256 (bm_sha256 (ba_metadata a))"
    and space: "space_of i w = Some (Space_directory [])"
    and command: "migrates_to env i r c'" and sound: "sound_database (re_backup env) v' c'" and sink: "passes (sink r)"
  shows "returns (prepare_rehearsal env a i sink i) w
    (\<lambda>u. space_of i u = Some (Space_directory [(workspace_database, private_file c')]))"
proof -
  let ?w1 = "put_entry i workspace_database c w" and ?w2 = "put_entry i workspace_database c' w"
  let ?get = "space_file i workspace_database"
  note copied = yields_materialize_snapshot [OF ready(1) space]
  have ran: "yields (run_migration env (database_path env i)) ?w1 r ?w2"
    using yields_migration [OF command, of ?w1] by (simp add: put_entry_again)
  have works: "be_schedule (re_backup env) = all_work" using ready(1) by (simp add: usable_snapshot_def works_def)
  have evidence: "lift_result (migration_command_evidence r) = lift_result (Inr r)"
    and usable: "lift_result (usable_rehearsal (re_log env) r) = lift_result (Inr ())"
    using command usable_rehearsal_Inr [of "re_log env" r "()"] by (simp_all add: migrates_to_def)
  have space2: "space_of i ?w2 = Some (Space_directory [(workspace_database, private_file c')])"
    by (simp add: put_entry_def entries_of_def space)
  have "returns (sink r) ?w2 (\<lambda>u. rw_files u = rw_files ?w2)" using sink by (simp add: passes_def)
  then show ?thesis
    unfolding prepare_rehearsal_def evidence usable
  proof (intro returns_after(1) [OF copied] returns_after(1) [OF ran] returns_after(1) [OF yields_lift], unfold evidence usable,
      intro returns_after(1) [OF yields_lift], elim returns_andthen)
    fix u :: "'x rehearsal_world" assume same: "rw_files u = rw_files ?w2"
    have copy: "?get u = Some (private_file c')" unfolding same_files [OF same] by simp
    have checked: "yields (on_dploy (check_file (re_backup env) (database_path env i) 10 ?get) h) u v' u" for h
      unfolding on_dploy_def by (rule yields_catching, rule yields_check_file) (use sound in \<open>simp add: copy sound_database_def\<close>)
    note hashed = yields_hash_file [where get = ?get, OF works copy, simplified]
    show "returns (andthen (lift_result (Inr ())) (bnd (on_dploy (check_file (re_backup env) (database_path env i) 10 ?get) (\<lambda>e.
            raise (Dploy (mk_error OperationFailedError
              (''post-migration SQLite verification failed: '' @ err_what e) False None (Some (re_log env))
              (''Production was not changed; correct the migration so the rehearsed '' @
               ''database passes every SQLite check.''))))) (\<lambda>sqlite.
     bnd (hash_file (re_backup env) (database_path env i) ?get) (\<lambda>(size_bytes, sha).
     bnd (fetch os_calls) (\<lambda>n.
     let result = \<lparr>rr_operation_id = i, rr_backup_id = bm_backup_id (ba_metadata a),
           rr_backup_sha256 = bm_sha256 (ba_metadata a), rr_database_size_bytes = size_bytes,
           rr_database_sha256 = sha, rr_command = r, rr_sqlite = sqlite,
           rr_completed_at = be_now (re_backup env) n\<rparr>
     in if valid_rehearsal_result result then ret \<lparr>ar_database_path = database_path env i, ar_result = result\<rparr>
        else raise validation_error))))) u (\<lambda>u. space_of i u = Some (Space_directory [(workspace_database, private_file c')]))"
      apply (rule returns_after(2) [OF yields_lift])
      apply (rule returns_after(1) [OF checked])
      apply (rule returns_after(1) [OF hashed])
      apply (simp only: prod.case)
      apply (rule returns_calls)
      using ready(2-4) sound same_files(1) [OF same, of i] space2
      by (simp add: valid_rehearsal_result_def sound_database_def Let_def returns_yields [OF yields_ret])
  qed
qed

lemma yields_remove_entry:
  assumes "works (re_backup env)"
  shows "space_file i name w = None \<Longrightarrow> yields (remove_entry env i name) w () w"
    and "space_file i name w = Some (private_file c) \<Longrightarrow> yields (remove_entry env i name) w () (drop_entry i name w)"
proof -
  show "space_file i name w = None \<Longrightarrow> yields (remove_entry env i name) w () w"
    unfolding remove_entry_def by (rule yields_bnd_world) (simp add: yields_ret)
  assume "space_file i name w = Some (private_file c)"
  then show "yields (remove_entry env i name) w () (drop_entry i name w)"
    unfolding remove_entry_def using assms
    by (intro yields_bnd_world) (simp add: works_def yields_andthen [OF yields_idle_call yields_syscall])
qed

lemma yields_cleanup_workspace:
  assumes works: "works (re_backup env)" and space: "space_of i w = Some (Space_directory [(workspace_database, private_file c)])"
  shows "yields (cleanup_workspace env i) w None (drop_space i (drop_entry i workspace_database w))"
proof -
  let ?v = "drop_entry i workspace_database w"
  have sc: "re_schedule env = all_work" using works by (simp add: works_def)
  have other: "yields (remove_entry env i (workspace_database @ x)) w () w" if "x \<noteq> []" for x
    by (rule yields_remove_entry(1) [OF works]) (use that in \<open>simp add: space_file_def entries_of_def space\<close>)
  have "yields (remove_entry env i workspace_database) w () ?v"
    by (rule yields_remove_entry(2) [OF works]) (simp add: space_file_def entries_of_def space)
  note removed = yields_andthen [OF other [of "''-wal''"] yields_andthen [OF other [of "''-shm''"]
      yields_andthen [OF other [of "''-journal''"] yields_andthen [OF this yields_andthen [OF yields_idle_call]]]]]
  have "entries_of i ?v = []" by (simp add: drop_entry_def entries_of_def space)
  then have "yields (bnd (fetch (entries_of i \<circ> os_world)) (\<lambda>es. if es \<noteq> [] then raise os_error
     else andthen (syscall all_work (drop_space i)) (sync_directory all_work))) ?v () (drop_space i ?v)"
    by (intro yields_bnd_world) (simp add: yields_andthen [OF yields_syscall yields_sync])
  with removed have "yields (remove_directory env i) w () (drop_space i ?v)"
    unfolding remove_directory_def Let_def sc by simp
  then have "yields (remove_workspace env i) w () (drop_space i ?v)"
    unfolding remove_workspace_def by (intro yields_bnd_world) (simp add: space)
  then show ?thesis
    unfolding cleanup_workspace_def by (intro yields_handled(2) yields_andthen [OF _ yields_ret])
qed

text \<open>
  A rehearsal of a good snapshot goes through: when no call fails, the workspace is free, the
  migration succeeds with complete output and leaves a database that SQLite accepts, and the record
  and the body return, then the rehearsal returns and its workspace is gone.
\<close>

lemma rehearsal_runs:
  assumes "rehearsal_ready env a i v c (os_world s)" and "migrates_to env i r c'"
    and "sound_database (re_backup env) v' c'" and "passes (sink r)" and "\<And>active. passes (body active)"
  shows "\<exists>x t. migration_rehearsal env a i sink body s = (Inr x, t) \<and> space_of i (os_world t) = None"
proof -
  let ?w = "put_space i (Space_directory []) (os_world s)"
  let ?done = "\<lambda>u. space_of i u = Some (Space_directory [(workspace_database, private_file c')])"
  from assms(1) have ready: "usable_snapshot env a v c (os_world s)" "is_operation_id i"
    "is_backup_id (bm_backup_id (ba_metadata a))" "is_sha256 (bm_sha256 (ba_metadata a))" and works: "works (re_backup env)"
    by (simp_all add: rehearsal_ready_def usable_snapshot_def)
  have "yields (andthen (verify_snapshot env a) (create_workspace env i)) (os_world s) i ?w"
    using assms(1) by (intro yields_andthen [OF yields_verify_snapshot [OF ready(1)] yields_create_workspace])
      (simp_all add: rehearsal_ready_def usable_snapshot_def)
  from yieldsD [OF this refl] obtain s1 where set_up:
    "andthen (verify_snapshot env a) (create_workspace env i) s = (Inr i, s1)" "os_world s1 = ?w" by blast
  have "usable_snapshot env a v c ?w" using ready(1) by (simp add: usable_snapshot_def)
  from prepare_rehearsal_returns [where sink = sink, OF this ready(2-4) space_of_put assms(2,3,4)]
  have "returns (prepare_rehearsal env a i sink i) (os_world s1) ?done" using set_up(2) by simp
  moreover have "returns (body active) u ?done" if "?done u" for active u
    using assms(5) [of active] that same_files(1) [of _ u i] unfolding passes_def returns_def by metis
  ultimately have "returns (bnd (prepare_rehearsal env a i sink i) body) (os_world s1) ?done"
    by (rule returns_bnd)
  then obtain x s2 where ran: "bnd (prepare_rehearsal env a i sink i) body s1 = (Inr x, s2)" "?done (os_world s2)"
    by (rule returnsE)
  from yieldsD [OF yields_cleanup_workspace [OF works ran(2)] refl]
  obtain s3 where "cleanup_workspace env i s2 = (Inr None, s3)"
    "os_world s3 = drop_space i (drop_entry i workspace_database (os_world s2))" by blast
  with set_up(1) ran(1) show ?thesis
    by (simp add: migration_rehearsal_def with_rehearsal_def bnd_def [of "andthen (verify_snapshot env a) (create_workspace env i)"])
qed

section \<open>An example\<close>

definition example_rehearsal_env :: "unit rehearsal_env" where
  "example_rehearsal_env = \<lparr>re_backup = example_restore_env, re_root = ''/srv/state/rehearsals'', re_log = ''/srv/state/events'',
     re_command = (\<lambda>_ _ w. (Inr example_command, put_entry final_operation_id workspace_database (example_content @ [1]) w))\<rparr>"

definition example_rehearsal_world :: "unit rehearsal_world osys" where
  "example_rehearsal_world = \<lparr>os_calls = 0, os_world = \<lparr>rw_backups = os_world example_restore_world,
     rw_files = \<lparr>rf_root = Root_entry True directory_mode, rf_spaces = []\<rparr>, rw_rest = ()\<rparr>\<rparr>"

lemma example_rehearsal_ready:
  obtains v v' where "rehearsal_ready example_rehearsal_env example_final final_operation_id v example_content (os_world example_rehearsal_world)"
    and "sound_database (re_backup example_rehearsal_env) v' (example_content @ [1])"
proof -
  from example_restorable obtain v where good: "works example_restore_env"
    "good_content example_restore_env (ba_metadata example_final) v example_content"
    "file_at (At_backup final_backup_id) (os_world example_restore_world) = Some (private_file example_content)"
    by (auto simp: restorable_def)
  have sha: "bm_sha256 (ba_metadata example_final) = final_sha" by (simp add: example_final_def)
  have "rehearsal_ready example_rehearsal_env example_final final_operation_id v example_content (os_world example_rehearsal_world)"
    by (simp add: rehearsal_ready_def usable_snapshot_def example_rehearsal_env_def example_rehearsal_world_def good sha
        is_absolute_def space_of_def)
  moreover have "verify_sqlite_database path False 10 (Some (private_file (example_content @ [1]))) example_session = Inr
      \<lparr>sv_quick_check_passed = True, sv_foreign_key_check_passed = True,
       sv_integrity_check_passed = None, sv_checked_at = 1000, sv_duration = 0\<rparr>" for path
    by (simp add: verify_sqlite_database_def validate_database_file_def require_rows_def ensure_def example_session_def)
  then have "sound_database (re_backup example_rehearsal_env) \<lparr>sv_quick_check_passed = True, sv_foreign_key_check_passed = True,
       sv_integrity_check_passed = None, sv_checked_at = 1000, sv_duration = 0\<rparr> (example_content @ [1])"
    by (simp add: sound_database_def example_rehearsal_env_def example_restore_env_def example_backup_env_def valid_sqlite_verification_def)
  ultimately show ?thesis by (rule that)
qed

lemma passes_ret: "passes (ret x)"
  unfolding passes_def by (blast intro: returns_yields yields_ret)

lemma example_migrates: "migrates_to example_rehearsal_env final_operation_id example_command (example_content @ [1])"
  by (simp add: migrates_to_def example_rehearsal_env_def command_succeeded_def output_complete_def
      migration_command_evidence_def example_command_def example_output_def captured_output_problem_def)

lemma example_rehearsal_runs:
  "\<exists>x t. migration_rehearsal example_rehearsal_env example_final final_operation_id (\<lambda>_. ret ()) (\<lambda>_. ret ())
     example_rehearsal_world = (Inr x, t)"
proof -
  obtain v v' where ready: "rehearsal_ready example_rehearsal_env example_final final_operation_id v example_content
      (os_world example_rehearsal_world)"
    and sound: "sound_database (re_backup example_rehearsal_env) v' (example_content @ [1])"
    by (rule example_rehearsal_ready)
  from rehearsal_runs [where sink = "\<lambda>_. ret ()" and body = "\<lambda>_. ret ()", OF ready example_migrates sound passes_ret passes_ret] show ?thesis by blast
qed

theorem rehearsed_migration_is_proven_witness:
  "\<exists>active (u :: unit rehearsal_world osys). proven_rehearsal example_rehearsal_env example_final final_operation_id (\<lambda>_. ret ()) final_operation_id
     active (os_world u)"
proof -
  obtain x t where run: "migration_rehearsal example_rehearsal_env example_final final_operation_id (\<lambda>_. ret ()) (\<lambda>_. ret ())
     example_rehearsal_world = (Inr x, t)"
    using example_rehearsal_runs by blast
  from rehearsed_migration_is_proven [OF this] show ?thesis by blast
qed

theorem rehearsals_are_contained_witness:
  "\<exists>x t. migration_rehearsal example_rehearsal_env example_final final_operation_id (\<lambda>_. ret ()) (\<lambda>_. ret ())
     example_rehearsal_world = (Inr x, t) \<and>
    rw_backups (os_world t) = rw_backups (os_world example_rehearsal_world)"
proof -
  obtain x t where run: "migration_rehearsal example_rehearsal_env example_final final_operation_id (\<lambda>_. ret ()) (\<lambda>_. ret ())
     example_rehearsal_world = (Inr x, t)"
    using example_rehearsal_runs by blast
  have "rw_backups (snd (re_command example_rehearsal_env k path w)) = rw_backups w" for k path w
    by (simp add: example_rehearsal_env_def)
  from rehearsals_are_contained [OF this _ _ run] run show ?thesis by (auto simp: ret_def)
qed

end
