(* ===== verification/Candidate_Runs.thy ===== *)
theory Candidate_Runs
  imports Candidate Rehearsal_Runs
begin

text \<open>
  What the candidate validation guarantees: a candidate that was started is stopped, a validation
  that returns is complete and in order, and what a failure without a recovery flag means.
\<close>

section \<open>Single calls\<close>

fun call_of :: "candidate_event \<Rightarrow> candidate_call" where
  "call_of (K_called c) = c"
| "call_of (K_returned c) = c"
| "call_of (K_raised c _) = c"

lemma ask_cases:
  assumes "ask wrap c m s = (r, t)"
  obtains (returned) x w where "m (kx_world s) = (Inr x, w)" "r = Inr x"
      "t = s\<lparr>kx_world := w, kx_trace := K_returned c # K_called c # kx_trace s\<rparr>"
  | (failed) e w where "m (kx_world s) = (Inl e, w)" "r = Inl e"
      "t = s\<lparr>kx_world := w, kx_trace := K_raised c (wrap e) # K_called c # kx_trace s\<rparr>"
  using assms by (auto simp: ask_def split: prod.splits sum.splits)

lemma candidate_note_cases:
  assumes "candidate_note env ops message evidence s = (r, t)"
  obtains (noted) x w where "ko_append_event ops (ke_operation_id env) message evidence (kx_world s) = (Inr x, w)" "r = Inr ()"
      "t = s\<lparr>kx_world := w, kx_trace := K_returned (KC_event message) # K_called (KC_event message) # kx_trace s\<rparr>"
  | (lost) e w where "ko_append_event ops (ke_operation_id env) message evidence (kx_world s) = (Inl e, w)" "r = Inl (Raised e)"
      "t = s\<lparr>kx_world := w, kx_trace := K_raised (KC_event message) (Raised e) # K_called (KC_event message) # kx_trace s\<rparr>"
proof -
  let ?m = "ko_append_event ops (ke_operation_id env) message evidence"
  obtain r0 s0 where ask: "ask Raised (KC_event message) ?m s = (r0, s0)"
    by (cases "ask Raised (KC_event message) ?m s")
  then have run: "(case r0 of Inl e \<Rightarrow> Inl (Raised e) | Inr _ \<Rightarrow> Inr ()) = r" "s0 = t"
    using assms by (auto simp: candidate_note_def map_error_def andthen_def bnd_def ret_def split: sum.splits)
  from ask show ?thesis
  proof (cases rule: ask_cases)
    case (returned x w)
    with run that(1) [of x w] show ?thesis by simp
  next
    case (failed e w)
    with run that(2) [of e w] show ?thesis by simp
  qed
qed

lemma on_any_cases:
  assumes "on_any m h s = (r, t)"
  obtains (fine) x where "m s = (Inr x, t)" "r = Inr x"
  | (died) "m s = (Inl (Raised killed), t)" "r = Inl (Raised killed)"
  | (handled) x u where "m s = (Inl x, u)" "x \<noteq> Raised killed" "h x u = (r, t)"
  using assms by (auto simp: on_any_def catching_def raise_def split: prod.splits sum.splits if_splits)

lemma on_any_same: "m s = n u \<Longrightarrow> on_any m h s = on_any n h u"
  by (simp add: on_any_def catching_def)

lemma on_any_raised: "m s = (Inl x, u) \<Longrightarrow> on_any m h s = (if x = Raised killed then (Inl x, u) else h x u)"
  by (simp add: on_any_def catching_def raise_def)

lemma on_any_handled: "m s = (Inl x, u) \<Longrightarrow> x \<noteq> Raised killed \<Longrightarrow> h x u = rt \<Longrightarrow> on_any m h s = rt"
  by (simp add: on_any_def catching_def)

lemma map_error_Inr: "map_error f m s = (Inr x, t) \<longleftrightarrow> m s = (Inr x, t)"
  by (auto simp: map_error_def split: prod.splits sum.splits)

section \<open>Where a run stays\<close>

text \<open>Since the trace was \<open>tr\<close>, only the calls \<open>S\<close> were made, and the candidate is \<open>st\<close>.\<close>

definition stays :: "candidate_event list \<Rightarrow> candidate_call set \<Rightarrow> candidate_start option \<Rightarrow> 'w candidate_context \<Rightarrow> bool" where
  "stays tr S st s \<longleftrightarrow> kx_started s = st \<and> (\<exists>new. kx_trace s = new @ tr \<and> call_of ` set new \<subseteq> S)"

lemma stays_refl: "stays (kx_trace s) S (kx_started s) s"
  by (simp add: stays_def)

lemma stays_mono: "stays tr S st s \<Longrightarrow> S \<subseteq> S' \<Longrightarrow> stays tr S' st s"
  unfolding stays_def by blast

lemma keeps_ask [keeping]: "c \<in> S \<Longrightarrow> keeps (stays tr S st) (ask wrap c m)"
  by (rule keepsI) (erule ask_cases; auto simp: stays_def)

lemma keeps_map_error [keeping]: "keeps I m \<Longrightarrow> keeps I (map_error f m)"
  by (rule keepsI) (auto simp: map_error_def split: prod.splits sum.splits dest: keepsD)

lemma keeps_on_any [keeping]: "keeps I m \<Longrightarrow> (\<And>x. keeps I (h x)) \<Longrightarrow> keeps I (on_any m h)"
  unfolding on_any_def by (intro keeping)

lemma keeps_candidate_note [keeping]: "range KC_event \<subseteq> S \<Longrightarrow> keeps (stays tr S st) (candidate_note env ops message evidence)"
  unfolding candidate_note_def by (intro keeping) blast

lemma keeps_locals [keeping]:
  "keeps (stays tr S st) (modify (\<lambda>s. s\<lparr>kx_inspection := i\<rparr>))"
  "keeps (stays tr S st) (modify (\<lambda>s. s\<lparr>kx_health := h\<rparr>))"
  "keeps (stays tr S st) (modify (\<lambda>s. s\<lparr>kx_logs := l\<rparr>))"
  "keeps (stays tr S st) (modify (\<lambda>s. s\<lparr>kx_cleanup := c\<rparr>))"
  by (rule keepsI; auto simp: modify_def stays_def)+

lemma keeps_collect_logs:
  "range KC_event \<subseteq> S \<Longrightarrow> KC_logs h \<in> S \<Longrightarrow> keeps (stays tr S st) (collect_candidate_logs env ops h)"
  unfolding collect_candidate_logs_def by (intro keeping) (auto split: exn.split intro: keeping)

section \<open>The start\<close>

lemma start_candidate_cases:
  assumes "start_candidate env ops path s = (r, t)"
  obtains (refused) x w where "ko_start ops (ke_operation_id env) (ke_version env) path (kx_world s) = (Inl x, w)" "r = Inl x"
      "t = s\<lparr>kx_world := w, kx_trace := K_raised KC_start x # K_called KC_start # kx_trace s\<rparr>"
  | (started) st w u r' where "ko_start ops (ke_operation_id env) (ke_version env) path (kx_world s) = (Inr st, w)"
      "u = s\<lparr>kx_world := w, kx_trace := K_returned KC_start # K_called KC_start # kx_trace s, kx_started := Some st\<rparr>"
      "candidate_note env ops ''Candidate Compose startup completed.''
         [(''candidate_start'', candidate_start_json st)] u = (r', t)"
      "r = (case r' of Inl x \<Rightarrow> Inl x | Inr _ \<Rightarrow> Inr st)"
proof -
  obtain r0 s0 where ask: "ask id KC_start (ko_start ops (ke_operation_id env) (ke_version env) path) s = (r0, s0)"
    by (cases "ask id KC_start (ko_start ops (ke_operation_id env) (ke_version env) path) s")
  from ask show ?thesis
  proof (cases rule: ask_cases)
    case (returned st w)
    let ?u = "s0\<lparr>kx_started := Some st\<rparr>"
    obtain r' t' where noting: "candidate_note env ops ''Candidate Compose startup completed.''
        [(''candidate_start'', candidate_start_json st)] ?u = (r', t')"
      by (cases "candidate_note env ops ''Candidate Compose startup completed.''
        [(''candidate_start'', candidate_start_json st)] ?u")
    from assms ask returned(2) noting have "r = (case r' of Inl x \<Rightarrow> Inl x | Inr _ \<Rightarrow> Inr st)" "t' = t"
      by (simp_all add: start_candidate_def bnd_def andthen_def modify_def ret_def split: sum.splits)
    show ?thesis
    proof (rule that(2))
      show "ko_start ops (ke_operation_id env) (ke_version env) path (kx_world s) = (Inr st, w)" by fact
      show "?u = s\<lparr>kx_world := w, kx_trace := K_returned KC_start # K_called KC_start # kx_trace s, kx_started := Some st\<rparr>"
        using returned(3) by simp
      show "candidate_note env ops ''Candidate Compose startup completed.''
        [(''candidate_start'', candidate_start_json st)] ?u = (r', t)" using noting \<open>t' = t\<close> by simp
    qed fact
  next
    case (failed e w)
    have "r = Inl e" "t = s0" using assms ask failed(2) by (simp_all add: start_candidate_def bnd_def)
    with failed(1,3) show ?thesis by (intro that(1)) simp_all
  qed
qed

lemma keeps_check_candidate:
  assumes "range KC_event \<subseteq> S" and "KC_inspect (ks_handle st) \<in> S" and "KC_check \<in> S"
  shows "keeps (stays tr S z) (check_candidate env ops path st)"
  unfolding check_candidate_def by (intro keeping assms)

text \<open>The calls a started candidate may see before it is stopped.\<close>

definition check_calls :: "candidate_handle \<Rightarrow> candidate_call set" where
  "check_calls h = {KC_inspect h, KC_check, KC_logs h} \<union> range KC_event"

lemma run_checks_cases:
  assumes "run_checks env ops path s = (r, t)"
  obtains (refused) x w where "ko_start ops (ke_operation_id env) (ke_version env) path (kx_world s) = (Inl x, w)" "r = Inl x"
      "t = s\<lparr>kx_world := w, kx_trace := K_raised KC_start x # K_called KC_start # kx_trace s\<rparr>"
  | (started) st w where "ko_start ops (ke_operation_id env) (ke_version env) path (kx_world s) = (Inr st, w)"
      "stays (K_returned KC_start # K_called KC_start # kx_trace s) (check_calls (ks_handle st)) (Some st) t"
proof -
  obtain r1 s1 where start: "start_candidate env ops path s = (r1, s1)" by (cases "start_candidate env ops path s")
  from start show ?thesis
  proof (cases rule: start_candidate_cases)
    case (refused x w)
    have "r = Inl x" "t = s1" using assms start refused(2) by (simp_all add: run_checks_def bnd_def)
    with refused show ?thesis by (intro that(1)) simp_all
  next
    case (started st w u r')
    let ?tr = "K_returned KC_start # K_called KC_start # kx_trace s" and ?S = "check_calls (ks_handle st)"
    have calls: "range KC_event \<subseteq> ?S" "KC_inspect (ks_handle st) \<in> ?S" "KC_check \<in> ?S" by (auto simp: check_calls_def)
    have "stays ?tr ?S (Some st) u" using started(2) stays_refl [of u ?S] by simp
    from keepsD [OF keeps_candidate_note [OF calls(1)] started(3) this] have s1: "stays ?tr ?S (Some st) s1" .
    have "stays ?tr ?S (Some st) t"
    proof (cases r1)
      case (Inl x)
      then show ?thesis using assms start s1 by (simp add: run_checks_def bnd_def)
    next
      case (Inr y)
      then have "y = st" using started(4) by (simp split: sum.splits)
      then have "check_candidate env ops path st s1 = (r, t)" using assms start Inr by (simp add: run_checks_def bnd_def)
      from keepsD [OF keeps_check_candidate [OF calls] this s1] show ?thesis .
    qed
    with started(1) show ?thesis by (rule that(2))
  qed
qed

lemma primary_failure_cases:
  assumes "primary_failure env ops path s = (r, t)"
  obtains (died) "r = Inl (Raised killed)"
  | (refused) x w p where "ko_start ops (ke_operation_id env) (ke_version env) path (kx_world s) = (Inl x, w)" "r = Inr (Some p)"
      "stays (K_raised KC_start x # K_called KC_start # kx_trace s) (range KC_event) (kx_started s) t"
      "p = x \<or> (\<exists>m y. p = Raised y \<and> K_raised (KC_event m) p \<in> set (kx_trace t))"
  | (started) st w p where "ko_start ops (ke_operation_id env) (ke_version env) path (kx_world s) = (Inr st, w)" "r = Inr p"
      "stays (K_returned KC_start # K_called KC_start # kx_trace s) (check_calls (ks_handle st)) (Some st) t"
  using assms unfolding primary_failure_def
proof (cases rule: on_any_cases)
  case (fine p)
  from fine(1) obtain y where "run_checks env ops path s = (Inr y, t)" by (elim andthen_InrE) (simp add: ret_def)
  then show ?thesis
  proof (cases rule: run_checks_cases)
    case (started st w)
    with fine(2) that(3) show ?thesis by blast
  qed simp
next
  case died
  with that(1) show ?thesis by blast
next
  case (handled x u)
  let ?handler = "on_any
         (andthen (candidate_note env ops ''Candidate startup, inspection, or health checks were rejected.''
            [(''candidate_failure'', primary_evidence x)])
            (ret (Some x)))
         (\<lambda>y. ret (Some y))"
  have handler: "keeps (stays tr S st) ?handler" if "range KC_event \<subseteq> S" for tr S and st :: "candidate_start option"
    using that by (intro keeping)
  from handled(1) have "run_checks env ops path s = (Inl x, u)"
    by (auto elim!: andthen_InlE simp: ret_def)
  then show ?thesis
  proof (cases rule: run_checks_cases)
    case (started st w)
    have "range KC_event \<subseteq> check_calls (ks_handle st)" by (auto simp: check_calls_def)
    note after = keepsD [OF handler [OF this] handled(3) started(2)]
    from handled(3) show ?thesis
      by (cases rule: on_any_cases) (use that(1) that(3) [OF started(1) _ after] in \<open>auto simp: ret_def\<close>)
  next
    case (refused x' w)
    let ?tr = "K_raised KC_start x # K_called KC_start # kx_trace s"
    have "stays ?tr (range KC_event) (kx_started s) u" using refused(2,3) stays_refl [of u "range KC_event"] by simp
    note after = keepsD [OF handler [OF subset_refl] handled(3) this]
    have start: "ko_start ops (ke_operation_id env) (ke_version env) path (kx_world s) = (Inl x, w)" using refused by simp
    from handled(3) show ?thesis
    proof (cases rule: on_any_cases)
      case (fine p)
      then have "p = Some x" by (elim andthen_InrE) (simp add: ret_def)
      with fine(2) that(2) [OF start _ after] show ?thesis by blast
    next
      case (handled y v)
      from handled(1) have "candidate_note env ops ''Candidate startup, inspection, or health checks were rejected.''
          [(''candidate_failure'', primary_evidence x)] u = (Inl y, v)"
        by (auto elim!: andthen_InlE simp: ret_def)
      then have lost: "\<exists>m z. y = Raised z \<and> K_raised (KC_event m) y \<in> set (kx_trace v)"
        by (cases rule: candidate_note_cases) auto
      from handled(3) have "r = Inr (Some y)" "t = v" by (simp_all add: ret_def)
      with lost that(2) [OF start _ after] show ?thesis by blast
    qed (use that(1) in blast)
  qed
qed


section \<open>The stop\<close>

text \<open>An error of the stop that says that nothing of the candidate is left.\<close>

definition settled_stop :: "runtime_exn \<Rightarrow> bool" where
  "settled_stop x \<longleftrightarrow> (case x of
      Runner_failed Candidate_cleanup _ _ (Some c) \<Rightarrow> cleanup_proven (kc_proof c)
    | Raised (Dploy e) \<Rightarrow> \<not> err_recovery e
    | _ \<Rightarrow> False)"

text \<open>The record of an event failed with an expected error that does not ask for recovery.\<close>

definition evidence_lost :: "candidate_event list \<Rightarrow> bool" where
  "evidence_lost tr \<longleftrightarrow> (\<exists>m e. K_raised (KC_event m) (Raised (Dploy e)) \<in> set tr \<and> \<not> err_recovery e)"

lemma unknown_failure_plain:
  "\<not> err_recovery (unknown_cleanup_failure env x) \<Longrightarrow> \<exists>e. x = Raised (Dploy e) \<and> \<not> err_recovery e"
  by (cases x) (auto simp: unknown_cleanup_failure_def candidate_error_def exn_of_def split: exn.splits)

lemma note_lost:
  assumes "candidate_note env ops m evidence s = (Inl x, t)"
  shows "K_raised (KC_event m) x \<in> set (kx_trace t)"
  using assms by (cases rule: candidate_note_cases) auto

lemma keeps_note_cleanup [keeping]: "keeps (stays tr (range KC_event) st) (note_cleanup env ops message cleanup)"
  unfolding note_cleanup_def by (intro keeping) simp

lemma keeps_failed_stop: "keeps (stays tr (range KC_event) st) (failed_stop env ops x)"
  unfolding failed_stop_def by (auto split: runtime_exn.split runner_class.split option.split intro!: keeping)

lemma note_cleanup_lost:
  assumes "note_cleanup env ops message cleanup s = (Inl x, t)"
  shows "K_raised (KC_event message) x \<in> set (kx_trace t)"
proof -
  from assms have "candidate_note env ops message [(''candidate_cleanup'', candidate_cleanup_json cleanup)]
      (s\<lparr>kx_cleanup := Some cleanup\<rparr>) = (Inl x, t)"
    by (simp add: note_cleanup_def andthen_def bnd_def modify_def)
  then show ?thesis by (rule note_lost)
qed

text \<open>A stop that failed makes a failure; a plain one says that nothing is left, or an event was lost.\<close>

lemma failed_stop_result:
  assumes "failed_stop env ops x s = (r, t)"
  shows "r = Inl (Raised killed) \<or>
    (\<exists>f. r = Inr (Some f) \<and> (\<not> err_recovery f \<longrightarrow> settled_stop x \<or> evidence_lost (kx_trace t)))"
proof (cases "\<exists>msg cmd c. x = Runner_failed Candidate_cleanup msg cmd (Some c)")
  case True
  then obtain msg cmd c where x: "x = Runner_failed Candidate_cleanup msg cmd (Some c)" by blast
  let ?message = "''Candidate cleanup command reported a failure.''"
  have plain: "\<not> err_recovery (cleanup_failure env msg (Some c)) \<longrightarrow> settled_stop x"
    by (simp add: x settled_stop_def cleanup_failure_def candidate_error_def runner_cleanup_proven_def)
  from assms have "on_any (andthen (note_cleanup env ops ?message c) (ret (Some (cleanup_failure env msg (Some c)))))
      (\<lambda>y. ret (Some (unknown_cleanup_failure env y))) s = (r, t)"
    by (simp only: x failed_stop_def runtime_exn.case runner_class.case option.case)
  then show ?thesis
  proof (cases rule: on_any_cases)
    case (fine y)
    then have "y = Some (cleanup_failure env msg (Some c))" by (elim andthen_InrE) (simp add: ret_def)
    with fine(2) plain show ?thesis by blast
  next
    case (handled y u)
    from handled(1) have "note_cleanup env ops ?message c s = (Inl y, u)"
      by (elim andthen_InlE) (simp_all add: ret_def)
    from note_cleanup_lost [OF this] unknown_failure_plain [of env y] handled(3) show ?thesis
      by (auto simp: ret_def evidence_lost_def)
  qed blast
next
  case False
  then have "r = Inr (Some (case x of Runner_failed Candidate_cleanup msg _ _ \<Rightarrow> cleanup_failure env msg None
      | _ \<Rightarrow> unknown_cleanup_failure env x))"
    using assms by (auto simp: failed_stop_def ret_def split: runtime_exn.splits runner_class.splits option.splits)
  moreover have "err_recovery (cleanup_failure env msg None)" for msg
    by (simp add: cleanup_failure_def candidate_error_def runner_cleanup_proven_def)
  ultimately show ?thesis
    using unknown_failure_plain [of env x]
    by (auto simp: settled_stop_def split: runtime_exn.splits runner_class.splits)
qed

lemma stop_candidate_cases:
  assumes "stop_candidate env ops h s = (r, t)"
  obtains (died) "r = Inl (Raised killed)"
  | (stopped) c w f where "ko_stop ops h (kx_world s) = (Inr c, w)" "r = Inr f"
      "stays (K_returned (KC_stop h) # K_called (KC_stop h) # kx_trace s) (range KC_event) (kx_started s) t"
  | (failed) x w f where "ko_stop ops h (kx_world s) = (Inl x, w)" "r = Inr (Some f)"
      "stays (K_raised (KC_stop h) x # K_called (KC_stop h) # kx_trace s) (range KC_event) (kx_started s) t"
      "\<not> err_recovery f \<Longrightarrow> settled_stop x \<or> evidence_lost (kx_trace t)"
proof -
  let ?ok = "\<lambda>c. andthen (note_cleanup env ops ''Candidate container and isolated network cleanup was proven.'' c) (ret None)"
  from assms have run: "on_any (bnd (ask id (KC_stop h) (ko_stop ops h)) ?ok) (failed_stop env ops) s = (r, t)"
    by (simp only: stop_candidate_def)
  obtain r0 s0 where ask: "ask id (KC_stop h) (ko_stop ops h) s = (r0, s0)" by (cases "ask id (KC_stop h) (ko_stop ops h) s")
  from ask show ?thesis
  proof (cases rule: ask_cases)
    case (returned c w)
    let ?I = "stays (K_returned (KC_stop h) # K_called (KC_stop h) # kx_trace s) (range KC_event) (kx_started s)"
    have s0: "?I s0" using returned(3) stays_refl [of s0 "range KC_event"] by simp
    have ok: "keeps ?I (?ok c)" by (intro keeping)
    have "bnd (ask id (KC_stop h) (ko_stop ops h)) ?ok s = ?ok c s0" using ask returned(2) by (simp add: bnd_def)
    then have same: "on_any (bnd (ask id (KC_stop h) (ko_stop ops h)) ?ok) (failed_stop env ops) s =
        on_any (?ok c) (failed_stop env ops) s0"
      by (rule on_any_same)
    with run have run': "on_any (?ok c) (failed_stop env ops) s0 = (r, t)" by metis
    have "keeps ?I (on_any (?ok c) (failed_stop env ops))" by (intro keeps_on_any ok keeps_failed_stop)
    note t = keepsD [OF this run' s0]
    from run' have "r = Inl (Raised killed) \<or> (\<exists>f. r = Inr f)"
      by (cases rule: on_any_cases) (auto dest: failed_stop_result)
    with that(1) that(2) [OF returned(1) _ t] show ?thesis by blast
  next
    case (failed x w)
    let ?I = "stays (K_raised (KC_stop h) x # K_called (KC_stop h) # kx_trace s) (range KC_event) (kx_started s)"
    have s0: "?I s0" using failed(3) stays_refl [of s0 "range KC_event"] by simp
    have bound: "bnd (ask id (KC_stop h) (ko_stop ops h)) ?ok s = (Inl x, s0)" using ask failed(2) by (simp add: bnd_def)
    have raised: "on_any (bnd (ask id (KC_stop h) (ko_stop ops h)) ?ok) (failed_stop env ops) s =
        (if x = Raised killed then (Inl x, s0) else failed_stop env ops x s0)"
      by (rule on_any_raised) (rule bound)
    show ?thesis
    proof (cases "x = Raised killed")
      case True
      with run raised that(1) show ?thesis by simp
    next
      case False
      with run raised have handled: "failed_stop env ops x s0 = (r, t)" by simp
      note t = keepsD [OF keeps_failed_stop handled s0]
      from failed_stop_result [OF handled] that(1) that(3) [OF failed(1) _ t] show ?thesis by blast
    qed
  qed
qed


section \<open>The runtime part as a whole\<close>

text \<open>
  An error of the start that says that nothing is left of it: its cleanup is proven, or it is an
  expected error without a recovery flag. (The errors of the health checks do not come from a start.)
\<close>

definition settled_start :: "runtime_exn \<Rightarrow> bool" where
  "settled_start x \<longleftrightarrow> (case x of
      Runner_failed Candidate_start _ _ (Some c) \<Rightarrow> cleanup_proven (kc_proof c)
    | Raised (Dploy e) \<Rightarrow> \<not> err_recovery e
    | Not_ready _ \<Rightarrow> True
    | Smoke_failed _ _ c \<Rightarrow> smoke_cleanup_proven c
    | _ \<Rightarrow> False)"

lemma normalize_primary_None:
  "normalize_primary env b (Some x) = None \<longleftrightarrow> (\<exists>n. x = Raised (PyInterrupt n))"
  by (auto simp: normalize_primary_def split: runtime_exn.splits exn.splits runner_class.splits)

lemma normalize_primary_plain:
  assumes "normalize_primary env False (Some x) = Some f" and "\<not> err_recovery f"
  shows "settled_start x"
  using assms
  by (auto simp: normalize_primary_def settled_start_def candidate_error_def runner_cleanup_proven_def
      split: runtime_exn.splits exn.splits runner_class.splits option.splits if_splits)

lemma conclude_plain:
  assumes "conclude_runtime env primary logs_failed cleanup_failed s = (Inl (Dploy e), t)" and "\<not> err_recovery e"
  shows "t = s \<and> (\<forall>f. cleanup_failed = Some f \<longrightarrow> \<not> err_recovery f) \<and>
    (\<forall>f. normalize_primary env (kx_started s \<noteq> None) primary = Some f \<longrightarrow> \<not> err_recovery f)"
proof -
  let ?n = "normalize_primary env (kx_started s \<noteq> None) primary"
  let ?es = "List.map_filter id [?n, logs_failed, cleanup_failed]"
  have all: "\<forall>f \<in> set ?es. \<not> err_recovery f \<and> t = s"
  proof (cases ?es)
    case (Cons f fs)
    with assms have "t = s" "e = f \<and> fs = [] \<or> e = combined_failure env ?es"
      by (auto simp: conclude_runtime_def bnd_def fetch_def raise_def split: list.splits)
    with Cons assms(2) show ?thesis
      by (auto simp: combined_failure_def candidate_error_def list_ex_iff split: if_splits)
  qed simp
  have "t = s" using assms
    by (auto simp: conclude_runtime_def bnd_def fetch_def raise_def ret_def
        split: list.splits option.splits)
  moreover have "f \<in> set ?es" if "cleanup_failed = Some f \<or> ?n = Some f" for f
    using that by (auto simp: map_filter_def)
  ultimately show ?thesis using all by blast
qed

lemma conclude_start:
  assumes "conclude_runtime env (Some x) None None s = (Inl (Dploy e), t)"
  shows "normalize_primary env (kx_started s \<noteq> None) (Some x) = Some e"
proof (cases "normalize_primary env (kx_started s \<noteq> None) (Some x)")
  case None
  then have "exn_of x = Dploy e"
    using assms by (simp only: conclude_runtime_def bnd_def fetch_def raise_def map_filter_simps id_apply
      option.case list.case prod.case sum.case prod.inject sum.inject)
  with None show ?thesis by (auto simp: normalize_primary_None exn_of_def)
next
  case (Some f)
  then show ?thesis
    using assms by (simp only: conclude_runtime_def bnd_def fetch_def raise_def map_filter_simps id_apply
      option.case list.case prod.case sum.case prod.inject sum.inject exn.inject)
qed

lemma conclude_stays:
  assumes "conclude_runtime env primary logs_failed cleanup_failed s = (r, t)"
  shows "t = s"
  using assms
  by (auto simp: conclude_runtime_def bnd_def fetch_def raise_def ret_def split: list.splits option.splits)


text \<open>
  The run in phases. Without a started candidate nothing else is called; with one, its logs are
  collected and it is stopped, and the conclusion calls nothing.
\<close>

lemma validate_runtime_cases:
  fixes s t :: "'w candidate_context"
  assumes "validate_runtime env ops path s = (r, t)"
  obtains (died) "r = Inl killed"
  | (refused) x w p where "ko_start ops (ke_operation_id env) (ke_version env) path (kx_world s) = (Inl x, w)"
      "stays (K_raised KC_start x # K_called KC_start # kx_trace s) (range KC_event) None t"
      "p = x \<or> (\<exists>m y. p = Raised y \<and> K_raised (KC_event m) p \<in> set (kx_trace t))"
      "conclude_runtime env (Some p) None None t = (r, t)"
  | (stopped) st w primary logs_failed cleanup_failed out u where
      "ko_start ops (ke_operation_id env) (ke_version env) path (kx_world s) = (Inr st, w)"
      "stays (K_returned KC_start # K_called KC_start # kx_trace s) (check_calls (ks_handle st)) (Some st) u"
      "stays (out # K_called (KC_stop (ks_handle st)) # kx_trace u) (range KC_event) (Some st) t"
      "(\<exists>c v. out = K_returned (KC_stop (ks_handle st)) \<and> ko_stop ops (ks_handle st) (kx_world u) = (Inr c, v)) \<or>
       (\<exists>x v. out = K_raised (KC_stop (ks_handle st)) x \<and> ko_stop ops (ks_handle st) (kx_world u) = (Inl x, v) \<and>
          (\<exists>f. cleanup_failed = Some f \<and> (\<not> err_recovery f \<longrightarrow> settled_stop x \<or> evidence_lost (kx_trace t))))"
      "conclude_runtime env primary logs_failed cleanup_failed t = (r, t)"
proof -
  let ?s = "s\<lparr>kx_started := None, kx_inspection := None, kx_health := None, kx_logs := None, kx_cleanup := None\<rparr>"
  obtain r1 s1 where primary: "primary_failure env ops path ?s = (r1, s1)" by (cases "primary_failure env ops path ?s")
  from assms have run: "(case r1 of Inl x \<Rightarrow> (Inl (exn_of x), s1) | Inr p \<Rightarrow> (case kx_started s1 of
       None \<Rightarrow> conclude_runtime env p None None
     | Some st \<Rightarrow>
        bnd (map_error exn_of (collect_candidate_logs env ops (ks_handle st))) (\<lambda>(interrupt, logs_failed).
        bnd (map_error exn_of (stop_candidate env ops (ks_handle st))) (\<lambda>cleanup_failed.
        conclude_runtime env (case interrupt of Some x \<Rightarrow> Some x | None \<Rightarrow> p) logs_failed cleanup_failed))) s1) = (r, t)"
    unfolding validate_runtime_def andthen_def bnd_def [of "modify f" for f] bnd_def [of "map_error exn_of (primary_failure env ops path)"]
      bnd_def [of "fetch kx_started"]
    using primary by (simp add: modify_def map_error_def fetch_def split: sum.splits)
  from primary show ?thesis
  proof (cases rule: primary_failure_cases)
    case died
    with run have "r = Inl killed" by (simp add: exn_of_def)
    then show ?thesis by (rule that(1))
  next
    case (refused x w p)
    then have none: "kx_started s1 = None" by (simp add: stays_def)
    with run refused(2) have last: "conclude_runtime env (Some p) None None s1 = (r, t)" by simp
    from conclude_stays [OF this] have "t = s1" .
    with refused last show ?thesis by (intro that(2)) simp_all
  next
    case (started st w p)
    let ?h = "ks_handle st" and ?tr = "K_returned KC_start # K_called KC_start # kx_trace s"
    from started(3) have some: "kx_started s1 = Some st" by (simp add: stays_def)
    obtain r2 s2 where logs: "collect_candidate_logs env ops ?h s1 = (r2, s2)" by (cases "collect_candidate_logs env ops ?h s1")
    have "range KC_event \<subseteq> check_calls ?h" "KC_logs ?h \<in> check_calls ?h" by (auto simp: check_calls_def)
    from keepsD [OF keeps_collect_logs [OF this] logs started(3)]
    have s2: "stays ?tr (check_calls ?h) (Some st) s2" by simp
    show ?thesis
    proof (cases r2)
      case (Inl x)
      from logs Inl have "x = Raised killed"
        unfolding collect_candidate_logs_def
        by (elim on_any_cases) (auto simp: ret_def split: exn.splits)
      with run started(2) some logs Inl have "r = Inl killed" by (simp add: bnd_def map_error_def exn_of_def)
      then show ?thesis by (rule that(1))
    next
      case (Inr il)
      obtain interrupt logs_failed where il: "il = (interrupt, logs_failed)" by (cases il)
      obtain r3 s3 where stop: "stop_candidate env ops ?h s2 = (r3, s3)" by (cases "stop_candidate env ops ?h s2")
      from run started(2) some logs Inr il stop have last:
        "(case r3 of Inl x \<Rightarrow> (Inl (exn_of x), s3) | Inr cleanup_failed \<Rightarrow>
           conclude_runtime env (case interrupt of Some x \<Rightarrow> Some x | None \<Rightarrow> p) logs_failed cleanup_failed s3) = (r, t)"
        by (simp add: bnd_def map_error_def split: sum.splits)
      from s2 have st2: "kx_started s2 = Some st" by (simp add: stays_def)
      from stop show ?thesis
      proof (cases rule: stop_candidate_cases)
        case died
        with last have "r = Inl killed" by (simp add: exn_of_def)
        then show ?thesis by (rule that(1))
      next
        case (stopped c v f)
        with last have fin: "conclude_runtime env (case interrupt of Some x \<Rightarrow> Some x | None \<Rightarrow> p) logs_failed f s3 = (r, t)" by simp
        from conclude_stays [OF this] have "t = s3" .
        with started(1) s2 stopped st2 fin show ?thesis by (intro that(3)) auto
      next
        case (failed x v f)
        with last have fin: "conclude_runtime env (case interrupt of Some x \<Rightarrow> Some x | None \<Rightarrow> p) logs_failed (Some f) s3 = (r, t)"
          by simp
        from conclude_stays [OF this] have "t = s3" .
        with started(1) s2 failed st2 fin show ?thesis by (intro that(3)) auto
      qed
    qed
  qed
qed


text \<open>
  C24. A candidate that was started is stopped: whatever the runner, the health checks and the
  operation store do, unless the process is killed, either the start raised and nothing but the
  record of it was called, or the candidate is inspected, checked and asked for its logs at most
  and then stopped, and nothing but records follows.
\<close>

theorem started_candidates_are_stopped:
  fixes s :: "'w candidate_context"
  shows "case validate_runtime env ops path s of (r, t) \<Rightarrow>
     r = Inl killed \<or>
     (\<exists>x. stays (K_raised KC_start x # K_called KC_start # kx_trace s) (range KC_event) None t) \<or>
     (\<exists>st (u :: 'w candidate_context) out.
        stays (K_returned KC_start # K_called KC_start # kx_trace s) (check_calls (ks_handle st)) (Some st) u \<and>
        out \<in> insert (K_returned (KC_stop (ks_handle st))) (range (K_raised (KC_stop (ks_handle st)))) \<and>
        stays (out # K_called (KC_stop (ks_handle st)) # kx_trace u) (range KC_event) (Some st) t)"
proof -
  obtain r t where run: "validate_runtime env ops path s = (r, t)" by (cases "validate_runtime env ops path s")
  have "r = Inl killed \<or>
     (\<exists>x. stays (K_raised KC_start x # K_called KC_start # kx_trace s) (range KC_event) None t) \<or>
     (\<exists>st (u :: 'w candidate_context) out.
        stays (K_returned KC_start # K_called KC_start # kx_trace s) (check_calls (ks_handle st)) (Some st) u \<and>
        out \<in> insert (K_returned (KC_stop (ks_handle st))) (range (K_raised (KC_stop (ks_handle st)))) \<and>
        stays (out # K_called (KC_stop (ks_handle st)) # kx_trace u) (range KC_event) (Some st) t)"
    using run
  proof (cases rule: validate_runtime_cases)
    case (stopped st w primary logs_failed cleanup_failed out u)
    from stopped(4) have "out \<in> insert (K_returned (KC_stop (ks_handle st))) (range (K_raised (KC_stop (ks_handle st))))" by blast
    with stopped(2,3) show ?thesis by blast
  qed blast+
  then show ?thesis by (simp only: run prod.case)
qed

text \<open>
  A failure without a recovery flag means that no candidate is left: the start had raised with
  its cleanup proven, or the stop returned or proved its cleanup; or else an expected error of the
  runner said so, or the record of the evidence was lost.
\<close>

theorem plain_candidate_failures_are_clean:
  assumes "validate_runtime env ops path s = (Inl (Dploy e), t)" and "\<not> err_recovery e"
  shows "evidence_lost (kx_trace t) \<or>
    (\<exists>x. K_raised KC_start x \<in> set (kx_trace t) \<and> settled_start x) \<or>
    (\<exists>st. kx_started t = Some st \<and> (K_returned (KC_stop (ks_handle st)) \<in> set (kx_trace t) \<or>
       (\<exists>x. K_raised (KC_stop (ks_handle st)) x \<in> set (kx_trace t) \<and> settled_stop x)))"
  using assms(1)
proof (cases rule: validate_runtime_cases)
  case died
  then show ?thesis by (simp add: killed_def)
next
  case (refused x w p)
  have "kx_started t = None" using refused(2) by (simp add: stays_def)
  with conclude_start [OF refused(4)] have "normalize_primary env False (Some p) = Some e" by simp
  from normalize_primary_plain [OF this assms(2)] have settled: "settled_start p" .
  from refused(2) have "K_raised KC_start x \<in> set (kx_trace t)" by (auto simp: stays_def)
  show ?thesis
  proof (cases "p = x")
    case True
    with settled \<open>K_raised KC_start x \<in> set (kx_trace t)\<close> show ?thesis by blast
  next
    case False
    with refused(3) obtain m y where "p = Raised y" "K_raised (KC_event m) (Raised y) \<in> set (kx_trace t)" by blast
    moreover from this(1) settled obtain e' where "y = Dploy e'" "\<not> err_recovery e'"
      by (cases y) (auto simp: settled_start_def)
    ultimately show ?thesis by (auto simp: evidence_lost_def)
  qed
next
  case (stopped st w primary logs_failed cleanup_failed out u)
  from stopped(3) have "kx_started t = Some st" "out \<in> set (kx_trace t)" by (auto simp: stays_def)
  with stopped(4) conclude_plain [OF stopped(5) assms(2)] show ?thesis by blast
qed

section \<open>A validation that returns\<close>

definition completed :: "candidate_call list \<Rightarrow> candidate_event list" where
  "completed cs = concat (map (\<lambda>c. [K_called c, K_returned c]) cs)"

lemma completed_simps [simp]:
  "completed [] = []" "completed (c # cs) = K_called c # K_returned c # completed cs"
  by (simp_all add: completed_def)

lemma ask_Inr: "ask wrap c m s = (Inr x, t) \<Longrightarrow> \<exists>w. m (kx_world s) = (Inr x, w) \<and>
    t = s\<lparr>kx_world := w, kx_trace := K_returned c # K_called c # kx_trace s\<rparr>"
  by (erule ask_cases) auto

lemma candidate_note_Inr:
  assumes "candidate_note env ops message evidence s = (Inr x, t)"
  shows "\<exists>w. t = s\<lparr>kx_world := w, kx_trace := K_returned (KC_event message) # K_called (KC_event message) # kx_trace s\<rparr>"
  using assms by (cases rule: candidate_note_cases) auto

lemma modify_Inr: "modify f s = (Inr x, t) \<longleftrightarrow> t = f s"
  by (auto simp: modify_def)

text \<open>The calls of a validation that returns, in their order.\<close>

definition validation_calls :: "candidate_handle \<Rightarrow> candidate_call list" where
  "validation_calls h =
     [KC_start, KC_event ''Candidate Compose startup completed.'',
      KC_inspect h, KC_event ''Candidate live isolation inspection passed.'',
      KC_check, KC_event ''Candidate HTTP readiness and optional smoke checks passed.'',
      KC_logs h, KC_event ''Bounded candidate application logs were collected.'',
      KC_stop h, KC_event ''Candidate container and isolated network cleanup was proven.'']"

lemma check_candidate_Inr:
  assumes "check_candidate env ops path st s = (Inr x, t)"
  shows "\<exists>i health w1 w2 v1 v2. ko_inspect ops (ks_handle st) w1 = (Inr i, v1) \<and>
    ko_check ops (ke_version env) path w2 = (Inr health, v2) \<and> kx_health t = Some health \<and> kx_inspection t = Some i \<and>
    kx_started t = kx_started s \<and>
    rev (kx_trace t) = rev (kx_trace s) @ completed
     [KC_inspect (ks_handle st), KC_event ''Candidate live isolation inspection passed.'',
      KC_check, KC_event ''Candidate HTTP readiness and optional smoke checks passed.'']"
  using assms unfolding check_candidate_def
proof (elim bnd_InrE andthen_InrE)
  fix i u1 y u2 z u3 health u4 y' u5
  assume run: "ask id (KC_inspect (ks_handle st)) (ko_inspect ops (ks_handle st)) s = (Inr i, u1)"
    "modify (kx_inspection_update (\<lambda>_. Some i)) u1 = (Inr y, u2)"
    "candidate_note env ops ''Candidate live isolation inspection passed.''
       [(''candidate_inspection'', candidate_inspection_json i)] u2 = (Inr z, u3)"
    "ask id KC_check (ko_check ops (ke_version env) path) u3 = (Inr health, u4)"
    "modify (kx_health_update (\<lambda>_. Some health)) u4 = (Inr y', u5)"
    "candidate_note env ops ''Candidate HTTP readiness and optional smoke checks passed.''
       [(''candidate_health'', health_as_evidence health)] u5 = (Inr x, t)"
  from ask_Inr [OF run(1)] obtain w1 where 1: "ko_inspect ops (ks_handle st) (kx_world s) = (Inr i, w1)"
    "u1 = s\<lparr>kx_world := w1, kx_trace := K_returned (KC_inspect (ks_handle st)) # K_called (KC_inspect (ks_handle st)) # kx_trace s\<rparr>"
    by blast
  from ask_Inr [OF run(4)] obtain w2 where 2: "ko_check ops (ke_version env) path (kx_world u3) = (Inr health, w2)"
    "u4 = u3\<lparr>kx_world := w2, kx_trace := K_returned KC_check # K_called KC_check # kx_trace u3\<rparr>"
    by blast
  from candidate_note_Inr [OF run(3)] candidate_note_Inr [OF run(6)] run(2,5) 1 2 show ?thesis
    by (fastforce simp: modify_Inr)
qed


lemma start_candidate_Inr:
  assumes "start_candidate env ops path s = (Inr st, t)"
  shows "kx_started t = Some st \<and>
    (\<exists>w. ko_start ops (ke_operation_id env) (ke_version env) path (kx_world s) = (Inr st, w)) \<and>
    rev (kx_trace t) = rev (kx_trace s) @ completed [KC_start, KC_event ''Candidate Compose startup completed.'']"
  using assms
proof (cases rule: start_candidate_cases)
  case (started st' w u r')
  from started(4) have st: "st' = st" and ok: "r' = Inr ()" by (simp_all split: sum.splits)
  from candidate_note_Inr [OF started(3) [unfolded ok]] started(2)
  have "kx_started t = Some st'" "rev (kx_trace t) = rev (kx_trace s) @
      completed [KC_start, KC_event ''Candidate Compose startup completed.'']"
    by (auto simp del: append_assoc)
  with started(1) st show ?thesis by blast
qed simp

lemma note_cleanup_Inr:
  assumes "note_cleanup env ops message c s = (Inr x, t)"
  shows "\<exists>w. t = s\<lparr>kx_cleanup := Some c, kx_world := w,
    kx_trace := K_returned (KC_event message) # K_called (KC_event message) # kx_trace s\<rparr>"
proof -
  from assms have "candidate_note env ops message [(''candidate_cleanup'', candidate_cleanup_json c)]
      (s\<lparr>kx_cleanup := Some c\<rparr>) = (Inr x, t)"
    by (simp add: note_cleanup_def andthen_def bnd_def modify_def)
  from candidate_note_Inr [OF this] show ?thesis by auto
qed

lemma primary_failure_None:
  assumes "primary_failure env ops path s = (Inr None, t)"
  shows "\<exists>st u. start_candidate env ops path s = (Inr st, u) \<and> check_candidate env ops path st u = (Inr (), t)"
  using assms unfolding primary_failure_def
proof (cases rule: on_any_cases)
  case (fine p)
  then show ?thesis by (auto simp: run_checks_def ret_def elim!: andthen_InrE bnd_InrE)
next
  case (handled x u)
  from handled(3) show ?thesis
    by (cases rule: on_any_cases) (auto simp: ret_def elim!: andthen_InrE)
qed simp

lemma collect_logs_None:
  assumes "collect_candidate_logs env ops h s = (Inr (None, None), t)"
  shows "\<exists>logs w. ko_collect_logs ops h (kx_world s) = (Inr logs, w) \<and> command_succeeded (kl_command logs) \<and>
    rev (kx_trace t) = rev (kx_trace s) @ completed [KC_logs h, KC_event ''Bounded candidate application logs were collected.''] \<and>
    (kx_started t, kx_inspection t, kx_health t, kx_logs t) = (kx_started s, kx_inspection s, kx_health s, Some logs)"
  using assms unfolding collect_candidate_logs_def
proof (cases rule: on_any_cases)
  case (fine p)
  from fine(1) show ?thesis
  proof (elim bnd_InrE andthen_InrE)
    fix logs u1 y u2 z u3
    assume run: "ask id (KC_logs h) (ko_collect_logs ops h) s = (Inr logs, u1)"
      "modify (kx_logs_update (\<lambda>_. Some logs)) u1 = (Inr y, u2)"
      "candidate_note env ops ''Bounded candidate application logs were collected.''
         [(''candidate_logs'', command_as_evidence (kl_command logs))] u2 = (Inr z, u3)"
      "ret (None, logs_failure env (kl_command logs)) u3 = (Inr p, t)"
    from fine(2) run(4) have "logs_failure env (kl_command logs) = None" "t = u3" by (auto simp: ret_def)
    then have good: "command_succeeded (kl_command logs)"
      by (auto simp: logs_failure_def command_succeeded_def split: if_splits)
    from ask_Inr [OF run(1)] obtain w where "ko_collect_logs ops h (kx_world s) = (Inr logs, w)"
      "u1 = s\<lparr>kx_world := w, kx_trace := K_returned (KC_logs h) # K_called (KC_logs h) # kx_trace s\<rparr>" by blast
    with good candidate_note_Inr [OF run(3)] run(2) \<open>t = u3\<close> show ?thesis by (auto simp: modify_Inr)
  qed
next
  case (handled x u)
  from handled(3) show ?thesis by (auto simp: ret_def split: exn.splits)
qed simp

lemma stop_candidate_None:
  assumes "stop_candidate env ops h s = (Inr None, t)"
  shows "\<exists>c w. ko_stop ops h (kx_world s) = (Inr c, w) \<and> rev (kx_trace t) = rev (kx_trace s) @ completed
      [KC_stop h, KC_event ''Candidate container and isolated network cleanup was proven.''] \<and>
    (kx_started t, kx_inspection t, kx_health t, kx_logs t, kx_cleanup t) =
      (kx_started s, kx_inspection s, kx_health s, kx_logs s, Some c)"
  using assms unfolding stop_candidate_def
proof (cases rule: on_any_cases)
  case (fine p)
  from fine(1) show ?thesis
  proof (elim bnd_InrE andthen_InrE)
    fix c u1 z u3
    assume run: "ask id (KC_stop h) (ko_stop ops h) s = (Inr c, u1)"
      "note_cleanup env ops ''Candidate container and isolated network cleanup was proven.'' c u1 = (Inr z, u3)"
      "ret None u3 = (Inr p, t)"
    from ask_Inr [OF run(1)] note_cleanup_Inr [OF run(2)] run(3) show ?thesis by (auto simp: ret_def)
  qed
next
  case (handled x u)
  from failed_stop_result [OF handled(3)] show ?thesis by auto
qed simp

lemma conclude_Inr:
  assumes "conclude_runtime env primary logs_failed cleanup_failed s = (Inr r, t)"
  shows "primary = None \<and> logs_failed = None \<and> cleanup_failed = None \<and> t = s \<and> runtime_result_of s = Some r"
proof -
  have es: "List.map_filter id [normalize_primary env (kx_started s \<noteq> None) primary, logs_failed, cleanup_failed] = []"
    using assms by (auto simp: conclude_runtime_def bnd_def fetch_def raise_def split: list.splits)
  then have "logs_failed = None" "cleanup_failed = None"
    by (auto simp: map_filter_def split: if_splits)
  moreover from assms es have "primary = None" "runtime_result_of s = Some r" "t = s"
    by (auto simp: conclude_runtime_def bnd_def fetch_def raise_def ret_def split: option.splits)
  ultimately show ?thesis by blast
qed

lemma validate_runtime_returns:
  assumes "validate_runtime env ops path s = (Inr r, t)"
  shows "\<exists>st. kx_started t = Some st \<and>
    rev (kx_trace t) = rev (kx_trace s) @ completed (validation_calls (ks_handle st)) \<and>
    (\<exists>w v. ko_start ops (ke_operation_id env) (ke_version env) path w = (Inr st, v)) \<and>
    (\<exists>i w v. ko_inspect ops (ks_handle st) w = (Inr i, v)) \<and>
    (\<exists>w v. ko_check ops (ke_version env) path w = (Inr (rn_health r), v)) \<and>
    (\<exists>w v. ko_collect_logs ops (ks_handle st) w = (Inr (rn_logs r), v)) \<and> command_succeeded (kl_command (rn_logs r)) \<and>
    (\<exists>w v. ko_stop ops (ks_handle st) w = (Inr (rn_cleanup r), v))"
  using assms unfolding validate_runtime_def
proof (elim andthen_InrE bnd_InrE)
  fix x s0 primary s1 started s2
  assume run: "modify (\<lambda>s. s\<lparr>kx_started := None, kx_inspection := None, kx_health := None, kx_logs := None,
       kx_cleanup := None\<rparr>) s = (Inr x, s0)"
    "map_error exn_of (primary_failure env ops path) s0 = (Inr primary, s1)" "fetch kx_started s1 = (Inr started, s2)"
    "(case started of
       None \<Rightarrow> conclude_runtime env primary None None
     | Some st \<Rightarrow>
        bnd (map_error exn_of (collect_candidate_logs env ops (ks_handle st))) (\<lambda>(interrupt, logs_failed).
        bnd (map_error exn_of (stop_candidate env ops (ks_handle st))) (\<lambda>cleanup_failed.
        conclude_runtime env (case interrupt of Some x \<Rightarrow> Some x | None \<Rightarrow> primary) logs_failed cleanup_failed))) s2 = (Inr r, t)"
  from run(3) have s2: "s2 = s1" "started = kx_started s1" by (auto simp: fetch_def)
  show ?thesis
  proof (cases started)
    case None
    with run(4) have last: "conclude_runtime env primary None None s2 = (Inr r, t)" by simp
    from conclude_Inr [OF this] s2 None show ?thesis by (simp add: runtime_result_of_def)
  next
    case (Some st)
    with run(4) obtain interrupt logs_failed s3 cleanup_failed s4 where phases:
      "collect_candidate_logs env ops (ks_handle st) s1 = (Inr (interrupt, logs_failed), s3)"
      "stop_candidate env ops (ks_handle st) s3 = (Inr cleanup_failed, s4)"
      "conclude_runtime env (case interrupt of Some x \<Rightarrow> Some x | None \<Rightarrow> primary) logs_failed cleanup_failed s4 = (Inr r, t)"
      unfolding s2(1) by (auto simp: map_error_Inr elim!: bnd_InrE)
    from conclude_Inr [OF phases(3)] have none: "interrupt = None" "primary = None" "logs_failed = None" "cleanup_failed = None"
      and fin: "t = s4" "runtime_result_of s4 = Some r"
      by (auto split: option.splits)
    from run(2) none have "primary_failure env ops path s0 = (Inr None, s1)" by (simp add: map_error_Inr)
    from primary_failure_None [OF this] obtain st' u where checks: "start_candidate env ops path s0 = (Inr st', u)"
      "check_candidate env ops path st' u = (Inr (), s1)" by blast
    note start = start_candidate_Inr [OF checks(1)] and check = check_candidate_Inr [OF checks(2)]
    from start check s2(2) Some have [simp]: "st' = st" by auto
    from collect_logs_None [OF phases(1) [unfolded none]] obtain logs w where logs:
      "ko_collect_logs ops (ks_handle st) (kx_world s1) = (Inr logs, w)" "command_succeeded (kl_command logs)"
      "rev (kx_trace s3) = rev (kx_trace s1) @ completed [KC_logs (ks_handle st),
         KC_event ''Bounded candidate application logs were collected.'']"
      "(kx_started s3, kx_inspection s3, kx_health s3, kx_logs s3) = (kx_started s1, kx_inspection s1, kx_health s1, Some logs)"
      by blast
    from stop_candidate_None [OF phases(2) [unfolded none]] obtain c w' where stop:
      "ko_stop ops (ks_handle st) (kx_world s3) = (Inr c, w')"
      "rev (kx_trace s4) = rev (kx_trace s3) @ completed [KC_stop (ks_handle st),
         KC_event ''Candidate container and isolated network cleanup was proven.'']"
      "(kx_started s4, kx_inspection s4, kx_health s4, kx_logs s4, kx_cleanup s4) =
         (kx_started s3, kx_inspection s3, kx_health s3, kx_logs s3, Some c)" by blast
    from run(1) have s0: "kx_trace s0 = kx_trace s" by (auto simp: modify_Inr)
    from check obtain i health where check':
      "\<exists>w v. ko_inspect ops (ks_handle st) w = (Inr i, v)" "\<exists>w v. ko_check ops (ke_version env) path w = (Inr health, v)"
      "kx_health s1 = Some health" "kx_inspection s1 = Some i" "kx_started s1 = Some st"
      "rev (kx_trace s1) = rev (kx_trace u) @ completed
        [KC_inspect (ks_handle st), KC_event ''Candidate live isolation inspection passed.'',
         KC_check, KC_event ''Candidate HTTP readiness and optional smoke checks passed.'']"
      using start by auto
    with fin(2) stop(3) logs(4) have r: "r = \<lparr>rn_health = health, rn_logs = logs, rn_cleanup = c\<rparr>"
      by (simp add: runtime_result_of_def)
    have "rev (kx_trace t) = rev (kx_trace s) @ completed (validation_calls (ks_handle st))"
      using start check'(6) unfolding fin(1) stop(2) logs(3) by (simp add: s0 validation_calls_def)
    moreover have "kx_started t = Some st" using check'(5) fin(1) stop(3) logs(4) by simp
    ultimately show ?thesis
      using start check'(1,2) logs(1,2) stop(1) unfolding r by auto
  qed
qed

section \<open>Lost evidence\<close>

text \<open>A start that fails, when the record of the failure works and when it does not.\<close>

lemma refused_start:
  assumes start: "ko_start ops (ke_operation_id env) (ke_version env) path (kx_world s) = (Inl x, w)" and "x \<noteq> Raised killed"
    and event: "ko_append_event ops (ke_operation_id env) ''Candidate startup, inspection, or health checks were rejected.''
      [(''candidate_failure'', primary_evidence x)] w = (r, w')" and "r \<noteq> Inl killed"
    and normalized: "normalize_primary env False (Some (case r of Inl y \<Rightarrow> Raised y | Inr _ \<Rightarrow> x)) = Some e"
  shows "\<exists>t. validate_runtime env ops path s = (Inl (Dploy e), t)"
proof -
  let ?s = "s\<lparr>kx_started := None, kx_inspection := None, kx_health := None, kx_logs := None, kx_cleanup := None\<rparr>"
  let ?u = "?s\<lparr>kx_world := w, kx_trace := K_raised KC_start x # K_called KC_start # kx_trace s\<rparr>"
  let ?note = "candidate_note env ops ''Candidate startup, inspection, or health checks were rejected.''
    [(''candidate_failure'', primary_evidence x)]"
  let ?p = "case r of Inl y \<Rightarrow> Raised y | Inr _ \<Rightarrow> x"
  have "run_checks env ops path ?s = (Inl x, ?u)"
    using start by (simp add: run_checks_def start_candidate_def bnd_def ask_def)
  then have checks: "andthen (run_checks env ops path) (ret None) ?s = (Inl x, ?u)"
    by (simp add: andthen_def bnd_def)
  obtain v where noting: "?note ?u = ((case r of Inl y \<Rightarrow> Inl (Raised y) | Inr _ \<Rightarrow> Inr ()), v)" "kx_started v = None"
    using event by (cases r) (simp_all add: candidate_note_def map_error_def andthen_def bnd_def ask_def ret_def)
  have handler: "on_any (andthen ?note (ret (Some x))) (\<lambda>y. ret (Some y)) ?u = (Inr (Some ?p), v)"
  proof (cases r)
    case (Inl y)
    then have "andthen ?note (ret (Some x)) ?u = (Inl (Raised y), v)"
      using noting(1) by (simp add: andthen_def bnd_def)
    then show ?thesis using assms(4) Inl by (intro on_any_handled) (simp_all add: ret_def)
  next
    case (Inr y)
    then have "andthen ?note (ret (Some x)) ?u = (Inr (Some x), v)"
      using noting(1) by (simp add: andthen_def bnd_def ret_def)
    then show ?thesis using Inr by (simp add: on_any_def catching_def)
  qed
  have "primary_failure env ops path ?s = (Inr (Some ?p), v)"
    unfolding primary_failure_def by (rule on_any_handled) (rule checks, rule assms(2), rule handler)
  then show ?thesis
    using noting(2) normalized
    by (simp add: validate_runtime_def andthen_def bnd_def modify_def map_error_def fetch_def conclude_runtime_def
        map_filter_def raise_def)
qed


section \<open>An example\<close>

definition example_candidate_env :: candidate_env where
  "example_candidate_env = \<lparr>ke_version = ''v2'', ke_operation_id = final_operation_id, ke_log = ''/srv/log'',
     ke_redact = id, ke_utc = (\<lambda>_. ''now'')\<rparr>"

definition example_candidate :: candidate_handle where
  "example_candidate = \<lparr>kh_operation_id = final_operation_id, kh_version = ''v2'', kh_compose_project = ''shop'',
     kh_container_name = ''shop'', kh_rehearsal_database_path = ''/srv/db'', kh_candidate_database_path = ''/data/db''\<rparr>"

definition example_candidate_cleanup :: "bool \<Rightarrow> candidate_cleanup" where
  "example_candidate_cleanup proven = \<lparr>kc_presence_query = example_command, kc_remove_command = None,
     kc_compose_down = example_command, kc_proof = \<lparr>cp_container_absent = proven, cp_networks_absent = proven,
       cp_container_query = example_command, cp_network_query = example_command\<rparr>\<rparr>"

definition example_candidate_health :: health_result where
  "example_candidate_health = \<lparr>hl_readiness = \<lparr>rd_url = ''http://127.0.0.1:8000/health'', rd_healthy = True,
     rd_attempt_count = 1, rd_last_attempt = None, rd_duration = 1, rd_reason = ''ready''\<rparr>,
     hl_smoke = None\<rparr>"

text \<open>Operations that succeed and leave their world alone.\<close>

definition example_candidate_ops :: "'w candidate_ops" where
  "example_candidate_ops = \<lparr>
     ko_start = (\<lambda>_ _ _. ret \<lparr>ks_handle = example_candidate, ks_container_reference = ''c'', ks_command = example_command\<rparr>),
     ko_inspect = (\<lambda>_. ret \<lparr>ki_container_id = ''c'', ki_container_name = ''shop'', ki_running = True,
        ki_compose_project = ''shop'', ki_compose_service = ''web'', ki_operation_id = final_operation_id,
        ki_host_ip = ''127.0.0.1'', ki_host_port = 8000, ki_container_port = 8000, ki_mounts = [],
        ki_command = example_command\<rparr>),
     ko_check = (\<lambda>_ _. ret example_candidate_health),
     ko_collect_logs = (\<lambda>h. ret \<lparr>kl_handle = h, kl_command = example_command\<rparr>),
     ko_stop = (\<lambda>_. ret (example_candidate_cleanup True)),
     ko_append_event = (\<lambda>_ _ _. ret example_event),
     ko_transition = (\<lambda>_ _ _ _ _ _ _. ret example_operation),
     ko_read_manifest = (\<lambda>i. ret (example_operation\<lparr>om_operation_id := i, om_operation_type := ''candidate_validation''\<rparr>)),
     ko_observe = None, ko_close_health = None\<rparr>"

definition example_candidate_context :: "'w \<Rightarrow> 'w candidate_context" where
  "example_candidate_context w = \<lparr>kx_started = None, kx_inspection = None, kx_health = None, kx_logs = None,
     kx_cleanup = None, kx_owned_health = False, kx_trace = [], kx_world = w\<rparr>"

text \<open>A start that fails with its cleanup proven or not, and a store that works or not.\<close>

definition failed_start :: "bool \<Rightarrow> runtime_exn" where
  "failed_start proven = Runner_failed Candidate_start ''no start'' None (Some (example_candidate_cleanup proven))"

definition failing_start_ops :: "bool \<Rightarrow> operation_event result \<Rightarrow> unit candidate_ops" where
  "failing_start_ops proven event = example_candidate_ops\<lparr>
     ko_start := (\<lambda>_ _ _. raise (failed_start proven)), ko_append_event := (\<lambda>_ _ _. lift_result event)\<rparr>"

lemma failing_start:
  "fst (ko_start (failing_start_ops proven event) i v p w) = Inl (failed_start proven)"
  "fst (ko_append_event (failing_start_ops proven event) i m e w) = event"
  by (simp_all add: failing_start_ops_def raise_def lift_result_def)


theorem plain_candidate_failures_are_clean_witness:
  "\<exists>e t. validate_runtime example_candidate_env (failing_start_ops True (Inr example_event)) ''/db''
       (example_candidate_context ()) = (Inl (Dploy e), t) \<and>
    (evidence_lost (kx_trace t) \<or> (\<exists>x. K_raised KC_start x \<in> set (kx_trace t) \<and> settled_start x) \<or>
    (\<exists>st. kx_started t = Some st \<and> (K_returned (KC_stop (ks_handle st)) \<in> set (kx_trace t) \<or>
       (\<exists>x. K_raised (KC_stop (ks_handle st)) x \<in> set (kx_trace t) \<and> settled_stop x))))"
proof -
  let ?ops = "failing_start_ops True (Inr example_event)"
  have start: "ko_start ?ops i v p w = (Inl (failed_start True), w)" for i v p w
    by (simp add: failing_start_ops_def raise_def)
  have event: "ko_append_event ?ops i m ev w = (Inr example_event, w)" for i m ev w
    by (simp add: failing_start_ops_def lift_result_def)
  obtain e where e: "normalize_primary example_candidate_env False (Some (failed_start True)) = Some e" "\<not> err_recovery e"
    by (simp add: normalize_primary_def failed_start_def candidate_error_def runner_cleanup_proven_def
        example_candidate_cleanup_def cleanup_proven_def)
  have "failed_start True \<noteq> Raised killed" by (simp add: failed_start_def)
  from refused_start [OF start this event, where e = e and env = example_candidate_env] e(1) obtain t where
    run: "validate_runtime example_candidate_env ?ops ''/db'' (example_candidate_context ()) = (Inl (Dploy e), t)"
    by (auto simp: killed_def)
  from plain_candidate_failures_are_clean [OF run e(2)] run show ?thesis by blast
qed

end
