(* ===== verification/Candidate_Stage.thy ===== *)
theory Candidate_Stage
  imports Candidate_Runs
begin

text \<open>
  The candidate stage of \<^verbatim>\<open>dploydb/candidate.py\<close>, from the preflight check of the production
  database to the record of the healthy candidate, and the two commands that run a rehearsal under
  an operation of their own: \<^verbatim>\<open>validate_configured_candidate\<close> and, in \<^verbatim>\<open>dploydb/migration.py\<close>,
  \<^verbatim>\<open>rehearse_configured_migration\<close>.
\<close>

section \<open>The stage's configuration\<close>

text \<open>
  What the stage reads of the configuration, of the state store and of the lock it is given, with
  the identifiers of the snapshot it makes.
\<close>

record 'x stage_env =
  sg_rehearsal :: "'x rehearsal_env"
  sg_candidate :: candidate_env
  sg_project :: string
  sg_fingerprint :: string
  sg_state_directory :: string
  sg_store_root :: string
  sg_lock_directory :: string
  sg_lock_acquired :: bool
  sg_lock_owner :: "lock_owner_metadata option"
  sg_owner_path :: string
  sg_backup_id :: string
  sg_staging_uuid :: string
  sg_metadata_uuid :: string

type_synonym ('x, 'a) stage_act = "('x rehearsal_world osys, 'a) candidate_act"

definition in_candidate_world :: "('w, 'a) world_act \<Rightarrow> ('w, 'a) candidate_act" where
  "in_candidate_world m s = (case m (kx_world s) of (r, w) \<Rightarrow> (r, s\<lparr>kx_world := w\<rparr>))"

definition in_backups :: "'a backup_act \<Rightarrow> ('x, 'a) rehearsal_act" where
  "in_backups = in_slot rw_backups (\<lambda>b w. w\<lparr>rw_backups := b\<rparr>)"

abbreviation sg_operation_id :: "'x stage_env \<Rightarrow> string" where
  "sg_operation_id sg \<equiv> ke_operation_id (sg_candidate sg)"

abbreviation sg_backup_env :: "'x stage_env \<Rightarrow> backup_env" where
  "sg_backup_env sg \<equiv> re_backup (sg_rehearsal sg)"

definition owner_missing :: "'x stage_env \<Rightarrow> exn" where
  "owner_missing sg = Dploy (mk_error SafetyCheckError
     ''candidate stage requires the matching durable deployment lock owner'' False None (Some (sg_owner_path sg))
     ''Acquire and record the caller-owned operation before retrying.'')"

definition operation_not_fresh :: "'x stage_env \<Rightarrow> exn" where
  "operation_not_fresh sg = Dploy (mk_error SafetyCheckError
     ''candidate stage operation does not match a fresh configured deployment'' False None
     (Some (ke_log (sg_candidate sg)))
     ''Preserve the operation evidence and start a fresh deployment.'')"

definition fresh_operation :: "'x stage_env \<Rightarrow> operation_manifest \<Rightarrow> bool" where
  "fresh_operation sg m \<longleftrightarrow> om_status m = OS_in_progress \<and> om_stage m = ''created'' \<and>
     om_operation_type m \<in> {''candidate_validation'', ''deploy''} \<and> om_project m = sg_project sg \<and>
     om_configuration_fingerprint m = sg_fingerprint sg"

definition require_stage_owner ::
  "'x stage_env \<Rightarrow> ('x rehearsal_world osys) candidate_ops \<Rightarrow> ('x, unit) stage_act" where
  "require_stage_owner sg ops =
    (if sg_store_root sg \<noteq> sg_state_directory sg \<or> sg_lock_directory sg \<noteq> sg_state_directory sg
     then raise (value_error ''candidate stage state and lock must use the configured state directory'')
     else if \<not> sg_lock_acquired sg \<or> map_option lo_operation_id (sg_lock_owner sg) \<noteq> Some (sg_operation_id sg)
     then raise (owner_missing sg)
     else bnd (in_candidate_world (ko_read_manifest ops (sg_operation_id sg))) (\<lambda>m.
       if fresh_operation sg m then ret () else raise (operation_not_fresh sg)))"

section \<open>The steps\<close>

definition notify_stage :: "'w candidate_ops \<Rightarrow> deployment_state \<Rightarrow> evidence \<Rightarrow> ('w, unit) candidate_act" where
  "notify_stage ops st evidence =
    (case ko_observe ops of None \<Rightarrow> ret () | Some f \<Rightarrow> ask Raised (KC_observe st) (f st evidence))"

definition record_stage ::
  "candidate_env \<Rightarrow> 'w candidate_ops \<Rightarrow> operation_status \<Rightarrow> deployment_state \<Rightarrow> string \<Rightarrow> evidence \<Rightarrow>
   safety_facts option \<Rightarrow> ('w, unit) candidate_act"
where
  "record_stage env ops status st message evidence safety = (let stage = deployment_state_value st in
     andthen (ask Raised (KC_stage status stage)
       (ko_transition ops (ke_operation_id env) status stage message evidence safety None))
     (notify_stage ops st evidence))"

definition sqlite_fields :: "(int \<Rightarrow> string) \<Rightarrow> sqlite_verification \<Rightarrow> evidence" where
  "sqlite_fields utc v = (case sqlite_json utc v of JObj fs \<Rightarrow> fs | _ \<Rightarrow> [])"

definition snapshot_evidence :: "backup_artifact \<Rightarrow> evidence" where
  "snapshot_evidence a =
     [(''backup_id'', JStr (bm_backup_id (ba_metadata a))), (''backup_path'', JStr (snapshot_path a)),
      (''sha256'', JStr (bm_sha256 (ba_metadata a))), (''size_bytes'', JInt (bm_size_bytes (ba_metadata a)))]"

text \<open>\<^verbatim>\<open>create_verified_backup\<close> with its default timeout\<close>

definition rehearsal_snapshot :: "'x stage_env \<Rightarrow> ('x, backup_artifact) rehearsal_act" where
  "rehearsal_snapshot sg = in_backups (create_verified_backup (sg_backup_env sg) BP_rehearsal (Some (sg_operation_id sg))
     (sg_backup_id sg) (sg_staging_uuid sg) (sg_metadata_uuid sg) 120)"

definition preflight_check :: "'x stage_env \<Rightarrow> ('x, sqlite_verification) rehearsal_act" where
  "preflight_check sg =
     in_backups (check_sqlite (sg_backup_env sg) (be_database_path (sg_backup_env sg)) 10 At_target)"

definition note_migration ::
  "string \<Rightarrow> (string \<Rightarrow> string \<Rightarrow> evidence \<Rightarrow> ('w, operation_event) world_act) \<Rightarrow> string \<Rightarrow> command_result \<Rightarrow> ('w, unit) world_act" where
  "note_migration i event message e =
     andthen (event i message [(''migration_command'', command_as_evidence e)]) (ret ())"

text \<open>
  A health checker of the stage's own is closed after the runtime checks, or at the end when they
  were not completed.
\<close>

definition own_health :: "'w candidate_ops \<Rightarrow> ('w, unit) candidate_act" where
  "own_health ops = modify (\<lambda>s. s\<lparr>kx_owned_health := (ko_close_health ops \<noteq> None)\<rparr>)"

definition close_health :: "'w candidate_ops \<Rightarrow> ('w, unit) candidate_act" where
  "close_health ops =
     bnd (fetch kx_owned_health) (\<lambda>owned. case ko_close_health ops of
       Some close \<Rightarrow> when_act owned
         (andthen (ask Raised KC_close close) (modify (\<lambda>s. s\<lparr>kx_owned_health := False\<rparr>)))
     | None \<Rightarrow> ret ())"

definition rehearsed_checks ::
  "'x stage_env \<Rightarrow> ('x rehearsal_world osys) candidate_ops \<Rightarrow> active_rehearsal \<Rightarrow>
   ('x, active_rehearsal \<times> runtime_result) stage_act"
where
  "rehearsed_checks sg ops active = (let env = sg_candidate sg in
     andthen (record_stage env ops OS_in_progress DS_rehearsal_passed
       ''Migration rehearsal passed; candidate validation may begin.''
       (rehearsal_summary (ke_utc env) (ar_result active)) None)
    (bnd (validate_runtime env ops (ar_database_path active)) (\<lambda>runtime.
     andthen (close_health ops) (ret (active, runtime)))))"

definition rehearse_candidate ::
  "'x stage_env \<Rightarrow> ('x rehearsal_world osys) candidate_ops \<Rightarrow> backup_artifact \<Rightarrow>
   ('x, active_rehearsal \<times> runtime_result) stage_act"
where
  "rehearse_candidate sg ops snapshot = (let r = sg_rehearsal sg; i = sg_operation_id sg in
     with_rehearsal (re_log r)
       (in_candidate_world (andthen (verify_snapshot r snapshot) (create_workspace r i)))
       (\<lambda>sp. in_candidate_world (prepare_rehearsal r snapshot i (note_migration i (ko_append_event ops)
          ''Candidate migration command reached a terminal outcome.'') sp))
       (\<lambda>sp. in_candidate_world (cleanup_workspace r sp))
       (rehearsed_checks sg ops))"

record candidate_result =
  cv_operation_id :: string
  cv_version :: string
  cv_rehearsal :: rehearsal_result
  cv_health :: health_result
  cv_logs :: candidate_logs
  cv_cleanup :: candidate_cleanup
  cv_completed_at :: int

definition candidate_evidence :: "candidate_env \<Rightarrow> candidate_result \<Rightarrow> evidence" where
  "candidate_evidence env v = rehearsal_summary (ke_utc env) (cv_rehearsal v) @
     [(''requested_version'', JStr (cv_version v)),
      (''readiness_attempts'', JInt (rd_attempt_count (hl_readiness (cv_health v)))),
      (''smoke_outcome'', optional (\<lambda>c. JStr (outcome_value (cr_outcome c))) (hl_smoke (cv_health v))),
      (''candidate_cleanup_proven'', JBool (cleanup_proven (kc_proof (cv_cleanup v)))),
      (''rehearsal_workspace_cleaned'', JBool True)]"

definition candidate_steps ::
  "'x stage_env \<Rightarrow> ('x rehearsal_world osys) candidate_ops \<Rightarrow> bool \<Rightarrow> ('x, candidate_result) stage_act" where
  "candidate_steps sg ops terminal = (let env = sg_candidate sg in
     bnd (in_candidate_world (preflight_check sg)) (\<lambda>preflight.
     andthen (record_stage env ops OS_in_progress DS_preflight_passed
       ''Production SQLite preflight passed without mutation.'' (sqlite_fields (ke_utc env) preflight) None)
    (bnd (in_candidate_world (rehearsal_snapshot sg)) (\<lambda>snapshot.
     andthen (record_stage env ops OS_in_progress DS_snapshot_verified
       ''Verified candidate rehearsal snapshot completed.'' (snapshot_evidence snapshot) None)
    (andthen (own_health ops)
    (bnd (rehearse_candidate sg ops snapshot) (\<lambda>(active, runtime).
     bnd (fetch (\<lambda>s. be_now (sg_backup_env sg) (os_calls (kx_world s)))) (\<lambda>now.
     let result = \<lparr>cv_operation_id = ke_operation_id env, cv_version = ke_version env,
           cv_rehearsal = ar_result active, cv_health = rn_health runtime, cv_logs = rn_logs runtime,
           cv_cleanup = rn_cleanup runtime, cv_completed_at = now\<rparr>
     in andthen (record_stage env ops (if terminal then OS_succeeded else OS_in_progress) DS_candidate_healthy
          ''Candidate checks and candidate/rehearsal cleanup completed successfully.''
          (candidate_evidence env result) (Some (facts False None False)))
        (ret result)))))))))"

definition workspace_recovery :: "candidate_env \<Rightarrow> dploydb_error \<Rightarrow> exn" where
  "workspace_recovery env e = Dploy (candidate_error env RecoveryRequiredError (err_what e)
     (''Production was not changed. Preserve the operation evidence and remove only '' @
      ''the recorded private rehearsal workspace before recovery.''))"

definition safe_candidate_failure :: "candidate_env \<Rightarrow> exn \<Rightarrow> dploydb_error" where
  "safe_candidate_failure env x = candidate_error env OperationFailedError
     (''candidate validation failed safely: '' @ ke_redact env (describe_exn x))
     (''Production was not changed; inspect the candidate event log, correct the '' @
      ''failure, and retry.'')"

definition run_candidate_stage ::
  "'x stage_env \<Rightarrow> ('x rehearsal_world osys) candidate_ops \<Rightarrow> bool \<Rightarrow> ('x, candidate_result) stage_act" where
  "run_candidate_stage sg ops terminal = (let env = sg_candidate sg in
     bnd (lift_result (validated_release_identifier (ke_version env))) (\<lambda>_.
     andthen (require_stage_owner sg ops)
    (andthen (modify (\<lambda>s. s\<lparr>kx_owned_health := False\<rparr>))
    (closing
      (catching (candidate_steps sg ops terminal) (\<lambda>x. case x of
         Dploy e \<Rightarrow> if de_class e = MigrationWorkspaceCleanupError then raise (workspace_recovery env e) else raise x
       | PyInterrupt _ \<Rightarrow> raise x
       | _ \<Rightarrow> raise (Dploy (safe_candidate_failure env x))))
      (close_health ops)))))"

section \<open>The commands\<close>

definition finish_safely ::
  "'w candidate_ops \<Rightarrow> string \<Rightarrow> string \<Rightarrow> dploydb_error \<Rightarrow> ('w, unit) world_act" where
  "finish_safely ops i message e =
    (let st = (if err_recovery e then OS_recovery_required else OS_failed_safe) in
     bnd (lift_result (failure_record_of e)) (\<lambda>failure.
     andthen (ko_transition ops i st (operation_status_value st) message []
       (Some (facts (err_changed e) (err_running e) (err_recovery e))) (Some failure)) (ret ())))"

definition fresh_candidate :: "'w \<Rightarrow> 'w candidate_context" where
  "fresh_candidate w = \<lparr>kx_started = None, kx_inspection = None, kx_health = None, kx_logs = None,
     kx_cleanup = None, kx_owned_health = False, kx_trace = [], kx_world = w\<rparr>"

definition in_fresh_candidate :: "('w, 'a) candidate_act \<Rightarrow> ('w, 'a) world_act" where
  "in_fresh_candidate m w = (case m (fresh_candidate w) of (r, s) \<Rightarrow> (r, kx_world s))"

text \<open>The lock, the clean state and the new operation that both commands begin with.\<close>

record 'w command_entry =
  ce_lock :: "('w, unit) world_act"
  ce_unlock :: "('w, unit) world_act"
  ce_require_clean :: "('w, unit) world_act"
  ce_create_operation :: "string \<Rightarrow> evidence \<Rightarrow> ('w, operation_manifest) world_act"
  ce_record_owner :: "string \<Rightarrow> string \<Rightarrow> ('w, unit) world_act"

text \<open>
  An operation whose failure is recorded by \<open>finish_safely\<close>, a surprise as the plain failure
  \<open>unexpected\<close> makes of it.
\<close>

definition guarded_operation ::
  "'w candidate_ops \<Rightarrow> string \<Rightarrow> string \<Rightarrow> (exn \<Rightarrow> dploydb_error) \<Rightarrow> ('w, 'a) world_act \<Rightarrow> ('w, 'a) world_act" where
  "guarded_operation ops i message unexpected m = catching m (\<lambda>x. case x of
      Dploy e \<Rightarrow> andthen (finish_safely ops i message e) (raise x)
    | PyInterrupt _ \<Rightarrow> raise x
    | _ \<Rightarrow> (let e = unexpected x in andthen (finish_safely ops i message e) (raise (Dploy e))))"

definition locked_operation ::
  "'w command_entry \<Rightarrow> string \<Rightarrow> evidence \<Rightarrow> (string \<Rightarrow> ('w, 'a) world_act) \<Rightarrow> ('w, 'a) world_act" where
  "locked_operation entry type evidence body =
     andthen (ce_lock entry) (finally_act
       (andthen (ce_require_clean entry)
       (bnd (ce_create_operation entry type evidence) (\<lambda>m. let i = om_operation_id m in
        andthen (ce_record_owner entry i type) (body i))))
       (ce_unlock entry))"

definition validate_configured_candidate ::
  "('x rehearsal_world osys) command_entry \<Rightarrow> (string \<Rightarrow> string \<Rightarrow> 'x stage_env) \<Rightarrow>
   ('x rehearsal_world osys) candidate_ops \<Rightarrow> string \<Rightarrow> string \<Rightarrow> ('x, candidate_result) rehearsal_act"
where
  "validate_configured_candidate entry stage ops path version =
     bnd (lift_result (validated_release_identifier version)) (\<lambda>v.
     locked_operation entry ''candidate_validation''
       [(''database_path'', JStr path), (''requested_version'', JStr v)] (\<lambda>i.
       guarded_operation ops i ''Candidate validation did not complete.''
         (safe_candidate_failure (sg_candidate (stage i v)))
         (in_fresh_candidate (run_candidate_stage (stage i v) ops True))))"

text \<open>\<^verbatim>\<open>rehearse_configured_migration\<close> makes the same rehearsal without a candidate.\<close>

definition rehearsal_stage ::
  "candidate_env \<Rightarrow> 'w candidate_ops \<Rightarrow> operation_status \<Rightarrow> string \<Rightarrow> string \<Rightarrow> evidence \<Rightarrow> safety_facts option \<Rightarrow>
   ('w, unit) world_act"
where
  "rehearsal_stage env ops status stage message evidence safety =
     andthen (ko_transition ops (ke_operation_id env) status stage message evidence safety None) (ret ())"

definition rehearsal_steps ::
  "'x stage_env \<Rightarrow> ('x rehearsal_world osys) candidate_ops \<Rightarrow> ('x, rehearsal_result) rehearsal_act" where
  "rehearsal_steps sg ops = (let env = sg_candidate sg; i = sg_operation_id sg in
     bnd (preflight_check sg) (\<lambda>preflight.
     andthen (rehearsal_stage env ops OS_in_progress ''preflight_passed''
       ''Production SQLite preflight passed without mutation.'' (sqlite_fields (ke_utc env) preflight) None)
    (bnd (rehearsal_snapshot sg) (\<lambda>snapshot.
     andthen (rehearsal_stage env ops OS_in_progress ''snapshot_verified''
       ''Verified rehearsal snapshot completed before migration execution.'' (snapshot_evidence snapshot) None)
    (bnd (migration_rehearsal (sg_rehearsal sg) snapshot i
            (note_migration i (ko_append_event ops) ''Migration command reached a terminal outcome.'')
            (\<lambda>active. ret (ar_result active))) (\<lambda>result.
     andthen (rehearsal_stage env ops OS_succeeded ''rehearsal_passed''
       ''Migration rehearsal and disposable-workspace cleanup passed.''
       (rehearsal_summary (ke_utc env) result) (Some (facts False None False)))
     (ret result)))))))"

definition safe_rehearsal_failure :: "candidate_env \<Rightarrow> exn \<Rightarrow> dploydb_error" where
  "safe_rehearsal_failure env x = candidate_error env OperationFailedError
     (''migration rehearsal failed safely: '' @ ke_redact env (exn_text x))
     (''Production was not changed; inspect the rehearsal log, correct the '' @
      ''failure, and retry.'')"

definition rehearse_configured_migration ::
  "('x rehearsal_world osys) command_entry \<Rightarrow> (string \<Rightarrow> 'x stage_env) \<Rightarrow>
   ('x rehearsal_world osys) candidate_ops \<Rightarrow> string \<Rightarrow> ('x, rehearsal_result) rehearsal_act"
where
  "rehearse_configured_migration entry stage ops path =
     locked_operation entry ''rehearsal'' [(''database_path'', JStr path)] (\<lambda>i.
       guarded_operation ops i ''Migration rehearsal did not complete.''
         (safe_rehearsal_failure (sg_candidate (stage i))) (rehearsal_steps (stage i) ops))"

section \<open>Production is left alone\<close>

text \<open>The files of production, the database with its side files among them, are \<open>f\<close>.\<close>

definition production_is :: "database_files \<Rightarrow> 'x rehearsal_world \<Rightarrow> bool" where
  "production_is f w \<longleftrightarrow> bw_files (rw_backups w) = f"

lemma outside_production: "outside (production_is f)"
  by (simp add: outside_def production_is_def)

text \<open>Calls that leave the files of production alone, as the operations of the stage are to do.\<close>

definition spares :: "('x rehearsal_world osys, 'e, 'a) act \<Rightarrow> bool" where
  "spares m \<longleftrightarrow> (\<forall>f. keeps (confined (production_is f)) m)"

definition sparing_ops :: "('x rehearsal_world osys) candidate_ops \<Rightarrow> bool" where
  "sparing_ops ops \<longleftrightarrow>
     (\<forall>i v p. spares (ko_start ops i v p)) \<and> (\<forall>h. spares (ko_inspect ops h)) \<and> (\<forall>v p. spares (ko_check ops v p)) \<and>
     (\<forall>h. spares (ko_collect_logs ops h)) \<and> (\<forall>h. spares (ko_stop ops h)) \<and>
     (\<forall>i m e. spares (ko_append_event ops i m e)) \<and> (\<forall>i st g m e y z. spares (ko_transition ops i st g m e y z)) \<and>
     (\<forall>i. spares (ko_read_manifest ops i)) \<and>
     (\<forall>f st e. ko_observe ops = Some f \<longrightarrow> spares (f st e)) \<and> (\<forall>c. ko_close_health ops = Some c \<longrightarrow> spares c)"

definition kept :: "database_files \<Rightarrow> 'x rehearsal_world osys candidate_context \<Rightarrow> bool" where
  "kept f s \<longleftrightarrow> production_is f (os_world (kx_world s))"

lemma kept_ask: "spares m \<Longrightarrow> keeps (kept f) (ask wrap c m)"
proof (rule keepsI)
  fix s r t assume spares: "spares m" and run: "ask wrap c m s = (r, t)" and inv: "kept f s"
  have "keeps (confined (production_is f)) m" using spares by (simp add: spares_def)
  with run inv show "kept f t"
    by (elim ask_cases) (auto simp: kept_def confined_def dest: keepsD)
qed

lemma kept_in_world: "spares m \<Longrightarrow> keeps (kept f) (in_candidate_world m)"
proof (rule keepsI)
  fix s r t assume spares: "spares m" and run: "in_candidate_world m s = (r, t)" and inv: "kept f s"
  obtain w where "m (kx_world s) = (r, w)" "t = s\<lparr>kx_world := w\<rparr>"
    using run by (auto simp: in_candidate_world_def split: prod.splits)
  moreover have "keeps (confined (production_is f)) m" using spares by (simp add: spares_def)
  ultimately show "kept f t" using inv keepsD [of "confined (production_is f)" m "kx_world s" r w]
    by (simp add: kept_def confined_def)
qed

lemma kept_local: "(\<And>s. kx_world (g s) = kx_world s) \<Longrightarrow> keeps (kept f) (modify g)"
  by (rule keepsI) (simp add: modify_def kept_def)

lemma kept_locals [keeping]:
  "keeps (kept f) (modify (\<lambda>s. s\<lparr>kx_started := st\<rparr>))" "keeps (kept f) (modify (\<lambda>s. s\<lparr>kx_inspection := i\<rparr>))"
  "keeps (kept f) (modify (\<lambda>s. s\<lparr>kx_health := h\<rparr>))" "keeps (kept f) (modify (\<lambda>s. s\<lparr>kx_logs := l\<rparr>))"
  "keeps (kept f) (modify (\<lambda>s. s\<lparr>kx_cleanup := c\<rparr>))" "keeps (kept f) (modify (\<lambda>s. s\<lparr>kx_owned_health := b\<rparr>))"
  "keeps (kept f) (modify (\<lambda>s. s\<lparr>kx_started := None, kx_inspection := None, kx_health := None, kx_logs := None,
       kx_cleanup := None\<rparr>))"
  by (rule kept_local, simp)+

lemma kept_note:
  assumes "sparing_ops ops"
  shows "keeps (kept f) (candidate_note env ops m e)"
  using assms unfolding candidate_note_def sparing_ops_def by (intro keeping kept_ask) blast

lemma kept_runtime:
  assumes "sparing_ops ops"
  shows "keeps (kept f) (validate_runtime env ops path)"
proof -
  note calls = assms [unfolded sparing_ops_def] and noting = kept_note [OF assms]
  have "keeps (kept f) (start_candidate env ops p)" for p
    unfolding start_candidate_def by (intro keeping noting kept_ask) (use calls in simp)
  moreover have "keeps (kept f) (check_candidate env ops p st)" for p st
    unfolding check_candidate_def by (intro keeping noting kept_ask) (use calls in simp)+
  ultimately have "keeps (kept f) (primary_failure env ops path)"
    unfolding primary_failure_def run_checks_def by (intro keeping noting)
  moreover have "keeps (kept f) (collect_candidate_logs env ops h)" for h
    unfolding collect_candidate_logs_def
    by (intro keeping noting kept_ask) (use calls in \<open>auto split: exn.split intro: keeping\<close>)
  moreover have cleanup: "keeps (kept f) (note_cleanup env ops m c)" for m c
    unfolding note_cleanup_def by (intro keeping noting)
  have "keeps (kept f) (failed_stop env ops x)" for x
    unfolding failed_stop_def
    by (auto split: runtime_exn.split runner_class.split option.split intro!: keeping cleanup)
  then have "keeps (kept f) (stop_candidate env ops h)" for h
    unfolding stop_candidate_def by (intro keeping cleanup kept_ask) (use calls in simp)
  moreover have "keeps (kept f) (conclude_runtime env p l c)" for p l c
    by (rule keepsI) (auto dest: conclude_stays)
  ultimately show ?thesis
    unfolding validate_runtime_def by (intro keeping)
qed

lemma spares_in_backups:
  assumes "\<And>f. keeps (\<lambda>s. bw_files (os_world s) = f) m"
  shows "spares (in_backups m :: ('x, 'a) rehearsal_act)"
  unfolding spares_def
proof (intro allI keepsI)
  fix f and s t :: "'x rehearsal_world osys" and r
  assume run: "in_backups m s = (r, t)" and inv: "confined (production_is f) s"
  obtain u where m: "m \<lparr>os_calls = os_calls s, os_world = rw_backups (os_world s)\<rparr> = (r, u)"
    and t: "t = \<lparr>os_calls = os_calls u, os_world = (os_world s)\<lparr>rw_backups := os_world u\<rparr>\<rparr>"
    using run by (auto simp: in_backups_def in_slot_def split: prod.splits)
  from keepsD [OF assms m, of f] inv have "bw_files (os_world u) = f"
    by (simp add: confined_def production_is_def)
  then show "confined (production_is f) t" by (simp add: t confined_def production_is_def)
qed

lemma spares_snapshot: "spares (rehearsal_snapshot sg)" and spares_preflight: "spares (preflight_check sg)"
  unfolding rehearsal_snapshot_def preflight_check_def
  by (rule spares_in_backups, rule keeps_create_backup [where P = "\<lambda>g. g = f" for f])
    (rule spares_in_backups, unfold check_sqlite_def check_file_def, intro keeping)

text \<open>A migration command that leaves the files of production alone.\<close>

definition sparing_command :: "'x rehearsal_env \<Rightarrow> bool" where
  "sparing_command env \<longleftrightarrow>
     (\<forall>k path w. bw_files (rw_backups (snd (re_command env k path w))) = bw_files (rw_backups w))"

lemma spares_setup:
  "spares (andthen (verify_snapshot env a) (create_workspace env i))" "spares (cleanup_workspace env i)"
  unfolding spares_def by (intro allI keeps_andthen keeps_setup keeps_cleanup_workspace outside_production)+

lemma spares_prepare:
  assumes "sparing_command env" and "\<And>e. spares (sink e)"
  shows "spares (prepare_rehearsal env a i sink sp)"
proof -
  have "keeps (confined (production_is f)) (prepare_rehearsal env a i sink sp)" for f
    using assms by (intro keeps_prepare outside_production) (simp_all add: sparing_command_def production_is_def spares_def)
  then show ?thesis by (simp add: spares_def)
qed

lemma spares_note_migration:
  assumes "\<And>m e. spares (event i m e)"
  shows "spares (note_migration i event message e)"
  using assms unfolding note_migration_def spares_def by (intro allI keeping) blast

lemma kept_closing: "keeps I m \<Longrightarrow> keeps I c \<Longrightarrow> keeps I (closing m c)"
  by (rule keeps_closing)

lemma kept_stage:
  assumes ops: "sparing_ops ops" and command: "sparing_command (sg_rehearsal sg)"
  shows "keeps (kept f) (run_candidate_stage sg ops terminal)"
proof -
  note calls = ops [unfolded sparing_ops_def]
  have notify: "keeps (kept f) (notify_stage ops st e)" for st e
    unfolding notify_stage_def using calls by (auto split: option.split intro!: keeping kept_ask)
  have stage: "keeps (kept f) (record_stage env ops status st m e y)" for env status st m e y
    unfolding record_stage_def Let_def by (intro keeping kept_ask notify) (use calls in simp)
  have close: "keeps (kept f) (close_health ops)"
    unfolding close_health_def using calls by (cases "ko_close_health ops") (auto intro!: keeping kept_ask)
  have checks: "keeps (kept f) (rehearsed_checks sg ops active)" for active
    unfolding rehearsed_checks_def Let_def by (intro keeping stage close kept_runtime ops)
  have sink: "spares (note_migration i (ko_append_event ops) m e)" for i m e
    by (rule spares_note_migration) (use calls in simp)
  have "keeps (kept f) (rehearse_candidate sg ops snapshot)" for snapshot
    unfolding rehearse_candidate_def Let_def
    by (intro keeps_with_rehearsal kept_in_world spares_setup spares_prepare command sink checks)
  then have "keeps (kept f) (candidate_steps sg ops terminal)"
    unfolding candidate_steps_def Let_def own_health_def
    by (intro keeping stage kept_in_world spares_snapshot spares_preflight) (auto intro!: keeping stage split: prod.split)
  moreover have "keeps (kept f) (require_stage_owner sg ops)"
    unfolding require_stage_owner_def by (intro keeping kept_in_world) (use calls in simp)
  ultimately show ?thesis
    unfolding run_candidate_stage_def Let_def
    by (intro keeping close) (auto split: exn.split intro!: keeping)
qed


section \<open>A stage that returns\<close>

lemma in_candidate_world_Inr:
  "in_candidate_world m s = (Inr x, t) \<longleftrightarrow> (\<exists>w. m (kx_world s) = (Inr x, w) \<and> t = s\<lparr>kx_world := w\<rparr>)"
  by (auto simp: in_candidate_world_def split: prod.splits)

lemma ask_Inr_trace: "ask wrap c m s = (Inr x, t) \<Longrightarrow> kx_trace t = K_returned c # K_called c # kx_trace s"
  by (drule ask_Inr) auto

text \<open>The stages that were recorded, with the status of the operation, oldest first.\<close>

definition stages_of :: "candidate_event list \<Rightarrow> (operation_status \<times> string) list" where
  "stages_of tr = List.map_filter (\<lambda>e. case e of K_returned (KC_stage st g) \<Rightarrow> Some (st, g) | _ \<Rightarrow> None) (rev tr)"

lemma stages_of_append: "stages_of (xs @ ys) = stages_of ys @ stages_of xs"
  by (simp add: stages_of_def map_filter_def)

lemma stages_of_call:
  "stages_of (K_returned c # K_called c # tr) = stages_of tr @ (case c of KC_stage st g \<Rightarrow> [(st, g)] | _ \<Rightarrow> [])"
  by (simp add: stages_of_def map_filter_def split: candidate_call.split)

lemma record_stage_Inr:
  assumes "record_stage env ops status st m e y s = (Inr x, t)"
  shows "stages_of (kx_trace t) = stages_of (kx_trace s) @ [(status, deployment_state_value st)]"
  using assms unfolding record_stage_def Let_def
proof (elim andthen_InrE)
  fix a u
  assume run: "ask Raised (KC_stage status (deployment_state_value st))
      (ko_transition ops (ke_operation_id env) status (deployment_state_value st) m e y None) s = (Inr a, u)"
    "notify_stage ops st e u = (Inr x, t)"
  from run(2) have "stages_of (kx_trace t) = stages_of (kx_trace u)"
    by (auto simp: notify_stage_def ret_def stages_of_call dest!: ask_Inr_trace split: option.splits)
  with ask_Inr_trace [OF run(1)] show ?thesis by (simp add: stages_of_call)
qed

lemma close_health_Inr: "close_health ops s = (Inr x, t) \<Longrightarrow> stages_of (kx_trace t) = stages_of (kx_trace s)"
  by (cases "ko_close_health ops")
    (auto simp: close_health_def fetch_def bnd_def ret_def when_act_def modify_Inr stages_of_call
      dest!: ask_Inr_trace elim!: andthen_InrE split: if_splits)

lemma validate_runtime_stages:
  assumes "validate_runtime env ops path s = (Inr r, t)"
  shows "stages_of (kx_trace t) = stages_of (kx_trace s)"
proof -
  from validate_runtime_returns [OF assms] obtain h where
    "rev (kx_trace t) = rev (kx_trace s) @ completed (validation_calls h)" by blast
  then show ?thesis unfolding stages_of_def by (simp add: validation_calls_def map_filter_def)
qed

lemma rehearsed_checks_Inr:
  assumes "rehearsed_checks sg ops active s = (Inr ar, t)"
  shows "\<exists>u v. validate_runtime (sg_candidate sg) ops (ar_database_path active) u = (Inr (snd ar), v) \<and> fst ar = active \<and>
    stages_of (kx_trace t) = stages_of (kx_trace s) @ [(OS_in_progress, ''rehearsal_passed'')]"
  using assms unfolding rehearsed_checks_def Let_def
proof (elim andthen_InrE bnd_InrE)
  fix x u1 runtime u2 y u3
  assume run: "record_stage (sg_candidate sg) ops OS_in_progress DS_rehearsal_passed
       ''Migration rehearsal passed; candidate validation may begin.''
       (rehearsal_summary (ke_utc (sg_candidate sg)) (ar_result active)) None s = (Inr x, u1)"
    "validate_runtime (sg_candidate sg) ops (ar_database_path active) u1 = (Inr runtime, u2)"
    "close_health ops u2 = (Inr y, u3)" "ret (active, runtime) u3 = (Inr ar, t)"
  from run(4) have ar: "ar = (active, runtime)" "t = u3" by (simp_all add: ret_def)
  have "stages_of (kx_trace t) = stages_of (kx_trace s) @ [(OS_in_progress, deployment_state_value DS_rehearsal_passed)]"
    using record_stage_Inr [OF run(1)] validate_runtime_stages [OF run(2)] close_health_Inr [OF run(3)] ar(2) by metis
  with run(2) ar(1) show ?thesis by (intro exI [of _ u1] exI [of _ u2]) simp
qed

lemma rehearse_candidate_Inr:
  fixes sg :: "'x stage_env"
  assumes "rehearse_candidate sg ops snapshot s = (Inr (active, runtime), t)"
  shows "\<exists>(w :: 'x rehearsal_world osys) u v. proven_rehearsal (sg_rehearsal sg) snapshot (sg_operation_id sg)
       (note_migration (sg_operation_id sg) (ko_append_event ops) ''Candidate migration command reached a terminal outcome.'')
       (sg_operation_id sg) active (os_world w) \<and>
     validate_runtime (sg_candidate sg) ops (ar_database_path active) u = (Inr runtime, v) \<and>
     workspace_gone (sg_operation_id sg) (os_world (kx_world t)) \<and>
     stages_of (kx_trace t) = stages_of (kx_trace s) @ [(OS_in_progress, ''rehearsal_passed'')]"
  using assms unfolding rehearse_candidate_def Let_def
proof (cases rule: with_rehearsal_run)
  case (clean sp s1 r1 s2)
  let ?i = "sg_operation_id sg" and ?r = "sg_rehearsal sg"
  from clean(1) obtain w1 where set_up: "andthen (verify_snapshot ?r snapshot) (create_workspace ?r ?i) (kx_world s) = (Inr sp, w1)"
    "s1 = s\<lparr>kx_world := w1\<rparr>" by (auto simp: in_candidate_world_Inr)
  have "sp = ?i" using set_up(1)
    by (elim andthen_InrE) (auto simp: create_workspace_def Let_def raise_def ret_def elim!: andthen_InrE bnd_InrE split: if_splits)
  from clean(2,4) obtain active' u where prepared: "in_candidate_world (prepare_rehearsal ?r snapshot ?i
      (note_migration ?i (ko_append_event ops) ''Candidate migration command reached a terminal outcome.'') sp) s1 = (Inr active', u)"
    and checks: "rehearsed_checks sg ops active' u = (Inr (active, runtime), s2)"
    by (auto elim: bnd_InrE)
  from prepared obtain w2 where w2: "prepare_rehearsal ?r snapshot ?i
      (note_migration ?i (ko_append_event ops) ''Candidate migration command reached a terminal outcome.'') sp (kx_world s1) = (Inr active', w2)"
    "u = s1\<lparr>kx_world := w2\<rparr>" by (auto simp: in_candidate_world_Inr)
  from rehearsed_checks_Inr [OF checks] obtain u1 u2 where run:
    "validate_runtime (sg_candidate sg) ops (ar_database_path active') u1 = (Inr runtime, u2)" "active = active'"
    "stages_of (kx_trace s2) = stages_of (kx_trace u) @ [(OS_in_progress, ''rehearsal_passed'')]" by auto
  from clean(3) obtain w3 where cleaned: "cleanup_workspace ?r sp (kx_world s2) = (Inr None, w3)" "t = s2\<lparr>kx_world := w3\<rparr>"
    by (auto simp: in_candidate_world_Inr)
  from cleanup_workspace_runs [OF cleaned(1)] cleaned(2) \<open>sp = ?i\<close> have gone: "workspace_gone ?i (os_world (kx_world t))" by simp
  have "stages_of (kx_trace t) = stages_of (kx_trace s) @ [(OS_in_progress, ''rehearsal_passed'')]"
    using run(3) cleaned(2) w2(2) set_up(2) by simp
  with prepare_rehearsal_Inr [OF w2(1)] run(1,2) gone \<open>sp = ?i\<close> show ?thesis by blast
qed (auto simp: killed_def)


text \<open>The snapshot of a stage that returned, whose copy the migration and the candidate ran on.\<close>

lemma candidate_steps_Inr:
  fixes sg :: "'x stage_env"
  assumes "candidate_steps sg ops terminal s = (Inr v, t)"
  shows "\<exists>snapshot active runtime (w :: 'x rehearsal_world osys) u u' (z :: 'x rehearsal_world osys). proven_rehearsal (sg_rehearsal sg) snapshot (sg_operation_id sg)
       (note_migration (sg_operation_id sg) (ko_append_event ops) ''Candidate migration command reached a terminal outcome.'')
       (sg_operation_id sg) active (os_world w) \<and>
     validate_runtime (sg_candidate sg) ops (ar_database_path active) u = (Inr runtime, u') \<and>
     workspace_gone (sg_operation_id sg) (os_world z) \<and>
     cv_rehearsal v = ar_result active \<and> cv_health v = rn_health runtime \<and> cv_logs v = rn_logs runtime \<and>
     cv_cleanup v = rn_cleanup runtime \<and>
     stages_of (kx_trace t) = stages_of (kx_trace s) @ [(OS_in_progress, ''preflight_passed''),
       (OS_in_progress, ''snapshot_verified''), (OS_in_progress, ''rehearsal_passed''),
       (if terminal then OS_succeeded else OS_in_progress, ''candidate_healthy'')]"
  using assms unfolding candidate_steps_def Let_def
proof (elim andthen_InrE bnd_InrE)
  fix preflight s1 a1 s2 snapshot s3 a2 s4 a3 s5 ar s6
  let ?env = "sg_candidate sg"
  let ?result = "\<lambda>active runtime now. \<lparr>cv_operation_id = ke_operation_id ?env, cv_version = ke_version ?env,
           cv_rehearsal = ar_result active, cv_health = rn_health runtime, cv_logs = rn_logs runtime,
           cv_cleanup = rn_cleanup runtime, cv_completed_at = now\<rparr>"
  assume run: "in_candidate_world (preflight_check sg) s = (Inr preflight, s1)"
    "record_stage ?env ops OS_in_progress DS_preflight_passed
       ''Production SQLite preflight passed without mutation.'' (sqlite_fields (ke_utc ?env) preflight) None s1 = (Inr a1, s2)"
    "in_candidate_world (rehearsal_snapshot sg) s2 = (Inr snapshot, s3)"
    "record_stage ?env ops OS_in_progress DS_snapshot_verified
       ''Verified candidate rehearsal snapshot completed.'' (snapshot_evidence snapshot) None s3 = (Inr a2, s4)"
    "own_health ops s4 = (Inr a3, s5)" "rehearse_candidate sg ops snapshot s5 = (Inr ar, s6)"
    "(case ar of (active, runtime) \<Rightarrow> bnd (fetch (\<lambda>s. be_now (sg_backup_env sg) (os_calls (kx_world s)))) (\<lambda>now.
       andthen (record_stage ?env ops (if terminal then OS_succeeded else OS_in_progress) DS_candidate_healthy
          ''Candidate checks and candidate/rehearsal cleanup completed successfully.''
          (candidate_evidence ?env (?result active runtime now)) (Some (facts False None False)))
        (ret (?result active runtime now)))) s6 = (Inr v, t)"
  obtain active runtime where ar: "ar = (active, runtime)" by (cases ar)
  have "kx_trace s1 = kx_trace s" "kx_trace s3 = kx_trace s2" "kx_trace s5 = kx_trace s4"
    using run(1,3,5) by (auto simp: in_candidate_world_Inr own_health_def modify_Inr)
  with record_stage_Inr [OF run(2)] record_stage_Inr [OF run(4)]
  have early: "stages_of (kx_trace s5) = stages_of (kx_trace s) @ [(OS_in_progress, ''preflight_passed''),
      (OS_in_progress, ''snapshot_verified'')]" by simp
  from run(7) obtain now x u where finish: "record_stage ?env ops (if terminal then OS_succeeded else OS_in_progress) DS_candidate_healthy
          ''Candidate checks and candidate/rehearsal cleanup completed successfully.''
          (candidate_evidence ?env (?result active runtime now)) (Some (facts False None False)) s6 = (Inr x, u)"
    and v: "v = ?result active runtime now" "t = u"
    unfolding ar prod.case by (elim bnd_InrE andthen_InrE) (simp add: fetch_def ret_def, metis)
  from rehearse_candidate_Inr [OF run(6) [unfolded ar]] obtain w :: "'x rehearsal_world osys" and u1 u2 where steps:
    "proven_rehearsal (sg_rehearsal sg) snapshot (sg_operation_id sg)
       (note_migration (sg_operation_id sg) (ko_append_event ops) ''Candidate migration command reached a terminal outcome.'')
       (sg_operation_id sg) active (os_world w)"
    "validate_runtime ?env ops (ar_database_path active) u1 = (Inr runtime, u2)"
    "workspace_gone (sg_operation_id sg) (os_world (kx_world s6))"
    "stages_of (kx_trace s6) = stages_of (kx_trace s5) @ [(OS_in_progress, ''rehearsal_passed'')]" by blast
  have "stages_of (kx_trace t) = stages_of (kx_trace s) @ [(OS_in_progress, ''preflight_passed''),
       (OS_in_progress, ''snapshot_verified''), (OS_in_progress, ''rehearsal_passed''),
       (if terminal then OS_succeeded else OS_in_progress, ''candidate_healthy'')]"
    using record_stage_Inr [OF finish] steps(4) early v(2) by simp
  with steps(1-3) v(1) show ?thesis by (metis candidate_result.select_convs(3-6))
qed

lemma require_stage_owner_Inr: "require_stage_owner sg ops s = (Inr x, t) \<Longrightarrow> kx_trace t = kx_trace s"
  by (auto simp: require_stage_owner_def raise_def ret_def in_candidate_world_Inr elim!: bnd_InrE split: if_splits)

lemma run_candidate_stage_Inr:
  assumes "run_candidate_stage sg ops terminal s = (Inr v, t)"
  obtains s1 s2 where "candidate_steps sg ops terminal s1 = (Inr v, s2)" "kx_trace s1 = kx_trace s"
    "stages_of (kx_trace t) = stages_of (kx_trace s2)"
  using assms unfolding run_candidate_stage_def Let_def
proof (elim bnd_InrE andthen_InrE closing_InrE)
  fix a s3 b s4 c s5 s6 d
  assume run: "lift_result (validated_release_identifier (ke_version (sg_candidate sg))) s = (Inr a, s3)"
    "require_stage_owner sg ops s3 = (Inr b, s4)" "modify (kx_owned_health_update (\<lambda>_. False)) s4 = (Inr c, s5)"
    "catching (candidate_steps sg ops terminal) (\<lambda>x. case x of
         Dploy e \<Rightarrow> if de_class e = MigrationWorkspaceCleanupError then raise (workspace_recovery (sg_candidate sg) e) else raise x
       | PyInterrupt _ \<Rightarrow> raise x
       | _ \<Rightarrow> raise (Dploy (safe_candidate_failure (sg_candidate sg) x))) s5 = (Inr v, s6)"
    "close_health ops s6 = (Inr d, t)"
  from run(4) have "candidate_steps sg ops terminal s5 = (Inr v, s6)"
    by (auto simp: catching_def raise_def split: prod.splits sum.splits exn.splits if_splits)
  moreover have "kx_trace s5 = kx_trace s"
    using run(1,3) require_stage_owner_Inr [OF run(2)] by (auto simp: modify_Inr lift_result_def split: sum.splits)
  ultimately show ?thesis using that close_health_Inr [OF run(5)] by blast
qed


section \<open>An example\<close>

definition example_stage_env :: "unit stage_env" where
  "example_stage_env = \<lparr>
     sg_rehearsal = \<lparr>re_backup = example_backup_env, re_root = ''/srv/state/rehearsals'', re_log = ''/srv/log'',
       re_command = (\<lambda>_ _ w. (Inr example_command, put_entry final_operation_id workspace_database [7] w))\<rparr>,
     sg_candidate = example_candidate_env, sg_project = ''shop'',
     sg_fingerprint = ''0123456789abcdef0123456789abcdef0123456789abcdef0123456789abcdef'',
     sg_state_directory = ''/srv/state'', sg_store_root = ''/srv/state'', sg_lock_directory = ''/srv/state'',
     sg_lock_acquired = True, sg_lock_owner = Some \<lparr>lo_owner_id = ''lock'', lo_operation_id = final_operation_id,
       lo_operation_type = ''candidate_validation'', lo_process = \<lparr>pi_pid = 7, pi_hostname = ''web''\<rparr>,
       lo_state = LO_active, lo_acquired_at = 1000, lo_released_at = None\<rparr>,
     sg_owner_path = ''/srv/state/owner'', sg_backup_id = example_backup_id,
     sg_staging_uuid = ''u'', sg_metadata_uuid = ''v''\<rparr>"

definition example_stage_world :: "unit rehearsal_world osys" where
  "example_stage_world = \<lparr>os_calls = 0, os_world = \<lparr>rw_backups = os_world example_backup_world,
     rw_files = \<lparr>rf_root = Root_entry True directory_mode, rf_spaces = []\<rparr>, rw_rest = ()\<rparr>\<rparr>"

text \<open>The run of the example, with its world.\<close>

definition goes :: "('w, 'a) candidate_act \<Rightarrow> 'w candidate_context \<Rightarrow> ('a \<Rightarrow> 'w \<Rightarrow> bool) \<Rightarrow> bool" where
  "goes m s Q \<longleftrightarrow> (\<exists>x t. m s = (Inr x, t) \<and> kx_owned_health t = False \<and> Q x (kx_world t))"

lemma goes_bnd:
  assumes "goes m s P" and "\<And>x t. kx_owned_health t = False \<Longrightarrow> P x (kx_world t) \<Longrightarrow> goes (f x) t Q"
  shows "goes (bnd m f) s Q"
  using assms unfolding goes_def bnd_def by fastforce

lemma goes_andthen:
  "goes m s P \<Longrightarrow> (\<And>x t. kx_owned_health t = False \<Longrightarrow> P x (kx_world t) \<Longrightarrow> goes n t Q) \<Longrightarrow> goes (andthen m n) s Q"
  unfolding andthen_def by (rule goes_bnd)

lemma goes_in_world: "kx_owned_health s = False \<Longrightarrow> m (kx_world s) = (Inr x, w) \<Longrightarrow> Q x w \<Longrightarrow> goes (in_candidate_world m) s Q"
  by (simp add: goes_def in_candidate_world_def)

lemma ask_ret: "ask wrap c (ret x) s = (Inr x, s\<lparr>kx_world := kx_world s, kx_trace := K_returned c # K_called c # kx_trace s\<rparr>)"
  by (simp add: ask_def ret_def)

lemma example_ops_simps [simp]:
  "ko_observe example_candidate_ops = None" "ko_close_health example_candidate_ops = None"
  "ko_append_event example_candidate_ops i m e = ret example_event"
  "ko_transition example_candidate_ops i st g m e y z = ret example_operation"
  by (simp_all add: example_candidate_ops_def)

lemma example_note: "candidate_note env example_candidate_ops m e s =
    (Inr (), s\<lparr>kx_trace := K_returned (KC_event m) # K_called (KC_event m) # kx_trace s\<rparr>)"
  by (simp add: candidate_note_def map_error_def andthen_def bnd_def ask_ret ret_def [of "()"])

lemma example_stage: "kx_owned_health s = False \<Longrightarrow>
    goes (record_stage env example_candidate_ops status st m e y) s (\<lambda>_ w. w = kx_world s)"
  by (simp add: goes_def record_stage_def notify_stage_def andthen_def bnd_def ask_ret ret_def [of "()"])

lemma example_validation:
  fixes s :: "'a candidate_context"
  assumes "kx_owned_health s = False"
  shows "goes (validate_runtime env example_candidate_ops path) s (\<lambda>_ w. w = kx_world s)"
proof -
  have logs: "logs_failure env example_command = None" by (simp add: logs_failure_def example_command_def)
  have none: "normalize_primary env b None = None" for b by (simp add: normalize_primary_def)
  obtain st where st: "ask id KC_start (ko_start example_candidate_ops i v p) s =
      (Inr st, s\<lparr>kx_trace := K_returned KC_start # K_called KC_start # kx_trace s\<rparr>)"
    for i v p and s :: "'a candidate_context"
    by (rule that) (simp add: example_candidate_ops_def ask_def ret_def)
  obtain i where i: "ask id (KC_inspect h) (ko_inspect example_candidate_ops h) s =
      (Inr i, s\<lparr>kx_trace := K_returned (KC_inspect h) # K_called (KC_inspect h) # kx_trace s\<rparr>)"
    for h and s :: "'a candidate_context"
    by (rule that) (simp add: example_candidate_ops_def ask_def ret_def)
  have others: "ask id KC_check (ko_check example_candidate_ops v p) s =
        (Inr example_candidate_health, s\<lparr>kx_trace := K_returned KC_check # K_called KC_check # kx_trace s\<rparr>)"
      "ask id (KC_logs h) (ko_collect_logs example_candidate_ops h) s = (Inr \<lparr>kl_handle = h, kl_command = example_command\<rparr>,
        s\<lparr>kx_trace := K_returned (KC_logs h) # K_called (KC_logs h) # kx_trace s\<rparr>)"
      "ask id (KC_stop h) (ko_stop example_candidate_ops h) s = (Inr (example_candidate_cleanup True),
        s\<lparr>kx_trace := K_returned (KC_stop h) # K_called (KC_stop h) # kx_trace s\<rparr>)"
    for v p h and s :: "'a candidate_context"
    by (simp_all add: example_candidate_ops_def ask_def ret_def)
  show ?thesis using assms
    by (simp add: goes_def validate_runtime_def primary_failure_def run_checks_def start_candidate_def check_candidate_def
        collect_candidate_logs_def stop_candidate_def note_cleanup_def on_any_def catching_def andthen_def bnd_def modify_def
        map_error_def example_note ret_def fetch_def conclude_runtime_def none map_filter_def
        runtime_result_of_def logs st i others)
qed

definition example_verification :: sqlite_verification where
  "example_verification = \<lparr>sv_quick_check_passed = True, sv_foreign_key_check_passed = True,
     sv_integrity_check_passed = None, sv_checked_at = 1000, sv_duration = 0\<rparr>"

lemma example_accepts: "verify_sqlite_database path False 10 (Some (private_file c)) example_session = Inr example_verification"
  by (simp add: verify_sqlite_database_def validate_database_file_def require_rows_def ensure_def example_session_def
      example_verification_def)

lemma got_backup:
  assumes "get_backup msize st i = Inr a"
  shows "bm_backup_id (ba_metadata a) = i \<and> valid_backup_metadata (ba_metadata a) \<and>
    (\<exists>c. map_of (bs_databases st) i = Some (private_file c))"
proof -
  from assms obtain m d where meta: "verify_metadata msize st i = Inr m" and database:
    "validate_committed_file st ''backup database'' (map_of (bs_databases st) i) = Inr d" and a: "a = artifact_of st m i"
    by (auto simp: get_backup_def rbind_Inr_iff)
  from database have "map_of (bs_databases st) i = Some (private_file d)"
    by (auto simp: validate_committed_file_def private_file_def file_mode_def split: option.splits if_splits)
  moreover from meta have "valid_backup_metadata m"
    unfolding verify_metadata_def rbind_Inr_iff
    by (elim exE conjE, rename_tac d, case_tac d) (simp_all split: if_split_asm)
  ultimately show ?thesis by (auto simp: a artifact_of_def verify_metadata_id [OF meta])
qed

lemma example_rehearsal_snapshot:
  obtains a c w where "rehearsal_snapshot example_stage_env example_stage_world = (Inr a, w)"
    "rehearsal_ready (sg_rehearsal example_stage_env) a final_operation_id example_verification c (os_world w)"
proof -
  have "option_all is_operation_id (Some final_operation_id)" by simp
  from example_new_backup [OF this, of 120 BP_rehearsal] obtain a t where made:
    "create_verified_backup example_backup_env BP_rehearsal (Some final_operation_id) example_backup_id ''u'' ''v'' 120
       example_backup_world = (Inr a, t)" by auto
  let ?w = "\<lparr>os_calls = os_calls t, os_world = (os_world example_stage_world)\<lparr>rw_backups := os_world t\<rparr>\<rparr>"
  have run: "rehearsal_snapshot example_stage_env example_stage_world = (Inr a, ?w)"
    using made by (simp add: rehearsal_snapshot_def in_backups_def in_slot_def example_stage_env_def example_stage_world_def
        example_candidate_env_def example_backup_world_def)
  from made obtain u where "verify_backup example_backup_env example_backup_id u = (Inr a, t)"
    by (rule ends_inE [OF ending_create_backup])
  from verify_backup_Inr [OF this] have got:
    "get_backup (be_metadata_size example_backup_env) (bw_store (os_world t)) example_backup_id = Inr a"
    "holds_backup example_backup_env (ba_metadata a) (file_at (At_backup example_backup_id) (os_world t))" by simp_all
  from got_backup [OF got(1)] obtain c where found: "bm_backup_id (ba_metadata a) = example_backup_id"
    "valid_backup_metadata (ba_metadata a)" "map_of (bs_databases (bw_store (os_world t))) example_backup_id = Some (private_file c)"
    by blast
  then have copy: "file_at (At_backup example_backup_id) (os_world t) = Some (private_file c)" by (simp add: file_at_def)
  with got(2) have "int (length c) = bm_size_bytes (ba_metadata a)" "be_sha256 example_backup_env c = bm_sha256 (ba_metadata a)"
    by (simp_all add: holds_backup_def)
  moreover from found(2) have valid: "is_backup_id (bm_backup_id (ba_metadata a))" "is_sha256 (bm_sha256 (ba_metadata a))"
    "0 < bm_size_bytes (ba_metadata a)"
    by (auto simp: valid_backup_metadata_def backup_metadata_checks_def)
  ultimately have "good_content example_backup_env (ba_metadata a) example_verification c"
    by (auto simp: good_content_def example_accepts example_backup_env_def)
  then have "rehearsal_ready (sg_rehearsal example_stage_env) a final_operation_id example_verification c (os_world ?w)"
    using copy found(1) valid
    by (simp add: rehearsal_ready_def usable_snapshot_def works_def example_stage_env_def example_backup_env_def
        example_stage_world_def is_absolute_def space_of_def)
  with run show ?thesis by (rule that)
qed

lemma example_migration:
  "migrates_to (sg_rehearsal example_stage_env) final_operation_id example_command [7]"
  "sound_database (re_backup (sg_rehearsal example_stage_env)) example_verification [7]"
  by (simp_all add: migrates_to_def example_stage_env_def command_succeeded_def output_complete_def
      migration_command_evidence_def example_command_def example_output_def captured_output_problem_def
      sound_database_def example_backup_env_def example_accepts example_verification_def valid_sqlite_verification_def
      is_sha256_def hex_tail_def is_lower_hex_def)

lemma passes_example_note:
  "passes (note_migration i (ko_append_event example_candidate_ops) m e :: ('x, unit) rehearsal_act)"
proof -
  have "note_migration i (ko_append_event example_candidate_ops) m e = (ret () :: ('x, unit) rehearsal_act)"
    by (rule ext) (simp add: note_migration_def andthen_def bnd_def ret_def)
  then show ?thesis by (simp add: passes_ret)
qed

lemma example_checks: "kx_owned_health s = False \<Longrightarrow>
    goes (rehearsed_checks example_stage_env example_candidate_ops active) s (\<lambda>_ w. w = kx_world s)"
  unfolding rehearsed_checks_def Let_def
  apply (rule goes_andthen [OF example_stage], assumption)
  apply (rule goes_bnd [OF example_validation], assumption)
  apply (simp add: goes_def close_health_def andthen_def bnd_def fetch_def ret_def)
  done

lemma example_rehearsal_goes:
  fixes s :: "unit rehearsal_world osys candidate_context"
  assumes ready: "rehearsal_ready (sg_rehearsal example_stage_env) a final_operation_id example_verification c
      (os_world (kx_world s))"
    and owned: "kx_owned_health s = False"
  shows "goes (rehearse_candidate example_stage_env example_candidate_ops a) s (\<lambda>_ _. True)"
proof -
  let ?r = "sg_rehearsal example_stage_env" and ?i = final_operation_id
  let ?sink = "note_migration ?i (ko_append_event example_candidate_ops) ''Candidate migration command reached a terminal outcome.''"
  let ?w = "put_space ?i (Space_directory []) (os_world (kx_world s))"
  have i: "sg_operation_id example_stage_env = ?i" by (simp add: example_stage_env_def example_candidate_env_def)
  from ready have facts: "usable_snapshot ?r a example_verification c (os_world (kx_world s))" "is_operation_id ?i"
    "is_backup_id (bm_backup_id (ba_metadata a))" "is_sha256 (bm_sha256 (ba_metadata a))" and works: "works (re_backup ?r)"
    by (simp_all add: rehearsal_ready_def usable_snapshot_def)
  have "yields (andthen (verify_snapshot ?r a) (create_workspace ?r ?i)) (os_world (kx_world s)) ?i ?w"
    using ready by (intro yields_andthen [OF yields_verify_snapshot [OF facts(1)] yields_create_workspace])
      (simp_all add: rehearsal_ready_def usable_snapshot_def)
  from yieldsD [OF this refl] obtain w1 where set_up:
    "andthen (verify_snapshot ?r a) (create_workspace ?r ?i) (kx_world s) = (Inr ?i, w1)" "os_world w1 = ?w" by blast
  have "usable_snapshot ?r a example_verification c (os_world w1)" "space_of ?i (os_world w1) = Some (Space_directory [])"
    using facts(1) set_up(2) by (simp_all add: usable_snapshot_def)
  from prepare_rehearsal_returns [where sink = ?sink, OF this(1) facts(2-4) this(2) example_migration passes_example_note]
  obtain active w2 where prepared: "prepare_rehearsal ?r a ?i ?sink ?i w1 = (Inr active, w2)"
    "space_of ?i (os_world w2) = Some (Space_directory [(workspace_database, private_file [7])])" by (rule returnsE)
  let ?s2 = "s\<lparr>kx_world := w2\<rparr>"
  from example_checks [of ?s2 active] owned obtain x t where checks:
    "rehearsed_checks example_stage_env example_candidate_ops active ?s2 = (Inr x, t)" "kx_owned_health t = False" "kx_world t = w2"
    by (auto simp: goes_def)
  from yieldsD [OF yields_cleanup_workspace [OF works prepared(2)] refl] obtain w3 where
    cleaned: "cleanup_workspace ?r ?i w2 = (Inr None, w3)" by blast
  let ?t = "t\<lparr>kx_world := w3\<rparr>"
  have body: "bnd (in_candidate_world (prepare_rehearsal ?r a ?i ?sink ?i))
      (rehearsed_checks example_stage_env example_candidate_ops) (s\<lparr>kx_world := w1\<rparr>) = (Inr x, t)"
    using prepared(1) checks(1) by (simp add: bnd_def in_candidate_world_def)
  have "rehearse_candidate example_stage_env example_candidate_ops a s = (Inr x, ?t)"
    unfolding rehearse_candidate_def Let_def with_rehearsal_def i bnd_def [of "in_candidate_world (andthen _ _)"]
    using set_up(1) body cleaned checks(3) by (simp add: in_candidate_world_def)
  with checks(2) show ?thesis by (simp add: goes_def)
qed


lemma example_preflight: "\<exists>v. preflight_check example_stage_env example_stage_world = (Inr v, example_stage_world)"
  by (simp add: preflight_check_def in_backups_def in_slot_def check_sqlite_def check_file_def bnd_def fetch_def
      example_stage_env_def example_stage_world_def example_backup_world_def example_backup_env_def file_at_def
      lift_result_def verify_sqlite_database_def validate_database_file_def require_rows_def ensure_def example_session_def)

lemma example_steps:
  fixes s :: "unit rehearsal_world osys candidate_context"
  assumes "kx_world s = example_stage_world" and "kx_owned_health s = False"
  shows "goes (candidate_steps example_stage_env example_candidate_ops terminal) s (\<lambda>_ _. True)"
proof -
  obtain v where preflight: "preflight_check example_stage_env example_stage_world = (Inr v, example_stage_world)"
    using example_preflight by blast
  obtain a c w where snapshot: "rehearsal_snapshot example_stage_env example_stage_world = (Inr a, w)"
    and ready: "rehearsal_ready (sg_rehearsal example_stage_env) a final_operation_id example_verification c (os_world w)"
    by (rule example_rehearsal_snapshot)
  have preflight_goes: "goes (in_candidate_world (preflight_check example_stage_env)) s (\<lambda>_ w. w = example_stage_world)"
    by (rule goes_in_world [OF assms(2)]) (simp_all add: assms(1) preflight)
  have snapshot_goes: "kx_owned_health t = False \<Longrightarrow> kx_world t = example_stage_world \<Longrightarrow>
      goes (in_candidate_world (rehearsal_snapshot example_stage_env)) t (\<lambda>b v. b = a \<and> v = w)" for t
    by (rule goes_in_world) (simp_all add: snapshot)
  have own: "kx_owned_health t = False \<Longrightarrow> goes (own_health example_candidate_ops) t (\<lambda>_ v. v = kx_world t)"
    for t :: "unit rehearsal_world osys candidate_context"
    by (simp add: goes_def own_health_def modify_def)
  show ?thesis
    unfolding candidate_steps_def Let_def
    apply (rule goes_bnd [OF preflight_goes])
    apply (rule goes_andthen [OF example_stage], assumption)
    apply (rule goes_bnd [OF snapshot_goes], assumption, simp)
    apply (elim conjE, hypsubst)
    apply (rule goes_andthen [OF example_stage], assumption)
    apply (rule goes_andthen [OF own], assumption)
    apply (rule goes_bnd [OF example_rehearsal_goes [where c = c]])
      apply (use ready in simp)
     apply assumption
    apply (simp only: case_prod_beta)
    apply (rule goes_bnd [where P = "\<lambda>_ _. True"])
     apply (simp add: goes_def fetch_def)
    apply (rule goes_andthen [OF example_stage], assumption)
    apply (simp add: goes_def ret_def)
    done
qed

lemma example_stage_runs:
  "\<exists>v t. run_candidate_stage example_stage_env example_candidate_ops True (example_candidate_context example_stage_world) = (Inr v, t)"
proof -
  let ?s = "example_candidate_context example_stage_world :: unit rehearsal_world osys candidate_context"
  have version: "validated_release_identifier (ke_version (sg_candidate example_stage_env)) = Inr ''v2''"
    by (simp add: example_stage_env_def example_candidate_env_def validated_release_identifier_def is_version_def
        is_word_of_def word_like_def is_alnum_def is_lower_def is_digit_def)
  have owner: "require_stage_owner example_stage_env example_candidate_ops ?s = (Inr (), ?s)"
    by (simp add: require_stage_owner_def example_stage_env_def example_candidate_env_def bnd_def in_candidate_world_def
        example_candidate_ops_def ret_def fresh_operation_def example_operation_def)
  have "goes (candidate_steps example_stage_env example_candidate_ops True) (?s\<lparr>kx_owned_health := False\<rparr>) (\<lambda>_ _. True)"
    by (rule example_steps) (simp_all add: example_candidate_context_def)
  then obtain v t where "candidate_steps example_stage_env example_candidate_ops True (?s\<lparr>kx_owned_health := False\<rparr>) = (Inr v, t)"
    by (auto simp: goes_def)
  then show ?thesis
    using owner by (simp add: run_candidate_stage_def Let_def bnd_def andthen_def lift_result_def version modify_def closing_def
        catching_def close_health_def fetch_def ret_def)
qed



lemma spares_ret: "spares (ret x)"
  unfolding spares_def by (intro allI keeping)

lemma example_spares: "sparing_ops example_candidate_ops" "sparing_command (sg_rehearsal example_stage_env)"
  by (simp_all add: sparing_ops_def example_candidate_ops_def spares_ret sparing_command_def example_stage_env_def)


end
