(* ===== verification/Redaction.thy ===== *)
theory Redaction
  imports Commands "HOL-Library.Sublist"
begin

text \<open>
  The redaction of \<^verbatim>\<open>dploydb/redaction.py\<close>: the registry of secret values with its cached pattern,
  the replacement of registered values in a text, the recognition of sensitive keys, and the
  redaction of JSON. The six regular expressions for credentials in free text are arguments.
\<close>

section \<open>The registry\<close>

text \<open>The set of secrets, as a list without duplicates, and the alternatives of the cached pattern.\<close>

record secret_registry =
  sr_secrets :: "string list"
  sr_pattern :: "string list option"

definition redaction_marker :: string where
  "redaction_marker = ''[REDACTED]''"

definition empty_registry :: secret_registry where
  "empty_registry = \<lparr>sr_secrets = [], sr_pattern = None\<rparr>"

definition register :: "string option \<Rightarrow> secret_registry \<Rightarrow> secret_registry" where
  "register value r = (case value of
      None \<Rightarrow> r
    | Some v \<Rightarrow>
       if v = '''' \<or> v \<in> set (sr_secrets r) then r
       else r\<lparr>sr_secrets := v # sr_secrets r, sr_pattern := None\<rparr>)"

definition register_many :: "string option list \<Rightarrow> secret_registry \<Rightarrow> secret_registry" where
  "register_many vs r = fold register vs r"

text \<open>The longest values first, the marker before a secret of its length.\<close>

definition alternatives :: "string list \<Rightarrow> string list" where
  "alternatives vs = sort_key (\<lambda>v. - (2 * int (length v) + (if v = redaction_marker then 1 else 0)))
     (remdups (redaction_marker # vs))"

definition exact_value_pattern :: "secret_registry \<Rightarrow> string list option \<times> secret_registry" where
  "exact_value_pattern r =
    (if sr_secrets r = [] then (None, r)
     else case sr_pattern r of
       Some p \<Rightarrow> (Some p, r)
     | None \<Rightarrow> (let p = alternatives (sr_secrets r) in (Some p, r\<lparr>sr_pattern := Some p\<rparr>)))"

text \<open>
  \<^verbatim>\<open>pattern.sub(REDACTION_MARKER, text)\<close> for an alternation of literal texts: at the leftmost place
  where one matches, the first that does.
\<close>

definition begins :: "string \<Rightarrow> string \<Rightarrow> bool" where
  "begins s v \<longleftrightarrow> take (length v) s = v"

definition match_at :: "string list \<Rightarrow> string \<Rightarrow> string option" where
  "match_at vs s = List.find (begins s) vs"

function replace_matches :: "(string \<Rightarrow> string option) \<Rightarrow> string \<Rightarrow> string" where
  "replace_matches match [] = []"
| "replace_matches match (c # cs) = (case match (c # cs) of
      None \<Rightarrow> c # replace_matches match cs
    | Some v \<Rightarrow> redaction_marker @ replace_matches match (drop (length v - 1) cs))"
  by pat_completeness auto
termination by (relation "measure (\<lambda>(_, s). length s)") auto

definition redact_exact_values :: "string \<Rightarrow> secret_registry \<Rightarrow> string \<times> secret_registry" where
  "redact_exact_values text r = (case exact_value_pattern r of
      (None, r') \<Rightarrow> (text, r')
    | (Some vs, r') \<Rightarrow> (replace_matches (match_at vs) text, r'))"

text \<open>\<^verbatim>\<open>redact_text\<close>, with the substitutions of the regular expressions in their order\<close>

definition redact_text :: "(string \<Rightarrow> string) list \<Rightarrow> string \<Rightarrow> secret_registry \<Rightarrow> string \<times> secret_registry" where
  "redact_text patterns text r = (case redact_exact_values text r of (u, r') \<Rightarrow> (fold id patterns u, r'))"

section \<open>The cache\<close>

definition coherent :: "secret_registry \<Rightarrow> bool" where
  "coherent r \<longleftrightarrow> distinct (sr_secrets r) \<and> '''' \<notin> set (sr_secrets r) \<and>
     (\<forall>p. sr_pattern r = Some p \<longrightarrow> p = alternatives (sr_secrets r))"

lemma coherent_empty: "coherent empty_registry"
  by (simp add: coherent_def empty_registry_def)

lemma coherent_register: "coherent r \<Longrightarrow> coherent (register v r)"
  by (auto simp: coherent_def register_def split: option.splits)

lemma coherent_register_many: "coherent r \<Longrightarrow> coherent (register_many vs r)"
  unfolding register_many_def by (induction vs arbitrary: r) (simp_all add: coherent_register)

lemma exact_value_pattern_coherent:
  assumes "coherent r"
  shows "exact_value_pattern r =
    (if sr_secrets r = [] then None else Some (alternatives (sr_secrets r)), snd (exact_value_pattern r))"
    and "coherent (snd (exact_value_pattern r))" and "sr_secrets (snd (exact_value_pattern r)) = sr_secrets r"
  using assms by (auto simp: exact_value_pattern_def coherent_def Let_def split: option.splits)


section \<open>Which value matches\<close>

text \<open>What the alternation has to be: a matcher that finds one of \<open>vs\<close> wherever one of them begins.\<close>

definition matches_exactly :: "string set \<Rightarrow> (string \<Rightarrow> string option) \<Rightarrow> bool" where
  "matches_exactly vs match \<longleftrightarrow> (\<forall>s. (match s = None \<longrightarrow> (\<forall>v\<in>vs. \<not> begins s v)) \<and>
     (\<forall>v. match s = Some v \<longrightarrow> v \<in> vs \<and> begins s v \<and> (\<forall>u\<in>vs. begins s u \<longrightarrow> length u \<le> length v)))"

lemma matches_exactly_unique:
  assumes "matches_exactly vs f" and "matches_exactly vs g"
  shows "f = g"
proof
  fix s
  show "f s = g s"
  proof (cases "f s")
    case None
    then have "\<forall>v\<in>vs. \<not> begins s v" using assms(1) by (simp add: matches_exactly_def)
    then show ?thesis using None assms(2) by (cases "g s") (auto simp: matches_exactly_def)
  next
    case (Some v)
    then have v: "v \<in> vs" "begins s v" "\<forall>u\<in>vs. begins s u \<longrightarrow> length u \<le> length v"
      using assms(1) by (simp_all add: matches_exactly_def)
    then obtain u where u: "g s = Some u" using assms(2) by (cases "g s") (auto simp: matches_exactly_def)
    then have "u \<in> vs" "begins s u" "\<forall>w\<in>vs. begins s w \<longrightarrow> length w \<le> length u"
      using assms(2) by (simp_all add: matches_exactly_def)
    with v have "length u = length v" by (meson le_antisym)
    with v(2) \<open>begins s u\<close> have "u = v" by (metis begins_def)
    with u Some show ?thesis by simp
  qed
qed

lemma set_alternatives [simp]: "set (alternatives vs) = insert redaction_marker (set vs)"
  by (auto simp: alternatives_def)

lemma match_alternatives: "matches_exactly (insert redaction_marker (set vs)) (match_at (alternatives vs))"
proof -
  let ?key = "\<lambda>v. - (2 * int (length v) + (if v = redaction_marker then 1 else 0))"
  let ?as = "alternatives vs"
  have sorted: "sorted (map ?key ?as)" by (simp add: alternatives_def)
  have "v \<in> set ?as \<and> begins s v \<and> (\<forall>u\<in>set ?as. begins s u \<longrightarrow> length u \<le> length v)"
    if found: "match_at ?as s = Some v" for s v
  proof -
    from found obtain i where i: "i < length ?as" "begins s (?as ! i)" "v = ?as ! i" "\<forall>j<i. \<not> begins s (?as ! j)"
      by (auto simp: match_at_def find_Some_iff)
    have "length u \<le> length v" if u: "u \<in> set ?as" "begins s u" for u
    proof -
      from u(1) obtain j where j: "j < length ?as" "u = ?as ! j" by (metis in_set_conv_nth)
      with i(4) u(2) have "i \<le> j" by (meson not_le)
      then have "?key v \<le> ?key u" using sorted j i(1,3) sorted_nth_mono [OF sorted, of i j] by simp
      then have "2 * int (length u) \<le> 2 * int (length v) + 1" by (simp split: if_splits)
      then show ?thesis by presburger
    qed
    moreover have "v \<in> set ?as" using i(1,3) nth_mem by blast
    ultimately show ?thesis using i(2,3) by simp
  qed
  then show ?thesis
    unfolding matches_exactly_def set_alternatives [symmetric]
    by (auto simp: match_at_def find_None_iff)
qed

text \<open>The reference: the longest of the values that begin here.\<close>

fun longest_match :: "string list \<Rightarrow> string \<Rightarrow> string option" where
  "longest_match [] s = None"
| "longest_match (v # vs) s = (case longest_match vs s of
      None \<Rightarrow> if begins s v then Some v else None
    | Some u \<Rightarrow> if begins s v \<and> length u < length v then Some v else Some u)"

lemma longest_match_exact: "matches_exactly (set vs) (longest_match vs)"
proof -
  have "(longest_match vs s = None \<longrightarrow> (\<forall>v\<in>set vs. \<not> begins s v)) \<and>
     (\<forall>v. longest_match vs s = Some v \<longrightarrow> v \<in> set vs \<and> begins s v \<and> (\<forall>u\<in>set vs. begins s u \<longrightarrow> length u \<le> length v))" for s
    by (induction vs) (fastforce split: option.splits if_splits)+
  then show ?thesis by (simp add: matches_exactly_def)
qed

lemma match_is_longest: "match_at (alternatives vs) = longest_match (redaction_marker # vs)"
  by (rule matches_exactly_unique [OF match_alternatives]) (use longest_match_exact [of "redaction_marker # vs"] in simp)

section \<open>What is left of a text\<close>

text \<open>The kept characters, and \<open>None\<close> for a marker.\<close>

function pieces :: "(string \<Rightarrow> string option) \<Rightarrow> string \<Rightarrow> char option list" where
  "pieces match [] = []"
| "pieces match (c # cs) = (case match (c # cs) of
      None \<Rightarrow> Some c # pieces match cs
    | Some v \<Rightarrow> None # pieces match (drop (length v - 1) cs))"
  by pat_completeness auto
termination by (relation "measure (\<lambda>(_, s). length s)") auto

definition render :: "char option list \<Rightarrow> string" where
  "render ps = concat (map (\<lambda>p. case p of None \<Rightarrow> redaction_marker | Some c \<Rightarrow> [c]) ps)"

lemma render_simps [simp]:
  "render [] = []" "render (Some c # ps) = c # render ps" "render (None # ps) = redaction_marker @ render ps"
  by (simp_all add: render_def)

lemma replace_is_render: "replace_matches match s = render (pieces match s)"
  by (induction match s rule: replace_matches.induct) (auto split: option.split)

lemma pieces_begin: "prefix (map Some v) (pieces match s) \<Longrightarrow> begins s v"
proof (induction match s arbitrary: v rule: pieces.induct)
  case (1 match)
  then show ?case by (simp add: begins_def)
next
  case (2 match c cs)
  show ?case
  proof (cases v)
    case Nil
    then show ?thesis by (simp add: begins_def)
  next
    case (Cons d v')
    with "2.prems" have "match (c # cs) = None" "d = c" "prefix (map Some v') (pieces match cs)"
      by (auto split: option.splits)
    with "2.IH"(1) [OF this(1,3)] Cons show ?thesis by (simp add: begins_def)
  qed
qed

lemma pieces_hide:
  assumes "matches_exactly vs match" and "v \<in> vs" and "v \<noteq> []"
  shows "\<not> sublist (map Some v) (pieces match s)"
  using assms
proof (induction match s rule: pieces.induct)
  case (2 match c cs)
  show ?case
  proof (cases "match (c # cs)")
    case None
    then have "\<not> begins (c # cs) v" using "2.prems" by (simp add: matches_exactly_def)
    then have "\<not> prefix (map Some v) (Some c # pieces match cs)"
      using pieces_begin [of v match "c # cs"] None by auto
    with None "2.IH"(1) [OF None "2.prems"] show ?thesis by (simp add: sublist_Cons_right)
  next
    case (Some u)
    have "\<not> prefix (map Some v) (None # ps)" for ps using "2.prems"(3) by (cases v) simp_all
    with Some "2.IH"(2) [OF Some "2.prems"] show ?thesis by (simp add: sublist_Cons_right)
  qed
qed simp


lemma begins_render:
  assumes "begins (render ps) v" and "CHR ''['' \<notin> set v"
  shows "prefix (map Some v) ps"
  using assms
proof (induction v arbitrary: ps)
  case (Cons c v)
  then obtain p qs where ps: "ps = p # qs" by (cases ps) (auto simp: begins_def)
  show ?case
  proof (cases p)
    case None
    then have "c = CHR ''[''" using Cons.prems(1) ps by (simp add: begins_def redaction_marker_def)
    with Cons.prems(2) show ?thesis by simp
  next
    case (Some d)
    then have "d = c" "begins (render qs) v" using Cons.prems(1) ps by (auto simp: begins_def)
    with Cons ps Some show ?thesis by simp
  qed
qed simp

text \<open>
  Without a bracket in a secret no marker is cut: a second pass finds the markers and nothing else.
\<close>

lemma replace_twice:
  assumes "matches_exactly (insert redaction_marker vs) match" and "\<And>v. v \<in> vs \<Longrightarrow> CHR ''['' \<notin> set v \<and> v \<noteq> []"
  shows "replace_matches match (replace_matches match s) = replace_matches match s"
  unfolding replace_is_render [of match s] using assms
proof (induction match s rule: pieces.induct)
  case (2 match c cs)
  note exact = "2.prems"(1)
  show ?case
  proof (cases "match (c # cs)")
    case None
    let ?rest = "pieces match cs"
    have "\<not> begins (c # render ?rest) v" if v: "v \<in> insert redaction_marker vs" for v
    proof
      assume begins: "begins (c # render ?rest) v"
      have nonempty: "v \<noteq> []" using v "2.prems"(2) by (auto simp: redaction_marker_def)
      then obtain w where w: "v = c # w" "begins (render ?rest) w" using begins by (cases v) (auto simp: begins_def)
      have "CHR ''['' \<notin> set w" using v "2.prems"(2) [of v] w(1) by (auto simp: redaction_marker_def)
      from begins_render [OF w(2) this] have "prefix (map Some v) (Some c # ?rest)" by (simp add: w(1))
      then have "prefix (map Some v) (pieces match (c # cs))" using None by simp
      then have "sublist (map Some v) (pieces match (c # cs))" by (rule prefix_imp_sublist)
      with pieces_hide [OF exact v nonempty] show False by blast
    qed
    then have "match (c # render ?rest) = None"
      using exact unfolding matches_exactly_def by (metis option.exhaust)
    with None "2.IH"(1) [OF None "2.prems"] show ?thesis by simp
  next
    case (Some u)
    let ?rest = "render (pieces match (drop (length u - 1) cs))"
    have marker: "redaction_marker = CHR ''['' # ''REDACTED]''" by (simp add: redaction_marker_def)
    have "begins (redaction_marker @ ?rest) redaction_marker" by (simp add: begins_def)
    then obtain v where v: "match (redaction_marker @ ?rest) = Some v"
      using exact unfolding matches_exactly_def by (metis insertI1 option.exhaust)
    then have "v \<in> insert redaction_marker vs" "begins (redaction_marker @ ?rest) v"
      using exact unfolding matches_exactly_def by blast+
    then have "v = redaction_marker"
      using "2.prems"(2) [of v] by (cases v) (auto simp: begins_def marker)
    with v Some "2.IH"(2) [OF Some "2.prems"] show ?thesis by (simp add: marker)
  qed
qed simp

lemma redact_exact_coherent:
  assumes "coherent r"
  shows "redact_exact_values text r =
    (if sr_secrets r = [] then text else replace_matches (match_at (alternatives (sr_secrets r))) text,
     snd (exact_value_pattern r))"
  unfolding redact_exact_values_def by (subst exact_value_pattern_coherent(1) [OF assms]) simp

section \<open>Sensitive keys\<close>

text \<open>Python's white space among the characters below 256.\<close>

definition py_space :: "char \<Rightarrow> bool" where
  "py_space c \<longleftrightarrow> is_space c \<or> c \<in> {CHR 0x85, CHR 0xA0}"

definition strip_of :: "(char \<Rightarrow> bool) \<Rightarrow> string \<Rightarrow> string" where
  "strip_of p s = rev (dropWhile p (rev (dropWhile p s)))"

definition to_lower :: "char \<Rightarrow> char" where
  "to_lower c = (if CHR ''A'' \<le> c \<and> c \<le> CHR ''Z'' then char_of (of_char c + 32 :: nat) else c)"

definition sensitive_words :: "string list" where
  "sensitive_words = [''password'', ''passwd'', ''pwd'', ''secret'', ''token'', ''credential'', ''credentials'',
     ''authorization'', ''proxyauthorization'', ''proxy-authorization'', ''proxy_authorization'',
     ''apikey'', ''api-key'', ''api_key''] @
     concat (map (\<lambda>a. map ((@) a) ['''', ''id'', ''-id'', ''_id'']) [''accesskey'', ''access-key'', ''access_key'']) @
     [''secretkey'', ''secret-key'', ''secret_key'', ''clientsecret'', ''client-secret'', ''client_secret'',
      ''privatekey'', ''private-key'', ''private_key''] @
     concat (map (\<lambda>a. concat (map (\<lambda>b. concat (map (\<lambda>c. map (\<lambda>d.
       ''aws'' @ a @ ''access'' @ b @ ''key'' @ c @ d) [''id'']) ['''', ''-'', ''_''])) ['''', ''-'', ''_''])) ['''', ''-'', ''_'']) @
     [''signature'', ''sig'', ''cookie'', ''cookies'',
      ''setcookie'', ''set-cookie'', ''set_cookie'']"

text \<open>\<^verbatim>\<open>(?:[a-z0-9]+[-_.])*\<close>; the flag says that a segment has begun.\<close>

fun key_segments :: "bool \<Rightarrow> string \<Rightarrow> bool" where
  "key_segments begun [] \<longleftrightarrow> \<not> begun"
| "key_segments begun (c # cs) \<longleftrightarrow>
     (if is_lower c \<or> is_digit c then key_segments True cs
      else c \<in> set ''-_.'' \<and> begun \<and> key_segments False cs)"

definition sensitive_key :: "string \<Rightarrow> bool" where
  "sensitive_key k \<longleftrightarrow> (let s = map to_lower k in
     list_ex (\<lambda>w. length w \<le> length s \<and> drop (length s - length w) s = w \<and>
       key_segments False (take (length s - length w) s)) sensitive_words)"

definition is_sensitive_key :: "string \<Rightarrow> bool" where
  "is_sensitive_key key = (let normalized = strip_of (\<lambda>c. c \<in> {CHR 0x22, CHR 0x27}) (strip_of py_space key) in
     if normalized = ''PWD'' then False
     else sensitive_key (if take 2 normalized = ''--'' then drop 2 normalized else normalized))"

section \<open>JSON\<close>

definition numbered_key :: "string \<Rightarrow> nat \<Rightarrow> string" where
  "numbered_key k n = k @ ''_'' @ digits_of n"

fun digits_value :: "nat \<Rightarrow> string \<Rightarrow> nat" where
  "digits_value n [] = n"
| "digits_value n (c # cs) = digits_value (10 * n + (of_char c - 48)) cs"

lemma digits_value_append: "digits_value n (xs @ ys) = digits_value (digits_value n xs) ys"
  by (induction xs arbitrary: n) simp_all

lemma digits_value_digits: "digits_value 0 (digits_of n) = n"
proof (induction n rule: digits_of.induct)
  case (1 n)
  have digit: "of_char (char_of (48 + d) :: char) - 48 = d" if "d < 10" for d :: nat
    using that by (simp add: of_char_of)
  show ?case
  proof (cases "n < 10")
    case True
    then show ?thesis using digit [of n] by (simp add: digits_of.simps [of n])
  next
    case False
    then show ?thesis using 1 digit [of "n mod 10"]
      by (simp add: digits_of.simps [of n] digits_value_append del: of_char_of)
  qed
qed

lemma numbered_key_inject: "numbered_key k m = numbered_key k n \<Longrightarrow> m = n"
  unfolding numbered_key_def by (metis append.assoc digits_value_digits same_append_eq)

function free_suffix :: "string list \<Rightarrow> string \<Rightarrow> nat \<Rightarrow> nat" where
  "free_suffix keys k n = (if numbered_key k n \<in> set keys then free_suffix keys k (Suc n) else n)"
  by pat_completeness auto
termination
proof (relation "measure (\<lambda>(keys, k, n). card {m. n \<le> m \<and> numbered_key k m \<in> set keys})", goal_cases)
  case (2 keys k n)
  let ?from = "\<lambda>n. {m. n \<le> m \<and> numbered_key k m \<in> set keys}"
  have "finite {m. numbered_key k m \<in> set keys}"
    by (rule inj_on_finite [where f = "numbered_key k" and B = "set keys"]) (auto intro: inj_onI numbered_key_inject)
  then have "finite (?from n)" by (rule rev_finite_subset) blast
  moreover have "?from (Suc n) \<subset> ?from n"
  proof
    show "?from (Suc n) \<subseteq> ?from n" by auto
    have "n \<in> ?from n" "n \<notin> ?from (Suc n)" using 2 by simp_all
    then show "?from (Suc n) \<noteq> ?from n" by blast
  qed
  ultimately show ?case by (simp add: psubset_card_mono)
qed simp

declare free_suffix.simps [simp del]

lemma free_suffix_free: "numbered_key k (free_suffix keys k n) \<notin> set keys"
  by (induction keys k n rule: free_suffix.induct) (subst free_suffix.simps, simp)

definition redacted_key :: "(string \<Rightarrow> string) \<Rightarrow> string list \<Rightarrow> string \<Rightarrow> string" where
  "redacted_key red keys key = (let k = red key in
     if k \<in> set keys then numbered_key k (free_suffix keys k 2) else k)"

fun redact_entries :: "(string \<Rightarrow> string) \<Rightarrow> (string \<times> json) list \<Rightarrow> (string \<times> json) list \<Rightarrow> (string \<times> json) list" where
  "redact_entries red out [] = out"
| "redact_entries red out ((k, v) # kvs) =
     redact_entries red (out @ [(redacted_key red (map fst out) k, v)]) kvs"

text \<open>\<^verbatim>\<open>redact\<close>, with \<open>red\<close> for \<^verbatim>\<open>redact_text\<close>\<close>

fun redact_json :: "(string \<Rightarrow> string) \<Rightarrow> json \<Rightarrow> json" where
  "redact_json red (JStr s) = JStr (red s)"
| "redact_json red (JList xs) = JList (map (redact_json red) xs)"
| "redact_json red (JObj kvs) = JObj (redact_entries red [] (map (\<lambda>(k, v).
     (k, if is_sensitive_key k then JStr redaction_marker else redact_json red v)) kvs))"
| "redact_json red x = x"

lemma redact_entries_keep:
  "distinct (map fst out) \<Longrightarrow> distinct (map fst (redact_entries red out kvs)) \<and>
   map snd (redact_entries red out kvs) = map snd out @ map snd kvs"
proof (induction red out kvs rule: redact_entries.induct)
  case (2 red out k v kvs)
  have "redacted_key red (map fst out) k \<notin> set (map fst out)"
    using free_suffix_free [of _ "map fst out"] by (auto simp: redacted_key_def Let_def simp del: set_map)
  with 2 show ?case by (simp del: set_map)
qed simp


section \<open>Properties\<close>

text \<open>A registry with the secrets \<open>vs\<close>, in the order of their registration.\<close>

definition registry_of :: "string list \<Rightarrow> secret_registry" where
  "registry_of vs = register_many (map Some vs) empty_registry"

lemma register_secrets: "set (sr_secrets (register_many vs r)) = set (sr_secrets r) \<union> {v. Some v \<in> set vs \<and> v \<noteq> ''''}"
proof (induction vs arbitrary: r)
  case (Cons v vs)
  have "set (sr_secrets (register v r)) = set (sr_secrets r) \<union> {u. v = Some u \<and> u \<noteq> ''''}"
    by (auto simp: register_def split: option.splits)
  with Cons [of "register v r"] show ?case by (auto simp: register_many_def)
qed (simp add: register_many_def)

lemma registry_of_coherent: "coherent (registry_of vs)"
  unfolding registry_of_def by (rule coherent_register_many [OF coherent_empty])

lemma registry_of_secrets: "set (sr_secrets (registry_of vs)) = set vs - {''''}"
  by (auto simp: registry_of_def register_secrets empty_registry_def)

lemma no_secrets: "sr_secrets (registry_of vs) = [] \<longleftrightarrow> set vs \<subseteq> {''''}"
  using registry_of_secrets [of vs] by (metis Diff_eq_empty_iff set_empty)

text \<open>
  C39. A registered secret survives in no redacted text: what is written is the text with markers in
  it, and no secret can be read in the characters that were kept between two of them.
\<close>

theorem redaction_hides_secrets:
  assumes "v \<in> set vs" and "v \<noteq> ''''"
  shows "\<exists>ps. fst (redact_exact_values text (registry_of vs)) = render ps \<and> \<not> sublist (map Some v) ps"
proof -
  let ?match = "match_at (alternatives (sr_secrets (registry_of vs)))"
  have v: "v \<in> set (sr_secrets (registry_of vs))" using assms by (simp add: registry_of_secrets)
  have "\<not> sublist (map Some v) (pieces ?match text)"
    by (rule pieces_hide [OF match_alternatives _ assms(2)]) (use v in simp)
  moreover have "fst (redact_exact_values text (registry_of vs)) = render (pieces ?match text)"
    using v by (subst redact_exact_coherent [OF registry_of_coherent]) (auto simp: replace_is_render)
  ultimately show ?thesis by blast
qed

theorem redaction_hides_secrets_witness:
  "fst (redact_exact_values ''key=s3cr3t!'' (registry_of [''s3cr3t'', ''s3''])) = ''key=[REDACTED]!'' \<and>
   (\<exists>ps. fst (redact_exact_values ''key=s3cr3t!'' (registry_of [''s3cr3t'', ''s3''])) = render ps \<and>
      \<not> sublist (map Some ''s3cr3t'') ps)"
proof
  show "fst (redact_exact_values ''key=s3cr3t!'' (registry_of [''s3cr3t'', ''s3''])) = ''key=[REDACTED]!''"
    by (simp add: registry_of_def register_many_def register_def empty_registry_def redact_exact_values_def
        exact_value_pattern_def alternatives_def redaction_marker_def match_at_def begins_def Let_def)
  show "\<exists>ps. fst (redact_exact_values ''key=s3cr3t!'' (registry_of [''s3cr3t'', ''s3''])) = render ps \<and>
      \<not> sublist (map Some ''s3cr3t'') ps"
    by (rule redaction_hides_secrets) simp_all
qed

text \<open>
  The alternation of the sorted values, cached or not, replaces at each place the longest
  registered value that begins there, in whatever order the secrets were registered.
\<close>

theorem redaction_takes_the_longest:
  "fst (redact_exact_values text (snd (redact_exact_values earlier (registry_of vs)))) =
   (if set vs \<subseteq> {''''} then text
    else replace_matches (longest_match (redaction_marker # filter (\<lambda>v. v \<noteq> '''') vs)) text)"
proof -
  let ?r = "registry_of vs"
  let ?r' = "snd (redact_exact_values earlier ?r)"
  have r': "coherent ?r'" "sr_secrets ?r' = sr_secrets ?r"
    using exact_value_pattern_coherent(2,3) [OF registry_of_coherent] by (simp_all add: redact_exact_coherent registry_of_coherent)
  have "match_at (alternatives (sr_secrets ?r)) = longest_match (redaction_marker # filter (\<lambda>v. v \<noteq> '''') vs)"
  proof (rule matches_exactly_unique [OF match_alternatives])
    have "insert redaction_marker (set (sr_secrets ?r)) = set (redaction_marker # filter (\<lambda>v. v \<noteq> '''') vs)"
      by (auto simp: registry_of_secrets)
    then show "matches_exactly (insert redaction_marker (set (sr_secrets ?r)))
        (longest_match (redaction_marker # filter (\<lambda>v. v \<noteq> '''') vs))"
      using longest_match_exact [of "redaction_marker # filter (\<lambda>v. v \<noteq> '''') vs"] by simp
  qed
  then show ?thesis by (simp add: redact_exact_coherent [OF r'(1)] r'(2) no_secrets)
qed

text \<open>
  C40. Redacting twice is redacting once when no secret holds a bracket. With a secret that ends like
  a marker begins it is not: the second pass cuts the marker of the first.
\<close>

theorem redaction_is_idempotent:
  "((\<forall>v\<in>set vs. CHR ''['' \<notin> set v) \<longrightarrow>
     (let once = fst (redact_exact_values text (registry_of vs)) in
      fst (redact_exact_values once (registry_of vs)) = once)) \<and>
   (let once = fst (redact_exact_values ''xs'' (registry_of [''x['', ''s''])) in
     once = ''x[REDACTED]'' \<and>
     fst (redact_exact_values once (registry_of [''x['', ''s''])) = ''[REDACTED]REDACTED]'')"
proof -
  let ?secrets = "sr_secrets (registry_of vs)"
  have "replace_matches (match_at (alternatives ?secrets)) (replace_matches (match_at (alternatives ?secrets)) text) =
      replace_matches (match_at (alternatives ?secrets)) text" if "\<forall>v\<in>set vs. CHR ''['' \<notin> set v"
    by (rule replace_twice [OF match_alternatives]) (use that in \<open>auto simp: registry_of_secrets\<close>)
  then have "(\<forall>v\<in>set vs. CHR ''['' \<notin> set v) \<longrightarrow>
     (let once = fst (redact_exact_values text (registry_of vs)) in
      fst (redact_exact_values once (registry_of vs)) = once)"
    by (simp add: redact_exact_coherent registry_of_coherent Let_def)
  moreover have "(let once = fst (redact_exact_values ''xs'' (registry_of [''x['', ''s''])) in
     once = ''x[REDACTED]'' \<and>
     fst (redact_exact_values once (registry_of [''x['', ''s''])) = ''[REDACTED]REDACTED]'')"
    by (simp add: registry_of_def register_many_def register_def empty_registry_def redact_exact_values_def
        exact_value_pattern_def alternatives_def redaction_marker_def match_at_def begins_def Let_def)
  ultimately show ?thesis by blast
qed

theorem redaction_is_idempotent_witness:
  "let once = fst (redact_exact_values ''key=s3cr3t!'' (registry_of [''s3cr3t'', ''s3''])) in
   fst (redact_exact_values once (registry_of [''s3cr3t'', ''s3''])) = once"
  using redaction_is_idempotent [of "[''s3cr3t'', ''s3'']" "''key=s3cr3t!''"] by simp

text \<open>
  Redacting a JSON object drops no entry: the keys stay distinct however they are redacted, the
  values stay in their order, each redacted, and the value of a sensitive key is the marker.
\<close>

theorem redacted_json_keeps_entries:
  "\<exists>out. redact_json red (JObj kvs) = JObj out \<and> distinct (map fst out) \<and>
     map snd out = map (\<lambda>(k, v). if is_sensitive_key k then JStr redaction_marker else redact_json red v) kvs"
  using redact_entries_keep [of "[]" red "map (\<lambda>(k, v).
     (k, if is_sensitive_key k then JStr redaction_marker else redact_json red v)) kvs"]
  by (auto simp: comp_def case_prod_beta)

text \<open>The examples of the test suite.\<close>

lemma sensitive_key_examples:
  "list_all is_sensitive_key [''password'', ''pwd'', ''DATABASE_PWD'', ''--pwd'', ''DATABASE_PASSWORD'', ''api-key'',
     ''S3_SECRET_ACCESS_KEY'', ''x-amz-credential'', ''X-Amz-Signature'', ''authorization'', ''--client-secret'',
     ''session_token'', ''set-cookie'']"
  "\<not> list_ex is_sensitive_key [''PWD'', ''project'', ''candidate_port'', ''secretary'', ''tokenizer'']"
  by code_simp+

end
