(* ===== verification/Containers.thy ===== *)
theory Containers
  imports Evidence Redaction "HOL-Library.AList"
begin

text \<open>
  What the two container runners of \<^verbatim>\<open>dploydb/runners\<close> share: the commands they give to the
  executor, the reading of its output and of Docker's JSON, and the names of a project's resources.
  The executor, the file system and the parser of JSON text are fields of the runner's environment;
  the resolution of a path is a function of the file system that does not fail (no link loops).
\<close>

section \<open>Texts\<close>

definition is_line_break :: "char \<Rightarrow> bool" where
  "is_line_break c \<longleftrightarrow> c \<in> {CHR 0x0A, CHR 0x0B, CHR 0x0C, CHR 0x0D, CHR 0x1C, CHR 0x1D, CHR 0x1E, CHR 0x85}"

text \<open>The lines of a text; the empty one inside a \<^verbatim>\<open>CR LF\<close> is dropped by \<open>nonempty_lines\<close> as it should.\<close>

fun lines_of :: "string \<Rightarrow> string \<Rightarrow> string list" where
  "lines_of line [] = [line]"
| "lines_of line (c # cs) = (if is_line_break c then line # lines_of [] cs else lines_of (line @ [c]) cs)"

definition strip :: "string \<Rightarrow> string" where
  "strip s = strip_of py_space s"

definition nonempty_lines :: "string \<Rightarrow> string list" where
  "nonempty_lines s = filter (\<lambda>l. l \<noteq> '''') (map strip (lines_of '''' s))"

text \<open>\<^verbatim>\<open>int(text)\<close>: a sign, then digits with single underscores between them, at most 4300.\<close>

fun digits_int :: "bool \<Rightarrow> nat \<Rightarrow> string \<Rightarrow> nat option" where
  "digits_int digit n [] = (if digit then Some n else None)"
| "digits_int digit n (c # cs) =
    (if is_digit c then digits_int True (10 * n + (of_char c - 48)) cs
     else if c = CHR ''_'' \<and> digit then digits_int False n cs else None)"

definition unsigned_int :: "string \<Rightarrow> int option" where
  "unsigned_int s = (if 4300 < length (filter is_digit s) then None else map_option int (digits_int False 0 s))"

definition python_int :: "string \<Rightarrow> int option" where
  "python_int s = (case strip s of
      [] \<Rightarrow> None
    | c # cs \<Rightarrow> if c = CHR ''-'' then map_option uminus (unsigned_int cs)
       else if c = CHR ''+'' then unsigned_int cs else unsigned_int (c # cs))"

definition begins_with :: "string \<Rightarrow> string \<Rightarrow> bool" where
  "begins_with p s \<longleftrightarrow> take (length p) s = p"

definition without_prefix :: "string \<Rightarrow> string \<Rightarrow> string" where
  "without_prefix p s = (if begins_with p s then drop (length p) s else s)"

text \<open>Absolute paths in normal form: the directory, the last component, and what a directory contains.\<close>

definition last_component :: "string \<Rightarrow> string" where
  "last_component p = rev (takeWhile (\<lambda>c. c \<noteq> CHR ''/'') (rev p))"

definition parent_of :: "string \<Rightarrow> string" where
  "parent_of p = (let d = butlast (rev (dropWhile (\<lambda>c. c \<noteq> CHR ''/'') (rev p))) in if d = '''' then ''/'' else d)"

definition join_path :: "string \<Rightarrow> string \<Rightarrow> string" where
  "join_path d n = (if d = ''/'' then ''/'' @ n else d @ ''/'' @ n)"

definition is_relative_to :: "string \<Rightarrow> string \<Rightarrow> bool" where
  "is_relative_to p d \<longleftrightarrow> p = d \<or> begins_with (if d = ''/'' then ''/'' else d @ ''/'') p"

section \<open>The environment\<close>

type_synonym variables = "(string \<times> string) list"

text \<open>
  The configuration of a runner, the state of the file system it reads, and its executor: the last
  argument says whether the caller's cancellation event is passed on.
\<close>

record 'w docker_env =
  dk_project :: string
  dk_service :: string
  dk_compose_file :: string
  dk_volume_target :: string
  dk_candidate_port :: int
  dk_container_port :: int
  dk_startup_timeout :: int
  dk_test_mode_env :: variables
  dk_database_variable :: string
  dk_production_database :: string
  dk_command_environment :: variables
  dk_topology_project :: string
  dk_host_port :: int
  dk_health_url :: string
  dk_resolve :: "string \<Rightarrow> 'w \<Rightarrow> string"
  dk_is_file :: "string \<Rightarrow> 'w \<Rightarrow> bool"
  dk_same_file :: "string \<Rightarrow> string \<Rightarrow> ('w, exn, bool) act"
  dk_loads :: "string \<Rightarrow> string + json"
  dk_str :: "json \<Rightarrow> string"
  dk_repr :: "string \<Rightarrow> string"
  dk_redact :: "string \<Rightarrow> string"
  dk_register :: "string \<Rightarrow> 'w \<Rightarrow> 'w"
  dk_run :: "string list \<Rightarrow> variables \<Rightarrow> bool \<Rightarrow> ('w, exn, command_result) act"

text \<open>The variables of a command; the values of the sensitive ones are registered as secrets.\<close>

definition registering :: "'w docker_env \<Rightarrow> variables \<Rightarrow> ('w, 'e, variables) act" where
  "registering dk vs = andthen
     (modify (fold (\<lambda>(name, v). if is_sensitive_key name then dk_register dk v else id) vs)) (ret vs)"

definition compose_command :: "'w docker_env \<Rightarrow> string \<Rightarrow> string list \<Rightarrow> string list" where
  "compose_command dk project arguments =
     [''docker'', ''compose'', ''--file'', dk_compose_file dk, ''--project-name'', project] @ arguments"

text \<open>\<^verbatim>\<open>_absolute_resolved_path\<close>\<close>

definition absolute_resolved :: "'w docker_env \<Rightarrow> string \<Rightarrow> string \<Rightarrow> ('w, exn, string) act" where
  "absolute_resolved dk p name =
    (if \<not> is_absolute p then raise (value_error (name @ '' must be absolute''))
     else fetch (dk_resolve dk p))"

section \<open>Command results\<close>

definition successful_complete :: "command_result \<Rightarrow> bool" where
  "successful_complete r \<longleftrightarrow> command_succeeded r \<and> output_complete r"

definition failure_of_outcome :: "string \<Rightarrow> string \<Rightarrow> command_result \<Rightarrow> string" where
  "failure_of_outcome action otherwise r =
    (if \<not> output_complete r then action @ '' exceeded the bounded evidence limit''
     else case cr_outcome r of
       CO_nonzero_exit \<Rightarrow> action @ '' exited with status '' @ exit_text (cr_exit_code r)
     | CO_timed_out \<Rightarrow> action @ '' timed out and its process group was terminated''
     | CO_cancelled \<Rightarrow> action @ '' was cancelled and its process group was terminated''
     | CO_cleanup_failed \<Rightarrow> action @ '' process cleanup could not be proven''
     | CO_start_failed \<Rightarrow> action @ '' could not start: '' @
         (case cr_start_error r of Some e \<Rightarrow> if e = '''' then ''unknown error'' else e | None \<Rightarrow> ''unknown error'')
     | CO_succeeded \<Rightarrow> action @ '' returned invalid success evidence'' @ otherwise)"

definition no_output :: "command_result \<Rightarrow> bool" where
  "no_output r \<longleftrightarrow> successful_complete r \<and> nonempty_lines (co_text (cr_stdout r)) = []"

section \<open>Docker's JSON\<close>

definition required_mapping :: "(string \<times> json) list \<Rightarrow> string \<Rightarrow> (string \<times> json) list result" where
  "required_mapping raw key = (case json_get raw key of
      Some (JObj kvs) \<Rightarrow> Inr kvs
    | _ \<Rightarrow> Inl (value_error (''inspection field '' @ key @ '' must be an object'')))"

definition required_text :: "(string \<times> json) list \<Rightarrow> string \<Rightarrow> string result" where
  "required_text raw key = (case json_get raw key of
      Some (JStr s) \<Rightarrow> if s \<noteq> '''' then Inr s
        else Inl (value_error (''inspection field '' @ key @ '' must be non-empty text''))
    | _ \<Rightarrow> Inl (value_error (''inspection field '' @ key @ '' must be non-empty text'')))"

text \<open>\<^verbatim>\<open>json.loads\<close> and \<^verbatim>\<open>_single_inspection\<close>\<close>

definition single_inspection :: "'w docker_env \<Rightarrow> string \<Rightarrow> (string \<times> json) list result" where
  "single_inspection dk text = (case dk_loads dk text of
      Inl e \<Rightarrow> Inl (PyException ''JSONDecodeError'' e)
    | Inr (JList [JObj kvs]) \<Rightarrow> Inr kvs
    | Inr _ \<Rightarrow> Inl (value_error ''expected exactly one inspected container''))"

definition mount_of_json :: "json \<Rightarrow> container_mount result" where
  "mount_of_json j = (case j of
      JObj kvs \<Rightarrow>
       (case (json_get kvs ''Type'', json_get kvs ''Source'', json_get kvs ''Destination'', json_get kvs ''RW'') of
          (Some (JStr t), Some (JStr s), Some (JStr d), Some (JBool rw)) \<Rightarrow>
            Inr \<lparr>mt_type = t, mt_source = s, mt_destination = d, mt_read_write = rw\<rparr>
        | _ \<Rightarrow> Inl (value_error ''inspection mount contains invalid fields''))
    | _ \<Rightarrow> Inl (value_error ''inspection mount must be an object''))"

fun collect_results :: "('a \<Rightarrow> 'b result) \<Rightarrow> 'a list \<Rightarrow> 'b list result" where
  "collect_results f [] = Inr []"
| "collect_results f (x # xs) = rbind (f x) (\<lambda>y. rbind (collect_results f xs) (\<lambda>ys. Inr (y # ys)))"

definition mounts_of :: "json option \<Rightarrow> container_mount list result" where
  "mounts_of j = (case j of
      Some (JList xs) \<Rightarrow> collect_results mount_of_json xs
    | _ \<Rightarrow> Inl (value_error ''inspection Mounts must be an array''))"

text \<open>A binding of a container port: port, host address, host port, published.\<close>

type_synonym port_binding = "int \<times> string \<times> int \<times> bool"

definition binding_of_json :: "int \<Rightarrow> json \<Rightarrow> port_binding result" where
  "binding_of_json port j = (case j of
      JObj kvs \<Rightarrow> (case (json_get kvs ''HostIp'', json_get kvs ''HostPort'') of
          (Some (JStr ip), Some (JStr text)) \<Rightarrow> (case python_int text of
              None \<Rightarrow> Inl (value_error ''inspection host port is invalid'')
            | Some host_port \<Rightarrow> Inr (port, ip, host_port, True))
        | _ \<Rightarrow> Inl (value_error ''inspection port binding contains invalid fields''))
    | _ \<Rightarrow> Inl (value_error ''inspection port binding must be an object''))"

definition ends_with :: "string \<Rightarrow> string \<Rightarrow> bool" where
  "ends_with p s \<longleftrightarrow> length p \<le> length s \<and> drop (length s - length p) s = p"

definition bindings_of_port :: "string \<times> json \<Rightarrow> port_binding list result" where
  "bindings_of_port entry = (case entry of (name, j) \<Rightarrow>
     if \<not> ends_with ''/tcp'' name then Inr []
     else (case python_int (take (length name - 4) name) of
        None \<Rightarrow> Inl (value_error ''inspection contains an invalid container port'')
      | Some port \<Rightarrow> (case j of
            JNull \<Rightarrow> Inr [(port, '''', 0, False)]
          | JList bs \<Rightarrow> collect_results (binding_of_json port) bs
          | _ \<Rightarrow> Inl (value_error ''inspection port bindings must be an array or null''))))"

definition published_ports :: "(string \<times> json) list \<Rightarrow> bool \<Rightarrow> port_binding list result" where
  "published_ports raw running =
     rbind (required_mapping raw (if running then ''NetworkSettings'' else ''HostConfig'')) (\<lambda>parent.
     case json_get parent (if running then ''Ports'' else ''PortBindings'') of
       Some (JObj kvs) \<Rightarrow> rbind (collect_results bindings_of_port kvs) (\<lambda>bs. Inr (concat bs))
     | _ \<Rightarrow> Inl (value_error (''inspection '' @
         (if running then ''NetworkSettings.Ports'' else ''HostConfig.PortBindings'') @ '' must be an object'')))"

definition label_is :: "(string \<times> json) list \<Rightarrow> string \<Rightarrow> string \<Rightarrow> bool" where
  "label_is labels key v \<longleftrightarrow> json_get labels key = Some (JStr v)"

text \<open>\<^verbatim>\<open>config.get("Labels")\<close>, and an empty mapping for anything else\<close>

definition labels_of :: "(string \<times> json) list \<Rightarrow> (string \<times> json) list" where
  "labels_of config = (case json_get config ''Labels'' of Some (JObj kvs) \<Rightarrow> kvs | _ \<Rightarrow> [])"

text \<open>The failures whose condition holds, in the order of the checks.\<close>

definition failures_of :: "(bool \<times> string) list \<Rightarrow> string list" where
  "failures_of checks = map snd (filter fst checks)"

lemma failures_of_none: "failures_of checks = [] \<longleftrightarrow> (\<forall>(b, _) \<in> set checks. \<not> b)"
  by (auto simp: failures_of_def filter_empty_conv)

section \<open>Names\<close>

definition compose_project_label :: string where "compose_project_label = ''com.docker.compose.project''"
definition compose_service_label :: string where "compose_service_label = ''com.docker.compose.service''"
definition operation_label :: string where "operation_label = ''io.dploydb.operation_id''"
definition role_label :: string where "role_label = ''io.dploydb.role''"
definition release_label :: string where "release_label = ''io.dploydb.release_id''"
definition version_variable :: string where "version_variable = ''DPLOYDB_VERSION''"

text \<open>\<^verbatim>\<open>re.sub(r"[^a-z0-9_-]", "-", project.lower()).strip("-_") or "app"\<close>\<close>

definition name_char :: "char \<Rightarrow> bool" where
  "name_char c \<longleftrightarrow> is_lower c \<or> is_digit c \<or> c \<in> set ''_-''"

definition safe_project :: "string \<Rightarrow> string" where
  "safe_project project =
    (let s = strip_of (\<lambda>c. c \<in> set ''-_'') (map (\<lambda>c. if name_char (to_lower c) then to_lower c else CHR ''-'') project)
     in if s = '''' then ''app'' else s)"

definition name_filter :: "string \<Rightarrow> string" where
  "name_filter container = ''name=^/'' @ container @ ''$''"

definition container_query :: "string \<Rightarrow> string list" where
  "container_query container = [''docker'', ''container'', ''ls'', ''--all'', ''--filter'',
     name_filter container, ''--format'', ''{{.Names}}'']"

definition network_query :: "string \<Rightarrow> string list" where
  "network_query project = [''docker'', ''network'', ''ls'', ''--filter'',
     ''label='' @ compose_project_label @ ''='' @ project, ''--format'', ''{{.ID}}'']"

definition remove_container :: "string \<Rightarrow> string list" where
  "remove_container container = [''docker'', ''container'', ''rm'', ''--force'', container]"

definition compose_down :: "'w docker_env \<Rightarrow> string \<Rightarrow> string list" where
  "compose_down dk project = compose_command dk project
     [''down'', ''--remove-orphans'', ''--timeout'', int_text (dk_startup_timeout dk)]"

end
