(* ===== verification/Candidate_Runner.thy ===== *)
theory Candidate_Runner
  imports Candidate Containers
begin

text \<open>
  The candidate runner of \<^verbatim>\<open>dploydb/runners/docker_compose.py\<close>: every method as the commands it gives
  to the executor and the decisions it takes on their output.
\<close>

section \<open>Construction\<close>

text \<open>\<^verbatim>\<open>_PROJECT_NAME\<close> and \<^verbatim>\<open>_ENVIRONMENT_NAME\<close>\<close>

definition is_project_name :: "string \<Rightarrow> bool" where
  "is_project_name s \<longleftrightarrow> (case s of [] \<Rightarrow> False
     | c # cs \<Rightarrow> is_alnum c \<and> length cs \<le> 63 \<and> list_all (\<lambda>d. is_alnum d \<or> d \<in> set ''._-'') cs)"

definition is_environment_name :: "string \<Rightarrow> bool" where
  "is_environment_name s \<longleftrightarrow> (case s of [] \<Rightarrow> False
     | c # cs \<Rightarrow> is_alnum c \<and> \<not> is_digit c \<and> list_all (\<lambda>d. is_alnum d \<or> d = CHR ''_'') cs \<or>
         c = CHR ''_'' \<and> list_all (\<lambda>d. is_alnum d \<or> d = CHR ''_'') cs)"

text \<open>
  The checks of the constructor. The environment it is given holds the path of the production database
  as configured, and afterwards the resolved one.
\<close>

definition new_candidate_runner :: "'w docker_env \<Rightarrow> string \<Rightarrow> ('w, exn, 'w docker_env) act" where
  "new_candidate_runner dk working_directory =
    (if \<not> is_project_name (dk_project dk)
     then raise (value_error ''project must be a bounded DployDB project identifier'')
     else if \<not> is_environment_name (dk_database_variable dk) \<or> dk_database_variable dk = version_variable
     then raise (value_error ''database_environment_name must be a safe non-reserved name'')
     else if version_variable \<in> set (map fst (dk_test_mode_env dk))
     then raise (value_error ''test_mode_env must not override DPLOYDB_VERSION'')
     else
     bnd (absolute_resolved dk (dk_production_database dk) ''production_database_path'') (\<lambda>p.
     bnd (fetch (dk_is_file dk p)) (\<lambda>file.
     if \<not> file then raise (value_error ''production_database_path must identify an existing file'')
     else
     bnd (absolute_resolved dk working_directory ''working_directory'') (\<lambda>_.
     ret (dk\<lparr>dk_production_database := p\<rparr>)))))"

section \<open>Identity\<close>

definition plain :: "('w, exn, 'a) act \<Rightarrow> ('w, runtime_exn, 'a) act" where
  "plain m = map_error Raised m"

definition candidate_project :: "'w docker_env \<Rightarrow> string \<Rightarrow> string" where
  "candidate_project dk i =
     ''dploydb-'' @ take 24 (safe_project (dk_project dk)) @ ''-'' @ take 16 (without_prefix ''op_'' i)"

definition derived_handle :: "'w docker_env \<Rightarrow> string \<Rightarrow> string \<Rightarrow> string \<Rightarrow> candidate_handle" where
  "derived_handle dk i v rehearsal =
     \<lparr>kh_operation_id = i, kh_version = v, kh_compose_project = candidate_project dk i,
      kh_container_name = candidate_project dk i @ ''-candidate'', kh_rehearsal_database_path = rehearsal,
      kh_candidate_database_path = join_path (dk_volume_target dk) (last_component rehearsal)\<rparr>"

definition validate_candidate_handle :: "'w docker_env \<Rightarrow> candidate_handle \<Rightarrow> ('w, runtime_exn, unit) act" where
  "validate_candidate_handle dk h = plain (
     bnd (lift_result (validated_operation_id (kh_operation_id h))) (\<lambda>i.
     bnd (lift_result (validated_release_identifier (kh_version h))) (\<lambda>v.
     bnd (absolute_resolved dk (kh_rehearsal_database_path h) ''handle.rehearsal_database_path'') (\<lambda>p.
     if h \<noteq> derived_handle dk i v p
     then raise (value_error ''candidate handle does not match its derived resource identity'')
     else ret ()))))"

section \<open>Commands\<close>

definition candidate_variables :: "'w docker_env \<Rightarrow> string \<Rightarrow> variables" where
  "candidate_variables dk v = fold (\<lambda>(k, x). AList.update k x) (dk_test_mode_env dk)
     (AList.update version_variable v (dk_command_environment dk))"

definition candidate_environment :: "'w docker_env \<Rightarrow> string \<Rightarrow> ('w, runtime_exn, variables) act" where
  "candidate_environment dk v = registering dk (candidate_variables dk v)"

definition docker :: "'w docker_env \<Rightarrow> string list \<Rightarrow> variables \<Rightarrow> bool \<Rightarrow> ('w, runtime_exn, command_result) act" where
  "docker dk command vs cancellable = plain (dk_run dk command vs cancellable)"

definition test_environment_arguments :: "'w docker_env \<Rightarrow> string list" where
  "test_environment_arguments dk = concat (map (\<lambda>name. [''--env'', name @ ''='' @
     (case map_of (dk_test_mode_env dk) name of Some v \<Rightarrow> v | None \<Rightarrow> '''')]) (sort (map fst (dk_test_mode_env dk))))"

definition start_command :: "'w docker_env \<Rightarrow> candidate_handle \<Rightarrow> string list" where
  "start_command dk h = compose_command dk (kh_compose_project h)
     ([''run'', ''--detach'', ''--no-TTY'', ''--no-deps'', ''--build'', ''--name'', kh_container_name h,
       ''--label'', operation_label @ ''='' @ kh_operation_id h, ''--label'', role_label @ ''=candidate'',
       ''--publish'', ''127.0.0.1:'' @ int_text (dk_candidate_port dk) @ '':'' @ int_text (dk_container_port dk),
       ''--volume'', parent_of (kh_rehearsal_database_path h) @ '':'' @ dk_volume_target dk @ '':rw'',
       ''--env'', dk_database_variable dk @ ''='' @ kh_candidate_database_path h] @
      test_environment_arguments dk @ [dk_service dk])"

definition candidate_command_failure :: "'w docker_env \<Rightarrow> string \<Rightarrow> command_result \<Rightarrow> string" where
  "candidate_command_failure dk action r =
     failure_of_outcome action ('': '' @ dk_repr dk (strip (co_text (cr_stdout r)))) r"

section \<open>Cleanup\<close>

definition prove_candidate_cleanup :: "'w docker_env \<Rightarrow> candidate_handle \<Rightarrow> ('w, runtime_exn, cleanup_proof) act" where
  "prove_candidate_cleanup dk h =
     andthen (validate_candidate_handle dk h)
    (bnd (candidate_environment dk (kh_version h)) (\<lambda>vs.
     bnd (docker dk (container_query (kh_container_name h)) vs False) (\<lambda>containers.
     bnd (docker dk (network_query (kh_compose_project h)) vs False) (\<lambda>networks.
     ret \<lparr>cp_container_absent = no_output containers, cp_networks_absent = no_output networks,
          cp_container_query = containers, cp_network_query = networks\<rparr>))))"

definition cleanup_commands_succeeded :: "candidate_cleanup \<Rightarrow> bool" where
  "cleanup_commands_succeeded c \<longleftrightarrow>
     successful_complete (kc_presence_query c) \<and> successful_complete (kc_compose_down c) \<and>
     option_all successful_complete (kc_remove_command c)"

definition stop_candidate_container :: "'w docker_env \<Rightarrow> candidate_handle \<Rightarrow> ('w, runtime_exn, candidate_cleanup) act" where
  "stop_candidate_container dk h =
     andthen (validate_candidate_handle dk h)
    (bnd (candidate_environment dk (kh_version h)) (\<lambda>vs.
     bnd (docker dk (container_query (kh_container_name h)) vs False) (\<lambda>presence.
     bnd (if successful_complete presence \<and> kh_container_name h \<in> set (nonempty_lines (co_text (cr_stdout presence)))
          then bnd (docker dk (remove_container (kh_container_name h)) vs False) (\<lambda>r. ret (Some r))
          else ret None) (\<lambda>remove.
     bnd (docker dk (compose_down dk (kh_compose_project h)) vs False) (\<lambda>down.
     bnd (prove_candidate_cleanup dk h) (\<lambda>proof.
     let cleanup = \<lparr>kc_presence_query = presence, kc_remove_command = remove, kc_compose_down = down, kc_proof = proof\<rparr>
     in if \<not> cleanup_commands_succeeded cleanup \<or> \<not> cleanup_proven proof
        then raise (Runner_failed Candidate_cleanup
          ''candidate cleanup could not be proven for the isolated Compose project'' (Some down) (Some cleanup))
        else ret cleanup))))))"

definition cleanup_after_failure :: "'w docker_env \<Rightarrow> candidate_handle \<Rightarrow> ('w, runtime_exn, candidate_cleanup) act" where
  "cleanup_after_failure dk h = catching (stop_candidate_container dk h) (\<lambda>x. case x of
      Runner_failed Candidate_cleanup _ _ cleanup \<Rightarrow> (case cleanup of
          Some c \<Rightarrow> ret c
        | None \<Rightarrow> raise (Raised (PyException ''AssertionError'' '''')))
    | _ \<Rightarrow> raise x)"

section \<open>Start\<close>

text \<open>The paths that a candidate may be given.\<close>

definition rehearsal_path :: "'w docker_env \<Rightarrow> string \<Rightarrow> ('w, exn, string) act" where
  "rehearsal_path dk path =
     bnd (absolute_resolved dk path ''rehearsal_database_path'') (\<lambda>p.
     bnd (fetch (dk_is_file dk p)) (\<lambda>file.
     if \<not> file then raise (value_error ''rehearsal_database_path must identify an existing file'')
     else if CHR '':'' \<in> set (parent_of p)
     then raise (value_error ''rehearsal workspace path must not contain a colon'')
     else
     bnd (if p = dk_production_database dk then ret True else dk_same_file dk p (dk_production_database dk)) (\<lambda>alias.
     if alias then raise (value_error ''candidate database must not alias the production database'')
     else if is_relative_to (dk_production_database dk) (parent_of p)
     then raise (value_error ''rehearsal workspace must not contain the production database'')
     else ret p)))"

definition reference_of :: "command_result \<Rightarrow> string" where
  "reference_of r = (case rev (nonempty_lines (co_text (cr_stdout r))) of [] \<Rightarrow> '''' | l # _ \<Rightarrow> l)"

definition usable_start :: "candidate_handle \<Rightarrow> command_result \<Rightarrow> bool" where
  "usable_start h r \<longleftrightarrow> successful_complete r \<and>
     (is_container_id (reference_of r) \<or> reference_of r = kh_container_name h)"

definition start_candidate_container ::
  "'w docker_env \<Rightarrow> string \<Rightarrow> string \<Rightarrow> string \<Rightarrow> ('w, runtime_exn, candidate_start) act" where
  "start_candidate_container dk operation_id version path =
     bnd (plain (lift_result (validated_operation_id operation_id))) (\<lambda>i.
     bnd (plain (lift_result (validated_release_identifier version))) (\<lambda>v.
     bnd (plain (rehearsal_path dk path)) (\<lambda>p.
     let h = derived_handle dk i v p in
     bnd (candidate_environment dk v) (\<lambda>vs.
     bnd (docker dk (start_command dk h) vs True) (\<lambda>result.
     if \<not> usable_start h result
     then bnd (cleanup_after_failure dk h) (\<lambda>cleanup.
       raise (Runner_failed Candidate_start
         (candidate_command_failure dk ''candidate Compose startup'' result @
            (if cleanup_proven (kc_proof cleanup) then '''' else ''; candidate cleanup could not be proven''))
         (Some result) (Some cleanup)))
     else ret \<lparr>ks_handle = h, ks_container_reference = reference_of result, ks_command = result\<rparr>)))))"

section \<open>Inspection\<close>

definition exposes_production :: "'w docker_env \<Rightarrow> (string \<Rightarrow> string) \<Rightarrow> container_mount \<Rightarrow> bool" where
  "exposes_production dk res m \<longleftrightarrow> mt_type m = ''bind'' \<and> begins_with ''/'' (mt_source m) \<and>
     (res (mt_source m) = dk_production_database dk \<or>
      is_relative_to (dk_production_database dk) (res (mt_source m)))"

definition isolation_checks ::
  "'w docker_env \<Rightarrow> (string \<Rightarrow> string) \<Rightarrow> candidate_handle \<Rightarrow> string \<Rightarrow> string \<Rightarrow> bool \<Rightarrow> (string \<times> json) list \<Rightarrow>
   container_mount list \<Rightarrow> port_binding list \<Rightarrow> (bool \<times> string) list"
where
  "isolation_checks dk res h container_id name running labels mounts ports =
    (let database = filter (\<lambda>m. mt_destination m = dk_volume_target dk) mounts;
         published = filter (\<lambda>(_, _, _, p). p) ports;
         matching = filter (\<lambda>(port, _, _, _). port = dk_container_port dk) published in
     [(name \<noteq> kh_container_name h, ''container name does not match the operation-derived name''),
      (\<not> is_container_id container_id, ''container ID is invalid''),
      (\<not> running, ''container is not running''),
      (\<not> label_is labels compose_project_label (kh_compose_project h),
        ''Compose project label does not match the isolated project''),
      (\<not> label_is labels compose_service_label (dk_service dk),
        ''Compose service label does not match the configured service''),
      (\<not> label_is labels operation_label (kh_operation_id h),
        ''DployDB operation label is missing or contradictory''),
      (\<not> label_is labels role_label ''candidate'', ''DployDB candidate role label is missing or contradictory''),
      (length database \<noteq> 1, ''candidate database target does not have exactly one mount''),
      (length database = 1 \<and> (mt_type (hd database) \<noteq> ''bind'' \<or>
         res (mt_source (hd database)) \<noteq> res (parent_of (kh_rehearsal_database_path h))),
        ''candidate database target is not bound to the rehearsal workspace''),
      (length database = 1 \<and> \<not> mt_read_write (hd database), ''candidate database mount is not writable''),
      (list_ex (exposes_production dk res) mounts, ''candidate bind mount exposes the production database''),
      (length matching \<noteq> 1, ''candidate container port does not have exactly one published binding''),
      (length matching = 1 \<and> (fst (snd (hd matching)) \<noteq> ''127.0.0.1'' \<or>
         fst (snd (snd (hd matching))) \<noteq> dk_candidate_port dk),
        ''candidate port is not bound to the configured loopback endpoint''),
      (length published \<noteq> 1, ''candidate publishes ports beyond the configured candidate endpoint'')])"

definition label_text :: "'w docker_env \<Rightarrow> (string \<times> json) list \<Rightarrow> string \<Rightarrow> string" where
  "label_text dk labels key = (case json_get labels key of None \<Rightarrow> '''' | Some (JStr s) \<Rightarrow> s | Some j \<Rightarrow> dk_str dk j)"

text \<open>\<^verbatim>\<open>_validated_inspection\<close>: the inspection and its failures\<close>

definition judge_candidate ::
  "'w docker_env \<Rightarrow> (string \<Rightarrow> string) \<Rightarrow> candidate_handle \<Rightarrow> (string \<times> json) list \<Rightarrow> command_result \<Rightarrow>
   (candidate_inspection \<times> string list) result"
where
  "judge_candidate dk res h raw command =
     rbind (required_text raw ''Id'') (\<lambda>container_id.
     rbind (required_text raw ''Name'') (\<lambda>full_name.
     rbind (required_mapping raw ''State'') (\<lambda>state.
     rbind (required_mapping raw ''Config'') (\<lambda>config.
     rbind (mounts_of (json_get raw ''Mounts'')) (\<lambda>mounts.
     rbind (published_ports raw True) (\<lambda>ports.
     let name = without_prefix ''/'' full_name;
         running = (json_get state ''Running'' = Some (JBool True));
         labels = labels_of config;
         matching = filter (\<lambda>(port, _, _, p). p \<and> port = dk_container_port dk) ports;
         host = (case matching of [(_, ip, hp, _)] \<Rightarrow> (ip, hp) | _ \<Rightarrow> ('''', 0))
     in Inr (\<lparr>ki_container_id = container_id, ki_container_name = name, ki_running = running,
           ki_compose_project = label_text dk labels compose_project_label,
           ki_compose_service = label_text dk labels compose_service_label,
           ki_operation_id = label_text dk labels operation_label,
           ki_host_ip = fst host, ki_host_port = snd host, ki_container_port = dk_container_port dk,
           ki_mounts = mounts, ki_command = command\<rparr>,
         failures_of (isolation_checks dk res h container_id name running labels mounts ports))))))))"

definition inspection_failure :: "command_result \<Rightarrow> string \<Rightarrow> runtime_exn" where
  "inspection_failure command msg = Runner_failed Candidate_inspection msg (Some command) None"

definition inspect_candidate_container ::
  "'w docker_env \<Rightarrow> candidate_handle \<Rightarrow> ('w, runtime_exn, candidate_inspection) act" where
  "inspect_candidate_container dk h =
     andthen (validate_candidate_handle dk h)
    (bnd (candidate_environment dk (kh_version h)) (\<lambda>vs.
     bnd (docker dk [''docker'', ''container'', ''inspect'', kh_container_name h] vs True) (\<lambda>result.
     if \<not> command_succeeded result
     then raise (inspection_failure result (candidate_command_failure dk ''candidate inspection'' result))
     else if \<not> output_complete result
     then raise (inspection_failure result ''candidate inspection exceeded the bounded evidence limit'')
     else
     bnd (fetch (\<lambda>w p. dk_resolve dk p w)) (\<lambda>res.
     case rbind (single_inspection dk (co_text (cr_stdout result))) (\<lambda>raw. judge_candidate dk res h raw result) of
       Inl x \<Rightarrow> raise (inspection_failure result
         (''candidate inspection returned invalid Docker JSON: '' @ dk_redact dk (exn_text x)))
     | Inr (inspection, failures) \<Rightarrow>
         if failures \<noteq> []
         then raise (inspection_failure result (''candidate isolation inspection failed: '' @ join_texts failures))
         else ret inspection))))"

definition collect_container_logs :: "'w docker_env \<Rightarrow> candidate_handle \<Rightarrow> ('w, runtime_exn, candidate_logs) act" where
  "collect_container_logs dk h =
     andthen (validate_candidate_handle dk h)
    (bnd (candidate_environment dk (kh_version h)) (\<lambda>vs.
     bnd (docker dk [''docker'', ''container'', ''logs'', kh_container_name h] vs True) (\<lambda>result.
     ret \<lparr>kl_handle = h, kl_command = result\<rparr>)))"

text \<open>The operations of the candidate stage on this runner.\<close>

definition with_docker_runner :: "'w docker_env \<Rightarrow> 'w candidate_ops \<Rightarrow> 'w candidate_ops" where
  "with_docker_runner dk ops = ops\<lparr>ko_start := start_candidate_container dk,
     ko_inspect := inspect_candidate_container dk, ko_collect_logs := collect_container_logs dk,
     ko_stop := stop_candidate_container dk\<rparr>"

end
