(* ===== verification/Candidate_Isolation.thy ===== *)
theory Candidate_Isolation
  imports Candidate_Runner Candidate_Runs
begin

text \<open>
  What the Docker runner promises to the candidate stage: an inspection that returns proves the
  isolation of the candidate, a stop that returns or proves its cleanup leaves no container of the
  operation, and therefore neither does a validation that ends without asking for recovery.
\<close>

section \<open>Computations of the runner\<close>

lemma plain_Inr: "plain m s = (Inr x, t) \<longleftrightarrow> m s = (Inr x, t)"
  by (simp add: plain_def map_error_Inr)

lemma plain_Inl: "plain m s = (Inl x, t) \<longleftrightarrow> (\<exists>y. x = Raised y \<and> m s = (Inl y, t))"
  by (auto simp: plain_def map_error_def split: prod.splits sum.splits)

lemma absolute_resolved_Inr: "absolute_resolved dk p name s = (Inr q, t) \<longleftrightarrow> is_absolute p \<and> q = dk_resolve dk p s \<and> t = s"
  by (auto simp: absolute_resolved_def raise_def fetch_def)

lemma lift_result_Inr: "lift_result r s = (Inr x, t) \<longleftrightarrow> r = Inr x \<and> t = s"
  by (auto simp: lift_result_def split: sum.split)

lemma validate_handle_Inr:
  assumes "validate_candidate_handle dk h s = (Inr x, t)"
  shows "t = s \<and> is_operation_id (kh_operation_id h) \<and>
    h = derived_handle dk (kh_operation_id h) (kh_version h) (dk_resolve dk (kh_rehearsal_database_path h) s)"
proof -
  from assms have "(bnd (lift_result (validated_operation_id (kh_operation_id h))) (\<lambda>i.
     bnd (lift_result (validated_release_identifier (kh_version h))) (\<lambda>v.
     bnd (absolute_resolved dk (kh_rehearsal_database_path h) ''handle.rehearsal_database_path'') (\<lambda>p.
     if h \<noteq> derived_handle dk i v p
     then raise (value_error ''candidate handle does not match its derived resource identity'')
     else ret ())))) s = (Inr x, t)"
    by (simp only: validate_candidate_handle_def plain_Inr)
  then show ?thesis
    by (elim bnd_InrE) (auto simp: lift_result_Inr absolute_resolved_Inr validated_operation_id_def
        validated_release_identifier_def raise_def ret_def split: if_splits)
qed

lemma registering_Inr: "registering dk vs s = (Inr x, t) \<Longrightarrow> x = vs"
  by (auto simp: registering_def ret_def elim!: andthen_InrE)

section \<open>Isolation\<close>

text \<open>
  The candidate as the live inspection must have found it; \<open>res\<close> resolves the paths.
\<close>

definition isolated :: "'w docker_env \<Rightarrow> (string \<Rightarrow> string) \<Rightarrow> candidate_handle \<Rightarrow> candidate_inspection \<Rightarrow> bool" where
  "isolated dk res h i \<longleftrightarrow>
     ki_running i \<and> is_container_id (ki_container_id i) \<and> ki_container_name i = kh_container_name h \<and>
     ki_compose_project i = kh_compose_project h \<and> ki_compose_service i = dk_service dk \<and>
     ki_operation_id i = kh_operation_id h \<and>
     ki_host_ip i = ''127.0.0.1'' \<and> ki_host_port i = dk_candidate_port dk \<and>
     (\<exists>m. filter (\<lambda>m. mt_destination m = dk_volume_target dk) (ki_mounts i) = [m] \<and> mt_type m = ''bind'' \<and>
        mt_read_write m \<and> res (mt_source m) = res (parent_of (kh_rehearsal_database_path h))) \<and>
     (\<forall>m \<in> set (ki_mounts i). \<not> exposes_production dk res m)"

text \<open>The only port that Docker publishes.\<close>

definition sole_port :: "'w docker_env \<Rightarrow> (string \<times> json) list \<Rightarrow> bool" where
  "sole_port dk raw \<longleftrightarrow> (\<exists>ports. published_ports raw True = Inr ports \<and>
     filter (\<lambda>(_, _, _, p). p) ports = [(dk_container_port dk, ''127.0.0.1'', dk_candidate_port dk, True)])"

lemma length_one: "length xs = 1 \<longleftrightarrow> (\<exists>x. xs = [x])"
  by (cases xs) auto

lemma label_is_text: "label_is labels key v \<Longrightarrow> label_text dk labels key = v"
  by (simp add: label_is_def label_text_def)

lemma judge_candidate_passes:
  assumes "judge_candidate dk res h raw command = Inr (i, [])"
  shows "isolated dk res h i \<and> sole_port dk raw"
proof -
  from assms obtain container_id full_name state config mounts ports where
    parts: "mounts_of (json_get raw ''Mounts'') = Inr mounts" "published_ports raw True = Inr ports" and
    result: "(let name = without_prefix ''/'' full_name;
         running = (json_get state ''Running'' = Some (JBool True));
         labels = labels_of config;
         matching = filter (\<lambda>(port, _, _, p). p \<and> port = dk_container_port dk) ports;
         host = (case matching of [(_, ip, hp, _)] \<Rightarrow> (ip, hp) | _ \<Rightarrow> (Nil, 0))
     in (\<lparr>ki_container_id = container_id, ki_container_name = name, ki_running = running,
           ki_compose_project = label_text dk labels compose_project_label,
           ki_compose_service = label_text dk labels compose_service_label,
           ki_operation_id = label_text dk labels operation_label,
           ki_host_ip = fst host, ki_host_port = snd host, ki_container_port = dk_container_port dk,
           ki_mounts = mounts, ki_command = command\<rparr>,
         failures_of (isolation_checks dk res h container_id name running labels mounts ports))) = (i, [])"
    unfolding judge_candidate_def by (elim rbind_InrE) (simp add: Let_def)
  let ?name = "without_prefix ''/'' full_name" and ?running = "json_get state ''Running'' = Some (JBool True)"
  let ?labels = "labels_of config"
  let ?published = "filter (\<lambda>(_, _, _, p). p) ports"
  let ?matching = "filter (\<lambda>(port, _, _, _). port = dk_container_port dk) ?published"
  let ?database = "filter (\<lambda>m. mt_destination m = dk_volume_target dk) mounts"
  have same: "filter (\<lambda>(port, _, _, p). p \<and> port = dk_container_port dk) ports = ?matching"
    unfolding filter_filter by (rule filter_cong) auto
  from result have none: "failures_of (isolation_checks dk res h container_id ?name ?running ?labels mounts ports) = []"
    by (simp add: Let_def)
  then have checks: "?name = kh_container_name h" "is_container_id container_id" ?running
    "label_is ?labels compose_project_label (kh_compose_project h)" "label_is ?labels compose_service_label (dk_service dk)"
    "label_is ?labels operation_label (kh_operation_id h)"
    "length ?database = 1" "mt_type (hd ?database) = ''bind''"
    "res (mt_source (hd ?database)) = res (parent_of (kh_rehearsal_database_path h))" "mt_read_write (hd ?database)"
    "\<not> list_ex (exposes_production dk res) mounts" "length ?matching = 1"
    "fst (snd (hd ?matching)) = ''127.0.0.1''" "fst (snd (snd (hd ?matching))) = dk_candidate_port dk"
    "length ?published = 1"
    unfolding failures_of_none isolation_checks_def by (simp_all add: Let_def)
  from checks(7) obtain m where m: "?database = [m]" unfolding length_one by blast
  from checks(15) obtain b where b: "?published = [b]" unfolding length_one by blast
  with checks(12) have matching: "?matching = [b]" "fst b = dk_container_port dk"
    by (auto simp: case_prod_beta split: if_splits)
  have "b \<in> set ?published" by (simp add: b)
  then have "snd (snd (snd b))" by auto
  with matching checks(13,14) have b': "b = (dk_container_port dk, ''127.0.0.1'', dk_candidate_port dk, True)"
    by (cases b) auto
  have found: "filter (\<lambda>(port, _, _, p). p \<and> port = dk_container_port dk) ports =
      [(dk_container_port dk, ''127.0.0.1'', dk_candidate_port dk, True)]"
    by (simp only: same matching(1) b')
  from result [unfolded Let_def found] have i: "ki_mounts i = mounts" "ki_running i" "ki_container_id i = container_id" "ki_container_name i = ?name"
    "ki_compose_project i = label_text dk ?labels compose_project_label"
    "ki_compose_service i = label_text dk ?labels compose_service_label"
    "ki_operation_id i = label_text dk ?labels operation_label" "ki_host_ip i = ''127.0.0.1''" "ki_host_port i = dk_candidate_port dk"
    using checks(3) by auto
  have texts: "label_text dk ?labels compose_project_label = kh_compose_project h"
    "label_text dk ?labels compose_service_label = dk_service dk" "label_text dk ?labels operation_label = kh_operation_id h"
    using checks(4-6) by (auto intro: label_is_text)
  have "isolated dk res h i"
    using checks i m texts by (simp add: isolated_def list_ex_iff)
  moreover have "sole_port dk raw" using parts(2) b b' by (simp add: sole_port_def)
  ultimately show ?thesis by blast
qed

lemma inspect_candidate_Inr:
  assumes "inspect_candidate_container dk h s = (Inr i, t)"
  shows "isolated dk (\<lambda>p. dk_resolve dk p t) h i \<and>
    (\<exists>raw. single_inspection dk (co_text (cr_stdout (ki_command i))) = Inr raw \<and> sole_port dk raw)"
  using assms unfolding inspect_candidate_container_def
proof (elim andthen_InrE bnd_InrE)
  fix a s1 vs s2 result s3
  assume last: "(if \<not> command_succeeded result
     then raise (inspection_failure result (candidate_command_failure dk ''candidate inspection'' result))
     else if \<not> output_complete result
     then raise (inspection_failure result ''candidate inspection exceeded the bounded evidence limit'')
     else
     bnd (fetch (\<lambda>w p. dk_resolve dk p w)) (\<lambda>res.
     case rbind (single_inspection dk (co_text (cr_stdout result))) (\<lambda>raw. judge_candidate dk res h raw result) of
       Inl x \<Rightarrow> raise (inspection_failure result
         (''candidate inspection returned invalid Docker JSON: '' @ dk_redact dk (exn_text x)))
     | Inr (inspection, failures) \<Rightarrow>
         if failures \<noteq> []
         then raise (inspection_failure result (''candidate isolation inspection failed: '' @ join_texts failures))
         else ret inspection)) s3 = (Inr i, t)"
  then obtain raw where raw: "single_inspection dk (co_text (cr_stdout result)) = Inr raw"
    "judge_candidate dk (\<lambda>p. dk_resolve dk p s3) h raw result = Inr (i, [])" "t = s3"
    by (auto simp: raise_def ret_def bnd_def fetch_def rbind_def split: if_splits sum.splits prod.splits)
  have "ki_command i = result"
    using raw(2) unfolding judge_candidate_def by (elim rbind_InrE) (auto simp: Let_def split: prod.splits)
  with raw judge_candidate_passes [OF raw(2)] show ?thesis by auto
qed

section \<open>Runners whose stops leave nothing\<close>

text \<open>
  What an event of the trace says of the candidate: whether its start failed clean or its stop
  succeeded, where it says anything, and what the last such event says. \<open>mine\<close> are the handles of
  the operation.
\<close>

definition event_proof :: "(candidate_handle \<Rightarrow> bool) \<Rightarrow> candidate_event \<Rightarrow> bool option" where
  "event_proof mine e = (case e of
      K_raised KC_start x \<Rightarrow> Some (settled_start x)
    | K_returned KC_start \<Rightarrow> Some False
    | K_returned (KC_stop h) \<Rightarrow> Some (mine h)
    | K_raised (KC_stop h) x \<Rightarrow> Some (mine h \<and> settled_stop x)
    | _ \<Rightarrow> None)"

fun latest_proof :: "(candidate_handle \<Rightarrow> bool) \<Rightarrow> candidate_event list \<Rightarrow> bool" where
  "latest_proof mine [] \<longleftrightarrow> False"
| "latest_proof mine (e # es) \<longleftrightarrow> (case event_proof mine e of None \<Rightarrow> latest_proof mine es | Some b \<Rightarrow> b)"

lemma event_proof_called [simp]: "event_proof mine (K_called c) = None"
  by (simp add: event_proof_def)

lemma event_proof_other:
  "c \<noteq> KC_start \<Longrightarrow> c \<notin> range KC_stop \<Longrightarrow> event_proof mine (K_returned c) = None \<and> event_proof mine (K_raised c x) = None"
  by (cases c) (auto simp: event_proof_def)

lemma latest_proof_skip:
  "call_of ` set new \<subseteq> range KC_event \<Longrightarrow> latest_proof mine (new @ tr) = latest_proof mine tr"
proof (induction new)
  case (Cons e new)
  then obtain m where "call_of e = KC_event m" by auto
  then have "event_proof mine e = None" by (cases e) (simp_all add: event_proof_def)
  with Cons show ?case by simp
qed simp

definition accounted :: "(candidate_handle \<Rightarrow> bool) \<Rightarrow> ('w \<Rightarrow> bool) \<Rightarrow> 'w candidate_context \<Rightarrow> bool" where
  "accounted mine gone s \<longleftrightarrow> (latest_proof mine (kx_trace s) \<longrightarrow> gone (kx_world s))"

lemma accounted_locals [keeping]:
  "keeps (accounted mine gone) (modify (\<lambda>s. s\<lparr>kx_started := st\<rparr>))"
  "keeps (accounted mine gone) (modify (\<lambda>s. s\<lparr>kx_inspection := i\<rparr>))"
  "keeps (accounted mine gone) (modify (\<lambda>s. s\<lparr>kx_health := h\<rparr>))"
  "keeps (accounted mine gone) (modify (\<lambda>s. s\<lparr>kx_logs := l\<rparr>))"
  "keeps (accounted mine gone) (modify (\<lambda>s. s\<lparr>kx_cleanup := c\<rparr>))"
  "keeps (accounted mine gone) (modify (\<lambda>s. s\<lparr>kx_started := None, kx_inspection := None, kx_health := None,
     kx_logs := None, kx_cleanup := None\<rparr>))"
  by (rule keeps_modify, simp add: accounted_def)+

lemma accounted_ask:
  assumes "c \<noteq> KC_start" and "c \<notin> range KC_stop" and "keeps gone m"
  shows "keeps (accounted mine gone) (ask wrap c m)"
proof (rule keepsI)
  fix s r t assume "ask wrap c m s = (r, t)" and inv: "accounted mine gone s"
  then show "accounted mine gone t"
    using event_proof_other [OF assms(1,2), of mine]
    by (elim ask_cases) (auto simp: accounted_def dest: keepsD [OF assms(3)])
qed

text \<open>The contract of a runner for one operation.\<close>

locale stopping_runner =
  fixes start :: "string \<Rightarrow> string \<Rightarrow> string \<Rightarrow> ('w, runtime_exn, candidate_start) act"
    and inspect :: "candidate_handle \<Rightarrow> ('w, runtime_exn, candidate_inspection) act"
    and logs :: "candidate_handle \<Rightarrow> ('w, runtime_exn, candidate_logs) act"
    and stop :: "candidate_handle \<Rightarrow> ('w, runtime_exn, candidate_cleanup) act"
    and operation_id :: string
    and mine :: "candidate_handle \<Rightarrow> bool"
    and gone :: "'w \<Rightarrow> bool"
  assumes start_mine: "start operation_id v p w = (Inr st, w') \<Longrightarrow> mine (ks_handle st)"
    and start_settled: "start operation_id v p w = (Inl x, w') \<Longrightarrow> settled_start x \<Longrightarrow> gone w'"
    and inspect_keeps: "keeps gone (inspect h)"
    and logs_keeps: "keeps gone (logs h)"
    and stop_returned: "mine h \<Longrightarrow> stop h w = (Inr c, w') \<Longrightarrow> gone w'"
    and stop_settled: "mine h \<Longrightarrow> stop h w = (Inl x, w') \<Longrightarrow> settled_stop x \<Longrightarrow> gone w'"
begin

lemma runtime_accounted:
  fixes ops :: "'w candidate_ops"
  assumes ops: "ko_start ops = start" "ko_inspect ops = inspect" "ko_collect_logs ops = logs" "ko_stop ops = stop"
    and quiet: "\<And>v p. keeps gone (ko_check ops v p)" "\<And>j m e. keeps gone (ko_append_event ops j m e)"
    and env: "ke_operation_id env = operation_id"
  shows "keeps (accounted mine gone) (validate_runtime env ops path)"
proof -
  have noting: "keeps (accounted mine gone) (candidate_note env ops m e)" for m e
    unfolding candidate_note_def by (intro keeping accounted_ask quiet) auto
  have starting: "keeps (accounted mine gone) (ask id KC_start (start operation_id v p))" for v p
  proof (rule keepsI)
    fix s r t assume "ask id KC_start (start operation_id v p) s = (r, t)"
    then show "accounted mine gone t"
      by (cases rule: ask_cases) (auto simp: accounted_def event_proof_def dest: start_settled)
  qed
  have stopping: "keeps (accounted mine gone) (ask id (KC_stop h) (stop h))" for h
  proof (rule keepsI)
    fix s r t assume "ask id (KC_stop h) (stop h) s = (r, t)"
    then show "accounted mine gone t"
      by (cases rule: ask_cases) (auto simp: accounted_def event_proof_def dest: stop_returned stop_settled)
  qed
  have "keeps (accounted mine gone) (start_candidate env ops p)" for p
    unfolding start_candidate_def ops env by (intro keeping starting noting)
  moreover have "keeps (accounted mine gone) (check_candidate env ops p st)" for p st
    unfolding check_candidate_def ops by (intro keeping accounted_ask inspect_keeps quiet noting) auto
  ultimately have "keeps (accounted mine gone) (primary_failure env ops path)"
    unfolding primary_failure_def run_checks_def by (intro keeping noting)
  moreover have "keeps (accounted mine gone) (collect_candidate_logs env ops h)" for h
    unfolding collect_candidate_logs_def ops
    by (intro keeping accounted_ask logs_keeps noting) (auto split: exn.split intro: keeping)
  moreover have cleanup: "keeps (accounted mine gone) (note_cleanup env ops m c)" for m c
    unfolding note_cleanup_def by (intro keeping noting)
  have "keeps (accounted mine gone) (failed_stop env ops x)" for x
    unfolding failed_stop_def
    by (auto split: runtime_exn.split runner_class.split option.split intro!: keeping cleanup)
  then have "keeps (accounted mine gone) (stop_candidate env ops h)" for h
    unfolding stop_candidate_def ops by (intro keeping cleanup stopping)
  moreover have "keeps (accounted mine gone) (conclude_runtime env p l c)" for p l c
    by (rule keepsI) (auto dest: conclude_stays)
  ultimately show ?thesis
    unfolding validate_runtime_def by (intro keeping)
qed

text \<open>
  A validation that returns, or fails without asking for recovery, leaves nothing of the operation,
  unless the record of an event was lost.
\<close>

lemma nothing_left:
  fixes ops :: "'w candidate_ops"
  assumes ops: "ko_start ops = start" "ko_inspect ops = inspect" "ko_collect_logs ops = logs" "ko_stop ops = stop"
    and quiet: "\<And>v p. keeps gone (ko_check ops v p)" "\<And>j m e. keeps gone (ko_append_event ops j m e)"
    and env: "ke_operation_id env = operation_id"
    and before: "\<not> latest_proof mine (kx_trace s)"
    and run: "validate_runtime env ops path s = (r, t)"
    and plain: "case r of Inl (Dploy e) \<Rightarrow> \<not> err_recovery e | Inl _ \<Rightarrow> False | Inr _ \<Rightarrow> True"
  shows "evidence_lost (kx_trace t) \<or> gone (kx_world t)"
proof -
  have accounted: "accounted mine gone t"
    using keepsD [OF runtime_accounted [OF ops quiet env] run] before by (simp add: accounted_def)
  have "evidence_lost (kx_trace t) \<or> latest_proof mine (kx_trace t)"
    using run
  proof (cases rule: validate_runtime_cases)
    case died
    with plain show ?thesis by (simp add: killed_def)
  next
    case (refused x w p)
    obtain e where e: "r = Inl (Dploy e)" "\<not> err_recovery e"
    proof (cases r)
      case (Inl x)
      with plain that show ?thesis by (cases x) auto
    next
      case (Inr x)
      with refused(4) have "conclude_runtime env (Some p) None None t = (Inr x, t)" by simp
      from conclude_Inr [OF this] show ?thesis by simp
    qed
    have "kx_started t = None" using refused(2) by (simp add: stays_def)
    with conclude_start [OF refused(4) [unfolded e]] have "normalize_primary env False (Some p) = Some e" by simp
    from normalize_primary_plain [OF this e(2)] have settled: "settled_start p" .
    from refused(2) have proof_of: "latest_proof mine (kx_trace t) = settled_start x"
      by (auto simp: stays_def latest_proof_skip event_proof_def)
    show ?thesis
    proof (cases "p = x")
      case False
      with refused(3) obtain m y where "p = Raised y" "K_raised (KC_event m) (Raised y) \<in> set (kx_trace t)" by blast
      moreover from this(1) settled obtain e' where "y = Dploy e'" "\<not> err_recovery e'"
        by (cases y) (auto simp: settled_start_def)
      ultimately show ?thesis by (auto simp: evidence_lost_def)
    qed (use settled proof_of in simp)
  next
    case (stopped st w primary logs_failed cleanup_failed out u)
    have "mine (ks_handle st)" using stopped(1) start_mine unfolding ops env by blast
    with stopped(3,4) have proof_of: "latest_proof mine (kx_trace t) =
        (case out of K_raised _ x \<Rightarrow> settled_stop x | _ \<Rightarrow> True)"
      by (auto simp: stays_def latest_proof_skip event_proof_def)
    have clean: "\<forall>f. cleanup_failed = Some f \<longrightarrow> \<not> err_recovery f"
    proof (cases r)
      case (Inl x)
      then obtain e where "r = Inl (Dploy e)" "\<not> err_recovery e" using plain by (auto split: exn.splits)
      with stopped(5) conclude_plain show ?thesis by blast
    next
      case (Inr x)
      with stopped(5) conclude_Inr show ?thesis by blast
    qed
    with stopped(4) proof_of show ?thesis by auto
  qed
  with accounted show ?thesis by (auto simp: accounted_def)
qed

end

section \<open>Docker's answers\<close>

text \<open>
  What is relied on: a complete and empty listing of the containers of that name means that there is
  none, the commands that only read and the registration of a secret create none, and neither the
  executor nor the comparison of two files raises an error of the program's own (they do not know
  these errors).
\<close>

definition only_reads :: "string list \<Rightarrow> bool" where
  "only_reads command \<longleftrightarrow> (\<exists>n. command = network_query n \<or> command = [''docker'', ''container'', ''inspect'', n] \<or>
     command = [''docker'', ''container'', ''logs'', n])"

definition reliable_docker :: "'w docker_env \<Rightarrow> string \<Rightarrow> ('w \<Rightarrow> bool) \<Rightarrow> bool" where
  "reliable_docker dk name present \<longleftrightarrow>
     (\<forall>vs b w r w'. dk_run dk (container_query name) vs b w = (Inr r, w') \<and> no_output r \<longrightarrow> \<not> present w') \<and>
     (\<forall>command vs b. only_reads command \<longrightarrow> keeps (\<lambda>w. \<not> present w) (dk_run dk command vs b)) \<and>
     (\<forall>v w. \<not> present w \<longrightarrow> \<not> present (dk_register dk v w)) \<and>
     (\<forall>command vs b w e w'. dk_run dk command vs b w \<noteq> (Inl (Dploy e), w')) \<and>
     (\<forall>p q w e w'. dk_same_file dk p q w \<noteq> (Inl (Dploy e), w'))"

text \<open>Computations that raise nothing of the program's own and none of the runner's errors.\<close>

definition foreign :: "runtime_exn \<Rightarrow> bool" where
  "foreign x \<longleftrightarrow> (\<exists>y. x = Raised y \<and> (\<forall>e. y \<noteq> Dploy e))"

definition raises_foreign :: "('s, runtime_exn, 'a) act \<Rightarrow> bool" where
  "raises_foreign m \<longleftrightarrow> (\<forall>s x t. m s = (Inl x, t) \<longrightarrow> foreign x)"

lemma foreign_unsettled: "foreign x \<Longrightarrow> \<not> settled_start x \<and> \<not> settled_stop x"
  by (cases "case x of Raised y \<Rightarrow> Some y | _ \<Rightarrow> None")
    (auto simp: foreign_def settled_start_def settled_stop_def split: runtime_exn.splits exn.splits)

named_theorems foreign_rules "rules for computations that raise foreign errors only"

lemma raises_foreign_simple [foreign_rules]:
  "raises_foreign (ret x)" "raises_foreign (fetch f)" "raises_foreign (modify g)"
  by (simp_all add: raises_foreign_def ret_def fetch_def modify_def)

lemma raises_foreign_bnd [foreign_rules]:
  "raises_foreign m \<Longrightarrow> (\<And>x. raises_foreign (f x)) \<Longrightarrow> raises_foreign (bnd m f)"
  by (auto simp: raises_foreign_def bnd_def split: prod.splits sum.splits)

lemma raises_foreign_andthen [foreign_rules]: "raises_foreign m \<Longrightarrow> raises_foreign n \<Longrightarrow> raises_foreign (andthen m n)"
  unfolding andthen_def by (rule raises_foreign_bnd)

lemma raises_foreign_if [foreign_rules]: "raises_foreign m \<Longrightarrow> raises_foreign n \<Longrightarrow> raises_foreign (if b then m else n)"
  by simp

text \<open>The same of a computation whose errors are those of the program.\<close>

lemma raises_foreign_plain:
  assumes "\<And>s e t. m s \<noteq> (Inl (Dploy e), t)"
  shows "raises_foreign (plain m)"
  using assms by (auto simp: raises_foreign_def plain_Inl foreign_def)

definition no_dploy :: "('s, exn, 'a) act \<Rightarrow> bool" where
  "no_dploy m \<longleftrightarrow> (\<forall>s e t. m s \<noteq> (Inl (Dploy e), t))"

lemma no_dploy_rules [foreign_rules]:
  "no_dploy (ret x)" "no_dploy (fetch f)" "no_dploy (raise (value_error msg))"
  "no_dploy (lift_result (validated_operation_id i))" "no_dploy (lift_result (validated_release_identifier v))"
  by (simp_all add: no_dploy_def ret_def fetch_def raise_def value_error_def lift_result_def validated_operation_id_def
      validated_release_identifier_def)

lemma no_dploy_bnd [foreign_rules]: "no_dploy m \<Longrightarrow> (\<And>x. no_dploy (f x)) \<Longrightarrow> no_dploy (bnd m f)"
  by (auto simp: no_dploy_def bnd_def split: prod.splits sum.splits)

lemma no_dploy_if [foreign_rules]: "no_dploy m \<Longrightarrow> no_dploy n \<Longrightarrow> no_dploy (if b then m else n)"
  by simp

lemma plain_foreign [foreign_rules]: "no_dploy m \<Longrightarrow> raises_foreign (plain m)"
  by (rule raises_foreign_plain) (simp add: no_dploy_def)

lemma no_dploy_resolved [foreign_rules]: "no_dploy (absolute_resolved dk p name)"
  unfolding absolute_resolved_def by (intro foreign_rules)

lemma foreign_handle [foreign_rules]: "raises_foreign (validate_candidate_handle dk h)"
  unfolding validate_candidate_handle_def by (intro foreign_rules)

lemma foreign_environment [foreign_rules]: "raises_foreign (candidate_environment dk v)"
  unfolding candidate_environment_def registering_def by (intro foreign_rules)

lemma foreign_docker: "reliable_docker dk name present \<Longrightarrow> raises_foreign (docker dk command vs b)"
  unfolding docker_def by (rule raises_foreign_plain) (simp add: reliable_docker_def)

lemma keeps_plain: "keeps I m \<Longrightarrow> keeps I (plain m)"
  unfolding plain_def by (rule keeps_map_error)

lemma absent_registering:
  assumes "reliable_docker dk name present"
  shows "keeps (\<lambda>w. \<not> present w) (registering dk vs)"
proof -
  have "\<not> present w \<Longrightarrow> \<not> present (fold (\<lambda>(name, v). if is_sensitive_key name then dk_register dk v else id) vs w)" for w
    using assms by (induction vs arbitrary: w) (auto simp: reliable_docker_def)
  then show ?thesis unfolding registering_def by (intro keeping keeps_modify) blast
qed

lemma absent_docker:
  "reliable_docker dk name present \<Longrightarrow> only_reads command \<Longrightarrow> keeps (\<lambda>w. \<not> present w) (docker dk command vs b)"
  unfolding docker_def by (rule keeps_plain) (simp add: reliable_docker_def)

section \<open>The runner's stops\<close>

lemma prove_cleanup_absent:
  assumes reliable: "reliable_docker dk (kh_container_name h) present"
    and run: "prove_candidate_cleanup dk h s = (Inr p, t)" and proven: "cleanup_proven p"
  shows "\<not> present t"
  using run unfolding prove_candidate_cleanup_def
proof (elim andthen_InrE bnd_InrE)
  fix x s1 vs s2 containers s3 networks s4
  assume calls: "docker dk (container_query (kh_container_name h)) vs False s2 = (Inr containers, s3)"
    "docker dk (network_query (kh_compose_project h)) vs False s3 = (Inr networks, s4)"
    "ret \<lparr>cp_container_absent = no_output containers, cp_networks_absent = no_output networks,
       cp_container_query = containers, cp_network_query = networks\<rparr> s4 = (Inr p, t)"
  from calls(3) proven have "no_output containers" "t = s4" by (auto simp: ret_def cleanup_proven_def)
  with calls(1) reliable have "\<not> present s3" by (simp add: docker_def plain_Inr reliable_docker_def)
  moreover have "only_reads (network_query (kh_compose_project h))" by (auto simp: only_reads_def)
  ultimately show ?thesis using keepsD [OF absent_docker [OF reliable] calls(2)] \<open>t = s4\<close> by simp
qed

lemma foreign_prove: "reliable_docker dk name present \<Longrightarrow> raises_foreign (prove_candidate_cleanup dk h)"
  unfolding prove_candidate_cleanup_def by (intro foreign_rules foreign_docker)

text \<open>A stop proves the absence of the container, or raises its typed error with the evidence, or an error of its surroundings.\<close>

lemma stop_container_cases:
  assumes reliable: "reliable_docker dk (kh_container_name h) present"
    and run: "stop_candidate_container dk h s = (r, t)"
  obtains (stopped) c where "r = Inr c" "cleanup_proven (kc_proof c)" "\<not> present t"
  | (unproven) msg command c where "r = Inl (Runner_failed Candidate_cleanup msg command (Some c))"
      "cleanup_proven (kc_proof c) \<Longrightarrow> \<not> present t"
  | (foreign) x where "r = Inl x" "foreign x"
proof -
  let ?vs = "candidate_environment dk (kh_version h)"
  let ?query = "\<lambda>vs. docker dk (container_query (kh_container_name h)) vs False"
  let ?remove = "\<lambda>vs presence. if successful_complete presence \<and> kh_container_name h \<in> set (nonempty_lines (co_text (cr_stdout presence)))
      then bnd (docker dk (remove_container (kh_container_name h)) vs False) (\<lambda>r. ret (Some r)) else ret None"
  let ?down = "\<lambda>vs. docker dk (compose_down dk (kh_compose_project h)) vs False"
  let ?cleanup = "\<lambda>presence remove down proof. \<lparr>kc_presence_query = presence, kc_remove_command = remove,
      kc_compose_down = down, kc_proof = proof\<rparr>"
  let ?judge = "\<lambda>cleanup. if \<not> cleanup_commands_succeeded cleanup \<or> \<not> cleanup_proven (kc_proof cleanup)
      then raise (Runner_failed Candidate_cleanup
        ''candidate cleanup could not be proven for the isolated Compose project'' (Some (kc_compose_down cleanup)) (Some cleanup))
      else ret cleanup"
  let ?collect = "andthen (validate_candidate_handle dk h) (bnd ?vs (\<lambda>vs. bnd (?query vs) (\<lambda>presence.
      bnd (?remove vs presence) (\<lambda>remove. bnd (?down vs) (\<lambda>down. bnd (prove_candidate_cleanup dk h) (\<lambda>proof.
      ret (?cleanup presence remove down proof)))))))"
  have split: "stop_candidate_container dk h = bnd ?collect ?judge"
    by (rule ext) (simp add: stop_candidate_container_def andthen_def bnd_def ret_def Let_def split: prod.split sum.split)
  have "raises_foreign ?collect"
    by (intro foreign_rules foreign_docker [OF reliable] foreign_prove [OF reliable])
  show ?thesis
  proof (cases "?collect s")
    case (Pair r0 u)
    show ?thesis
    proof (cases r0)
      case (Inl x)
      with run split Pair have "r = Inl x" by (simp add: bnd_def)
      moreover have "foreign x" using \<open>raises_foreign ?collect\<close> Pair Inl by (auto simp: raises_foreign_def)
      ultimately show ?thesis by (rule that(3))
    next
      case (Inr c)
      with run split Pair have judged: "?judge c u = (r, t)" by (simp add: bnd_def)
      have absent: "\<not> present u" if "cleanup_proven (kc_proof c)"
      proof -
        from Pair Inr have "?collect s = (Inr c, u)" by simp
        then obtain p u' where "prove_candidate_cleanup dk h u' = (Inr p, u)" "kc_proof c = p"
          by (elim andthen_InrE bnd_InrE) (auto simp: ret_def)
        with that prove_cleanup_absent [OF reliable] show ?thesis by blast
      qed
      show ?thesis
      proof (cases "\<not> cleanup_commands_succeeded c \<or> \<not> cleanup_proven (kc_proof c)")
        case True
        with judged have "r = Inl (Runner_failed Candidate_cleanup
            ''candidate cleanup could not be proven for the isolated Compose project'' (Some (kc_compose_down c)) (Some c))" "t = u"
          by (simp_all add: raise_def)
        with absent that(2) show ?thesis by blast
      next
        case False
        with judged have "r = Inr c" "t = u" by (simp_all add: ret_def)
        with False absent that(1) show ?thesis by blast
      qed
    qed
  qed
qed

definition candidate_container :: "'w docker_env \<Rightarrow> string \<Rightarrow> string" where
  "candidate_container dk i = candidate_project dk i @ ''-candidate''"

lemma derived_container [simp]: "kh_container_name (derived_handle dk i v p) = candidate_container dk i"
  by (simp add: derived_handle_def candidate_container_def)

lemma foreign_start_path: "reliable_docker dk name present \<Longrightarrow> raises_foreign (plain (rehearsal_path dk path))"
proof (rule plain_foreign)
  assume "reliable_docker dk name present"
  then have "no_dploy (dk_same_file dk p q)" for p q by (simp add: no_dploy_def reliable_docker_def)
  then show "no_dploy (rehearsal_path dk path)" unfolding rehearsal_path_def by (intro foreign_rules)
qed

lemma cleanup_after_failure_cases:
  assumes reliable: "reliable_docker dk (kh_container_name h) present"
    and run: "cleanup_after_failure dk h s = (r, t)"
  shows "(\<exists>c. r = Inr c \<and> (cleanup_proven (kc_proof c) \<longrightarrow> \<not> present t)) \<or> (\<exists>x. r = Inl x \<and> foreign x)"
proof (cases "stop_candidate_container dk h s")
  case (Pair r0 u)
  from reliable Pair show ?thesis
  proof (cases rule: stop_container_cases)
    case (foreign x)
    then obtain y where "x = Raised y" by (auto simp: foreign_def)
    with foreign Pair run show ?thesis by (auto simp: cleanup_after_failure_def catching_def raise_def)
  qed (use Pair run in \<open>auto simp: cleanup_after_failure_def catching_def ret_def\<close>)
qed

lemma start_container_cases:
  assumes reliable: "reliable_docker dk (candidate_container dk i) present"
    and run: "start_candidate_container dk i v path s = (r, t)"
  obtains (started) st where "r = Inr st" "kh_container_name (ks_handle st) = candidate_container dk i"
  | (failed) msg command c where "r = Inl (Runner_failed Candidate_start msg command (Some c))"
      "cleanup_proven (kc_proof c) \<Longrightarrow> \<not> present t"
  | (foreign) x where "r = Inl x" "foreign x"
proof -
  let ?judge = "\<lambda>(h, result). if \<not> usable_start h result
     then bnd (cleanup_after_failure dk h) (\<lambda>cleanup.
       raise (Runner_failed Candidate_start
         (candidate_command_failure dk ''candidate Compose startup'' result @
            (if cleanup_proven (kc_proof cleanup) then [] else ''; candidate cleanup could not be proven''))
         (Some result) (Some cleanup)))
     else ret \<lparr>ks_handle = h, ks_container_reference = reference_of result, ks_command = result\<rparr>"
  let ?prepare = "bnd (plain (lift_result (validated_operation_id i))) (\<lambda>i.
     bnd (plain (lift_result (validated_release_identifier v))) (\<lambda>v.
     bnd (plain (rehearsal_path dk path)) (\<lambda>p.
     bnd (candidate_environment dk v) (\<lambda>vs.
     bnd (docker dk (start_command dk (derived_handle dk i v p)) vs True) (\<lambda>result.
     ret (derived_handle dk i v p, result))))))"
  have split: "start_candidate_container dk i v path = bnd ?prepare ?judge"
    by (rule ext) (simp add: start_candidate_container_def bnd_def ret_def Let_def split: prod.split sum.split)
  have foreign: "raises_foreign ?prepare"
    by (intro foreign_rules foreign_docker [OF reliable] foreign_start_path [OF reliable])
  show ?thesis
  proof (cases "?prepare s")
    case (Pair r0 u)
    show ?thesis
    proof (cases r0)
      case (Inl x)
      with run split Pair have "r = Inl x" by (simp add: bnd_def)
      moreover have "foreign x" using foreign Pair Inl by (auto simp: raises_foreign_def)
      ultimately show ?thesis by (rule that(3))
    next
      case (Inr hr)
      then have "?prepare s = (Inr hr, u)" using Pair by simp
      then obtain h result where h: "hr = (h, result)" "kh_container_name h = candidate_container dk i"
        by (elim bnd_InrE) (auto simp: ret_def plain_Inr lift_result_Inr validated_operation_id_def split: if_splits)
      from run split Pair Inr have judged: "?judge (h, result) u = (r, t)" by (simp add: bnd_def h(1))
      show ?thesis
      proof (cases "usable_start h result")
        case True
        with judged have "r = Inr \<lparr>ks_handle = h, ks_container_reference = reference_of result, ks_command = result\<rparr>"
          by (simp add: ret_def)
        with that(1) h(2) show ?thesis by simp
      next
        case False
        from reliable have reliable': "reliable_docker dk (kh_container_name h) present" by (simp add: h(2))
        obtain r1 w where cleanup: "cleanup_after_failure dk h u = (r1, w)" by (cases "cleanup_after_failure dk h u")
        from cleanup_after_failure_cases [OF reliable' cleanup]
        consider c where "r1 = Inr c" "cleanup_proven (kc_proof c) \<longrightarrow> \<not> present w" | x where "r1 = Inl x" "foreign x"
          by blast
        then show ?thesis
        proof cases
          case 1
          with judged False cleanup have "\<exists>msg command. r = Inl (Runner_failed Candidate_start msg command (Some c))" "w = t"
            by (auto simp: bnd_def raise_def)
          with 1(2) that(2) show ?thesis by blast
        next
          case 2
          with judged False cleanup have "r = Inl x" by (auto simp: bnd_def)
          with 2(2) that(3) show ?thesis by blast
        qed
      qed
    qed
  qed
qed

section \<open>The contract holds\<close>

lemma docker_stops:
  assumes reliable: "reliable_docker dk (candidate_container dk i) present"
  shows "stopping_runner (start_candidate_container dk) (inspect_candidate_container dk) (collect_container_logs dk)
    (stop_candidate_container dk) i (\<lambda>h. kh_container_name h = candidate_container dk i) (\<lambda>w. \<not> present w)"
proof
  fix v p w st w' assume "start_candidate_container dk i v p w = (Inr st, w')"
  with reliable show "kh_container_name (ks_handle st) = candidate_container dk i"
    by (cases rule: start_container_cases) simp_all
next
  fix v p w x w' assume run: "start_candidate_container dk i v p w = (Inl x, w')" and settled: "settled_start x"
  from reliable run show "\<not> present w'"
    by (cases rule: start_container_cases) (use settled foreign_unsettled in \<open>auto simp: settled_start_def\<close>)
next
  fix h
  have local: "keeps (\<lambda>w. \<not> present w) (validate_candidate_handle dk h)"
    unfolding validate_candidate_handle_def absolute_resolved_def by (intro keeps_plain keeping)
  have environment: "keeps (\<lambda>w. \<not> present w) (candidate_environment dk v)" for v
    unfolding candidate_environment_def by (rule absent_registering [OF reliable])
  have reads: "only_reads [''docker'', ''container'', ''inspect'', n]" "only_reads [''docker'', ''container'', ''logs'', n]" for n
    unfolding only_reads_def by blast+
  show "keeps (\<lambda>w. \<not> present w) (inspect_candidate_container dk h)"
    unfolding inspect_candidate_container_def
    by (intro keeping local environment absent_docker [OF reliable reads(1)])
  show "keeps (\<lambda>w. \<not> present w) (collect_container_logs dk h)"
    unfolding collect_container_logs_def by (intro keeping local environment absent_docker [OF reliable reads(2)])
next
  fix h w c w' assume name: "kh_container_name h = candidate_container dk i" and run: "stop_candidate_container dk h w = (Inr c, w')"
  from reliable name have "reliable_docker dk (kh_container_name h) present" by simp
  from this run show "\<not> present w'" by (cases rule: stop_container_cases) simp_all
next
  fix h w x w' assume name: "kh_container_name h = candidate_container dk i"
    and run: "stop_candidate_container dk h w = (Inl x, w')" and settled: "settled_stop x"
  from reliable name have "reliable_docker dk (kh_container_name h) present" by simp
  from this run show "\<not> present w'"
    by (cases rule: stop_container_cases) (use settled foreign_unsettled in \<open>auto simp: settled_stop_def\<close>)
qed

text \<open>
  C28. No candidate container survives a validation on the Docker runner that returns, or fails
  without asking for recovery, unless the record of an event was lost: given that Docker's listings
  are truthful, and that the health checks and the operation store start no such container.
\<close>

theorem no_candidate_container_survives:
  fixes s t :: "'w candidate_context"
  assumes "reliable_docker dk (candidate_container dk (ke_operation_id env)) present"
    and "\<And>v p. keeps (\<lambda>w. \<not> present w) (ko_check ops v p)" and "\<And>i m e. keeps (\<lambda>w. \<not> present w) (ko_append_event ops i m e)"
    and "kx_trace s = []"
    and "validate_runtime env (with_docker_runner dk ops) path s = (r, t)"
    and "case r of Inl (Dploy e) \<Rightarrow> \<not> err_recovery e | Inl _ \<Rightarrow> False | Inr _ \<Rightarrow> True"
  shows "evidence_lost (kx_trace t) \<or> \<not> present (kx_world t)"
proof (rule stopping_runner.nothing_left [OF docker_stops [OF assms(1)], where ops = "with_docker_runner dk ops" and env = env])
  show "validate_runtime env (with_docker_runner dk ops) path s = (r, t)" by fact
qed (use assms in \<open>simp_all add: with_docker_runner_def\<close>)


section \<open>An example\<close>

text \<open>
  A daemon that knows whether the candidate of the example exists; \<^verbatim>\<open>compose run\<close> creates it and
  fails or not, \<^verbatim>\<open>rm\<close> and \<^verbatim>\<open>compose down\<close> remove it.
\<close>

definition example_reply :: "string \<Rightarrow> command_result" where
  "example_reply text = example_command\<lparr>cr_stdout := (cr_stdout example_command)\<lparr>co_text := text\<rparr>\<rparr>"

definition example_container :: string where
  "example_container = ''dploydb-shop-0011223344556677-candidate''"

definition example_daemon :: "bool \<Rightarrow> string list \<Rightarrow> variables \<Rightarrow> bool \<Rightarrow> (bool, exn, command_result) act" where
  "example_daemon up command vs b present =
    (if command ! 1 = ''compose'' then
       (if command ! 6 = ''run'' then (Inr (if up then example_reply example_container else failed_command), True)
        else (Inr (example_reply []), False))
     else if command ! 1 = ''container'' \<and> command ! 2 = ''rm'' then (Inr (example_reply []), False)
     else if command ! 1 = ''container'' \<and> command ! 2 = ''ls''
     then (Inr (example_reply (if present then example_container else [])), present)
     else (Inr (example_reply []), present))"

definition example_inspection :: json where
  "example_inspection = JList [JObj [
     (''Id'', JStr ''0123456789abcdef''), (''Name'', JStr (''/'' @ example_container)),
     (''State'', JObj [(''Running'', JBool True)]),
     (''Config'', JObj [(''Labels'', JObj [(compose_project_label, JStr ''dploydb-shop-0011223344556677''),
        (compose_service_label, JStr ''web''), (operation_label, JStr final_operation_id), (role_label, JStr ''candidate'')])]),
     (''Mounts'', JList [JObj [(''Type'', JStr ''bind''), (''Source'', JStr ''/srv/state/rehearsals/op''),
        (''Destination'', JStr ''/data''), (''RW'', JBool True)]]),
     (''NetworkSettings'', JObj [(''Ports'', JObj [(''8000/tcp'', JList [JObj [(''HostIp'', JStr ''127.0.0.1''),
        (''HostPort'', JStr ''8001'')]])])])]]"

definition example_docker :: "bool \<Rightarrow> bool docker_env" where
  "example_docker up = \<lparr>dk_project = ''shop'', dk_service = ''web'', dk_compose_file = ''/srv/compose.yml'',
     dk_volume_target = ''/data'', dk_candidate_port = 8001, dk_container_port = 8000, dk_startup_timeout = 45,
     dk_test_mode_env = [(''MODE'', ''test'')], dk_database_variable = ''DATABASE'', dk_production_database = ''/srv/data/app.db'',
     dk_command_environment = [(''PATH'', ''/bin'')], dk_topology_project = ''shop'', dk_host_port = 8000,
     dk_health_url = ''http://127.0.0.1:8000/health'', dk_resolve = (\<lambda>p _. p), dk_is_file = (\<lambda>_ _. True),
     dk_same_file = (\<lambda>_ _. ret False), dk_loads = (\<lambda>_. Inr example_inspection), dk_str = (\<lambda>_. []), dk_repr = id,
     dk_redact = id, dk_register = (\<lambda>_. id), dk_run = example_daemon up\<rparr>"

lemma example_name: "candidate_container (example_docker up) final_operation_id = example_container"
  by (simp add: candidate_container_def candidate_project_def example_docker_def example_container_def safe_project_def
      strip_of_def name_char_def to_lower_def is_lower_def is_digit_def without_prefix_def begins_with_def
      final_operation_id_def)

lemma example_container_line: "nonempty_lines example_container = [example_container]"
  by code_simp

lemma example_reliable: "reliable_docker (example_docker up) example_container (\<lambda>present. present)"
proof -
  have listing: "\<not> w'" if "example_daemon up (container_query example_container) vs b w = (Inr r, w')" "no_output r" for vs b w r w'
    using that example_container_line
    by (cases w) (auto simp: example_daemon_def container_query_def no_output_def example_reply_def)
  have reading: "keeps (\<lambda>w. \<not> w) (example_daemon up command vs b)" if "only_reads command" for command vs b
    using that unfolding only_reads_def
    by (intro keepsI) (auto simp: example_daemon_def network_query_def split: if_splits)
  have quiet: "example_daemon up command vs b w \<noteq> (Inl x, w')" for command vs b w x w'
    by (simp add: example_daemon_def)
  have fields: "dk_run (example_docker up) = example_daemon up" "dk_same_file (example_docker up) = (\<lambda>_ _. ret False)"
    "dk_register (example_docker up) = (\<lambda>_. id)"
    by (simp_all add: example_docker_def)
  show ?thesis
    unfolding reliable_docker_def fields
  proof (intro conjI allI impI)
    fix vs b w r w' assume "example_daemon up (container_query example_container) vs b w = (Inr r, w') \<and> no_output r"
    then show "\<not> w'" using listing by blast
  next
    fix command vs b assume "only_reads command"
    then show "keeps (\<lambda>w. \<not> w) (example_daemon up command vs b)" by (rule reading)
  next
    fix v and w assume "\<not> w" then show "\<not> id w" by simp
  next
    fix command vs b w e w' show "example_daemon up command vs b w \<noteq> (Inl (Dploy e), w')" by (rule quiet)
  next
    fix w e w' show "ret False w \<noteq> (Inl (Dploy e), w')" by (simp add: ret_def)
  qed
qed

interpretation docker: stopping_runner "start_candidate_container (example_docker up)"
  "inspect_candidate_container (example_docker up)" "collect_container_logs (example_docker up)"
  "stop_candidate_container (example_docker up)" final_operation_id
  "\<lambda>h. kh_container_name h = example_container" "\<lambda>present. \<not> present" for up
  by (rule docker_stops [where present = "\<lambda>present. present" and i = final_operation_id and dk = "example_docker up", unfolded example_name])
    (rule example_reliable)

lemma final_identifiers [simp]:
  "validated_operation_id final_operation_id = Inr final_operation_id" "validated_release_identifier ''v2'' = Inr ''v2''"
  by (simp add: validated_operation_id_def, code_simp)

lemma example_project: "candidate_project (example_docker up) final_operation_id = ''dploydb-shop-0011223344556677''"
  by (simp add: candidate_project_def example_docker_def safe_project_def
      strip_of_def name_char_def to_lower_def is_lower_def is_digit_def without_prefix_def begins_with_def
      final_operation_id_def)

definition example_rehearsal :: string where
  "example_rehearsal = ''/srv/state/rehearsals/op/db''"

definition example_derived :: candidate_handle where
  "example_derived = \<lparr>kh_operation_id = final_operation_id, kh_version = ''v2'',
     kh_compose_project = ''dploydb-shop-0011223344556677'', kh_container_name = example_container,
     kh_rehearsal_database_path = example_rehearsal, kh_candidate_database_path = ''/data/db''\<rparr>"

lemma example_paths: "parent_of example_rehearsal = ''/srv/state/rehearsals/op''" "last_component example_rehearsal = ''db''"
  "is_absolute example_rehearsal"
  by (simp_all add: parent_of_def last_component_def example_rehearsal_def is_absolute_def)

lemma example_handles: "derived_handle (example_docker up) final_operation_id ''v2'' example_rehearsal = example_derived"
  by (simp add: derived_handle_def example_project example_derived_def example_container_def example_paths join_path_def,
      simp add: example_docker_def)

lemma example_validates: "validate_candidate_handle (example_docker up) example_derived w = (Inr (), w)"
proof -
  have fields: "kh_operation_id example_derived = final_operation_id" "kh_version example_derived = ''v2''"
    "kh_rehearsal_database_path example_derived = example_rehearsal" "dk_resolve (example_docker up) = (\<lambda>p _. p)"
    by (simp_all add: example_derived_def example_docker_def)
  show ?thesis
    by (simp add: validate_candidate_handle_def plain_def map_error_def fields bnd_def lift_result_def absolute_resolved_def
        example_paths fetch_def ret_def example_handles)
qed

definition example_variables :: variables where
  "example_variables = [(''PATH'', ''/bin''), (version_variable, ''v2''), (''MODE'', ''test'')]"

lemma example_environment: "candidate_environment (example_docker up) ''v2'' w = (Inr example_variables, w)"
proof -
  have "candidate_variables (example_docker up) ''v2'' = example_variables"
    by (simp add: candidate_variables_def example_docker_def example_variables_def version_variable_def)
  moreover have "fold (\<lambda>(name, v). if is_sensitive_key name then dk_register (example_docker up) v else id) vs x = x" for vs x
  proof (induction vs arbitrary: x)
    case (Cons p vs)
    have "dk_register (example_docker up) v = id" for v by (simp add: example_docker_def)
    then show ?case using Cons.IH by (cases p) simp
  qed simp
  ultimately show ?thesis
    by (simp add: candidate_environment_def registering_def andthen_def modify_def bnd_def ret_def)
qed

lemma example_runs: "docker (example_docker up) command vs b w = (case example_daemon up command vs b w of
    (Inl x, w') \<Rightarrow> (Inl (Raised x), w') | (Inr r, w') \<Rightarrow> (Inr r, w'))"
  by (simp add: docker_def plain_def map_error_def example_docker_def split: prod.splits sum.splits)

lemma example_answers:
  "example_daemon up (container_query n) vs b w = (Inr (example_reply (if w then example_container else [])), w)"
  "example_daemon up (network_query n) vs b w = (Inr (example_reply []), w)"
  "example_daemon up (remove_container n) vs b w = (Inr (example_reply []), False)"
  "example_daemon up (compose_down (example_docker up) n) vs b w = (Inr (example_reply []), False)"
  "example_daemon up [''docker'', ''container'', ''inspect'', n] vs b w = (Inr (example_reply []), w)"
  by (simp_all add: example_daemon_def container_query_def network_query_def remove_container_def compose_down_def compose_command_def)

lemma example_starting: "example_daemon up (start_command (example_docker up) h) vs b w =
    (Inr (if up then example_reply example_container else failed_command), True)"
  by (simp add: example_daemon_def start_command_def compose_command_def)

lemma example_results: "successful_complete (example_reply text)" "co_text (cr_stdout (example_reply text)) = text"
  "no_output (example_reply [])" "\<not> usable_start h failed_command"
  by (simp_all add: successful_complete_def command_succeeded_def output_complete_def example_reply_def example_command_def
      example_output_def no_output_def nonempty_lines_def strip_def strip_of_def usable_start_def failed_command_def)

definition example_proof :: cleanup_proof where
  "example_proof = \<lparr>cp_container_absent = True, cp_networks_absent = True,
     cp_container_query = example_reply [], cp_network_query = example_reply []\<rparr>"

lemma example_proves: "prove_candidate_cleanup (example_docker up) example_derived False = (Inr example_proof, False)"
proof -
  have "kh_version example_derived = ''v2''" by (simp add: example_derived_def)
  then show ?thesis
    by (simp add: prove_candidate_cleanup_def andthen_def bnd_def example_validates example_environment example_runs
        example_answers example_results ret_def example_proof_def)
qed

definition example_stopped :: candidate_cleanup where
  "example_stopped = \<lparr>kc_presence_query = example_reply example_container, kc_remove_command = Some (example_reply []),
     kc_compose_down = example_reply [], kc_proof = example_proof\<rparr>"

lemma example_stops: "stop_candidate_container (example_docker up) example_derived True = (Inr example_stopped, False)"
proof -
  have names: "kh_version example_derived = ''v2''" "kh_container_name example_derived = example_container"
    by (simp_all add: example_derived_def)
  have succeeded: "cleanup_commands_succeeded example_stopped" "cleanup_proven (kc_proof example_stopped)"
    by (simp_all add: example_stopped_def cleanup_commands_succeeded_def example_results cleanup_proven_def example_proof_def)
  show ?thesis
    using succeeded unfolding example_stopped_def
    by (simp add: stop_candidate_container_def andthen_def bnd_def example_validates example_environment example_runs
        example_answers example_results names example_container_line example_proves ret_def Let_def)
qed

lemma example_fields: "dk_resolve (example_docker up) = (\<lambda>p _. p)" "dk_is_file (example_docker up) = (\<lambda>_ _. True)"
  "dk_same_file (example_docker up) = (\<lambda>_ _. ret False)" "dk_production_database (example_docker up) = ''/srv/data/app.db''"
  by (simp_all add: example_docker_def)

lemma example_apart: "example_rehearsal \<noteq> ''/srv/data/app.db''" "CHR '':'' \<notin> set ''/srv/state/rehearsals/op''"
  "\<not> is_relative_to ''/srv/data/app.db'' ''/srv/state/rehearsals/op''"
  by (simp_all add: example_rehearsal_def is_relative_to_def begins_with_def)

lemma example_start_fails:
  "\<exists>message. start_candidate_container (example_docker False) final_operation_id ''v2'' example_rehearsal w =
    (Inl (Runner_failed Candidate_start message (Some failed_command) (Some example_stopped)), False)"
proof -
  have path: "rehearsal_path (example_docker False) example_rehearsal w = (Inr example_rehearsal, w)"
    by (simp add: rehearsal_path_def bnd_def absolute_resolved_def example_paths fetch_def example_fields ret_def
        example_apart)
  have "cleanup_after_failure (example_docker False) example_derived True = (Inr example_stopped, False)"
    by (simp add: cleanup_after_failure_def catching_def example_stops)
  then show ?thesis
    by (simp add: start_candidate_container_def bnd_def plain_def map_error_def lift_result_def path Let_def example_handles
        example_environment example_runs example_starting example_results raise_def)
qed

theorem no_candidate_container_survives_witness:
  "\<exists>e t. validate_runtime example_candidate_env (with_docker_runner (example_docker False) example_candidate_ops)
       example_rehearsal (example_candidate_context True) = (Inl (Dploy e), t) \<and>
     (evidence_lost (kx_trace t) \<or> \<not> kx_world t)"
proof -
  let ?env = example_candidate_env and ?ops = "with_docker_runner (example_docker False) (example_candidate_ops :: bool candidate_ops)"
  have identity: "ke_operation_id ?env = final_operation_id" "ke_version ?env = ''v2''"
    by (simp_all add: example_candidate_env_def)
  let ?x = "\<lambda>message. Runner_failed Candidate_start message (Some failed_command) (Some example_stopped)"
  obtain message where start: "ko_start ?ops (ke_operation_id ?env) (ke_version ?env) example_rehearsal
      (kx_world (example_candidate_context True)) = (Inl (?x message), False)"
    using example_start_fails by (auto simp: with_docker_runner_def identity)
  have event: "ko_append_event ?ops i m ev w = (Inr example_event, w)" for i m ev w
    by (simp add: with_docker_runner_def example_candidate_ops_def ret_def)
  obtain e where e: "normalize_primary ?env False (Some (?x message)) = Some e" "\<not> err_recovery e"
    by (simp add: normalize_primary_def candidate_error_def runner_cleanup_proven_def example_stopped_def
        cleanup_proven_def example_proof_def)
  obtain t where run: "validate_runtime ?env ?ops example_rehearsal (example_candidate_context True) = (Inl (Dploy e), t)"
    using refused_start [OF start _ event, where e = e] e(1) by (auto simp: killed_def)
  have "evidence_lost (kx_trace t) \<or> \<not> (\<lambda>present. present) (kx_world t)"
  proof (rule no_candidate_container_survives [OF _ _ _ _ run])
    show "reliable_docker (example_docker False) (candidate_container (example_docker False) (ke_operation_id ?env))
        (\<lambda>present. present)"
      unfolding identity example_name by (rule example_reliable)
    show "kx_trace (example_candidate_context True) = []" by (simp add: example_candidate_context_def)
    show "keeps (\<lambda>w. \<not> w) (ko_check example_candidate_ops v p)" for v p
      by (intro keepsI) (simp add: example_candidate_ops_def ret_def)
    show "keeps (\<lambda>w. \<not> w) (ko_append_event example_candidate_ops i m ev)" for i m ev
      by (intro keepsI) (simp add: example_candidate_ops_def ret_def)
    show "case Inl (Dploy e) of Inl (Dploy e) \<Rightarrow> \<not> err_recovery e | Inl _ \<Rightarrow> False | Inr _ \<Rightarrow> True"
      using e(2) by simp
  qed
  with run show ?thesis by blast
qed

text \<open>The live inspection of the example, and the candidate it finds.\<close>

definition example_mount :: container_mount where
  "example_mount = \<lparr>mt_type = ''bind'', mt_source = ''/srv/state/rehearsals/op'', mt_destination = ''/data'', mt_read_write = True\<rparr>"

definition example_found :: candidate_inspection where
  "example_found = \<lparr>ki_container_id = ''0123456789abcdef'', ki_container_name = example_container, ki_running = True,
     ki_compose_project = ''dploydb-shop-0011223344556677'', ki_compose_service = ''web'',
     ki_operation_id = final_operation_id, ki_host_ip = ''127.0.0.1'', ki_host_port = 8001, ki_container_port = 8000,
     ki_mounts = [example_mount], ki_command = example_reply []\<rparr>"

definition example_labels :: "(string \<times> json) list" where
  "example_labels = [(compose_project_label, JStr ''dploydb-shop-0011223344556677''), (compose_service_label, JStr ''web''),
     (operation_label, JStr final_operation_id), (role_label, JStr ''candidate'')]"

lemma example_label_names: "distinct [compose_project_label, compose_service_label, operation_label, role_label]"
  by (simp add: compose_project_label_def compose_service_label_def operation_label_def role_label_def)

lemma example_published: "python_int ''8000'' = Some 8000" "python_int ''8001'' = Some 8001"
  by (code_simp, code_simp)

lemma example_mounts:
  "mounts_of (Some (JList [JObj [(''Type'', JStr ''bind''), (''Source'', JStr ''/srv/state/rehearsals/op''),
     (''Destination'', JStr ''/data''), (''RW'', JBool True)]])) = Inr [example_mount]"
  by (simp add: mounts_of_def mount_of_json_def json_get_def example_mount_def rbind_def)

lemma example_bindings:
  "collect_results bindings_of_port [(''8000/tcp'', JList [JObj [(''HostIp'', JStr ''127.0.0.1''), (''HostPort'', JStr ''8001'')]])] =
   Inr [[(8000, ''127.0.0.1'', 8001, True)]]"
  by (simp add: bindings_of_port_def ends_with_def binding_of_json_def json_get_def example_published rbind_def)

lemma example_isolation:
  "failures_of (isolation_checks (example_docker up) (\<lambda>p. p) example_derived ''0123456789abcdef'' example_container True
     example_labels [example_mount] [(8000, ''127.0.0.1'', 8001, True)]) = []"
proof -
  have id_shape: "is_container_id ''0123456789abcdef''" by code_simp
  have labels: "label_is example_labels compose_project_label ''dploydb-shop-0011223344556677''"
    "label_is example_labels compose_service_label ''web''" "label_is example_labels operation_label final_operation_id"
    "label_is example_labels role_label ''candidate''"
    using example_label_names by (auto simp: label_is_def example_labels_def json_get_def)
  have handle: "kh_container_name example_derived = example_container"
    "kh_compose_project example_derived = ''dploydb-shop-0011223344556677''" "kh_operation_id example_derived = final_operation_id"
    "kh_rehearsal_database_path example_derived = example_rehearsal"
    by (simp_all add: example_derived_def)
  have runner: "dk_service (example_docker up) = ''web''" "dk_volume_target (example_docker up) = ''/data''"
    "dk_candidate_port (example_docker up) = 8001" "dk_container_port (example_docker up) = 8000"
    by (simp_all add: example_docker_def)
  have mount: "mt_destination example_mount = ''/data''" "mt_type example_mount = ''bind''" "mt_read_write example_mount"
    "mt_source example_mount = ''/srv/state/rehearsals/op''"
    by (simp_all add: example_mount_def)
  have "\<not> exposes_production (example_docker up) (\<lambda>p. p) example_mount"
    using example_apart(3) by (simp add: exposes_production_def mount example_fields)
  then show ?thesis
    by (simp add: isolation_checks_def failures_of_def id_shape labels handle runner mount example_paths)
qed

lemma example_judged:
  "\<exists>raw. example_inspection = JList [JObj raw] \<and>
     judge_candidate (example_docker up) (\<lambda>p. p) example_derived raw (example_reply []) = Inr (example_found, [])"
proof -
  let ?ports = "JObj [(''Ports'', JObj [(''8000/tcp'', JList [JObj [(''HostIp'', JStr ''127.0.0.1''), (''HostPort'', JStr ''8001'')]])])]"
  let ?mounts = "JList [JObj [(''Type'', JStr ''bind''), (''Source'', JStr ''/srv/state/rehearsals/op''),
     (''Destination'', JStr ''/data''), (''RW'', JBool True)]]"
  let ?raw = "[(''Id'', JStr ''0123456789abcdef''), (''Name'', JStr (''/'' @ example_container)),
     (''State'', JObj [(''Running'', JBool True)]), (''Config'', JObj [(''Labels'', JObj example_labels)]),
     (''Mounts'', ?mounts), (''NetworkSettings'', ?ports)]"
  have raw: "example_inspection = JList [JObj ?raw]" by (simp add: example_inspection_def example_labels_def)
  have parts: "required_text ?raw ''Id'' = Inr ''0123456789abcdef''" "required_text ?raw ''Name'' = Inr (''/'' @ example_container)"
    "required_mapping ?raw ''State'' = Inr [(''Running'', JBool True)]"
    "required_mapping ?raw ''Config'' = Inr [(''Labels'', JObj example_labels)]"
    "mounts_of (json_get ?raw ''Mounts'') = Inr [example_mount]"
    "labels_of [(''Labels'', JObj example_labels)] = example_labels"
    using example_mounts by (simp_all add: required_text_def required_mapping_def json_get_def labels_of_def)
  have ports: "published_ports ?raw True = Inr [(8000, ''127.0.0.1'', 8001, True)]"
    using example_bindings by (simp add: published_ports_def required_mapping_def json_get_def rbind_def)
  have texts: "label_text (example_docker up) example_labels compose_project_label = ''dploydb-shop-0011223344556677''"
    "label_text (example_docker up) example_labels compose_service_label = ''web''"
    "label_text (example_docker up) example_labels operation_label = final_operation_id"
    using example_label_names by (auto simp: label_text_def example_labels_def json_get_def)
  have name: "without_prefix ''/'' (CHR ''/'' # example_container) = example_container"
    by (simp add: without_prefix_def begins_with_def)
  have port: "dk_container_port (example_docker up) = 8000" by (simp add: example_docker_def)
  have "json_get [(''Running'', JBool True)] ''Running'' = Some (JBool True)" by (simp add: json_get_def)
  then have "judge_candidate (example_docker up) (\<lambda>p. p) example_derived ?raw (example_reply []) = Inr (example_found, [])"
    unfolding judge_candidate_def parts ports
    by (simp add: rbind_def Let_def parts(6) name texts port example_isolation example_found_def)
  with raw show ?thesis by blast
qed


end
